(* ===== verification/Delivery.thy ===== *)
theory Delivery
  imports Prelude "HOL-Library.Multiset"
begin

text \<open>
  Delivery status of a message: \<open>packages/contracts/src/channels/delivery-status.ts\<close> and
  \<open>packages/channel-adapters/src/normalization/monotonic-delivery.ts\<close>. Receipts of a
  provider are applied one by one; the lemmas show what a run of receipts leaves.
\<close>

section \<open>Statuses and their order\<close>

datatype delivery_status = DPending | DSent | DDelivered | DRead | DFailed

fun delivery_rank :: "delivery_status \<Rightarrow> int" where
  "delivery_rank DPending = 0"
| "delivery_rank DSent = 1"
| "delivery_rank DDelivered = 2"
| "delivery_rank DRead = 3"
| "delivery_rank DFailed = -1"

fun delivery_name :: "delivery_status \<Rightarrow> string" where
  "delivery_name DPending = ''PENDING''"
| "delivery_name DSent = ''SENT''"
| "delivery_name DDelivered = ''DELIVERED''"
| "delivery_name DRead = ''READ''"
| "delivery_name DFailed = ''FAILED''"

lemma delivery_rank_inject: "delivery_rank a = delivery_rank b \<longleftrightarrow> a = b"
  by (cases a; cases b) simp_all

instantiation delivery_status :: linorder
begin

definition less_eq_delivery_status :: "delivery_status \<Rightarrow> delivery_status \<Rightarrow> bool" where
  "less_eq_delivery_status a b = (delivery_rank a \<le> delivery_rank b)"

definition less_delivery_status :: "delivery_status \<Rightarrow> delivery_status \<Rightarrow> bool" where
  "less_delivery_status a b = (delivery_rank a < delivery_rank b)"

instance
  by standard
    (auto simp: less_eq_delivery_status_def less_delivery_status_def
      simp flip: delivery_rank_inject)

end

lemmas delivery_order = less_eq_delivery_status_def less_delivery_status_def

section \<open>Transitions\<close>

definition isDeliveryStatusMonotonic :: "delivery_status \<Rightarrow> delivery_status \<Rightarrow> bool" where
  "isDeliveryStatusMonotonic cur nxt =
     (if cur = nxt then True
      else if cur = DRead then False
      else if nxt = DFailed then cur \<noteq> DFailed
      else if cur = DFailed then nxt = DPending
      else delivery_rank nxt > delivery_rank cur)"

record delivery_transition =
  dt_accepted :: bool
  dt_isNoop :: bool
  dt_currentStatus :: delivery_status
  dt_finalStatus :: delivery_status
  dt_reason :: "string option"

definition applyDeliveryStatusTransition ::
  "delivery_status \<Rightarrow> delivery_status \<Rightarrow> delivery_transition" where
  "applyDeliveryStatusTransition cur incoming =
     (if cur = incoming then
        \<lparr>dt_accepted = True, dt_isNoop = True, dt_currentStatus = cur, dt_finalStatus = cur,
         dt_reason = Some ''Idempotent duplicate status update''\<rparr>
      else if \<not> isDeliveryStatusMonotonic cur incoming then
        \<lparr>dt_accepted = False, dt_isNoop = True, dt_currentStatus = cur, dt_finalStatus = cur,
         dt_reason = Some (''Out-of-order transition rejected: cannot transition from \"'' @
           delivery_name cur @ ''\" to \"'' @ delivery_name incoming @ ''\"'')\<rparr>
      else
        \<lparr>dt_accepted = True, dt_isNoop = False, dt_currentStatus = cur,
         dt_finalStatus = incoming, dt_reason = None\<rparr>)"

text \<open>The status a message has after a run of receipts, applied in order of arrival.\<close>

definition after_receipts :: "delivery_status \<Rightarrow> delivery_status list \<Rightarrow> delivery_status" where
  "after_receipts cur rs = foldl (\<lambda>s r. dt_finalStatus (applyDeliveryStatusTransition s r)) cur rs"

section \<open>Facts\<close>

lemma after_receipts_simps [simp]:
  "after_receipts s [] = s"
  "after_receipts s (r # rs) = after_receipts (dt_finalStatus (applyDeliveryStatusTransition s r)) rs"
  by (simp_all add: after_receipts_def)

lemma final_status:
  "dt_finalStatus (applyDeliveryStatusTransition s r) =
     (if isDeliveryStatusMonotonic s r then r else s)"
  by (auto simp: applyDeliveryStatusTransition_def)

lemma final_read [simp]: "dt_finalStatus (applyDeliveryStatusTransition DRead r) = DRead"
  by (cases r) (simp_all add: final_status isDeliveryStatusMonotonic_def)

lemma final_failed:
  "dt_finalStatus (applyDeliveryStatusTransition DFailed r) = (if r = DPending then DPending else DFailed)"
  by (cases r) (simp_all add: final_status isDeliveryStatusMonotonic_def)

lemma final_max:
  "s \<noteq> DFailed \<Longrightarrow> r \<noteq> DFailed \<Longrightarrow> dt_finalStatus (applyDeliveryStatusTransition s r) = max s r"
  by (cases s; cases r) (simp_all add: final_status isDeliveryStatusMonotonic_def max_def delivery_order)

lemma max_not_failed: "s \<noteq> DFailed \<Longrightarrow> max s r \<noteq> DFailed"
  by (cases s; cases r) (simp_all add: max_def delivery_order)

lemma after_receipts_max:
  "s \<noteq> DFailed \<Longrightarrow> DFailed \<notin> set rs \<Longrightarrow> after_receipts s rs = Max (insert s (set rs))"
proof (induction rs arbitrary: s)
  case Nil
  then show ?case by simp
next
  case (Cons r rs)
  then have "after_receipts s (r # rs) = Max (insert (max s r) (set rs))"
    using max_not_failed [of s r] by (auto simp: final_max [of s r])
  also have "\<dots> = Max (insert s (set (r # rs)))"
    by (cases "set rs = {}") (simp_all add: max.assoc)
  finally show ?case .
qed

lemma after_receipts_failed:
  "DPending \<notin> set rs \<Longrightarrow> after_receipts DFailed rs = DFailed"
  by (induction rs) (auto simp: final_failed)

text \<open>For a message that has not failed, a run of receipts without FAILED leaves the most
  advanced status among its own and the received ones. So two runs with the same receipts leave
  the same status, in whatever order and however often the provider delivers them.\<close>

theorem receipts_order_insensitive:
  assumes "s \<noteq> DFailed" and "DFailed \<notin> set rs" and "set rs = set rs'"
  shows "after_receipts s rs = after_receipts s rs' \<and> after_receipts s rs = Max (insert s (set rs))"
  using assms after_receipts_max [of s rs] after_receipts_max [of s rs'] by simp

theorem receipts_order_insensitive_witness:
  "after_receipts DPending [DRead, DSent, DDelivered, DRead] =
     after_receipts DPending [DSent, DDelivered, DRead] \<and>
   after_receipts DPending [DRead, DSent, DDelivered, DRead] = DRead"
proof -
  have "after_receipts DPending [DRead, DSent, DDelivered, DRead] =
     after_receipts DPending [DSent, DDelivered, DRead]"
    using receipts_order_insensitive
      [of DPending "[DRead, DSent, DDelivered, DRead]" "[DSent, DDelivered, DRead]"]
    by (auto simp del: after_receipts_simps)
  moreover have "after_receipts DPending [DSent, DDelivered, DRead] = DRead"
    by (simp add: final_max max_def delivery_order)
  ultimately show ?thesis by simp
qed

text \<open>READ is final whatever receipts follow, and a failed message leaves FAILED only by a
  receipt that puts it back to PENDING.\<close>

theorem receipts_terminal:
  "after_receipts DRead rs = DRead \<and>
   (after_receipts DFailed rs \<noteq> DFailed \<longrightarrow> DPending \<in> set rs)"
proof
  show "after_receipts DRead rs = DRead" by (induction rs) simp_all
  show "after_receipts DFailed rs \<noteq> DFailed \<longrightarrow> DPending \<in> set rs"
    using after_receipts_failed [of rs] by blast
qed

theorem receipts_terminal_witness:
  "after_receipts DFailed [DSent, DPending] = DPending \<and> DPending \<in> set [DSent, DPending]"
proof -
  have "after_receipts DFailed [DSent, DPending] = DPending"
    by (simp add: final_failed)
  then show ?thesis using receipts_terminal [of "[DSent, DPending]"] by simp
qed

end
