(* ===== verification/Jobs.thy ===== *)
theory Jobs
  imports Prelude
begin

text \<open>
  Background-job contracts of \<open>packages/contracts/src/jobs\<close>: the named queues, the retry
  policy and its back-off, the classification of job errors, the job envelope, and the delay
  between queue starts of \<open>apps/worker/src/queue/start-retry.ts\<close>. JavaScript numbers are
  rationals here (\<open>Math.round\<close> is \<open>\<lfloor>x + 1/2\<rfloor>\<close>); \<open>Math.random()\<close> is an argument in \<open>[0, 1)\<close>.
\<close>

section \<open>Queues\<close>

datatype queue_name =
    MESSAGES_OUTBOUND | WEBHOOKS_PROCESS | CAMPAIGNS_DISPATCH | CONVERSATIONS_ROUTE
  | AI_GENERATE | AUDIT_EXPORT | MAINTENANCE_OUTBOX_PRUNE | MAINTENANCE_LEASE_RECOVER

fun queue_string :: "queue_name \<Rightarrow> string" where
  "queue_string MESSAGES_OUTBOUND = ''vynor.messages.outbound''"
| "queue_string WEBHOOKS_PROCESS = ''vynor.webhooks.process''"
| "queue_string CAMPAIGNS_DISPATCH = ''vynor.campaigns.dispatch''"
| "queue_string CONVERSATIONS_ROUTE = ''vynor.conversations.route''"
| "queue_string AI_GENERATE = ''vynor.ai.generate''"
| "queue_string AUDIT_EXPORT = ''vynor.audit.export''"
| "queue_string MAINTENANCE_OUTBOX_PRUNE = ''vynor.maintenance.outbox-prune''"
| "queue_string MAINTENANCE_LEASE_RECOVER = ''vynor.maintenance.lease-recover''"

record queue_options =
  qo_name :: queue_name
  qo_concurrency :: nat
  qo_retentionDays :: nat
  qo_retryLimit :: nat
  qo_retryDelaySeconds :: nat

definition queue_opts :: "queue_name \<Rightarrow> nat \<Rightarrow> nat \<Rightarrow> nat \<Rightarrow> nat \<Rightarrow> queue_options" where
  "queue_opts q c r l d = \<lparr>qo_name = q, qo_concurrency = c, qo_retentionDays = r,
     qo_retryLimit = l, qo_retryDelaySeconds = d\<rparr>"

fun QUEUE_CONFIGS :: "queue_name \<Rightarrow> queue_options" where
  "QUEUE_CONFIGS MESSAGES_OUTBOUND = queue_opts MESSAGES_OUTBOUND 10 14 5 5"
| "QUEUE_CONFIGS WEBHOOKS_PROCESS = queue_opts WEBHOOKS_PROCESS 20 7 5 2"
| "QUEUE_CONFIGS CAMPAIGNS_DISPATCH = queue_opts CAMPAIGNS_DISPATCH 5 30 3 15"
| "QUEUE_CONFIGS CONVERSATIONS_ROUTE = queue_opts CONVERSATIONS_ROUTE 10 7 3 3"
| "QUEUE_CONFIGS AI_GENERATE = queue_opts AI_GENERATE 5 14 3 5"
| "QUEUE_CONFIGS AUDIT_EXPORT = queue_opts AUDIT_EXPORT 2 3 3 30"
| "QUEUE_CONFIGS MAINTENANCE_OUTBOX_PRUNE = queue_opts MAINTENANCE_OUTBOX_PRUNE 1 1 2 60"
| "QUEUE_CONFIGS MAINTENANCE_LEASE_RECOVER = queue_opts MAINTENANCE_LEASE_RECOVER 1 1 2 10"

lemma queue_string_inject: "queue_string a = queue_string b \<longleftrightarrow> a = b"
  by (cases a; cases b) simp_all

section \<open>Retry policy\<close>

record retry_policy =
  rp_maxAttempts :: int
  rp_initialDelaySeconds :: rat
  rp_maxDelaySeconds :: rat
  rp_backoffFactor :: rat
  rp_jitter :: bool
  rp_timeoutSeconds :: int

definition DEFAULT_JOB_RETRY_POLICY :: retry_policy where
  "DEFAULT_JOB_RETRY_POLICY = \<lparr>rp_maxAttempts = 5, rp_initialDelaySeconds = 5,
     rp_maxDelaySeconds = 300, rp_backoffFactor = 2, rp_jitter = True, rp_timeoutSeconds = 60\<rparr>"

text \<open>The values \<open>JobRetryPolicySchema\<close> admits: integral delays, all of them positive.\<close>

definition valid_policy :: "retry_policy \<Rightarrow> bool" where
  "valid_policy p = (rp_maxAttempts p > 0 \<and> rp_initialDelaySeconds p \<ge> 1 \<and> rp_maxDelaySeconds p \<ge> 1 \<and>
     rp_initialDelaySeconds p = of_int \<lfloor>rp_initialDelaySeconds p\<rfloor> \<and>
     rp_maxDelaySeconds p = of_int \<lfloor>rp_maxDelaySeconds p\<rfloor> \<and>
     rp_backoffFactor p > 0 \<and> rp_timeoutSeconds p > 0)"

definition js_round :: "rat \<Rightarrow> int" where
  "js_round x = \<lfloor>x + 1 / 2\<rfloor>"

definition base_delay :: "int \<Rightarrow> retry_policy \<Rightarrow> rat" where
  "base_delay attempt p =
     min (rp_maxDelaySeconds p) (rp_initialDelaySeconds p * rp_backoffFactor p ^ nat (attempt - 1))"

definition calculateJobRetryDelay :: "rat \<Rightarrow> int \<Rightarrow> retry_policy \<Rightarrow> rat" where
  "calculateJobRetryDelay random attempt p =
     (if attempt \<le> 1 then rp_initialDelaySeconds p
      else if \<not> rp_jitter p then of_int (js_round (base_delay attempt p))
      else of_int (max 1 (js_round (base_delay attempt p * (1 / 2 + random * (1 / 2))))))"

definition startRetryDelayMs :: "nat \<Rightarrow> rat" where
  "startRetryDelayMs failedStarts = min (5000 * (2::rat) powi (int failedStarts - 1)) 60000"

lemma js_round_mono: "x \<le> y \<Longrightarrow> js_round x \<le> js_round y"
  by (simp add: js_round_def floor_mono)

lemma js_round_int [simp]: "js_round (of_int n) = n"
  by (simp add: js_round_def floor_eq_iff)

lemma js_round_near: "x - 1 / 2 \<le> of_int (js_round x) \<and> of_int (js_round x) \<le> x + 1 / 2"
  unfolding js_round_def by linarith

lemma base_delay_bounds:
  "valid_policy p \<Longrightarrow> 0 < base_delay a p \<and> base_delay a p \<le> rp_maxDelaySeconds p"
  by (auto simp: base_delay_def valid_policy_def min_def)

lemma jitter_range:
  assumes "0 \<le> r" "r < 1" "0 < (b::rat)"
  shows "b / 2 \<le> b * (1 / 2 + r * (1 / 2)) \<and> b * (1 / 2 + r * (1 / 2)) \<le> b"
proof -
  have "b * (1 / 2 + r * (1 / 2)) = b / 2 + b * r / 2" by (simp add: field_simps)
  moreover have "0 \<le> b * r" using assms by simp
  moreover have "b * r \<le> b" using assms by (simp add: mult_le_cancel_left2)
  ultimately show ?thesis by linarith
qed

lemma js_round_le_max:
  assumes "x \<le> m" "m = of_int \<lfloor>m\<rfloor>"
  shows "of_int (js_round x) \<le> (m::rat)"
proof -
  have "js_round x \<le> js_round (of_int \<lfloor>m\<rfloor>)" using assms js_round_mono by metis
  then show ?thesis using assms(2) by (metis js_round_int of_int_le_iff)
qed

text \<open>From the second attempt on, the back-off of a job never exceeds the policy's maximum
  and, with jitter, is at least one second and at least half of the exponential delay (less the
  rounding of half a second).\<close>

theorem retry_delay_bounds:
  assumes "valid_policy p" "1 < attempt" "0 \<le> r" "r < 1"
  shows "calculateJobRetryDelay r attempt p \<le> rp_maxDelaySeconds p \<and>
    base_delay attempt p / 2 - 1 / 2 \<le> calculateJobRetryDelay r attempt p \<and>
    (rp_jitter p \<longrightarrow> 1 \<le> calculateJobRetryDelay r attempt p)"
proof -
  let ?b = "base_delay attempt p"
  let ?j = "?b * (1 / 2 + r * (1 / 2))"
  have b: "0 < ?b" "?b \<le> rp_maxDelaySeconds p" using base_delay_bounds [OF assms(1)] by blast+
  have j: "?b / 2 \<le> ?j" "?j \<le> ?b" using jitter_range assms(3,4) b(1) by blast+
  have m: "rp_maxDelaySeconds p = of_int \<lfloor>rp_maxDelaySeconds p\<rfloor>" "1 \<le> rp_maxDelaySeconds p"
    using assms(1) by (simp_all add: valid_policy_def)
  have up: "of_int (js_round ?b) \<le> rp_maxDelaySeconds p" "of_int (js_round ?j) \<le> rp_maxDelaySeconds p"
    by (rule js_round_le_max [OF b(2) m(1)], rule js_round_le_max [OF order_trans [OF j(2) b(2)] m(1)])
  have near: "?b - 1 / 2 \<le> of_int (js_round ?b)" "?j - 1 / 2 \<le> of_int (js_round ?j)"
    using js_round_near by blast+
  show ?thesis
  proof (cases "rp_jitter p")
    case True
    then have *: "calculateJobRetryDelay r attempt p = max 1 (of_int (js_round ?j))"
      using assms(2) by (simp add: calculateJobRetryDelay_def del: distrib_left_numeral)
    show ?thesis unfolding * using up(2) m(2) near(2) j(1) by linarith
  next
    case False
    then have *: "calculateJobRetryDelay r attempt p = of_int (js_round ?b)"
      using assms(2) by (simp add: calculateJobRetryDelay_def)
    show ?thesis unfolding * using False up(1) near(1) b(1) by linarith
  qed
qed

theorem retry_delay_bounds_witness:
  "calculateJobRetryDelay (1 / 2) 3 DEFAULT_JOB_RETRY_POLICY \<le> 300 \<and>
   1 \<le> calculateJobRetryDelay (1 / 2) 3 DEFAULT_JOB_RETRY_POLICY"
proof -
  have "valid_policy DEFAULT_JOB_RETRY_POLICY"
    by (simp add: valid_policy_def DEFAULT_JOB_RETRY_POLICY_def)
  from retry_delay_bounds [OF this, of 3 "1 / 2"] show ?thesis
    by (simp add: DEFAULT_JOB_RETRY_POLICY_def)
qed

text \<open>The first attempt escapes the maximum: nothing caps \<open>initialDelaySeconds\<close>.\<close>

lemma first_delay_uncapped:
  "calculateJobRetryDelay r 1 (DEFAULT_JOB_RETRY_POLICY\<lparr>rp_initialDelaySeconds := 600\<rparr>) = 600 \<and>
   valid_policy (DEFAULT_JOB_RETRY_POLICY\<lparr>rp_initialDelaySeconds := 600\<rparr>) \<and>
   rp_maxDelaySeconds (DEFAULT_JOB_RETRY_POLICY\<lparr>rp_initialDelaySeconds := 600\<rparr>) = 300"
  by (simp add: calculateJobRetryDelay_def valid_policy_def DEFAULT_JOB_RETRY_POLICY_def)

lemma start_retry_schedule:
  "map startRetryDelayMs [1, 2, 3, 4, 5, 6] = [5000, 10000, 20000, 40000, 60000, 60000]"
  by (simp add: startRetryDelayMs_def power_int_def)

section \<open>Error classification\<close>

datatype failure_category = FRETRYABLE | FTERMINAL | FTHROTTLED | FAUTHENTICATION

text \<open>A thrown value: a \<open>JobExecutionError\<close> with its category and code, another \<open>Error\<close> with its
  message, or something that is not an error object.\<close>

datatype thrown =
    JobExecutionError failure_category string string
  | PlainError string
  | NotAnError

definition RetryableJobError :: "string \<Rightarrow> string \<Rightarrow> thrown" where
  "RetryableJobError code msg = JobExecutionError FRETRYABLE code msg"

definition TerminalJobError :: "string \<Rightarrow> string \<Rightarrow> thrown" where
  "TerminalJobError code msg = JobExecutionError FTERMINAL code msg"

definition ThrottledJobError :: "nat \<Rightarrow> string \<Rightarrow> thrown" where
  "ThrottledJobError retryAfter code = JobExecutionError FTHROTTLED code
     (''Provider rate limit exceeded. Retry after '' @ show_nat retryAfter @ ''s.'')"

definition AuthenticationJobError :: "string \<Rightarrow> string \<Rightarrow> thrown" where
  "AuthenticationJobError provider code = JobExecutionError FAUTHENTICATION code
     (''Authentication failed with provider '' @ [CHR 0x27] @ provider @ [CHR 0x27] @ ''.'')"

definition classifyJobError :: "thrown \<Rightarrow> failure_category" where
  "classifyJobError e = (case e of
     JobExecutionError c _ _ \<Rightarrow> c
   | PlainError message \<Rightarrow>
       (let msg = to_lower message in
        if str_includes msg ''rate limit'' \<or> str_includes msg ''too many requests'' \<or>
           str_includes msg ''429'' then FTHROTTLED
        else if str_includes msg ''unauthorized'' \<or> str_includes msg ''forbidden'' \<or>
           str_includes msg ''401'' \<or> str_includes msg ''403'' \<or>
           str_includes msg ''invalid credentials'' then FAUTHENTICATION
        else if str_includes msg ''validation'' \<or> str_includes msg ''syntax'' \<or>
           str_includes msg ''malformed'' \<or> str_includes msg ''not found'' \<or>
           str_includes msg ''404'' \<or> str_includes msg ''422'' then FTERMINAL
        else FRETRYABLE)
   | NotAnError \<Rightarrow> FRETRYABLE)"

lemma classify_job_errors [simp]:
  "classifyJobError (RetryableJobError c m) = FRETRYABLE"
  "classifyJobError (TerminalJobError c m) = FTERMINAL"
  "classifyJobError (ThrottledJobError n c) = FTHROTTLED"
  "classifyJobError (AuthenticationJobError p c) = FAUTHENTICATION"
  by (simp_all add: classifyJobError_def RetryableJobError_def TerminalJobError_def
      ThrottledJobError_def AuthenticationJobError_def)

section \<open>Envelope\<close>

record 'p job_envelope =
  je_jobId :: string
  je_queue :: queue_name
  je_version :: nat
  je_correlationId :: string
  je_workspaceId :: "string option"
  je_attempt :: nat
  je_maxAttempts :: nat
  je_enqueuedAt :: int
  je_payload :: 'p

definition createJobEnvelope ::
  "int \<Rightarrow> string \<Rightarrow> queue_name \<Rightarrow> string \<Rightarrow> string option \<Rightarrow> 'p \<Rightarrow> nat option \<Rightarrow> nat option \<Rightarrow> nat option
    \<Rightarrow> 'p job_envelope" where
  "createJobEnvelope now jobId q correlation workspace p version attempt maxAttempts =
     \<lparr>je_jobId = jobId, je_queue = q, je_version = (case version of None \<Rightarrow> 1 | Some v \<Rightarrow> v),
      je_correlationId = correlation, je_workspaceId = workspace,
      je_attempt = (case attempt of None \<Rightarrow> 1 | Some a \<Rightarrow> a),
      je_maxAttempts = (case maxAttempts of None \<Rightarrow> 5 | Some m \<Rightarrow> m),
      je_enqueuedAt = now, je_payload = p\<rparr>"

end
