(* ===== verification/Json.thy ===== *)
theory Json
  imports Prelude "HOL-Library.Multiset"
begin

text \<open>
  Untyped JSON values as the adapters, the log redaction and the request fingerprint handle
  them: \<open>packages/channel-adapters/src/util/payload.ts\<close>,
  \<open>packages/channel-adapters/src/deduplication/fingerprint.ts\<close> and
  \<open>packages/contracts/src/observability/redaction.ts\<close>. An object is its list of entries in
  insertion order; numbers are integers. SHA-256 is a parameter.
\<close>

section \<open>Values\<close>

datatype json =
    JUndef
  | JNull
  | JBool bool
  | JNum int
  | JStr string
  | JArr "json list"
  | JObj "(string \<times> json) list"

text \<open>\<open>asRecord\<close>, \<open>asArray\<close>, \<open>asString\<close>: the defensive readers.\<close>

fun asRecord :: "json \<Rightarrow> (string \<times> json) list" where
  "asRecord (JObj kvs) = kvs"
| "asRecord _ = []"

fun asArray :: "json \<Rightarrow> json list" where
  "asArray (JArr xs) = xs"
| "asArray _ = []"

fun asString :: "json \<Rightarrow> string option" where
  "asString (JStr s) = Some s"
| "asString (JNum n) = Some (show_int n)"
| "asString _ = None"

text \<open>Property access: a missing property reads as \<open>undefined\<close>.\<close>

definition jget :: "json \<Rightarrow> string \<Rightarrow> json" where
  "jget j k = (case map_of (asRecord j) k of None \<Rightarrow> JUndef | Some v \<Rightarrow> v)"

fun truthy :: "json \<Rightarrow> bool" where
  "truthy JUndef = False"
| "truthy JNull = False"
| "truthy (JBool b) = b"
| "truthy (JNum n) = (n \<noteq> 0)"
| "truthy (JStr s) = (s \<noteq> [])"
| "truthy (JArr _) = True"
| "truthy (JObj _) = True"

definition json_compact :: "(string \<times> json) list \<Rightarrow> (string \<times> json) list" where
  "json_compact kvs = filter (\<lambda>kv. snd kv \<noteq> JUndef) kvs"

section \<open>Canonical text\<close>

text \<open>\<open>JSON.stringify\<close> of a string.\<close>

definition hex_digit :: "nat \<Rightarrow> char" where
  "hex_digit n = (if n < 10 then char_of (48 + n) else char_of (87 + n))"

definition quote_char :: "char \<Rightarrow> string" where
  "quote_char c = (let n = of_char c :: nat in
     if n = 34 then [CHR 0x5C, CHR 0x22]
     else if n = 92 then [CHR 0x5C, CHR 0x5C]
     else if n = 8 then [CHR 0x5C, CHR ''b'']
     else if n = 9 then [CHR 0x5C, CHR ''t'']
     else if n = 10 then [CHR 0x5C, CHR ''n'']
     else if n = 12 then [CHR 0x5C, CHR ''f'']
     else if n = 13 then [CHR 0x5C, CHR ''r'']
     else if n < 32 then [CHR 0x5C, CHR ''u'', CHR ''0'', CHR ''0'', hex_digit (n div 16), hex_digit (n mod 16)]
     else [c])"

definition json_quote :: "string \<Rightarrow> string" where
  "json_quote s = [CHR 0x22] @ concat (map quote_char s) @ [CHR 0x22]"

lemma json_size_entry [termination_simp]:
  "kv \<in> set kvs \<Longrightarrow> size (snd kv) < Suc (size_list (size_prod (\<lambda>_. 0) size) kvs)"
  by (induction kvs) (auto simp: less_Suc_eq_le size_prod_def split: prod.splits)

lemma json_size_sorted [termination_simp]:
  "kv \<in> set (sort_key fst kvs) \<Longrightarrow> size (snd kv) < Suc (size_list (size_prod (\<lambda>_. 0) size) kvs)"
  by (rule json_size_entry) simp

fun canonicalizePayload :: "json \<Rightarrow> string" where
  "canonicalizePayload JUndef = ''null''"
| "canonicalizePayload JNull = ''null''"
| "canonicalizePayload (JBool b) = (if b then ''true'' else ''false'')"
| "canonicalizePayload (JNum n) = show_int n"
| "canonicalizePayload (JStr s) = json_quote s"
| "canonicalizePayload (JArr xs) = ''['' @ join '','' (map canonicalizePayload xs) @ '']''"
| "canonicalizePayload (JObj kvs) = ''{'' @ join '',''
     (concat (map (\<lambda>kv. if snd kv \<noteq> JUndef
                   then [json_quote (fst kv) @ '':'' @ canonicalizePayload (snd kv)] else [])
        (sort_key fst kvs))) @ ''}''"

definition FINGERPRINT_PREFIX :: string where
  "FINGERPRINT_PREFIX = ''fp_sha256:''"

definition generateEventFingerprint :: "(string \<Rightarrow> string) \<Rightarrow> string \<Rightarrow> json \<Rightarrow> string option \<Rightarrow> string" where
  "generateEventFingerprint sha256 providerAccountId p pre =
     (case pre of None \<Rightarrow> FINGERPRINT_PREFIX | Some x \<Rightarrow> x) @
       sha256 (providerAccountId @ '':'' @ canonicalizePayload p)"

definition isEventFingerprint :: "string \<Rightarrow> bool" where
  "isEventFingerprint k = startsWith k FINGERPRINT_PREFIX"

text \<open>Two payloads carry the same data: objects up to the order of their entries and up to
  undefined fields, at every depth.\<close>

inductive same_payload :: "json \<Rightarrow> json \<Rightarrow> bool" where
  same_refl: "same_payload j j"
| same_trans: "same_payload i j \<Longrightarrow> same_payload j k \<Longrightarrow> same_payload i k"
| same_order: "mset kvs = mset kvs' \<Longrightarrow> distinct (map fst kvs) \<Longrightarrow> same_payload (JObj kvs) (JObj kvs')"
| same_undef: "same_payload (JObj kvs) (JObj (filter (\<lambda>kv. snd kv \<noteq> JUndef) kvs))"
| same_item: "same_payload x y \<Longrightarrow> same_payload (JArr (xs @ x # ys)) (JArr (xs @ y # ys))"
| same_field: "same_payload x y \<Longrightarrow> x \<noteq> JUndef \<Longrightarrow> y \<noteq> JUndef \<Longrightarrow>
    same_payload (JObj (kvs @ (k, x) # kvs')) (JObj (kvs @ (k, y) # kvs'))"

abbreviation canon_entry :: "string \<times> json \<Rightarrow> string list" where
  "canon_entry kv \<equiv>
     (if snd kv \<noteq> JUndef then [json_quote (fst kv) @ '':'' @ canonicalizePayload (snd kv)] else [])"

lemma sort_key_mset_distinct:
  assumes "mset xs = mset ys" "distinct (map f xs)"
  shows "sort_key f xs = sort_key f ys"
proof (rule sort_key_inj_key_eq)
  show "mset xs = mset (sort_key f ys)" using assms(1) by simp
  show "inj_on f (set xs)" using assms(2) by (simp add: distinct_map)
  show "sorted (map f (sort_key f ys))" by simp
qed

lemma concat_map_filter_entry:
  "concat (map canon_entry (filter (\<lambda>kv. snd kv \<noteq> JUndef) kvs)) = concat (map canon_entry kvs)"
  by (induction kvs) auto

lemma insort_key_map:
  "(\<And>y. f' (g y) = f y) \<Longrightarrow> insort_key f' (g x) (map g ys) = map g (insort_key f x ys)"
  by (induction ys) auto

lemma sort_key_map_key:
  "(\<And>y. f' (g y) = f y) \<Longrightarrow> sort_key f' (map g xs) = map g (sort_key f xs)"
  by (induction xs) (simp_all add: insort_key_map)

text \<open>The text of an object depends on its entries only through the text of each entry.\<close>

abbreviation printed_entry :: "string \<times> json \<Rightarrow> string \<times> string list" where
  "printed_entry kv \<equiv> (fst kv, canon_entry kv)"

lemma canon_obj:
  "canonicalizePayload (JObj kvs) =
     ''{'' @ join '','' (concat (map snd (sort_key fst (map printed_entry kvs)))) @ ''}''"
  by (simp add: sort_key_map_key [where f = fst] comp_def)

lemma canon_field:
  assumes "canonicalizePayload x = canonicalizePayload y" "x \<noteq> JUndef" "y \<noteq> JUndef"
  shows "canonicalizePayload (JObj (kvs @ (k, x) # kvs')) = canonicalizePayload (JObj (kvs @ (k, y) # kvs'))"
  using assms unfolding canon_obj by simp

lemma canon_undef:
  "canonicalizePayload (JObj (filter (\<lambda>kv. snd kv \<noteq> JUndef) kvs)) = canonicalizePayload (JObj kvs)"
  by (simp add: filter_sort [symmetric] concat_map_filter_entry)

lemma canon_order:
  assumes "mset kvs = mset kvs'" "distinct (map fst kvs)"
  shows "canonicalizePayload (JObj kvs) = canonicalizePayload (JObj kvs')"
  using sort_key_mset_distinct [OF assms] by simp

text \<open>Payloads that carry the same data, whatever the order of their object keys and whatever
  undefined fields they have, at every depth, get the same deduplication fingerprint.\<close>

theorem fingerprint_key_order:
  assumes "same_payload i j"
  shows "generateEventFingerprint sha256 acc i pre = generateEventFingerprint sha256 acc j pre"
proof -
  have "canonicalizePayload i = canonicalizePayload j"
    using assms
  proof induction
    case (same_order kvs kvs')
    then show ?case by (rule canon_order)
  next
    case (same_undef kvs)
    then show ?case by (rule canon_undef [symmetric])
  next
    case (same_field x y kvs k kvs')
    then show ?case by (intro canon_field)
  qed simp_all
  then show ?thesis by (simp add: generateEventFingerprint_def)
qed

theorem fingerprint_key_order_witness:
  "generateEventFingerprint (\<lambda>s. s) ''acc'' (JObj [(''b'', JNum 1), (''a'', JNull)]) None =
   generateEventFingerprint (\<lambda>s. s) ''acc'' (JObj [(''a'', JNull), (''b'', JNum 1)]) None"
  by (rule fingerprint_key_order, rule same_order) simp_all

section \<open>Redaction\<close>

definition REDACTED_PLACEHOLDER :: string where
  "REDACTED_PLACEHOLDER = ''[REDACTED]''"

definition SENSITIVE_KEY_NAMES :: "string list" where
  "SENSITIVE_KEY_NAMES =
    [''password'', ''currentpassword'', ''newpassword'', ''passwordconfirmation'', ''token'',
     ''accesstoken'', ''refreshtoken'', ''idtoken'', ''secret'', ''clientsecret'',
     ''signingsecret'', ''webhookverifytoken'', ''supabaseservicerolekey'', ''authorization'',
     ''cookie'', ''set-cookie'', ''apikey'', ''api_key'', ''privatekey'', ''creditcard'',
     ''cardnumber'', ''cvv'', ''cvc'', ''pan'', ''nationalid'', ''ssn'']"

definition isSensitiveKey :: "string \<Rightarrow> bool" where
  "isSensitiveKey key = list_ex (\<lambda>sensitive. str_includes (to_lower key) sensitive) SENSITIVE_KEY_NAMES"

fun redactObject :: "json \<Rightarrow> json" where
  "redactObject (JArr xs) = JArr (map redactObject xs)"
| "redactObject (JObj kvs) = JObj (map (\<lambda>kv.
     if isSensitiveKey (fst kv) then (fst kv, JStr REDACTED_PLACEHOLDER)
     else (fst kv, redactObject (snd kv))) kvs)"
| "redactObject j = j"

text \<open>Nothing sensitive is left: every entry under a sensitive key, at every depth, holds the
  placeholder.\<close>

fun scrubbed :: "json \<Rightarrow> bool" where
  "scrubbed (JArr xs) = (\<forall>x\<in>set xs. scrubbed x)"
| "scrubbed (JObj kvs) = (\<forall>kv\<in>set kvs.
     if isSensitiveKey (fst kv) then snd kv = JStr REDACTED_PLACEHOLDER else scrubbed (snd kv))"
| "scrubbed _ = True"

lemma redact_scrubbed: "scrubbed (redactObject j)"
  by (induction j rule: redactObject.induct) auto

lemma scrubbed_redact: "scrubbed j \<Longrightarrow> redactObject j = j"
proof (induction j rule: redactObject.induct)
  case (1 xs)
  then show ?case by (auto intro: map_idI)
next
  case (2 kvs)
  then show ?case by (auto intro!: map_idI split: if_splits)
qed simp_all

text \<open>Redaction leaves no value under a sensitive key at any depth, and changes exactly the
  values that still have one; so it is idempotent.\<close>

theorem redaction_complete:
  "scrubbed (redactObject j) \<and> (redactObject j = j \<longleftrightarrow> scrubbed j) \<and>
   redactObject (redactObject j) = redactObject j"
  using redact_scrubbed scrubbed_redact by metis

text \<open>The comment of the key list speaks of exact keys; the code looks for them inside a key.\<close>

theorem redaction_hits_substrings:
  "\<not> list_ex (\<lambda>s. to_lower ''company'' = s) SENSITIVE_KEY_NAMES \<and>
   redactObject (JObj [(''company'', JStr ''Acme'')]) = JObj [(''company'', JStr REDACTED_PLACEHOLDER)]"
  by (simp add: SENSITIVE_KEY_NAMES_def isSensitiveKey_def to_lower_def lower_char_def)

section \<open>Masking\<close>

definition maskEmail :: "string \<Rightarrow> string" where
  "maskEmail email =
     (if email = [] \<or> CHR ''@'' \<notin> set email then REDACTED_PLACEHOLDER
      else case split_on (CHR ''@'') email of
          lcl # domain # _ \<Rightarrow>
            (if lcl = [] \<or> domain = [] then REDACTED_PLACEHOLDER
             else if length lcl \<le> 2 then [hd lcl] @ ''***@'' @ domain
             else [hd lcl] @ ''***'' @ [last lcl] @ ''@'' @ domain)
        | _ \<Rightarrow> REDACTED_PLACEHOLDER)"

definition maskPhone :: "string \<Rightarrow> string" where
  "maskPhone phone =
     (if phone = [] \<or> length phone < 7 then REDACTED_PLACEHOLDER
      else take 5 phone @ ''****'' @ drop (length phone - 4) phone)"

text \<open>A number of seven to nine characters can be read off its own mask: the shown prefix and
  suffix overlap or meet.\<close>

theorem short_phone_unmasked:
  assumes "7 \<le> length phone" "length phone \<le> 9"
  shows "take 5 (maskPhone phone) @ drop (18 - length phone) (maskPhone phone) = phone"
proof -
  have mask: "maskPhone phone = (take 5 phone @ ''****'') @ drop (length phone - 4) phone"
    using assms by (auto simp: maskPhone_def)
  have len: "length (take 5 phone @ ''****'') = 9" using assms by simp
  have "drop (18 - length phone) (maskPhone phone) = drop (9 - length phone) (drop (length phone - 4) phone)"
    unfolding mask drop_append len using assms by simp
  also have "\<dots> = drop 5 phone" using assms by simp
  finally have "drop (18 - length phone) (maskPhone phone) = drop 5 phone" .
  moreover have "take 5 (maskPhone phone) = take 5 phone"
    unfolding mask using assms by simp
  ultimately show ?thesis by simp
qed

end
