(* ===== verification/Providers.thy ===== *)
theory Providers
  imports Prelude Json
begin

text \<open>
  Channels, providers and the failures of provider calls: \<open>packages/contracts/src/channels/types.ts\<close>,
  \<open>packages/channel-adapters/src/errors/provider-error.ts\<close>, the status mapping and the capped
  download of \<open>http/http-client.ts\<close>, and the adapter registry. The theory also declares the type
  of thrown values the services exchange (\<open>err\<close>).
\<close>

section \<open>Channels\<close>

datatype channel_type = CWHATSAPP | CINSTAGRAM | CMESSENGER | CTELEGRAM | CEMAIL | CLINE | CWEBCHAT | CAPI

datatype channel_provider =
    WHATSAPP_CLOUD | META_MESSENGER | META_INSTAGRAM | TELEGRAM_BOT | EMAIL_SMTP_IMAP
  | LINE_MESSAGING | WEBCHAT_EMBED | CUSTOM_WEBHOOK

fun PROVIDER_CHANNEL_TYPES :: "channel_provider \<Rightarrow> channel_type" where
  "PROVIDER_CHANNEL_TYPES WHATSAPP_CLOUD = CWHATSAPP"
| "PROVIDER_CHANNEL_TYPES META_MESSENGER = CMESSENGER"
| "PROVIDER_CHANNEL_TYPES META_INSTAGRAM = CINSTAGRAM"
| "PROVIDER_CHANNEL_TYPES TELEGRAM_BOT = CTELEGRAM"
| "PROVIDER_CHANNEL_TYPES EMAIL_SMTP_IMAP = CEMAIL"
| "PROVIDER_CHANNEL_TYPES LINE_MESSAGING = CLINE"
| "PROVIDER_CHANNEL_TYPES WEBCHAT_EMBED = CWEBCHAT"
| "PROVIDER_CHANNEL_TYPES CUSTOM_WEBHOOK = CAPI"

datatype account_status = AACTIVE | AINACTIVE | ADISCONNECTED | AERROR

fun channel_name :: "channel_type \<Rightarrow> string" where
  "channel_name CWHATSAPP = ''WHATSAPP''"
| "channel_name CINSTAGRAM = ''INSTAGRAM''"
| "channel_name CMESSENGER = ''MESSENGER''"
| "channel_name CTELEGRAM = ''TELEGRAM''"
| "channel_name CEMAIL = ''EMAIL''"
| "channel_name CLINE = ''LINE''"
| "channel_name CWEBCHAT = ''WEBCHAT''"
| "channel_name CAPI = ''API''"

fun provider_name :: "channel_provider \<Rightarrow> string" where
  "provider_name WHATSAPP_CLOUD = ''WHATSAPP_CLOUD''"
| "provider_name META_MESSENGER = ''META_MESSENGER''"
| "provider_name META_INSTAGRAM = ''META_INSTAGRAM''"
| "provider_name TELEGRAM_BOT = ''TELEGRAM_BOT''"
| "provider_name EMAIL_SMTP_IMAP = ''EMAIL_SMTP_IMAP''"
| "provider_name LINE_MESSAGING = ''LINE_MESSAGING''"
| "provider_name WEBCHAT_EMBED = ''WEBCHAT_EMBED''"
| "provider_name CUSTOM_WEBHOOK = ''CUSTOM_WEBHOOK''"

fun providerLabel :: "channel_provider \<Rightarrow> string" where
  "providerLabel WHATSAPP_CLOUD = ''WhatsApp Cloud''"
| "providerLabel META_MESSENGER = ''Messenger''"
| "providerLabel META_INSTAGRAM = ''Instagram''"
| "providerLabel TELEGRAM_BOT = ''Telegram Bot''"
| "providerLabel EMAIL_SMTP_IMAP = ''email server''"
| "providerLabel LINE_MESSAGING = ''LINE Messaging''"
| "providerLabel WEBCHAT_EMBED = ''web chat''"
| "providerLabel CUSTOM_WEBHOOK = ''custom''"

section \<open>Provider errors and thrown values\<close>

datatype error_category =
    PAUTHENTICATION | PPERMISSION | PRATE_LIMITED | PINVALID_REQUEST | PRECIPIENT_UNAVAILABLE
  | PREPLY_WINDOW_CLOSED | PNOT_FOUND | PCONFIGURATION | PTRANSIENT

record provider_error =
  pv_provider :: channel_provider
  pv_category :: error_category
  pv_code :: string
  pv_message :: string
  pv_httpStatus :: "nat option"
  pv_retryAfterSeconds :: "int option"

definition ChannelProviderError ::
  "channel_provider \<Rightarrow> error_category \<Rightarrow> string \<Rightarrow> string \<Rightarrow> provider_error" where
  "ChannelProviderError p c code msg = \<lparr>pv_provider = p, pv_category = c, pv_code = code,
     pv_message = msg, pv_httpStatus = None, pv_retryAfterSeconds = None\<rparr>"

definition retryable :: "provider_error \<Rightarrow> bool" where
  "retryable e = (pv_category e = PRATE_LIMITED \<or> pv_category e = PTRANSIENT)"

definition requiresReconnect :: "provider_error \<Rightarrow> bool" where
  "requiresReconnect e = (pv_category e = PAUTHENTICATION \<or> pv_category e = PPERMISSION)"

text \<open>What a service throws: a Prisma error with its code, the SQLSTATE of its metadata and its
  message; a provider error; an HTTP error of the API; the inbound processor's unmatched receipt;
  any other error object with its name and message; a value that is not an error.\<close>

datatype err =
    PrismaKnown string "string option" string
  | ProviderFailure provider_error
  | ApiFailure nat string string
  | ReceiptNotYetMatchable string
  | OtherError string string
  | NonError string

fun err_message :: "err \<Rightarrow> string" where
  "err_message (PrismaKnown _ _ m) = m"
| "err_message (ProviderFailure e) = pv_message e"
| "err_message (ApiFailure _ _ m) = m"
| "err_message (ReceiptNotYetMatchable i) = ''No outbound message with provider ID '' @ i @ '' yet.''"
| "err_message (OtherError _ m) = m"
| "err_message (NonError s) = s"

fun is_error_object :: "err \<Rightarrow> bool" where
  "is_error_object (NonError _) = False"
| "is_error_object _ = True"

fun isChannelProviderError :: "err \<Rightarrow> bool" where
  "isChannelProviderError (ProviderFailure _) = True"
| "isChannelProviderError _ = False"

text \<open>\<open>toChannelProviderError\<close> with the fallback category the callers pass.\<close>

fun toChannelProviderError :: "channel_provider \<Rightarrow> err \<Rightarrow> error_category option \<Rightarrow> provider_error" where
  "toChannelProviderError p (ProviderFailure e) fallback = e"
| "toChannelProviderError p e fallback =
     ChannelProviderError p (case fallback of None \<Rightarrow> PTRANSIENT | Some c \<Rightarrow> c) ''PROVIDER_CALL_FAILED''
       (if is_error_object e then err_message e else ''The provider call failed unexpectedly.'')"

section \<open>HTTP statuses\<close>

definition http_category :: "nat \<Rightarrow> error_category" where
  "http_category status =
     (if status = 401 then PAUTHENTICATION
      else if status = 403 then PPERMISSION
      else if status = 404 then PNOT_FOUND
      else if status = 429 then PRATE_LIMITED
      else if status \<ge> 500 then PTRANSIENT
      else PINVALID_REQUEST)"

text \<open>\<open>Retry-After\<close>: seconds, or a date given in milliseconds since the epoch.\<close>

datatype retry_after = NoRetryAfter | RetrySeconds rat | RetryDate int | RetryGarbage

fun parseRetryAfter :: "int \<Rightarrow> retry_after \<Rightarrow> int option" where
  "parseRetryAfter now NoRetryAfter = None"
| "parseRetryAfter now (RetrySeconds s) = Some (max 1 \<lfloor>s + 1 / 2\<rfloor>)"
| "parseRetryAfter now (RetryDate d) = Some (max 1 \<lfloor>(of_int (d - now) / 1000 :: rat) + 1 / 2\<rfloor>)"
| "parseRetryAfter now RetryGarbage = None"

definition mapHttpStatus ::
  "int \<Rightarrow> channel_provider \<Rightarrow> nat \<Rightarrow> retry_after \<Rightarrow> string \<Rightarrow> string option \<Rightarrow> provider_error" where
  "mapHttpStatus now p status ra msg code =
     (ChannelProviderError p (http_category status)
        (case code of None \<Rightarrow> ''HTTP_'' @ show_nat status | Some c \<Rightarrow> c) msg)
       \<lparr>pv_httpStatus := Some status, pv_retryAfterSeconds := parseRetryAfter now ra\<rparr>"

lemma http_retryable: "retryable (mapHttpStatus now p s ra m c) \<longleftrightarrow> s = 429 \<or> s \<ge> 500"
  by (auto simp: retryable_def mapHttpStatus_def http_category_def ChannelProviderError_def)

lemma http_reconnect: "requiresReconnect (mapHttpStatus now p s ra m c) \<longleftrightarrow> s = 401 \<or> s = 403"
  by (auto simp: requiresReconnect_def mapHttpStatus_def http_category_def ChannelProviderError_def)

section \<open>Capped downloads\<close>

definition MAX_MEDIA_DOWNLOAD_BYTES :: nat where
  "MAX_MEDIA_DOWNLOAD_BYTES = 100 * 1024 * 1024"

definition mediaTooLarge :: "channel_provider \<Rightarrow> provider_error" where
  "mediaTooLarge p = ChannelProviderError p PINVALID_REQUEST ''MEDIA_TOO_LARGE''
     ''The file is larger than the 100 MB download limit.''"

text \<open>The body arrives in chunks; \<open>seen\<close> bytes were read, kept in \<open>acc\<close>.\<close>

fun readCapped :: "channel_provider \<Rightarrow> nat \<Rightarrow> 'b list list \<Rightarrow> nat \<Rightarrow> 'b list \<Rightarrow> provider_error + 'b list" where
  "readCapped p limit [] seen acc = Inr acc"
| "readCapped p limit (c # cs) seen acc =
     (if seen + length c > limit then Inl (mediaTooLarge p)
      else readCapped p limit cs (seen + length c) (acc @ c))"

definition requestBinary ::
  "channel_provider \<Rightarrow> provider_error option \<Rightarrow> nat \<Rightarrow> 'b list list \<Rightarrow> provider_error + 'b list" where
  "requestBinary p failed declared chunks =
     (case failed of Some e \<Rightarrow> Inl e
      | None \<Rightarrow> if declared > MAX_MEDIA_DOWNLOAD_BYTES then Inl (mediaTooLarge p)
                else readCapped p MAX_MEDIA_DOWNLOAD_BYTES chunks 0 [])"

lemma readCapped_result:
  "seen \<le> limit \<Longrightarrow> readCapped p limit cs seen acc =
     (if seen + length (concat cs) \<le> limit then Inr (acc @ concat cs) else Inl (mediaTooLarge p))"
  by (induction p limit cs seen acc rule: readCapped.induct) auto

section \<open>Adapter registry\<close>

record 'a adapter_entry =
  ad_channelType :: channel_type
  ad_provider :: channel_provider
  ad_webhookPath :: "string option"
  ad_impl :: 'a

type_synonym 'a registry = "(string \<times> 'a adapter_entry) list"

definition makeKey :: "channel_type \<Rightarrow> channel_provider \<Rightarrow> string" where
  "makeKey c p = channel_name c @ '':'' @ provider_name p"

definition registry_get :: "'a registry \<Rightarrow> channel_type \<Rightarrow> channel_provider \<Rightarrow> 'a adapter_entry option" where
  "registry_get r c p = map_of r (makeKey c p)"

definition registry_register :: "'a registry \<Rightarrow> 'a adapter_entry \<Rightarrow> err + 'a registry" where
  "registry_register r a =
     (let key = makeKey (ad_channelType a) (ad_provider a) in
      if key \<in> set (map fst r)
      then Inl (OtherError ''Error'' (''Channel adapter for channel \"'' @ channel_name (ad_channelType a) @
             ''\" and provider \"'' @ provider_name (ad_provider a) @ ''\" is already registered.''))
      else Inr (r @ [(key, a)]))"

definition registry_getOrThrow :: "'a registry \<Rightarrow> channel_type \<Rightarrow> channel_provider \<Rightarrow> err + 'a adapter_entry" where
  "registry_getOrThrow r c p = (case registry_get r c p of Some a \<Rightarrow> Inr a
     | None \<Rightarrow> Inl (OtherError ''Error'' (''No channel adapter registered for channel \"'' @
         channel_name c @ ''\" and provider \"'' @ provider_name p @ ''\".'')))"

definition registry_list :: "'a registry \<Rightarrow> 'a adapter_entry list" where
  "registry_list r = map snd r"

definition registry_getByProvider :: "'a registry \<Rightarrow> channel_provider \<Rightarrow> 'a adapter_entry option" where
  "registry_getByProvider r p = List.find (\<lambda>a. ad_provider a = p) (registry_list r)"

definition registry_getByWebhookPath :: "'a registry \<Rightarrow> string \<Rightarrow> 'a adapter_entry option" where
  "registry_getByWebhookPath r path = List.find (\<lambda>a. ad_webhookPath a = Some path) (registry_list r)"

lemma channel_name_inject: "channel_name c = channel_name c' \<longleftrightarrow> c = c'"
  by (cases c; cases c') simp_all

lemma provider_name_inject: "provider_name p = provider_name p' \<longleftrightarrow> p = p'"
  by (cases p; cases p') simp_all

lemma split_makeKey: "split_on (CHR '':'') (makeKey c p) = [channel_name c, provider_name p]"
proof -
  have c: "CHR '':'' \<notin> set (channel_name c)" by (cases c) simp_all
  have p: "CHR '':'' \<notin> set (provider_name p)" by (cases p) simp_all
  have "makeKey c p = channel_name c @ CHR '':'' # provider_name p"
    unfolding makeKey_def by (simp only: append_Cons append_Nil)
  then show ?thesis
    by (simp only: split_on_append [OF c] split_on_no_sep [OF p])
qed

lemma makeKey_inject: "makeKey c p = makeKey c' p' \<longleftrightarrow> c = c' \<and> p = p'"
proof
  assume "makeKey c p = makeKey c' p'"
  then have "[channel_name c, provider_name p] = [channel_name c', provider_name p']"
    using split_makeKey by metis
  then show "c = c' \<and> p = p'" by (simp only: list.inject channel_name_inject provider_name_inject)
qed simp

definition registry_ok :: "'a registry \<Rightarrow> bool" where
  "registry_ok r = (distinct (map fst r) \<and>
     (\<forall>(k, a) \<in> set r. k = makeKey (ad_channelType a) (ad_provider a)))"

lemma registry_register_ok:
  "registry_ok r \<Longrightarrow> registry_register r a = Inr r' \<Longrightarrow>
     registry_ok r' \<and> registry_get r' (ad_channelType a) (ad_provider a) = Some a"
proof -
  assume ok: "registry_ok r" and reg: "registry_register r a = Inr r'"
  let ?k = "makeKey (ad_channelType a) (ad_provider a)"
  have new: "?k \<notin> set (map fst r)" and r': "r' = r @ [(?k, a)]"
    using reg by (auto simp only: registry_register_def Let_def sum.distinct sum.inject split: if_splits)
  have "map_of r ?k = None" using new by (simp add: map_of_eq_None_iff)
  then have "registry_get r' (ad_channelType a) (ad_provider a) = Some a"
    by (simp add: registry_get_def r' map_add_def)
  moreover have "registry_ok r'" using ok new by (simp add: registry_ok_def r')
  ultimately show ?thesis by blast
qed

text \<open>A media download returns a body exactly when the provider declared at most 100 MB and
  sent at most 100 MB, whatever the sizes of the chunks; then it is the whole body. A longer one
  always ends in the MEDIA_TOO_LARGE error, which is not retried.\<close>

theorem download_capped:
  "requestBinary p None declared chunks =
     (if declared \<le> MAX_MEDIA_DOWNLOAD_BYTES \<and> length (concat chunks) \<le> MAX_MEDIA_DOWNLOAD_BYTES
      then Inr (concat chunks) else Inl (mediaTooLarge p)) \<and>
   \<not> retryable (mediaTooLarge p)"
  by (simp add: requestBinary_def readCapped_result mediaTooLarge_def retryable_def ChannelProviderError_def)

end
