(* ===== verification/Db.thy ===== *)
theory Db
  imports Prelude Json Providers Delivery
begin

text \<open>
  The relational state of \<open>packages/database/prisma/schema.prisma\<close> the services work on: one record
  per row, one list per table in order of creation, and the realtime notifications that
  \<open>realtime-notify.ts\<close> queues. Times are milliseconds; the clock, generated ids and generated
  keys are arguments of the operations. A transaction is a function from the state to an error
  or a result with the new state; \<open>runTx\<close> commits or rolls back.
\<close>

type_synonym id = string

section \<open>Rows\<close>

datatype outbox_status = OPending | OProcessing | OCompleted | OFailed | ODeadLetter

record outbox_event =
  oe_id :: id
  oe_workspaceId :: id
  oe_eventType :: string
  oe_payload :: json
  oe_status :: outbox_status
  oe_correlationId :: "string option"
  oe_causationId :: "string option"
  oe_actorId :: "string option"
  oe_traceparent :: "string option"
  oe_retryCount :: nat
  oe_lastError :: "string option"
  oe_claimedAt :: "int option"
  oe_claimLeaseExpiresAt :: "int option"
  oe_claimedBy :: "string option"
  oe_dispatchedAt :: "int option"
  oe_scheduledAt :: int
  oe_processedAt :: "int option"
  oe_createdAt :: int
  oe_updatedAt :: int

datatype event_status = EReceived | EProcessing | EProcessed | EIgnored | EFailed

record provider_event =
  pe_id :: id
  pe_workspaceId :: id
  pe_providerAccountId :: id
  pe_provider :: channel_provider
  pe_channelType :: channel_type
  pe_providerEventKey :: string
  pe_isFingerprinted :: bool
  pe_payload :: json
  pe_headers :: "json option"
  pe_status :: event_status
  pe_processingAttempts :: nat
  pe_lastError :: "string option"
  pe_processedAt :: "int option"
  pe_retentionDays :: nat
  pe_purgeAfter :: "int option"
  pe_correlationId :: "string option"
  pe_updatedAt :: int

record provider_account =
  pa_id :: id
  pa_workspaceId :: id
  pa_channelType :: channel_type
  pa_provider :: channel_provider
  pa_name :: string
  pa_accountIdentifier :: string
  pa_status :: account_status
  pa_credentials :: json
  pa_config :: json
  pa_description :: "string option"
  pa_displayIdentifier :: "string option"
  pa_webhookKey :: "string option"
  pa_statusReason :: "string option"
  pa_lastErrorAt :: "int option"
  pa_lastHealthCheckAt :: "int option"
  pa_connectedAt :: "int option"
  pa_settings :: json
  pa_syncState :: json
  pa_syncLeaseExpiresAt :: "int option"
  pa_deletedAt :: "int option"

record account_member =
  am_providerAccountId :: id
  am_membershipId :: id

datatype membership_status = MInvited | MActive | MSuspended | MDeactivated

text \<open>A membership with the columns of its user profile.\<close>

record membership =
  mb_id :: id
  mb_workspaceId :: id
  mb_status :: membership_status
  mb_deletedAt :: "int option"
  mb_displayName :: string
  mb_userActive :: bool
  mb_userDeletedAt :: "int option"

record contact =
  ct_id :: id
  ct_workspaceId :: id
  ct_displayName :: string
  ct_email :: "string option"
  ct_phone :: "string option"
  ct_avatarUrl :: "string option"

record contact_identity =
  ci_id :: id
  ci_workspaceId :: id
  ci_contactId :: id
  ci_providerAccountId :: id
  ci_channelType :: channel_type
  ci_externalId :: string
  ci_displayName :: "string option"
  ci_username :: "string option"
  ci_lastSeenAt :: "int option"

datatype conversation_status = VOpen | VPending | VResolved

datatype direction = Inbound | Outbound

datatype sender_type = SContact | SAgent | SAi | SSystem

record conversation =
  cv_id :: id
  cv_workspaceId :: id
  cv_providerAccountId :: id
  cv_contactId :: id
  cv_contactIdentityId :: id
  cv_status :: conversation_status
  cv_assignee :: "id option"
  cv_subject :: "string option"
  cv_externalThreadId :: "string option"
  cv_unreadCount :: nat
  cv_lastMessageAt :: "int option"
  cv_lastMessagePreview :: "string option"
  cv_lastMessageDirection :: "direction option"
  cv_lastInboundAt :: "int option"
  cv_resolvedAt :: "int option"
  cv_createdAt :: int

record message =
  ms_id :: id
  ms_workspaceId :: id
  ms_conversationId :: id
  ms_providerAccountId :: id
  ms_direction :: direction
  ms_senderType :: sender_type
  ms_senderMembershipId :: "id option"
  ms_senderName :: "string option"
  ms_isPrivate :: bool
  ms_contentType :: string
  ms_content :: json
  ms_text :: "string option"
  ms_providerMessageId :: "string option"
  ms_replyToMessageId :: "id option"
  ms_status :: delivery_status
  ms_errorCode :: "string option"
  ms_errorMessage :: "string option"
  ms_providerEventId :: "id option"
  ms_sentAt :: "int option"
  ms_deliveredAt :: "int option"
  ms_readAt :: "int option"
  ms_failedAt :: "int option"
  ms_createdAt :: int
  ms_updatedAt :: int

record audit_log =
  au_id :: id
  au_workspaceId :: id
  au_actorId :: id
  au_actorType :: string
  au_action :: string
  au_resourceType :: string
  au_resourceId :: id
  au_correlationId :: string
  au_beforeState :: "json option"
  au_afterState :: "json option"
  au_metadata :: "json option"

record notification =
  nt_eventType :: string
  nt_workspaceId :: id
  nt_conversationId :: "id option"
  nt_messageId :: "id option"
  nt_channelId :: "id option"

record db =
  db_outbox :: "outbox_event list"
  db_events :: "provider_event list"
  db_accounts :: "provider_account list"
  db_account_members :: "account_member list"
  db_members :: "membership list"
  db_contacts :: "contact list"
  db_identities :: "contact_identity list"
  db_conversations :: "conversation list"
  db_messages :: "message list"
  db_audit :: "audit_log list"
  db_notified :: "notification list"

definition empty_db :: db where
  "empty_db = \<lparr>db_outbox = [], db_events = [], db_accounts = [], db_account_members = [],
     db_members = [], db_contacts = [], db_identities = [], db_conversations = [],
     db_messages = [], db_audit = [], db_notified = []\<rparr>"

section \<open>Transactions\<close>

type_synonym 'a tx = "db \<Rightarrow> err + 'a \<times> db"

definition returnT :: "'a \<Rightarrow> 'a tx" where
  "returnT a d = Inr (a, d)"

definition throwT :: "err \<Rightarrow> 'a tx" where
  "throwT e d = Inl e"

definition bindT :: "'a tx \<Rightarrow> ('a \<Rightarrow> 'b tx) \<Rightarrow> 'b tx" where
  "bindT m f d = (case m d of Inl e \<Rightarrow> Inl e | Inr (a, d') \<Rightarrow> f a d')"

definition thenT :: "unit tx \<Rightarrow> 'b tx \<Rightarrow> 'b tx" where
  "thenT m n = bindT m (\<lambda>_. n)"

fun eachT :: "('a \<Rightarrow> 'b tx) \<Rightarrow> 'a list \<Rightarrow> 'b list tx" where
  "eachT f [] = returnT []"
| "eachT f (x # xs) = bindT (f x) (\<lambda>b. bindT (eachT f xs) (\<lambda>bs. returnT (b # bs)))"

text \<open>\<open>prisma.$transaction\<close>: the changes of a callback that throws are rolled back.\<close>

definition runTx :: "'a tx \<Rightarrow> db \<Rightarrow> (err + 'a) \<times> db" where
  "runTx m d = (case m d of Inl e \<Rightarrow> (Inl e, d) | Inr (a, d') \<Rightarrow> (Inr a, d'))"

lemmas tx_defs = returnT_def throwT_def bindT_def thenT_def

lemma bindT_Inr:
  "bindT m f d = Inr (b, d'') \<longleftrightarrow> (\<exists>a d'. m d = Inr (a, d') \<and> f a d' = Inr (b, d''))"
  by (auto simp: bindT_def split: sum.splits)

lemma bindT_Inl:
  "bindT m f d = Inl e \<longleftrightarrow> m d = Inl e \<or> (\<exists>a d'. m d = Inr (a, d') \<and> f a d' = Inl e)"
  by (auto simp: bindT_def split: sum.splits)

lemma returnT_Inr [simp]: "returnT a d = Inr (b, d') \<longleftrightarrow> b = a \<and> d' = d"
  by (auto simp: returnT_def)

lemma throwT_Inr [simp]: "throwT e d \<noteq> Inr r"
  by (simp add: throwT_def)

lemma runTx_error: "fst (runTx m d) = Inl e \<Longrightarrow> snd (runTx m d) = d"
  by (auto simp: runTx_def split: sum.splits)

lemma runTx_Inr: "runTx m d = (Inr a, d') \<longleftrightarrow> m d = Inr (a, d')"
  by (auto simp: runTx_def split: sum.splits)

section \<open>Constraints\<close>

text \<open>A row that violates the primary key or a unique constraint is refused with P2002; a NULL in
  a unique column does not clash.\<close>

definition uniqueViolation :: "string \<Rightarrow> err" where
  "uniqueViolation on = PrismaKnown ''P2002'' None (''Unique constraint failed on '' @ on)"

definition recordNotFound :: err where
  "recordNotFound = PrismaKnown ''P2025'' None ''No record was found.''"

fun isUniqueConstraintViolation :: "err \<Rightarrow> bool" where
  "isUniqueConstraintViolation (PrismaKnown code _ _) = (code = ''P2002'')"
| "isUniqueConstraintViolation _ = False"

lemma unique_is_violation [simp]: "isUniqueConstraintViolation (uniqueViolation s)"
  by (simp add: uniqueViolation_def)

lemma recordNotFound_not_unique [simp]: "\<not> isUniqueConstraintViolation recordNotFound"
  by (simp add: recordNotFound_def)

definition msg_key_clash :: "message \<Rightarrow> message \<Rightarrow> bool" where
  "msg_key_clash a b = (ms_providerMessageId a \<noteq> None \<and>
     ms_providerAccountId a = ms_providerAccountId b \<and> ms_providerMessageId a = ms_providerMessageId b)"

definition event_key_clash :: "provider_event \<Rightarrow> provider_event \<Rightarrow> bool" where
  "event_key_clash a b = (pe_providerAccountId a = pe_providerAccountId b \<and>
     pe_providerEventKey a = pe_providerEventKey b)"

definition identity_key_clash :: "contact_identity \<Rightarrow> contact_identity \<Rightarrow> bool" where
  "identity_key_clash a b = (ci_providerAccountId a = ci_providerAccountId b \<and>
     ci_externalId a = ci_externalId b)"

definition create_message :: "message \<Rightarrow> unit tx" where
  "create_message m d =
     (if list_ex (\<lambda>x. ms_id x = ms_id m \<or> msg_key_clash x m) (db_messages d)
      then Inl (uniqueViolation ''messages'')
      else Inr ((), d\<lparr>db_messages := db_messages d @ [m]\<rparr>))"

definition create_event :: "provider_event \<Rightarrow> unit tx" where
  "create_event e d =
     (if list_ex (\<lambda>x. pe_id x = pe_id e \<or> event_key_clash x e) (db_events d)
      then Inl (uniqueViolation ''provider_events'')
      else Inr ((), d\<lparr>db_events := db_events d @ [e]\<rparr>))"

definition create_identity :: "contact_identity \<Rightarrow> unit tx" where
  "create_identity c d =
     (if list_ex (\<lambda>x. ci_id x = ci_id c \<or> identity_key_clash x c) (db_identities d)
      then Inl (uniqueViolation ''contact_identities'')
      else Inr ((), d\<lparr>db_identities := db_identities d @ [c]\<rparr>))"

definition create_contact :: "contact \<Rightarrow> unit tx" where
  "create_contact c d =
     (if list_ex (\<lambda>x. ct_id x = ct_id c) (db_contacts d) then Inl (uniqueViolation ''contacts'')
      else Inr ((), d\<lparr>db_contacts := db_contacts d @ [c]\<rparr>))"

definition create_conversation :: "conversation \<Rightarrow> unit tx" where
  "create_conversation c d =
     (if list_ex (\<lambda>x. cv_id x = cv_id c) (db_conversations d) then Inl (uniqueViolation ''conversations'')
      else Inr ((), d\<lparr>db_conversations := db_conversations d @ [c]\<rparr>))"

definition insert_outbox :: "outbox_event \<Rightarrow> unit tx" where
  "insert_outbox e d =
     (if list_ex (\<lambda>x. oe_id x = oe_id e) (db_outbox d) then Inl (uniqueViolation ''outbox_events'')
      else Inr ((), d\<lparr>db_outbox := db_outbox d @ [e]\<rparr>))"

definition create_audit :: "audit_log \<Rightarrow> unit tx" where
  "create_audit a d =
     (if list_ex (\<lambda>x. au_id x = au_id a) (db_audit d) then Inl (uniqueViolation ''audit_logs'')
      else Inr ((), d\<lparr>db_audit := db_audit d @ [a]\<rparr>))"

text \<open>\<open>update\<close> by primary key throws P2025 when there is no such row.\<close>

definition update_conversation :: "id \<Rightarrow> (conversation \<Rightarrow> conversation) \<Rightarrow> unit tx" where
  "update_conversation i f d =
     (if list_ex (\<lambda>x. cv_id x = i) (db_conversations d)
      then Inr ((), d\<lparr>db_conversations := update_where (\<lambda>x. cv_id x = i) f (db_conversations d)\<rparr>)
      else Inl recordNotFound)"

definition update_event :: "id \<Rightarrow> (provider_event \<Rightarrow> provider_event) \<Rightarrow> unit tx" where
  "update_event i f d =
     (if list_ex (\<lambda>x. pe_id x = i) (db_events d)
      then Inr ((), d\<lparr>db_events := update_where (\<lambda>x. pe_id x = i) f (db_events d)\<rparr>)
      else Inl recordNotFound)"

definition update_account :: "id \<Rightarrow> (provider_account \<Rightarrow> provider_account) \<Rightarrow> unit tx" where
  "update_account i f d =
     (if list_ex (\<lambda>x. pa_id x = i) (db_accounts d)
      then Inr ((), d\<lparr>db_accounts := update_where (\<lambda>x. pa_id x = i) f (db_accounts d)\<rparr>)
      else Inl recordNotFound)"

text \<open>\<open>notifyRealtime\<close>: inside a transaction the notification is only delivered on commit.\<close>

definition notifyRealtime :: "notification \<Rightarrow> unit tx" where
  "notifyRealtime n d = Inr ((), d\<lparr>db_notified := db_notified d @ [n]\<rparr>)"

definition notice :: "string \<Rightarrow> id \<Rightarrow> id option \<Rightarrow> id option \<Rightarrow> id option \<Rightarrow> notification" where
  "notice ty ws cv ms ch = \<lparr>nt_eventType = ty, nt_workspaceId = ws, nt_conversationId = cv,
     nt_messageId = ms, nt_channelId = ch\<rparr>"

section \<open>Lookups\<close>

definition find_message :: "id \<Rightarrow> db \<Rightarrow> message option" where
  "find_message i d = List.find (\<lambda>m. ms_id m = i) (db_messages d)"

definition find_message_by_provider :: "id \<Rightarrow> string \<Rightarrow> db \<Rightarrow> message option" where
  "find_message_by_provider acc pmid d =
     List.find (\<lambda>m. ms_providerAccountId m = acc \<and> ms_providerMessageId m = Some pmid) (db_messages d)"

definition find_event :: "id \<Rightarrow> db \<Rightarrow> provider_event option" where
  "find_event i d = List.find (\<lambda>e. pe_id e = i) (db_events d)"

definition find_account :: "id \<Rightarrow> db \<Rightarrow> provider_account option" where
  "find_account i d = List.find (\<lambda>a. pa_id a = i) (db_accounts d)"

definition find_conversation :: "id \<Rightarrow> db \<Rightarrow> conversation option" where
  "find_conversation i d = List.find (\<lambda>c. cv_id c = i) (db_conversations d)"

definition find_contact :: "id \<Rightarrow> db \<Rightarrow> contact option" where
  "find_contact i d = List.find (\<lambda>c. ct_id c = i) (db_contacts d)"

definition find_identity :: "id \<Rightarrow> string \<Rightarrow> db \<Rightarrow> contact_identity option" where
  "find_identity acc ext d =
     List.find (\<lambda>c. ci_providerAccountId c = acc \<and> ci_externalId c = ext) (db_identities d)"

end
