(* ===== verification/Transaction.thy ===== *)
theory Transaction
  imports Db Jobs
begin

text \<open>
  \<open>packages/database/src/transaction.ts\<close>: which database errors are transient, the back-off
  between attempts, and the retry loop around an interactive transaction. An attempt fails on its
  own with the error the callback throws, or is aborted by the database with a fault; other
  sessions may change the database between two attempts (\<open>drift\<close>). Both are arguments.
\<close>

definition RETRYABLE_SQLSTATE_CODES :: "string list" where
  "RETRYABLE_SQLSTATE_CODES = [''40001'', ''40P01'']"

definition retry_phrase :: "string \<Rightarrow> bool" where
  "retry_phrase msg = list_ex (str_includes msg)
     [''40001'', ''40P01'', ''serialization_failure'', ''deadlock detected'', ''could not serialize access'']"

fun isRetryableTransactionError :: "err \<Rightarrow> bool" where
  "isRetryableTransactionError (NonError _) = False"
| "isRetryableTransactionError (PrismaKnown code meta msg) =
     (code = ''P2034'' \<or> (case meta of None \<Rightarrow> False | Some c \<Rightarrow> c \<in> set RETRYABLE_SQLSTATE_CODES) \<or>
      retry_phrase msg)"
| "isRetryableTransactionError e = retry_phrase (err_message e)"

definition calculateBackoffDelay :: "rat \<Rightarrow> nat \<Rightarrow> rat \<Rightarrow> rat \<Rightarrow> rat \<Rightarrow> bool \<Rightarrow> int" where
  "calculateBackoffDelay random attempt initialDelayMs maxDelayMs factor jitter =
     (let baseDelay = min maxDelayMs (initialDelayMs * factor ^ (attempt - 1)) in
      if \<not> jitter then js_round baseDelay
      else js_round (baseDelay * (1 / 2 + random * (1 / 2))))"

record tx_policy =
  tp_maxRetries :: nat
  tp_initialDelayMs :: rat
  tp_maxDelayMs :: rat
  tp_factor :: rat
  tp_jitter :: bool

definition default_tx_policy :: tx_policy where
  "default_tx_policy = \<lparr>tp_maxRetries = 3, tp_initialDelayMs = 50, tp_maxDelayMs = 1000,
     tp_factor = 2, tp_jitter = True\<rparr>"

text \<open>The environment of one call: the fault that aborts an attempt, the concurrent changes after
  a failed attempt, and the random numbers.\<close>

record tx_env =
  te_fault :: "nat \<Rightarrow> err option"
  te_drift :: "nat \<Rightarrow> db \<Rightarrow> db"
  te_random :: "nat \<Rightarrow> rat"

definition calm_env :: tx_env where
  "calm_env = \<lparr>te_fault = (\<lambda>_. None), te_drift = (\<lambda>_ d. d), te_random = (\<lambda>_. 0)\<rparr>"

definition run_attempt :: "err option \<Rightarrow> 'a tx \<Rightarrow> db \<Rightarrow> (err + 'a) \<times> db" where
  "run_attempt fault fn d = runTx (\<lambda>s. case fault of None \<Rightarrow> fn s
     | Some e \<Rightarrow> (case fn s of Inl e' \<Rightarrow> Inl e' | Inr _ \<Rightarrow> Inl e)) d"

text \<open>The loop: its result, the database, the number of attempts and the delays slept.\<close>

function tx_loop :: "tx_policy \<Rightarrow> tx_env \<Rightarrow> 'a tx \<Rightarrow> nat \<Rightarrow> db \<Rightarrow> (err + 'a) \<times> db \<times> nat \<times> int list" where
  "tx_loop p env fn attempt d =
     (case run_attempt (te_fault env attempt) fn d of
        (Inr a, d') \<Rightarrow> (Inr a, d', attempt, [])
      | (Inl e, d') \<Rightarrow>
          if \<not> isRetryableTransactionError e \<or> \<not> attempt \<le> tp_maxRetries p then (Inl e, d', attempt, [])
          else let delay = calculateBackoffDelay (te_random env attempt) attempt (tp_initialDelayMs p)
                     (tp_maxDelayMs p) (tp_factor p) (tp_jitter p);
                   (r, d'', n, ds) = tx_loop p env fn (Suc attempt) (te_drift env attempt d')
               in (r, d'', n, delay # ds))"
  by pat_completeness auto
termination
  by (relation "measure (\<lambda>(p, env, fn, attempt, d). Suc (tp_maxRetries p) - attempt)") auto

declare tx_loop.simps [simp del]

definition withTransaction :: "tx_policy \<Rightarrow> tx_env \<Rightarrow> 'a tx \<Rightarrow> db \<Rightarrow> (err + 'a) \<times> db \<times> nat \<times> int list" where
  "withTransaction p env fn d = tx_loop p env fn 1 d"

section \<open>Facts\<close>

text \<open>The database after the drift that follows attempts \<open>i\<close> to \<open>j - 1\<close>.\<close>

fun drifted :: "tx_env \<Rightarrow> nat \<Rightarrow> nat \<Rightarrow> db \<Rightarrow> db" where
  "drifted env i 0 d = d"
| "drifted env i (Suc n) d = drifted env (Suc i) n (te_drift env i d)"

lemma run_attempt_error: "run_attempt f fn d = (Inl e, d') \<Longrightarrow> d' = d"
  by (auto simp: run_attempt_def runTx_def split: sum.splits)

lemma run_attempt_ok: "run_attempt f fn d = (Inr a, d') \<Longrightarrow> fn d = Inr (a, d')"
  by (auto simp: run_attempt_def runTx_def split: sum.splits option.splits)

lemma tx_loop_result:
  assumes "tx_loop p env fn i d = (r, d', n, ds)" "i \<le> Suc (tp_maxRetries p)"
  shows "i \<le> n \<and> n \<le> Suc (tp_maxRetries p) \<and> length ds = n - i \<and>
    (case r of Inr a \<Rightarrow> fn (drifted env i (n - i) d) = Inr (a, d')
     | Inl e \<Rightarrow> d' = drifted env i (n - i) d)"
  using assms
proof (induction p env fn i d arbitrary: r d' n ds rule: tx_loop.induct)
  case (1 p env fn attempt d)
  obtain r0 d0 where run: "run_attempt (te_fault env attempt) fn d = (r0, d0)" by force
  show ?case
  proof (cases r0)
    case (Inr a)
    have "r = Inr a" "d' = d0" "n = attempt" "ds = []"
      using "1.prems"(1) run Inr by (subst (asm) tx_loop.simps, simp)+
    then show ?thesis
      using "1.prems"(2) run Inr run_attempt_ok [of "te_fault env attempt" fn d a d0] by simp
  next
    case (Inl e)
    then have d0: "d0 = d" using run run_attempt_error by metis
    show ?thesis
    proof (cases "\<not> isRetryableTransactionError e \<or> \<not> attempt \<le> tp_maxRetries p")
      case True
      have "r = Inl e" "d' = d0" "n = attempt" "ds = []"
        using "1.prems"(1) run Inl True by (subst (asm) tx_loop.simps, simp)+
      then show ?thesis using "1.prems"(2) d0 by simp
    next
      case False
      obtain r1 d1 n1 ds1 where
        rec: "tx_loop p env fn (Suc attempt) (te_drift env attempt d0) = (r1, d1, n1, ds1)"
        by (metis prod_cases4)
      have IH: "Suc attempt \<le> n1 \<and> n1 \<le> Suc (tp_maxRetries p) \<and> length ds1 = n1 - Suc attempt \<and>
        (case r1 of Inr a \<Rightarrow> fn (drifted env (Suc attempt) (n1 - Suc attempt) (te_drift env attempt d0)) = Inr (a, d1)
         | Inl e \<Rightarrow> d1 = drifted env (Suc attempt) (n1 - Suc attempt) (te_drift env attempt d0))"
        using "1.IH" [OF run [symmetric] Inl False refl rec] False by simp
      have eq: "r = r1" "d' = d1" "n = n1" "length ds = Suc (length ds1)"
        using "1.prems"(1) run Inl False rec by (subst (asm) tx_loop.simps, auto simp: Let_def)+
      have step: "drifted env attempt (n1 - attempt) d =
          drifted env (Suc attempt) (n1 - Suc attempt) (te_drift env attempt d0)"
      proof -
        have "n1 - attempt = Suc (n1 - Suc attempt)" using IH [THEN conjunct1] by simp
        then show ?thesis using d0 by simp
      qed
      show ?thesis using IH eq step by (auto split: sum.splits)
    qed
  qed
qed

lemma transaction_result:
  assumes "withTransaction p env fn d = (r, d', n, delays)"
  shows "case r of Inr a \<Rightarrow> fn (drifted env 1 (n - 1) d) = Inr (a, d') | Inl e \<Rightarrow> d' = drifted env 1 (n - 1) d"
  using tx_loop_result [of p env fn 1 d r d' n delays] assms unfolding withTransaction_def by simp

lemma drifted_calm: "(\<And>i d. te_drift env i d = d) \<Longrightarrow> drifted env i n d = d"
  by (induction n arbitrary: i) simp_all

text \<open>C28: A transaction with retries always ends, after at most \<open>maxRetries + 1\<close> attempts with one
  delay between two of them. If it succeeds, the callback's changes were committed exactly once,
  on the state the last attempt found; if it fails, nothing of the callback is left. Here that
  state is the initial one changed by the other sessions between the attempts.\<close>

theorem transaction_atomic:
  assumes "withTransaction p env fn d = (r, d', n, delays)"
  shows "1 \<le> n \<and> n \<le> Suc (tp_maxRetries p) \<and> length delays = n - 1 \<and>
    (case r of Inr a \<Rightarrow> fn (drifted env 1 (n - 1) d) = Inr (a, d')
     | Inl e \<Rightarrow> d' = drifted env 1 (n - 1) d)"
  using tx_loop_result [of p env fn 1 d r d' n delays] assms unfolding withTransaction_def by simp

theorem transaction_atomic_witness:
  "\<exists>n delays. withTransaction default_tx_policy
      (calm_env\<lparr>te_fault := (\<lambda>i. if i = 1 then Some (PrismaKnown ''P2034'' None ''conflict'') else None)\<rparr>)
      (returnT (7::nat)) empty_db = (Inr 7, empty_db, n, delays) \<and> n \<le> 4 \<and> length delays = n - 1"
proof -
  let ?env = "calm_env\<lparr>te_fault := (\<lambda>i. if i = 1 then Some (PrismaKnown ''P2034'' None ''conflict'') else None)\<rparr>"
  obtain r d' n delays where
    run: "withTransaction default_tx_policy ?env (returnT (7::nat)) empty_db = (r, d', n, delays)"
    by (metis prod_cases4)
  from transaction_atomic [OF run] have "n \<le> 4 \<and> length delays = n - 1"
    by (simp add: default_tx_policy_def)
  moreover have "r = Inr 7 \<and> d' = empty_db"
    using run unfolding withTransaction_def
    by (simp add: tx_loop.simps [of _ _ _ "Suc 0"] tx_loop.simps [of _ _ _ "Suc (Suc 0)"] run_attempt_def runTx_def
        returnT_def calm_env_def default_tx_policy_def Let_def)
  ultimately show ?thesis using run by auto
qed

text \<open>An error that is not a serialization failure or a deadlock is thrown after the attempt
  that met it: it is never retried.\<close>

theorem permanent_error_not_retried:
  assumes "run_attempt (te_fault env 1) fn d = (Inl e, d0)" "\<not> isRetryableTransactionError e"
  shows "withTransaction p env fn d = (Inl e, d, 1, [])"
  using assms run_attempt_error [OF assms(1)]
  unfolding withTransaction_def by (subst tx_loop.simps) simp

theorem permanent_error_not_retried_witness:
  "withTransaction default_tx_policy calm_env (throwT (uniqueViolation ''x'') :: nat tx) empty_db =
     (Inl (uniqueViolation ''x''), empty_db, 1, [])"
proof (rule permanent_error_not_retried)
  show "run_attempt (te_fault calm_env 1) (throwT (uniqueViolation ''x'') :: nat tx) empty_db =
      (Inl (uniqueViolation ''x''), empty_db)"
    by (simp add: run_attempt_def runTx_def throwT_def calm_env_def)
  show "\<not> isRetryableTransactionError (uniqueViolation ''x'')"
    by (simp add: uniqueViolation_def retry_phrase_def)
qed

lemma backoff_bound:
  assumes "0 < m" "0 < i" "0 < f" "0 \<le> r" "r < 1" "m = of_int \<lfloor>m\<rfloor>"
  shows "0 \<le> calculateBackoffDelay r a i m f j \<and> of_int (calculateBackoffDelay r a i m f j) \<le> m"
proof -
  let ?b = "min m (i * f ^ (a - 1))"
  let ?j = "?b * (1 / 2 + r * (1 / 2))"
  have b: "0 < ?b" "?b \<le> m" using assms by auto
  have jr: "?b / 2 \<le> ?j" "?j \<le> ?b" using jitter_range assms(4,5) b(1) by blast+
  have up: "of_int (js_round ?b) \<le> m" "of_int (js_round ?j) \<le> m"
    by (rule js_round_le_max [OF b(2) assms(6)], rule js_round_le_max [OF order_trans [OF jr(2) b(2)] assms(6)])
  have "js_round 0 \<le> js_round ?b" "js_round 0 \<le> js_round ?j" using b(1) jr(1) by (auto intro!: js_round_mono)
  then have low: "0 \<le> js_round ?b" "0 \<le> js_round ?j" using js_round_int [of 0] by simp_all
  show ?thesis
    unfolding calculateBackoffDelay_def Let_def using up low by (cases j) (simp_all only: if_True if_False not_True_eq_False not_False_eq_True simp_thms)
qed

end
