(* ===== verification/JobTransport.thy ===== *)
theory JobTransport
  imports Prelude Jobs Providers
begin

text \<open>
  The job transports of \<open>apps/worker/src/queue\<close>: the contract of \<open>job-queue.ts\<close> as locales, the
  BullMQ transport (\<open>bullmq-job-queue.ts\<close>) with its start, probe, registration, send and
  shutdown, the pg-boss transport (\<open>pg-boss.service.ts\<close>), and the draining transport that
  combines them. What Redis or pg-boss answers to a call is an argument of the operation.
\<close>

section \<open>Contract\<close>

record 'p queued_job =
  qj_queue :: queue_name
  qj_key :: string
  qj_payload :: 'p
  qj_attempts :: nat

text \<open>\<open>send\<close> resolves only when the transport holds a job under the key, throws and changes
  nothing while it is not running, and never drops a job it holds.\<close>

locale job_transport =
  fixes running :: "'q \<Rightarrow> bool"
    and send :: "'q \<Rightarrow> queue_name \<Rightarrow> 'p \<Rightarrow> string \<Rightarrow> err option \<times> 'q"
    and jobs :: "'q \<Rightarrow> 'p queued_job list"
  assumes send_ok: "send q n p k = (None, q') \<Longrightarrow> \<exists>j\<in>set (jobs q'). qj_queue j = n \<and> qj_key j = k"
    and send_down: "\<not> running q \<Longrightarrow> \<exists>e. send q n p k = (Some e, q)"
    and send_keeps: "set (jobs q) \<subseteq> set (jobs (snd (send q n p k)))"
begin

definition holds :: "'q \<Rightarrow> queue_name \<Rightarrow> string \<Rightarrow> bool" where
  "holds q n k = (\<exists>j\<in>set (jobs q). qj_queue j = n \<and> qj_key j = k)"

lemma holds_sent: "send q n p k = (None, q') \<Longrightarrow> holds q' n k"
  unfolding holds_def by (rule send_ok)

lemma holds_kept: "holds q n' k' \<Longrightarrow> holds (snd (send q n p k)) n' k'"
  unfolding holds_def using send_keeps by blast

lemma sent_means_running: "send q n p k = (None, q') \<Longrightarrow> running q"
  using send_down [of q n p k] by force

end

text \<open>A keyed transport also adds no second job under a key it holds.\<close>

locale keyed_transport = job_transport +
  assumes send_once: "\<exists>j\<in>set (jobs q). qj_queue j = n \<and> qj_key j = k \<Longrightarrow> jobs (snd (send q n p k)) = jobs q"
begin

lemma send_twice:
  assumes "send q n p k = (None, q')"
  shows "jobs (snd (send q' n p' k)) = jobs q'"
  using send_once send_ok [OF assms] by blast

end

section \<open>BullMQ\<close>

definition jobOptionsFor :: "queue_name \<Rightarrow> nat \<times> nat" where
  "jobOptionsFor q = (qo_retryLimit (QUEUE_CONFIGS q) + 1, qo_retryDelaySeconds (QUEUE_CONFIGS q) * 1000)"

datatype redis_status = RReady | RReconnecting | REnded

record pending_worker =
  pw_queue :: queue_name
  pw_handler :: nat
  pw_localConcurrency :: "nat option"

record bull_worker =
  bw_queue :: queue_name
  bw_handler :: nat
  bw_concurrency :: nat

record 'p bullmq =
  bq_producer :: "redis_status option"
  bq_queues :: "queue_name list"
  bq_workers :: "bull_worker list"
  bq_pendingWorkers :: "pending_worker list"
  bq_failedStarts :: nat
  bq_retryTimer :: "rat option"
  bq_probeTimer :: bool
  bq_responsive :: bool
  bq_destroyed :: bool
  bq_jobs :: "'p queued_job list"

definition bull_init :: "'p bullmq" where
  "bull_init = \<lparr>bq_producer = None, bq_queues = [], bq_workers = [], bq_pendingWorkers = [],
     bq_failedStarts = 0, bq_retryTimer = None, bq_probeTimer = False, bq_responsive = False,
     bq_destroyed = False, bq_jobs = []\<rparr>"

definition bull_isRunning :: "'p bullmq \<Rightarrow> bool" where
  "bull_isRunning b = (\<not> bq_destroyed b \<and> bq_responsive b \<and> bq_producer b = Some RReady)"

definition bull_markResponsive :: "bool \<Rightarrow> 'p bullmq \<Rightarrow> 'p bullmq" where
  "bull_markResponsive r b = (if r = bq_responsive b then b else b\<lparr>bq_responsive := r\<rparr>)"

definition bull_scheduleRetry :: "rat \<Rightarrow> 'p bullmq \<Rightarrow> 'p bullmq" where
  "bull_scheduleRetry delay b = (if bq_destroyed b then b else b\<lparr>bq_retryTimer := Some delay\<rparr>)"

definition bull_startWorker :: "queue_name \<Rightarrow> nat \<Rightarrow> nat option \<Rightarrow> 'p bullmq \<Rightarrow> err + 'p bullmq" where
  "bull_startWorker q h conc b =
     (if q \<in> set (map bw_queue (bq_workers b))
      then Inl (OtherError ''Error'' (''A BullMQ worker for '' @ queue_string q @ '' is already registered''))
      else Inr (b\<lparr>bq_workers := bq_workers b @ [\<lparr>bw_queue = q, bw_handler = h,
        bw_concurrency = (case conc of None \<Rightarrow> qo_concurrency (QUEUE_CONFIGS q) | Some c \<Rightarrow> c)\<rparr>]\<rparr>))"

text \<open>A registration that fails is logged and the remaining ones go on.\<close>

fun bull_registerAll :: "pending_worker list \<Rightarrow> 'p bullmq \<Rightarrow> 'p bullmq" where
  "bull_registerAll [] b = b"
| "bull_registerAll (w # ws) b = bull_registerAll ws
     (case bull_startWorker (pw_queue w) (pw_handler w) (pw_localConcurrency w) b of
        Inl e \<Rightarrow> b | Inr b' \<Rightarrow> b')"

definition bull_registerPendingWorkers :: "'p bullmq \<Rightarrow> 'p bullmq" where
  "bull_registerPendingWorkers b = bull_registerAll (bq_pendingWorkers b) (b\<lparr>bq_pendingWorkers := []\<rparr>)"

definition all_queue_names :: "queue_name list" where
  "all_queue_names = [MESSAGES_OUTBOUND, WEBHOOKS_PROCESS, CAMPAIGNS_DISPATCH, CONVERSATIONS_ROUTE,
     AI_GENERATE, AUDIT_EXPORT, MAINTENANCE_OUTBOX_PRUNE, MAINTENANCE_LEASE_RECOVER]"

text \<open>One start attempt; the argument says whether it connected within the start timeout.\<close>

definition bull_start :: "bool \<Rightarrow> 'p bullmq \<Rightarrow> 'p bullmq" where
  "bull_start linked b =
     (if \<not> linked then
        let b1 = b\<lparr>bq_failedStarts := bq_failedStarts b + 1\<rparr>
        in bull_scheduleRetry (startRetryDelayMs (bq_failedStarts b1)) b1
      else if bq_destroyed b then b
      else bull_registerPendingWorkers
        (b\<lparr>bq_producer := Some RReady, bq_queues := all_queue_names, bq_responsive := True,
           bq_probeTimer := True\<rparr>))"

definition bull_retry :: "bool \<Rightarrow> 'p bullmq \<Rightarrow> 'p bullmq" where
  "bull_retry linked b = bull_start linked (b\<lparr>bq_retryTimer := None\<rparr>)"

definition bull_probe :: "bool \<Rightarrow> 'p bullmq \<Rightarrow> 'p bullmq" where
  "bull_probe answered b =
     (if bq_producer b = None \<or> bq_destroyed b then b else bull_markResponsive answered b)"

definition bull_reconnecting :: "'p bullmq \<Rightarrow> 'p bullmq" where
  "bull_reconnecting b = (let b1 = b\<lparr>bq_producer := Some RReconnecting\<rparr> in
     if bq_destroyed b then b1 else bull_markResponsive False b1)"

definition bull_ready :: "bool \<Rightarrow> 'p bullmq \<Rightarrow> 'p bullmq" where
  "bull_ready answered b = bull_probe answered (b\<lparr>bq_producer := Some RReady\<rparr>)"

definition bull_work :: "queue_name \<Rightarrow> nat \<Rightarrow> nat option \<Rightarrow> 'p bullmq \<Rightarrow> (err + bool) \<times> 'p bullmq" where
  "bull_work q h conc b =
     (if bq_producer b = None then
        (Inr False, b\<lparr>bq_pendingWorkers := bq_pendingWorkers b @
           [\<lparr>pw_queue = q, pw_handler = h, pw_localConcurrency = conc\<rparr>]\<rparr>)
      else case bull_startWorker q h conc b of Inl e \<Rightarrow> (Inl e, b) | Inr b' \<Rightarrow> (Inr True, b'))"

definition bull_holds :: "'p bullmq \<Rightarrow> queue_name \<Rightarrow> string \<Rightarrow> bool" where
  "bull_holds b q k = list_ex (\<lambda>j. qj_queue j = q \<and> qj_key j = k) (bq_jobs b)"

text \<open>The \<open>add\<close> of BullMQ: a job id it holds is not added again.\<close>

definition bull_add :: "queue_name \<Rightarrow> 'p \<Rightarrow> string \<Rightarrow> 'p bullmq \<Rightarrow> 'p bullmq" where
  "bull_add q p k b =
     (if bull_holds b q k then b
      else b\<lparr>bq_jobs := bq_jobs b @ [\<lparr>qj_queue = q, qj_key = k, qj_payload = p,
               qj_attempts = fst (jobOptionsFor q)\<rparr>]\<rparr>)"

text \<open>\<open>fault q k\<close> is the error Redis answers the \<open>add\<close> with, if any.\<close>

definition bull_send ::
  "(queue_name \<Rightarrow> string \<Rightarrow> err option) \<Rightarrow> 'p bullmq \<Rightarrow> queue_name \<Rightarrow> 'p \<Rightarrow> string \<Rightarrow> err option \<times> 'p bullmq" where
  "bull_send fault b q p k =
     (if \<not> bull_isRunning b then
        (Some (OtherError ''Error'' (''BullMQ is not running; job for '' @ queue_string q @ '' was not enqueued'')), b)
      else if CHR '':'' \<in> set k then
        (Some (OtherError ''Error'' (''Job key '' @ k @ '' contains '' @ [CHR 0x27, CHR '':'', CHR 0x27] @ '', which BullMQ job IDs cannot'')), b)
      else if q \<notin> set (bq_queues b) then
        (Some (OtherError ''Error'' ''BullMQ has not started''), bull_markResponsive False b)
      else case fault q k of
          Some e \<Rightarrow> (Some e, bull_markResponsive False b)
        | None \<Rightarrow> (None, bull_add q p k b))"

definition bull_hasJob :: "'p bullmq \<Rightarrow> queue_name \<Rightarrow> string \<Rightarrow> err + bool" where
  "bull_hasJob b q k = (if q \<notin> set (bq_queues b) then Inl (OtherError ''Error'' ''BullMQ has not started'')
     else Inr (bull_holds b q k))"

definition bull_onModuleDestroy :: "'p bullmq \<Rightarrow> 'p bullmq" where
  "bull_onModuleDestroy b = b\<lparr>bq_destroyed := True, bq_retryTimer := None, bq_probeTimer := False\<rparr>"

definition bull_beforeShutdown :: "'p bullmq \<Rightarrow> 'p bullmq" where
  "bull_beforeShutdown b = b\<lparr>bq_workers := [], bq_queues := [], bq_producer := None\<rparr>"

text \<open>What a handler sees of a job that failed \<open>attemptsMade\<close> times.\<close>

definition handler_view :: "'p queued_job \<Rightarrow> nat \<Rightarrow> nat \<times> nat" where
  "handler_view j attemptsMade = (attemptsMade, qj_attempts j - 1)"

section \<open>pg-boss\<close>

record 'p pgboss =
  pb_running :: bool
  pb_pendingWorkers :: "pending_worker list"
  pb_workers :: "pending_worker list"
  pb_failedStarts :: nat
  pb_retryTimer :: "rat option"
  pb_destroyed :: bool
  pb_jobs :: "'p queued_job list"

definition pg_scheduleRetry :: "rat \<Rightarrow> 'p pgboss \<Rightarrow> 'p pgboss" where
  "pg_scheduleRetry delay b = (if pb_destroyed b then b else b\<lparr>pb_retryTimer := Some delay\<rparr>)"

definition pg_start :: "bool \<Rightarrow> (queue_name \<Rightarrow> bool) \<Rightarrow> 'p pgboss \<Rightarrow> 'p pgboss" where
  "pg_start started registers b =
     (if \<not> started then
        let b1 = b\<lparr>pb_failedStarts := pb_failedStarts b + 1\<rparr>
        in pg_scheduleRetry (startRetryDelayMs (pb_failedStarts b1)) b1
      else if pb_destroyed b then b
      else b\<lparr>pb_running := True, 
           pb_workers := pb_workers b @ filter (\<lambda>w. registers (pw_queue w)) (pb_pendingWorkers b),
           pb_pendingWorkers := []\<rparr>)"

definition pg_work :: "pending_worker \<Rightarrow> 'p pgboss \<Rightarrow> bool \<times> 'p pgboss" where
  "pg_work w b = (if \<not> pb_running b then (False, b\<lparr>pb_pendingWorkers := pb_pendingWorkers b @ [w]\<rparr>)
     else (True, b\<lparr>pb_workers := pb_workers b @ [w]\<rparr>))"

text \<open>The standard-policy queues accept a second job with the same key; \<open>answer\<close> is what
  \<open>boss.send\<close> throws, if it does.\<close>

definition pg_send ::
  "(queue_name \<Rightarrow> string \<Rightarrow> err option) \<Rightarrow> 'p pgboss \<Rightarrow> queue_name \<Rightarrow> 'p \<Rightarrow> string \<Rightarrow> err option \<times> 'p pgboss" where
  "pg_send answer b q p k =
     (if \<not> pb_running b then
        (Some (OtherError ''Error'' (''pg-boss is not running; job for '' @ queue_string q @ '' was not enqueued'')), b)
      else case answer q k of Some e \<Rightarrow> (Some e, b)
        | None \<Rightarrow> (None, b\<lparr>pb_jobs := pb_jobs b @ [\<lparr>qj_queue = q, qj_key = k, qj_payload = p,
            qj_attempts = qo_retryLimit (QUEUE_CONFIGS q) + 1\<rparr>]\<rparr>))"

definition pg_onModuleDestroy :: "'p pgboss \<Rightarrow> 'p pgboss" where
  "pg_onModuleDestroy b = b\<lparr>pb_destroyed := True, pb_retryTimer := None, pb_running := False\<rparr>"

section \<open>Draining transport\<close>

definition drain_isRunning :: "'p bullmq \<times> 'p pgboss \<Rightarrow> bool" where
  "drain_isRunning d = bull_isRunning (fst d)"

definition drain_send ::
  "(queue_name \<Rightarrow> string \<Rightarrow> err option) \<Rightarrow> 'p bullmq \<times> 'p pgboss \<Rightarrow> queue_name \<Rightarrow> 'p \<Rightarrow> string
     \<Rightarrow> err option \<times> 'p bullmq \<times> 'p pgboss" where
  "drain_send fault d q p k = (let (r, b) = bull_send fault (fst d) q p k in (r, b, snd d))"

definition drain_work :: "queue_name \<Rightarrow> nat \<Rightarrow> nat option \<Rightarrow> 'p bullmq \<times> 'p pgboss
     \<Rightarrow> (err + bool) \<times> 'p bullmq \<times> 'p pgboss" where
  "drain_work q h conc d =
     (let (r, b) = bull_work q h conc (fst d);
          (_, g) = pg_work \<lparr>pw_queue = q, pw_handler = h, pw_localConcurrency = conc\<rparr> (snd d)
      in (r, b, g))"

section \<open>The contract holds\<close>

lemma bull_add_keeps: "set (bq_jobs b) \<subseteq> set (bq_jobs (bull_add q p k b))"
  by (auto simp: bull_add_def)

lemma bull_add_holds: "\<exists>j\<in>set (bq_jobs (bull_add q p k b)). qj_queue j = q \<and> qj_key j = k"
  by (auto simp: bull_add_def bull_holds_def list_ex_iff)

lemma mark_jobs [simp]: "bq_jobs (bull_markResponsive r b) = bq_jobs b"
  by (simp add: bull_markResponsive_def)

interpretation bull: keyed_transport bull_isRunning "bull_send fault" bq_jobs
  for fault :: "queue_name \<Rightarrow> string \<Rightarrow> err option"
proof
  fix q n p k q'
  assume "bull_send fault q n p k = (None, q')"
  then have "q' = bull_add n p k q" by (auto simp: bull_send_def split: if_splits option.splits)
  then show "\<exists>j\<in>set (bq_jobs q'). qj_queue j = n \<and> qj_key j = k" by (simp only: bull_add_holds)
next
  fix q :: "'a bullmq" and n p k
  assume "\<not> bull_isRunning q"
  then show "\<exists>e. bull_send fault q n p k = (Some e, q)" by (simp add: bull_send_def)
next
  fix q :: "'a bullmq" and n p k
  show "set (bq_jobs q) \<subseteq> set (bq_jobs (snd (bull_send fault q n p k)))"
    using bull_add_keeps [of q n p k] by (auto simp: bull_send_def split: option.splits)
next
  fix q :: "'a bullmq" and n p k
  assume "\<exists>j\<in>set (bq_jobs q). qj_queue j = n \<and> qj_key j = k"
  then have "bull_holds q n k" by (auto simp: bull_holds_def list_ex_iff)
  then show "bq_jobs (snd (bull_send fault q n p k)) = bq_jobs q"
    by (auto simp: bull_send_def bull_add_def split: option.splits)
qed

interpretation pg: job_transport pb_running "pg_send answer" pb_jobs
  for answer :: "queue_name \<Rightarrow> string \<Rightarrow> err option"
  by unfold_locales (auto simp: pg_send_def split: if_splits option.splits)

interpretation drain: keyed_transport drain_isRunning "drain_send fault" "\<lambda>d. bq_jobs (fst d)"
  for fault :: "queue_name \<Rightarrow> string \<Rightarrow> err option"
proof
  fix q n p k q'
  assume "drain_send fault q n p k = (None, q')"
  then have "bull_send fault (fst q) n p k = (None, fst q')"
    by (auto simp: drain_send_def split: prod.splits)
  then show "\<exists>j\<in>set (bq_jobs (fst q')). qj_queue j = n \<and> qj_key j = k" by (rule bull.send_ok)
next
  fix q :: "'a bullmq \<times> 'a pgboss" and n p k
  assume "\<not> drain_isRunning q"
  then show "\<exists>e. drain_send fault q n p k = (Some e, q)"
    using bull.send_down [of "fst q" fault n p k]
    by (auto simp: drain_send_def drain_isRunning_def)
next
  fix q :: "'a bullmq \<times> 'a pgboss" and n p k
  show "set (bq_jobs (fst q)) \<subseteq> set (bq_jobs (fst (snd (drain_send fault q n p k))))"
    using bull.send_keeps [of "fst q" fault n p k] by (simp add: drain_send_def case_prod_unfold Let_def)
next
  fix q :: "'a bullmq \<times> 'a pgboss" and n p k
  assume "\<exists>j\<in>set (bq_jobs (fst q)). qj_queue j = n \<and> qj_key j = k"
  then show "bq_jobs (fst (snd (drain_send fault q n p k))) = bq_jobs (fst q)"
    using bull.send_once [of "fst q" n k fault p] by (simp add: drain_send_def case_prod_unfold Let_def)
qed

section \<open>BullMQ as a state machine\<close>

inductive bull_step :: "'p bullmq \<Rightarrow> 'p bullmq \<Rightarrow> bool" where
  step_start: "bull_step b (bull_start linked b)"
| step_retry: "bq_retryTimer b = Some t \<Longrightarrow> bull_step b (bull_retry linked b)"
| step_probe: "bull_step b (bull_probe answered b)"
| step_lost: "bq_producer b \<noteq> None \<Longrightarrow> bull_step b (bull_reconnecting b)"
| step_ready: "bq_producer b \<noteq> None \<Longrightarrow> bull_step b (bull_ready answered b)"
| step_work: "bull_work q h conc b = (r, b') \<Longrightarrow> bull_step b b'"
| step_send: "bull_send fault b q p k = (r, b') \<Longrightarrow> bull_step b b'"
| step_evict: "bull_step b (b\<lparr>bq_jobs := filter keep (bq_jobs b)\<rparr>)"
| step_destroy: "bull_step b (bull_onModuleDestroy b)"
| step_shutdown: "bq_destroyed b \<Longrightarrow> bull_step b (bull_beforeShutdown b)"

definition bull_inv :: "'p bullmq \<Rightarrow> bool" where
  "bull_inv b = (distinct (map bw_queue (bq_workers b)) \<and>
     distinct (map (\<lambda>j. (qj_queue j, qj_key j)) (bq_jobs b)) \<and>
     (bq_destroyed b \<longrightarrow> bq_retryTimer b = None) \<and>
     (bull_isRunning b \<longrightarrow> bq_queues b = all_queue_names))"

text \<open>The part of the state the registration of a consumer leaves alone.\<close>

definition same_link :: "'p bullmq \<Rightarrow> 'p bullmq \<Rightarrow> bool" where
  "same_link b b' = (bq_producer b' = bq_producer b \<and> bq_queues b' = bq_queues b \<and>
     bq_retryTimer b' = bq_retryTimer b \<and> bq_responsive b' = bq_responsive b \<and>
     bq_destroyed b' = bq_destroyed b \<and> bq_jobs b' = bq_jobs b)"

lemma startWorker_Inr:
  assumes "bull_startWorker q h conc b = Inr b'"
  shows "q \<notin> set (map bw_queue (bq_workers b))" "map bw_queue (bq_workers b') = map bw_queue (bq_workers b) @ [q]"
    "same_link b b'" "bq_pendingWorkers b' = bq_pendingWorkers b"
  using assms by (auto simp: bull_startWorker_def same_link_def split: if_splits)

lemma registerAll_facts:
  "distinct (map bw_queue (bq_workers b)) \<Longrightarrow>
     distinct (map bw_queue (bq_workers (bull_registerAll ws b))) \<and>
     same_link b (bull_registerAll ws b) \<and>
     bq_pendingWorkers (bull_registerAll ws b) = bq_pendingWorkers b \<and>
     set (map bw_queue (bq_workers (bull_registerAll ws b))) =
       set (map bw_queue (bq_workers b)) \<union> set (map pw_queue ws)"
proof (induction ws b rule: bull_registerAll.induct)
  case (1 b)
  then show ?case by (simp add: same_link_def)
next
  case (2 w ws b)
  show ?case
  proof (cases "bull_startWorker (pw_queue w) (pw_handler w) (pw_localConcurrency w) b")
    case (Inl e)
    then have "pw_queue w \<in> set (map bw_queue (bq_workers b))"
      by (auto simp: bull_startWorker_def split: if_splits)
    then show ?thesis using 2 Inl by auto
  next
    case (Inr b')
    note f = startWorker_Inr [OF Inr]
    have "distinct (map bw_queue (bq_workers b'))" using f(1,2) 2(2) by simp
    from 2(1) [unfolded Inr sum.case, OF this]
    show ?thesis using f by (auto simp: Inr same_link_def)
  qed
qed

lemma inv_start:
  assumes "bull_inv b"
  shows "bull_inv (bull_start linked b)"
proof (cases "linked \<and> \<not> bq_destroyed b")
  case True
  let ?b = "b\<lparr>bq_producer := Some RReady, bq_queues := all_queue_names, bq_responsive := True,
           bq_probeTimer := True, bq_pendingWorkers := []\<rparr>"
  have d: "distinct (map bw_queue (bq_workers ?b))" using assms by (simp add: bull_inv_def)
  have eq: "bull_start linked b = bull_registerAll (bq_pendingWorkers b) ?b"
    using True by (simp add: bull_start_def bull_registerPendingWorkers_def)
  from registerAll_facts [OF d, of "bq_pendingWorkers b"] True assms
  show ?thesis unfolding eq by (simp add: bull_inv_def same_link_def)
next
  case False
  then show ?thesis using assms
    by (auto simp: bull_start_def bull_inv_def bull_scheduleRetry_def bull_isRunning_def Let_def)
qed

lemma inv_mark:
  assumes "bull_inv b" "r \<longrightarrow> bq_producer b = Some RReady \<longrightarrow> bq_queues b = all_queue_names"
  shows "bull_inv (bull_markResponsive r b)"
  using assms by (auto simp: bull_inv_def bull_markResponsive_def bull_isRunning_def)

lemma inv_add: "bull_inv b \<Longrightarrow> bull_inv (bull_add q p k b)"
  by (auto simp: bull_inv_def bull_add_def bull_holds_def list_ex_iff bull_isRunning_def)

lemma inv_send: "bull_inv b \<Longrightarrow> bull_inv (snd (bull_send fault b q p k))"
  using inv_mark [of b False] by (auto simp: bull_send_def inv_add split: option.splits)

lemma inv_startWorker: "bull_inv b \<Longrightarrow> bull_startWorker q h conc b = Inr b' \<Longrightarrow> bull_inv b'"
  using startWorker_Inr [of q h conc b b'] by (simp add: bull_inv_def bull_isRunning_def same_link_def)

lemma inv_work: "bull_inv b \<Longrightarrow> bull_inv (snd (bull_work q h conc b))"
  using inv_startWorker [of b q h conc]
  by (auto simp: bull_work_def bull_inv_def bull_isRunning_def split: sum.splits)

text \<open>The producer queues exist from the first successful start until the shutdown.\<close>

definition bull_linked :: "'p bullmq \<Rightarrow> bool" where
  "bull_linked b = (bq_producer b \<noteq> None \<longrightarrow> bq_queues b = all_queue_names)"

lemma linked_start:
  assumes "bull_linked b" "bull_inv b"
  shows "bull_linked (bull_start linked b)"
proof (cases "linked \<and> \<not> bq_destroyed b")
  case True
  let ?b = "b\<lparr>bq_producer := Some RReady, bq_queues := all_queue_names, bq_responsive := True,
           bq_probeTimer := True, bq_pendingWorkers := []\<rparr>"
  have d: "distinct (map bw_queue (bq_workers ?b))" using assms by (simp add: bull_inv_def)
  have eq: "bull_start linked b = bull_registerAll (bq_pendingWorkers b) ?b"
    using True by (simp add: bull_start_def bull_registerPendingWorkers_def)
  from registerAll_facts [OF d, of "bq_pendingWorkers b"]
  show ?thesis unfolding eq by (simp add: bull_linked_def same_link_def)
next
  case False
  then show ?thesis using assms
    by (auto simp: bull_start_def bull_linked_def bull_scheduleRetry_def Let_def)
qed

lemma linked_send: "bull_linked b \<Longrightarrow> bull_linked (snd (bull_send fault b q p k))"
  by (auto simp: bull_send_def bull_linked_def bull_markResponsive_def bull_add_def split: option.splits)

lemma linked_work: "bull_linked b \<Longrightarrow> bull_linked (snd (bull_work q h conc b))"
proof (cases "bull_startWorker q h conc b")
  case (Inr b')
  then show "bull_linked b \<Longrightarrow> bull_linked (snd (bull_work q h conc b))"
    using startWorker_Inr(3) [OF Inr] by (simp add: bull_work_def bull_linked_def same_link_def)
qed (simp add: bull_work_def bull_linked_def)

definition bull_good :: "'p bullmq \<Rightarrow> bool" where
  "bull_good b = (bull_inv b \<and> bull_linked b)"

lemma good_step:
  assumes "bull_good b" "bull_step b b'"
  shows "bull_good b'"
  using assms(2,1)
proof cases
  case (step_start linked)
  then show ?thesis using assms(1) inv_start linked_start by (auto simp: bull_good_def)
next
  case (step_retry t linked)
  have "bull_good (b\<lparr>bq_retryTimer := None\<rparr>)"
    using assms(1) by (simp add: bull_good_def bull_inv_def bull_linked_def bull_isRunning_def)
  then show ?thesis using step_retry(1) inv_start linked_start
    by (auto simp: bull_good_def bull_retry_def)
next
  case (step_probe answered)
  then show ?thesis using assms(1) inv_mark [of b answered]
    by (auto simp: bull_good_def bull_probe_def bull_linked_def bull_markResponsive_def)
next
  case step_lost
  then show ?thesis using assms(1)
    by (auto simp: bull_good_def bull_reconnecting_def bull_inv_def bull_linked_def
        bull_markResponsive_def bull_isRunning_def Let_def)
next
  case (step_ready answered)
  then show ?thesis using assms(1)
    by (auto simp: bull_good_def bull_ready_def bull_probe_def bull_inv_def bull_linked_def
        bull_markResponsive_def bull_isRunning_def Let_def)
next
  case (step_work q h conc r)
  then show ?thesis using assms(1) inv_work [of b q h conc] linked_work [of b q h conc]
    by (simp add: bull_good_def)
next
  case (step_send fault q p k r)
  then show ?thesis using assms(1) inv_send [of b fault q p k] linked_send [of b fault q p k]
    by (simp add: bull_good_def)
next
  case (step_evict keep)
  then show ?thesis using assms(1)
    by (auto simp: bull_good_def bull_inv_def bull_linked_def bull_isRunning_def distinct_map_filter)
next
  case step_destroy
  then show ?thesis using assms(1)
    by (auto simp: bull_good_def bull_onModuleDestroy_def bull_inv_def bull_linked_def bull_isRunning_def)
next
  case step_shutdown
  then show ?thesis using assms(1)
    by (auto simp: bull_good_def bull_beforeShutdown_def bull_inv_def bull_linked_def bull_isRunning_def)
qed

lemma good_init: "bull_good bull_init"
  by (simp add: bull_init_def bull_good_def bull_inv_def bull_linked_def bull_isRunning_def)

interpretation bull_system: transition_system "\<lambda>b. b = bull_init" bull_step bull_good
proof
  show "b = bull_init \<Longrightarrow> bull_good b" for b :: "'a bullmq" by (simp only: good_init)
  show "bull_good b \<Longrightarrow> bull_step b b' \<Longrightarrow> bull_good b'" for b b' :: "'a bullmq"
    by (rule good_step)
qed

lemma destroyed_step: "bull_step b b' \<Longrightarrow> bq_destroyed b \<Longrightarrow> bq_destroyed b'"
proof (induction rule: bull_step.induct)
  case (step_work q h conc b r b')
  show ?case
  proof (cases "bull_startWorker q h conc b")
    case (Inr b1)
    then show ?thesis using step_work startWorker_Inr(3) [OF Inr]
      by (auto simp: bull_work_def same_link_def split: if_splits)
  qed (use step_work in \<open>auto simp: bull_work_def split: if_splits\<close>)
next
  case (step_send fault b q p k r b')
  then show ?case
    by (auto simp: bull_send_def bull_markResponsive_def bull_add_def split: if_splits option.splits)
qed (auto simp: bull_start_def bull_retry_def bull_probe_def bull_reconnecting_def bull_ready_def
      bull_markResponsive_def bull_scheduleRetry_def bull_onModuleDestroy_def bull_beforeShutdown_def Let_def)

lemma destroyed_steps: "bull_step\<^sup>*\<^sup>* b b' \<Longrightarrow> bq_destroyed b \<Longrightarrow> bq_destroyed b'"
  by (induction rule: rtranclp_induct) (auto intro: destroyed_step)

text \<open>In every state BullMQ's transport can reach - over failed and repeated starts, lost
  connections, probes, early and late registrations, sends, evictions and shutdown - there is at
  most one consumer per queue and at most one job per queue and key, and a running transport has
  all its producer queues.\<close>

theorem bull_reachable:
  assumes "bull_step\<^sup>*\<^sup>* bull_init b"
  shows "distinct (map bw_queue (bq_workers b)) \<and> distinct (map (\<lambda>j. (qj_queue j, qj_key j)) (bq_jobs b)) \<and>
    (bull_isRunning b \<longrightarrow> bq_queues b = all_queue_names)"
  using bull_system.good_reachable [OF refl assms] by (simp add: bull_good_def bull_inv_def)

theorem bull_reachable_witness:
  "distinct (map bw_queue (bq_workers (bull_start True (bull_init :: nat bullmq))))"
proof -
  have "bull_step\<^sup>*\<^sup>* (bull_init :: nat bullmq) (bull_start True bull_init)"
    by (intro r_into_rtranclp bull_step.step_start)
  from bull_reachable [OF this] show ?thesis by blast
qed

text \<open>Shutdown is final: once the module is destroyed, no later event makes the transport run
  again or leaves a retry scheduled, so the dispatcher hands nothing more to it.\<close>

theorem bull_shutdown_final:
  assumes "bull_step\<^sup>*\<^sup>* bull_init b" "bull_step\<^sup>*\<^sup>* (bull_onModuleDestroy b) b'"
  shows "\<not> bull_isRunning b' \<and> bq_retryTimer b' = None \<and> (\<exists>e. bull_send fault b' q p k = (Some e, b'))"
proof -
  have d: "bq_destroyed b'"
    using destroyed_steps [OF assms(2)] by (simp add: bull_onModuleDestroy_def)
  have "bull_good b'"
    using bull_system.good_steps [OF assms(2)] bull_system.good_move
      [OF bull_system.good_reachable [OF refl assms(1)] bull_step.step_destroy] by blast
  then have "bq_retryTimer b' = None" using d by (simp add: bull_good_def bull_inv_def)
  moreover have "\<not> bull_isRunning b'" using d by (simp add: bull_isRunning_def)
  ultimately show ?thesis using bull.send_down [of b' fault q p] by blast
qed

theorem bull_shutdown_final_witness:
  "\<not> bull_isRunning (bull_start False (bull_onModuleDestroy (bull_init :: nat bullmq)))"
proof -
  have "bull_step\<^sup>*\<^sup>* (bull_onModuleDestroy (bull_init :: nat bullmq))
      (bull_start False (bull_onModuleDestroy bull_init))"
    by (intro r_into_rtranclp bull_step.step_start)
  from bull_shutdown_final [OF rtranclp.rtrancl_refl this] show ?thesis by blast
qed

end
