(* ===== verification/Outbox.thy ===== *)
theory Outbox
  imports Db Transaction "HOL-Library.Multiset"
begin

text \<open>
  The transactional outbox of \<open>packages/database/src/outbox.ts\<close>: creating events inside a
  transaction, claiming them with \<open>FOR UPDATE SKIP LOCKED\<close>, and recovering expired leases. The
  rows other sessions hold locked while a claim runs are an argument of the claim.
\<close>

section \<open>Creating events\<close>

record outbox_params =
  op_workspaceId :: id
  op_eventType :: string
  op_payload :: json
  op_correlationId :: string
  op_causationId :: "string option"
  op_actorId :: "string option"
  op_traceparent :: "string option"
  op_scheduledAt :: "int option"

text \<open>\<open>x ? {f: x} : {}\<close>: an empty string counts as missing.\<close>

fun nonempty :: "string option \<Rightarrow> string option" where
  "nonempty (Some []) = None"
| "nonempty s = s"

definition outbox_row :: "id \<Rightarrow> int \<Rightarrow> outbox_params \<Rightarrow> outbox_event" where
  "outbox_row i now p = \<lparr>oe_id = i, oe_workspaceId = op_workspaceId p, oe_eventType = op_eventType p,
     oe_payload = op_payload p, oe_status = OPending, oe_correlationId = Some (op_correlationId p),
     oe_causationId = nonempty (op_causationId p), oe_actorId = nonempty (op_actorId p),
     oe_traceparent = nonempty (op_traceparent p), oe_retryCount = 0, oe_lastError = None,
     oe_claimedAt = None, oe_claimLeaseExpiresAt = None, oe_claimedBy = None, oe_dispatchedAt = None,
     oe_scheduledAt = (case op_scheduledAt p of None \<Rightarrow> now | Some t \<Rightarrow> t), oe_processedAt = None,
     oe_createdAt = now, oe_updatedAt = now\<rparr>"

definition createOutboxEvent :: "id \<Rightarrow> int \<Rightarrow> outbox_params \<Rightarrow> outbox_event tx" where
  "createOutboxEvent i now p = thenT (insert_outbox (outbox_row i now p)) (returnT (outbox_row i now p))"

fun persist_outbox :: "id list \<Rightarrow> int \<Rightarrow> outbox_params list \<Rightarrow> outbox_event list tx" where
  "persist_outbox (i # ids) now (p # ps) =
     bindT (createOutboxEvent i now p) (\<lambda>r. bindT (persist_outbox ids now ps) (\<lambda>rs. returnT (r # rs)))"
| "persist_outbox _ _ _ = returnT []"

text \<open>\<open>gen\<close> supplies one generated id per event.\<close>

definition outbox_tx :: "(nat \<Rightarrow> id) \<Rightarrow> int \<Rightarrow> ('a \<times> outbox_params list) tx \<Rightarrow> ('a \<times> outbox_event list) tx" where
  "outbox_tx gen now operation =
     bindT operation (\<lambda>(result, outbox).
       bindT (persist_outbox (map gen [0..<length outbox]) now outbox) (\<lambda>rows. returnT (result, rows)))"

definition withTransactionalOutbox ::
  "tx_policy \<Rightarrow> tx_env \<Rightarrow> (nat \<Rightarrow> id) \<Rightarrow> int \<Rightarrow> ('a \<times> outbox_params list) tx \<Rightarrow> db
     \<Rightarrow> (err + 'a \<times> outbox_event list) \<times> db \<times> nat \<times> int list" where
  "withTransactionalOutbox p env gen now operation = withTransaction p env (outbox_tx gen now operation)"

section \<open>Claiming\<close>

definition claimable :: "int \<Rightarrow> id list \<Rightarrow> outbox_event \<Rightarrow> bool" where
  "claimable now locked e = (oe_status e = OPending \<and> oe_scheduledAt e \<le> now \<and> oe_id e \<notin> set locked)"

definition claim_selection :: "int \<Rightarrow> id list \<Rightarrow> nat \<Rightarrow> outbox_event list \<Rightarrow> id list" where
  "claim_selection now locked limit rows =
     map oe_id (take limit (sort_key oe_scheduledAt (filter (claimable now locked) rows)))"

definition claim_row :: "int \<Rightarrow> string \<Rightarrow> nat \<Rightarrow> outbox_event \<Rightarrow> outbox_event" where
  "claim_row now worker lease e = e\<lparr>oe_status := OProcessing, oe_claimedBy := Some worker,
     oe_claimedAt := Some now, oe_claimLeaseExpiresAt := Some (now + int lease * 1000), oe_updatedAt := now\<rparr>"

definition claimPendingOutboxEvents ::
  "int \<Rightarrow> id list \<Rightarrow> string \<Rightarrow> nat \<Rightarrow> nat \<Rightarrow> db \<Rightarrow> outbox_event list \<times> db" where
  "claimPendingOutboxEvents now locked worker limit lease d =
     (let ids = claim_selection now locked limit (db_outbox d);
          rows = update_where (\<lambda>e. oe_id e \<in> set ids) (claim_row now worker lease) (db_outbox d)
      in (filter (\<lambda>e. oe_id e \<in> set ids) rows, d\<lparr>db_outbox := rows\<rparr>))"

section \<open>Recovering leases\<close>

definition lease_expired :: "int \<Rightarrow> outbox_event \<Rightarrow> bool" where
  "lease_expired now e = (oe_status e = OProcessing \<and>
     (case oe_claimLeaseExpiresAt e of None \<Rightarrow> False | Some t \<Rightarrow> t < now))"

definition recover_row :: "int \<Rightarrow> outbox_event \<Rightarrow> outbox_event" where
  "recover_row now e = e\<lparr>oe_status := OPending, oe_claimedBy := None, oe_claimedAt := None,
     oe_claimLeaseExpiresAt := None, oe_retryCount := oe_retryCount e + 1,
     oe_lastError := Some ''Lease expired without completion (worker recovery)'', oe_updatedAt := now\<rparr>"

definition bury_row :: "int \<Rightarrow> outbox_event \<Rightarrow> outbox_event" where
  "bury_row now e = e\<lparr>oe_status := ODeadLetter, oe_claimedBy := None, oe_claimLeaseExpiresAt := None,
     oe_lastError := Some ''Exceeded maximum retries upon lease expiration'', oe_updatedAt := now\<rparr>"

text \<open>Two statements, one after the other; the counts are the rows each of them returned.\<close>

definition recoverExpiredOutboxLeases :: "int \<Rightarrow> nat \<Rightarrow> db \<Rightarrow> (nat \<times> nat) \<times> db" where
  "recoverExpiredOutboxLeases now maxRetries d =
     (let young = (\<lambda>e. lease_expired now e \<and> oe_retryCount e < maxRetries);
          rows1 = update_where young (recover_row now) (db_outbox d);
          old = (\<lambda>e. lease_expired now e \<and> oe_retryCount e \<ge> maxRetries);
          rows2 = update_where old (bury_row now) rows1
      in ((count_where young (db_outbox d), count_where old rows1), d\<lparr>db_outbox := rows2\<rparr>))"

section \<open>Facts\<close>

lemma outbox_row_simps [simp]:
  "oe_id (outbox_row i now p) = i" "oe_status (outbox_row i now p) = OPending"
  "oe_retryCount (outbox_row i now p) = 0" "oe_eventType (outbox_row i now p) = op_eventType p"
  "oe_payload (outbox_row i now p) = op_payload p"
  by (simp_all add: outbox_row_def)

lemma createOutboxEvent_Inr:
  "createOutboxEvent i now p d = Inr (r, d') \<longleftrightarrow>
     i \<notin> oe_id ` set (db_outbox d) \<and> r = outbox_row i now p \<and>
     d' = d\<lparr>db_outbox := db_outbox d @ [outbox_row i now p]\<rparr>"
  by (auto simp: createOutboxEvent_def thenT_def bindT_def insert_outbox_def returnT_def list_ex_iff)

lemma persist_outbox_Inr:
  "persist_outbox ids now ps d = Inr (rs, d') \<Longrightarrow> length ids = length ps \<Longrightarrow>
     rs = map2 (\<lambda>i p. outbox_row i now p) ids ps \<and> d' = d\<lparr>db_outbox := db_outbox d @ rs\<rparr> \<and>
     set ids \<inter> oe_id ` set (db_outbox d) = {} \<and> distinct ids"
proof (induction ids now ps arbitrary: d rs d' rule: persist_outbox.induct)
  case (1 i ids now p ps)
  from 1(2) obtain d1 rs1 where
    new: "i \<notin> oe_id ` set (db_outbox d)" and d1: "d1 = d\<lparr>db_outbox := db_outbox d @ [outbox_row i now p]\<rparr>" and
    rec: "persist_outbox ids now ps d1 = Inr (rs1, d')" and rs: "rs = outbox_row i now p # rs1"
    by (auto simp: bindT_Inr createOutboxEvent_Inr)
  from 1(1) [OF rec] 1(3) have
    "rs1 = map2 (\<lambda>i p. outbox_row i now p) ids ps" "d' = d1\<lparr>db_outbox := db_outbox d1 @ rs1\<rparr>"
    "set ids \<inter> oe_id ` set (db_outbox d1) = {}" "distinct ids" by simp_all
  then show ?case using new rs by (auto simp: d1)
qed (auto simp: returnT_def)

lemma outbox_tx_Inr:
  assumes "outbox_tx gen now operation d = Inr ((a, rs), d')"
  shows "\<exists>outbox d1. operation d = Inr ((a, outbox), d1) \<and> map oe_payload rs = map op_payload outbox \<and>
    map oe_eventType rs = map op_eventType outbox \<and> (\<forall>r\<in>set rs. oe_status r = OPending) \<and>
    d' = d1\<lparr>db_outbox := db_outbox d1 @ rs\<rparr>"
proof -
  from assms obtain outbox d1 where op: "operation d = Inr ((a, outbox), d1)" and
    per: "persist_outbox (map gen [0..<length outbox]) now outbox d1 = Inr (rs, d')"
    by (auto simp: outbox_tx_def bindT_Inr)
  from persist_outbox_Inr [OF per] have
    rs: "rs = map2 (\<lambda>i p. outbox_row i now p) (map gen [0..<length outbox]) outbox" and
    d': "d' = d1\<lparr>db_outbox := db_outbox d1 @ rs\<rparr>" by simp_all
  have "map oe_payload rs = map op_payload outbox" "map oe_eventType rs = map op_eventType outbox"
    by (rule nth_equalityI; simp add: rs)+
  moreover have "\<forall>r\<in>set rs. oe_status r = OPending" by (auto simp: rs set_zip)
  ultimately show ?thesis using op d' by blast
qed

text \<open>C7: A domain change and its outbox events commit together or not at all: on success the final
  state is the callback's own, with exactly its events appended as PENDING rows; on an error,
  whatever the callback had done, no change of it is left. (No other session intervenes here.)\<close>

theorem transactional_outbox_atomic:
  assumes "withTransactionalOutbox p env gen now operation d = (r, d', n, delays)"
    and "\<And>i s. te_drift env i s = s"
  shows "case r of Inl e \<Rightarrow> d' = d
    | Inr (a, rows) \<Rightarrow> \<exists>outbox d1. operation d = Inr ((a, outbox), d1) \<and>
        map oe_payload rows = map op_payload outbox \<and> map oe_eventType rows = map op_eventType outbox \<and>
        (\<forall>row\<in>set rows. oe_status row = OPending) \<and> d' = d1\<lparr>db_outbox := db_outbox d1 @ rows\<rparr>"
proof -
  note res = tx_loop_result [of p env "outbox_tx gen now operation" 1 d r d' n delays]
  have "case r of Inr a \<Rightarrow> outbox_tx gen now operation d = Inr (a, d') | Inl e \<Rightarrow> d' = d"
    using res assms(1) drifted_calm [OF assms(2)]
    unfolding withTransactionalOutbox_def withTransaction_def by (auto split: sum.splits)
  then show ?thesis using outbox_tx_Inr by (cases r) (auto split: prod.splits)
qed

theorem transactional_outbox_atomic_witness:
  "snd (snd (snd (withTransactionalOutbox default_tx_policy calm_env (\<lambda>_. ''e1'') 5
      (returnT ((), [\<lparr>op_workspaceId = ''w'', op_eventType = ''message.x'', op_payload = JNull,
         op_correlationId = ''c'', op_causationId = None, op_actorId = None, op_traceparent = None,
         op_scheduledAt = None\<rparr>])) empty_db))) = [] \<and>
   (\<exists>r d' n ds. withTransactionalOutbox default_tx_policy calm_env (\<lambda>_. ''e1'') 5
      (throwT (ApiFailure 409 ''X'' ''x'') :: (unit \<times> outbox_params list) tx) empty_db = (r, d', n, ds) \<and> d' = empty_db)"
proof
  let ?w = "withTransactionalOutbox default_tx_policy calm_env (\<lambda>_. ''e1'') 5
      (throwT (ApiFailure 409 ''X'' ''x'') :: (unit \<times> outbox_params list) tx) empty_db"
  obtain r d' n ds where run: "?w = (r, d', n, ds)" by (metis prod_cases4)
  have *: "case r of Inl e \<Rightarrow> d' = empty_db
    | Inr (a, rows) \<Rightarrow> \<exists>outbox d1. (throwT (ApiFailure 409 ''X'' ''x'') :: (unit \<times> outbox_params list) tx) empty_db = Inr ((a, outbox), d1) \<and>
        map oe_payload rows = map op_payload outbox \<and> map oe_eventType rows = map op_eventType outbox \<and>
        (\<forall>row\<in>set rows. oe_status row = OPending) \<and> d' = d1\<lparr>db_outbox := db_outbox d1 @ rows\<rparr>"
    by (rule transactional_outbox_atomic [OF run]) (simp add: calm_env_def)
  then have "d' = empty_db" by (auto split: sum.splits)
  with run show "\<exists>r d' n ds. ?w = (r, d', n, ds) \<and> d' = empty_db" by blast
qed (simp add: withTransactionalOutbox_def withTransaction_def tx_loop.simps run_attempt_def runTx_def
    outbox_tx_def bindT_def returnT_def createOutboxEvent_def thenT_def insert_outbox_def empty_db_def
    calm_env_def)

section \<open>Claims\<close>

lemma claim_row_simps [simp]:
  "oe_id (claim_row now w l e) = oe_id e" "oe_scheduledAt (claim_row now w l e) = oe_scheduledAt e"
  "oe_status (claim_row now w l e) = OProcessing" "oe_claimedBy (claim_row now w l e) = Some w"
  "oe_retryCount (claim_row now w l e) = oe_retryCount e" "oe_eventType (claim_row now w l e) = oe_eventType e"
  "oe_claimLeaseExpiresAt (claim_row now w l e) = Some (now + int l * 1000)"
  by (simp_all add: claim_row_def)

lemma recover_row_simps [simp]:
  "oe_id (recover_row now e) = oe_id e" "oe_status (recover_row now e) = OPending"
  "oe_retryCount (recover_row now e) = oe_retryCount e + 1" "oe_eventType (recover_row now e) = oe_eventType e"
  by (simp_all add: recover_row_def)

lemma bury_row_simps [simp]:
  "oe_id (bury_row now e) = oe_id e" "oe_status (bury_row now e) = ODeadLetter"
  "oe_retryCount (bury_row now e) = oe_retryCount e" "oe_eventType (bury_row now e) = oe_eventType e"
  by (simp_all add: bury_row_def)

lemma selection_subset:
  "i \<in> set (claim_selection now locked limit rows) \<Longrightarrow>
     \<exists>e\<in>set rows. oe_id e = i \<and> claimable now locked e"
  using set_take_subset [of limit "sort_key oe_scheduledAt (filter (claimable now locked) rows)"]
  by (auto simp: claim_selection_def)

lemma distinct_map_sort_key: "distinct (map f (sort_key k xs)) = distinct (map f xs)"
  by (rule mset_eq_imp_distinct_iff) (simp add: mset_map)

lemma selection_distinct:
  "distinct (map oe_id rows) \<Longrightarrow> distinct (claim_selection now locked limit rows)"
  unfolding claim_selection_def take_map [symmetric]
  by (rule distinct_take) (simp add: distinct_map_sort_key distinct_map_filter)

lemma distinct_ids_eq: "distinct (map oe_id rows) \<Longrightarrow> e \<in> set rows \<Longrightarrow> e' \<in> set rows \<Longrightarrow> oe_id e = oe_id e' \<Longrightarrow> e = e'"
  by (metis distinct_map inj_onD)

lemma selection_claimable:
  assumes "distinct (map oe_id rows)" "e \<in> set rows" "oe_id e \<in> set (claim_selection now locked limit rows)"
  shows "claimable now locked e"
  using selection_subset [OF assms(3)] assms(1,2) distinct_ids_eq by metis

lemma claim_rows_set:
  assumes "claimPendingOutboxEvents now locked w limit lease d = (rs, d')"
  shows "set rs = claim_row now w lease `
      {e \<in> set (db_outbox d). oe_id e \<in> set (claim_selection now locked limit (db_outbox d))}"
    "db_outbox d' = update_where (\<lambda>e. oe_id e \<in> set (claim_selection now locked limit (db_outbox d)))
       (claim_row now w lease) (db_outbox d)"
  using assms by (auto simp: claimPendingOutboxEvents_def Let_def update_where_def)

lemma claimed_id:
  assumes "claimPendingOutboxEvents now locked w limit lease d = (rs, d')" "e \<in> set (db_outbox d)"
    and "oe_id e \<in> set (claim_selection now locked limit (db_outbox d))"
  shows "oe_id e \<in> oe_id ` set rs"
proof -
  have "claim_row now w lease e \<in> set rs"
    unfolding claim_rows_set(1) [OF assms(1)] using assms(2,3) by blast
  then show ?thesis by (rule image_eqI [rotated]) simp
qed

lemma selection_length: "length (claim_selection now locked limit rows) \<le> limit"
  by (simp add: claim_selection_def)

lemma filter_ids_length:
  "distinct (map oe_id rows) \<Longrightarrow> length (filter (\<lambda>e. oe_id e \<in> S) rows) = card (oe_id ` set rows \<inter> S)"
proof -
  assume d: "distinct (map oe_id rows)"
  have "length (filter (\<lambda>e. oe_id e \<in> S) rows) = length (map oe_id (filter (\<lambda>e. oe_id e \<in> S) rows))" by simp
  also have "\<dots> = card (set (map oe_id (filter (\<lambda>e. oe_id e \<in> S) rows)))"
    using d by (simp add: distinct_card distinct_map_filter del: length_map set_map)
  also have "set (map oe_id (filter (\<lambda>e. oe_id e \<in> S) rows)) = oe_id ` set rows \<inter> S" by auto
  finally show ?thesis .
qed

lemma claim_length:
  assumes "claimPendingOutboxEvents now locked w limit lease d = (rs, d')" "distinct (map oe_id (db_outbox d))"
  shows "length rs = length (claim_selection now locked limit (db_outbox d))"
proof -
  let ?sel = "claim_selection now locked limit (db_outbox d)"
  let ?P = "\<lambda>e. oe_id e \<in> set ?sel"
  have rs: "rs = update_where ?P (claim_row now w lease) (filter ?P (db_outbox d))"
    using assms(1) by (auto simp: claimPendingOutboxEvents_def Let_def filter_update_where)
  have ds: "distinct ?sel" by (rule selection_distinct [OF assms(2)])
  have "length rs = card (oe_id ` set (db_outbox d) \<inter> set ?sel)"
    by (simp add: rs filter_ids_length [OF assms(2)])
  also have "oe_id ` set (db_outbox d) \<inter> set ?sel = set ?sel" using selection_subset by fast
  also have "card (set ?sel) = length ?sel" by (rule distinct_card [OF ds])
  finally show ?thesis .
qed

lemma selection_oldest:
  assumes "e \<in> set rows" "claimable now locked e" "oe_id e \<notin> set (claim_selection now locked limit rows)"
    and "i \<in> set (claim_selection now locked limit rows)"
  shows "\<exists>x\<in>set rows. oe_id x = i \<and> oe_scheduledAt x \<le> oe_scheduledAt e"
proof -
  let ?s = "sort_key oe_scheduledAt (filter (claimable now locked) rows)"
  have "e \<in> set ?s" using assms(1,2) by simp
  then have "e \<in> set (take limit ?s @ drop limit ?s)" by simp
  then have e: "e \<in> set (drop limit ?s)" using assms(3) by (auto simp only: claim_selection_def set_append set_map)
  obtain x where x: "x \<in> set (take limit ?s)" "oe_id x = i"
    using assms(4) by (auto simp: claim_selection_def)
  have "sorted (map oe_scheduledAt (take limit ?s @ drop limit ?s))" by simp
  then have "oe_scheduledAt x \<le> oe_scheduledAt e"
    using x(1) e by (simp only: map_append sorted_append) auto
  moreover have "x \<in> set rows" using set_take_subset [of limit ?s] x(1) by auto
  ultimately show ?thesis using x(2) by blast
qed

lemma selection_full:
  assumes "e \<in> set rows" "claimable now locked e" "oe_id e \<notin> set (claim_selection now locked limit rows)"
  shows "length (claim_selection now locked limit rows) = limit"
proof -
  let ?s = "sort_key oe_scheduledAt (filter (claimable now locked) rows)"
  have "limit \<le> length ?s"
  proof (rule ccontr)
    assume "\<not> limit \<le> length ?s"
    then have "take limit ?s = ?s" by simp
    moreover have "e \<in> set ?s" using assms(1,2) by simp
    ultimately show False using assms(3) by (simp add: claim_selection_def)
  qed
  then show ?thesis by (simp add: claim_selection_def)
qed

text \<open>C6: A claim returns at most \<open>limit\<close> rows, each of them PENDING, due and not locked before, and
  now PROCESSING under the worker's lease; and it is fair: it leaves a claimable row behind only
  when the batch is full and every claimed row was scheduled no later than that one.\<close>

theorem claim_exact:
  assumes "claimPendingOutboxEvents now locked worker limit lease d = (rs, d')"
    and "distinct (map oe_id (db_outbox d))"
  shows "length rs \<le> limit \<and>
    (\<forall>r\<in>set rs. \<exists>e\<in>set (db_outbox d). claimable now locked e \<and> r = claim_row now worker lease e) \<and>
    (\<forall>e\<in>set (db_outbox d). claimable now locked e \<and> oe_id e \<notin> oe_id ` set rs \<longrightarrow>
       length rs = limit \<and> (\<forall>r\<in>set rs. oe_scheduledAt r \<le> oe_scheduledAt e))"
proof (intro conjI ballI impI)
  note rs = claim_rows_set(1) [OF assms(1)]
  note len = claim_length [OF assms]
  show "length rs \<le> limit" using len selection_length by simp
  show "\<exists>e\<in>set (db_outbox d). claimable now locked e \<and> r = claim_row now worker lease e" if m: "r \<in> set rs" for r
  proof -
    obtain x where x: "x \<in> set (db_outbox d)" "r = claim_row now worker lease x"
        "oe_id x \<in> set (claim_selection now locked limit (db_outbox d))" using m rs by auto
    then show ?thesis using selection_claimable [OF assms(2) x(1,3)] by blast
  qed
  fix e assume e: "e \<in> set (db_outbox d)" "claimable now locked e \<and> oe_id e \<notin> oe_id ` set rs"
  then have out: "oe_id e \<notin> set (claim_selection now locked limit (db_outbox d))"
    using claimed_id [OF assms(1) e(1)] by blast
  show "length rs = limit" using len selection_full [OF e(1) _ out] e(2) by simp
  fix r assume "r \<in> set rs"
  then obtain x where x: "x \<in> set (db_outbox d)" "r = claim_row now worker lease x"
      "oe_id x \<in> set (claim_selection now locked limit (db_outbox d))" using rs by auto
  then show "oe_scheduledAt r \<le> oe_scheduledAt e"
    using selection_oldest [OF e(1) _ out x(3)] e(2) distinct_ids_eq [OF assms(2)] by fastforce
qed

definition sample_event :: "id \<Rightarrow> int \<Rightarrow> outbox_event" where
  "sample_event i t = outbox_row i t \<lparr>op_workspaceId = ''w'', op_eventType = ''webhook.received'',
     op_payload = JNull, op_correlationId = ''c'', op_causationId = None, op_actorId = None,
     op_traceparent = None, op_scheduledAt = None\<rparr>"

lemma sample_event_simps [simp]:
  "oe_id (sample_event i t) = i" "oe_status (sample_event i t) = OPending"
  "oe_scheduledAt (sample_event i t) = t" "oe_retryCount (sample_event i t) = 0"
  "oe_eventType (sample_event i t) = ''webhook.received''" "oe_claimLeaseExpiresAt (sample_event i t) = None"
  by (simp_all add: sample_event_def outbox_row_def)

definition sample_db :: db where
  "sample_db = empty_db\<lparr>db_outbox := [sample_event ''a'' 2, sample_event ''b'' 1]\<rparr>"

theorem claim_exact_witness:
  "\<exists>rs d'. claimPendingOutboxEvents 5 [] ''w1'' 1 60 sample_db = (rs, d') \<and> length rs \<le> 1"
proof -
  obtain rs d' where run: "claimPendingOutboxEvents 5 [] ''w1'' 1 60 sample_db = (rs, d')" by force
  have "distinct (map oe_id (db_outbox sample_db))" by (simp add: sample_db_def)
  from claim_exact [OF run this] run show ?thesis by blast
qed



text \<open>Lease recovery treats every expired lease and nothing else: below the retry limit the event
  returns to PENDING with one more attempt on its count, at the limit it is dead-lettered, the
  counts are those of the two groups, and no expired lease is left.\<close>

theorem lease_recovery_exact:
  "recoverExpiredOutboxLeases now maxRetries d =
     ((count_where (\<lambda>e. lease_expired now e \<and> oe_retryCount e < maxRetries) (db_outbox d),
       count_where (\<lambda>e. lease_expired now e \<and> oe_retryCount e \<ge> maxRetries) (db_outbox d)),
      d\<lparr>db_outbox := map (\<lambda>e. if lease_expired now e
          then (if oe_retryCount e < maxRetries then recover_row now e else bury_row now e) else e)
        (db_outbox d)\<rparr>) \<and>
   \<not> list_ex (lease_expired now) (db_outbox (snd (recoverExpiredOutboxLeases now maxRetries d)))"
proof -
  have pend: "\<not> lease_expired now (recover_row now e)" "\<not> lease_expired now (bury_row now e)" for e
    by (simp_all add: lease_expired_def)
  have rows: "update_where (\<lambda>e. lease_expired now e \<and> oe_retryCount e \<ge> maxRetries) (bury_row now)
      (update_where (\<lambda>e. lease_expired now e \<and> oe_retryCount e < maxRetries) (recover_row now) es) =
      map (\<lambda>e. if lease_expired now e
          then (if oe_retryCount e < maxRetries then recover_row now e else bury_row now e) else e) es" for es
    by (induction es) (auto simp: pend)
  have cnt: "count_where (\<lambda>e. lease_expired now e \<and> oe_retryCount e \<ge> maxRetries)
      (update_where (\<lambda>e. lease_expired now e \<and> oe_retryCount e < maxRetries) (recover_row now) es) =
      count_where (\<lambda>e. lease_expired now e \<and> oe_retryCount e \<ge> maxRetries) es" for es
    by (induction es) (auto simp: pend count_where_def)
  have main: "recoverExpiredOutboxLeases now maxRetries d =
     ((count_where (\<lambda>e. lease_expired now e \<and> oe_retryCount e < maxRetries) (db_outbox d),
       count_where (\<lambda>e. lease_expired now e \<and> oe_retryCount e \<ge> maxRetries) (db_outbox d)),
      d\<lparr>db_outbox := map (\<lambda>e. if lease_expired now e
          then (if oe_retryCount e < maxRetries then recover_row now e else bury_row now e) else e)
        (db_outbox d)\<rparr>)"
    by (simp add: recoverExpiredOutboxLeases_def Let_def rows cnt)
  then show ?thesis by (auto simp: list_ex_iff pend)
qed

end
