(* ===== verification/OutboxDispatch.thy ===== *)
theory OutboxDispatch
  imports Outbox JobTransport
begin

text \<open>
  The outbox dispatcher of \<open>apps/worker/src/outbox/outbox-dispatcher.service.ts\<close>: routing of event
  types to queues, the poll that claims events and hands each to the job transport under its
  deterministic key, the release of events not handed over, and lease recovery. The transport is
  the pair of its \<open>isRunning\<close> and \<open>send\<close>; what happens around the loop (queue changes, shutdown,
  database faults, clock) is the environment of the poll.
\<close>

section \<open>Routing\<close>

definition QUEUE_BY_EVENT_PREFIX :: "(string \<times> queue_name) list" where
  "QUEUE_BY_EVENT_PREFIX =
    [(''message.'', MESSAGES_OUTBOUND), (''webhook.'', WEBHOOKS_PROCESS),
     (''campaign.'', CAMPAIGNS_DISPATCH), (''conversation.'', CONVERSATIONS_ROUTE),
     (''ai.'', AI_GENERATE), (''audit.'', AUDIT_EXPORT)]"

definition outboxJobKey :: "id \<Rightarrow> string" where
  "outboxJobKey eventId = ''outbox-'' @ eventId"

definition queueForEventType :: "string \<Rightarrow> queue_name option" where
  "queueForEventType eventType =
     map_option snd (List.find (\<lambda>pq. startsWith (to_lower eventType) (fst pq)) QUEUE_BY_EVENT_PREFIX)"

definition dispatch_queue :: "outbox_event \<Rightarrow> queue_name" where
  "dispatch_queue e = (case queueForEventType (oe_eventType e) of Some q \<Rightarrow> q | None \<Rightarrow> MESSAGES_OUTBOUND)"

definition MAX_DISPATCH_ATTEMPTS :: nat where "MAX_DISPATCH_ATTEMPTS = 5"

definition CLAIM_BATCH_SIZE :: nat where "CLAIM_BATCH_SIZE = 50"

definition CLAIM_LEASE_SECONDS :: nat where "CLAIM_LEASE_SECONDS = 60"

definition dispatch_correlation :: "outbox_event \<Rightarrow> string" where
  "dispatch_correlation e = (case nonempty (oe_correlationId e) of Some c \<Rightarrow> c | None \<Rightarrow> ''evt_'' @ oe_id e)"

definition dispatch_envelope :: "int \<Rightarrow> outbox_event \<Rightarrow> json job_envelope" where
  "dispatch_envelope now e = createJobEnvelope now (oe_id e) (dispatch_queue e) (dispatch_correlation e)
     (Some (oe_workspaceId e)) (oe_payload e) None None None"

section \<open>Row updates\<close>

definition update_outbox :: "id \<Rightarrow> (outbox_event \<Rightarrow> outbox_event) \<Rightarrow> unit tx" where
  "update_outbox i f d =
     (if list_ex (\<lambda>x. oe_id x = i) (db_outbox d)
      then Inr ((), d\<lparr>db_outbox := update_where (\<lambda>x. oe_id x = i) f (db_outbox d)\<rparr>)
      else Inl recordNotFound)"

definition complete_row :: "int \<Rightarrow> outbox_event \<Rightarrow> outbox_event" where
  "complete_row now r = r\<lparr>oe_status := OCompleted, oe_processedAt := Some now, oe_dispatchedAt := Some now,
     oe_claimLeaseExpiresAt := None, oe_updatedAt := now\<rparr>"

text \<open>The attempt cnt that decides is that of the claimed event, the one incremented is the row's.\<close>

definition failed_row :: "int \<Rightarrow> outbox_event \<Rightarrow> string \<Rightarrow> outbox_event \<Rightarrow> outbox_event" where
  "failed_row now e msg r = r\<lparr>
     oe_status := (if oe_retryCount e + 1 \<ge> MAX_DISPATCH_ATTEMPTS then ODeadLetter else OPending),
     oe_retryCount := oe_retryCount r + 1, oe_lastError := Some msg, oe_claimLeaseExpiresAt := None,
     oe_updatedAt := now\<rparr>"

definition released_row :: "int \<Rightarrow> outbox_event \<Rightarrow> outbox_event" where
  "released_row now r = r\<lparr>oe_status := OPending, oe_claimedBy := None, oe_claimedAt := None,
     oe_claimLeaseExpiresAt := None, oe_updatedAt := now\<rparr>"

definition releaseUnattempted :: "int \<Rightarrow> string \<Rightarrow> outbox_event list \<Rightarrow> db \<Rightarrow> db" where
  "releaseUnattempted now worker events d = d\<lparr>db_outbox := update_where
     (\<lambda>r. oe_id r \<in> set (map oe_id events) \<and> oe_status r = OProcessing \<and> oe_claimedBy r = Some worker)
     (released_row now) (db_outbox d)\<rparr>"

section \<open>The poll\<close>

record 'q dispatch_env =
  de_clock :: "nat \<Rightarrow> int"
  de_tick :: "nat \<Rightarrow> 'q \<Rightarrow> 'q"
  de_shuttingDown :: "nat \<Rightarrow> bool"
  de_completeFault :: "nat \<Rightarrow> err option"
  de_failFault :: "nat \<Rightarrow> err option"
  de_claimFault :: "err option"
  de_locked :: "id list"

definition dispatch_error_message :: "err \<Rightarrow> string" where
  "dispatch_error_message e = (if is_error_object e then err_message e else ''Unknown dispatch error'')"

text \<open>One event: the queue's and the database's answers decide between the COMPLETED update, the
  failure update, and a failure update that throws itself and ends the loop (\<open>None\<close>).\<close>

definition mark_completed :: "'q dispatch_env \<Rightarrow> nat \<Rightarrow> outbox_event \<Rightarrow> db \<Rightarrow> err + db" where
  "mark_completed env i e d = (case de_completeFault env i of Some err \<Rightarrow> Inl err
     | None \<Rightarrow> (case update_outbox (oe_id e) (complete_row (de_clock env i)) d of
         Inl err \<Rightarrow> Inl err | Inr (_, d') \<Rightarrow> Inr d'))"

definition mark_failed :: "'q dispatch_env \<Rightarrow> nat \<Rightarrow> outbox_event \<Rightarrow> err \<Rightarrow> db \<Rightarrow> db option" where
  "mark_failed env i e err d = (case de_failFault env i of Some _ \<Rightarrow> None
     | None \<Rightarrow> (case update_outbox (oe_id e)
           (failed_row (de_clock env i) e (dispatch_error_message err)) d of
         Inl _ \<Rightarrow> None | Inr (_, d') \<Rightarrow> Some d'))"

fun dispatch_loop ::
  "('q \<Rightarrow> bool) \<Rightarrow> ('q \<Rightarrow> queue_name \<Rightarrow> json job_envelope \<Rightarrow> string \<Rightarrow> err option \<times> 'q) \<Rightarrow> 'q dispatch_env
    \<Rightarrow> string \<Rightarrow> nat \<Rightarrow> outbox_event list \<Rightarrow> nat \<Rightarrow> db \<Rightarrow> 'q \<Rightarrow> nat \<times> db \<times> 'q" where
  "dispatch_loop running send env worker i [] cnt d q = (cnt, d, q)"
| "dispatch_loop running send env worker i (e # es) cnt d q =
     (let q1 = de_tick env i q in
      if de_shuttingDown env i \<or> \<not> running q1
      then (cnt, releaseUnattempted (de_clock env i) worker (e # es) d, q1)
      else let (r, q2) = send q1 (dispatch_queue e) (dispatch_envelope (de_clock env i) e) (outboxJobKey (oe_id e));
               marked = (case r of Some err \<Rightarrow> Inl err | None \<Rightarrow> mark_completed env i e d)
           in case marked of
                Inr d' \<Rightarrow> dispatch_loop running send env worker (Suc i) es (Suc cnt) d' q2
              | Inl err \<Rightarrow> (case mark_failed env i e err d of
                    None \<Rightarrow> (cnt, d, q2)
                  | Some d' \<Rightarrow> dispatch_loop running send env worker (Suc i) es cnt d' q2))"

record dispatcher =
  dp_workerId :: string
  dp_isProcessing :: bool
  dp_isShuttingDown :: bool
  dp_queueDownReported :: bool

definition pollAndDispatch ::
  "('q \<Rightarrow> bool) \<Rightarrow> ('q \<Rightarrow> queue_name \<Rightarrow> json job_envelope \<Rightarrow> string \<Rightarrow> err option \<times> 'q) \<Rightarrow> 'q dispatch_env
    \<Rightarrow> int \<Rightarrow> dispatcher \<Rightarrow> db \<Rightarrow> 'q \<Rightarrow> nat \<times> dispatcher \<times> db \<times> 'q" where
  "pollAndDispatch running send env now dp d q =
     (if dp_isProcessing dp \<or> dp_isShuttingDown dp then (0, dp, d, q)
      else if \<not> running q then (0, dp\<lparr>dp_queueDownReported := True\<rparr>, d, q)
      else let dp' = dp\<lparr>dp_queueDownReported := False\<rparr> in
        case de_claimFault env of
          Some _ \<Rightarrow> (0, dp', d, q)
        | None \<Rightarrow>
            let (claimed, d1) = claimPendingOutboxEvents now (de_locked env) (dp_workerId dp)
                  CLAIM_BATCH_SIZE CLAIM_LEASE_SECONDS d;
                (n, d2, q2) = dispatch_loop running send env (dp_workerId dp) 0 claimed 0 d1 q
            in (n, dp', d2, q2))"

definition runLeaseRecovery :: "int \<Rightarrow> db \<Rightarrow> db" where
  "runLeaseRecovery now d = snd (recoverExpiredOutboxLeases now MAX_DISPATCH_ATTEMPTS d)"

definition dispatcher_destroy :: "dispatcher \<Rightarrow> dispatcher" where
  "dispatcher_destroy dp = dp\<lparr>dp_isShuttingDown := True\<rparr>"

section \<open>Rows by id\<close>

definition row_of :: "db \<Rightarrow> id \<Rightarrow> outbox_event option" where
  "row_of d i = List.find (\<lambda>e. oe_id e = i) (db_outbox d)"

lemma find_update_id:
  "(\<And>x. oe_id (f x) = oe_id x) \<Longrightarrow> (\<And>x. P x \<Longrightarrow> oe_id x \<in> S) \<Longrightarrow>
   List.find (\<lambda>e. oe_id e = i) (update_where P f rows) =
     map_option (\<lambda>r. if P r then f r else r) (List.find (\<lambda>e. oe_id e = i) rows)"
  by (induction rows) auto

lemma row_fun_ids [simp]:
  "oe_id (complete_row now r) = oe_id r" "oe_id (failed_row now e m r) = oe_id r"
  "oe_id (released_row now r) = oe_id r"
  by (simp_all add: complete_row_def failed_row_def released_row_def)

lemma row_of_id: "row_of d i = Some r \<Longrightarrow> oe_id r = i"
  by (auto simp: row_of_def dest: find_SomeD)

lemma row_of_update:
  assumes "update_outbox i f d = Inr (u, d')" "\<And>x. oe_id (f x) = oe_id x"
  shows "row_of d' j = (if j = i then map_option f (row_of d j) else row_of d j)"
proof -
  have d': "d' = d\<lparr>db_outbox := update_where (\<lambda>x. oe_id x = i) f (db_outbox d)\<rparr>"
    using assms(1) by (auto simp: update_outbox_def split: if_splits)
  have "row_of d' j = map_option (\<lambda>r. if oe_id r = i then f r else r) (row_of d j)"
    by (simp add: d' row_of_def find_update_id [where S = UNIV, OF assms(2)])
  then show ?thesis using row_of_id [of d j] by (cases "row_of d j") auto
qed

lemma row_of_release:
  "row_of (releaseUnattempted now w es d) j = map_option (\<lambda>r.
     if oe_id r \<in> set (map oe_id es) \<and> oe_status r = OProcessing \<and> oe_claimedBy r = Some w
     then released_row now r else r) (row_of d j)"
  by (simp add: releaseUnattempted_def row_of_def find_update_id [where S = UNIV])

text \<open>What a poll may do to the row \<open>r\<close> of the claimed event \<open>e\<close>.\<close>

definition poll_outcome :: "bool \<Rightarrow> bool \<Rightarrow> outbox_event \<Rightarrow> outbox_event \<Rightarrow> outbox_event \<Rightarrow> bool" where
  "poll_outcome held faulty e r r' =
     ((held \<and> (\<exists>now. r' = complete_row now r)) \<or> (\<exists>now. r' = released_row now r) \<or>
      (\<exists>now m. r' = failed_row now e m r) \<or> (faulty \<and> r' = r))"

lemma update_outbox_total: "row_of d i \<noteq> None \<Longrightarrow> \<exists>d'. update_outbox i f d = Inr ((), d')"
  by (auto simp: row_of_def update_outbox_def find_None_iff list_ex_iff)

lemma mark_completed_Inr:
  assumes "mark_completed env i e d = Inr d'"
  shows "row_of d' j = (if j = oe_id e then map_option (complete_row (de_clock env i)) (row_of d j) else row_of d j)"
  using assms row_of_update [of "oe_id e" "complete_row (de_clock env i)" d "()" d']
  by (auto simp: mark_completed_def split: option.splits sum.splits)

lemma mark_failed_Some:
  assumes "mark_failed env i e err d = Some d'"
  shows "row_of d' j = (if j = oe_id e
    then map_option (failed_row (de_clock env i) e (dispatch_error_message err)) (row_of d j) else row_of d j)"
  using assms row_of_update [of "oe_id e" "failed_row (de_clock env i) e (dispatch_error_message err)" d "()" d']
  by (auto simp: mark_failed_def split: option.splits sum.splits)

lemma mark_failed_None:
  assumes "mark_failed env i e err d = None" "row_of d (oe_id e) \<noteq> None"
  shows "\<exists>i. de_failFault env i \<noteq> None"
proof -
  obtain d' where "update_outbox (oe_id e) (failed_row (de_clock env i) e (dispatch_error_message err)) d = Inr ((), d')"
    using update_outbox_total [OF assms(2)] by blast
  then show ?thesis using assms(1) by (auto simp: mark_failed_def split: option.splits)
qed

definition claimed_rows :: "string \<Rightarrow> outbox_event list \<Rightarrow> db \<Rightarrow> bool" where
  "claimed_rows worker es d = (distinct (map oe_id es) \<and>
     (\<forall>e\<in>set es. row_of d (oe_id e) = Some e \<and> oe_status e = OProcessing \<and> oe_claimedBy e = Some worker))"

lemma claimed_rows_tail:
  assumes "claimed_rows w (e # es) d" "\<And>j. j \<noteq> oe_id e \<Longrightarrow> row_of d' j = row_of d j"
  shows "claimed_rows w es d'"
  using assms by (auto simp: claimed_rows_def) (metis imageI)

lemma claim_gives_rows:
  assumes "claimPendingOutboxEvents now locked w limit lease d = (rs, d')" "distinct (map oe_id (db_outbox d))"
  shows "claimed_rows w rs d' \<and> (\<forall>j. j \<notin> oe_id ` set rs \<longrightarrow> row_of d' j = row_of d j)"
proof -
  let ?P = "\<lambda>e. oe_id e \<in> set (claim_selection now locked limit (db_outbox d))"
  have rows: "db_outbox d' = update_where ?P (claim_row now w lease) (db_outbox d)"
    by (rule claim_rows_set(2) [OF assms(1)])
  have rs: "rs = filter ?P (db_outbox d')"
    using assms(1) by (auto simp: claimPendingOutboxEvents_def Let_def)
  have ids: "map oe_id (db_outbox d') = map oe_id (db_outbox d)"
    unfolding rows by (rule map_update_where) simp
  have row: "row_of d' j = map_option (\<lambda>r. if ?P r then claim_row now w lease r else r) (row_of d j)" for j
    unfolding row_of_def rows by (rule find_update_id [where S = UNIV]) simp_all
  have "row_of d' (oe_id e) = Some e" if "e \<in> set (db_outbox d')" for e
  proof -
    have "row_of d' (oe_id e) \<noteq> None" using that by (auto simp: row_of_def find_None_iff)
    then obtain x where x: "row_of d' (oe_id e) = Some x" "x \<in> set (db_outbox d')" "oe_id x = oe_id e"
      by (auto simp: row_of_def dest: find_SomeD)
    have "distinct (map oe_id (db_outbox d'))" unfolding ids by (rule assms(2))
    from distinct_ids_eq [OF this x(2) that x(3)] show ?thesis using x(1) by (simp only:)
  qed
  moreover have "oe_status e = OProcessing \<and> oe_claimedBy e = Some w" if "e \<in> set rs" for e
    using that claim_rows_set(1) [OF assms(1)] by auto
  moreover have "distinct (map oe_id rs)" unfolding rs using ids assms(2) by (simp only: distinct_map_filter)
  moreover have "set rs \<subseteq> set (db_outbox d')" unfolding rs by auto
  ultimately have "claimed_rows w rs d'" unfolding claimed_rows_def by blast
  moreover have "row_of d' j = row_of d j" if "j \<notin> oe_id ` set rs" for j
  proof (cases "row_of d j")
    case (Some r)
    then have r: "oe_id r = j" "r \<in> set (db_outbox d)" by (auto simp: row_of_def dest: find_SomeD)
    have "\<not> ?P r" using that r(1) claimed_id [OF assms(1) r(2)] by blast
    then show ?thesis using row Some by simp
  qed (simp add: row)
  ultimately show ?thesis by blast
qed

section \<open>The poll over any transport\<close>

text \<open>The client's side of the transport contract, over job envelopes.\<close>

locale envelope_transport = job_transport running send jobs
  for running :: "'q \<Rightarrow> bool"
    and send :: "'q \<Rightarrow> queue_name \<Rightarrow> json job_envelope \<Rightarrow> string \<Rightarrow> err option \<times> 'q"
    and jobs :: "'q \<Rightarrow> json job_envelope queued_job list"
begin

lemma dispatch_loop_outcomes:
  assumes "\<And>i q. set (jobs q) \<subseteq> set (jobs (de_tick env i q))"
    and "claimed_rows w es d"
    and "dispatch_loop running send env w i es n d q = (n', d', q')"
  shows "(\<forall>e\<in>set es. \<exists>r'. row_of d' (oe_id e) = Some r' \<and>
      poll_outcome (holds q' (dispatch_queue e) (outboxJobKey (oe_id e))) (\<exists>i. de_failFault env i \<noteq> None) e e r') \<and>
    (\<forall>j. j \<notin> oe_id ` set es \<longrightarrow> row_of d' j = row_of d j) \<and> set (jobs q) \<subseteq> set (jobs q')"
  using assms(2,3)
proof (induction es arbitrary: i n d q)
  case Nil
  then show ?case by simp
next
  case (Cons e es)
  let ?q1 = "de_tick env i q"
  let ?P = "\<lambda>q' e r'. poll_outcome (holds q' (dispatch_queue e) (outboxJobKey (oe_id e)))
    (\<exists>i. de_failFault env i \<noteq> None) e e r'"
  have tick: "set (jobs q) \<subseteq> set (jobs ?q1)" by (rule assms(1))
  have rowe: "row_of d (oe_id e) = Some e" using Cons.prems(1) by (simp add: claimed_rows_def)
  have nin: "oe_id e \<notin> oe_id ` set es" using Cons.prems(1) by (auto simp: claimed_rows_def)
  show ?case
  proof (cases "de_shuttingDown env i \<or> \<not> running ?q1")
    case True
    then have res: "d' = releaseUnattempted (de_clock env i) w (e # es) d" "q' = ?q1"
      using Cons.prems(2) by (simp_all add: Let_def)
    have "row_of d' (oe_id x) = Some (released_row (de_clock env i) x)" if "x \<in> set (e # es)" for x
      using that Cons.prems(1) by (auto simp: res(1) row_of_release claimed_rows_def)
    moreover have "row_of d' j = row_of d j" if "j \<notin> oe_id ` set (e # es)" for j
      using that row_of_id [of d j] by (cases "row_of d j") (auto simp: res(1) row_of_release)
    ultimately show ?thesis using tick res(2) by (auto simp: poll_outcome_def)
  next
    case False
    obtain r q2 where sent: "send ?q1 (dispatch_queue e) (dispatch_envelope (de_clock env i) e)
        (outboxJobKey (oe_id e)) = (r, q2)" by force
    have keep: "set (jobs q) \<subseteq> set (jobs q2)" using tick send_keeps sent by (metis order_trans snd_conv)
    define marked where "marked = (case r of Some err \<Rightarrow> Inl err | None \<Rightarrow> mark_completed env i e d)"
    show ?thesis
    proof (cases marked)
      case (Inr d1)
      then have ok: "r = None" "mark_completed env i e d = Inr d1"
        by (auto simp: marked_def split: option.splits)
      have rec: "dispatch_loop running send env w (Suc i) es (Suc n) d1 q2 = (n', d', q')"
        using Cons.prems(2) False sent Inr by (simp add: Let_def marked_def)
      have d1: "row_of d1 j = (if j = oe_id e then map_option (complete_row (de_clock env i)) (row_of d j) else row_of d j)" for j
        by (rule mark_completed_Inr [OF ok(2)])
      have tl: "claimed_rows w es d1" by (rule claimed_rows_tail [OF Cons.prems(1)]) (simp add: d1)
      note IH = Cons.IH [OF tl rec]
      have "holds q2 (dispatch_queue e) (outboxJobKey (oe_id e))"
        using holds_sent sent ok(1) by blast
      then have "holds q' (dispatch_queue e) (outboxJobKey (oe_id e))"
        using IH unfolding holds_def by blast
      moreover have "row_of d' (oe_id e) = Some (complete_row (de_clock env i) e)"
        using IH nin d1 [of "oe_id e"] rowe by simp
      ultimately have "\<exists>r'. row_of d' (oe_id e) = Some r' \<and> ?P q' e r'"
        unfolding poll_outcome_def by blast
      then show ?thesis using IH keep d1 by auto
    next
      case (Inl err)
      show ?thesis
      proof (cases "mark_failed env i e err d")
        case None
        then have res: "d' = d" "q' = q2"
          using Cons.prems(2) False sent Inl by (simp_all add: Let_def marked_def)
        have "\<exists>i. de_failFault env i \<noteq> None" using mark_failed_None [OF None] rowe by simp
        then show ?thesis using keep Cons.prems(1) by (auto simp: res poll_outcome_def claimed_rows_def)
      next
        case (Some d1)
        have rec: "dispatch_loop running send env w (Suc i) es n d1 q2 = (n', d', q')"
          using Cons.prems(2) False sent Inl Some by (simp add: Let_def marked_def)
        have d1: "row_of d1 j = (if j = oe_id e then map_option (failed_row (de_clock env i) e (dispatch_error_message err)) (row_of d j) else row_of d j)" for j
          by (rule mark_failed_Some [OF Some])
        have tl: "claimed_rows w es d1" by (rule claimed_rows_tail [OF Cons.prems(1)]) (simp add: d1)
        note IH = Cons.IH [OF tl rec]
        have "row_of d' (oe_id e) = Some (failed_row (de_clock env i) e (dispatch_error_message err) e)"
          using IH nin d1 [of "oe_id e"] rowe by simp
        then have "\<exists>r'. row_of d' (oe_id e) = Some r' \<and> ?P q' e r'"
          unfolding poll_outcome_def by blast
        then show ?thesis using IH keep d1 by auto
      qed
    qed
  qed
qed

lemma poll_outcomes:
  assumes "\<And>i q. set (jobs q) \<subseteq> set (jobs (de_tick env i q))"
    and "distinct (map oe_id (db_outbox d))"
    and "pollAndDispatch running send env now dp d q = (n, dp', d', q')"
  shows "row_of d' j = row_of d j \<or>
    (\<exists>e r r'. row_of d j = Some r \<and> oe_status r = OPending \<and> oe_id e = j \<and> oe_status e = OProcessing \<and>
       oe_retryCount e = oe_retryCount r \<and> row_of d' j = Some r' \<and>
       poll_outcome (holds q' (dispatch_queue e) (outboxJobKey j)) (\<exists>i. de_failFault env i \<noteq> None) e e r')"
proof (cases "dp_isProcessing dp \<or> dp_isShuttingDown dp \<or> \<not> running q \<or> de_claimFault env \<noteq> None")
  case True
  then have "d' = d" using assms(3) by (auto simp: pollAndDispatch_def Let_def split: if_splits option.splits)
  then show ?thesis by simp
next
  case False
  obtain claimed d1 where cl: "claimPendingOutboxEvents now (de_locked env) (dp_workerId dp)
      CLAIM_BATCH_SIZE CLAIM_LEASE_SECONDS d = (claimed, d1)" by force
  obtain m d2 q2 where lp: "dispatch_loop running send env (dp_workerId dp) 0 claimed 0 d1 q = (m, d2, q2)"
    by (metis prod_cases3)
  have res: "d' = d2" "q' = q2" using assms(3) False cl lp by (auto simp: pollAndDispatch_def Let_def)
  note rows = claim_gives_rows [OF cl assms(2)]
  note out = dispatch_loop_outcomes [OF assms(1) rows [THEN conjunct1] lp]
  show ?thesis
    proof (cases "j \<in> oe_id ` set claimed")
      case False
      then show ?thesis using out rows res by metis
    next
      case True
      then obtain e where e: "e \<in> set claimed" "oe_id e = j" by blast
      obtain x where x: "x \<in> set (db_outbox d)" "e = claim_row now (dp_workerId dp) CLAIM_LEASE_SECONDS x"
          "claimable now (de_locked env) x"
        using e(1) claim_exact [OF cl assms(2)] by metis
      have "row_of d j = Some x"
      proof -
        have "row_of d j \<noteq> None" using x(1,2) e(2) by (auto simp: row_of_def find_None_iff)
        then obtain y where "row_of d j = Some y" "y \<in> set (db_outbox d)" "oe_id y = oe_id x"
          using x(2) e(2) by (auto simp: row_of_def dest: find_SomeD)
        then show ?thesis using distinct_ids_eq [OF assms(2), of x y] x(1) by simp
      qed
      moreover have "\<exists>r'. row_of d' j = Some r' \<and>
         poll_outcome (holds q' (dispatch_queue e) (outboxJobKey j)) (\<exists>i. de_failFault env i \<noteq> None) e e r'"
        using out e res by auto
      moreover have "oe_status e = OProcessing" "oe_retryCount e = oe_retryCount x" "oe_status x = OPending"
        using x(2,3) by (simp_all add: claimable_def)
      ultimately show ?thesis using e(2) by blast
    qed
qed

end

text \<open>Over a keyed transport, handing over events whose jobs it holds adds no job.\<close>

locale keyed_envelope_transport = keyed_transport running send jobs
  for running :: "'q \<Rightarrow> bool"
    and send :: "'q \<Rightarrow> queue_name \<Rightarrow> json job_envelope \<Rightarrow> string \<Rightarrow> err option \<times> 'q"
    and jobs :: "'q \<Rightarrow> json job_envelope queued_job list"
begin

lemma dispatch_loop_no_duplicate:
  assumes "\<And>i q. jobs (de_tick env i q) = jobs q"
    and "\<forall>e\<in>set es. holds q (dispatch_queue e) (outboxJobKey (oe_id e))"
    and "dispatch_loop running send env w i es n d q = (n', d', q')"
  shows "jobs q' = jobs q"
  using assms(2,3)
proof (induction es arbitrary: i n d q)
  case (Cons e es)
  let ?q1 = "de_tick env i q"
  obtain r q2 where sent: "send ?q1 (dispatch_queue e) (dispatch_envelope (de_clock env i) e)
      (outboxJobKey (oe_id e)) = (r, q2)" by force
  have "jobs q2 = jobs ?q1"
    using send_once [of ?q1 "dispatch_queue e" "outboxJobKey (oe_id e)"] Cons.prems(1) assms(1) sent
    unfolding holds_def by (metis list.set_intros(1) snd_conv)
  then have q2: "jobs q2 = jobs q" by (simp add: assms(1))
  have held: "\<forall>e\<in>set es. holds q2 (dispatch_queue e) (outboxJobKey (oe_id e))"
    using Cons.prems(1) by (simp add: holds_def q2)
  show ?case
  proof (cases "de_shuttingDown env i \<or> \<not> running ?q1")
    case True
    then show ?thesis using Cons.prems(2) assms(1) by (auto simp: Let_def)
  next
    case False
    define marked where "marked = (case r of Some err \<Rightarrow> Inl err | None \<Rightarrow> mark_completed env i e d)"
    have run: "(case marked of Inr d' \<Rightarrow> dispatch_loop running send env w (Suc i) es (Suc n) d' q2
        | Inl err \<Rightarrow> (case mark_failed env i e err d of None \<Rightarrow> (n, d, q2)
            | Some d' \<Rightarrow> dispatch_loop running send env w (Suc i) es n d' q2)) = (n', d', q')"
      using Cons.prems(2) False sent by (simp add: Let_def marked_def)
    show ?thesis
    proof (cases marked)
      case (Inr d1)
      then have "dispatch_loop running send env w (Suc i) es (Suc n) d1 q2 = (n', d', q')" using run by simp
      from Cons.IH [OF held this] show ?thesis by (simp add: q2)
    next
      case (Inl err)
      show ?thesis
      proof (cases "mark_failed env i e err d")
        case None
        then show ?thesis using run Inl q2 by simp
      next
        case (Some d1)
        then have "dispatch_loop running send env w (Suc i) es n d1 q2 = (n', d', q')" using run Inl by simp
        from Cons.IH [OF held this] show ?thesis by (simp add: q2)
      qed
    qed
  qed
qed simp

end

section \<open>The deployed transport\<close>

interpretation bull_client: envelope_transport bull_isRunning "bull_send fault" bq_jobs
  for fault :: "queue_name \<Rightarrow> string \<Rightarrow> err option"
  by (rule envelope_transport.intro) (rule bull.job_transport_axioms)

interpretation drain_client: envelope_transport drain_isRunning "drain_send fault" "\<lambda>q. bq_jobs (fst q)"
  for fault :: "queue_name \<Rightarrow> string \<Rightarrow> err option"
  by (rule envelope_transport.intro) (rule drain.job_transport_axioms)

interpretation drain_keyed: keyed_envelope_transport drain_isRunning "drain_send fault" "\<lambda>q. bq_jobs (fst q)"
  for fault :: "queue_name \<Rightarrow> string \<Rightarrow> err option"
  by (rule keyed_envelope_transport.intro) (rule drain.keyed_transport_axioms)

type_synonym job_store = "json job_envelope bullmq \<times> json job_envelope pgboss"

lemma drain_holds: "drain.holds q n k = bull_holds (fst q) n k"
  by (auto simp: drain.holds_def bull_holds_def list_ex_iff)

definition quiet_env :: "'q dispatch_env" where
  "quiet_env = \<lparr>de_clock = (\<lambda>_. 10), de_tick = (\<lambda>_ q. q), de_shuttingDown = (\<lambda>_. False),
     de_completeFault = (\<lambda>_. None), de_failFault = (\<lambda>_. None), de_claimFault = None, de_locked = []\<rparr>"

definition sample_dispatcher :: dispatcher where
  "sample_dispatcher = \<lparr>dp_workerId = ''w1'', dp_isProcessing = False, dp_isShuttingDown = False,
     dp_queueDownReported = False\<rparr>"

definition sample_store :: job_store where
  "sample_store = (bull_start True bull_init,
     \<lparr>pb_running = False, pb_pendingWorkers = [], pb_workers = [], pb_failedStarts = 0,
      pb_retryTimer = None, pb_destroyed = False, pb_jobs = []\<rparr>)"

lemma complete_row_simps [simp]:
  "oe_status (complete_row now r) = OCompleted" "oe_eventType (complete_row now r) = oe_eventType r"
  "oe_retryCount (complete_row now r) = oe_retryCount r"
  by (simp_all add: complete_row_def)

lemma released_row_simps [simp]:
  "oe_status (released_row now r) = OPending" "oe_retryCount (released_row now r) = oe_retryCount r"
  by (simp_all add: released_row_def)

lemma failed_row_simps [simp]:
  "oe_status (failed_row now e m r) = (if oe_retryCount e + 1 \<ge> MAX_DISPATCH_ATTEMPTS then ODeadLetter else OPending)"
  "oe_retryCount (failed_row now e m r) = oe_retryCount r + 1"
  by (simp_all add: failed_row_def)

lemma failed_not_completed: "oe_status (failed_row now e m r) \<noteq> OCompleted"
  by simp

text \<open>C1: An outbox row a poll turns COMPLETED always has its job in BullMQ, under the queue of its
  event type and its deterministic key - whatever faults, queue outages and shutdown happen during
  the poll, as long as BullMQ evicts no job meanwhile. No event is completed and lost.\<close>

theorem completed_means_held:
  fixes q :: job_store
  assumes "\<And>i q. set (bq_jobs (fst q)) \<subseteq> set (bq_jobs (fst (de_tick env i q)))"
    and "distinct (map oe_id (db_outbox d))"
    and "pollAndDispatch drain_isRunning (drain_send fault) env now dp d q = (n, dp', d', q')"
    and "row_of d' j = Some r'" "oe_status r' = OCompleted" "row_of d' j \<noteq> row_of d j"
  shows "bull_holds (fst q') (dispatch_queue r') (outboxJobKey j)"
proof -
  from drain_client.poll_outcomes [OF assms(1-3), of j] assms(4,6) obtain e where
    e: "oe_status e = OProcessing"
      "poll_outcome (drain.holds q' (dispatch_queue e) (outboxJobKey j))
         (\<exists>i. de_failFault env i \<noteq> None) e e r'"
    by auto
  then obtain t where "drain.holds q' (dispatch_queue e) (outboxJobKey j)" "r' = complete_row t e"
    using assms(5) failed_not_completed by (auto simp: poll_outcome_def)
  then show ?thesis by (simp add: drain_holds dispatch_queue_def)
qed

lemma sample_poll:
  "let (n, dp', d', q') = pollAndDispatch drain_isRunning (drain_send (\<lambda>_ _. None)) quiet_env 5 sample_dispatcher
     sample_db sample_store in n = 2 \<and> map_option oe_status (row_of d' ''b'') = Some OCompleted"
  by code_simp

lemma sample_poll_result:
  obtains n dp' d' q' r' where "pollAndDispatch drain_isRunning (drain_send (\<lambda>_ _. None)) quiet_env 5
     sample_dispatcher sample_db sample_store = (n, dp', d', q')"
    "row_of d' ''b'' = Some r'" "oe_status r' = OCompleted" "row_of d' ''b'' \<noteq> row_of sample_db ''b''"
proof -
  obtain n dp' d' q' where run: "pollAndDispatch drain_isRunning (drain_send (\<lambda>_ _. None)) quiet_env 5
     sample_dispatcher sample_db sample_store = (n, dp', d', q')" by (metis prod_cases4)
  from sample_poll run obtain r' where r': "row_of d' ''b'' = Some r'" "oe_status r' = OCompleted" by auto
  have "map_option oe_status (row_of sample_db ''b'') = Some OPending"
    by (simp add: row_of_def sample_db_def)
  then have "row_of d' ''b'' \<noteq> row_of sample_db ''b''" using r' by auto
  then show thesis using that [OF run r'] by blast
qed

lemma sample_distinct: "distinct (map oe_id (db_outbox sample_db))"
  by (simp add: sample_db_def)

theorem completed_means_held_witness:
  "\<exists>n dp' d' q' r'. pollAndDispatch drain_isRunning (drain_send (\<lambda>_ _. None)) quiet_env 5
     sample_dispatcher sample_db sample_store = (n, dp', d', q') \<and> row_of d' ''b'' = Some r' \<and>
     bull_holds (fst q') (dispatch_queue r') (outboxJobKey ''b'')"
proof -
  obtain n dp' d' q' r' where run: "pollAndDispatch drain_isRunning (drain_send (\<lambda>_ _. None)) quiet_env 5
     sample_dispatcher sample_db sample_store = (n, dp', d', q')"
    and r: "row_of d' ''b'' = Some r'" "oe_status r' = OCompleted" "row_of d' ''b'' \<noteq> row_of sample_db ''b''"
    by (rule sample_poll_result)
  have "set (bq_jobs (fst q)) \<subseteq> set (bq_jobs (fst (de_tick quiet_env i q)))" for i and q :: job_store
    by (simp add: quiet_env_def)
  from completed_means_held [OF this sample_distinct run r] run r(1) show ?thesis by blast
qed



text \<open>While the transport is down, during shutdown, and while another poll runs, a poll claims
  nothing and leaves the database and the queue as they are: no attempt is used up.\<close>

theorem poll_without_queue:
  assumes "\<not> drain_isRunning q \<or> dp_isShuttingDown dp \<or> dp_isProcessing dp"
  shows "\<exists>dp'. pollAndDispatch drain_isRunning (drain_send fault) env now dp d q = (0, dp', d, q) \<and>
    dp_isProcessing dp' = dp_isProcessing dp \<and> dp_isShuttingDown dp' = dp_isShuttingDown dp"
  using assms by (auto simp: pollAndDispatch_def)

theorem poll_without_queue_witness:
  "\<exists>dp'. pollAndDispatch drain_isRunning (drain_send (\<lambda>_ _. None)) quiet_env 5 sample_dispatcher sample_db
     (bull_init, snd sample_store) = (0, dp', sample_db, (bull_init, snd sample_store))"
proof -
  have "\<not> drain_isRunning (bull_init, snd sample_store)"
    by (simp add: drain_isRunning_def bull_isRunning_def bull_init_def)
  then show ?thesis
    using poll_without_queue [of "(bull_init, snd sample_store)" sample_dispatcher "\<lambda>_ _. None" quiet_env 5 sample_db]
    by blast
qed

text \<open>Dispatch is idempotent per event: handing over a batch whose jobs BullMQ already holds - the
  case after a crash between enqueueing and the COMPLETED update - adds no job to any queue.\<close>

theorem redispatch_no_duplicate:
  fixes q :: job_store
  assumes "\<And>i q. bq_jobs (fst (de_tick env i q)) = bq_jobs (fst q)"
    and "\<forall>e\<in>set es. bull_holds (fst q) (dispatch_queue e) (outboxJobKey (oe_id e))"
    and "dispatch_loop drain_isRunning (drain_send fault) env w i es n d q = (n', d', q')"
  shows "bq_jobs (fst q') = bq_jobs (fst q)"
  using drain_keyed.dispatch_loop_no_duplicate [OF assms(1) _ assms(3)] assms(2) by (simp add: drain_holds)

theorem redispatch_no_duplicate_witness:
  "\<exists>n' d' q'. dispatch_loop drain_isRunning (drain_send (\<lambda>_ _. None)) quiet_env ''w1'' 0 [sample_event ''b'' 1] 0 sample_db
     (bull_add WEBHOOKS_PROCESS (dispatch_envelope 1 (sample_event ''b'' 1)) ''outbox-b'' (fst sample_store), snd sample_store)
     = (n', d', q') \<and> length (bq_jobs (fst q')) = 1"
proof -
  let ?q = "(bull_add WEBHOOKS_PROCESS (dispatch_envelope 1 (sample_event ''b'' 1)) ''outbox-b'' (fst sample_store), snd sample_store)"
  obtain n' d' q' where run: "dispatch_loop drain_isRunning (drain_send (\<lambda>_ _. None)) quiet_env ''w1'' 0
      [sample_event ''b'' 1] 0 sample_db ?q = (n', d', q')" by (metis prod_cases3)
  have one: "length (bq_jobs (fst ?q)) = 1 \<and>
      bull_holds (fst ?q) (dispatch_queue (sample_event ''b'' 1)) (outboxJobKey (oe_id (sample_event ''b'' 1)))"
    by code_simp
  have "bq_jobs (fst (de_tick quiet_env i q)) = bq_jobs (fst q)" for i and q :: job_store
    by (simp add: quiet_env_def)
  from redispatch_no_duplicate [OF this _ run] one have "length (bq_jobs (fst q')) = 1" by simp
  with run show ?thesis by blast
qed

section \<open>What the guards do not cover\<close>

text \<open>The updates after a send are not guarded by the claim: a worker whose lease ran out and whose
  event another worker took over and completed can still put it back to PENDING.\<close>

theorem stale_worker_reopens:
  "let (stale, d1) = claimPendingOutboxEvents 100 [] ''w1'' 50 60 sample_db;
       (_, d2) = claimPendingOutboxEvents 70000 [] ''w2'' 50 60 (runLeaseRecovery 60200 d1)
   in map oe_id stale = [''a'', ''b''] \<and>
     (case update_outbox ''a'' (complete_row 90000) d2 of Inl _ \<Rightarrow> False
      | Inr (_, d3) \<Rightarrow> map_option oe_status (row_of d3 ''a'') = Some OCompleted \<and>
          (case mark_failed (quiet_env :: unit dispatch_env) 0 (hd stale) (OtherError ''Error'' ''timeout'') d3 of
             None \<Rightarrow> False | Some d4 \<Rightarrow> map_option oe_status (row_of d4 ''a'') = Some OPending))"
  by code_simp

text \<open>An expired lease at four recorded attempts puts the event back to PENDING with five, so it is
  claimed and attempted a sixth time.\<close>

theorem sixth_attempt:
  "let d = sample_db\<lparr>db_outbox := [(sample_event ''a'' 1)\<lparr>oe_status := OProcessing, oe_retryCount := 4,
         oe_claimedBy := Some ''w1'', oe_claimLeaseExpiresAt := Some 50\<rparr>]\<rparr>;
       (claimed, _) = claimPendingOutboxEvents 200 [] ''w2'' 50 60 (runLeaseRecovery 100 d)
   in map oe_retryCount claimed = [5]"
  by code_simp

section \<open>Reconciliation\<close>

text \<open>\<open>apps/worker/src/outbox/outbox-reconciliation.service.ts\<close>.\<close>

datatype replay_kind = ReplaySafe | ReplayReview

record lost_job =
  lj_eventId :: id
  lj_eventType :: string
  lj_dispatchedAt :: "int option"
  lj_replay :: replay_kind

definition RECONCILIATION_STALE_AFTER_MS :: int where "RECONCILIATION_STALE_AFTER_MS = 10 * 60000"

definition LOOKBACK_MS :: int where "LOOKBACK_MS = 24 * 60 * 60000"

definition CANDIDATE_LIMIT :: nat where "CANDIDATE_LIMIT = 500"

definition work_pending :: "db \<Rightarrow> outbox_event \<Rightarrow> bool" where
  "work_pending d o' =
     ((oe_eventType o' = ''message.outbound.requested'' \<and>
        list_ex (\<lambda>m. JStr (ms_id m) = jget (oe_payload o') ''messageId'' \<and> ms_status m = DPending) (db_messages d)) \<or>
      (oe_eventType o' = ''webhook.received'' \<and>
        list_ex (\<lambda>p. JStr (pe_id p) = jget (oe_payload o') ''providerEventId'' \<and>
          (pe_status p = EReceived \<or> pe_status p = EProcessing)) (db_events d)))"

definition lost_candidate :: "int \<Rightarrow> db \<Rightarrow> outbox_event \<Rightarrow> bool" where
  "lost_candidate now d o' = (oe_status o' = OCompleted \<and>
     (case oe_dispatchedAt o' of None \<Rightarrow> False
      | Some t \<Rightarrow> t \<ge> now - LOOKBACK_MS \<and> t \<le> now - RECONCILIATION_STALE_AFTER_MS) \<and> work_pending d o')"

fun lost_jobs_of :: "'p bullmq \<Rightarrow> outbox_event list \<Rightarrow> err + lost_job list" where
  "lost_jobs_of b [] = Inr []"
| "lost_jobs_of b (c # cs) =
     (case queueForEventType (oe_eventType c) of
        None \<Rightarrow> lost_jobs_of b cs
      | Some q \<Rightarrow> bindR (bull_hasJob b q (outboxJobKey (oe_id c))) (\<lambda>held.
          if held then lost_jobs_of b cs
          else bindR (lost_jobs_of b cs) (\<lambda>rest. Inr
            (\<lparr>lj_eventId = oe_id c, lj_eventType = oe_eventType c, lj_dispatchedAt = oe_dispatchedAt c,
              lj_replay = (if oe_eventType c = ''webhook.received'' then ReplaySafe else ReplayReview)\<rparr> # rest))))"

definition findLostJobs :: "int \<Rightarrow> db \<Rightarrow> 'p bullmq \<Rightarrow> err + lost_job list option" where
  "findLostJobs now d b =
     (if \<not> bull_isRunning b then Inr None
      else bindR (lost_jobs_of b (take CANDIDATE_LIMIT
        (sort_key (\<lambda>o'. the (oe_dispatchedAt o')) (filter (lost_candidate now d) (db_outbox d)))))
        (\<lambda>lost. Inr (Some lost)))"

text \<open>\<open>check\<close> logs and never throws; a failed query counts as no answer.\<close>

definition reconciliation_check :: "int \<Rightarrow> db \<Rightarrow> 'p bullmq \<Rightarrow> lost_job list option" where
  "reconciliation_check now d b = (case findLostJobs now d b of Inl _ \<Rightarrow> None | Inr r \<Rightarrow> r)"

definition routed :: "outbox_event \<Rightarrow> queue_name" where
  "routed c = the (queueForEventType (oe_eventType c))"

lemma all_queues: "q \<in> set all_queue_names"
  by (cases q) (simp_all add: all_queue_names_def)

lemma lost_jobs_result:
  assumes "bq_queues b = all_queue_names"
  shows "\<exists>lost. lost_jobs_of b cs = Inr lost \<and>
    map lj_eventId lost = map oe_id (filter (\<lambda>c. queueForEventType (oe_eventType c) \<noteq> None \<and>
       \<not> bull_holds b (routed c) (outboxJobKey (oe_id c))) cs)"
proof (induction cs)
  case (Cons c cs)
  then show ?case
    by (auto simp: bull_hasJob_def assms all_queues routed_def split: option.splits)
qed simp

lemma candidate_routed: "lost_candidate now d c \<Longrightarrow> queueForEventType (oe_eventType c) \<noteq> None"
  by (auto simp: lost_candidate_def work_pending_def queueForEventType_def QUEUE_BY_EVENT_PREFIX_def
      startsWith_def to_lower_def lower_char_def)

text \<open>While BullMQ answers and there are at most 500 candidates, the reconciliation reports exactly
  the events that were marked COMPLETED within the last day and at least ten minutes ago, whose
  domain work is still pending, and whose job BullMQ no longer holds; while BullMQ does not answer
  it reports nothing rather than a false loss.\<close>

theorem reconciliation_exact:
  assumes "bull_step\<^sup>*\<^sup>* bull_init b"
    and "length (filter (lost_candidate now d) (db_outbox d)) \<le> CANDIDATE_LIMIT"
  shows "case reconciliation_check now d b of
      None \<Rightarrow> \<not> bull_isRunning b
    | Some lost \<Rightarrow> bull_isRunning b \<and> set (map lj_eventId lost) = oe_id ` {c \<in> set (db_outbox d).
        lost_candidate now d c \<and> \<not> bull_holds b (routed c) (outboxJobKey (oe_id c))}"
proof (cases "bull_isRunning b")
  case True
  let ?cs = "sort_key (\<lambda>o'. the (oe_dispatchedAt o')) (filter (lost_candidate now d) (db_outbox d))"
  have "bull_good b" by (rule bull_system.good_reachable [OF refl assms(1)])
  then have q: "bq_queues b = all_queue_names" using True by (simp add: bull_good_def bull_inv_def)
  obtain lost where lost: "lost_jobs_of b ?cs = Inr lost"
    "map lj_eventId lost = map oe_id (filter (\<lambda>c. queueForEventType (oe_eventType c) \<noteq> None \<and>
       \<not> bull_holds b (routed c) (outboxJobKey (oe_id c))) ?cs)"
    using lost_jobs_result [OF q] by blast
  have "take CANDIDATE_LIMIT ?cs = ?cs" using assms(2) by simp
  then have "reconciliation_check now d b = Some lost"
    using True lost(1) by (simp add: reconciliation_check_def findLostJobs_def)
  moreover have "set (map lj_eventId lost) = oe_id ` {c \<in> set (db_outbox d).
        lost_candidate now d c \<and> \<not> bull_holds b (routed c) (outboxJobKey (oe_id c))}"
    unfolding lost(2) using candidate_routed by auto
  ultimately show ?thesis using True by simp
qed (simp add: reconciliation_check_def findLostJobs_def)

theorem reconciliation_exact_witness:
  "reconciliation_check 5 sample_db (bull_init :: nat bullmq) = None"
proof -
  have "length (filter (lost_candidate 5 sample_db) (db_outbox sample_db)) \<le> CANDIDATE_LIMIT"
    by (simp add: sample_db_def CANDIDATE_LIMIT_def)
  from reconciliation_exact [OF rtranclp.rtrancl_refl this, where 'a = nat] show ?thesis
    by (auto simp: reconciliation_check_def findLostJobs_def bull_isRunning_def bull_init_def)
qed

end
