(* ===== verification/ProviderEvents.thy ===== *)
theory ProviderEvents
  imports Outbox
begin

text \<open>
  The journal of raw provider events, \<open>packages/database/src/provider-events.ts\<close>: persisting one
  event, its status transitions, replay, and journaling a webhook batch together with one outbox
  event per accepted row. Generated ids are arguments; \<open>INSERT ... ON CONFLICT DO NOTHING\<close> skips a
  row that violates any unique constraint.
\<close>

section \<open>One event\<close>

record persist_params =
  pp_workspaceId :: id
  pp_providerAccountId :: id
  pp_provider :: channel_provider
  pp_channelType :: channel_type
  pp_providerEventKey :: string
  pp_isFingerprinted :: bool
  pp_payload :: json
  pp_headers :: "json option"
  pp_correlationId :: "string option"
  pp_retentionDays :: "nat option"

definition day_ms :: int where "day_ms = 24 * 60 * 60 * 1000"

definition event_row :: "id \<Rightarrow> int \<Rightarrow> persist_params \<Rightarrow> provider_event" where
  "event_row i now p = (let days = (case pp_retentionDays p of None \<Rightarrow> 90 | Some n \<Rightarrow> n) in
     \<lparr>pe_id = i, pe_workspaceId = pp_workspaceId p, pe_providerAccountId = pp_providerAccountId p,
      pe_provider = pp_provider p, pe_channelType = pp_channelType p,
      pe_providerEventKey = pp_providerEventKey p, pe_isFingerprinted = pp_isFingerprinted p,
      pe_payload = pp_payload p, pe_headers = pp_headers p, pe_status = EReceived,
      pe_processingAttempts = 0, pe_lastError = None, pe_processedAt = None, pe_retentionDays = days,
      pe_purgeAfter = Some (now + int days * day_ms), pe_correlationId = nonempty (pp_correlationId p),
      pe_updatedAt = now\<rparr>)"

definition find_event_by_key :: "id \<Rightarrow> string \<Rightarrow> db \<Rightarrow> provider_event option" where
  "find_event_by_key acc key d =
     List.find (\<lambda>e. pe_providerAccountId e = acc \<and> pe_providerEventKey e = key) (db_events d)"

text \<open>The result says whether the event was a duplicate and gives the stored row.\<close>

definition persistProviderEvent :: "id \<Rightarrow> int \<Rightarrow> persist_params \<Rightarrow> db \<Rightarrow> (err + bool \<times> provider_event) \<times> db" where
  "persistProviderEvent i now p d =
     (case create_event (event_row i now p) d of
        Inr (_, d') \<Rightarrow> (Inr (False, event_row i now p), d')
      | Inl e \<Rightarrow>
          if isUniqueConstraintViolation e then
            (case find_event_by_key (pp_providerAccountId p) (pp_providerEventKey p) d of
               Some existing \<Rightarrow> (Inr (True, existing), d)
             | None \<Rightarrow> (Inl e, d))
          else (Inl e, d))"

text \<open>\<open>lastError\<close>: absent leaves it, \<open>Some None\<close> clears it.\<close>

definition transition_row :: "int \<Rightarrow> event_status \<Rightarrow> string option option \<Rightarrow> bool \<Rightarrow> provider_event \<Rightarrow> provider_event" where
  "transition_row now st lastError inc e = e\<lparr>pe_status := st,
     pe_processedAt := (if st = EProcessed then Some now else pe_processedAt e),
     pe_lastError := (case lastError of None \<Rightarrow> pe_lastError e | Some x \<Rightarrow> x),
     pe_processingAttempts := (if inc then pe_processingAttempts e + 1 else pe_processingAttempts e),
     pe_updatedAt := now\<rparr>"

definition transitionProviderEventStatus ::
  "int \<Rightarrow> id \<Rightarrow> event_status \<Rightarrow> string option option \<Rightarrow> bool \<Rightarrow> unit tx" where
  "transitionProviderEventStatus now i st lastError inc = update_event i (transition_row now st lastError inc)"

definition replayProviderEvent :: "int \<Rightarrow> id \<Rightarrow> (event_status \<times> event_status) tx" where
  "replayProviderEvent now i d =
     (case find_event i d of
        None \<Rightarrow> Inl recordNotFound
      | Some existing \<Rightarrow> bindT (update_event i (\<lambda>e. e\<lparr>pe_status := EReceived, pe_lastError := None,
            pe_updatedAt := now\<rparr>)) (\<lambda>_. returnT (pe_status existing, EReceived)) d)"

section \<open>A batch\<close>

record journal_input =
  ji_providerEventKey :: string
  ji_isFingerprinted :: bool
  ji_payload :: json
  ji_headers :: "json option"

record journal_params =
  jp_workspaceId :: id
  jp_providerAccountId :: id
  jp_provider :: channel_provider
  jp_channelType :: channel_type
  jp_events :: "journal_input list"
  jp_correlationId :: string
  jp_retentionDays :: "nat option"

definition PROVIDER_EVENT_RECEIVED :: string where "PROVIDER_EVENT_RECEIVED = ''webhook.received''"

text \<open>\<open>new Map(entries).values()\<close>: a repeated key keeps its first position and its last value.\<close>

fun map_set :: "journal_input \<Rightarrow> journal_input list \<Rightarrow> journal_input list" where
  "map_set e [] = [e]"
| "map_set e (x # xs) = (if ji_providerEventKey x = ji_providerEventKey e then e # xs else x # map_set e xs)"

definition unique_events :: "journal_input list \<Rightarrow> journal_input list" where
  "unique_events es = foldl (\<lambda>m e. map_set e m) [] es"

definition journal_row :: "int \<Rightarrow> journal_params \<Rightarrow> id \<Rightarrow> journal_input \<Rightarrow> provider_event" where
  "journal_row now p i e = (event_row i now
     \<lparr>pp_workspaceId = jp_workspaceId p, pp_providerAccountId = jp_providerAccountId p,
      pp_provider = jp_provider p, pp_channelType = jp_channelType p,
      pp_providerEventKey = ji_providerEventKey e, pp_isFingerprinted = ji_isFingerprinted e,
      pp_payload = ji_payload e, pp_headers = ji_headers e,
      pp_correlationId = None, pp_retentionDays = jp_retentionDays p\<rparr>)
     \<lparr>pe_correlationId := Some (jp_correlationId p)\<rparr>"

fun create_events_skip :: "provider_event list \<Rightarrow> db \<Rightarrow> provider_event list \<times> db" where
  "create_events_skip [] d = ([], d)"
| "create_events_skip (r # rs) d =
     (case create_event r d of
        Inl _ \<Rightarrow> create_events_skip rs d
      | Inr (_, d') \<Rightarrow> let (cs, d'') = create_events_skip rs d' in (r # cs, d''))"

definition received_params :: "journal_params \<Rightarrow> provider_event \<Rightarrow> outbox_params" where
  "received_params p e = \<lparr>op_workspaceId = jp_workspaceId p, op_eventType = PROVIDER_EVENT_RECEIVED,
     op_payload = JObj [(''providerEventId'', JStr (pe_id e))], op_correlationId = jp_correlationId p,
     op_causationId = None, op_actorId = None, op_traceparent = None, op_scheduledAt = None\<rparr>"

text \<open>The result: the accepted event ids and the number of duplicates. \<open>gen\<close> and \<open>gen'\<close> supply the
  ids of the journal rows and of the outbox rows.\<close>

definition journalProviderEventsInTransaction ::
  "(nat \<Rightarrow> id) \<Rightarrow> (nat \<Rightarrow> id) \<Rightarrow> int \<Rightarrow> journal_params \<Rightarrow> (id list \<times> nat) tx" where
  "journalProviderEventsInTransaction gen gen' now p d =
     (if jp_events p = [] then Inr (([], 0), d)
      else let us = unique_events (jp_events p);
               (created, d1) = create_events_skip (map2 (journal_row now p) (map gen [0..<length us]) us) d
           in bindT (persist_outbox (map gen' [0..<length created]) now (map (received_params p) created))
                (\<lambda>_. returnT (map pe_id created, length (jp_events p) - length created)) d1)"

definition journalProviderEvents ::
  "(nat \<Rightarrow> id) \<Rightarrow> (nat \<Rightarrow> id) \<Rightarrow> int \<Rightarrow> journal_params \<Rightarrow> db \<Rightarrow> (err + id list \<times> nat) \<times> db" where
  "journalProviderEvents gen gen' now p d =
     (if jp_events p = [] then (Inr ([], 0), d)
      else runTx (journalProviderEventsInTransaction gen gen' now p) d)"

section \<open>Facts\<close>

abbreviation event_key :: "provider_event \<Rightarrow> id \<times> string" where
  "event_key e \<equiv> (pe_providerAccountId e, pe_providerEventKey e)"

definition events_ok :: "db \<Rightarrow> bool" where
  "events_ok d = (distinct (map pe_id (db_events d)) \<and> distinct (map event_key (db_events d)))"

lemma event_row_simps [simp]:
  "pe_id (event_row i now p) = i" "pe_providerAccountId (event_row i now p) = pp_providerAccountId p"
  "pe_providerEventKey (event_row i now p) = pp_providerEventKey p"
  "pe_status (event_row i now p) = EReceived" "pe_processingAttempts (event_row i now p) = 0"
  by (simp_all add: event_row_def Let_def)

lemma journal_row_simps [simp]:
  "pe_id (journal_row now p i e) = i" "pe_providerAccountId (journal_row now p i e) = jp_providerAccountId p"
  "pe_providerEventKey (journal_row now p i e) = ji_providerEventKey e"
  "pe_status (journal_row now p i e) = EReceived"
  by (simp_all add: journal_row_def)

lemma transition_row_simps [simp]:
  "pe_id (transition_row now st le inc e) = pe_id e"
  "pe_providerAccountId (transition_row now st le inc e) = pe_providerAccountId e"
  "pe_providerEventKey (transition_row now st le inc e) = pe_providerEventKey e"
  "pe_status (transition_row now st le inc e) = st"
  by (simp_all add: transition_row_def)

lemma event_clash_iff:
  "list_ex (\<lambda>x. pe_id x = pe_id r \<or> event_key_clash x r) xs \<longleftrightarrow>
     pe_id r \<in> pe_id ` set xs \<or> event_key r \<in> event_key ` set xs"
  by (induction xs) (auto simp: event_key_clash_def)

lemma create_event_Inr:
  "create_event r d = Inr (u, d') \<longleftrightarrow> pe_id r \<notin> pe_id ` set (db_events d) \<and>
     event_key r \<notin> event_key ` set (db_events d) \<and> d' = d\<lparr>db_events := db_events d @ [r]\<rparr>"
  by (auto simp: create_event_def event_clash_iff)

lemma create_event_Inl:
  "create_event r d = Inl e \<Longrightarrow> e = uniqueViolation ''provider_events'' \<and>
     (pe_id r \<in> pe_id ` set (db_events d) \<or> event_key r \<in> event_key ` set (db_events d))"
  by (auto simp: create_event_def event_clash_iff split: if_splits)

lemma create_event_ok: "events_ok d \<Longrightarrow> create_event r d = Inr (u, d') \<Longrightarrow> events_ok d'"
  by (auto simp: create_event_Inr events_ok_def)

lemma create_events_skip_facts:
  "create_events_skip rs d = (cs, d') \<Longrightarrow>
     d' = d\<lparr>db_events := db_events d @ cs\<rparr> \<and> set cs \<subseteq> set rs \<and> length cs \<le> length rs \<and>
     (events_ok d \<longrightarrow> events_ok d')"
proof (induction rs arbitrary: d cs)
  case Nil
  then show ?case by simp
next
  case (Cons r rs)
  show ?case
  proof (cases "create_event r d")
    case (Inl e)
    then show ?thesis using Cons.prems Cons.IH [of d cs] by auto
  next
    case (Inr ud)
    obtain u d1 where ud: "ud = (u, d1)" by (cases ud)
    obtain cs1 where rec: "create_events_skip rs d1 = (cs1, d')" "cs = r # cs1"
      using Cons.prems Inr ud by (auto split: prod.splits)
    show ?thesis
      using Cons.IH [OF rec(1)] create_event_ok [of d r u d1] Inr ud rec(2) by (auto simp: create_event_Inr)
  qed
qed

lemma create_events_skip_known:
  "\<forall>r\<in>set rs. event_key r \<in> event_key ` set (db_events d) \<Longrightarrow> create_events_skip rs d = ([], d)"
proof (induction rs)
  case (Cons r rs)
  then have "create_event r d = Inl (uniqueViolation ''provider_events'')"
    by (simp add: create_event_def event_clash_iff)
  then show ?case using Cons by simp
qed simp

text \<open>With fresh ids, exactly the rows with a new key are created.\<close>

lemma create_events_skip_fresh:
  assumes "distinct (map pe_id rs)" "pe_id ` set rs \<inter> pe_id ` set (db_events d) = {}"
    and "distinct (map event_key rs)"
  shows "fst (create_events_skip rs d) = filter (\<lambda>r. event_key r \<notin> event_key ` set (db_events d)) rs"
  using assms
proof (induction rs arbitrary: d)
  case (Cons r rs)
  show ?case
  proof (cases "event_key r \<in> event_key ` set (db_events d)")
    case True
    then have "create_event r d = Inl (uniqueViolation ''provider_events'')"
      by (simp add: create_event_def event_clash_iff)
    then show ?thesis using Cons True by simp
  next
    case False
    let ?d = "d\<lparr>db_events := db_events d @ [r]\<rparr>"
    have "create_event r d = Inr ((), ?d)" using Cons.prems False by (simp add: create_event_Inr)
    moreover have "fst (create_events_skip rs ?d) = filter (\<lambda>x. event_key x \<notin> event_key ` set (db_events ?d)) rs"
      by (rule Cons.IH) (use Cons.prems in auto)
    moreover have "filter (\<lambda>x. event_key x \<notin> event_key ` set (db_events ?d)) rs =
        filter (\<lambda>x. event_key x \<notin> event_key ` set (db_events d)) rs"
      using Cons.prems(3) by (intro filter_cong) (auto simp: image_iff)
    ultimately show ?thesis using False by (simp add: case_prod_unfold)
  qed
qed simp

lemma map_set_keys:
  "ji_providerEventKey ` set (map_set e xs) = insert (ji_providerEventKey e) (ji_providerEventKey ` set xs)"
  by (induction xs) auto

lemma map_set_distinct:
  "distinct (map ji_providerEventKey xs) \<Longrightarrow> distinct (map ji_providerEventKey (map_set e xs))"
proof (induction xs)
  case (Cons x xs)
  then show ?case using map_set_keys [of e xs] by auto
qed simp

lemma map_set_length: "length (map_set e xs) \<le> Suc (length xs)"
  by (induction xs) auto

lemma unique_events_facts:
  "ji_providerEventKey ` set (unique_events es) = ji_providerEventKey ` set es \<and>
   distinct (map ji_providerEventKey (unique_events es)) \<and> length (unique_events es) \<le> length es"
proof -
  have "ji_providerEventKey ` set (foldl (\<lambda>m e. map_set e m) acc es) =
      ji_providerEventKey ` set acc \<union> ji_providerEventKey ` set es \<and>
    distinct (map ji_providerEventKey (foldl (\<lambda>m e. map_set e m) acc es)) \<and>
    length (foldl (\<lambda>m e. map_set e m) acc es) \<le> length acc + length es"
    if "distinct (map ji_providerEventKey acc)" for acc
    using that
  proof (induction es arbitrary: acc)
    case (Cons e es)
    then show ?case
      using Cons.IH [OF map_set_distinct [OF Cons.prems, of e]] map_set_length [of e acc]
      by (auto simp: map_set_keys)
  qed simp
  from this [of "[]"] show ?thesis by (simp add: unique_events_def)
qed

lemma unique_events_keys:
  "ji_providerEventKey ` set (unique_events es) = ji_providerEventKey ` set es"
  "distinct (map ji_providerEventKey (unique_events es))" "length (unique_events es) \<le> length es"
  using unique_events_facts by blast+

definition journal_rows :: "(nat \<Rightarrow> id) \<Rightarrow> int \<Rightarrow> journal_params \<Rightarrow> provider_event list" where
  "journal_rows gen now p = (let us = unique_events (jp_events p)
     in map2 (journal_row now p) (map gen [0..<length us]) us)"

lemma journal_rows_facts:
  "map pe_id (journal_rows gen now p) = map gen [0..<length (unique_events (jp_events p))]"
  "map event_key (journal_rows gen now p) =
     map (\<lambda>e. (jp_providerAccountId p, ji_providerEventKey e)) (unique_events (jp_events p))"
  "length (journal_rows gen now p) = length (unique_events (jp_events p))"
  "event_key ` set (journal_rows gen now p) =
     (\<lambda>e. (jp_providerAccountId p, ji_providerEventKey e)) ` set (jp_events p)"
proof -
  show "map pe_id (journal_rows gen now p) = map gen [0..<length (unique_events (jp_events p))]"
    by (rule nth_equalityI) (simp_all add: journal_rows_def Let_def)
  show keys: "map event_key (journal_rows gen now p) =
     map (\<lambda>e. (jp_providerAccountId p, ji_providerEventKey e)) (unique_events (jp_events p))"
    by (rule nth_equalityI) (simp_all add: journal_rows_def Let_def)
  show "length (journal_rows gen now p) = length (unique_events (jp_events p))"
    by (simp add: journal_rows_def Let_def)
  have "event_key ` set (journal_rows gen now p) = Pair (jp_providerAccountId p) `
      ji_providerEventKey ` set (unique_events (jp_events p))"
    using arg_cong [OF keys, of set] by (simp add: image_image)
  then show "event_key ` set (journal_rows gen now p) =
     (\<lambda>e. (jp_providerAccountId p, ji_providerEventKey e)) ` set (jp_events p)"
    by (simp add: unique_events_keys(1) image_image)
qed

lemma journal_tx_Inr:
  assumes "journalProviderEventsInTransaction gen gen' now p d = Inr ((ids, dup), d')"
  shows "\<exists>created. fst (create_events_skip (journal_rows gen now p) d) = created \<and>
    ids = map pe_id created \<and> dup + length created = length (jp_events p) \<and>
    db_events d' = db_events d @ created \<and>
    (\<exists>rows. db_outbox d' = db_outbox d @ rows \<and>
       map oe_payload rows = map (\<lambda>i. JObj [(''providerEventId'', JStr i)]) ids \<and>
       (\<forall>r\<in>set rows. oe_eventType r = PROVIDER_EVENT_RECEIVED \<and> oe_status r = OPending)) \<and>
    (events_ok d \<longrightarrow> events_ok d')"
proof (cases "jp_events p = []")
  case True
  then have "journal_rows gen now p = []" by (simp add: journal_rows_def unique_events_def)
  then show ?thesis using assms True by (auto simp: journalProviderEventsInTransaction_def)
next
  case False
  obtain created d1 where cr: "create_events_skip (journal_rows gen now p) d = (created, d1)" by force
  obtain rows where per: "persist_outbox (map gen' [0..<length created]) now
      (map (received_params p) created) d1 = Inr (rows, d')"
    and res: "ids = map pe_id created" "dup = length (jp_events p) - length created"
    using assms False cr
    by (auto simp: journalProviderEventsInTransaction_def journal_rows_def Let_def bindT_Inr)
  note c = create_events_skip_facts [OF cr]
  have rows: "rows = map2 (\<lambda>i p. outbox_row i now p) (map gen' [0..<length created]) (map (received_params p) created)"
    and d': "d' = d1\<lparr>db_outbox := db_outbox d1 @ rows\<rparr>"
    using persist_outbox_Inr [OF per] by simp_all
  have len: "length created \<le> length (jp_events p)"
    using c journal_rows_facts(3) [of gen now p] unique_events_keys(3) [of "jp_events p"] by simp
  have "map oe_payload rows = map (\<lambda>i. JObj [(''providerEventId'', JStr i)]) ids"
    by (rule nth_equalityI) (simp_all add: rows res(1) received_params_def)
  moreover have "\<forall>r\<in>set rows. oe_eventType r = PROVIDER_EVENT_RECEIVED \<and> oe_status r = OPending"
    by (auto simp: rows set_zip received_params_def)
  moreover have "events_ok d' = events_ok d1" by (simp add: d' events_ok_def)
  moreover have "db_events d' = db_events d @ created" "db_outbox d' = db_outbox d @ rows"
    using c by (simp_all add: d')
  ultimately show ?thesis using c res len cr by auto
qed

section \<open>Properties\<close>

text \<open>The ids generated for a batch are new and pairwise different.\<close>

definition fresh_ids :: "(nat \<Rightarrow> id) \<Rightarrow> db \<Rightarrow> bool" where
  "fresh_ids gen d = (inj gen \<and> range gen \<inter> pe_id ` set (db_events d) = {})"

definition batch_keys :: "journal_params \<Rightarrow> (id \<times> string) set" where
  "batch_keys p = (\<lambda>e. (jp_providerAccountId p, ji_providerEventKey e)) ` set (jp_events p)"

lemma journal_created_fresh:
  assumes "fresh_ids gen d"
  shows "fst (create_events_skip (journal_rows gen now p) d) =
    filter (\<lambda>r. event_key r \<notin> event_key ` set (db_events d)) (journal_rows gen now p)"
proof (rule create_events_skip_fresh)
  show "distinct (map pe_id (journal_rows gen now p))"
    unfolding journal_rows_facts(1) using assms
    by (auto simp: fresh_ids_def distinct_map intro: inj_on_subset)
  have "set (map pe_id (journal_rows gen now p)) \<subseteq> range gen"
    unfolding journal_rows_facts(1) by auto
  then show "pe_id ` set (journal_rows gen now p) \<inter> pe_id ` set (db_events d) = {}"
    using assms by (auto simp: fresh_ids_def)
  show "distinct (map event_key (journal_rows gen now p))"
    unfolding journal_rows_facts(2) using unique_events_keys(2) [of "jp_events p"]
    by (auto simp: distinct_map inj_on_def)
qed

lemma journal_facts:
  assumes "fresh_ids gen d" "journalProviderEvents gen gen' now p d = (r, d')"
  shows "case r of Inl e \<Rightarrow> d' = d
    | Inr (ids, dup) \<Rightarrow>
        (\<exists>created rows. db_events d' = db_events d @ created \<and> ids = map pe_id created \<and>
          event_key ` set created = batch_keys p - event_key ` set (db_events d) \<and>
          distinct (map event_key created) \<and> dup + length ids = length (jp_events p) \<and>
          db_outbox d' = db_outbox d @ rows \<and>
          map oe_payload rows = map (\<lambda>i. JObj [(''providerEventId'', JStr i)]) ids \<and>
          (\<forall>row\<in>set rows. oe_eventType row = PROVIDER_EVENT_RECEIVED \<and> oe_status row = OPending)) \<and>
        (events_ok d \<longrightarrow> events_ok d')"
proof (cases "journalProviderEventsInTransaction gen gen' now p d")
  case (Inl e)
  then have "jp_events p \<noteq> []" by (auto simp: journalProviderEventsInTransaction_def)
  then show ?thesis using assms(2) Inl by (auto simp: journalProviderEvents_def runTx_def)
next
  case (Inr s)
  obtain ids dup d1 where s: "s = ((ids, dup), d1)" by (metis prod.collapse)
  have res: "r = Inr (ids, dup)" "d' = d1"
    using assms(2) Inr s by (auto simp: journalProviderEvents_def runTx_def
        journalProviderEventsInTransaction_def split: if_splits)
  let ?new = "filter (\<lambda>r. event_key r \<notin> event_key ` set (db_events d)) (journal_rows gen now p)"
  from journal_tx_Inr [OF Inr [unfolded s]] journal_created_fresh [OF assms(1)] obtain rows where
    t: "ids = map pe_id ?new" "dup + length ?new = length (jp_events p)" "db_events d1 = db_events d @ ?new"
      "db_outbox d1 = db_outbox d @ rows" "map oe_payload rows = map (\<lambda>i. JObj [(''providerEventId'', JStr i)]) ids"
      "\<forall>r\<in>set rows. oe_eventType r = PROVIDER_EVENT_RECEIVED \<and> oe_status r = OPending"
      "events_ok d \<longrightarrow> events_ok d1" by metis
  have keys: "event_key ` set ?new = batch_keys p - event_key ` set (db_events d)"
  proof -
    have "f ` set (filter (\<lambda>x. f x \<notin> K) xs) = f ` set xs - K" for f :: "provider_event \<Rightarrow> id \<times> string" and K xs
      by auto
    then show ?thesis using journal_rows_facts(4) [of gen now p] by (simp only: batch_keys_def)
  qed
  have dist: "distinct (map event_key ?new)"
    using unique_events_keys(2) [of "jp_events p"] journal_rows_facts(2) [of gen now p]
    by (intro distinct_map_filter) (auto simp: distinct_map inj_on_def)
  have len: "dup + length ids = length (jp_events p)" using t(1,2) by simp
  show ?thesis unfolding res sum.case prod.case
    using t keys dist len by blast
qed

text \<open>Journaling a webhook batch stores one row for each distinct key of the batch that the journal
  did not know, and queues exactly one webhook.received event for each stored row and for nothing
  else; accepted events and duplicates add up to the batch; a failure leaves no trace. The
  journal keeps its keys unique per account.\<close>

theorem journal_exact:
  assumes "fresh_ids gen d" "journalProviderEvents gen gen' now p d = (r, d')"
  shows "case r of Inl e \<Rightarrow> d' = d
    | Inr (ids, dup) \<Rightarrow>
        (\<exists>created rows. db_events d' = db_events d @ created \<and> ids = map pe_id created \<and>
          event_key ` set created = batch_keys p - event_key ` set (db_events d) \<and>
          distinct (map event_key created) \<and> dup + length ids = length (jp_events p) \<and>
          db_outbox d' = db_outbox d @ rows \<and>
          map oe_payload rows = map (\<lambda>i. JObj [(''providerEventId'', JStr i)]) ids \<and>
          (\<forall>row\<in>set rows. oe_eventType row = PROVIDER_EVENT_RECEIVED \<and> oe_status row = OPending)) \<and>
        (events_ok d \<longrightarrow> events_ok d')"
  using journal_facts [OF assms] .

definition sample_journal :: "string list \<Rightarrow> journal_params" where
  "sample_journal keys = \<lparr>jp_workspaceId = ''w'', jp_providerAccountId = ''acc'',
     jp_provider = TELEGRAM_BOT, jp_channelType = CTELEGRAM,
     jp_events = map (\<lambda>k. \<lparr>ji_providerEventKey = k, ji_isFingerprinted = False, ji_payload = JNull,
       ji_headers = None\<rparr>) keys, jp_correlationId = ''c'', jp_retentionDays = None\<rparr>"

definition number_ids :: "nat \<Rightarrow> id" where
  "number_ids n = replicate n (CHR ''x'')"

lemma number_ids_fresh: "db_events d = [] \<Longrightarrow> fresh_ids number_ids d"
  by (auto simp: fresh_ids_def inj_def number_ids_def dest: arg_cong [of _ _ length])

lemma sample_journal_run:
  "let (r, d') = journalProviderEvents number_ids number_ids 5 (sample_journal [''k'', ''l'', ''k'']) empty_db
   in r = Inr ([number_ids 0, number_ids 1], 1)"
  by code_simp

theorem journal_exact_witness:
  "\<exists>d' rows. journalProviderEvents number_ids number_ids 5 (sample_journal [''k'', ''l'', ''k'']) empty_db
     = (Inr ([number_ids 0, number_ids 1], 1), d') \<and> db_outbox d' = rows \<and>
     map oe_payload rows = [JObj [(''providerEventId'', JStr (number_ids 0))], JObj [(''providerEventId'', JStr (number_ids 1))]]"
proof -
  obtain d' where run: "journalProviderEvents number_ids number_ids 5 (sample_journal [''k'', ''l'', ''k'']) empty_db
     = (Inr ([number_ids 0, number_ids 1], 1), d')" using sample_journal_run by (auto split: prod.splits)
  have "fresh_ids number_ids empty_db" by (rule number_ids_fresh) (simp add: empty_db_def)
  from journal_exact [OF this run] run show ?thesis by (auto simp: empty_db_def)
qed

text \<open>A redelivered batch is harmless: once a batch is journaled, journaling any batch of events with
  the same keys - whatever its payloads, ids and time - accepts nothing, counts every event as a
  duplicate and changes nothing, in particular queues no second processing.\<close>

theorem journal_redelivery:
  assumes "fresh_ids gen d" "journalProviderEvents gen gen' now p d = (Inr res, d')"
    and "batch_keys p2 \<subseteq> batch_keys p"
  shows "journalProviderEvents gen2 gen2' now2 p2 d' = (Inr ([], length (jp_events p2)), d')"
proof -
  obtain ids dup where "res = (ids, dup)" by force
  with journal_facts [OF assms(1,2)] obtain created where
    "db_events d' = db_events d @ created" "event_key ` set created = batch_keys p - event_key ` set (db_events d)"
    by auto
  then have "event_key ` set (db_events d') = event_key ` set (db_events d) \<union> batch_keys p"
    by (simp only: set_append image_Un) blast
  then have known: "batch_keys p2 \<subseteq> event_key ` set (db_events d')" using assms(3) by blast
  have "\<forall>r\<in>set (journal_rows gen2 now2 p2). event_key r \<in> event_key ` set (db_events d')"
    using known journal_rows_facts(4) [of gen2 now2 p2] unfolding batch_keys_def by blast
  from create_events_skip_known [OF this] show ?thesis
    by (simp add: journalProviderEvents_def journalProviderEventsInTransaction_def journal_rows_def
        Let_def runTx_def bindT_def returnT_def)
qed

theorem journal_redelivery_witness:
  "\<exists>d'. journalProviderEvents number_ids number_ids 9 (sample_journal [''l'', ''k'']) d' = (Inr ([], 2), d')"
proof -
  obtain d' where run: "journalProviderEvents number_ids number_ids 5 (sample_journal [''k'', ''l'', ''k'']) empty_db
     = (Inr ([number_ids 0, number_ids 1], 1), d')" using sample_journal_run by (auto split: prod.splits)
  have f: "fresh_ids number_ids empty_db" by (rule number_ids_fresh) (simp add: empty_db_def)
  have "batch_keys (sample_journal [''l'', ''k'']) \<subseteq> batch_keys (sample_journal [''k'', ''l'', ''k''])"
    by (simp add: batch_keys_def sample_journal_def)
  from journal_redelivery [OF f run this] have
    "journalProviderEvents number_ids number_ids 9 (sample_journal [''l'', ''k'']) d' =
      (Inr ([], length (jp_events (sample_journal [''l'', ''k'']))), d')" .
  moreover have "length (jp_events (sample_journal [''l'', ''k''])) = 2" by (simp add: sample_journal_def)
  ultimately show ?thesis by metis
qed

text \<open>Persisting a single event either stores it as RECEIVED under a new key, or reports the row
  already stored under its key and changes nothing, or throws and changes nothing. The journal's
  keys and ids stay unique, and status transitions and replays keep every key.\<close>

theorem persist_event_exact:
  assumes "persistProviderEvent i now p d = (r, d')"
  shows "(events_ok d \<longrightarrow> events_ok d') \<and>
    (case r of Inl e \<Rightarrow> d' = d
     | Inr (dup, e) \<Rightarrow> event_key e = (pp_providerAccountId p, pp_providerEventKey p) \<and> e \<in> set (db_events d') \<and>
        (if dup then d' = d
         else event_key e \<notin> event_key ` set (db_events d) \<and> pe_status e = EReceived \<and>
           db_events d' = db_events d @ [e] \<and> db_outbox d' = db_outbox d))"
proof (cases "create_event (event_row i now p) d")
  case (Inl e)
  then show ?thesis using assms create_event_Inl [OF Inl]
    by (auto simp: persistProviderEvent_def find_event_by_key_def split: option.splits dest: find_SomeD)
next
  case (Inr u)
  obtain d1 where u: "u = ((), d1)" by (metis old.unit.exhaust prod.collapse)
  have eq: "r = Inr (False, event_row i now p)" "d' = d1"
    using assms Inr u by (simp_all add: persistProviderEvent_def)
  have "create_event (event_row i now p) d = Inr ((), d1)" using Inr u by simp
  note f = this [unfolded create_event_Inr] and ok = create_event_ok [OF _ this]
  show ?thesis unfolding eq using f ok by auto
qed

theorem persist_event_exact_witness:
  "\<exists>e d'. persistProviderEvent ''i1'' 5 \<lparr>pp_workspaceId = ''w'', pp_providerAccountId = ''acc'',
      pp_provider = TELEGRAM_BOT, pp_channelType = CTELEGRAM, pp_providerEventKey = ''k'',
      pp_isFingerprinted = False, pp_payload = JNull, pp_headers = None, pp_correlationId = None,
      pp_retentionDays = None\<rparr> empty_db = (Inr (False, e), d') \<and> events_ok d'"
proof -
  let ?p = "\<lparr>pp_workspaceId = ''w'', pp_providerAccountId = ''acc'',
      pp_provider = TELEGRAM_BOT, pp_channelType = CTELEGRAM, pp_providerEventKey = ''k'',
      pp_isFingerprinted = False, pp_payload = JNull, pp_headers = None, pp_correlationId = None,
      pp_retentionDays = None\<rparr>"
  obtain e d' where run: "persistProviderEvent ''i1'' 5 ?p empty_db = (Inr (False, e), d')"
    by (simp add: persistProviderEvent_def create_event_def empty_db_def)
  have "events_ok empty_db" by (simp add: events_ok_def empty_db_def)
  with persist_event_exact [OF run] run show ?thesis by blast
qed

lemma transition_keeps:
  assumes "transitionProviderEventStatus now i st le inc d = Inr (u, d')"
  shows "map event_key (db_events d') = map event_key (db_events d)" "map pe_id (db_events d') = map pe_id (db_events d)"
    "events_ok d' = events_ok d"
proof -
  have d': "d' = d\<lparr>db_events := update_where (\<lambda>x. pe_id x = i) (transition_row now st le inc) (db_events d)\<rparr>"
    using assms by (auto simp: transitionProviderEventStatus_def update_event_def split: if_splits)
  show k: "map event_key (db_events d') = map event_key (db_events d)"
    by (simp add: d' map_update_where)
  show m: "map pe_id (db_events d') = map pe_id (db_events d)"
    by (simp add: d' map_update_where)
  show "events_ok d' = events_ok d" unfolding events_ok_def k m ..
qed

text \<open>A replay resets the journal row and queues nothing: no outbox event asks for its processing.\<close>

lemma replay_queues_nothing:
  "replayProviderEvent now i d = Inr (r, d') \<Longrightarrow> db_outbox d' = db_outbox d \<and> snd r = EReceived"
  by (auto simp: replayProviderEvent_def bindT_Inr update_event_def split: option.splits if_splits)

end
