(* ===== verification/Content.thy ===== *)
theory Content
  imports Json Providers
begin

text \<open>
  Message content: the plain-text rendering and the preview of
  \<open>packages/contracts/src/conversations/content-summary.ts\<close>, and the validation of outbound
  content by \<open>OutboundMessageContentSchema\<close> of \<open>packages/contracts/src/channels/outbound.ts\<close>.
  Content is untyped JSON as the database stores it. The ellipsis U+2026 has no code unit below
  256 and is written as \<open>CHR 0x85\<close>.
\<close>

section \<open>Rendering\<close>

definition jstr :: "json \<Rightarrow> string \<Rightarrow> string" where
  "jstr j k = (case jget j k of JStr s \<Rightarrow> s | _ \<Rightarrow> [])"

definition jnum :: "json \<Rightarrow> string \<Rightarrow> int" where
  "jnum j k = (case jget j k of JNum n \<Rightarrow> n | _ \<Rightarrow> 0)"

definition mediaLabel :: "string \<Rightarrow> string" where
  "mediaLabel kind =
     (if kind = ''image'' then ''Photo''
      else if kind = ''video'' then ''Video''
      else if kind = ''audio'' then ''Audio''
      else if kind = ''voice'' then ''Voice message''
      else if kind = ''document'' then ''Document''
      else if kind = ''sticker'' then ''Sticker''
      else ''Attachment'')"

definition toFixed5 :: "int \<Rightarrow> string" where
  "toFixed5 n = show_int n @ ''.00000''"

definition summarizeMessageContent :: "json \<Rightarrow> string" where
  "summarizeMessageContent c = (let ty = jstr c ''type'' in
     if ty = ''TEXT'' then
       (let s = trim (jstr c ''text'') in if s \<noteq> [] then s else ''(empty message)'')
     else if ty = ''MEDIA'' then
       (if trim (jstr c ''caption'') \<noteq> [] then trim (jstr c ''caption'')
        else let label = mediaLabel (jstr c ''mediaType'') in
          if jstr c ''filename'' \<noteq> [] then label @ '': '' @ jstr c ''filename'' else label)
     else if ty = ''LOCATION'' then
       (if jstr c ''name'' \<noteq> [] \<or> jstr c ''address'' \<noteq> []
        then ''Location: '' @ join '', '' (filter (\<lambda>s. s \<noteq> []) [jstr c ''name'', jstr c ''address''])
        else ''Location: '' @ toFixed5 (jnum c ''latitude'') @ '', '' @ toFixed5 (jnum c ''longitude''))
     else if ty = ''CONTACT'' then
       ''Contact: '' @ join '', '' (map (\<lambda>x. jstr (jget x ''name'') ''formattedName'') (asArray (jget c ''contacts'')))
     else if ty = ''INTERACTIVE'' then
       (if jget c ''title'' \<noteq> JUndef then jstr c ''title'' else jstr c ''bodyText'')
     else if ty = ''REACTION'' then
       (if jstr c ''action'' = ''unreact'' then ''Removed a reaction'' else ''Reacted '' @ jstr c ''emoji'')
     else if ty = ''TEMPLATE'' then ''Template: '' @ jstr c ''templateName''
     else if jget c ''description'' \<noteq> JUndef \<and> jget c ''description'' \<noteq> JNull then jstr c ''description''
     else ''Unsupported message ('' @ jstr c ''rawType'' @ '')'')"

text \<open>\<open>replace(/\s+/g, ' ')\<close>: every run of white space becomes one space.\<close>

fun collapse_spaces :: "bool \<Rightarrow> string \<Rightarrow> string" where
  "collapse_spaces inrun [] = []"
| "collapse_spaces inrun (c # cs) =
     (if is_space c then (if inrun then collapse_spaces True cs else CHR '' '' # collapse_spaces True cs)
      else c # collapse_spaces False cs)"

definition ELLIPSIS :: char where "ELLIPSIS = CHR 0x85"

definition truncatePreview :: "string \<Rightarrow> nat \<Rightarrow> string" where
  "truncatePreview s cap = (let singleLine = trim (collapse_spaces False s) in
     if length singleLine \<le> cap then singleLine else take (cap - 1) singleLine @ [ELLIPSIS])"

definition preview :: "string \<Rightarrow> string" where
  "preview s = truncatePreview s 280"

definition single_line :: "string \<Rightarrow> bool" where
  "single_line s = ((\<forall>c\<in>set s. is_space c \<longrightarrow> c = CHR '' '') \<and> \<not> str_includes s ''  '')"

lemma space_is_space: "is_space (CHR '' '')"
  by (simp add: is_space_def)

lemma ellipsis_no_space: "\<not> is_space ELLIPSIS"
  by (simp add: is_space_def ELLIPSIS_def)

lemma ellipsis_ne: "ELLIPSIS \<noteq> CHR '' ''"
  using ellipsis_no_space space_is_space by metis

lemma includes_sublist: "str_includes s sub \<Longrightarrow> str_includes (p @ s @ q) sub"
  unfolding str_includes_iff by (metis append.assoc)

lemma includes_snoc:
  assumes "str_includes (xs @ [e]) ''  ''" "e \<noteq> CHR '' ''"
  shows "str_includes xs ''  ''"
proof -
  obtain p q where pq: "xs @ [e] = p @ ''  '' @ q" using assms(1) unfolding str_includes_iff by blast
  have "q \<noteq> []"
  proof
    assume "q = []"
    then have "last (xs @ [e]) = CHR '' ''" unfolding pq by simp
    then show False using assms(2) by simp
  qed
  then have "xs = p @ ''  '' @ butlast q" using pq by (metis append_assoc butlast_append butlast_snoc)
  then show ?thesis unfolding str_includes_iff by blast
qed

lemma collapse_space_chars: "c \<in> set (collapse_spaces b s) \<Longrightarrow> is_space c \<Longrightarrow> c = CHR '' ''"
  by (induction b s rule: collapse_spaces.induct) (auto split: if_splits)

lemma collapse_no_double:
  "\<not> str_includes (collapse_spaces b s) ''  '' \<and>
   (b \<longrightarrow> (case collapse_spaces b s of [] \<Rightarrow> True | c # _ \<Rightarrow> c \<noteq> CHR '' ''))"
proof (induction b s rule: collapse_spaces.induct)
  case (1 inrun)
  then show ?case by simp
next
  case (2 inrun c cs)
  show ?case
  proof (cases "is_space c")
    case True
    show ?thesis
    proof (cases inrun)
      case True
      then show ?thesis using 2 \<open>is_space c\<close> by simp
    next
      case False
      have IH: "\<not> str_includes (collapse_spaces True cs) ''  ''"
        "case collapse_spaces True cs of [] \<Rightarrow> True | d # _ \<Rightarrow> d \<noteq> CHR '' ''"
        using 2(2) True False by simp_all
      then show ?thesis using True False by (cases "collapse_spaces True cs") auto
    qed
  next
    case False
    then have "c \<noteq> CHR '' ''" using space_is_space by blast
    then show ?thesis using 2(3) False by auto
  qed
qed

lemma trim_sublist: "\<exists>p q. s = p @ trim s @ q"
proof -
  obtain p where p: "s = p @ dropWhile is_space s" by (metis takeWhile_dropWhile_id)
  let ?t = "dropWhile is_space s"
  have "rev ?t = takeWhile is_space (rev ?t) @ dropWhile is_space (rev ?t)" by simp
  then have "?t = rev (dropWhile is_space (rev ?t)) @ rev (takeWhile is_space (rev ?t))"
    by (metis rev_append rev_rev_ident)
  then show ?thesis using p unfolding trim_def by metis
qed

lemma single_line_sublist: "single_line s \<Longrightarrow> s = p @ t @ q \<Longrightarrow> single_line t"
  unfolding single_line_def using includes_sublist by fastforce

text \<open>A list preview never exceeds its limit and is a single line: all white space in it is plain
  spaces, and no two of them follow each other.\<close>

theorem preview_bounded:
  assumes "0 < cap"
  shows "length (truncatePreview s cap) \<le> cap \<and> single_line (truncatePreview s cap)"
proof -
  let ?c = "collapse_spaces False s"
  let ?t = "trim ?c"
  have "single_line ?c" using collapse_space_chars collapse_no_double [of False s]
    unfolding single_line_def by blast
  then have t: "single_line ?t" using trim_sublist [of ?c] single_line_sublist by blast
  then have "single_line (take (cap - 1) ?t)"
    using single_line_sublist [of ?t "[]" "take (cap - 1) ?t" "drop (cap - 1) ?t"] by simp
  then have "single_line (take (cap - 1) ?t @ [ELLIPSIS])"
    using includes_snoc [OF _ ellipsis_ne] ellipsis_no_space unfolding single_line_def by auto
  then show ?thesis using t assms by (auto simp: truncatePreview_def Let_def)
qed

theorem preview_bounded_witness:
  "length (truncatePreview ''a   b c'' 3) \<le> 3 \<and> single_line (truncatePreview ''a   b c'' 3)"
  by (rule preview_bounded) simp

text \<open>The comment of the renderer says it never returns an empty string; an interactive reply with an
  empty title and an unsupported message with an empty description do render as one.\<close>

theorem summary_can_be_empty:
  "summarizeMessageContent (JObj [(''type'', JStr ''INTERACTIVE''), (''interactiveType'', JStr ''button_reply''),
     (''id'', JStr ''1''), (''title'', JStr '''')]) = [] \<and>
   summarizeMessageContent (JObj [(''type'', JStr ''UNSUPPORTED''), (''rawType'', JStr ''x''),
     (''description'', JStr '''')]) = []"
  by code_simp

lemma summary_nonempty:
  assumes "jstr c ''type'' \<in> {''TEXT'', ''MEDIA'', ''LOCATION'', ''CONTACT'', ''REACTION'', ''TEMPLATE''}"
  shows "summarizeMessageContent c \<noteq> []"
  using assms by (elim insertE emptyE) (simp_all add: summarizeMessageContent_def mediaLabel_def Let_def)

section \<open>Outbound content\<close>

definition opt_str :: "json \<Rightarrow> string \<Rightarrow> bool" where
  "opt_str j k = (case jget j k of JUndef \<Rightarrow> True | JStr _ \<Rightarrow> True | _ \<Rightarrow> False)"

definition req_str :: "json \<Rightarrow> string \<Rightarrow> bool" where
  "req_str j k = (case jget j k of JStr _ \<Rightarrow> True | _ \<Rightarrow> False)"

definition req_num :: "json \<Rightarrow> string \<Rightarrow> bool" where
  "req_num j k = (case jget j k of JNum _ \<Rightarrow> True | _ \<Rightarrow> False)"

definition req_arr :: "json \<Rightarrow> string \<Rightarrow> (json \<Rightarrow> bool) \<Rightarrow> bool" where
  "req_arr j k ok = (case jget j k of JArr xs \<Rightarrow> list_all ok xs | _ \<Rightarrow> False)"

fun is_record :: "json \<Rightarrow> bool" where
  "is_record (JObj _) = True"
| "is_record _ = False"

definition MEDIA_KINDS :: "string list" where
  "MEDIA_KINDS = [''image'', ''audio'', ''video'', ''document'', ''sticker'', ''voice'']"

definition outbound_action_ok :: "json \<Rightarrow> bool" where
  "outbound_action_ok a =
     (if jstr a ''actionType'' = ''buttons'' then
        req_arr a ''buttons'' (\<lambda>b. req_str b ''id'' \<and> req_str b ''title'') \<and> length (asArray (jget a ''buttons'')) \<le> 3
      else if jstr a ''actionType'' = ''list'' then
        req_str a ''buttonTitle'' \<and> req_arr a ''sections'' (\<lambda>s. req_str s ''title'' \<and>
          req_arr s ''rows'' (\<lambda>r. req_str r ''id'' \<and> req_str r ''title'' \<and> opt_str r ''description''))
      else False)"

text \<open>\<open>valid_url\<close> is the library's URL check.\<close>

definition outbound_content_ok :: "(string \<Rightarrow> bool) \<Rightarrow> json \<Rightarrow> bool" where
  "outbound_content_ok valid_url c = (let ty = jstr c ''type'' in
     if ty = ''TEXT'' then req_str c ''text'' \<and> jstr c ''text'' \<noteq> []
     else if ty = ''MEDIA'' then jstr c ''mediaType'' \<in> set MEDIA_KINDS \<and> req_str c ''mimeType'' \<and>
       (jget c ''url'' = JUndef \<or> req_str c ''url'' \<and> valid_url (jstr c ''url'')) \<and>
       opt_str c ''providerMediaId'' \<and> opt_str c ''filename'' \<and> opt_str c ''caption''
     else if ty = ''TEMPLATE'' then req_str c ''templateName'' \<and> opt_str c ''language'' \<and>
       req_arr c ''components'' (\<lambda>x. jstr x ''type'' \<in> {''header'', ''body'', ''button''} \<and>
         req_arr x ''parameters'' is_record)
     else if ty = ''LOCATION'' then req_num c ''latitude'' \<and> req_num c ''longitude'' \<and>
       opt_str c ''name'' \<and> opt_str c ''address''
     else if ty = ''INTERACTIVE'' then req_str c ''bodyText'' \<and> opt_str c ''headerText'' \<and>
       opt_str c ''footerText'' \<and> outbound_action_ok (jget c ''action'')
     else False)"

text \<open>The parsed content: the keys of its schema in the schema's order, the language of a template
  defaulted. Unknown keys below the top level, which the schema drops too, are kept here.\<close>

definition content_keys :: "string \<Rightarrow> string list" where
  "content_keys ty =
     (if ty = ''TEXT'' then [''type'', ''text'']
      else if ty = ''MEDIA'' then [''type'', ''mediaType'', ''mimeType'', ''url'', ''providerMediaId'', ''filename'', ''caption'']
      else if ty = ''TEMPLATE'' then [''type'', ''templateName'', ''language'', ''components'']
      else if ty = ''LOCATION'' then [''type'', ''latitude'', ''longitude'', ''name'', ''address'']
      else [''type'', ''bodyText'', ''headerText'', ''footerText'', ''action''])"

definition content_field :: "json \<Rightarrow> string \<Rightarrow> (string \<times> json) list" where
  "content_field c k = (case jget c k of
     JUndef \<Rightarrow> if jstr c ''type'' = ''TEMPLATE'' \<and> k = ''language'' then [(k, JStr ''en'')] else []
   | v \<Rightarrow> [(k, v)])"

definition parse_outbound_content :: "(string \<Rightarrow> bool) \<Rightarrow> json \<Rightarrow> json option" where
  "parse_outbound_content valid_url c = (if outbound_content_ok valid_url c
     then Some (JObj (concat (map (content_field c) (content_keys (jstr c ''type''))))) else None)"

end
