(* ===== verification/Ingest.thy ===== *)
theory Ingest
  imports ProviderEvents Content Delivery
begin

text \<open>
  The Conversation Core ingest, \<open>apps/worker/src/conversations/conversation-ingest.service.ts\<close>: inbound
  messages become contacts, identities, conversations and messages in one transaction, new
  conversations are assigned by the inbox settings (\<open>packages/contracts/src/channels/channel.ts\<close>),
  and delivery receipts advance outbound messages. Generated ids, the clock and the changes other
  jobs make between two database calls are arguments. The advisory lock serialises the
  transactions of one sender, so a transaction is a function of the state it finds.
\<close>

section \<open>Inbox settings\<close>

datatype distribution_method = LEAST_ASSIGNED | ROUND_ROBIN | MANUAL

record inbox_settings =
  is_aiAgentId :: "string option"
  is_distributionMethod :: distribution_method
  is_maxConversationsEnabled :: bool
  is_maxConversationsPerAgent :: nat
  is_preferredAgent :: bool
  is_csatEnabled :: bool
  is_reassignWhenOffline :: bool

definition DEFAULT_INBOX_SETTINGS :: inbox_settings where
  "DEFAULT_INBOX_SETTINGS = \<lparr>is_aiAgentId = None, is_distributionMethod = LEAST_ASSIGNED,
     is_maxConversationsEnabled = False, is_maxConversationsPerAgent = 10, is_preferredAgent = False,
     is_csatEnabled = False, is_reassignWhenOffline = False\<rparr>"

text \<open>One field of the parsed object: a missing key takes its default, a wrong value fails.\<close>

definition bool_field :: "json \<Rightarrow> string \<Rightarrow> bool \<Rightarrow> bool option" where
  "bool_field j k dflt = (case map_of (asRecord j) k of None \<Rightarrow> Some dflt
     | Some (JBool b) \<Rightarrow> Some b | Some _ \<Rightarrow> None)"

definition agent_field :: "json \<Rightarrow> string option option" where
  "agent_field j = (case map_of (asRecord j) ''aiAgentId'' of None \<Rightarrow> Some None
     | Some JNull \<Rightarrow> Some None
     | Some (JStr s) \<Rightarrow> (if 1 \<le> length s \<and> length s \<le> 64 then Some (Some s) else None)
     | Some _ \<Rightarrow> None)"

definition method_field :: "json \<Rightarrow> distribution_method option" where
  "method_field j = (case map_of (asRecord j) ''distributionMethod'' of None \<Rightarrow> Some LEAST_ASSIGNED
     | Some (JStr s) \<Rightarrow> (if s = ''LEAST_ASSIGNED'' then Some LEAST_ASSIGNED
         else if s = ''ROUND_ROBIN'' then Some ROUND_ROBIN
         else if s = ''MANUAL'' then Some MANUAL else None)
     | Some _ \<Rightarrow> None)"

definition cap_field :: "json \<Rightarrow> nat option" where
  "cap_field j = (case map_of (asRecord j) ''maxConversationsPerAgent'' of None \<Rightarrow> Some 10
     | Some (JNum n) \<Rightarrow> (if 1 \<le> n \<and> n \<le> 100 then Some (nat n) else None)
     | Some _ \<Rightarrow> None)"

definition parse_inbox_settings :: "json \<Rightarrow> inbox_settings option" where
  "parse_inbox_settings j =
     (case (agent_field j, method_field j, bool_field j ''maxConversationsEnabled'' False, cap_field j,
            bool_field j ''preferredAgent'' False, bool_field j ''csatEnabled'' False,
            bool_field j ''reassignWhenOffline'' False) of
        (Some a, Some m, Some e, Some c, Some p, Some s, Some r) \<Rightarrow>
          Some \<lparr>is_aiAgentId = a, is_distributionMethod = m, is_maxConversationsEnabled = e,
            is_maxConversationsPerAgent = c, is_preferredAgent = p, is_csatEnabled = s,
            is_reassignWhenOffline = r\<rparr>
      | _ \<Rightarrow> None)"

definition readInboxSettings :: "json \<Rightarrow> inbox_settings" where
  "readInboxSettings j = (case parse_inbox_settings j of Some s \<Rightarrow> s | None \<Rightarrow> DEFAULT_INBOX_SETTINGS)"

section \<open>Inputs\<close>

record participant =
  pt_identifier :: string
  pt_displayName :: "string option"
  pt_avatarUrl :: "string option"
  pt_metadata :: json

text \<open>A normalized inbound message; its timestamp is parsed, \<open>None\<close> for an invalid date.\<close>

record inbound_message =
  im_providerMessageId :: string
  im_sender :: participant
  im_timestamp :: "int option"
  im_content :: json
  im_replyTarget :: "string option"
  im_metadata :: json

record ingest_result =
  ir_messageId :: id
  ir_conversationId :: id
  ir_duplicate :: bool
  ir_createdConversation :: bool

text \<open>The ids the database or the service generates for one ingest.\<close>

record ingest_ids =
  ii_contact :: id
  ii_identity :: id
  ii_conversation :: id

definition metadataString :: "json \<Rightarrow> string \<Rightarrow> string option" where
  "metadataString m k = (case jget m k of JStr s \<Rightarrow> if length s > 0 then Some s else None | _ \<Rightarrow> None)"

definition MAX_BACKDATE_MS :: int where "MAX_BACKDATE_MS = 7 * 24 * 3600000"

definition MAX_FUTURE_MS :: int where "MAX_FUTURE_MS = 5 * 60000"

definition timelineTimestamp :: "int option \<Rightarrow> int \<Rightarrow> int" where
  "timelineTimestamp sentAt receivedAt = (case sentAt of None \<Rightarrow> receivedAt
     | Some sent \<Rightarrow> if receivedAt - MAX_BACKDATE_MS \<le> sent \<and> sent \<le> receivedAt + MAX_FUTURE_MS
         then sent else receivedAt)"

definition open_status :: "conversation_status \<Rightarrow> bool" where
  "open_status s = (s = VOpen \<or> s = VPending)"

section \<open>Sender identity\<close>

definition update_identity :: "id \<Rightarrow> (contact_identity \<Rightarrow> contact_identity) \<Rightarrow> unit tx" where
  "update_identity i f d =
     (if list_ex (\<lambda>x. ci_id x = i) (db_identities d)
      then Inr ((), d\<lparr>db_identities := update_where (\<lambda>x. ci_id x = i) f (db_identities d)\<rparr>)
      else Inl recordNotFound)"

definition update_contact :: "id \<Rightarrow> (contact \<Rightarrow> contact) \<Rightarrow> unit tx" where
  "update_contact i f d =
     (if list_ex (\<lambda>x. ct_id x = i) (db_contacts d)
      then Inr ((), d\<lparr>db_contacts := update_where (\<lambda>x. ct_id x = i) f (db_contacts d)\<rparr>)
      else Inl recordNotFound)"

definition senderDisplayName :: "participant \<Rightarrow> string" where
  "senderDisplayName s = take 255 (case pt_displayName s of None \<Rightarrow> pt_identifier s | Some n \<Rightarrow> n)"

definition freshened_identity :: "int \<Rightarrow> participant \<Rightarrow> string \<Rightarrow> contact_identity \<Rightarrow> contact_identity" where
  "freshened_identity now sender displayName c = c\<lparr>ci_displayName := Some displayName, ci_lastSeenAt := Some now,
     ci_username := (case metadataString (pt_metadata sender) ''username'' of None \<Rightarrow> ci_username c | u \<Rightarrow> u)\<rparr>"

text \<open>The contact's update is decided on the identity and the contact read before.\<close>

definition freshened_contact ::
  "contact_identity \<Rightarrow> contact \<Rightarrow> participant \<Rightarrow> string \<Rightarrow> contact \<Rightarrow> contact" where
  "freshened_contact identity contact sender displayName c =
     (let email = metadataString (pt_metadata sender) ''email'';
          phone = metadataString (pt_metadata sender) ''phone'';
          autoNamed = (Some (ct_displayName contact) = ci_displayName identity) in
      c\<lparr>ct_displayName := (if autoNamed \<and> displayName \<noteq> ct_displayName contact
           then displayName else ct_displayName c),
        ct_email := (if nonempty (ct_email contact) = None \<and> email \<noteq> None then email else ct_email c),
        ct_phone := (if nonempty (ct_phone contact) = None \<and> phone \<noteq> None then phone else ct_phone c),
        ct_avatarUrl := (if nonempty (ct_avatarUrl contact) = None \<and> nonempty (pt_avatarUrl sender) \<noteq> None
           then pt_avatarUrl sender else ct_avatarUrl c)\<rparr>)"

definition upsertSenderIdentity ::
  "ingest_ids \<Rightarrow> int \<Rightarrow> provider_account \<Rightarrow> participant \<Rightarrow> string \<Rightarrow> (id \<times> id) tx" where
  "upsertSenderIdentity ids now channel sender displayName d =
     (let email = metadataString (pt_metadata sender) ''email'';
          phone = metadataString (pt_metadata sender) ''phone'';
          username = metadataString (pt_metadata sender) ''username'' in
      case find_identity (pa_id channel) (pt_identifier sender) d of
        None \<Rightarrow>
          thenT (create_contact \<lparr>ct_id = ii_contact ids, ct_workspaceId = pa_workspaceId channel,
              ct_displayName = displayName, ct_email = email, ct_phone = phone,
              ct_avatarUrl = pt_avatarUrl sender\<rparr>)
            (thenT (create_identity \<lparr>ci_id = ii_identity ids, ci_workspaceId = pa_workspaceId channel,
                ci_contactId = ii_contact ids, ci_providerAccountId = pa_id channel,
                ci_channelType = pa_channelType channel, ci_externalId = pt_identifier sender,
                ci_displayName = Some displayName, ci_username = username, ci_lastSeenAt = Some now\<rparr>)
              (returnT (ii_identity ids, ii_contact ids))) d
      | Some identity \<Rightarrow>
          (case find_contact (ci_contactId identity) d of
             None \<Rightarrow> Inl recordNotFound
           | Some contact \<Rightarrow>
               thenT (update_identity (ci_id identity) (freshened_identity now sender displayName))
                 (thenT (update_contact (ci_contactId identity) (freshened_contact identity contact sender displayName))
                   (returnT (ci_id identity, ci_contactId identity))) d))"

section \<open>Choosing a conversation and an assignee\<close>

text \<open>\<open>ORDER BY lastMessageAt DESC NULLS LAST, createdAt DESC\<close>.\<close>

definition conv_before :: "conversation \<Rightarrow> conversation \<Rightarrow> bool" where
  "conv_before a b = (case (cv_lastMessageAt a, cv_lastMessageAt b) of
     (Some x, Some y) \<Rightarrow> x > y \<or> (x = y \<and> cv_createdAt a > cv_createdAt b)
   | (Some _, None) \<Rightarrow> True
   | (None, Some _) \<Rightarrow> False
   | (None, None) \<Rightarrow> cv_createdAt a > cv_createdAt b)"

fun first_by :: "('a \<Rightarrow> 'a \<Rightarrow> bool) \<Rightarrow> 'a list \<Rightarrow> 'a option" where
  "first_by before [] = None"
| "first_by before (x # xs) = Some (foldl (\<lambda>best y. if before y best then y else best) x xs)"

definition newest_conversation :: "(conversation \<Rightarrow> bool) \<Rightarrow> db \<Rightarrow> conversation option" where
  "newest_conversation P d =
     first_by (\<lambda>a b. cv_createdAt a > cv_createdAt b) (filter P (db_conversations d))"

definition active_member :: "db \<Rightarrow> id \<Rightarrow> bool" where
  "active_member d i = list_ex (\<lambda>m. mb_id m = i \<and> mb_status m = MActive \<and> mb_deletedAt m = None \<and>
     mb_userActive m \<and> mb_userDeletedAt m = None) (db_members d)"

definition channel_members :: "provider_account \<Rightarrow> db \<Rightarrow> id list" where
  "channel_members channel d = filter (active_member d)
     (map am_membershipId (filter (\<lambda>m. am_providerAccountId m = pa_id channel) (db_account_members d)))"

definition open_load :: "provider_account \<Rightarrow> db \<Rightarrow> id \<Rightarrow> nat" where
  "open_load channel d i = count_where (\<lambda>c. cv_workspaceId c = pa_workspaceId channel \<and>
     cv_assignee c = Some i \<and> open_status (cv_status c)) (db_conversations d)"

text \<open>\<open>reduce((best, id) => f(id) < f(best) ? id : best)\<close>.\<close>

definition reduce_least :: "('a \<Rightarrow> 'b::linorder) \<Rightarrow> 'a list \<Rightarrow> 'a" where
  "reduce_least f xs = foldl (\<lambda>best x. if f x < f best then x else best) (hd xs) (tl xs)"

definition last_assigned :: "provider_account \<Rightarrow> db \<Rightarrow> id \<Rightarrow> int" where
  "last_assigned channel d i = (case map cv_createdAt (filter (\<lambda>c. cv_providerAccountId c = pa_id channel \<and>
       cv_assignee c = Some i) (db_conversations d)) of [] \<Rightarrow> 0 | t # ts \<Rightarrow> foldl max t ts)"

definition available_members :: "inbox_settings \<Rightarrow> provider_account \<Rightarrow> db \<Rightarrow> id list" where
  "available_members settings channel d =
     (if is_maxConversationsEnabled settings
      then filter (\<lambda>i. open_load channel d i < is_maxConversationsPerAgent settings) (channel_members channel d)
      else channel_members channel d)"

definition chooseAssignee :: "provider_account \<Rightarrow> id \<Rightarrow> db \<Rightarrow> id option" where
  "chooseAssignee channel contactIdentityId d =
     (let settings = readInboxSettings (pa_settings channel);
          available = available_members settings channel d;
          previous = newest_conversation (\<lambda>c. cv_contactIdentityId c = contactIdentityId \<and>
            (case cv_assignee c of None \<Rightarrow> False | Some a \<Rightarrow> a \<in> set available)) d in
      if is_distributionMethod settings = MANUAL then None
      else if available = [] then None
      else if is_preferredAgent settings \<and> previous \<noteq> None then cv_assignee (the previous)
      else if is_distributionMethod settings = LEAST_ASSIGNED
        then Some (reduce_least (open_load channel d) available)
      else Some (reduce_least (last_assigned channel d) available))"

definition findEmailThread :: "id \<Rightarrow> string \<Rightarrow> string option \<Rightarrow> db \<Rightarrow> conversation option" where
  "findEmailThread acc threadId replyTarget d =
     (case newest_conversation (\<lambda>c. cv_providerAccountId c = acc \<and> cv_externalThreadId c = Some threadId) d of
        Some c \<Rightarrow> Some c
      | None \<Rightarrow> (case replyTarget of None \<Rightarrow> None
          | Some t \<Rightarrow> (case find_message_by_provider acc t d of None \<Rightarrow> None
              | Some m \<Rightarrow> find_conversation (ms_conversationId m) d)))"

definition open_chat :: "provider_account \<Rightarrow> id \<Rightarrow> db \<Rightarrow> conversation option" where
  "open_chat channel identityId d = first_by conv_before
     (filter (\<lambda>c. cv_providerAccountId c = pa_id channel \<and> cv_contactIdentityId c = identityId \<and>
        open_status (cv_status c)) (db_conversations d))"

definition existing_conversation :: "provider_account \<Rightarrow> inbound_message \<Rightarrow> id \<Rightarrow> db \<Rightarrow> conversation option" where
  "existing_conversation channel m identityId d =
     (case metadataString (im_metadata m) ''threadId'' of
        Some threadId \<Rightarrow> findEmailThread (pa_id channel) threadId (im_replyTarget m) d
      | None \<Rightarrow> open_chat channel identityId d)"

definition new_conversation :: "ingest_ids \<Rightarrow> int \<Rightarrow> provider_account \<Rightarrow> inbound_message \<Rightarrow> id \<times> id \<Rightarrow> id option \<Rightarrow> conversation" where
  "new_conversation ids now channel m identity assignee =
     \<lparr>cv_id = ii_conversation ids, cv_workspaceId = pa_workspaceId channel,
      cv_providerAccountId = pa_id channel, cv_contactId = snd identity, cv_contactIdentityId = fst identity,
      cv_status = VOpen, cv_assignee = assignee,
      cv_subject = map_option (take 500) (metadataString (im_metadata m) ''subject''),
      cv_externalThreadId = map_option (take 512) (metadataString (im_metadata m) ''threadId''),
      cv_unreadCount = 0, cv_lastMessageAt = None, cv_lastMessagePreview = None,
      cv_lastMessageDirection = None, cv_lastInboundAt = None, cv_resolvedAt = None, cv_createdAt = now\<rparr>"

definition resolveConversation ::
  "ingest_ids \<Rightarrow> int \<Rightarrow> provider_account \<Rightarrow> inbound_message \<Rightarrow> id \<times> id \<Rightarrow> (conversation \<times> bool) tx" where
  "resolveConversation ids now channel m identity d =
     (case existing_conversation channel m (fst identity) d of
        Some c \<Rightarrow> Inr ((c, False), d)
      | None \<Rightarrow> let c = new_conversation ids now channel m identity (chooseAssignee channel (fst identity) d)
          in thenT (create_conversation c) (returnT (c, True)) d)"

section \<open>The ingest transaction\<close>

definition inbound_row :: "int \<Rightarrow> provider_account \<Rightarrow> inbound_message \<Rightarrow> id \<Rightarrow> id \<Rightarrow> id \<Rightarrow> id option \<Rightarrow> message" where
  "inbound_row now channel m convId eventId messageId replyId =
     (let createdAt = timelineTimestamp (im_timestamp m) now in
     \<lparr>ms_id = messageId, ms_workspaceId = pa_workspaceId channel, ms_conversationId = convId,
      ms_providerAccountId = pa_id channel, ms_direction = Inbound, ms_senderType = SContact,
      ms_senderMembershipId = None, ms_senderName = Some (senderDisplayName (im_sender m)),
      ms_isPrivate = False, ms_contentType = jstr (im_content m) ''type'',
      ms_content = (if truthy (im_metadata m)
        then JObj (filter (\<lambda>kv. fst kv \<noteq> ''metadata'') (asRecord (im_content m)) @ [(''metadata'', im_metadata m)])
        else im_content m),
      ms_text = Some (summarizeMessageContent (im_content m)),
      ms_providerMessageId = Some (im_providerMessageId m), ms_replyToMessageId = replyId,
      ms_status = DDelivered, ms_errorCode = None, ms_errorMessage = None,
      ms_providerEventId = Some eventId, ms_sentAt = im_timestamp m, ms_deliveredAt = Some now,
      ms_readAt = None, ms_failedAt = None, ms_createdAt = createdAt, ms_updatedAt = now\<rparr>)"

text \<open>The update of the conversation is decided on the row read before (\<open>c0\<close>).\<close>

definition bump_conversation :: "conversation \<Rightarrow> int \<Rightarrow> string \<Rightarrow> conversation \<Rightarrow> conversation" where
  "bump_conversation c0 createdAt txt c =
     (let isLatest = (case cv_lastMessageAt c0 of None \<Rightarrow> True | Some t \<Rightarrow> createdAt \<ge> t);
          isLatestInbound = (case cv_lastInboundAt c0 of None \<Rightarrow> True | Some t \<Rightarrow> createdAt > t) in
      c\<lparr>cv_unreadCount := cv_unreadCount c + 1,
        cv_lastInboundAt := (if isLatestInbound then Some createdAt else cv_lastInboundAt c),
        cv_lastMessageAt := (if isLatest then Some createdAt else cv_lastMessageAt c),
        cv_lastMessagePreview := (if isLatest then Some (preview txt) else cv_lastMessagePreview c),
        cv_lastMessageDirection := (if isLatest then Some Inbound else cv_lastMessageDirection c),
        cv_status := (if cv_status c0 \<noteq> VOpen then VOpen else cv_status c),
        cv_resolvedAt := (if cv_status c0 \<noteq> VOpen then None else cv_resolvedAt c)\<rparr>)"

definition reply_target :: "provider_account \<Rightarrow> inbound_message \<Rightarrow> db \<Rightarrow> id option" where
  "reply_target channel m d = (case im_replyTarget m of None \<Rightarrow> None
     | Some t \<Rightarrow> map_option ms_id (find_message_by_provider (pa_id channel) t d))"

text \<open>Prisma refuses an invalid date; the message is then not stored.\<close>

definition storeInbound :: "int \<Rightarrow> provider_account \<Rightarrow> inbound_message \<Rightarrow> id \<Rightarrow> id \<Rightarrow> id \<Rightarrow> unit tx" where
  "storeInbound now channel m convId eventId messageId d =
     (if im_timestamp m = None
      then throwT (OtherError ''PrismaClientValidationError'' ''Provided Date object is invalid.'') d
      else create_message (inbound_row now channel m convId eventId messageId (reply_target channel m d)) d)"

definition ingestInTransaction ::
  "ingest_ids \<Rightarrow> int \<Rightarrow> provider_account \<Rightarrow> inbound_message \<Rightarrow> id \<Rightarrow> id \<Rightarrow> ingest_result tx" where
  "ingestInTransaction ids now channel m eventId messageId =
     bindT (upsertSenderIdentity ids now channel (im_sender m) (senderDisplayName (im_sender m))) (\<lambda>identity.
     bindT (resolveConversation ids now channel m identity) (\<lambda>(c, created).
     bindT (storeInbound now channel m (cv_id c) eventId messageId) (\<lambda>_.
     bindT (update_conversation (cv_id c) (bump_conversation c (timelineTimestamp (im_timestamp m) now)
         (summarizeMessageContent (im_content m)))) (\<lambda>_.
     bindT (notifyRealtime (notice (if created then ''conversation.created'' else ''conversation.message.created'')
         (pa_workspaceId channel) (Some (cv_id c)) (Some messageId) None)) (\<lambda>_.
     returnT \<lparr>ir_messageId = messageId, ir_conversationId = cv_id c, ir_duplicate = False,
       ir_createdConversation = created\<rparr>)))))"

definition findDuplicate :: "provider_account \<Rightarrow> string \<Rightarrow> db \<Rightarrow> ingest_result option" where
  "findDuplicate channel pmid d = map_option (\<lambda>m. \<lparr>ir_messageId = ms_id m,
     ir_conversationId = ms_conversationId m, ir_duplicate = True, ir_createdConversation = False\<rparr>)
     (find_message_by_provider (pa_id channel) pmid d)"

text \<open>\<open>race\<close>: what other jobs commit between the duplicate check and the transaction.\<close>

definition ingestMessage ::
  "tx_env \<Rightarrow> (db \<Rightarrow> db) \<Rightarrow> ingest_ids \<Rightarrow> int \<Rightarrow> provider_account \<Rightarrow> inbound_message \<Rightarrow> id \<Rightarrow> id \<Rightarrow> db
     \<Rightarrow> (err + ingest_result) \<times> db" where
  "ingestMessage env race ids now channel m eventId messageId d =
     (case findDuplicate channel (im_providerMessageId m) d of
        Some existing \<Rightarrow> (Inr existing, d)
      | None \<Rightarrow>
          (case withTransaction default_tx_policy env
                  (ingestInTransaction ids now channel m eventId messageId) (race d) of
             (Inr r, d', _) \<Rightarrow> (Inr r, d')
           | (Inl e, d', _) \<Rightarrow>
               if isUniqueConstraintViolation e then
                 (case findDuplicate channel (im_providerMessageId m) d' of
                    Some stored \<Rightarrow> (Inr stored, d')
                  | None \<Rightarrow> (Inl e, d'))
               else (Inl e, d')))"

section \<open>The conversation core invariant\<close>

text \<open>Primary keys and unique keys are unique and every reference resolves.\<close>

definition messages_ok :: "db \<Rightarrow> bool" where
  "messages_ok d = (distinct (map ms_id (db_messages d)) \<and>
     (\<forall>a\<in>set (db_messages d). \<forall>b\<in>set (db_messages d). msg_key_clash a b \<longrightarrow> a = b))"

definition identities_ok :: "db \<Rightarrow> bool" where
  "identities_ok d = (distinct (map ci_id (db_identities d)) \<and>
     distinct (map (\<lambda>c. (ci_providerAccountId c, ci_externalId c)) (db_identities d)) \<and>
     set (map ci_contactId (db_identities d)) \<subseteq> set (map ct_id (db_contacts d)))"

definition conversations_ok :: "db \<Rightarrow> bool" where
  "conversations_ok d = (distinct (map cv_id (db_conversations d)) \<and>
     set (map cv_contactIdentityId (db_conversations d)) \<subseteq> set (map ci_id (db_identities d)))"

definition core_ok :: "db \<Rightarrow> bool" where
  "core_ok d = (messages_ok d \<and> identities_ok d \<and> conversations_ok d \<and>
     set (map ms_conversationId (db_messages d)) \<subseteq> set (map cv_id (db_conversations d)))"

lemma create_message_Inr:
  "create_message m d = Inr (u, d') \<longleftrightarrow> d' = d\<lparr>db_messages := db_messages d @ [m]\<rparr> \<and>
     (\<forall>x\<in>set (db_messages d). ms_id x \<noteq> ms_id m \<and> \<not> msg_key_clash x m)"
  by (auto simp: create_message_def list_ex_iff)

lemma create_conversation_Inr:
  "create_conversation c d = Inr (u, d') \<longleftrightarrow> d' = d\<lparr>db_conversations := db_conversations d @ [c]\<rparr> \<and>
     (\<forall>x\<in>set (db_conversations d). cv_id x \<noteq> cv_id c)"
  by (auto simp: create_conversation_def list_ex_iff)

lemma create_identity_Inr:
  "create_identity c d = Inr (u, d') \<longleftrightarrow> d' = d\<lparr>db_identities := db_identities d @ [c]\<rparr> \<and>
     (\<forall>x\<in>set (db_identities d). ci_id x \<noteq> ci_id c \<and> \<not> identity_key_clash x c)"
  by (auto simp: create_identity_def list_ex_iff)

lemma create_contact_Inr:
  "create_contact c d = Inr (u, d') \<longleftrightarrow> d' = d\<lparr>db_contacts := db_contacts d @ [c]\<rparr> \<and>
     (\<forall>x\<in>set (db_contacts d). ct_id x \<noteq> ct_id c)"
  by (auto simp: create_contact_def list_ex_iff)

lemma update_conversation_Inr:
  "update_conversation i f d = Inr (u, d') \<longleftrightarrow>
     d' = d\<lparr>db_conversations := update_where (\<lambda>x. cv_id x = i) f (db_conversations d)\<rparr> \<and>
     i \<in> cv_id ` set (db_conversations d)"
  by (auto simp: update_conversation_def list_ex_iff)

lemma update_identity_Inr:
  "update_identity i f d = Inr (u, d') \<longleftrightarrow>
     d' = d\<lparr>db_identities := update_where (\<lambda>x. ci_id x = i) f (db_identities d)\<rparr> \<and>
     i \<in> ci_id ` set (db_identities d)"
  by (auto simp: update_identity_def list_ex_iff)

lemma update_contact_Inr:
  "update_contact i f d = Inr (u, d') \<longleftrightarrow>
     d' = d\<lparr>db_contacts := update_where (\<lambda>x. ct_id x = i) f (db_contacts d)\<rparr> \<and>
     i \<in> ct_id ` set (db_contacts d)"
  by (auto simp: update_contact_def list_ex_iff)

lemmas store_Inr = create_message_Inr create_conversation_Inr create_identity_Inr create_contact_Inr
  update_conversation_Inr update_identity_Inr update_contact_Inr

lemma thenT_Inr: "thenT m n d = Inr (b, d'') \<longleftrightarrow> (\<exists>d'. m d = Inr ((), d') \<and> n d' = Inr (b, d''))"
  by (simp add: thenT_def bindT_Inr)

lemma find_update_key:
  assumes "\<And>x. P x \<Longrightarrow> Q (f x) = Q x"
  shows "List.find Q (update_where P f xs) = map_option (\<lambda>x. if P x then f x else x) (List.find Q xs)"
  using assms by (induction xs) auto

lemma find_append: "List.find P (xs @ ys) = (case List.find P xs of None \<Rightarrow> List.find P ys | s \<Rightarrow> s)"
  by (induction xs) auto

text \<open>What the sender step does: the identity it returns is the one found under the sender's key
  afterwards, and only contacts and identities change.\<close>

lemma upsert_new:
  assumes "upsertSenderIdentity ids now ch s dn d = Inr (i, d')"
    and "find_identity (pa_id ch) (pt_identifier s) d = None"
  shows "\<exists>ct ci. d' = d\<lparr>db_contacts := db_contacts d @ [ct], db_identities := db_identities d @ [ci]\<rparr> \<and>
    ci_providerAccountId ci = pa_id ch \<and> ci_externalId ci = pt_identifier s \<and>
    ci_contactId ci = ct_id ct \<and> i = (ci_id ci, ci_contactId ci) \<and>
    (\<forall>x\<in>set (db_contacts d). ct_id x \<noteq> ct_id ct) \<and>
    (\<forall>x\<in>set (db_identities d). ci_id x \<noteq> ci_id ci \<and> \<not> identity_key_clash x ci)"
  using assms unfolding upsertSenderIdentity_def Let_def
  by (simp add: thenT_Inr create_contact_Inr create_identity_Inr)
    (intro exI conjI, (rule db.equality; simp)+, simp_all)

lemma freshened_simps [simp]:
  "ci_id (freshened_identity now s dn c) = ci_id c"
  "ci_contactId (freshened_identity now s dn c) = ci_contactId c"
  "ci_providerAccountId (freshened_identity now s dn c) = ci_providerAccountId c"
  "ci_externalId (freshened_identity now s dn c) = ci_externalId c"
  "ct_id (freshened_contact i ct s dn k) = ct_id k"
  by (simp_all add: freshened_identity_def freshened_contact_def Let_def)

lemma upsert_known:
  assumes "upsertSenderIdentity ids now ch s dn d = Inr (i, d')"
    and "find_identity (pa_id ch) (pt_identifier s) d = Some x"
  shows "\<exists>ct. d' = d\<lparr>db_identities :=
        update_where (\<lambda>c. ci_id c = ci_id x) (freshened_identity now s dn) (db_identities d),
      db_contacts := update_where (\<lambda>c. ct_id c = ci_contactId x) (freshened_contact x ct s dn) (db_contacts d)\<rparr> \<and>
    find_contact (ci_contactId x) d = Some ct \<and> i = (ci_id x, ci_contactId x)"
  using assms unfolding upsertSenderIdentity_def Let_def
  by (auto simp: thenT_Inr update_identity_Inr update_contact_Inr split: option.splits)

lemma upsert_facts:
  assumes "upsertSenderIdentity ids now ch s dn d = Inr (i, d')"
  shows "\<exists>x. find_identity (pa_id ch) (pt_identifier s) d' = Some x \<and> i = (ci_id x, ci_contactId x)"
    and "db_messages d' = db_messages d" "db_conversations d' = db_conversations d"
    and "ci_id ` set (db_identities d) \<subseteq> ci_id ` set (db_identities d')"
    and "fst i \<in> ci_id ` set (db_identities d')"
proof -
  have "(\<exists>x. find_identity (pa_id ch) (pt_identifier s) d' = Some x \<and> i = (ci_id x, ci_contactId x)) \<and>
    db_messages d' = db_messages d \<and> db_conversations d' = db_conversations d \<and>
    ci_id ` set (db_identities d) \<subseteq> ci_id ` set (db_identities d')"
  proof (cases "find_identity (pa_id ch) (pt_identifier s) d")
    case None
    from upsert_new [OF assms None] show ?thesis
      using None by (auto simp: find_identity_def find_append)
  next
    case (Some x)
    have img: "map ci_id (update_where P (freshened_identity now s dn) us) = map ci_id us" for P us
      by (rule map_update_where) simp
    have "set (map ci_id (db_identities d')) = set (map ci_id (db_identities d))"
      using upsert_known [OF assms Some] by (auto simp del: set_map simp add: img)
    with upsert_known [OF assms Some] Some show ?thesis
      by (auto simp: find_identity_def find_update_key)
  qed
  then show "\<exists>x. find_identity (pa_id ch) (pt_identifier s) d' = Some x \<and> i = (ci_id x, ci_contactId x)"
    and "db_messages d' = db_messages d" "db_conversations d' = db_conversations d"
    and "ci_id ` set (db_identities d) \<subseteq> ci_id ` set (db_identities d')"
    and "fst i \<in> ci_id ` set (db_identities d')"
    by (auto simp: find_identity_def dest!: find_SomeD)
qed

lemma upsert_identities_ok:
  assumes "upsertSenderIdentity ids now ch s dn d = Inr (i, d')" "identities_ok d"
  shows "identities_ok d'"
proof (cases "find_identity (pa_id ch) (pt_identifier s) d")
  case None
  from upsert_new [OF assms(1) None] obtain ct ci where
    d': "d' = d\<lparr>db_contacts := db_contacts d @ [ct], db_identities := db_identities d @ [ci]\<rparr>"
    and ci: "ci_contactId ci = ct_id ct"
      "\<forall>x\<in>set (db_identities d). ci_id x \<noteq> ci_id ci \<and> \<not> identity_key_clash x ci" by blast
  from ci(2) have "ci_id ci \<notin> set (map ci_id (db_identities d))"
    "(ci_providerAccountId ci, ci_externalId ci) \<notin>
       set (map (\<lambda>c. (ci_providerAccountId c, ci_externalId c)) (db_identities d))"
    unfolding identity_key_clash_def by (simp_all add: image_iff) metis+
  then show ?thesis using assms(2) ci(1) unfolding d' identities_ok_def
    by (simp add: subset_insertI2 del: set_map)
next
  case (Some x)
  from upsert_known [OF assms(1) Some] obtain ct where
    d': "db_identities d' = update_where (\<lambda>c. ci_id c = ci_id x) (freshened_identity now s dn) (db_identities d)"
    "db_contacts d' = update_where (\<lambda>c. ct_id c = ci_contactId x) (freshened_contact x ct s dn) (db_contacts d)"
    by auto
  have "map ci_id (db_identities d') = map ci_id (db_identities d)"
    "map (\<lambda>c. (ci_providerAccountId c, ci_externalId c)) (db_identities d') =
      map (\<lambda>c. (ci_providerAccountId c, ci_externalId c)) (db_identities d)"
    "map ci_contactId (db_identities d') = map ci_contactId (db_identities d)"
    "map ct_id (db_contacts d') = map ct_id (db_contacts d)"
    unfolding d' by (rule map_update_where; simp)+
  with assms(2) show ?thesis by (simp only: identities_ok_def)
qed

section \<open>The steps of the transaction\<close>

lemma first_by_member: "first_by before xs = Some x \<Longrightarrow> x \<in> set xs"
proof -
  have "foldl (\<lambda>b y. if before y b then y else b) a ys \<in> insert a (set ys)" for a ys
    by (induction ys arbitrary: a) auto
  then show "first_by before xs = Some x \<Longrightarrow> x \<in> set xs" by (cases xs) auto
qed

lemma existing_member:
  "existing_conversation ch m i d = Some c \<Longrightarrow> c \<in> set (db_conversations d)"
  by (auto simp: existing_conversation_def findEmailThread_def open_chat_def newest_conversation_def
      find_conversation_def dest!: first_by_member find_SomeD split: option.splits)

lemma resolve_Inr:
  "resolveConversation ids now ch m i d = Inr ((c, cr), d') \<longleftrightarrow>
     (case existing_conversation ch m (fst i) d of
        Some c0 \<Rightarrow> c = c0 \<and> \<not> cr \<and> d' = d
      | None \<Rightarrow> c = new_conversation ids now ch m i (chooseAssignee ch (fst i) d) \<and> cr \<and>
          d' = d\<lparr>db_conversations := db_conversations d @ [c]\<rparr> \<and>
          (\<forall>x\<in>set (db_conversations d). cv_id x \<noteq> cv_id c))"
  by (auto simp: resolveConversation_def Let_def thenT_Inr create_conversation_Inr split: option.splits)

lemma bump_simps [simp]:
  "cv_id (bump_conversation c0 t x c) = cv_id c"
  "cv_contactIdentityId (bump_conversation c0 t x c) = cv_contactIdentityId c"
  "cv_providerAccountId (bump_conversation c0 t x c) = cv_providerAccountId c"
  "cv_workspaceId (bump_conversation c0 t x c) = cv_workspaceId c"
  "cv_assignee (bump_conversation c0 t x c) = cv_assignee c"
  "cv_createdAt (bump_conversation c0 t x c) = cv_createdAt c"
  "cv_unreadCount (bump_conversation c0 t x c) = Suc (cv_unreadCount c)"
  "cv_externalThreadId (bump_conversation c0 t x c) = cv_externalThreadId c"
  by (simp_all add: bump_conversation_def Let_def)

lemma bump_own:
  "cv_status (bump_conversation c t x c) = VOpen"
  "cv_lastInboundAt (bump_conversation c t x c) =
     Some (case cv_lastInboundAt c of None \<Rightarrow> t | Some l \<Rightarrow> max l t)"
  "cv_lastMessageAt (bump_conversation c t x c) =
     Some (case cv_lastMessageAt c of None \<Rightarrow> t | Some l \<Rightarrow> max l t)"
  by (auto simp: bump_conversation_def Let_def split: option.splits)

lemma inbound_row_simps [simp]:
  "ms_id (inbound_row now ch m c e i r) = i"
  "ms_conversationId (inbound_row now ch m c e i r) = c"
  "ms_providerAccountId (inbound_row now ch m c e i r) = pa_id ch"
  "ms_providerMessageId (inbound_row now ch m c e i r) = Some (im_providerMessageId m)"
  "ms_direction (inbound_row now ch m c e i r) = Inbound"
  "ms_status (inbound_row now ch m c e i r) = DDelivered"
  by (simp_all add: inbound_row_def Let_def)

text \<open>One committed transaction: the identity, the conversation \<open>c\<close> it was resolved to with the
  state \<open>d2\<close> in which that happened, and the three writes that follow.\<close>

lemma ingest_Inr:
  assumes "ingestInTransaction ids now ch m ev mid d = Inr (r, d')"
  obtains i d1 c created d2 where
    "upsertSenderIdentity ids now ch (im_sender m) (senderDisplayName (im_sender m)) d = Inr (i, d1)"
    "resolveConversation ids now ch m i d1 = Inr ((c, created), d2)"
    "\<forall>x\<in>set (db_messages d2). ms_id x \<noteq> mid \<and>
       \<not> msg_key_clash x (inbound_row now ch m (cv_id c) ev mid (reply_target ch m d2))"
    "d' = d2\<lparr>db_messages := db_messages d2 @ [inbound_row now ch m (cv_id c) ev mid (reply_target ch m d2)],
       db_conversations := update_where (\<lambda>x. cv_id x = cv_id c)
         (bump_conversation c (timelineTimestamp (im_timestamp m) now) (summarizeMessageContent (im_content m)))
         (db_conversations d2),
       db_notified := db_notified d2 @ [notice
         (if created then ''conversation.created'' else ''conversation.message.created'')
         (pa_workspaceId ch) (Some (cv_id c)) (Some mid) None]\<rparr>"
    "r = \<lparr>ir_messageId = mid, ir_conversationId = cv_id c, ir_duplicate = False, ir_createdConversation = created\<rparr>"
    "im_timestamp m \<noteq> None"
proof -
  from assms obtain i d1 c created d2 d3 d4 where st:
    "upsertSenderIdentity ids now ch (im_sender m) (senderDisplayName (im_sender m)) d = Inr (i, d1)"
    "resolveConversation ids now ch m i d1 = Inr ((c, created), d2)"
    "storeInbound now ch m (cv_id c) ev mid d2 = Inr ((), d3)"
    "update_conversation (cv_id c) (bump_conversation c (timelineTimestamp (im_timestamp m) now)
       (summarizeMessageContent (im_content m))) d3 = Inr ((), d4)"
    "d' = d4\<lparr>db_notified := db_notified d4 @ [notice
         (if created then ''conversation.created'' else ''conversation.message.created'')
         (pa_workspaceId ch) (Some (cv_id c)) (Some mid) None]\<rparr>"
    "r = \<lparr>ir_messageId = mid, ir_conversationId = cv_id c, ir_duplicate = False, ir_createdConversation = created\<rparr>"
    unfolding ingestInTransaction_def bindT_Inr by (auto simp: bindT_Inr notifyRealtime_def)
  show ?thesis
    by (rule that [OF st(1,2)])
      (use st(3-6) in \<open>auto simp: storeInbound_def create_message_Inr update_conversation_Inr split: if_splits\<close>)
qed

section \<open>What one ingest does\<close>

definition conversation_rows :: "id \<Rightarrow> db \<Rightarrow> conversation list" where
  "conversation_rows i d = filter (\<lambda>c. cv_id c = i) (db_conversations d)"

lemma distinct_filter_key:
  "distinct (map f xs) \<Longrightarrow> x \<in> set xs \<Longrightarrow> filter (\<lambda>y. f y = f x) xs = [x]"
proof (induction xs)
  case (Cons a xs)
  show ?case
  proof (cases "f a = f x")
    case True
    then have "x \<notin> set xs" using Cons.prems(1) by (auto simp: image_iff)
    moreover from this have "a = x" using Cons.prems(2) by simp
    ultimately show ?thesis using Cons.prems(1) by (auto simp: filter_empty_conv image_iff)
  next
    case False
    then show ?thesis using Cons by auto
  qed
qed simp

lemma filter_update_neg: "filter (\<lambda>x. \<not> P x) (update_where P f xs) = filter (\<lambda>x. \<not> P x) xs"
  if "\<And>x. P (f x) = P x"
  using that by (induction xs) auto

text \<open>One committed ingest of an inbound message appends exactly one message, delivered and
  under the provider's id, to one conversation. That conversation is the one found for it or a
  new one; its unread count grows by one, it is open afterwards, and its last message and last
  inbound times become the later of their value and the message's timeline time, so a message
  delivered late never pulls them back. No other conversation changes.\<close>

theorem ingest_exact:
  assumes "ingestInTransaction ids now ch m ev mid d = Inr (r, d')" "conversations_ok d"
  shows "\<exists>c c' reply. db_messages d' = db_messages d @ [inbound_row now ch m (cv_id c') ev mid reply] \<and>
    cv_id c' = ir_conversationId r \<and> ir_messageId r = mid \<and> \<not> ir_duplicate r \<and>
    conversation_rows (cv_id c') d = (if ir_createdConversation r then [] else [c]) \<and>
    conversation_rows (cv_id c') d' = [c'] \<and>
    cv_unreadCount c' = (if ir_createdConversation r then 1 else cv_unreadCount c + 1) \<and>
    cv_status c' = VOpen \<and>
    cv_lastMessageAt c' = Some (case (if ir_createdConversation r then None else cv_lastMessageAt c) of
      None \<Rightarrow> timelineTimestamp (im_timestamp m) now | Some t \<Rightarrow> max t (timelineTimestamp (im_timestamp m) now)) \<and>
    cv_lastInboundAt c' = Some (case (if ir_createdConversation r then None else cv_lastInboundAt c) of
      None \<Rightarrow> timelineTimestamp (im_timestamp m) now | Some t \<Rightarrow> max t (timelineTimestamp (im_timestamp m) now)) \<and>
    filter (\<lambda>x. cv_id x \<noteq> cv_id c') (db_conversations d') = filter (\<lambda>x. cv_id x \<noteq> cv_id c') (db_conversations d)"
proof -
  from assms(1) obtain i d1 c created d2 where
    up: "upsertSenderIdentity ids now ch (im_sender m) (senderDisplayName (im_sender m)) d = Inr (i, d1)"
    and res: "resolveConversation ids now ch m i d1 = Inr ((c, created), d2)"
    and d': "d' = d2\<lparr>db_messages := db_messages d2 @ [inbound_row now ch m (cv_id c) ev mid (reply_target ch m d2)],
       db_conversations := update_where (\<lambda>x. cv_id x = cv_id c)
         (bump_conversation c (timelineTimestamp (im_timestamp m) now) (summarizeMessageContent (im_content m)))
         (db_conversations d2),
       db_notified := db_notified d2 @ [notice
         (if created then ''conversation.created'' else ''conversation.message.created'')
         (pa_workspaceId ch) (Some (cv_id c)) (Some mid) None]\<rparr>"
    and r: "r = \<lparr>ir_messageId = mid, ir_conversationId = cv_id c, ir_duplicate = False, ir_createdConversation = created\<rparr>"
    by (rule ingest_Inr)
  let ?b = "bump_conversation c (timelineTimestamp (im_timestamp m) now) (summarizeMessageContent (im_content m))"
  note keep = upsert_facts(2,3) [OF up]
  have rows: "conversation_rows (cv_id c) d2 = [c]"
    and old: "conversation_rows (cv_id c) d = (if created then [] else [c])"
    and new: "created \<Longrightarrow> cv_unreadCount c = 0 \<and> cv_lastMessageAt c = None \<and> cv_lastInboundAt c = None"
    and conv2: "filter (\<lambda>x. cv_id x \<noteq> cv_id c) (db_conversations d2) = filter (\<lambda>x. cv_id x \<noteq> cv_id c) (db_conversations d)"
    and msgs: "db_messages d2 = db_messages d"
    using res assms(2) keep
    by (auto simp: resolve_Inr conversation_rows_def conversations_ok_def distinct_filter_key
        new_conversation_def filter_empty_conv split: option.splits dest!: existing_member)
  have "conversation_rows (cv_id c) d' = update_where (\<lambda>x. cv_id x = cv_id c) ?b (conversation_rows (cv_id c) d2)"
    by (simp add: conversation_rows_def d' filter_update_where)
  then have rows': "conversation_rows (cv_id c) d' = [?b c]" by (simp add: rows)
  have "filter (\<lambda>x. cv_id x \<noteq> cv_id c) (db_conversations d') = filter (\<lambda>x. cv_id x \<noteq> cv_id c) (db_conversations d)"
    by (simp add: d' filter_update_neg conv2)
  with rows' old new msgs show ?thesis
    by (intro exI [of _ c] exI [of _ "?b c"] exI [of _ "reply_target ch m d2"])
      (auto simp: d' r bump_own)
qed

definition sample_channel :: provider_account where
  "sample_channel = \<lparr>pa_id = ''ch'', pa_workspaceId = ''w'', pa_channelType = CTELEGRAM, pa_provider = TELEGRAM_BOT,
     pa_name = ''Bot'', pa_accountIdentifier = ''bot'', pa_status = AACTIVE, pa_credentials = JObj [],
     pa_config = JObj [], pa_description = None, pa_displayIdentifier = None, pa_webhookKey = None,
     pa_statusReason = None, pa_lastErrorAt = None, pa_lastHealthCheckAt = None, pa_connectedAt = None,
     pa_settings = JObj [], pa_syncState = JObj [], pa_syncLeaseExpiresAt = None, pa_deletedAt = None\<rparr>"

definition sample_inbound :: "string \<Rightarrow> int \<Rightarrow> inbound_message" where
  "sample_inbound pmid t = \<lparr>im_providerMessageId = pmid,
     im_sender = \<lparr>pt_identifier = ''u1'', pt_displayName = Some ''Ann'', pt_avatarUrl = None, pt_metadata = JObj []\<rparr>,
     im_timestamp = Some t,
     im_content = JObj [(''type'', JStr ''TEXT''), (''text'', JStr ''hi'')],
     im_replyTarget = None, im_metadata = JUndef\<rparr>"

definition sample_ids :: "string \<Rightarrow> ingest_ids" where
  "sample_ids x = \<lparr>ii_contact = ''c'' @ x, ii_identity = ''i'' @ x, ii_conversation = ''v'' @ x\<rparr>"

text \<open>The state after the first message of a sender.\<close>

definition first_ingested :: db where
  "first_ingested = snd (runTx (ingestInTransaction (sample_ids ''1'') 100 sample_channel
     (sample_inbound ''p1'' 90) ''e1'' ''m1'') empty_db)"

definition first_result :: ingest_result where
  "first_result = \<lparr>ir_messageId = ''m1'', ir_conversationId = ''v1'', ir_duplicate = False, ir_createdConversation = True\<rparr>"

lemma first_ingested_run:
  "ingestInTransaction (sample_ids ''1'') 100 sample_channel (sample_inbound ''p1'' 90) ''e1'' ''m1'' empty_db =
     Inr (first_result, first_ingested)"
  by code_simp

theorem ingest_exact_witness:
  "\<exists>c c' reply. db_messages first_ingested = [inbound_row 100 sample_channel (sample_inbound ''p1'' 90) (cv_id c') ''e1'' ''m1'' reply] \<and>
     cv_unreadCount c' = 1 \<and> cv_lastMessageAt c' = Some 90 \<and> conversation_rows ''v1'' first_ingested = [c']"
proof -
  have "conversations_ok empty_db" by (simp add: conversations_ok_def empty_db_def)
  from ingest_exact [OF first_ingested_run this] show ?thesis
    by (auto simp: empty_db_def first_result_def sample_inbound_def timelineTimestamp_def MAX_BACKDATE_MS_def
        MAX_FUTURE_MS_def)
qed

section \<open>Idempotence and the invariant\<close>

lemma ingest_key_found:
  assumes "ingestInTransaction ids now ch m ev mid d = Inr (r, d')"
  shows "\<exists>x. find_message_by_provider (pa_id ch) (im_providerMessageId m) d' = Some x \<and>
    ms_id x = ir_messageId r \<and> ms_conversationId x = ir_conversationId r"
proof -
  from assms obtain i d1 c created d2 where
    fresh: "\<forall>x\<in>set (db_messages d2). ms_id x \<noteq> mid \<and>
       \<not> msg_key_clash x (inbound_row now ch m (cv_id c) ev mid (reply_target ch m d2))"
    and eq: "d' = d2\<lparr>db_messages := db_messages d2 @ [inbound_row now ch m (cv_id c) ev mid (reply_target ch m d2)],
       db_conversations := update_where (\<lambda>x. cv_id x = cv_id c)
         (bump_conversation c (timelineTimestamp (im_timestamp m) now) (summarizeMessageContent (im_content m)))
         (db_conversations d2),
       db_notified := db_notified d2 @ [notice
         (if created then ''conversation.created'' else ''conversation.message.created'')
         (pa_workspaceId ch) (Some (cv_id c)) (Some mid) None]\<rparr>"
    and r: "r = \<lparr>ir_messageId = mid, ir_conversationId = cv_id c, ir_duplicate = False, ir_createdConversation = created\<rparr>"
    by (rule ingest_Inr)
  have d': "db_messages d' = db_messages d2 @ [inbound_row now ch m (cv_id c) ev mid (reply_target ch m d2)]"
    by (simp add: eq)
  have "List.find (\<lambda>x. ms_providerAccountId x = pa_id ch \<and> ms_providerMessageId x = Some (im_providerMessageId m))
      (db_messages d2) = None"
    using fresh by (auto simp: find_None_iff_all msg_key_clash_def)
  then show ?thesis by (simp add: find_message_by_provider_def d' find_append r)
qed

lemma ingest_keeps_core:
  assumes "ingestInTransaction ids now ch m ev mid d = Inr (r, d')" "core_ok d"
  shows "core_ok d'"
proof -
  from assms(1) obtain i d1 c created d2 where
    up: "upsertSenderIdentity ids now ch (im_sender m) (senderDisplayName (im_sender m)) d = Inr (i, d1)"
    and res: "resolveConversation ids now ch m i d1 = Inr ((c, created), d2)"
    and fresh: "\<forall>x\<in>set (db_messages d2). ms_id x \<noteq> mid \<and>
       \<not> msg_key_clash x (inbound_row now ch m (cv_id c) ev mid (reply_target ch m d2))"
    and d': "d' = d2\<lparr>db_messages := db_messages d2 @ [inbound_row now ch m (cv_id c) ev mid (reply_target ch m d2)],
       db_conversations := update_where (\<lambda>x. cv_id x = cv_id c)
         (bump_conversation c (timelineTimestamp (im_timestamp m) now) (summarizeMessageContent (im_content m)))
         (db_conversations d2),
       db_notified := db_notified d2 @ [notice
         (if created then ''conversation.created'' else ''conversation.message.created'')
         (pa_workspaceId ch) (Some (cv_id c)) (Some mid) None]\<rparr>"
    by (rule ingest_Inr)
  let ?b = "bump_conversation c (timelineTimestamp (im_timestamp m) now) (summarizeMessageContent (im_content m))"
  let ?row = "inbound_row now ch m (cv_id c) ev mid (reply_target ch m d2)"
  note keep = upsert_facts(2,3) [OF up]
  have core1: "core_ok d1"
    using assms(2) upsert_identities_ok [OF up] keep order_trans [OF _ upsert_facts(4) [OF up]]
    unfolding core_ok_def messages_ok_def conversations_ok_def set_map by simp
  have core2: "core_ok d2" and c: "c \<in> set (db_conversations d2)"
    using res core1 upsert_facts(5) [OF up]
    by (auto simp: resolve_Inr core_ok_def messages_ok_def conversations_ok_def identities_ok_def new_conversation_def
        split: option.splits dest!: existing_member)
  have ids: "map cv_id (update_where P ?b cs) = map cv_id cs"
    "map cv_contactIdentityId (update_where P ?b cs) = map cv_contactIdentityId cs" for P cs
    by (rule map_update_where; simp)+
  have "messages_ok d'"
    using core2 fresh unfolding core_ok_def messages_ok_def d'
    by (auto simp: msg_key_clash_def)
  moreover have "identities_ok d'" using core2 by (simp add: core_ok_def identities_ok_def d')
  moreover have "conversations_ok d'"
    using core2 by (simp add: core_ok_def conversations_ok_def d' ids del: set_map)
  moreover have "set (map ms_conversationId (db_messages d')) \<subseteq> set (map cv_id (db_conversations d'))"
    using core2 c by (simp add: core_ok_def d' ids del: set_map) simp
  ultimately show ?thesis by (simp add: core_ok_def)
qed

text \<open>C2: Ingesting a provider message is idempotent: once it succeeded, whatever faults, races and
  retries it met, every later delivery of the same provider message on the channel reports the
  stored message as a duplicate and changes nothing, whatever its content.\<close>

theorem ingest_idempotent:
  assumes "ingestMessage env race ids now ch m ev mid d = (Inr r, d')"
    and "im_providerMessageId m2 = im_providerMessageId m"
  shows "ingestMessage env2 race2 ids2 now2 ch m2 ev2 mid2 d' =
    (Inr (r\<lparr>ir_duplicate := True, ir_createdConversation := False\<rparr>), d')"
proof -
  have found: "findDuplicate ch (im_providerMessageId m) d' =
      Some (r\<lparr>ir_duplicate := True, ir_createdConversation := False\<rparr>)"
  proof (cases "findDuplicate ch (im_providerMessageId m) d")
    case (Some x)
    then show ?thesis using assms(1) by (auto simp: ingestMessage_def findDuplicate_def)
  next
    case None
    obtain q d1 n ds where tx: "withTransaction default_tx_policy env
        (ingestInTransaction ids now ch m ev mid) (race d) = (q, d1, n, ds)" by (metis prod_cases4)
    show ?thesis
    proof (cases q)
      case (Inr r1)
      then have "r = r1" "d' = d1" using assms(1) None tx by (simp_all add: ingestMessage_def)
      moreover have "ingestInTransaction ids now ch m ev mid (drifted env 1 (n - 1) (race d)) = Inr (r1, d1)"
        using transaction_result [OF tx] Inr by simp
      ultimately show ?thesis using ingest_key_found
        by (fastforce simp: findDuplicate_def)
    next
      case (Inl e)
      then show ?thesis using assms(1) None tx
        by (auto simp: ingestMessage_def findDuplicate_def split: if_splits option.splits)
    qed
  qed
  then show ?thesis by (simp add: ingestMessage_def assms(2))
qed


lemma core_ok_empty: "core_ok empty_db"
  by (simp add: core_ok_def messages_ok_def identities_ok_def conversations_ok_def empty_db_def)

lemma first_ingest_message:
  "ingestMessage calm_env id (sample_ids ''1'') 100 sample_channel (sample_inbound ''p1'' 90) ''e1'' ''m1'' empty_db =
     (Inr first_result, first_ingested)"
  by code_simp

theorem ingest_idempotent_witness:
  "fst (ingestMessage calm_env id (sample_ids ''2'') 200 sample_channel (sample_inbound ''p1'' 90) ''e2'' ''m2'' first_ingested) =
     Inr \<lparr>ir_messageId = ''m1'', ir_conversationId = ''v1'', ir_duplicate = True, ir_createdConversation = False\<rparr>"
  using ingest_idempotent [OF first_ingest_message, of "sample_inbound ''p1'' 90"]
  by (simp add: first_result_def)


section \<open>One conversation per chat\<close>

lemma best_kept:
  assumes "distinct (map k (a # ys))" "foldl (\<lambda>b y. if before y b then y else b) a ys = c"
    and "\<And>y. before c y \<Longrightarrow> before c' y" "\<And>y. \<not> before y c \<Longrightarrow> \<not> before y c'"
  shows "foldl (\<lambda>b y. if before y b then y else b) (if k a = k c then c' else a)
      (map (\<lambda>x. if k x = k c then c' else x) ys) = c'"
  using assms
proof (induction ys arbitrary: c rule: rev_induct)
  case Nil
  then show ?case by simp
next
  case (snoc y ys)
  let ?best = "foldl (\<lambda>b y. if before y b then y else b)"
  show ?case
  proof (cases "before y (?best a ys)")
    case True
    then have c: "c = y" using snoc.prems(2) by simp
    have ne: "k a \<noteq> k y" "map (\<lambda>x. if k x = k y then c' else x) ys = ys"
      using snoc.prems(1) by (auto intro!: map_idI) (metis imageI)
    have "before c' (?best a ys)" using snoc.prems(3) True c by blast
    then show ?thesis unfolding c using ne by simp
  next
    case False
    then have c: "c = ?best a ys" using snoc.prems(2) by simp
    have IH: "?best (if k a = k c then c' else a) (map (\<lambda>x. if k x = k c then c' else x) ys) = c'"
      using snoc.IH [of c] snoc.prems c by simp
    have "?best a ys \<in> insert a (set ys)"
      using first_by_member [of before "a # ys" "?best a ys"] by simp
    then have "k y \<noteq> k c" using snoc.prems(1) c by (auto simp: image_iff)
    moreover have "\<not> before y c'" using snoc.prems(4) False c by blast
    ultimately show ?thesis using IH by simp
  qed
qed

lemma first_by_kept:
  assumes "distinct (map k xs)" "first_by before xs = Some c"
    and "\<And>y. before c y \<Longrightarrow> before c' y" "\<And>y. \<not> before y c \<Longrightarrow> \<not> before y c'"
  shows "first_by before (map (\<lambda>x. if k x = k c then c' else x) xs) = Some c'"
proof (cases xs)
  case Nil
  then show ?thesis using assms(2) by simp
next
  case (Cons a ys)
  then show ?thesis using best_kept [of k a ys before c c'] assms by simp
qed

lemma filter_update_in:
  "(\<And>x. x \<in> set xs \<Longrightarrow> P x \<Longrightarrow> Q (f x) = Q x) \<Longrightarrow> filter Q (update_where P f xs) = update_where P f (filter Q xs)"
  by (induction xs) auto

lemma bump_not_earlier:
  "conv_before c y \<Longrightarrow> conv_before (bump_conversation c t x c) y"
  "\<not> conv_before y c \<Longrightarrow> \<not> conv_before y (bump_conversation c t x c)"
  by (auto simp: conv_before_def bump_own split: option.splits if_splits)

lemma update_single:
  assumes "distinct (map k xs)" "c \<in> set xs"
  shows "update_where (\<lambda>x. k x = k c) f xs = map (\<lambda>x. if k x = k c then f c else x) xs"
proof -
  have "k x = k c \<Longrightarrow> x \<in> set xs \<Longrightarrow> x = c" for x
    using assms by (metis distinct_map inj_onD)
  then show ?thesis by (auto simp: update_where_def)
qed

lemma open_chat_kept:
  assumes "open_chat ch i d = Some c" "distinct (map cv_id (db_conversations d))"
    and "db_conversations d' =
      update_where (\<lambda>x. cv_id x = cv_id c) (bump_conversation c t txt) (db_conversations d)"
  shows "open_chat ch i d' = Some (bump_conversation c t txt c)"
proof -
  let ?Q = "\<lambda>c. cv_providerAccountId c = pa_id ch \<and> cv_contactIdentityId c = i \<and> open_status (cv_status c)"
  let ?cs = "db_conversations d"
  have c: "c \<in> set ?cs" "?Q c" using assms(1) by (auto simp: open_chat_def dest!: first_by_member)
  have same: "x \<in> set ?cs \<Longrightarrow> cv_id x = cv_id c \<Longrightarrow> x = c" for x
    using assms(2) c(1) by (metis distinct_map inj_onD)
  have "filter ?Q (update_where (\<lambda>x. cv_id x = cv_id c) (bump_conversation c t txt) ?cs) =
      update_where (\<lambda>x. cv_id x = cv_id c) (bump_conversation c t txt) (filter ?Q ?cs)"
  proof (rule filter_update_in)
    fix x assume "x \<in> set ?cs" "cv_id x = cv_id c"
    then have "x = c" by (rule same)
    then show "?Q (bump_conversation c t txt x) = ?Q x" using c(2) by (simp add: bump_own open_status_def)
  qed
  also have "\<dots> = map (\<lambda>x. if cv_id x = cv_id c then bump_conversation c t txt c else x) (filter ?Q ?cs)"
    by (rule update_single) (use assms(2) c in \<open>auto simp: distinct_map_filter\<close>)
  finally show ?thesis
    using first_by_kept [of cv_id "filter ?Q ?cs" conv_before c "bump_conversation c t txt c"]
      assms(1,2) bump_not_earlier unfolding open_chat_def assms(3) by (simp add: distinct_map_filter)
qed

lemma open_chat_new:
  assumes "open_chat ch i d = None" "cv_providerAccountId c = pa_id ch" "cv_contactIdentityId c = i"
    "open_status (cv_status c)"
    and "db_conversations d' = db_conversations d @ [c]"
  shows "open_chat ch i d' = Some c"
  using assms unfolding open_chat_def
  by (cases "filter (\<lambda>c. cv_providerAccountId c = pa_id ch \<and> cv_contactIdentityId c = i \<and>
    open_status (cv_status c)) (db_conversations d)") auto

text \<open>Two messages of one sender on a chat channel land in one conversation: if the first was
  stored, the second, ingested on the resulting state, neither creates a conversation nor goes to
  another one, however the provider's timestamps order the two.\<close>

theorem same_sender_same_conversation:
  assumes "ingestInTransaction ids now ch m ev mid d = Inr (r, d')" "core_ok d"
    and "ingestInTransaction ids2 now2 ch m2 ev2 mid2 d' = Inr (r2, d'')"
    and "pt_identifier (im_sender m2) = pt_identifier (im_sender m)"
    and "metadataString (im_metadata m) ''threadId'' = None" "metadataString (im_metadata m2) ''threadId'' = None"
  shows "ir_conversationId r2 = ir_conversationId r \<and> \<not> ir_createdConversation r2"
proof -
  from assms(1) obtain i d1 c created d2 where
    up: "upsertSenderIdentity ids now ch (im_sender m) (senderDisplayName (im_sender m)) d = Inr (i, d1)"
    and res: "resolveConversation ids now ch m i d1 = Inr ((c, created), d2)"
    and d': "d' = d2\<lparr>db_messages := db_messages d2 @ [inbound_row now ch m (cv_id c) ev mid (reply_target ch m d2)],
       db_conversations := update_where (\<lambda>x. cv_id x = cv_id c)
         (bump_conversation c (timelineTimestamp (im_timestamp m) now) (summarizeMessageContent (im_content m)))
         (db_conversations d2),
       db_notified := db_notified d2 @ [notice
         (if created then ''conversation.created'' else ''conversation.message.created'')
         (pa_workspaceId ch) (Some (cv_id c)) (Some mid) None]\<rparr>"
    and r: "r = \<lparr>ir_messageId = mid, ir_conversationId = cv_id c, ir_duplicate = False, ir_createdConversation = created\<rparr>"
    by (rule ingest_Inr)
  from assms(3) obtain i2 e1 c2 created2 e2 where
    up2: "upsertSenderIdentity ids2 now2 ch (im_sender m2) (senderDisplayName (im_sender m2)) d' = Inr (i2, e1)"
    and res2: "resolveConversation ids2 now2 ch m2 i2 e1 = Inr ((c2, created2), e2)"
    and r2: "r2 = \<lparr>ir_messageId = mid2, ir_conversationId = cv_id c2, ir_duplicate = False, ir_createdConversation = created2\<rparr>"
    by (rule ingest_Inr)
  obtain x where x: "find_identity (pa_id ch) (pt_identifier (im_sender m)) d1 = Some x" "i = (ci_id x, ci_contactId x)"
    using upsert_facts(1) [OF up] by blast
  have ids: "db_identities d2 = db_identities d1" using res by (auto simp: resolve_Inr split: option.splits)
  then have "find_identity (pa_id ch) (pt_identifier (im_sender m2)) d' = Some x"
    using x(1) by (simp add: d' find_identity_def assms(4))
  then have i2: "i2 = i" and e1: "db_conversations e1 = db_conversations d'"
    using upsert_known [OF up2] upsert_facts(3) [OF up2] x(2) by auto
  have oc: "open_chat ch (fst i) d2 = Some c"
    using res assms(5) by (auto simp: resolve_Inr existing_conversation_def new_conversation_def open_status_def
        intro!: open_chat_new split: option.splits)
  have dist: "distinct (map cv_id (db_conversations d2))"
    using res assms(2) upsert_facts(3) [OF up]
    by (auto simp: resolve_Inr core_ok_def conversations_ok_def split: option.splits)
  have "open_chat ch (fst i) e1 = Some (bump_conversation c (timelineTimestamp (im_timestamp m) now)
      (summarizeMessageContent (im_content m)) c)"
    by (rule open_chat_kept [OF oc dist]) (simp add: e1 d')
  then show ?thesis
    using res2 assms(6) by (auto simp: resolve_Inr existing_conversation_def i2 r r2)
qed

theorem same_sender_same_conversation_witness:
  "\<exists>r d''. ingestInTransaction (sample_ids ''2'') 300 sample_channel (sample_inbound ''p2'' 80) ''e2'' ''m2'' first_ingested =
     Inr (r, d'') \<and> ir_conversationId r = ''v1'' \<and> \<not> ir_createdConversation r"
proof -
  have "isOk (ingestInTransaction (sample_ids ''2'') 300 sample_channel (sample_inbound ''p2'' 80) ''e2'' ''m2'' first_ingested)"
    by code_simp
  then obtain r d'' where
    run: "ingestInTransaction (sample_ids ''2'') 300 sample_channel (sample_inbound ''p2'' 80) ''e2'' ''m2'' first_ingested = Inr (r, d'')"
    by (metis isOk.elims(2) old.prod.exhaust)
  have "metadataString (im_metadata (sample_inbound p t)) k = None" for p t k
    by (simp add: metadataString_def sample_inbound_def jget_def)
  with same_sender_same_conversation [OF first_ingested_run core_ok_empty run] run show ?thesis
    by (simp add: sample_inbound_def first_result_def)
qed

section \<open>Assignment\<close>

lemma reduce_least_facts:
  assumes "xs \<noteq> []"
  shows "reduce_least f xs \<in> set xs \<and> (\<forall>y\<in>set xs. f (reduce_least f xs) \<le> f y)"
proof -
  have "foldl (\<lambda>b x. if f x < f b then x else b) a ys \<in> insert a (set ys) \<and>
    (\<forall>y\<in>insert a (set ys). f (foldl (\<lambda>b x. if f x < f b then x else b) a ys) \<le> f y)" for a ys
    by (induction ys rule: rev_induct) (auto simp: not_less intro: less_imp_le order_trans)
  from this [of "hd xs" "tl xs"] show ?thesis
    using assms by (cases xs) (simp_all add: reduce_least_def)
qed

text \<open>The assignee of a new conversation is always a member of the channel whose membership and
  profile are active, below the configured cap of open conversations when the cap is on; nobody is
  assigned exactly in manual mode or when no such member exists; and without a preferred agent the
  chosen member has the fewest open conversations, respectively was assigned least recently.\<close>

theorem assignee_exact:
  assumes s: "s = readInboxSettings (pa_settings ch)"
  shows "(chooseAssignee ch ident d = None \<longleftrightarrow>
      is_distributionMethod s = MANUAL \<or> available_members s ch d = []) \<and>
    (\<forall>i. chooseAssignee ch ident d = Some i \<longrightarrow>
      active_member d i \<and> (\<exists>a\<in>set (db_account_members d). am_providerAccountId a = pa_id ch \<and> am_membershipId a = i) \<and>
      (is_maxConversationsEnabled s \<longrightarrow> open_load ch d i < is_maxConversationsPerAgent s) \<and>
      (\<not> is_preferredAgent s \<longrightarrow> (\<forall>j\<in>set (available_members s ch d).
         if is_distributionMethod s = LEAST_ASSIGNED then open_load ch d i \<le> open_load ch d j
         else last_assigned ch d i \<le> last_assigned ch d j)))"
proof -
  define av where "av = available_members s ch d"
  define prev where "prev = newest_conversation (\<lambda>c. cv_contactIdentityId c = ident \<and>
    (case cv_assignee c of None \<Rightarrow> False | Some a \<Rightarrow> a \<in> set av)) d"
  have ch: "chooseAssignee ch ident d =
     (if is_distributionMethod s = MANUAL then None else if av = [] then None
      else if is_preferredAgent s \<and> prev \<noteq> None then cv_assignee (the prev)
      else if is_distributionMethod s = LEAST_ASSIGNED then Some (reduce_least (open_load ch d) av)
      else Some (reduce_least (last_assigned ch d) av))"
    unfolding chooseAssignee_def Let_def s av_def prev_def ..
  have pv: "prev = Some c \<Longrightarrow> \<exists>a. cv_assignee c = Some a \<and> a \<in> set av" for c
    unfolding prev_def newest_conversation_def by (auto dest!: first_by_member split: option.splits)
  have avail: "i \<in> set av \<Longrightarrow> active_member d i \<and>
      (\<exists>a\<in>set (db_account_members d). am_providerAccountId a = pa_id ch \<and> am_membershipId a = i) \<and>
      (is_maxConversationsEnabled s \<longrightarrow> open_load ch d i < is_maxConversationsPerAgent s)" for i
    by (auto simp: av_def available_members_def channel_members_def split: if_splits)
  have none: "chooseAssignee ch ident d = None \<longleftrightarrow> is_distributionMethod s = MANUAL \<or> av = []"
    unfolding ch by (cases prev) (auto dest: pv)
  have least: "chooseAssignee ch ident d = Some i \<Longrightarrow> i \<in> set av \<and>
    (\<not> is_preferredAgent s \<longrightarrow> (\<forall>j\<in>set av. if is_distributionMethod s = LEAST_ASSIGNED
       then open_load ch d i \<le> open_load ch d j else last_assigned ch d i \<le> last_assigned ch d j))" for i
    unfolding ch using reduce_least_facts [of av "open_load ch d"] reduce_least_facts [of av "last_assigned ch d"]
    by (cases prev) (auto dest!: pv split: if_splits)
  show ?thesis unfolding av_def [symmetric] using none least avail by blast
qed

text \<open>Two active agents on the sample channel, the first with one open conversation.\<close>

definition sample_member :: "id \<Rightarrow> membership" where
  "sample_member i = \<lparr>mb_id = i, mb_workspaceId = ''w'', mb_status = MActive, mb_deletedAt = None,
     mb_displayName = i, mb_userActive = True, mb_userDeletedAt = None\<rparr>"

definition staffed_db :: db where
  "staffed_db = first_ingested\<lparr>db_members := [sample_member ''a1'', sample_member ''a2''],
     db_account_members := map (account_member.make ''ch'') [''a1'', ''a2''],
     db_conversations := update_where (\<lambda>_. True) (\<lambda>c. c\<lparr>cv_assignee := Some ''a1''\<rparr>) (db_conversations first_ingested)\<rparr>"

theorem assignee_exact_witness:
  "chooseAssignee sample_channel ''i9'' staffed_db = Some ''a2'' \<and> active_member staffed_db ''a2'' \<and>
   open_load sample_channel staffed_db ''a2'' \<le> open_load sample_channel staffed_db ''a1''"
proof -
  have run: "chooseAssignee sample_channel ''i9'' staffed_db = Some ''a2''" by code_simp
  have st: "\<not> is_preferredAgent (readInboxSettings (pa_settings sample_channel)) \<and>
    is_distributionMethod (readInboxSettings (pa_settings sample_channel)) = LEAST_ASSIGNED \<and>
    ''a1'' \<in> set (available_members (readInboxSettings (pa_settings sample_channel)) sample_channel staffed_db)"
    by code_simp
  show ?thesis using assignee_exact [OF refl, of sample_channel "''i9''" staffed_db] run st by auto
qed

section \<open>Email threads\<close>

text \<open>A stored thread id has at most 512 characters, the one looked up is not cut: a message with a
  longer thread id never finds the conversation an earlier message of its thread created.\<close>

lemma long_thread_never_found:
  assumes "metadataString (im_metadata m) ''threadId'' = Some t" "length t > 512" "im_replyTarget m = None"
    and "\<And>c. c \<in> set (db_conversations d) \<Longrightarrow> (case cv_externalThreadId c of None \<Rightarrow> True | Some u \<Rightarrow> length u \<le> 512)"
    and "ingestInTransaction ids now ch m ev mid d = Inr (r, d')"
  shows "ir_createdConversation r"
proof -
  from assms(5) obtain i d1 c created d2 where
    up: "upsertSenderIdentity ids now ch (im_sender m) (senderDisplayName (im_sender m)) d = Inr (i, d1)"
    and res: "resolveConversation ids now ch m i d1 = Inr ((c, created), d2)"
    and r: "r = \<lparr>ir_messageId = mid, ir_conversationId = cv_id c, ir_duplicate = False, ir_createdConversation = created\<rparr>"
    by (rule ingest_Inr)
  have "\<forall>c\<in>set (db_conversations d1). cv_externalThreadId c \<noteq> Some t"
    using assms(2,4) upsert_facts(3) [OF up] by fastforce
  then have "existing_conversation ch m (fst i) d1 = None"
    by (auto simp: existing_conversation_def findEmailThread_def assms(1,3) newest_conversation_def
        dest!: first_by_member split: option.splits)
  then show ?thesis using res by (simp add: resolve_Inr r)
qed

end
