(* ===== verification/Receipts.thy ===== *)
theory Receipts
  imports Ingest
begin

text \<open>
  Delivery receipts of \<open>apps/worker/src/conversations/conversation-ingest.service.ts\<close>
  (\<open>applyReceipt\<close>, \<open>transition\<close>, \<open>applyWatermarkReceipt\<close>): the message a receipt is about, the update
  guarded by the status that was read, and the receipts that cover everything sent up to a time.
  What other jobs commit between the reads and each guarded update is an argument (\<open>race\<close>).
\<close>

section \<open>Applying a receipt\<close>

text \<open>A normalized receipt; \<open>rc_watermark\<close> is the parsed \<open>metadata.watermark\<close> when it is a string.\<close>

record receipt =
  rc_providerMessageId :: string
  rc_recipient :: string
  rc_status :: delivery_status
  rc_timestamp :: int
  rc_error :: "(string \<times> string) option"
  rc_watermark :: "int option"

definition receipt_row :: "int \<Rightarrow> receipt \<Rightarrow> message \<Rightarrow> message" where
  "receipt_row now r m = m\<lparr>ms_status := rc_status r,
     ms_sentAt := (if rc_status r = DSent then Some (rc_timestamp r) else ms_sentAt m),
     ms_deliveredAt := (if rc_status r = DDelivered then Some (rc_timestamp r) else ms_deliveredAt m),
     ms_readAt := (if rc_status r = DRead then Some (rc_timestamp r) else ms_readAt m),
     ms_failedAt := (if rc_status r = DFailed then Some (rc_timestamp r) else ms_failedAt m),
     ms_errorCode := (if rc_status r = DFailed
        then Some (case rc_error r of None \<Rightarrow> ''DELIVERY_FAILED'' | Some (c, _) \<Rightarrow> c) else ms_errorCode m),
     ms_errorMessage := (if rc_status r = DFailed
        then Some (case rc_error r of None \<Rightarrow> ''The provider could not deliver this message.'' | Some (_, t) \<Rightarrow> t)
        else ms_errorMessage m),
     ms_updatedAt := now\<rparr>"

definition receipt_moves :: "receipt \<Rightarrow> message \<Rightarrow> bool" where
  "receipt_moves r m = (isDeliveryStatusMonotonic (ms_status m) (rc_status r) \<and> ms_status m \<noteq> rc_status r)"

definition transition :: "(db \<Rightarrow> db) \<Rightarrow> int \<Rightarrow> message \<Rightarrow> receipt \<Rightarrow> db \<Rightarrow> nat \<times> db" where
  "transition race now m r d =
     (if \<not> receipt_moves r m then (0, d)
      else let d1 = race d;
               hit = (\<lambda>x. ms_id x = ms_id m \<and> ms_status x = ms_status m);
               n = count_where hit (db_messages d1);
               d2 = d1\<lparr>db_messages := update_where hit (receipt_row now r) (db_messages d1)\<rparr> in
           (n, if n > 0 then d2\<lparr>db_notified := db_notified d2 @ [notice ''conversation.message.updated''
                 (ms_workspaceId m) (Some (ms_conversationId m)) (Some (ms_id m)) None]\<rparr> else d2))"

definition advanceable :: "delivery_status \<Rightarrow> delivery_status list" where
  "advanceable s = (if s = DRead then [DSent, DDelivered] else [DSent])"

definition watermark_candidate :: "provider_account \<Rightarrow> contact_identity \<Rightarrow> receipt \<Rightarrow> db \<Rightarrow> message \<Rightarrow> bool" where
  "watermark_candidate channel ident r d m =
     (ms_providerAccountId m = pa_id channel \<and> ms_direction m = Outbound \<and> \<not> ms_isPrivate m \<and>
      ms_status m \<in> set (advanceable (rc_status r)) \<and>
      (case ms_sentAt m of None \<Rightarrow> False
       | Some t \<Rightarrow> t \<le> (case rc_watermark r of Some w \<Rightarrow> w | None \<Rightarrow> rc_timestamp r)) \<and>
      (case find_conversation (ms_conversationId m) d of None \<Rightarrow> False
       | Some c \<Rightarrow> cv_contactIdentityId c = ci_id ident))"

fun transition_all :: "(nat \<Rightarrow> db \<Rightarrow> db) \<Rightarrow> int \<Rightarrow> receipt \<Rightarrow> message list \<Rightarrow> nat \<Rightarrow> db \<Rightarrow> nat \<times> db" where
  "transition_all race now r [] k d = (0, d)"
| "transition_all race now r (m # ms) k d =
     (let (n, d1) = transition (race k) now m r d; (n', d2) = transition_all race now r ms (Suc k) d1
      in (n + n', d2))"

definition applyWatermarkReceipt ::
  "(nat \<Rightarrow> db \<Rightarrow> db) \<Rightarrow> int \<Rightarrow> provider_account \<Rightarrow> receipt \<Rightarrow> db \<Rightarrow> nat \<times> db" where
  "applyWatermarkReceipt race now channel r d =
     (case find_identity (pa_id channel) (rc_recipient r) d of
        None \<Rightarrow> (0, d)
      | Some ident \<Rightarrow> transition_all race now r (filter (watermark_candidate channel ident r d) (db_messages d)) 0 d)"

definition receipt_target :: "provider_account \<Rightarrow> receipt \<Rightarrow> db \<Rightarrow> message option" where
  "receipt_target channel r d =
     (case find_message_by_provider (pa_id channel) (rc_providerMessageId r) d of
        Some m \<Rightarrow> Some m
      | None \<Rightarrow> List.find (\<lambda>m. ms_id m = rc_providerMessageId r \<and>
          ms_providerAccountId m = pa_id channel \<and> ms_direction m = Outbound) (db_messages d))"

definition applyReceipt ::
  "(nat \<Rightarrow> db \<Rightarrow> db) \<Rightarrow> int \<Rightarrow> provider_account \<Rightarrow> receipt \<Rightarrow> db \<Rightarrow> (err + nat) \<times> db" where
  "applyReceipt race now channel r d =
     (if startsWith (rc_providerMessageId r) ''watermark:''
      then let (n, d') = applyWatermarkReceipt race now channel r d in (Inr n, d')
      else case receipt_target channel r d of
             None \<Rightarrow> (Inl (ReceiptNotYetMatchable (rc_providerMessageId r)), d)
           | Some m \<Rightarrow> let (n, d') = transition (race 0) now m r d in (Inr n, d'))"

section \<open>Receipts only move messages forward\<close>

text \<open>One permitted status change, and the comparison of two states under it: every message is still
  there and its status was reached by permitted changes.\<close>

definition status_step :: "delivery_status \<Rightarrow> delivery_status \<Rightarrow> bool" where
  "status_step a b = isDeliveryStatusMonotonic a b"

definition forward :: "db \<Rightarrow> db \<Rightarrow> bool" where
  "forward d d' = (\<forall>m\<in>set (db_messages d). \<exists>m'\<in>set (db_messages d').
     ms_id m' = ms_id m \<and> status_step\<^sup>*\<^sup>* (ms_status m) (ms_status m'))"

lemma forward_refl: "forward d d"
  by (auto simp: forward_def)

lemma forward_trans: "forward d d1 \<Longrightarrow> forward d1 d2 \<Longrightarrow> forward d d2"
proof (unfold forward_def, rule ballI)
  fix m
  assume one: "\<forall>m\<in>set (db_messages d). \<exists>m'\<in>set (db_messages d1).
      ms_id m' = ms_id m \<and> status_step\<^sup>*\<^sup>* (ms_status m) (ms_status m')"
    and two: "\<forall>m\<in>set (db_messages d1). \<exists>m'\<in>set (db_messages d2).
      ms_id m' = ms_id m \<and> status_step\<^sup>*\<^sup>* (ms_status m) (ms_status m')"
    and m: "m \<in> set (db_messages d)"
  from one m obtain m1 where m1: "m1 \<in> set (db_messages d1)" "ms_id m1 = ms_id m"
    "status_step\<^sup>*\<^sup>* (ms_status m) (ms_status m1)" by blast
  with two obtain m2 where m2: "m2 \<in> set (db_messages d2)" "ms_id m2 = ms_id m1"
    "status_step\<^sup>*\<^sup>* (ms_status m1) (ms_status m2)" by blast
  show "\<exists>m'\<in>set (db_messages d2). ms_id m' = ms_id m \<and> status_step\<^sup>*\<^sup>* (ms_status m) (ms_status m')"
    using m1 m2 rtranclp_trans [OF m1(3) m2(3)] by auto
qed

lemma forward_cong: "db_messages d' = db_messages d2 \<Longrightarrow> forward d d' = forward d d2"
  by (simp add: forward_def)

lemma receipt_row_simps [simp]:
  "ms_id (receipt_row now r m) = ms_id m" "ms_status (receipt_row now r m) = rc_status r"
  "ms_conversationId (receipt_row now r m) = ms_conversationId m"
  "ms_providerAccountId (receipt_row now r m) = ms_providerAccountId m"
  "ms_providerMessageId (receipt_row now r m) = ms_providerMessageId m"
  by (simp_all add: receipt_row_def)

lemma transition_forward:
  assumes "\<And>s. forward s (race s)"
  shows "forward d (snd (transition race now m r d))"
proof (cases "receipt_moves r m")
  case False
  then show ?thesis by (simp add: transition_def forward_refl)
next
  case True
  let ?hit = "\<lambda>x. ms_id x = ms_id m \<and> ms_status x = ms_status m"
  have msgs: "db_messages (snd (transition race now m r d)) =
      update_where ?hit (receipt_row now r) (db_messages (race d))"
    using True by (simp add: transition_def Let_def)
  have "status_step (ms_status m) (rc_status r)" using True by (simp add: receipt_moves_def status_step_def)
  then have "\<exists>x'\<in>set (update_where ?hit (receipt_row now r) (db_messages (race d))).
      ms_id x' = ms_id x \<and> status_step\<^sup>*\<^sup>* (ms_status x) (ms_status x')"
    if that: "x \<in> set (db_messages (race d))" for x
  proof (cases "?hit x")
    case hit: True
    then have "receipt_row now r x \<in> set (update_where ?hit (receipt_row now r) (db_messages (race d)))"
      using that by (auto simp: set_update_where)
    moreover have "status_step\<^sup>*\<^sup>* (ms_status x) (ms_status (receipt_row now r x))"
      using hit \<open>status_step (ms_status m) (rc_status r)\<close> by simp
    ultimately show ?thesis by (metis receipt_row_simps(1))
  next
    case False
    then have "x \<in> set (update_where ?hit (receipt_row now r) (db_messages (race d)))"
      using that by (auto simp: set_update_where)
    then show ?thesis by blast
  qed
  then have "forward (race d) (snd (transition race now m r d))" by (simp add: forward_def msgs)
  then show ?thesis using assms forward_trans by blast
qed

lemma transition_all_forward:
  assumes "\<And>k s. forward s (race k s)"
  shows "forward d (snd (transition_all race now r ms k d))"
proof (induction ms arbitrary: k d)
  case Nil
  then show ?case by (simp add: forward_refl)
next
  case (Cons m ms)
  then show ?case
    using transition_forward [of "race k" d now m r] assms forward_trans
    by (auto simp: Let_def split: prod.splits) (metis snd_conv)
qed

lemma read_forever: "status_step\<^sup>*\<^sup>* DRead s \<Longrightarrow> s = DRead"
  by (induction rule: rtranclp_induct) (auto simp: status_step_def isDeliveryStatusMonotonic_def split: if_splits)


section \<open>Exactly what a receipt changes\<close>

lemma transition_calm:
  assumes "m \<in> set (db_messages d)" "distinct (map ms_id (db_messages d))"
  shows "db_messages (snd (transition (\<lambda>s. s) now m r d)) =
      update_where (\<lambda>x. ms_id x = ms_id m \<and> receipt_moves r m) (receipt_row now r) (db_messages d)"
    and "fst (transition (\<lambda>s. s) now m r d) = (if receipt_moves r m then 1 else 0)"
proof -
  have hit: "x \<in> set (db_messages d) \<Longrightarrow>
      (ms_id x = ms_id m \<and> ms_status x = ms_status m) = (ms_id x = ms_id m)" for x
    using assms by (metis distinct_map inj_onD)
  have "filter (\<lambda>x. ms_id x = ms_id m \<and> ms_status x = ms_status m) (db_messages d) = [m]"
    using distinct_filter_key [OF assms(2,1)] hit by (metis (mono_tags, lifting) filter_cong)
  then show "fst (transition (\<lambda>s. s) now m r d) = (if receipt_moves r m then 1 else 0)"
    by (simp add: transition_def Let_def count_where_def)
  show "db_messages (snd (transition (\<lambda>s. s) now m r d)) =
      update_where (\<lambda>x. ms_id x = ms_id m \<and> receipt_moves r m) (receipt_row now r) (db_messages d)"
    using hit by (cases "receipt_moves r m") (auto simp: transition_def Let_def update_where_def)
qed

lemma transition_all_calm:
  assumes "set ms \<subseteq> set (db_messages d)" "distinct (map ms_id (db_messages d))" "distinct (map ms_id ms)"
    and "\<And>m. m \<in> set ms \<Longrightarrow> receipt_moves r m"
  shows "db_messages (snd (transition_all (\<lambda>_ s. s) now r ms k d)) =
      update_where (\<lambda>x. ms_id x \<in> ms_id ` set ms) (receipt_row now r) (db_messages d) \<and>
    fst (transition_all (\<lambda>_ s. s) now r ms k d) = length ms"
  using assms
proof (induction ms arbitrary: k d)
  case Nil
  then show ?case by (simp add: update_where_def)
next
  case (Cons m ms)
  obtain n1 d1 where t: "transition (\<lambda>s. s) now m r d = (n1, d1)" by force
  have one: "db_messages d1 = update_where (\<lambda>x. ms_id x = ms_id m) (receipt_row now r) (db_messages d)" "n1 = 1"
    using transition_calm [of m d now r] Cons.prems t by simp_all
  have ids: "map ms_id (db_messages d1) = map ms_id (db_messages d)"
    unfolding one by (rule map_update_where) simp
  have "set ms \<subseteq> set (db_messages d1)"
    using Cons.prems(1,3) by (auto simp: one set_update_where image_iff)
  then have IH: "db_messages (snd (transition_all (\<lambda>_ s. s) now r ms (Suc k) d1)) =
      update_where (\<lambda>x. ms_id x \<in> ms_id ` set ms) (receipt_row now r) (db_messages d1) \<and>
    fst (transition_all (\<lambda>_ s. s) now r ms (Suc k) d1) = length ms"
    using Cons.IH Cons.prems ids by simp
  have "update_where (\<lambda>x. ms_id x \<in> ms_id ` set ms) (receipt_row now r) (db_messages d1) =
      update_where (\<lambda>x. ms_id x \<in> ms_id ` set (m # ms)) (receipt_row now r) (db_messages d)"
    using Cons.prems(3) by (auto simp: one update_where_def)
  with IH one(2) show ?case by (simp add: t Let_def case_prod_beta)
qed

text \<open>The messages a receipt reaches: the one it names, or all that its watermark covers.\<close>

definition receipt_reaches :: "provider_account \<Rightarrow> receipt \<Rightarrow> db \<Rightarrow> message \<Rightarrow> bool" where
  "receipt_reaches ch r d m =
     (if startsWith (rc_providerMessageId r) ''watermark:''
      then (case find_identity (pa_id ch) (rc_recipient r) d of None \<Rightarrow> False
        | Some ident \<Rightarrow> watermark_candidate ch ident r d m)
      else receipt_target ch r d = Some m)"

lemma transition_skip: "\<not> receipt_moves r m \<Longrightarrow> transition race now m r d = (0, d)"
  by (simp add: transition_def)

lemma transition_all_index:
  "transition_all (\<lambda>_ s. s) now r ms k d = transition_all (\<lambda>_ s. s) now r ms j d"
proof (induction ms arbitrary: k j d)
  case (Cons m ms)
  show ?case using Cons.IH [of "Suc k" _ "Suc j"] by simp
qed simp

lemma transition_all_filter:
  "transition_all (\<lambda>_ s. s) now r ms k d = transition_all (\<lambda>_ s. s) now r (filter (receipt_moves r) ms) k d"
proof (induction ms arbitrary: k d)
  case (Cons m ms)
  show ?case
    using transition_all_index [of now r "filter (receipt_moves r) ms" "Suc k" d k]
    by (cases "receipt_moves r m") (simp_all add: transition_skip Let_def Cons.IH [of "Suc k"])
qed simp

lemma target_member: "receipt_target ch r d = Some m \<Longrightarrow> m \<in> set (db_messages d)"
  by (auto simp: receipt_target_def find_message_by_provider_def dest!: find_SomeD split: option.splits)

text \<open>Without interference a receipt changes exactly the messages it reaches whose status may
  move to the reported one: the message it names by the provider's id or by VYNOR's own id, or
  everything sent to the person on the channel up to the watermark. Their status, the matching
  time and the error are set, the count of changes is returned, and every other message stays.
  A receipt that names no stored message is refused as not yet matchable.\<close>

theorem receipt_exact:
  assumes "distinct (map ms_id (db_messages d))"
  shows "applyReceipt (\<lambda>_ s. s) now ch r d =
      (Inl (ReceiptNotYetMatchable (rc_providerMessageId r)), d) \<and>
      \<not> startsWith (rc_providerMessageId r) ''watermark:'' \<and> receipt_target ch r d = None \<or>
    fst (applyReceipt (\<lambda>_ s. s) now ch r d) =
      Inr (count_where (\<lambda>m. receipt_reaches ch r d m \<and> receipt_moves r m) (db_messages d)) \<and>
    db_messages (snd (applyReceipt (\<lambda>_ s. s) now ch r d)) =
      update_where (\<lambda>m. receipt_reaches ch r d m \<and> receipt_moves r m) (receipt_row now r) (db_messages d)"
proof (cases "startsWith (rc_providerMessageId r) ''watermark:''")
  case wm: True
  show ?thesis
  proof (cases "find_identity (pa_id ch) (rc_recipient r) d")
    case None
    then show ?thesis using wm
      by (simp add: applyReceipt_def applyWatermarkReceipt_def receipt_reaches_def count_where_def update_where_none)
  next
    case (Some ident)
    let ?P = "watermark_candidate ch ident r d"
    let ?ms = "filter (receipt_moves r) (filter ?P (db_messages d))"
    have all: "db_messages (snd (transition_all (\<lambda>_ s. s) now r ?ms 0 d)) =
        update_where (\<lambda>x. ms_id x \<in> ms_id ` set ?ms) (receipt_row now r) (db_messages d) \<and>
      fst (transition_all (\<lambda>_ s. s) now r ?ms 0 d) = length ?ms"
      using assms by (intro transition_all_calm) (auto simp: distinct_map_filter)
    have "(ms_id x \<in> ms_id ` set ?ms) = (?P x \<and> receipt_moves r x)" if "x \<in> set (db_messages d)" for x
      using assms that by (auto simp: distinct_map inj_on_def image_iff)
    then have "update_where (\<lambda>x. ms_id x \<in> ms_id ` set ?ms) (receipt_row now r) (db_messages d) =
        update_where (\<lambda>m. ?P m \<and> receipt_moves r m) (receipt_row now r) (db_messages d)"
      by (simp add: update_where_def)
    moreover have "length ?ms = count_where (\<lambda>m. ?P m \<and> receipt_moves r m) (db_messages d)"
      by (simp add: count_where_def conj_commute)
    ultimately show ?thesis
      using all wm Some transition_all_filter [of now r "filter ?P (db_messages d)" 0 d]
      by (simp add: applyReceipt_def applyWatermarkReceipt_def receipt_reaches_def Let_def case_prod_beta)
  qed
next
  case nw: False
  show ?thesis
  proof (cases "receipt_target ch r d")
    case None
    then show ?thesis using nw by (simp add: applyReceipt_def)
  next
    case (Some m)
    have m: "m \<in> set (db_messages d)" using target_member [OF Some] .
    let ?t = "transition (\<lambda>s. s) now m r d"
    have ap: "applyReceipt (\<lambda>_ s. s) now ch r d = (Inr (fst ?t), snd ?t)"
      using nw Some by (simp add: applyReceipt_def case_prod_beta)
    have reach: "receipt_reaches ch r d = (\<lambda>x. m = x)" using nw Some by (auto simp: receipt_reaches_def)
    have key: "x \<in> set (db_messages d) \<Longrightarrow> (ms_id x = ms_id m \<and> receipt_moves r m) = (m = x \<and> receipt_moves r x)" for x
      using assms m by (metis distinct_map inj_onD)
    have "filter (\<lambda>x. ms_id x = ms_id m \<and> receipt_moves r m) (db_messages d) = (if receipt_moves r m then [m] else [])"
      using distinct_filter_key [OF assms m] by simp
    then have cnt: "count_where (\<lambda>x. m = x \<and> receipt_moves r x) (db_messages d) = (if receipt_moves r m then 1 else 0)"
      using key by (simp add: count_where_def cong: filter_cong)
    have upd: "update_where (\<lambda>x. ms_id x = ms_id m \<and> receipt_moves r m) (receipt_row now r) (db_messages d) =
        update_where (\<lambda>x. m = x \<and> receipt_moves r x) (receipt_row now r) (db_messages d)"
      unfolding update_where_def using key by (intro map_cong refl if_cong) auto
    show ?thesis
      unfolding ap reach fst_conv snd_conv transition_calm [OF m assms] upd cnt by simp
  qed
qed

definition sent_message :: "id \<Rightarrow> string \<Rightarrow> int \<Rightarrow> message" where
  "sent_message i pmid t = (inbound_row 0 sample_channel (sample_inbound pmid t) ''v1'' ''e'' i None)
     \<lparr>ms_direction := Outbound, ms_status := DSent, ms_sentAt := Some t\<rparr>"

definition receipt_db :: db where
  "receipt_db = first_ingested\<lparr>db_messages := db_messages first_ingested @ [sent_message ''o1'' ''q1'' 200, sent_message ''o2'' ''q2'' 300]\<rparr>"

definition read_up_to :: "int \<Rightarrow> receipt" where
  "read_up_to t = \<lparr>rc_providerMessageId = ''watermark:1'', rc_recipient = ''u1'', rc_status = DRead, rc_timestamp = t,
     rc_error = None, rc_watermark = None\<rparr>"


theorem receipt_exact_witness:
  "fst (applyReceipt (\<lambda>_ s. s) 400 sample_channel (read_up_to 250) receipt_db) = Inr 1 \<and>
   map (\<lambda>m. (ms_id m, ms_status m)) (db_messages (snd (applyReceipt (\<lambda>_ s. s) 400 sample_channel (read_up_to 250) receipt_db))) =
     [(''m1'', DDelivered), (''o1'', DRead), (''o2'', DSent)]"
proof -
  let ?P = "\<lambda>m. receipt_reaches sample_channel (read_up_to 250) receipt_db m \<and> receipt_moves (read_up_to 250) m"
  have "distinct (map ms_id (db_messages receipt_db))" by code_simp
  from receipt_exact [OF this, of 400 sample_channel "read_up_to 250"]
  have eq: "fst (applyReceipt (\<lambda>_ s. s) 400 sample_channel (read_up_to 250) receipt_db) = Inr (count_where ?P (db_messages receipt_db)) \<and>
    db_messages (snd (applyReceipt (\<lambda>_ s. s) 400 sample_channel (read_up_to 250) receipt_db)) =
      update_where ?P (receipt_row 400 (read_up_to 250)) (db_messages receipt_db)"
    by (simp add: read_up_to_def startsWith_def)
  have "count_where ?P (db_messages receipt_db) = 1" by code_simp
  moreover have "map (\<lambda>m. (ms_id m, ms_status m)) (update_where ?P (receipt_row 400 (read_up_to 250)) (db_messages receipt_db)) =
     [(''m1'', DDelivered), (''o1'', DRead), (''o2'', DSent)]" by code_simp
  ultimately show ?thesis using eq by simp
qed

text \<open>A failed message goes back to PENDING by a receipt alone, and no event to send it again is
  queued with it.\<close>

lemma failed_receipt_pending:
  assumes "ms_status m = DFailed" "rc_status r = DPending" "m \<in> set (db_messages d)"
    "distinct (map ms_id (db_messages d))"
  shows "db_messages (snd (transition (\<lambda>s. s) now m r d)) =
      update_where (\<lambda>x. ms_id x = ms_id m) (receipt_row now r) (db_messages d)"
    and "db_outbox (snd (transition (\<lambda>s. s) now m r d)) = db_outbox d"
proof -
  have "receipt_moves r m" using assms(1,2) by (simp add: receipt_moves_def isDeliveryStatusMonotonic_def)
  then show "db_messages (snd (transition (\<lambda>s. s) now m r d)) =
      update_where (\<lambda>x. ms_id x = ms_id m) (receipt_row now r) (db_messages d)"
    using transition_calm(1) [OF assms(3,4), of now r] by simp
  show "db_outbox (snd (transition (\<lambda>s. s) now m r d)) = db_outbox d"
    by (simp add: transition_def Let_def)
qed

end
