(* ===== verification/Inbound.thy ===== *)
theory Inbound
  imports Receipts
begin

text \<open>
  The consumer of \<open>vynor.webhooks.process\<close>,
  \<open>apps/worker/src/processing/inbound-processor.service.ts\<close>: one journaled provider event is
  normalized by its adapter (an argument: adapters call providers and parse their payloads) and its
  results are handed to the conversation core, with the status transitions of the event around.
\<close>

section \<open>The processor\<close>

datatype normalized = NMessage inbound_message | NReceipt receipt | NIgnored string

text \<open>The environment of one job: for the \<open>k\<close>-th result the faults, races, generated ids and clock.\<close>

record job_env =
  je_now :: int
  je_tx :: "nat \<Rightarrow> tx_env"
  je_race :: "nat \<Rightarrow> db \<Rightarrow> db"
  je_receipt_race :: "nat \<Rightarrow> nat \<Rightarrow> db \<Rightarrow> db"
  je_ids :: "nat \<Rightarrow> ingest_ids"
  je_uuid :: "nat \<Rightarrow> id"

definition RECEIPT_MATCH_ATTEMPTS :: nat where "RECEIPT_MATCH_ATTEMPTS = 4"

fun isReceiptNotYetMatchable :: "err \<Rightarrow> bool" where
  "isReceiptNotYetMatchable (ReceiptNotYetMatchable _) = True"
| "isReceiptNotYetMatchable _ = False"

text \<open>The loop over the results: how many were handled, what was ignored, or the error thrown.\<close>

fun handle_results ::
  "job_env \<Rightarrow> provider_account \<Rightarrow> provider_event \<Rightarrow> nat \<Rightarrow> nat \<Rightarrow> nat \<Rightarrow> string list \<Rightarrow> normalized list \<Rightarrow> db
     \<Rightarrow> (err + nat \<times> string list) \<times> db" where
  "handle_results env ch ev k handled stored ignored [] d = (Inr (handled, ignored), d)"
| "handle_results env ch ev k handled stored ignored (NMessage m # rs) d =
     (case ingestMessage (je_tx env k) (je_race env k) (je_ids env k) (je_now env) ch m (pe_id ev)
             (if stored = 0 then pe_id ev else je_uuid env k) d of
        (Inl e, d') \<Rightarrow> (Inl e, d')
      | (Inr _, d') \<Rightarrow> handle_results env ch ev (Suc k) (Suc handled) (Suc stored) ignored rs d')"
| "handle_results env ch ev k handled stored ignored (NReceipt r # rs) d =
     (case applyReceipt (je_receipt_race env k) (je_now env) ch r d of
        (Inl e, d') \<Rightarrow>
          if \<not> isReceiptNotYetMatchable e \<or> pe_processingAttempts ev + 1 < RECEIPT_MATCH_ATTEMPTS
          then (Inl e, d')
          else handle_results env ch ev (Suc k) handled stored
                 (ignored @ [''Receipt for a message VYNOR did not send.'']) rs d'
      | (Inr _, d') \<Rightarrow> handle_results env ch ev (Suc k) (Suc handled) stored ignored rs d')"
| "handle_results env ch ev k handled stored ignored (NIgnored reason # rs) d =
     handle_results env ch ev (Suc k) handled stored (ignored @ [reason]) rs d"

definition outcome_status :: "nat \<Rightarrow> string list \<Rightarrow> event_status" where
  "outcome_status handled ignored = (if handled > 0 \<or> ignored = [] then EProcessed else EIgnored)"

text \<open>The body of the \<open>try\<close>; \<open>adapt\<close> stands for the adapter lookup, the account and the
  adapter's \<open>normalizeInbound\<close>.\<close>

definition process_body ::
  "job_env \<Rightarrow> (provider_event \<Rightarrow> provider_account \<Rightarrow> err + normalized list) \<Rightarrow> provider_event \<Rightarrow> provider_account
     \<Rightarrow> db \<Rightarrow> (err + unit) \<times> db" where
  "process_body env adapt ev ch d =
     (case adapt ev ch of
        Inl e \<Rightarrow> (Inl e, d)
      | Inr results \<Rightarrow>
          (case handle_results env ch ev 0 0 0 [] results d of
             (Inl e, d') \<Rightarrow> (Inl e, d')
           | (Inr (handled, ignored), d') \<Rightarrow>
               runTx (transitionProviderEventStatus (je_now env) (pe_id ev) (outcome_status handled ignored)
                 (Some (if ignored \<noteq> [] then Some (join '' '' ignored) else None)) False) d'))"

definition should_retry :: "err \<Rightarrow> bool" where
  "should_retry e = (isReceiptNotYetMatchable e \<or> \<not> isChannelProviderError e \<or>
     (case e of ProviderFailure p \<Rightarrow> retryable p | _ \<Rightarrow> False))"

text \<open>\<open>Inl\<close> is the error the job throws, so that the queue retries it.\<close>

definition process ::
  "job_env \<Rightarrow> (provider_event \<Rightarrow> provider_account \<Rightarrow> err + normalized list) \<Rightarrow> id \<Rightarrow> db \<Rightarrow> (err + unit) \<times> db" where
  "process env adapt i d =
     (case find_event i d of
        None \<Rightarrow> (Inr (), d)
      | Some ev \<Rightarrow>
          if pe_status ev = EProcessed \<or> pe_status ev = EIgnored then (Inr (), d)
          else (case find_account (pe_providerAccountId ev) d of
             None \<Rightarrow> (Inl recordNotFound, d)
           | Some ch \<Rightarrow>
               if pa_deletedAt ch \<noteq> None then
                 runTx (transitionProviderEventStatus (je_now env) (pe_id ev) EIgnored
                   (Some (Some ''Channel was deleted.'')) False) d
               else (case runTx (transitionProviderEventStatus (je_now env) (pe_id ev) EProcessing None True) d of
                  (Inl e, d1) \<Rightarrow> (Inl e, d1)
                | (Inr _, d1) \<Rightarrow>
                    (case process_body env adapt ev ch d1 of
                       (Inr _, d2) \<Rightarrow> (Inr (), d2)
                     | (Inl e, d2) \<Rightarrow>
                         (case runTx (transitionProviderEventStatus (je_now env) (pe_id ev)
                                  (if should_retry e then EReceived else EFailed)
                                  (Some (Some (err_message e))) False) d2 of
                            (Inl e', d3) \<Rightarrow> (Inl e', d3)
                          | (Inr _, d3) \<Rightarrow> (if should_retry e then Inl e else Inr (), d3))))))"

section \<open>What the conversation core leaves alone\<close>

text \<open>Interference that leaves the journal alone, and interference that loses no stored message.\<close>

definition journal_quiet :: "job_env \<Rightarrow> bool" where
  "journal_quiet env = (\<forall>k s. db_events (je_race env k s) = db_events s \<and>
     (\<forall>i. db_events (te_drift (je_tx env k) i s) = db_events s) \<and>
     (\<forall>i. db_events (je_receipt_race env k i s) = db_events s))"

definition stored :: "provider_account \<Rightarrow> string \<Rightarrow> db \<Rightarrow> bool" where
  "stored ch p d = (find_message_by_provider (pa_id ch) p d \<noteq> None)"

definition loses_none :: "(db \<Rightarrow> db) \<Rightarrow> bool" where
  "loses_none f = (\<forall>s ch p. stored ch p s \<longrightarrow> stored ch p (f s))"

definition messages_kept :: "job_env \<Rightarrow> bool" where
  "messages_kept env = (\<forall>k. loses_none (je_race env k) \<and> (\<forall>i. loses_none (te_drift (je_tx env k) i)) \<and>
     (\<forall>i. loses_none (je_receipt_race env k i)))"

lemma ingest_tx_events: "ingestInTransaction ids now ch m ev mid d = Inr (r, d') \<Longrightarrow> db_events d' = db_events d"
proof -
  assume "ingestInTransaction ids now ch m ev mid d = Inr (r, d')"
  then obtain i d1 c created d2 where
    up: "upsertSenderIdentity ids now ch (im_sender m) (senderDisplayName (im_sender m)) d = Inr (i, d1)"
    and res: "resolveConversation ids now ch m i d1 = Inr ((c, created), d2)"
    and d': "d' = d2\<lparr>db_messages := db_messages d2 @ [inbound_row now ch m (cv_id c) ev mid (reply_target ch m d2)],
       db_conversations := update_where (\<lambda>x. cv_id x = cv_id c)
         (bump_conversation c (timelineTimestamp (im_timestamp m) now) (summarizeMessageContent (im_content m)))
         (db_conversations d2),
       db_notified := db_notified d2 @ [notice
         (if created then ''conversation.created'' else ''conversation.message.created'')
         (pa_workspaceId ch) (Some (cv_id c)) (Some mid) None]\<rparr>"
    by (rule ingest_Inr)
  have "db_events d1 = db_events d"
    using upsert_new [OF up] upsert_known [OF up]
    by (cases "find_identity (pa_id ch) (pt_identifier (im_sender m)) d") auto
  moreover have "db_events d2 = db_events d1" using res by (auto simp: resolve_Inr split: option.splits)
  ultimately show ?thesis by (simp add: d')
qed

lemma drifted_events:
  "(\<And>i s. db_events (te_drift env i s) = db_events s) \<Longrightarrow> db_events (drifted env i n d) = db_events d"
  by (induction n arbitrary: i d) simp_all

text \<open>One ingest is either a duplicate, which leaves the state, or a transaction's outcome.\<close>

lemma ingest_cases:
  assumes "ingestMessage env race ids now ch m ev mid d = (x, d')"
  obtains (duplicate) "stored ch (im_providerMessageId m) d" "d' = d" "isOk x"
  | (committed) n r where "ingestInTransaction ids now ch m ev mid (drifted env 1 n (race d)) = Inr (r, d')" "x = Inr r"
  | (failed) n where "d' = drifted env 1 n (race d)" "isOk x \<longrightarrow> stored ch (im_providerMessageId m) d'"
proof (cases "findDuplicate ch (im_providerMessageId m) d")
  case (Some r)
  then show ?thesis using duplicate assms by (auto simp: ingestMessage_def findDuplicate_def stored_def)
next
  case None
  obtain q d1 n ds where tx: "withTransaction default_tx_policy env
      (ingestInTransaction ids now ch m ev mid) (race d) = (q, d1, n, ds)" by (metis prod_cases4)
  show ?thesis
  proof (cases q)
    case (Inl e)
    then have "d' = drifted env 1 (n - 1) (race d)" "isOk x \<longrightarrow> stored ch (im_providerMessageId m) d'"
      using assms None tx transaction_result [OF tx]
      by (auto simp: ingestMessage_def findDuplicate_def stored_def split: if_splits option.splits)
    then show ?thesis by (rule failed)
  next
    case (Inr r)
    then show ?thesis using assms None tx transaction_result [OF tx]
      by (intro committed [of "n - 1" r]) (auto simp: ingestMessage_def)
  qed
qed

lemma ingest_events:
  assumes "ingestMessage env race ids now ch m ev mid d = (x, d')"
    and "\<And>s. db_events (race s) = db_events s" "\<And>i s. db_events (te_drift env i s) = db_events s"
  shows "db_events d' = db_events d"
  using assms(1) by (cases rule: ingest_cases) (use assms(2,3) ingest_tx_events drifted_events [of env] in auto)

lemma transition_all_events:
  assumes "\<And>k s. db_events (race k s) = db_events s"
  shows "db_events (snd (transition_all race now r ms k d)) = db_events d"
proof (induction ms arbitrary: k d)
  case (Cons m ms)
  then show ?case using assms by (simp add: Let_def case_prod_beta transition_def)
qed simp

lemma receipt_events:
  assumes "\<And>k s. db_events (race k s) = db_events s"
  shows "db_events (snd (applyReceipt race now ch r d)) = db_events d"
  using assms transition_all_events [of race now r _ 0 d]
  by (auto simp: applyReceipt_def applyWatermarkReceipt_def transition_def Let_def case_prod_beta split: option.splits)

lemma handle_events:
  assumes "journal_quiet env"
  shows "db_events (snd (handle_results env ch ev k h st ig rs d)) = db_events d"
proof (induction rs arbitrary: k h st ig d)
  case (Cons x rs)
  show ?case
  proof (cases x)
    case (NMessage m)
    obtain y d1 where r: "ingestMessage (je_tx env k) (je_race env k) (je_ids env k) (je_now env) ch m (pe_id ev)
        (if st = 0 then pe_id ev else je_uuid env k) d = (y, d1)" by force
    have "db_events d1 = db_events d"
      using ingest_events [OF r] assms by (simp add: journal_quiet_def)
    then show ?thesis using Cons r NMessage by (cases y) simp_all
  next
    case (NReceipt m)
    obtain y d1 where r: "applyReceipt (je_receipt_race env k) (je_now env) ch m d = (y, d1)" by force
    have "db_events d1 = db_events d"
      using receipt_events [of "je_receipt_race env k" "je_now env" ch m d] assms r by (simp add: journal_quiet_def)
    then show ?thesis using Cons r NReceipt by (cases y) simp_all
  qed (use Cons in simp)
qed simp

section \<open>Every event is settled\<close>

definition events_rows :: "id \<Rightarrow> db \<Rightarrow> provider_event list" where
  "events_rows i d = filter (\<lambda>e. pe_id e = i) (db_events d)"

lemma transition_attempts [simp]:
  "pe_processingAttempts (transition_row now st err inc e) =
     (if inc then pe_processingAttempts e + 1 else pe_processingAttempts e)"
  by (simp add: transition_row_def)

lemma update_event_run:
  assumes "events_rows i d = [e]" "\<And>x. pe_id (f x) = pe_id x"
  shows "\<exists>d'. runTx (update_event i f) d = (Inr (), d') \<and> events_rows i d' = [f e] \<and>
    filter (\<lambda>x. pe_id x \<noteq> i) (db_events d') = filter (\<lambda>x. pe_id x \<noteq> i) (db_events d)"
proof -
  have "e \<in> set (events_rows i d)" using assms(1) by simp
  then have e: "e \<in> set (db_events d) \<and> pe_id e = i" by (simp add: events_rows_def)
  then have "list_ex (\<lambda>x. pe_id x = i) (db_events d)" by (auto simp: list_ex_iff)
  then have run: "runTx (update_event i f) d =
      (Inr (), d\<lparr>db_events := update_where (\<lambda>x. pe_id x = i) f (db_events d)\<rparr>)"
    by (simp add: update_event_def runTx_def)
  have "filter (\<lambda>x. pe_id x = i) (update_where (\<lambda>x. pe_id x = i) f (db_events d)) =
      update_where (\<lambda>x. pe_id x = i) f [e]"
    using assms by (simp add: filter_update_where events_rows_def)
  then show ?thesis
    using run e filter_update_neg [of "\<lambda>x. pe_id x = i" f "db_events d"] assms(2)
    by (intro exI [of _ "d\<lparr>db_events := update_where (\<lambda>x. pe_id x = i) f (db_events d)\<rparr>"]) (simp add: events_rows_def)
qed

lemma find_event_row: "find_event i d = Some e \<Longrightarrow> distinct (map pe_id (db_events d)) \<Longrightarrow> events_rows i d = [e]"
  unfolding find_event_def events_rows_def using distinct_filter_key [of pe_id "db_events d" e]
  by (auto dest!: find_SomeD)

text \<open>Every job of an unfinished event settles it, whatever the adapter answers and whatever fails:
  the event is never left in PROCESSING. It is RECEIVED again exactly when the job throws, so that
  the queue retries it, and PROCESSED, IGNORED or FAILED otherwise; a non-retryable provider error
  is FAILED without a retry. One attempt is counted and no other event changes.\<close>

theorem process_settles:
  assumes "find_event i d = Some ev" "pe_status ev \<noteq> EProcessed" "pe_status ev \<noteq> EIgnored"
    and "find_account (pe_providerAccountId ev) d = Some ch" "pa_deletedAt ch = None"
    and "distinct (map pe_id (db_events d))" "journal_quiet env"
  shows "\<exists>ev'. events_rows i (snd (process env adapt i d)) = [ev'] \<and>
    pe_processingAttempts ev' = pe_processingAttempts ev + 1 \<and>
    (isOk (fst (process env adapt i d)) \<longrightarrow> pe_status ev' \<in> {EProcessed, EIgnored, EFailed}) \<and>
    (\<not> isOk (fst (process env adapt i d)) \<longrightarrow> pe_status ev' = EReceived) \<and>
    (\<forall>e. adapt ev ch = Inl e \<longrightarrow> (isOk (fst (process env adapt i d)) \<longleftrightarrow> \<not> should_retry e)) \<and>
    filter (\<lambda>x. pe_id x \<noteq> i) (db_events (snd (process env adapt i d))) = filter (\<lambda>x. pe_id x \<noteq> i) (db_events d)"
proof -
  have row: "events_rows i d = [ev]" using find_event_row assms(1,6) by blast
  have iev: "pe_id ev = i" using assms(1) by (auto simp: find_event_def dest!: find_SomeD)
  let ?t = "\<lambda>st err inc. transition_row (je_now env) st err inc"
  from update_event_run [OF row, of "?t EProcessing None True"] obtain d1 where
    t1: "runTx (transitionProviderEventStatus (je_now env) i EProcessing None True) d = (Inr (), d1)"
    and r1: "events_rows i d1 = [?t EProcessing None True ev]"
    and o1: "filter (\<lambda>x. pe_id x \<noteq> i) (db_events d1) = filter (\<lambda>x. pe_id x \<noteq> i) (db_events d)"
    by (auto simp: transitionProviderEventStatus_def)
  obtain hr d2 where hr: "(case adapt ev ch of Inl e \<Rightarrow> (Inl e, d1)
      | Inr results \<Rightarrow> handle_results env ch ev 0 0 0 [] results d1) = (hr, d2)" by force
  have ev2: "db_events d2 = db_events d1"
    using hr handle_events [OF assms(7), of ch ev 0 0 0 "[]" _ d1] by (auto split: sum.splits) (metis snd_conv)
  then have r2: "events_rows i d2 = [?t EProcessing None True ev]" using r1 by (simp add: events_rows_def)
  have step: "\<exists>d3. runTx (transitionProviderEventStatus (je_now env) i st err False) d2 = (Inr (), d3) \<and>
      events_rows i d3 = [?t st err False (?t EProcessing None True ev)] \<and>
      filter (\<lambda>x. pe_id x \<noteq> i) (db_events d3) = filter (\<lambda>x. pe_id x \<noteq> i) (db_events d)" for st err
    using update_event_run [OF r2, of "?t st err False"] ev2 o1 by (auto simp: transitionProviderEventStatus_def)
  show ?thesis
  proof (cases hr)
    case (Inl e)
    then have body: "process_body env adapt ev ch d1 = (Inl e, d2)" and ad: "adapt ev ch = Inl e' \<longrightarrow> e' = e" for e'
      using hr by (auto simp: process_body_def split: sum.splits)
    from step [of "if should_retry e then EReceived else EFailed" "Some (Some (err_message e))"] show ?thesis
      using assms(1-5) t1 body ad iev by (auto simp: process_def)
  next
    case (Inr hi)
    obtain handled ignored where hi: "hi = (handled, ignored)" by force
    from step [of "outcome_status handled ignored" "Some (if ignored \<noteq> [] then Some (join '' '' ignored) else None)"]
    obtain d3 where d3: "runTx (transitionProviderEventStatus (je_now env) i (outcome_status handled ignored)
        (Some (if ignored \<noteq> [] then Some (join '' '' ignored) else None)) False) d2 = (Inr (), d3)"
      "events_rows i d3 = [?t (outcome_status handled ignored)
        (Some (if ignored \<noteq> [] then Some (join '' '' ignored) else None)) False (?t EProcessing None True ev)]"
      "filter (\<lambda>x. pe_id x \<noteq> i) (db_events d3) = filter (\<lambda>x. pe_id x \<noteq> i) (db_events d)" by blast
    obtain rs where ad: "adapt ev ch = Inr rs" using hr Inr by (cases "adapt ev ch") auto
    have body: "process_body env adapt ev ch d1 = (Inr (), d3)"
      using hr Inr hi ad d3(1) iev by (simp add: process_body_def)
    have pr: "process env adapt i d = (Inr (), d3)" using assms(1-5) t1 body iev by (simp add: process_def)
    show ?thesis unfolding pr using d3(2,3) ad by (simp add: outcome_status_def)
  qed
qed

section \<open>Processing an event again\<close>

lemma stored_append: "stored ch p d \<Longrightarrow> db_messages d' = db_messages d @ ms \<Longrightarrow> stored ch p d'"
  by (auto simp: stored_def find_message_by_provider_def find_append)

lemma drifted_stored: "(\<And>i. loses_none (te_drift env i)) \<Longrightarrow> stored ch p d \<Longrightarrow> stored ch p (drifted env i n d)"
  by (induction n arbitrary: i d) (simp_all add: loses_none_def)

lemma ingest_tx_messages:
  assumes "ingestInTransaction ids now ch m ev mid d = Inr (r, d')"
  shows "\<exists>ms. db_messages d' = db_messages d @ ms"
proof -
  from assms obtain i d1 c created d2 where
    up: "upsertSenderIdentity ids now ch (im_sender m) (senderDisplayName (im_sender m)) d = Inr (i, d1)"
    and res: "resolveConversation ids now ch m i d1 = Inr ((c, created), d2)"
    and d': "d' = d2\<lparr>db_messages := db_messages d2 @ [inbound_row now ch m (cv_id c) ev mid (reply_target ch m d2)],
       db_conversations := update_where (\<lambda>x. cv_id x = cv_id c)
         (bump_conversation c (timelineTimestamp (im_timestamp m) now) (summarizeMessageContent (im_content m)))
         (db_conversations d2),
       db_notified := db_notified d2 @ [notice
         (if created then ''conversation.created'' else ''conversation.message.created'')
         (pa_workspaceId ch) (Some (cv_id c)) (Some mid) None]\<rparr>"
    by (rule ingest_Inr)
  have "db_messages d2 = db_messages d"
    using res upsert_facts(2) [OF up] by (auto simp: resolve_Inr split: option.splits)
  then show ?thesis by (simp add: d')
qed

lemma ingest_stored:
  assumes "ingestMessage env race ids now ch m ev mid d = (x, d')"
    and "loses_none race" "\<And>i. loses_none (te_drift env i)"
  shows "stored c2 p d \<Longrightarrow> stored c2 p d'" and "isOk x \<Longrightarrow> stored ch (im_providerMessageId m) d'"
proof -
  have race: "stored c2 p d \<Longrightarrow> stored c2 p (drifted env 1 n (race d))" for n
    using assms(2,3) drifted_stored [of env] by (simp add: loses_none_def)
  show "stored c2 p d'" if "stored c2 p d"
    using assms(1) by (cases rule: ingest_cases)
      (use that race ingest_tx_messages stored_append in \<open>blast+\<close>)
  show "stored ch (im_providerMessageId m) d'" if "isOk x"
    using assms(1) by (cases rule: ingest_cases)
      (use that ingest_key_found in \<open>fastforce simp: stored_def\<close>)+
qed

lemma find_provider_update:
  assumes "db_messages d' = update_where P (receipt_row now r) (db_messages d)"
  shows "stored ch p d' = stored ch p d"
  unfolding stored_def find_message_by_provider_def assms by (subst find_update_key) simp_all

lemma transition_stored:
  "loses_none race \<Longrightarrow> stored ch p d \<Longrightarrow> stored ch p (snd (transition race now m r d))"
proof -
  assume a: "loses_none race" "stored ch p d"
  have "receipt_moves r m \<Longrightarrow> db_messages (snd (transition race now m r d)) =
      update_where (\<lambda>x. ms_id x = ms_id m \<and> ms_status x = ms_status m) (receipt_row now r) (db_messages (race d))"
    by (simp add: transition_def Let_def)
  then show "stored ch p (snd (transition race now m r d))"
    using a find_provider_update transition_skip [of r m race now d]
    by (cases "receipt_moves r m") (auto simp: loses_none_def)
qed

lemma receipt_stored:
  assumes "\<And>k. loses_none (race k)" "stored ch p d"
  shows "stored ch p (snd (applyReceipt race now c r d))"
proof -
  have all: "stored ch p d \<Longrightarrow> stored ch p (snd (transition_all race now r ms k d))" for ms k d
  proof (induction ms arbitrary: k d)
    case (Cons m ms)
    then show ?case using transition_stored [OF assms(1)] by (simp add: Let_def case_prod_beta)
  qed simp
  show ?thesis using assms all transition_stored [OF assms(1)]
    by (auto simp: applyReceipt_def applyWatermarkReceipt_def Let_def case_prod_beta split: option.splits)
qed

lemma handle_stored:
  assumes "messages_kept env" "handle_results env ch ev k h st ig rs d = (Inr q, d')"
  shows "(\<forall>c p. stored c p d \<longrightarrow> stored c p d') \<and>
    (\<forall>m. NMessage m \<in> set rs \<longrightarrow> stored ch (im_providerMessageId m) d')"
  using assms(2)
proof (induction rs arbitrary: k h st ig d)
  case (Cons x rs)
  show ?case
  proof (cases x)
    case (NMessage m)
    obtain y d1 where r: "ingestMessage (je_tx env k) (je_race env k) (je_ids env k) (je_now env) ch m (pe_id ev)
        (if st = 0 then pe_id ev else je_uuid env k) d = (y, d1)" by force
    obtain z where y: "y = Inr z" using Cons.prems r NMessage by (cases y) simp_all
    then have rest: "handle_results env ch ev (Suc k) (Suc h) (Suc st) ig rs d1 = (Inr q, d')"
      using Cons.prems r NMessage by simp
    have "loses_none (je_race env k)" "\<And>i. loses_none (te_drift (je_tx env k) i)"
      using assms(1) by (simp_all add: messages_kept_def)
    from ingest_stored [OF r this] y Cons.IH [OF rest] NMessage show ?thesis by auto
  next
    case (NReceipt m)
    obtain y d1 where r: "applyReceipt (je_receipt_race env k) (je_now env) ch m d = (y, d1)" by force
    have "stored c p d \<Longrightarrow> stored c p d1" for c p
      using receipt_stored [of "je_receipt_race env k" c p d "je_now env" ch m] assms(1) r
      by (simp add: messages_kept_def)
    then show ?thesis using Cons.IH Cons.prems r NReceipt by (fastforce split: sum.splits if_splits)
  qed (use Cons in auto)
qed simp

lemma handle_known:
  assumes "\<And>m. NMessage m \<in> set rs \<Longrightarrow> stored ch (im_providerMessageId m) d" "\<And>r. NReceipt r \<notin> set rs"
  shows "snd (handle_results env ch ev k h st ig rs d) = d"
  using assms
proof (induction rs arbitrary: k h st ig)
  case (Cons x rs)
  show ?case
  proof (cases x)
    case (NMessage m)
    then have "stored ch (im_providerMessageId m) d" using Cons.prems(1) by simp
    then obtain r where "findDuplicate ch (im_providerMessageId m) d = Some r"
      by (auto simp: stored_def findDuplicate_def)
    then show ?thesis using Cons NMessage by (simp add: ingestMessage_def)
  next
    case (NReceipt r)
    then show ?thesis using Cons.prems(2) [of r] by simp
  next
    case (NIgnored t)
    then show ?thesis using Cons by simp
  qed
qed simp

lemma event_update_only: "\<exists>es. snd (runTx (update_event i f) d) = d\<lparr>db_events := es\<rparr>"
proof -
  have "snd (runTx (update_event i f) d) = d\<lparr>db_events := db_events d\<rparr> \<or>
    snd (runTx (update_event i f) d) = d\<lparr>db_events := update_where (\<lambda>x. pe_id x = i) f (db_events d)\<rparr>"
    by (simp add: runTx_def update_event_def)
  then show ?thesis by blast
qed

lemma update_event_found:
  assumes "runTx (update_event i f) d = (Inr u, d')" "\<And>x. pe_id (f x) = pe_id x"
  shows "\<exists>e. find_event i d' = Some (f e)"
proof -
  have d': "db_events d' = update_where (\<lambda>x. pe_id x = i) f (db_events d)" and "list_ex (\<lambda>x. pe_id x = i) (db_events d)"
    using assms(1) by (auto simp: runTx_def update_event_def split: if_splits)
  then obtain e where "find_event i d = Some e"
    by (cases "find_event i d") (auto simp: find_event_def find_None_iff_all list_ex_iff)
  then have "find_event i d' = Some (f e)"
    using assms(2) by (auto simp: find_event_def d' find_update_key dest!: find_SomeD)
  then show ?thesis by blast
qed

lemma stored_events [simp]: "stored ch p (d\<lparr>db_events := es\<rparr>) = stored ch p d"
  by (simp add: stored_def find_message_by_provider_def)

lemma transition_status_only: "\<exists>es. snd (runTx (transitionProviderEventStatus now i st le inc) d) = d\<lparr>db_events := es\<rparr>"
  unfolding transitionProviderEventStatus_def by (rule event_update_only)

text \<open>Processing a provider event again is harmless: once a run ended without failing the event,
  its messages are stored, and on every later state that lost none of them, for instance after a
  replay, another run whose adapter reports no other messages changes nothing but the journal,
  whatever faults either run meets.\<close>

theorem reprocessing_harmless:
  assumes "process env adapt i d = (Inr (), d')" "pe_status (the (find_event i d')) \<noteq> EFailed"
    and "find_event i d = Some ev" "pe_status ev \<noteq> EProcessed" "pe_status ev \<noteq> EIgnored"
    and "find_account (pe_providerAccountId ev) d = Some ch" "pa_deletedAt ch = None"
    and "adapt ev ch = Inr rs" "messages_kept env"
    and "\<And>p. stored ch p d' \<Longrightarrow> stored ch p d2"
    and "find_event i d2 = Some ev2" "find_account (pe_providerAccountId ev2) d2 = Some ch2" "pa_id ch2 = pa_id ch"
    and "adapt2 ev2 ch2 = Inr rs2" "\<And>r. NReceipt r \<notin> set rs2"
    and "\<And>m. NMessage m \<in> set rs2 \<Longrightarrow> \<exists>m'. NMessage m' \<in> set rs \<and> im_providerMessageId m' = im_providerMessageId m"
  shows "\<exists>es. snd (process env2 adapt2 i d2) = d2\<lparr>db_events := es\<rparr>"
proof -
  have iev: "pe_id ev = i" "pe_id ev2 = i" using assms(3,11) by (auto simp: find_event_def dest!: find_SomeD)
  have kept: "NMessage m \<in> set rs \<Longrightarrow> stored ch (im_providerMessageId m) d'" for m
  proof -
    assume m: "NMessage m \<in> set rs"
    obtain u d1 where t1: "runTx (transitionProviderEventStatus (je_now env) i EProcessing None True) d = (u, d1)" by force
    have u: "isOk u" using assms(1,3-7) t1 iev by (cases u) (simp_all add: process_def)
    obtain b db where body: "process_body env adapt ev ch d1 = (b, db)" by force
    show ?thesis
    proof (cases b)
      case (Inr w)
      then have "db = d'" using assms(1,3-7) t1 u body iev by (cases u) (simp_all add: process_def)
      then obtain q d3 where h: "handle_results env ch ev 0 0 0 [] rs d1 = (Inr q, d3)"
        and fin: "\<exists>st le. snd (runTx (transitionProviderEventStatus (je_now env) i st le False) d3) = d'"
        using body Inr assms(8) iev by (auto simp: process_body_def split: sum.splits prod.splits) (metis snd_conv)
      have "stored ch (im_providerMessageId m) d3" using handle_stored [OF assms(9) h] m by blast
      then show ?thesis using fin transition_status_only [of "je_now env" i _ _ False d3] by (metis stored_events)
    next
      case (Inl e)
      obtain w d3 where t3: "runTx (transitionProviderEventStatus (je_now env) i
          (if should_retry e then EReceived else EFailed) (Some (Some (err_message e))) False) db = (w, d3)" by force
      have w: "w = Inr ()" "d3 = d'" "\<not> should_retry e"
        using assms(1,3-7) t1 u body Inl t3 iev
        by (cases u; cases w; simp add: process_def split: if_splits)+
      then have "\<exists>e'. find_event i d' = Some (transition_row (je_now env) EFailed (Some (Some (err_message e))) False e')"
        using t3 update_event_found [of i _ db "()" d'] by (simp add: transitionProviderEventStatus_def)
      then show ?thesis using assms(2) by auto
    qed
  qed
  have known: "NMessage m \<in> set rs2 \<Longrightarrow> stored ch2 (im_providerMessageId m) (d2\<lparr>db_events := es\<rparr>)" for m es
    using assms(10,13,16) kept by (fastforce simp: stored_def find_message_by_provider_def)
  have body2: "\<exists>es'. snd (process_body env2 adapt2 ev2 ch2 (d2\<lparr>db_events := es\<rparr>)) = d2\<lparr>db_events := es'\<rparr>" for es
  proof -
    have "snd (handle_results env2 ch2 ev2 0 0 0 [] rs2 (d2\<lparr>db_events := es\<rparr>)) = d2\<lparr>db_events := es\<rparr>"
      by (rule handle_known) (use known assms(15) in auto)
    then show ?thesis
      using transition_status_only [of "je_now env2" "pe_id ev2" _ _ False "d2\<lparr>db_events := es\<rparr>"]
      by (auto simp: process_body_def assms(14) split: sum.splits prod.splits) 
  qed
  have same: "\<exists>es. d2 = d2\<lparr>db_events := es\<rparr>" by (rule exI [of _ "db_events d2"]) simp
  obtain u d3 where t1: "runTx (transitionProviderEventStatus (je_now env2) (pe_id ev2) EProcessing None True) d2 = (u, d3)"
    by force
  then obtain e3 where d3: "d3 = d2\<lparr>db_events := e3\<rparr>"
    using transition_status_only [of "je_now env2" "pe_id ev2" EProcessing None True d2] by auto
  obtain b d4 where body: "process_body env2 adapt2 ev2 ch2 d3 = (b, d4)" by force
  then obtain e4 where d4: "d4 = d2\<lparr>db_events := e4\<rparr>" using body2 [of e3] d3 by auto
  have fin: "\<exists>es. snd (runTx (transitionProviderEventStatus (je_now env2) (pe_id ev2) st le False) d4) = d2\<lparr>db_events := es\<rparr>" for st le
    using transition_status_only [of "je_now env2" "pe_id ev2" st le False d4] by (auto simp: d4)
  have del: "\<exists>es. snd (runTx (transitionProviderEventStatus (je_now env2) (pe_id ev2) st le False) d2) = d2\<lparr>db_events := es\<rparr>" for st le
    using transition_status_only by blast
  show ?thesis
  proof (cases "pe_status ev2 = EProcessed \<or> pe_status ev2 = EIgnored \<or> pa_deletedAt ch2 \<noteq> None \<or> \<not> isOk u")
    case True
    then show ?thesis using same del t1 d3 assms(11,12)
      by (cases u) (auto simp: process_def)
  next
    case False
    then obtain w where u: "u = Inr w" by (cases u) simp_all
    show ?thesis
    proof (cases b)
      case (Inl e)
      obtain x d5 where t2: "runTx (transitionProviderEventStatus (je_now env2) (pe_id ev2)
          (if should_retry e then EReceived else EFailed) (Some (Some (err_message e))) False) d4 = (x, d5)" by force
      then have "snd (process env2 adapt2 i d2) = d5"
        using False t1 u body Inl assms(11,12) by (cases x) (simp_all add: process_def)
      then show ?thesis using fin t2 by (metis snd_conv)
    next
      case (Inr y)
      then show ?thesis using False t1 u body d4 assms(11,12) by (auto simp: process_def)
    qed
  qed
qed

section \<open>Witnesses\<close>

definition sample_provider_event :: provider_event where
  "sample_provider_event = \<lparr>pe_id = ''e1'', pe_workspaceId = ''w'', pe_providerAccountId = ''ch'', pe_provider = TELEGRAM_BOT,
     pe_channelType = CTELEGRAM, pe_providerEventKey = ''k'', pe_isFingerprinted = False, pe_payload = JObj [],
     pe_headers = None, pe_status = EReceived, pe_processingAttempts = 0, pe_lastError = None, pe_processedAt = None,
     pe_retentionDays = 90, pe_purgeAfter = None, pe_correlationId = None, pe_updatedAt = 0\<rparr>"

definition inbound_db :: db where
  "inbound_db = empty_db\<lparr>db_events := [sample_provider_event], db_accounts := [sample_channel]\<rparr>"

definition calm_job :: job_env where
  "calm_job = \<lparr>je_now = 100, je_tx = (\<lambda>_. calm_env), je_race = (\<lambda>_ s. s), je_receipt_race = (\<lambda>_ _ s. s),
     je_ids = (\<lambda>k. sample_ids (show_nat k)), je_uuid = (\<lambda>k. ''u'' @ show_nat k)\<rparr>"

definition two_messages :: "provider_event \<Rightarrow> provider_account \<Rightarrow> err + normalized list" where
  "two_messages ev ch = Inr [NMessage (sample_inbound ''p1'' 90), NIgnored ''sticker pack'', NMessage (sample_inbound ''p2'' 95)]"

definition bad_payload :: "provider_event \<Rightarrow> provider_account \<Rightarrow> err + normalized list" where
  "bad_payload ev ch = Inl (ProviderFailure (mediaTooLarge TELEGRAM_BOT))"

lemma inbound_db_lookup:
  "find_event ''e1'' inbound_db = Some sample_provider_event"
  "find_account (pe_providerAccountId sample_provider_event) inbound_db = Some sample_channel"
  "pe_status sample_provider_event = EReceived" "pa_deletedAt sample_channel = None"
  "distinct (map pe_id (db_events inbound_db))"
  by (simp_all add: find_event_def find_account_def inbound_db_def sample_provider_event_def sample_channel_def)

theorem process_settles_witness:
  "\<exists>ev'. events_rows ''e1'' (snd (process calm_job bad_payload ''e1'' inbound_db)) = [ev'] \<and> pe_status ev' = EFailed"
proof -
  have q: "journal_quiet calm_job" by (simp add: journal_quiet_def calm_job_def calm_env_def)
  have ns: "\<not> should_retry (ProviderFailure (mediaTooLarge TELEGRAM_BOT))"
    by (simp add: should_retry_def mediaTooLarge_def retryable_def ChannelProviderError_def)
  have st: "map pe_status (events_rows ''e1'' (snd (process calm_job bad_payload ''e1'' inbound_db))) = [EFailed]" by code_simp
  from process_settles [OF inbound_db_lookup(1) _ _ inbound_db_lookup(2,4,5) q, of bad_payload]
  obtain ev' where "events_rows ''e1'' (snd (process calm_job bad_payload ''e1'' inbound_db)) = [ev']"
    by (auto simp: inbound_db_lookup)
  with st show ?thesis by simp
qed

text \<open>The state after the first run, with the event put back to RECEIVED.\<close>

definition replayed_db :: db where
  "replayed_db = (let d = snd (process calm_job two_messages ''e1'' inbound_db)
     in d\<lparr>db_events := map (\<lambda>e. e\<lparr>pe_status := EReceived\<rparr>) (db_events d)\<rparr>)"

theorem reprocessing_harmless_witness:
  "\<exists>es. snd (process calm_job two_messages ''e1'' replayed_db) = replayed_db\<lparr>db_events := es\<rparr>"
proof -
  let ?d = "snd (process calm_job two_messages ''e1'' inbound_db)"
  have run: "process calm_job two_messages ''e1'' inbound_db = (Inr (), ?d)"
  proof -
    have "isOk (fst (process calm_job two_messages ''e1'' inbound_db))" by code_simp
    then show ?thesis by (cases "process calm_job two_messages ''e1'' inbound_db") (auto elim: isOk.elims)
  qed
  have st: "pe_status (the (find_event ''e1'' ?d)) \<noteq> EFailed" by code_simp
  have kept: "messages_kept calm_job" by (simp add: messages_kept_def calm_job_def calm_env_def loses_none_def)
  have mono: "stored sample_channel p ?d \<Longrightarrow> stored sample_channel p replayed_db" for p
    by (simp add: replayed_db_def Let_def)
  have look: "isOk (case find_event ''e1'' replayed_db of None \<Rightarrow> Inl () | Some e \<Rightarrow>
      (case find_account (pe_providerAccountId e) replayed_db of None \<Rightarrow> Inl () | Some c \<Rightarrow>
         if pa_id c = pa_id sample_channel then Inr () else Inl ()))" by code_simp
  then obtain ev2 ch2 where ev2: "find_event ''e1'' replayed_db = Some ev2"
    "find_account (pe_providerAccountId ev2) replayed_db = Some ch2" "pa_id ch2 = pa_id sample_channel"
    by (auto split: option.splits if_splits)
  show ?thesis
    by (rule reprocessing_harmless [OF run st inbound_db_lookup(1) _ _ inbound_db_lookup(2,4) _ kept mono ev2])
      (auto simp: two_messages_def inbound_db_lookup(3))
qed

end
