(* ===== verification/Outbound.thy ===== *)
theory Outbound
  imports Receipts
begin

text \<open>
  The consumer of \<open>vynor.messages.outbound\<close>,
  \<open>apps/worker/src/processing/outbound-dispatcher.service.ts\<close>, and the channel health recorder
  \<open>apps/worker/src/channels/channel-health.service.ts\<close>: one reply is turned into an intent, sent
  through its adapter (an argument) and marked, failed or retried. Faults of the database and the
  changes other jobs make while the provider is called are arguments; the intents handed to the
  provider are part of the result.
\<close>

section \<open>Intents\<close>

record outbound_intent =
  in_intentId :: id
  in_workspaceId :: id
  in_channelType :: channel_type
  in_providerAccountId :: id
  in_destination :: string
  in_contactId :: id
  in_content :: json
  in_replyTo :: "string option"
  in_conversationId :: id
  in_subject :: "string option"
  in_references :: "string list"
  in_inReplyTo :: "string option"

record send_result =
  sr_providerMessageId :: "string option"
  sr_providerTimestamp :: "int option"

definition MAX_EMAIL_REFERENCES :: nat where "MAX_EMAIL_REFERENCES = 20"

definition STUCK_PENDING_MS :: int where "STUCK_PENDING_MS = 15 * 60000"

definition describeSendFailure :: "provider_error \<Rightarrow> string" where
  "describeSendFailure e = (let provider = providerLabel (pv_provider e) in
     case pv_category e of
       PREPLY_WINDOW_CLOSED \<Rightarrow>
         if pv_provider e = WHATSAPP_CLOUD
         then ''More than 24 hours have passed since the customer last wrote. WhatsApp only accepts approved template messages until they reply again.''
         else ''More than 24 hours have passed since the customer last wrote, so '' @ provider @ '' will not deliver a normal reply until they message again.''
     | PAUTHENTICATION \<Rightarrow> provider @ '' rejected the channel credentials ('' @ pv_message e @ ''). An admin needs to reconnect the channel.''
     | PPERMISSION \<Rightarrow> provider @ '' rejected the channel credentials ('' @ pv_message e @ ''). An admin needs to reconnect the channel.''
     | PRATE_LIMITED \<Rightarrow> provider @ '' is rate limiting this channel. Wait a few minutes and retry.''
     | PTRANSIENT \<Rightarrow> ''Could not reach '' @ provider @ '' after several attempts: '' @ pv_message e
     | _ \<Rightarrow> pv_message e)"

text \<open>\<open>orderBy createdAt asc\<close>; rows of the same time stay in table order.\<close>

definition email_thread :: "id \<Rightarrow> db \<Rightarrow> message list" where
  "email_thread convId d = sort_key ms_createdAt (filter (\<lambda>m. ms_conversationId m = convId \<and>
     \<not> ms_isPrivate m \<and> ms_providerMessageId m \<noteq> None) (db_messages d))"

definition thread_ids :: "message list \<Rightarrow> string list" where
  "thread_ids thread = filter (\<lambda>i. startsWith i ''<'') (map (\<lambda>m. the (ms_providerMessageId m)) thread)"

definition email_references :: "string list \<Rightarrow> string list" where
  "email_references ids = (if length ids > MAX_EMAIL_REFERENCES
     then hd ids # drop (length ids - (MAX_EMAIL_REFERENCES - 1)) ids else ids)"

definition last_inbound :: "message list \<Rightarrow> string option" where
  "last_inbound thread = (case List.find (\<lambda>m. ms_direction m = Inbound) (rev thread) of
     None \<Rightarrow> None | Some m \<Rightarrow> nonempty (ms_providerMessageId m))"

definition intent_reply_target :: "message \<Rightarrow> db \<Rightarrow> string option" where
  "intent_reply_target m d = (case nonempty (ms_replyToMessageId m) of None \<Rightarrow> None
     | Some t \<Rightarrow> (case find_message t d of None \<Rightarrow> None | Some x \<Rightarrow> nonempty (ms_providerMessageId x)))"

definition buildIntent ::
  "message \<Rightarrow> provider_account \<Rightarrow> conversation \<Rightarrow> contact_identity \<Rightarrow> json \<Rightarrow> db \<Rightarrow> outbound_intent" where
  "buildIntent m channel conv ident content d =
     (let email = (pa_channelType channel = CEMAIL); thread = email_thread (cv_id conv) d in
     \<lparr>in_intentId = ms_id m, in_workspaceId = ms_workspaceId m, in_channelType = pa_channelType channel,
      in_providerAccountId = ms_providerAccountId m, in_destination = ci_externalId ident,
      in_contactId = cv_contactId conv, in_content = content, in_replyTo = intent_reply_target m d,
      in_conversationId = cv_id conv,
      in_subject = (if email then nonempty (cv_subject conv) else None),
      in_references = (if email then email_references (thread_ids thread) else []),
      in_inReplyTo = (if email then last_inbound thread else None)\<rparr>)"

section \<open>Writes\<close>

text \<open>\<open>updateMany\<close> on messages, refused when it would store a provider id twice.\<close>

definition update_messages :: "(message \<Rightarrow> bool) \<Rightarrow> (message \<Rightarrow> message) \<Rightarrow> unit tx" where
  "update_messages P f d =
     (let rs = update_where P f (db_messages d) in
      if list_ex P (db_messages d) \<and> list_ex (\<lambda>a. list_ex (\<lambda>b. ms_id a \<noteq> ms_id b \<and> msg_key_clash a b) rs) rs
      then Inl (uniqueViolation ''messages'') else Inr ((), d\<lparr>db_messages := rs\<rparr>))"

definition message_updated :: "message \<Rightarrow> notification" where
  "message_updated m = notice ''conversation.message.updated'' (ms_workspaceId m)
     (Some (ms_conversationId m)) (Some (ms_id m)) None"

definition sent_row :: "int \<Rightarrow> string option \<Rightarrow> int \<Rightarrow> message \<Rightarrow> message" where
  "sent_row now pmid sentAt m = m\<lparr>ms_status := DSent, ms_providerMessageId := pmid, ms_sentAt := Some sentAt,
     ms_errorCode := None, ms_errorMessage := None, ms_updatedAt := now\<rparr>"

definition pending_row :: "id \<Rightarrow> message \<Rightarrow> bool" where
  "pending_row i m = (ms_id m = i \<and> ms_status m = DPending)"

definition mark_tx :: "int \<Rightarrow> message \<Rightarrow> string option \<Rightarrow> int \<Rightarrow> unit tx" where
  "mark_tx now m pmid sentAt = thenT (update_messages (pending_row (ms_id m)) (sent_row now pmid sentAt))
     (notifyRealtime (message_updated m))"

text \<open>\<open>f1\<close> and \<open>f2\<close>: faults that abort the first and the second transaction.\<close>

definition markSent ::
  "err option \<Rightarrow> err option \<Rightarrow> int \<Rightarrow> message \<Rightarrow> send_result \<Rightarrow> db \<Rightarrow> (err + unit) \<times> db" where
  "markSent f1 f2 now m r d =
     (let sentAt = (case sr_providerTimestamp r of None \<Rightarrow> now | Some t \<Rightarrow> t) in
      case run_attempt f1 (mark_tx now m (sr_providerMessageId r) sentAt) d of
        (Inr _, d') \<Rightarrow> (Inr (), d')
      | (Inl e, d') \<Rightarrow> if isUniqueConstraintViolation e then run_attempt f2 (mark_tx now m None sentAt) d'
                       else (Inl e, d'))"

definition failed_message :: "int \<Rightarrow> string \<Rightarrow> string \<Rightarrow> message \<Rightarrow> message" where
  "failed_message now code txt m = m\<lparr>ms_status := DFailed, ms_errorCode := Some (take 100 code),
     ms_errorMessage := Some txt, ms_failedAt := Some now, ms_updatedAt := now\<rparr>"

definition fail_tx :: "int \<Rightarrow> message \<Rightarrow> string \<Rightarrow> string \<Rightarrow> unit tx" where
  "fail_tx now m code txt = thenT (update_messages (pending_row (ms_id m)) (failed_message now code txt))
     (notifyRealtime (message_updated m))"

definition recordSuccess :: "err option \<Rightarrow> provider_account \<Rightarrow> db \<Rightarrow> (err + unit) \<times> db" where
  "recordSuccess f channel d =
     (if pa_status channel \<noteq> AERROR then (Inr (), d)
      else run_attempt f (thenT
        (\<lambda>s. Inr ((), s\<lparr>db_accounts := update_where (\<lambda>a. pa_id a = pa_id channel \<and> pa_status a = AERROR)
           (\<lambda>a. a\<lparr>pa_status := AACTIVE, pa_statusReason := None\<rparr>) (db_accounts s)\<rparr>))
        (notifyRealtime (notice ''channel.updated'' (pa_workspaceId channel) None None (Some (pa_id channel))))) d)"

definition recordFailure :: "err option \<Rightarrow> int \<Rightarrow> provider_account \<Rightarrow> provider_error \<Rightarrow> db \<Rightarrow> (err + unit) \<times> db" where
  "recordFailure f now channel e d =
     (let status = (if requiresReconnect e then ADISCONNECTED else AERROR) in
      if pa_status channel = ADISCONNECTED \<and> status = AERROR then (Inr (), d)
      else run_attempt f (thenT
        (update_account (pa_id channel) (\<lambda>a. a\<lparr>pa_status := status, pa_statusReason := Some (pv_message e),
           pa_lastErrorAt := Some now\<rparr>))
        (notifyRealtime (notice ''channel.updated'' (pa_workspaceId channel) None None (Some (pa_id channel))))) d)"

section \<open>Sending one reply\<close>

record outbound_env =
  ob_now :: int
  ob_race :: "db \<Rightarrow> db"
  ob_faultMark :: "err option"
  ob_faultMarkAgain :: "err option"
  ob_faultSuccess :: "err option"
  ob_faultFail :: "err option"
  ob_faultHealth :: "err option"

type_synonym deliver = "provider_account \<Rightarrow> outbound_intent \<Rightarrow> err + send_result"

definition is_cipher_error :: "err \<Rightarrow> bool" where
  "is_cipher_error e = (case e of OtherError n _ \<Rightarrow> n = ''CredentialCipherError'' | _ \<Rightarrow> False)"

definition sendable :: "message \<Rightarrow> bool" where
  "sendable m = (ms_direction m = Outbound \<and> \<not> ms_isPrivate m \<and> ms_status m = DPending)"

text \<open>The body of the \<open>try\<close>: \<open>connect\<close> stands for the adapter lookup and the decrypted account,
  \<open>deliver\<close> for the adapter's \<open>sendMessage\<close>. The list holds the intents the provider received.\<close>

definition send_body ::
  "outbound_env \<Rightarrow> (provider_account \<Rightarrow> err option) \<Rightarrow> deliver \<Rightarrow> message \<Rightarrow> provider_account \<Rightarrow> conversation
     \<Rightarrow> contact_identity \<Rightarrow> json \<Rightarrow> db \<Rightarrow> (err + unit) \<times> outbound_intent list \<times> db" where
  "send_body env connect deliver m channel conv ident content d =
     (case connect channel of
        Some e \<Rightarrow> (Inl e, [], ob_race env d)
      | None \<Rightarrow>
          let intent = buildIntent m channel conv ident content d in
          (case deliver channel intent of
             Inl e \<Rightarrow> (Inl e, [intent], ob_race env d)
           | Inr r \<Rightarrow>
               (case markSent (ob_faultMark env) (ob_faultMarkAgain env) (ob_now env) m r (ob_race env d) of
                  (Inl e, d') \<Rightarrow> (Inl e, [intent], d')
                | (Inr _, d') \<Rightarrow>
                    (let (q, d'') = recordSuccess (ob_faultSuccess env) channel d' in (q, [intent], d'')))))"

definition send_failure :: "provider_account \<Rightarrow> err \<Rightarrow> provider_error" where
  "send_failure channel e = toChannelProviderError (pa_provider channel) e
     (Some (if is_cipher_error e then PAUTHENTICATION else PTRANSIENT))"

text \<open>The end of the \<open>catch\<close>: the reply fails and the channel's health is recorded.\<close>

definition give_up :: "outbound_env \<Rightarrow> message \<Rightarrow> provider_account \<Rightarrow> provider_error \<Rightarrow> db \<Rightarrow> (err + unit) \<times> db" where
  "give_up env m channel pe d =
     (case run_attempt (ob_faultFail env) (fail_tx (ob_now env) m (pv_code pe) (describeSendFailure pe)) d of
        (Inl e', d') \<Rightarrow> (Inl e', d')
      | (Inr _, d') \<Rightarrow>
          if requiresReconnect pe \<or> pv_category pe = PCONFIGURATION
          then recordFailure (ob_faultHealth env) (ob_now env) channel pe d' else (Inr (), d'))"

definition send ::
  "outbound_env \<Rightarrow> (string \<Rightarrow> bool) \<Rightarrow> (provider_account \<Rightarrow> err option) \<Rightarrow> deliver \<Rightarrow> bool \<Rightarrow> id \<Rightarrow> db
     \<Rightarrow> (err + unit) \<times> outbound_intent list \<times> db" where
  "send env valid_url connect deliver finalAttempt i d =
     (case find_message i d of
        None \<Rightarrow> (Inr (), [], d)
      | Some m \<Rightarrow>
          if \<not> sendable m then (Inr (), [], d)
          else (case (find_account (ms_providerAccountId m) d, find_conversation (ms_conversationId m) d) of
             (Some channel, Some conv) \<Rightarrow>
               (case List.find (\<lambda>c. ci_id c = cv_contactIdentityId conv) (db_identities d) of
                  None \<Rightarrow> (Inl recordNotFound, [], d)
                | Some ident \<Rightarrow>
                    if pa_deletedAt channel \<noteq> None then
                      (let (q, d') = run_attempt (ob_faultFail env) (fail_tx (ob_now env) m ''CHANNEL_DELETED''
                           ''The channel was deleted before this reply could be sent.'') (ob_race env d) in (q, [], d'))
                    else (case parse_outbound_content valid_url (ms_content m) of
                      None \<Rightarrow>
                        (let (q, d') = run_attempt (ob_faultFail env) (fail_tx (ob_now env) m ''INVALID_CONTENT''
                           ''This reply has content the channel cannot send.'') (ob_race env d) in (q, [], d'))
                    | Some content \<Rightarrow>
                        (case send_body env connect deliver m channel conv ident content d of
                           (Inr _, sent, d1) \<Rightarrow> (Inr (), sent, d1)
                         | (Inl e, sent, d1) \<Rightarrow>
                             let pe = send_failure channel e in
                             if retryable pe \<and> \<not> finalAttempt then (Inl (ProviderFailure pe), sent, d1)
                             else (let (q, d2) = give_up env m channel pe d1 in (q, sent, d2)))))
           | _ \<Rightarrow> (Inl recordNotFound, [], d)))"

text \<open>The job's attempt is the final one when its retries are used up.\<close>

definition final_attempt :: "nat \<Rightarrow> nat \<Rightarrow> bool" where
  "final_attempt retryCount retryLimit = (retryCount \<ge> retryLimit)"

section \<open>Replies whose send never ran\<close>

definition stuck :: "int \<Rightarrow> message \<Rightarrow> bool" where
  "stuck now m = (ms_direction m = Outbound \<and> \<not> ms_isPrivate m \<and> ms_status m = DPending \<and>
     ms_updatedAt m < now - STUCK_PENDING_MS)"

text \<open>The query has no order; here its at most 100 rows come in table order.\<close>

fun fail_all :: "int \<Rightarrow> message list \<Rightarrow> db \<Rightarrow> (err + unit) \<times> db" where
  "fail_all now [] d = (Inr (), d)"
| "fail_all now (m # ms) d =
     (case runTx (fail_tx now m ''SEND_TIMEOUT'' ''This reply was not sent within 15 minutes. Retry it.'') d of
        (Inl e, d') \<Rightarrow> (Inl e, d')
      | (Inr _, d') \<Rightarrow> fail_all now ms d')"

definition failStuckMessages :: "int \<Rightarrow> db \<Rightarrow> (err + nat) \<times> db" where
  "failStuckMessages now d =
     (let rows = take 100 (filter (stuck now) (db_messages d)) in
      case fail_all now rows d of (Inl e, d') \<Rightarrow> (Inl e, d') | (Inr _, d') \<Rightarrow> (Inr (length rows), d'))"

section \<open>What the writes do\<close>

lemma update_messages_Inr:
  "update_messages P f d = Inr (u, d') \<Longrightarrow> d' = d\<lparr>db_messages := update_where P f (db_messages d)\<rparr>"
  by (auto simp: update_messages_def Let_def split: if_splits)

lemma attempt_messages:
  assumes "run_attempt flt (thenT (update_messages P f) (notifyRealtime n)) d = (q, d')"
  shows "(if isOk q then db_messages d' = update_where P f (db_messages d) else d' = d)"
proof (cases q)
  case (Inl e)
  then show ?thesis using run_attempt_error [of flt _ d e d'] assms by simp
next
  case (Inr u)
  then have "thenT (update_messages P f) (notifyRealtime n) d = Inr (u, d')"
    using run_attempt_ok assms by metis
  then show ?thesis using Inr by (auto simp: thenT_Inr notifyRealtime_def dest!: update_messages_Inr)
qed

lemma health_messages:
  "db_messages (snd (recordSuccess f ch d)) = db_messages d"
  "db_messages (snd (recordFailure g now ch e d)) = db_messages d"
proof -
  have "db_messages (snd (run_attempt f (thenT (\<lambda>s. Inr ((), s\<lparr>db_accounts := g s\<rparr>)) (notifyRealtime n)) d)) = db_messages d"
    for g n by (auto simp: run_attempt_def runTx_def thenT_def bindT_def notifyRealtime_def split: option.splits)
  then show "db_messages (snd (recordSuccess f ch d)) = db_messages d" by (simp add: recordSuccess_def)
  show "db_messages (snd (recordFailure g now ch e d)) = db_messages d"
    by (auto simp: recordFailure_def run_attempt_def runTx_def thenT_def bindT_def notifyRealtime_def update_account_def
        Let_def split: option.splits)
qed

text \<open>The states a run can leave the messages in, relative to the state \<open>s\<close> its first write found.\<close>

definition message_outcome :: "id \<Rightarrow> db \<Rightarrow> db \<Rightarrow> bool" where
  "message_outcome i s d' = (db_messages d' = db_messages s \<or>
     (\<exists>now pmid t. db_messages d' = update_where (pending_row i) (sent_row now pmid t) (db_messages s)) \<or>
     (\<exists>now code txt. db_messages d' = update_where (pending_row i) (failed_message now code txt) (db_messages s)))"

lemma row_status [simp]:
  "ms_status (sent_row now pmid t m) = DSent" "ms_id (sent_row now pmid t m) = ms_id m"
  "ms_status (failed_message now c x m) = DFailed" "ms_id (failed_message now c x m) = ms_id m"
  by (simp_all add: sent_row_def failed_message_def)

lemma pending_gone:
  assumes "\<And>m. ms_status (f m) \<noteq> DPending"
  shows "update_where (pending_row i) g (update_where (pending_row i) f xs) = update_where (pending_row i) f xs"
  using assms by (induction xs) (auto simp: pending_row_def)

lemma mark_outcome:
  assumes "markSent f1 f2 now m r d = (q, d')"
  shows "if isOk q then \<exists>pmid t. db_messages d' = update_where (pending_row (ms_id m)) (sent_row now pmid t) (db_messages d)
    else d' = d"
  using assms unfolding markSent_def Let_def mark_tx_def
  by (auto split: prod.splits sum.splits if_splits dest!: attempt_messages) (rule exI, rule exI, rule refl)+

lemma give_up_messages:
  "db_messages (snd (give_up env m ch pe d)) = db_messages d \<or>
   (\<exists>c x. db_messages (snd (give_up env m ch pe d)) =
      update_where (pending_row (ms_id m)) (failed_message (ob_now env) c x) (db_messages d))"
proof -
  obtain q d' where run: "run_attempt (ob_faultFail env) (fail_tx (ob_now env) m (pv_code pe) (describeSendFailure pe)) d = (q, d')"
    by force
  from attempt_messages [OF run [unfolded fail_tx_def]] show ?thesis
    using run by (cases q) (auto simp: give_up_def health_messages)
qed

section \<open>The provider is called once, for a pending reply\<close>

text \<open>What \<open>send\<close> reads, as one value.\<close>

definition send_inputs :: "id \<Rightarrow> db \<Rightarrow> (message \<times> provider_account \<times> conversation \<times> contact_identity) option" where
  "send_inputs i d = (case find_message i d of None \<Rightarrow> None | Some m \<Rightarrow>
     (case (find_account (ms_providerAccountId m) d, find_conversation (ms_conversationId m) d) of
        (Some channel, Some conv) \<Rightarrow>
          (case List.find (\<lambda>c. ci_id c = cv_contactIdentityId conv) (db_identities d) of
             None \<Rightarrow> None | Some ident \<Rightarrow> Some (m, channel, conv, ident))
      | _ \<Rightarrow> None))"

lemma send_unfold:
  "send env valid_url connect deliver final i d =
     (case find_message i d of None \<Rightarrow> (Inr (), [], d) | Some m \<Rightarrow>
        if \<not> sendable m then (Inr (), [], d)
        else (case send_inputs i d of None \<Rightarrow> (Inl recordNotFound, [], d)
          | Some (m, channel, conv, ident) \<Rightarrow>
              if pa_deletedAt channel \<noteq> None then
                (let (q, d') = run_attempt (ob_faultFail env) (fail_tx (ob_now env) m ''CHANNEL_DELETED''
                     ''The channel was deleted before this reply could be sent.'') (ob_race env d) in (q, [], d'))
              else (case parse_outbound_content valid_url (ms_content m) of
                None \<Rightarrow>
                  (let (q, d') = run_attempt (ob_faultFail env) (fail_tx (ob_now env) m ''INVALID_CONTENT''
                     ''This reply has content the channel cannot send.'') (ob_race env d) in (q, [], d'))
              | Some content \<Rightarrow>
                  (case send_body env connect deliver m channel conv ident content d of
                     (Inr _, sent, d1) \<Rightarrow> (Inr (), sent, d1)
                   | (Inl e, sent, d1) \<Rightarrow>
                       let pe = send_failure channel e in
                       if retryable pe \<and> \<not> final then (Inl (ProviderFailure pe), sent, d1)
                       else (let (q, d2) = give_up env m channel pe d1 in (q, sent, d2))))))"
proof (cases "find_message i d")
  case None
  then show ?thesis by (simp add: send_def)
next
  case (Some m)
  show ?thesis
    by (cases "find_account (ms_providerAccountId m) d"; cases "find_conversation (ms_conversationId m) d";
        cases "List.find (\<lambda>c. ci_id c = cv_contactIdentityId (the (find_conversation (ms_conversationId m) d))) (db_identities d)")
      (simp_all add: send_def send_inputs_def Some)
qed

lemma body_sent:
  "send_body env connect deliver m channel conv ident content d = (q, sent, d') \<Longrightarrow>
     sent = (if connect channel = None then [buildIntent m channel conv ident content d] else [])"
  by (auto simp: send_body_def Let_def split: option.splits sum.splits prod.splits)

lemma sent_facts:
  assumes "send env valid_url connect deliver final i d = (q, sent, d')" "sent \<noteq> []"
  shows "\<exists>m channel conv ident content. send_inputs i d = Some (m, channel, conv, ident) \<and> sendable m \<and>
    ms_id m = i \<and> pa_deletedAt channel = None \<and> parse_outbound_content valid_url (ms_content m) = Some content \<and>
    sent = [buildIntent m channel conv ident content d] \<and>
    in_destination (hd sent) = ci_externalId ident \<and> in_intentId (hd sent) = i"
proof -
  obtain m where m: "find_message i d = Some m" using assms by (auto simp: send_unfold split: option.splits)
  then have id: "ms_id m = i" by (auto simp: find_message_def dest!: find_SomeD)
  have s: "sendable m" using assms m by (auto simp: send_unfold split: if_splits)
  obtain channel conv ident where inp: "send_inputs i d = Some (m, channel, conv, ident)"
    using assms m s by (cases "send_inputs i d") (auto simp: send_unfold send_inputs_def split: option.splits)
  have del: "pa_deletedAt channel = None" using assms m s inp by (auto simp: send_unfold split: if_splits prod.splits)
  obtain content where con: "parse_outbound_content valid_url (ms_content m) = Some content"
    using assms m s inp del by (cases "parse_outbound_content valid_url (ms_content m)") (auto simp: send_unfold split: prod.splits)
  obtain b sent1 d1 where body: "send_body env connect deliver m channel conv ident content d = (b, sent1, d1)"
    by (metis prod_cases3)
  then have "sent = sent1"
    using assms(1) m s inp del con by (cases b) (auto simp: send_unfold Let_def split: if_splits prod.splits)
  then have "sent = [buildIntent m channel conv ident content d]"
    using body_sent [OF body] assms(2) by (auto split: if_splits)
  then show ?thesis using id s inp del con by (auto simp: buildIntent_def Let_def)
qed

text \<open>A run of the send job calls the provider at most once, and only for an outbound, public and
  PENDING reply of a channel that is not deleted, with the content that passed validation, addressed
  to the customer of the reply's own conversation and carrying the reply's id as idempotency key.\<close>

theorem send_calls_provider_once:
  assumes "send env valid_url connect deliver final i d = (q, sent, d')" "sent \<noteq> []"
  shows "\<exists>m channel conv ident content. send_inputs i d = Some (m, channel, conv, ident) \<and> sendable m \<and>
    ms_id m = i \<and> pa_deletedAt channel = None \<and> parse_outbound_content valid_url (ms_content m) = Some content \<and>
    sent = [buildIntent m channel conv ident content d] \<and>
    in_destination (hd sent) = ci_externalId ident \<and> in_intentId (hd sent) = i"
  using sent_facts [OF assms] .

section \<open>No lost and no regressing status\<close>

lemma body_outcome:
  "send_body env connect deliver m channel conv ident content d = (q, sent, d') \<Longrightarrow>
     db_messages d' = db_messages (ob_race env d) \<or>
     (\<exists>pmid t. db_messages d' = update_where (pending_row (ms_id m)) (sent_row (ob_now env) pmid t) (db_messages (ob_race env d)))"
  using mark_outcome [of "ob_faultMark env" "ob_faultMarkAgain env" "ob_now env" m _ "ob_race env d"]
  by (auto simp: send_body_def Let_def health_messages split: option.splits sum.splits prod.splits)
    (metis health_messages(1) isOk.simps snd_conv)+

text \<open>Whatever the provider answers, whichever database calls fail and whatever other jobs change
  meanwhile, a send run changes at most the status of its own reply and only from PENDING to SENT
  or FAILED: a reply another job finished first keeps its status, and no other message changes.\<close>

theorem send_only_finishes_pending:
  "message_outcome i d (snd (snd (send env valid_url connect deliver final i d))) \<or>
   message_outcome i (ob_race env d) (snd (snd (send env valid_url connect deliver final i d)))"
proof (cases "send_inputs i d")
  case None
  then show ?thesis by (auto simp: send_unfold message_outcome_def split: option.splits)
next
  case (Some inp)
  obtain m channel conv ident where inp: "inp = (m, channel, conv, ident)" by (metis prod_cases4)
  have m: "find_message i d = Some m" "ms_id m = i"
    using Some inp by (auto simp: send_inputs_def find_message_def split: option.splits dest!: find_SomeD)
  have fl: "message_outcome i (ob_race env d) (snd (run_attempt f (fail_tx now m c x) (ob_race env d)))" for f now c x
  proof -
    obtain q d' where run: "run_attempt f (fail_tx now m c x) (ob_race env d) = (q, d')" by force
    from attempt_messages [OF run [unfolded fail_tx_def]] m(2)
    have "db_messages d' = db_messages (ob_race env d) \<or>
      db_messages d' = update_where (pending_row i) (failed_message now c x) (db_messages (ob_race env d))"
      by (auto split: if_splits)
    then show ?thesis unfolding run snd_conv message_outcome_def by blast
  qed
  show ?thesis
  proof (cases "\<not> sendable m \<or> pa_deletedAt channel \<noteq> None \<or> parse_outbound_content valid_url (ms_content m) = None")
    case True
    then show ?thesis using m Some inp fl
      by (auto simp: send_unfold message_outcome_def [of i d d] case_prod_beta)
  next
    case False
    then obtain content where con: "parse_outbound_content valid_url (ms_content m) = Some content" by auto
    obtain b sent1 d1 where body: "send_body env connect deliver m channel conv ident content d = (b, sent1, d1)"
      by (metis prod_cases3)
    note out = body_outcome [OF body, unfolded m(2)]
    have up: "message_outcome i (ob_race env d) d1"
      using out unfolding message_outcome_def by blast
    have after: "message_outcome i (ob_race env d) (snd (give_up env m channel pe d1))" for pe
      using out give_up_messages [of env m channel pe d1] pending_gone [of "sent_row (ob_now env) _ _" i]
      unfolding message_outcome_def m(2) by (metis row_status(1) delivery_status.distinct(1))
    have "snd (snd (send env valid_url connect deliver final i d)) = d1 \<or>
      (\<exists>pe. snd (snd (send env valid_url connect deliver final i d)) = snd (give_up env m channel pe d1))"
      using False m Some inp con body by (cases b) (auto simp: send_unfold Let_def case_prod_beta)
    then show ?thesis using up after by metis
  qed
qed

section \<open>An accepted reply is never sent again\<close>

lemma no_clash_without_id:
  assumes "messages_ok d"
  shows "\<exists>d'. update_messages P (sent_row now None t) d = Inr ((), d')"
proof -
  have "\<not> msg_key_clash a b" if that: "a \<in> set (update_where P (sent_row now None t) (db_messages d))"
    "b \<in> set (update_where P (sent_row now None t) (db_messages d))" "ms_id a \<noteq> ms_id b" for a b
  proof
    assume c: "msg_key_clash a b"
    then have "ms_providerMessageId a \<noteq> None" "ms_providerMessageId b \<noteq> None" by (auto simp: msg_key_clash_def)
    then have "a \<in> set (db_messages d)" "b \<in> set (db_messages d)"
      using that by (auto simp: set_update_where sent_row_def)
    then show False using assms c that(3) unfolding messages_ok_def by metis
  qed
  then show ?thesis by (auto simp: update_messages_def Let_def list_ex_iff)
qed

lemma mark_without_faults:
  assumes "messages_ok d"
  shows "\<exists>d' pmid t. markSent None None now m r d = (Inr (), d') \<and> pmid \<in> {None, sr_providerMessageId r} \<and>
    db_messages d' = update_where (pending_row (ms_id m)) (sent_row now pmid t) (db_messages d)"
proof -
  obtain q d' where run: "markSent None None now m r d = (q, d')" by force
  let ?t = "case sr_providerTimestamp r of None \<Rightarrow> now | Some t \<Rightarrow> t"
  obtain d2 where d2: "update_messages (pending_row (ms_id m)) (sent_row now None ?t) d = Inr ((), d2)"
    using no_clash_without_id [OF assms] by blast
  show ?thesis
  proof (cases "update_messages (pending_row (ms_id m)) (sent_row now (sr_providerMessageId r) ?t) d")
    case (Inr x)
    then have "update_messages (pending_row (ms_id m)) (sent_row now (sr_providerMessageId r) ?t) d =
        Inr ((), d\<lparr>db_messages := update_where (pending_row (ms_id m)) (sent_row now (sr_providerMessageId r) ?t) (db_messages d)\<rparr>)"
      by (auto simp: update_messages_def Let_def split: if_splits)
    then show ?thesis
      by (auto simp: markSent_def Let_def run_attempt_def runTx_def mark_tx_def thenT_def bindT_def notifyRealtime_def)
  next
    case (Inl e)
    then have "isUniqueConstraintViolation e" by (auto simp: update_messages_def Let_def split: if_splits)
    then show ?thesis using Inl d2 update_messages_Inr [OF d2]
      by (auto simp: markSent_def Let_def run_attempt_def runTx_def mark_tx_def thenT_def bindT_def notifyRealtime_def)
  qed
qed

lemma none_pending:
  "(\<And>m. ms_status (f m) \<noteq> DPending \<and> ms_id (f m) = ms_id m) \<Longrightarrow>
   x \<in> set (update_where (pending_row i) f xs) \<Longrightarrow> ms_id x = i \<Longrightarrow> ms_status x \<noteq> DPending"
  by (auto simp: set_update_where pending_row_def)

lemma finished_not_sent:
  assumes "\<And>x. x \<in> set (db_messages d) \<Longrightarrow> ms_id x = i \<Longrightarrow> ms_status x \<noteq> DPending"
  shows "send env valid_url connect deliver final i d = (Inr (), [], d)"
  using assms by (auto simp: send_unfold find_message_def sendable_def dest!: find_SomeD split: option.splits)


section \<open>The outcome of an undisturbed run\<close>

definition calm_outbound :: "int \<Rightarrow> outbound_env" where
  "calm_outbound now = \<lparr>ob_now = now, ob_race = (\<lambda>s. s), ob_faultMark = None, ob_faultMarkAgain = None,
     ob_faultSuccess = None, ob_faultFail = None, ob_faultHealth = None\<rparr>"

lemma fail_without_faults:
  assumes "messages_ok d"
  shows "run_attempt None (fail_tx now m code txt) d =
    (Inr (), d\<lparr>db_messages := update_where (pending_row (ms_id m)) (failed_message now code txt) (db_messages d),
       db_notified := db_notified d @ [message_updated m]\<rparr>)"
proof -
  have "\<not> msg_key_clash a b" if ab: "a \<in> set (update_where P (failed_message now code txt) (db_messages d))"
    "b \<in> set (update_where P (failed_message now code txt) (db_messages d))" "ms_id a \<noteq> ms_id b" for a b P
  proof
    have orig: "\<exists>x0\<in>set (db_messages d). ms_id x0 = ms_id x \<and> ms_providerAccountId x0 = ms_providerAccountId x \<and>
        ms_providerMessageId x0 = ms_providerMessageId x"
      if "x \<in> set (update_where P (failed_message now code txt) (db_messages d))" for x
      using that unfolding set_update_where by (auto simp: failed_message_def)
    obtain a0 b0 where "a0 \<in> set (db_messages d)" "ms_id a0 = ms_id a" "ms_providerAccountId a0 = ms_providerAccountId a"
      "ms_providerMessageId a0 = ms_providerMessageId a" "b0 \<in> set (db_messages d)" "ms_id b0 = ms_id b"
      "ms_providerAccountId b0 = ms_providerAccountId b" "ms_providerMessageId b0 = ms_providerMessageId b"
      using orig [OF ab(1)] orig [OF ab(2)] by blast
    moreover assume "msg_key_clash a b"
    ultimately show False using assms ab(3) unfolding messages_ok_def msg_key_clash_def by metis
  qed
  then have "update_messages (pending_row (ms_id m)) (failed_message now code txt) d =
      Inr ((), d\<lparr>db_messages := update_where (pending_row (ms_id m)) (failed_message now code txt) (db_messages d)\<rparr>)"
    by (auto simp: update_messages_def Let_def list_ex_iff)
  then show ?thesis
    by (simp add: run_attempt_def runTx_def fail_tx_def thenT_def bindT_def notifyRealtime_def)
qed

lemma failure_recorded:
  assumes "list_ex (\<lambda>x. pa_id x = pa_id channel) (db_accounts d)" "recordFailure None now channel e d = (q, d')"
  shows "q = Inr () \<and> db_messages d' = db_messages d \<and>
    (requiresReconnect e \<longrightarrow> (\<forall>a\<in>set (db_accounts d'). pa_id a = pa_id channel \<longrightarrow> pa_status a = ADISCONNECTED))"
proof (cases "pa_status channel = ADISCONNECTED \<and> \<not> requiresReconnect e")
  case True
  then show ?thesis using assms(2) by (simp add: recordFailure_def)
next
  case False
  let ?f = "\<lambda>a. a\<lparr>pa_status := (if requiresReconnect e then ADISCONNECTED else AERROR),
    pa_statusReason := Some (pv_message e), pa_lastErrorAt := Some now\<rparr>"
  have "q = Inr ()" and d': "db_messages d' = db_messages d"
    "db_accounts d' = update_where (\<lambda>x. pa_id x = pa_id channel) ?f (db_accounts d)"
    using assms False by (auto simp: recordFailure_def run_attempt_def runTx_def thenT_def bindT_def notifyRealtime_def
        update_account_def Let_def split: if_splits)
  then show ?thesis by (auto simp: set_update_where)
qed


definition queued_reply :: message where
  "queued_reply = \<lparr>ms_id = ''r1'', ms_workspaceId = ''w'', ms_conversationId = ''v1'', ms_providerAccountId = ''ch'',
     ms_direction = Outbound, ms_senderType = SAgent, ms_senderMembershipId = Some ''a1'', ms_senderName = Some ''Bo'',
     ms_isPrivate = False, ms_contentType = ''TEXT'',
     ms_content = JObj [(''type'', JStr ''TEXT''), (''text'', JStr ''hello'')], ms_text = Some ''hello'',
     ms_providerMessageId = None, ms_replyToMessageId = None, ms_status = DPending, ms_errorCode = None,
     ms_errorMessage = None, ms_providerEventId = None, ms_sentAt = None, ms_deliveredAt = None, ms_readAt = None,
     ms_failedAt = None, ms_createdAt = 150, ms_updatedAt = 150\<rparr>"

definition outbound_db :: db where
  "outbound_db = first_ingested\<lparr>db_accounts := [sample_channel],
     db_messages := db_messages first_ingested @ [queued_reply]\<rparr>"

definition accepting :: deliver where
  "accepting ch i = Inr \<lparr>sr_providerMessageId = Some ''q1'', sr_providerTimestamp = Some 190\<rparr>"

definition refusing :: deliver where
  "refusing ch i = Inl (ProviderFailure (ChannelProviderError TELEGRAM_BOT PAUTHENTICATION ''401'' ''bad token''))"

definition outbound_inputs :: "message \<times> provider_account \<times> conversation \<times> contact_identity" where
  "outbound_inputs = the (send_inputs ''r1'' outbound_db)"

lemma outbound_db_facts:
  "send_inputs ''r1'' outbound_db = Some (queued_reply, sample_channel, fst (snd (snd outbound_inputs)), snd (snd (snd outbound_inputs)))"
  "sendable queued_reply" "pa_deletedAt sample_channel = None" "messages_ok outbound_db"
  "parse_outbound_content (\<lambda>_. True) (ms_content queued_reply) = Some (ms_content queued_reply)"
proof -
  have "map_option (\<lambda>(m, c, _, _). (m, c)) (send_inputs ''r1'' outbound_db) = Some (queued_reply, sample_channel)" by code_simp
  then show "send_inputs ''r1'' outbound_db = Some (queued_reply, sample_channel, fst (snd (snd outbound_inputs)), snd (snd (snd outbound_inputs)))"
    by (auto simp: outbound_inputs_def)
  have "distinct (map ms_id (db_messages outbound_db)) \<and> list_all (\<lambda>a. list_all (\<lambda>b. msg_key_clash a b \<longrightarrow> ms_id a = ms_id b)
     (db_messages outbound_db)) (db_messages outbound_db)" by code_simp
  then show "messages_ok outbound_db" unfolding messages_ok_def list_all_iff by (metis distinct_map inj_onD)
  show "parse_outbound_content (\<lambda>_. True) (ms_content queued_reply) = Some (ms_content queued_reply)" by code_simp
qed (simp_all add: sendable_def queued_reply_def sample_channel_def)

lemma accepted_run:
  "map_prod (\<lambda>q. q) fst (send (calm_outbound 200) (\<lambda>_. True) (\<lambda>_. None) accepting False ''r1'' outbound_db) =
     (Inr (), [buildIntent queued_reply sample_channel (fst (snd (snd outbound_inputs))) (snd (snd (snd outbound_inputs)))
        (ms_content queued_reply) outbound_db])"
  by code_simp

theorem send_calls_provider_once_witness:
  "\<exists>m channel conv ident. send_inputs ''r1'' outbound_db = Some (m, channel, conv, ident) \<and> sendable m \<and>
     fst (snd (send (calm_outbound 200) (\<lambda>_. True) (\<lambda>_. None) accepting False ''r1'' outbound_db)) \<noteq> []"
proof -
  obtain q sent d' where run: "send (calm_outbound 200) (\<lambda>_. True) (\<lambda>_. None) accepting False ''r1'' outbound_db = (q, sent, d')"
    by (metis prod_cases3)
  then have "sent \<noteq> []" using accepted_run by auto
  from send_calls_provider_once [OF run this] run this show ?thesis by auto
qed



section \<open>Email references and stuck replies\<close>

text \<open>An email reply carries at most twenty references: the whole thread while it is that short, and
  otherwise its first mail followed by the nineteen latest ones, in order.\<close>

theorem email_references_bounded:
  "length (email_references ids) \<le> 20 \<and> subseq (email_references ids) ids \<and>
   (if length ids \<le> 20 then email_references ids = ids
    else hd (email_references ids) = hd ids \<and> suffix (tl (email_references ids)) ids \<and>
      length (email_references ids) = 20)"
proof (cases "length ids \<le> 20")
  case True
  then show ?thesis by (simp add: email_references_def MAX_EMAIL_REFERENCES_def)
next
  case False
  then obtain x xs where ids: "ids = x # xs" by (cases ids) auto
  have "length ids - 19 = Suc (length xs - 19)" using False ids by simp
  then have dr: "drop (length ids - 19) ids = drop (length xs - 19) xs" by (simp add: ids)
  have "subseq (drop (length xs - 19) xs) xs"
    by (rule suffix_imp_subseq [OF suffix_drop])
  then show ?thesis using False ids dr
    by (simp add: email_references_def MAX_EMAIL_REFERENCES_def suffix_drop suffix_ConsI)
qed

lemma failed_keeps_ok: "messages_ok d \<Longrightarrow> messages_ok (d\<lparr>db_messages := update_where P (failed_message now c x) (db_messages d), db_notified := ns\<rparr>)"
proof -
  assume ok: "messages_ok d"
  have ids: "map ms_id (update_where P (failed_message now c x) (db_messages d)) = map ms_id (db_messages d)"
    by (rule map_update_where) simp
  have orig: "\<exists>y0\<in>set (db_messages d). ms_id y0 = ms_id y \<and> ms_providerAccountId y0 = ms_providerAccountId y \<and>
      ms_providerMessageId y0 = ms_providerMessageId y"
    if "y \<in> set (update_where P (failed_message now c x) (db_messages d))" for y
    using that unfolding set_update_where by (auto simp: failed_message_def)
  have "a = b" if ab: "a \<in> set (update_where P (failed_message now c x) (db_messages d))"
    "b \<in> set (update_where P (failed_message now c x) (db_messages d))" "msg_key_clash a b" for a b
  proof -
    obtain a0 b0 where "a0 \<in> set (db_messages d)" "ms_id a0 = ms_id a" "ms_providerAccountId a0 = ms_providerAccountId a"
      "ms_providerMessageId a0 = ms_providerMessageId a" "b0 \<in> set (db_messages d)" "ms_id b0 = ms_id b"
      "ms_providerAccountId b0 = ms_providerAccountId b" "ms_providerMessageId b0 = ms_providerMessageId b"
      using orig [OF ab(1)] orig [OF ab(2)] by blast
    then have "ms_id a = ms_id b" using ok ab(3) unfolding messages_ok_def msg_key_clash_def by metis
    then show "a = b" using ab(1,2) ok ids unfolding messages_ok_def by (metis distinct_map inj_onD)
  qed
  then show ?thesis using ok ids by (simp add: messages_ok_def)
qed

lemma fail_all_rows:
  assumes "messages_ok d" "set ms \<subseteq> set (db_messages d)" "distinct (map ms_id ms)" "\<And>m. m \<in> set ms \<Longrightarrow> ms_status m = DPending"
  shows "\<exists>d'. fail_all now ms d = (Inr (), d') \<and> db_messages d' = update_where (\<lambda>x. ms_id x \<in> ms_id ` set ms)
    (failed_message now ''SEND_TIMEOUT'' ''This reply was not sent within 15 minutes. Retry it.'') (db_messages d)"
  using assms
proof (induction ms arbitrary: d)
  case Nil
  then show ?case by (simp add: update_where_def)
next
  case (Cons m ms)
  let ?f = "failed_message now ''SEND_TIMEOUT'' ''This reply was not sent within 15 minutes. Retry it.''"
  let ?d = "d\<lparr>db_messages := update_where (pending_row (ms_id m)) ?f (db_messages d), db_notified := db_notified d @ [message_updated m]\<rparr>"
  have run: "runTx (fail_tx now m ''SEND_TIMEOUT'' ''This reply was not sent within 15 minutes. Retry it.'') d = (Inr (), ?d)"
    using fail_without_faults [OF Cons.prems(1), of now m] by (simp add: run_attempt_def)
  have one: "update_where (pending_row (ms_id m)) ?f (db_messages d) = update_where (\<lambda>x. ms_id x = ms_id m) ?f (db_messages d)"
  proof -
    have "x \<in> set (db_messages d) \<Longrightarrow> pending_row (ms_id m) x = (ms_id x = ms_id m)" for x
      using Cons.prems unfolding pending_row_def messages_ok_def by (metis distinct_map inj_onD list.set_intros(1) subsetD)
    then show ?thesis by (auto simp: update_where_def)
  qed
  have "messages_ok ?d" using failed_keeps_ok [OF Cons.prems(1)] .
  moreover have "set ms \<subseteq> set (db_messages ?d)"
    using Cons.prems(2,3) by (auto simp: one set_update_where image_iff)
  ultimately obtain d' where d': "fail_all now ms ?d = (Inr (), d')"
    "db_messages d' = update_where (\<lambda>x. ms_id x \<in> ms_id ` set ms) ?f (db_messages ?d)"
    using Cons.IH [of ?d] Cons.prems(3,4) by auto
  have "db_messages ?d = update_where (\<lambda>x. ms_id x = ms_id m) ?f (db_messages d)" by (simp add: one)
  moreover have "update_where (\<lambda>x. ms_id x \<in> ms_id ` set ms) ?f (update_where (\<lambda>x. ms_id x = ms_id m) ?f (db_messages d)) =
      update_where (\<lambda>x. ms_id x \<in> ms_id ` set (m # ms)) ?f (db_messages d)"
    using Cons.prems(3) by (auto simp: update_where_def)
  ultimately have "db_messages d' = update_where (\<lambda>x. ms_id x \<in> ms_id ` set (m # ms)) ?f (db_messages d)"
    using d'(2) by simp
  then show ?case using d' run by simp
qed

text \<open>The safety net fails exactly the public outbound replies that have been PENDING for more than
  fifteen minutes, a hundred per run, and reports how many; no other message changes.\<close>

theorem stuck_replies_failed:
  assumes "messages_ok d" "rows = take 100 (filter (stuck now) (db_messages d))"
  shows "\<exists>d'. failStuckMessages now d = (Inr (length rows), d') \<and>
    db_messages d' = update_where (\<lambda>m. m \<in> set rows)
      (failed_message now ''SEND_TIMEOUT'' ''This reply was not sent within 15 minutes. Retry it.'') (db_messages d)"
proof -
  have rows: "set rows \<subseteq> set (db_messages d)" "\<And>m. m \<in> set rows \<Longrightarrow> ms_status m = DPending"
    "distinct (map ms_id rows)"
  proof -
    have "map ms_id rows = take 100 (map ms_id (filter (stuck now) (db_messages d)))" by (simp add: assms(2) take_map)
    then show "distinct (map ms_id rows)" using assms(1) by (simp add: messages_ok_def distinct_map_filter)
  qed (use assms(2) in \<open>auto simp: stuck_def dest!: in_set_takeD\<close>)
  have same: "x \<in> set (db_messages d) \<Longrightarrow> (ms_id x \<in> ms_id ` set rows) = (x \<in> set rows)" for x
  proof -
    assume x: "x \<in> set (db_messages d)"
    have inj: "inj_on ms_id (set (db_messages d))" using assms(1) by (simp add: messages_ok_def distinct_map)
    show "(ms_id x \<in> ms_id ` set rows) = (x \<in> set rows)"
      using inj_on_image_mem_iff [OF inj x rows(1)] .
  qed
  obtain d' where d': "fail_all now rows d = (Inr (), d')" "db_messages d' = update_where (\<lambda>x. ms_id x \<in> ms_id ` set rows)
      (failed_message now ''SEND_TIMEOUT'' ''This reply was not sent within 15 minutes. Retry it.'') (db_messages d)"
    using fail_all_rows [of d rows now, OF assms(1) rows(1,3)] rows(2) by auto
  have "update_where (\<lambda>x. ms_id x \<in> ms_id ` set rows) f (db_messages d) = update_where (\<lambda>m. m \<in> set rows) f (db_messages d)" for f
    using same by (simp add: update_where_def)
  then show ?thesis using d' assms(2) by (simp add: failStuckMessages_def)
qed

theorem stuck_replies_failed_witness:
  "\<exists>d'. failStuckMessages 900151 outbound_db = (Inr 1, d') \<and> map ms_status (db_messages d') = [DDelivered, DFailed]"
proof -
  have rows: "take 100 (filter (stuck 900151) (db_messages outbound_db)) = [queued_reply]" by code_simp
  have "map ms_status (update_where (\<lambda>m. m \<in> set [queued_reply])
      (failed_message 900151 ''SEND_TIMEOUT'' ''This reply was not sent within 15 minutes. Retry it.'') (db_messages outbound_db)) =
    [DDelivered, DFailed]" by code_simp
  then show ?thesis using stuck_replies_failed [OF outbound_db_facts(4) refl, of 900151] unfolding rows by auto
qed

end
