(* ===== verification/Iam.thy ===== *)
theory Iam
  imports Db
begin

text \<open>
  Identity and access: the permission catalogue (\<open>packages/contracts/src/iam/permissions.ts\<close>), token
  verification, the authentication guard, the resolution of the acting member, the permission guard
  and the policy service (\<open>apps/api/src/iam\<close>), and the navigation filter of the web app
  (\<open>apps/web/src/lib/auth/navigation.ts\<close>). The JWT library is an argument.
\<close>

section \<open>Permissions\<close>

definition CANONICAL_PERMISSIONS :: "string list" where
  "CANONICAL_PERMISSIONS =
     [''workspace:read'', ''workspace:update'', ''workspace:delete'', ''user:read'', ''user:invite'', ''user:manage'',
      ''role:read'', ''role:manage'', ''team:read'', ''team:manage'', ''conversation:read'', ''conversation:write'',
      ''conversation:assign'', ''conversation:close'', ''message:read'', ''message:send'', ''message:delete'',
      ''contact:read'', ''contact:write'', ''contact:delete'', ''campaign:read'', ''campaign:write'',
      ''campaign:launch'', ''analytics:read'', ''analytics:export'', ''integration:read'', ''integration:manage'',
      ''audit:read'']"

definition isPermissionAction :: "string \<Rightarrow> bool" where
  "isPermissionAction action = (action \<in> set CANONICAL_PERMISSIONS)"

definition hasPermission :: "string list \<Rightarrow> string \<Rightarrow> bool" where
  "hasPermission granted required = (''*'' \<in> set granted \<or> required \<in> set granted)"

definition hasAllPermissions :: "string list \<Rightarrow> string list \<Rightarrow> bool" where
  "hasAllPermissions granted required = (''*'' \<in> set granted \<or> list_all (\<lambda>p. p \<in> set granted) required)"

section \<open>Errors\<close>

datatype iam_code =
    AUTH_TOKEN_MISSING | AUTH_TOKEN_EXPIRED | AUTH_TOKEN_INVALID | USER_ACCOUNT_DISABLED
  | MEMBERSHIP_NOT_FOUND | MEMBERSHIP_INACTIVE | WORKSPACE_HEADER_MISSING | WORKSPACE_ACCESS_DENIED
  | PERMISSION_DENIED

fun iam_status :: "iam_code \<Rightarrow> nat" where
  "iam_status AUTH_TOKEN_MISSING = 401"
| "iam_status AUTH_TOKEN_EXPIRED = 401"
| "iam_status AUTH_TOKEN_INVALID = 401"
| "iam_status WORKSPACE_HEADER_MISSING = 400"
| "iam_status _ = 403"

section \<open>Resolving the actor\<close>

record user_profile =
  up_id :: id
  up_supabaseAuthId :: string
  up_email :: string
  up_displayName :: string
  up_avatarUrl :: "string option"
  up_isActive :: bool
  up_deletedAt :: "int option"

record workspace =
  wk_id :: id
  wk_name :: string
  wk_slug :: string
  wk_timezone :: string
  wk_deletedAt :: "int option"

record role =
  rl_name :: string
  rl_permissions :: "string list"

record workspace_membership =
  wm_id :: id
  wm_workspaceId :: id
  wm_userProfileId :: id
  wm_status :: membership_status
  wm_deletedAt :: "int option"
  wm_roles :: "role list"
  wm_teams :: "(id \<times> string) list"

record directory =
  dr_users :: "user_profile list"
  dr_workspaces :: "workspace list"
  dr_memberships :: "workspace_membership list"

record actor =
  ac_userId :: id
  ac_supabaseAuthId :: string
  ac_email :: string
  ac_displayName :: string
  ac_avatarUrl :: "string option"
  ac_workspaceId :: id
  ac_workspaceName :: string
  ac_workspaceSlug :: string
  ac_timezone :: string
  ac_membershipId :: id
  ac_membershipStatus :: membership_status
  ac_roles :: "string list"
  ac_teams :: "(id \<times> string) list"
  ac_permissions :: "string list"
  ac_correlationId :: string
  ac_ipAddress :: "string option"
  ac_userAgent :: "string option"

fun status_lower :: "membership_status \<Rightarrow> string" where
  "status_lower MInvited = ''invited''"
| "status_lower MActive = ''active''"
| "status_lower MSuspended = ''suspended''"
| "status_lower MDeactivated = ''deactivated''"

text \<open>A JavaScript \<open>Set\<close> keeps the order of first insertion.\<close>

definition set_add :: "'a list \<Rightarrow> 'a \<Rightarrow> 'a list" where
  "set_add xs x = (if x \<in> set xs then xs else xs @ [x])"

definition permission_set :: "workspace_membership \<Rightarrow> string list" where
  "permission_set m =
     (if ''SUPER_ADMIN'' \<in> set (map rl_name (wm_roles m))
      then foldl set_add [] (''*'' # CANONICAL_PERMISSIONS)
      else foldl set_add [] (concat (map rl_permissions (wm_roles m))))"

text \<open>The workspace to act on: the one named by id or slug, or the only active one.\<close>

definition target_workspace :: "directory \<Rightarrow> user_profile \<Rightarrow> string option \<Rightarrow> (iam_code \<times> string) + id" where
  "target_workspace dir u ident =
     (case ident of
        Some w \<Rightarrow>
          (case List.find (\<lambda>k. (wk_id k = w \<or> wk_slug k = w) \<and> wk_deletedAt k = None) (dr_workspaces dir) of
             None \<Rightarrow> Inl (WORKSPACE_ACCESS_DENIED, ''Workspace '' @ [CHR 0x27] @ w @ [CHR 0x27] @ '' does not exist or access is denied.'')
           | Some k \<Rightarrow> Inr (wk_id k))
      | None \<Rightarrow>
          (case take 2 (filter (\<lambda>m. wm_userProfileId m = up_id u \<and> wm_deletedAt m = None \<and> wm_status m = MActive)
                  (dr_memberships dir)) of
             [] \<Rightarrow> Inl (MEMBERSHIP_NOT_FOUND, ''You do not have an active membership in any workspace.'')
           | [m] \<Rightarrow> Inr (wm_workspaceId m)
           | _ \<Rightarrow> Inl (WORKSPACE_HEADER_MISSING, ''Multiple active workspaces available. Please specify the target workspace via x-workspace-id or x-workspace-slug header.'')))"

definition make_actor ::
  "user_profile \<Rightarrow> workspace \<Rightarrow> workspace_membership \<Rightarrow> string \<Rightarrow> string option \<Rightarrow> string option \<Rightarrow> actor" where
  "make_actor u k m correlationId ip ua =
     \<lparr>ac_userId = up_id u, ac_supabaseAuthId = up_supabaseAuthId u, ac_email = up_email u,
      ac_displayName = up_displayName u,
      ac_avatarUrl = (case up_avatarUrl u of Some [] \<Rightarrow> None | a \<Rightarrow> a),
      ac_workspaceId = wk_id k, ac_workspaceName = wk_name k, ac_workspaceSlug = wk_slug k, ac_timezone = wk_timezone k,
      ac_membershipId = wm_id m, ac_membershipStatus = wm_status m, ac_roles = map rl_name (wm_roles m),
      ac_teams = wm_teams m, ac_permissions = permission_set m, ac_correlationId = correlationId,
      ac_ipAddress = ip, ac_userAgent = ua\<rparr>"

definition resolveActorContext ::
  "directory \<Rightarrow> string \<Rightarrow> string option \<Rightarrow> string \<Rightarrow> string option \<Rightarrow> string option \<Rightarrow> (iam_code \<times> string) + actor" where
  "resolveActorContext dir authId ident correlationId ip ua =
     (case List.find (\<lambda>u. up_supabaseAuthId u = authId) (dr_users dir) of
        None \<Rightarrow> Inl (USER_ACCOUNT_DISABLED, ''User profile does not exist or has been removed.'')
      | Some u \<Rightarrow>
          if up_deletedAt u \<noteq> None then Inl (USER_ACCOUNT_DISABLED, ''User profile does not exist or has been removed.'')
          else if \<not> up_isActive u then Inl (USER_ACCOUNT_DISABLED, ''User account is currently deactivated.'')
          else (case target_workspace dir u ident of
             Inl e \<Rightarrow> Inl e
           | Inr w \<Rightarrow>
               (case List.find (\<lambda>m. wm_workspaceId m = w \<and> wm_userProfileId m = up_id u) (dr_memberships dir) of
                  None \<Rightarrow> Inl (MEMBERSHIP_NOT_FOUND, ''You do not belong to the requested workspace.'')
                | Some m \<Rightarrow>
                    if wm_deletedAt m \<noteq> None then Inl (MEMBERSHIP_NOT_FOUND, ''You do not belong to the requested workspace.'')
                    else if wm_status m \<noteq> MActive then
                      Inl (MEMBERSHIP_INACTIVE, ''Your membership in this workspace is '' @ status_lower (wm_status m) @ ''. Access is denied.'')
                    else (case List.find (\<lambda>k. wk_id k = wm_workspaceId m) (dr_workspaces dir) of
                       None \<Rightarrow> Inl (MEMBERSHIP_NOT_FOUND, ''You do not belong to the requested workspace.'')
                     | Some k \<Rightarrow> Inr (make_actor u k m correlationId ip ua)))))"

section \<open>Guards\<close>

text \<open>What the JWT library answers for a key: the subject, an expired token, or another failure.\<close>

datatype jwt_answer = JwtClaims string | JwtExpired | JwtRejected

definition verify_token :: "(string \<Rightarrow> jwt_answer) \<Rightarrow> (string \<Rightarrow> jwt_answer) \<Rightarrow> string \<Rightarrow> iam_code + string" where
  "verify_token secret jwks token =
     (if token = [] then Inl AUTH_TOKEN_MISSING
      else case secret token of
             JwtClaims sub \<Rightarrow> Inr sub
           | JwtExpired \<Rightarrow> Inl AUTH_TOKEN_EXPIRED
           | JwtRejected \<Rightarrow> (case jwks token of
                JwtClaims sub \<Rightarrow> Inr sub
              | JwtExpired \<Rightarrow> Inl AUTH_TOKEN_EXPIRED
              | JwtRejected \<Rightarrow> Inl AUTH_TOKEN_INVALID))"

record http_request =
  rq_authorization :: "string option"
  rq_correlationId :: "string option"
  rq_workspaceId :: "string option"
  rq_workspaceSlug :: "string option"
  rq_ip :: "string option"
  rq_userAgent :: "string option"
  rq_url :: string
  rq_method :: string

fun present :: "string option \<Rightarrow> string option" where
  "present (Some []) = None"
| "present s = s"

definition or_else :: "string option \<Rightarrow> string option \<Rightarrow> string option" where
  "or_else a b = (case present a of None \<Rightarrow> present b | s \<Rightarrow> s)"

text \<open>\<open>fresh\<close> is the correlation id generated when the request has none. The result is the actor put
  on the request, \<open>None\<close> for a public route.\<close>

definition authGuard ::
  "(string \<Rightarrow> jwt_answer) \<Rightarrow> (string \<Rightarrow> jwt_answer) \<Rightarrow> directory \<Rightarrow> string \<Rightarrow> bool \<Rightarrow> http_request \<Rightarrow> iam_code + actor option" where
  "authGuard secret jwks dir fresh isPublic r =
     (if isPublic then Inr None
      else case rq_authorization r of
        None \<Rightarrow> Inl AUTH_TOKEN_MISSING
      | Some h \<Rightarrow>
          if \<not> startsWith h ''Bearer '' then Inl AUTH_TOKEN_MISSING
          else let token = trim (drop 7 h) in
            if token = [] then Inl AUTH_TOKEN_MISSING
            else let correlationId = (case present (rq_correlationId r) of None \<Rightarrow> fresh | Some c \<Rightarrow> c) in
              (case verify_token secret jwks token of
                 Inl c \<Rightarrow> Inl c
               | Inr sub \<Rightarrow>
                   (case resolveActorContext dir sub (or_else (rq_workspaceId r) (rq_workspaceSlug r)) correlationId
                           (present (rq_ip r)) (present (rq_userAgent r)) of
                      Inl (c, _) \<Rightarrow> Inl c
                    | Inr a \<Rightarrow> Inr (Some a))))"

definition missing_permissions :: "actor \<Rightarrow> string list \<Rightarrow> string list" where
  "missing_permissions a required = filter (\<lambda>p. \<not> hasPermission (ac_permissions a) p) required"

definition denied_audit :: "id \<Rightarrow> actor \<Rightarrow> http_request \<Rightarrow> string \<Rightarrow> string list \<Rightarrow> audit_log" where
  "denied_audit i a r correlationId required =
     \<lparr>au_id = i, au_workspaceId = ac_workspaceId a, au_actorId = ac_userId a, au_actorType = ''USER'',
      au_action = ''security.permission_denied'', au_resourceType = ''iam.permission'',
      au_resourceId = join '','' (missing_permissions a required), au_correlationId = correlationId,
      au_beforeState = None, au_afterState = None,
      au_metadata = Some (JObj [(''required'', JArr (map JStr required)),
        (''missing'', JArr (map JStr (missing_permissions a required))),
        (''granted'', JArr (map JStr (ac_permissions a))), (''path'', JStr (rq_url r)), (''method'', JStr (rq_method r))])\<rparr>"

text \<open>A failing audit write does not hide the refusal.\<close>

definition permissionGuard ::
  "id \<Rightarrow> bool \<Rightarrow> string list \<Rightarrow> actor option \<Rightarrow> http_request \<Rightarrow> db \<Rightarrow> (iam_code + unit) \<times> db" where
  "permissionGuard auditId isPublic required act r d =
     (if isPublic \<or> required = [] then (Inr (), d)
      else case act of
        None \<Rightarrow> (Inl AUTH_TOKEN_MISSING, d)
      | Some a \<Rightarrow>
          if hasAllPermissions (ac_permissions a) required then (Inr (), d)
          else (Inl PERMISSION_DENIED,
                snd (runTx (create_audit (denied_audit auditId a r (ac_correlationId a) required)) d)))"

text \<open>A request passes the authentication guard and then the permission guard.\<close>

definition admit ::
  "(string \<Rightarrow> jwt_answer) \<Rightarrow> (string \<Rightarrow> jwt_answer) \<Rightarrow> directory \<Rightarrow> string \<Rightarrow> id \<Rightarrow> bool \<Rightarrow> string list \<Rightarrow> http_request
     \<Rightarrow> db \<Rightarrow> (iam_code + actor option) \<times> db" where
  "admit secret jwks dir fresh auditId isPublic required r d =
     (case authGuard secret jwks dir fresh isPublic r of
        Inl c \<Rightarrow> (Inl c, d)
      | Inr act \<Rightarrow>
          (case permissionGuard auditId isPublic required act r d of
             (Inl c, d') \<Rightarrow> (Inl c, d')
           | (Inr _, d') \<Rightarrow> (Inr act, d')))"

section \<open>Policy service\<close>

definition policy_canAny :: "actor \<Rightarrow> string list \<Rightarrow> bool" where
  "policy_canAny a ps = (''*'' \<in> set (ac_permissions a) \<or> list_ex (\<lambda>p. p \<in> set (ac_permissions a)) ps)"

definition policy_enforce :: "actor \<Rightarrow> string \<Rightarrow> err + unit" where
  "policy_enforce a p = (if hasPermission (ac_permissions a) p then Inr ()
     else Inl (ApiFailure 403 ''PERMISSION_DENIED'' (''Forbidden: Lacking required permission ['' @ p @ ''].'')))"

definition isSuperAdmin :: "actor \<Rightarrow> bool" where
  "isSuperAdmin a = (''SUPER_ADMIN'' \<in> set (ac_roles a))"

definition isAdmin :: "actor \<Rightarrow> bool" where
  "isAdmin a = (''SUPER_ADMIN'' \<in> set (ac_roles a) \<or> ''ADMIN'' \<in> set (ac_roles a))"

definition belongsToTeam :: "actor \<Rightarrow> id \<Rightarrow> bool" where
  "belongsToTeam a t = list_ex (\<lambda>tm. fst tm = t) (ac_teams a)"

section \<open>Navigation\<close>

datatype nav_item = NavItem (nv_id: string) (nv_href: string) (nv_required: "string list") (nv_children: "nav_item list option")

definition canAccessNavItem :: "actor option \<Rightarrow> nav_item \<Rightarrow> bool" where
  "canAccessNavItem act item = (nv_required item = [] \<or>
     (case act of None \<Rightarrow> False | Some a \<Rightarrow> hasAllPermissions (ac_permissions a) (nv_required item)))"

fun getVisibleNavItems :: "nav_item list \<Rightarrow> actor option \<Rightarrow> nav_item list" where
  "getVisibleNavItems [] act = []"
| "getVisibleNavItems (NavItem i h ps ch # items) act =
     (if canAccessNavItem act (NavItem i h ps ch)
      then NavItem i h ps (case ch of None \<Rightarrow> None | Some cs \<Rightarrow> Some (getVisibleNavItems cs act)) # getVisibleNavItems items act
      else getVisibleNavItems items act)"

section \<open>Facts\<close>

lemma set_add_fold: "set (foldl set_add acc xs) = set acc \<union> set xs \<and> (distinct acc \<longrightarrow> distinct (foldl set_add acc xs))"
  by (induction xs arbitrary: acc) (auto simp: set_add_def)

lemma permission_set_members:
  "p \<in> set (permission_set m) \<longleftrightarrow>
     (if ''SUPER_ADMIN'' \<in> set (map rl_name (wm_roles m)) then p = ''*'' \<or> p \<in> set CANONICAL_PERMISSIONS
      else \<exists>r\<in>set (wm_roles m). p \<in> set (rl_permissions r))"
  using set_add_fold [of "[]" "''*'' # CANONICAL_PERMISSIONS"]
    set_add_fold [of "[]" "concat (map rl_permissions (wm_roles m))"]
  unfolding permission_set_def by auto

lemma all_is_each: "hasAllPermissions granted ps \<longleftrightarrow> (\<forall>p\<in>set ps. hasPermission granted p)"
  if "ps \<noteq> []"
  using that by (cases ps) (auto simp: hasAllPermissions_def hasPermission_def list_all_iff)

lemma none_missing: "ps \<noteq> [] \<Longrightarrow> hasAllPermissions (ac_permissions a) ps \<longleftrightarrow> missing_permissions a ps = []"
  by (simp add: all_is_each missing_permissions_def filter_empty_conv)

text \<open>An actor stands for an active user with an active membership.\<close>

definition legitimate :: "directory \<Rightarrow> string \<Rightarrow> actor \<Rightarrow> user_profile \<Rightarrow> workspace_membership \<Rightarrow> bool" where
  "legitimate dir authId a u m =
     (u \<in> set (dr_users dir) \<and> up_supabaseAuthId u = authId \<and> up_isActive u \<and> up_deletedAt u = None \<and>
      m \<in> set (dr_memberships dir) \<and> wm_userProfileId m = up_id u \<and> wm_status m = MActive \<and> wm_deletedAt m = None \<and>
      ac_userId a = up_id u \<and> ac_membershipId a = wm_id m \<and> ac_workspaceId a = wm_workspaceId m \<and>
      ac_permissions a = permission_set m)"

lemma actor_resolve_Inr:
  assumes "resolveActorContext dir authId ident c ip ua = Inr a"
  obtains u m k where "legitimate dir authId a u m" "a = make_actor u k m c ip ua"
    "target_workspace dir u ident = Inr (wm_workspaceId m)"
  using assms
  by (auto simp: resolveActorContext_def legitimate_def make_actor_def split: option.splits sum.splits if_splits
      dest!: find_SomeD)

text \<open>An actor is only resolved for an existing, active user who is an active member of the
  workspace: of the workspace that the request names by id or slug and that is not deleted, or,
  without a name, of the only workspace the user is an active member of. The actor's permissions
  are exactly those of the member's roles, or the wildcard and the whole catalogue for a super
  administrator.\<close>

theorem actor_resolution_sound:
  assumes "resolveActorContext dir authId ident c ip ua = Inr a"
  shows "\<exists>u m. legitimate dir authId a u m \<and>
    (case ident of
       Some w \<Rightarrow> \<exists>k\<in>set (dr_workspaces dir). wk_id k = ac_workspaceId a \<and> (wk_id k = w \<or> wk_slug k = w) \<and> wk_deletedAt k = None
     | None \<Rightarrow> \<forall>m'\<in>set (dr_memberships dir). wm_userProfileId m' = up_id u \<and> wm_deletedAt m' = None \<and> wm_status m' = MActive
         \<longrightarrow> wm_workspaceId m' = ac_workspaceId a) \<and>
    (\<forall>p. p \<in> set (ac_permissions a) \<longleftrightarrow>
       (if ''SUPER_ADMIN'' \<in> set (map rl_name (wm_roles m)) then p = ''*'' \<or> p \<in> set CANONICAL_PERMISSIONS
        else \<exists>r\<in>set (wm_roles m). p \<in> set (rl_permissions r)))"
proof -
  obtain u m k where a: "legitimate dir authId a u m" "target_workspace dir u ident = Inr (wm_workspaceId m)"
    by (rule actor_resolve_Inr [OF assms])
  have ws: "ac_workspaceId a = wm_workspaceId m" "ac_permissions a = permission_set m" using a(1) by (auto simp: legitimate_def)
  have "case ident of
       Some w \<Rightarrow> \<exists>k\<in>set (dr_workspaces dir). wk_id k = ac_workspaceId a \<and> (wk_id k = w \<or> wk_slug k = w) \<and> wk_deletedAt k = None
     | None \<Rightarrow> \<forall>m'\<in>set (dr_memberships dir). wm_userProfileId m' = up_id u \<and> wm_deletedAt m' = None \<and> wm_status m' = MActive
         \<longrightarrow> wm_workspaceId m' = ac_workspaceId a"
  proof (cases ident)
    case (Some w)
    then show ?thesis using a(2) ws(1)
      by (auto simp: target_workspace_def split: option.splits dest!: find_SomeD)
  next
    case None
    let ?ms = "filter (\<lambda>m. wm_userProfileId m = up_id u \<and> wm_deletedAt m = None \<and> wm_status m = MActive) (dr_memberships dir)"
    have "\<exists>m0. ?ms = [m0] \<and> wm_workspaceId m0 = wm_workspaceId m"
    proof (cases ?ms)
      case Nil
      then show ?thesis using a(2) None by (simp add: target_workspace_def)
    next
      case (Cons m0 ms)
      then show ?thesis using a(2) None by (cases ms) (auto simp: target_workspace_def)
    qed
    then obtain m0 where m0: "?ms = [m0]" "wm_workspaceId m0 = wm_workspaceId m" by blast
    have "m' \<in> set ?ms \<Longrightarrow> wm_workspaceId m' = ac_workspaceId a" for m' using m0 ws(1) by simp
    then show ?thesis using None by simp
  qed
  then show ?thesis using a(1) ws(2) permission_set_members by (intro exI [of _ u] exI [of _ m]) simp
qed

lemma guard_Inr:
  assumes "authGuard secret jwks dir fresh False r = Inr act"
  obtains h token sub a c where "rq_authorization r = Some h" "startsWith h ''Bearer ''" "token = trim (drop 7 h)"
    "verify_token secret jwks token = Inr sub" "act = Some a"
    "resolveActorContext dir sub (or_else (rq_workspaceId r) (rq_workspaceSlug r)) c (present (rq_ip r)) (present (rq_userAgent r)) = Inr a"
  using assms by (auto simp: authGuard_def Let_def split: option.splits if_splits sum.splits)


section \<open>Navigation\<close>

fun nav_permitted :: "actor option \<Rightarrow> nav_item list \<Rightarrow> bool" where
  "nav_permitted act [] = True"
| "nav_permitted act (NavItem i h ps ch # items) =
     (canAccessNavItem act (NavItem i h ps ch) \<and> (case ch of None \<Rightarrow> True | Some cs \<Rightarrow> nav_permitted act cs) \<and>
      nav_permitted act items)"

lemma access_ignores_children: "canAccessNavItem act (NavItem i h ps c) = canAccessNavItem act (NavItem i h ps c')"
  by (cases act) (simp_all add: canAccessNavItem_def)

text \<open>The navigation shown to a user contains, at every depth, only items whose permissions the user
  has, and a list that is permitted throughout is shown unchanged; so filtering again changes
  nothing.\<close>

theorem navigation_filter_sound:
  "nav_permitted act (getVisibleNavItems items act) \<and>
   (nav_permitted act items \<longrightarrow> getVisibleNavItems items act = items)"
proof (induction items act rule: getVisibleNavItems.induct)
  case (2 i h ps ch items act)
  then show ?case
    using access_ignores_children [of act i h ps _ ch] by (cases ch) auto
qed simp

section \<open>Witnesses\<close>

definition agent_role :: role where
  "agent_role = \<lparr>rl_name = ''AGENT'', rl_permissions = [''conversation:read'', ''message:send'']\<rparr>"

definition sample_directory :: directory where
  "sample_directory = \<lparr>
     dr_users = [\<lparr>up_id = ''u1'', up_supabaseAuthId = ''s1'', up_email = ''a@x'', up_displayName = ''Ann'', up_avatarUrl = None,
        up_isActive = True, up_deletedAt = None\<rparr>],
     dr_workspaces = [\<lparr>wk_id = ''w'', wk_name = ''W'', wk_slug = ''acme'', wk_timezone = ''UTC'', wk_deletedAt = None\<rparr>],
     dr_memberships = [\<lparr>wm_id = ''m1'', wm_workspaceId = ''w'', wm_userProfileId = ''u1'', wm_status = MActive,
        wm_deletedAt = None, wm_roles = [agent_role], wm_teams = []\<rparr>]\<rparr>"

definition trusting :: "string \<Rightarrow> jwt_answer" where
  "trusting t = (if t = ''good'' then JwtClaims ''s1'' else JwtRejected)"

definition bearer_request :: "string \<Rightarrow> http_request" where
  "bearer_request t = \<lparr>rq_authorization = Some (''Bearer '' @ t), rq_correlationId = Some ''c1'', rq_workspaceId = Some ''acme'',
     rq_workspaceSlug = None, rq_ip = None, rq_userAgent = None, rq_url = ''/x'', rq_method = ''GET''\<rparr>"

theorem actor_resolution_sound_witness:
  "\<exists>a u m. resolveActorContext sample_directory ''s1'' (Some ''acme'') ''c1'' None None = Inr a \<and>
     legitimate sample_directory ''s1'' a u m"
proof -
  have "isOk (resolveActorContext sample_directory ''s1'' (Some ''acme'') ''c1'' None None)" by code_simp
  then obtain a where run: "resolveActorContext sample_directory ''s1'' (Some ''acme'') ''c1'' None None = Inr a"
    by (cases "resolveActorContext sample_directory ''s1'' (Some ''acme'') ''c1'' None None") auto
  with actor_resolution_sound [OF run] show ?thesis by blast
qed


theorem navigation_filter_sound_witness:
  "nav_permitted None (getVisibleNavItems [NavItem ''d'' ''/'' [] None, NavItem ''i'' ''/inbox'' [''conversation:read''] None] None) \<and>
   getVisibleNavItems [NavItem ''d'' ''/'' [] None] None = [NavItem ''d'' ''/'' [] None]"
  using navigation_filter_sound [of None "[NavItem ''d'' ''/'' [] None, NavItem ''i'' ''/inbox'' [''conversation:read''] None]"]
    navigation_filter_sound [of None "[NavItem ''d'' ''/'' [] None]"]
  by (simp add: canAccessNavItem_def)

text \<open>Without a workspace header the deletion of the workspace is not looked at: the only member of a
  deleted workspace is still admitted, though the same request with the header is refused.\<close>

lemma deleted_workspace_admitted:
  "(let dir = sample_directory\<lparr>dr_workspaces := map (\<lambda>k. k\<lparr>wk_deletedAt := Some 1\<rparr>) (dr_workspaces sample_directory)\<rparr>
    in isOk (resolveActorContext dir ''s1'' None ''c'' None None) \<and>
       \<not> isOk (resolveActorContext dir ''s1'' (Some ''w'') ''c'' None None))"
  by code_simp

end
