(* ===== verification/JsonText.thy ===== *)
theory JsonText
  imports Json
begin

text \<open>
  \<open>JSON.stringify\<close> and \<open>JSON.parse\<close> on the values of \<open>Json\<close>, for the texts the program writes and
  reads back: cursors, encrypted secrets, request bodies. Numbers are integers and characters code
  units below 256; a text with others is outside of the parser.
\<close>

section \<open>Printing\<close>

fun stringify :: "json \<Rightarrow> string" where
  "stringify JUndef = ''null''"
| "stringify JNull = ''null''"
| "stringify (JBool b) = (if b then ''true'' else ''false'')"
| "stringify (JNum n) = show_int n"
| "stringify (JStr s) = json_quote s"
| "stringify (JArr xs) = ''['' @ join '','' (map stringify xs) @ '']''"
| "stringify (JObj kvs) = ''{'' @ join '',''
     (concat (map (\<lambda>kv. if snd kv \<noteq> JUndef then [json_quote (fst kv) @ '':'' @ stringify (snd kv)] else []) kvs)) @ ''}''"

section \<open>Objects\<close>

text \<open>An object lists its integer-like keys first, in numerical order; a repeated key keeps its first
  position and its last value.\<close>

definition index_value :: "string \<Rightarrow> nat" where
  "index_value k = foldl (\<lambda>n c. 10 * n + (of_char c - 48)) 0 k"

definition array_index :: "string \<Rightarrow> bool" where
  "array_index k = (k \<noteq> [] \<and> list_all (\<lambda>c. of_char c \<in> {48..57 :: nat}) k \<and>
     (k = ''0'' \<or> hd k \<noteq> CHR ''0'') \<and> index_value k < 2 ^ 32 - 1)"

fun put_entry :: "string \<Rightarrow> json \<Rightarrow> (string \<times> json) list \<Rightarrow> (string \<times> json) list" where
  "put_entry k v [] = [(k, v)]"
| "put_entry k v (e # es) = (if fst e = k then (k, v) # es else e # put_entry k v es)"

definition js_object :: "(string \<times> json) list \<Rightarrow> (string \<times> json) list" where
  "js_object kvs = (let es = fold (\<lambda>(k, v). put_entry k v) kvs [] in
     sort_key (\<lambda>e. index_value (fst e)) (filter (\<lambda>e. array_index (fst e)) es) @ filter (\<lambda>e. \<not> array_index (fst e)) es)"

section \<open>Parsing\<close>

definition json_space :: "char \<Rightarrow> bool" where
  "json_space c = (c \<in> {CHR '' '', CHR 0x09, CHR 0x0A, CHR 0x0D})"

definition skip :: "string \<Rightarrow> string" where
  "skip s = dropWhile json_space s"

definition hex_val :: "char \<Rightarrow> nat option" where
  "hex_val c = (let n = of_char c :: nat in
     if 48 \<le> n \<and> n \<le> 57 then Some (n - 48)
     else if 97 \<le> n \<and> n \<le> 102 then Some (n - 87)
     else if 65 \<le> n \<and> n \<le> 70 then Some (n - 55) else None)"

definition simple_escape :: "char \<Rightarrow> char option" where
  "simple_escape e = map_of [(CHR 0x22, CHR 0x22), (CHR 0x5C, CHR 0x5C), (CHR ''/'', CHR ''/''), (CHR ''b'', CHR 0x08),
     (CHR ''f'', CHR 0x0C), (CHR ''n'', CHR 0x0A), (CHR ''r'', CHR 0x0D), (CHR ''t'', CHR 0x09)] e"

text \<open>One character of a string literal, escaped or not.\<close>

fun unescape :: "string \<Rightarrow> (char \<times> string) option" where
  "unescape [] = None"
| "unescape (c # cs) =
     (if c = CHR 0x5C then
        (case cs of
           [] \<Rightarrow> None
         | e # r \<Rightarrow>
             if e = CHR ''u'' then
               (case r of
                  h1 # h2 # h3 # h4 # r' \<Rightarrow>
                    (case (hex_val h1, hex_val h2, hex_val h3, hex_val h4) of
                       (Some 0, Some 0, Some a, Some b) \<Rightarrow> Some (char_of (16 * a + b), r')
                     | _ \<Rightarrow> None)
                | _ \<Rightarrow> None)
             else map_option (\<lambda>d. (d, r)) (simple_escape e))
      else if (of_char c :: nat) < 32 then None else Some (c, cs))"

declare unescape.simps [simp del]

lemma unescape_shorter: "unescape s = Some (c, r) \<Longrightarrow> length r < length s"
  by (cases s) (auto simp: unescape.simps split: if_splits list.splits option.splits nat.splits)

function parse_string :: "string \<Rightarrow> (string \<times> string) option" where
  "parse_string s = (case s of
     [] \<Rightarrow> None
   | c # cs \<Rightarrow>
       if c = CHR 0x22 then Some ([], cs)
       else (case unescape s of
               None \<Rightarrow> None
             | Some (d, r) \<Rightarrow> (case parse_string r of None \<Rightarrow> None | Some (t, r') \<Rightarrow> Some (d # t, r'))))"
  by pat_completeness auto
termination
  by (relation "measure length") (auto dest!: unescape_shorter)

declare parse_string.simps [simp del]

definition parse_number :: "string \<Rightarrow> (int \<times> string) option" where
  "parse_number s = (let (neg, t) = (case s of c # cs \<Rightarrow> if c = CHR ''-'' then (True, cs) else (False, s) | [] \<Rightarrow> (False, s));
       ds = takeWhile is_digit t; r = dropWhile is_digit t in
     if ds = [] \<or> (ds \<noteq> ''0'' \<and> hd ds = CHR ''0'') \<or> (r \<noteq> [] \<and> hd r \<in> {CHR ''.'', CHR ''e'', CHR ''E''}) then None
     else Some ((if neg then - int (read_nat ds) else int (read_nat ds)), r))"

definition literal :: "string \<Rightarrow> json \<Rightarrow> string \<Rightarrow> (json \<times> string) option" where
  "literal w v s = (if prefix w s then Some (v, drop (length w) s) else None)"

text \<open>Values, the items of an array after its first bracket or comma, and the members of an object;
  the fuel bounds the depth of the calls.\<close>

fun parse_value :: "nat \<Rightarrow> string \<Rightarrow> (json \<times> string) option"
  and parse_items :: "nat \<Rightarrow> string \<Rightarrow> (json list \<times> string) option"
  and parse_members :: "nat \<Rightarrow> string \<Rightarrow> ((string \<times> json) list \<times> string) option" where
  "parse_value 0 s = None"
| "parse_value (Suc n) s = (case skip s of
     [] \<Rightarrow> None
   | c # cs \<Rightarrow>
       if c = CHR ''n'' then literal ''null'' JNull (c # cs)
       else if c = CHR ''t'' then literal ''true'' (JBool True) (c # cs)
       else if c = CHR ''f'' then literal ''false'' (JBool False) (c # cs)
       else if c = CHR 0x22 then map_option (\<lambda>(t, r). (JStr t, r)) (parse_string cs)
       else if c = CHR ''['' then
         (case skip cs of
            d # r \<Rightarrow> if d = CHR '']'' then Some (JArr [], r) else map_option (\<lambda>(xs, r). (JArr xs, r)) (parse_items n cs)
          | [] \<Rightarrow> None)
       else if c = CHR ''{'' then
         (case skip cs of
            d # r \<Rightarrow> if d = CHR ''}'' then Some (JObj [], r) else map_option (\<lambda>(kvs, r). (JObj (js_object kvs), r)) (parse_members n cs)
          | [] \<Rightarrow> None)
       else map_option (\<lambda>(i, r). (JNum i, r)) (parse_number (c # cs)))"
| "parse_items 0 s = None"
| "parse_items (Suc n) s = (case parse_value n s of
     None \<Rightarrow> None
   | Some (v, r) \<Rightarrow>
       (case skip r of
          c # r' \<Rightarrow> if c = CHR '']'' then Some ([v], r')
            else if c = CHR '','' then map_option (\<lambda>(vs, r). (v # vs, r)) (parse_items n r') else None
        | [] \<Rightarrow> None))"
| "parse_members 0 s = None"
| "parse_members (Suc n) s = (case skip s of
     c # cs \<Rightarrow>
       if c \<noteq> CHR 0x22 then None
       else (case parse_string cs of
          None \<Rightarrow> None
        | Some (k, r) \<Rightarrow>
            (case skip r of
               d # r1 \<Rightarrow> if d \<noteq> CHR '':'' then None
                 else (case parse_value n r1 of
                    None \<Rightarrow> None
                  | Some (v, r2) \<Rightarrow>
                      (case skip r2 of
                         e # r3 \<Rightarrow> if e = CHR ''}'' then Some ([(k, v)], r3)
                           else if e = CHR '','' then map_option (\<lambda>(kvs, r). ((k, v) # kvs, r)) (parse_members n r3) else None
                       | [] \<Rightarrow> None))
             | [] \<Rightarrow> None))
   | [] \<Rightarrow> None)"

definition parse_json :: "string \<Rightarrow> json option" where
  "parse_json s = (case parse_value (2 * length s + 2) s of
     Some (v, r) \<Rightarrow> if skip r = [] then Some v else None
   | None \<Rightarrow> None)"

section \<open>Reading back what was printed\<close>

text \<open>Values a program object can hold: no undefined fields, and the entries in property order.\<close>

fun plain :: "json \<Rightarrow> bool" where
  "plain JUndef = False"
| "plain (JArr xs) = list_all plain xs"
| "plain (JObj kvs) = (js_object kvs = kvs \<and> list_all (\<lambda>kv. plain (snd kv)) kvs)"
| "plain _ = True"

lemma hex_val_digit: "n < 16 \<Longrightarrow> hex_val (hex_digit n) = Some n"
  by (auto simp: hex_val_def hex_digit_def of_char_of Let_def)

lemma char_codes:
  "char_of (34 :: nat) = CHR 0x22" "char_of (92 :: nat) = CHR 0x5C" "char_of (8 :: nat) = CHR 0x08" "char_of (9 :: nat) = CHR 0x09"
  "char_of (10 :: nat) = CHR 0x0A" "char_of (12 :: nat) = CHR 0x0C" "char_of (13 :: nat) = CHR 0x0D"
  by code_simp+

lemma char_of_of_char: "char_of (of_char c :: nat) = c"
  by simp

lemma of_char_eq: "(of_char c :: nat) = k \<Longrightarrow> c = char_of k"
  by (metis char_of_of_char)

lemma unescape_quote: "unescape (quote_char c @ r) = Some (c, r)"
proof -
  let ?n = "of_char c :: nat"
  consider "?n = 34" | "?n = 92" | "?n \<in> {8, 9, 10, 12, 13}" | "?n < 32" "?n \<notin> {8, 9, 10, 12, 13}" | "32 \<le> ?n" "?n \<noteq> 34" "?n \<noteq> 92"
    by fastforce
  then show ?thesis
  proof cases
    case 1
    then have "c = CHR 0x22" using of_char_eq [of c 34] by (simp add: char_codes)
    then show ?thesis by (simp add: quote_char_def unescape.simps simple_escape_def)
  next
    case 2
    then have "c = CHR 0x5C" using of_char_eq [of c 92] by (simp add: char_codes)
    then show ?thesis by (simp add: quote_char_def unescape.simps simple_escape_def)
  next
    case 3
    then have "c \<in> {CHR 0x08, CHR 0x09, CHR 0x0A, CHR 0x0C, CHR 0x0D}"
      using of_char_eq [of c 8] of_char_eq [of c 9] of_char_eq [of c 10] of_char_eq [of c 12] of_char_eq [of c 13]
      by (auto simp: char_codes)
    then show ?thesis by (auto simp: quote_char_def unescape.simps simple_escape_def)
  next
    case 4
    have z: "hex_val (CHR ''0'') = Some 0" by code_simp
    have "quote_char c = [CHR 0x5C, CHR ''u'', CHR ''0'', CHR ''0'', hex_digit (?n div 16), hex_digit (?n mod 16)]"
      using 4 by (simp add: quote_char_def Let_def)
    moreover have "?n div 16 < 16" "?n mod 16 < 16" using 4 by simp_all
    ultimately show ?thesis by (simp add: unescape.simps z hex_val_digit)
  next
    case 5
    then have q: "quote_char c = [c]" by (simp add: quote_char_def Let_def)
    have "c \<noteq> CHR 0x5C" using 5 by auto
    then show ?thesis using 5 by (simp add: q unescape.simps)
  qed
qed

lemma quote_char_head: "\<exists>d ds. quote_char c = d # ds \<and> d \<noteq> CHR 0x22"
  by (auto simp: quote_char_def Let_def)

lemma parse_quoted: "parse_string (concat (map quote_char s) @ CHR 0x22 # r) = Some (s, r)"
proof (induction s)
  case Nil
  show ?case by (subst parse_string.simps) simp
next
  case (Cons c s)
  obtain d ds where q: "quote_char c = d # ds" "d \<noteq> CHR 0x22" using quote_char_head by blast
  have "unescape (d # ds @ concat (map quote_char s) @ CHR 0x22 # r) = Some (c, concat (map quote_char s) @ CHR 0x22 # r)"
    using unescape_quote [of c] q by simp
  then show ?case using q Cons by (subst parse_string.simps) simp
qed

text \<open>What may follow a value.\<close>

definition delimited :: "string \<Rightarrow> bool" where
  "delimited r = (r = [] \<or> hd r \<in> {CHR '','', CHR '']'', CHR ''}''})"

lemma digits_prefix:
  "\<forall>c\<in>set ds. is_digit c \<Longrightarrow> delimited r \<Longrightarrow> takeWhile is_digit (ds @ r) = ds \<and> dropWhile is_digit (ds @ r) = r"
  by (cases r) (auto simp: delimited_def is_digit_def takeWhile_append)

lemma show_nat_head: "hd (show_nat n) = CHR ''0'' \<Longrightarrow> n = 0"
proof (induction n rule: show_nat.induct)
  case (1 n)
  show ?case
  proof (cases "n < 10")
    case True
    have "CHR ''0'' = digit_char 0" by code_simp
    then show ?thesis using 1 True by (subst (asm) (2) show_nat.simps) (metis digit_val_char list.sel(1) zero_less_numeral)
  next
    case False
    then have "show_nat n = show_nat (n div 10) @ [digit_char (n mod 10)]" by (subst show_nat.simps) simp
    then have "n div 10 = 0" using 1 False by (simp add: hd_append)
    then show ?thesis using False by simp
  qed
qed

lemma parse_show_int: "delimited r \<Longrightarrow> parse_number (show_int i @ r) = Some (i, r)"
proof -
  assume r: "delimited r"
  have nat: "parse_number (show_nat n @ r) = Some (int n, r) \<and> parse_number (CHR ''-'' # show_nat n @ r) = Some (- int n, r)" for n
  proof -
    have d: "\<forall>c\<in>set (show_nat n). is_digit c" using show_nat_digits by blast
    have t: "takeWhile is_digit (show_nat n @ r) = show_nat n" "dropWhile is_digit (show_nat n @ r) = r"
      using digits_prefix [OF d r] by blast+
    obtain c cs where s: "show_nat n = c # cs" using show_nat_nonempty [of n] by (cases "show_nat n") auto
    then have "c \<noteq> CHR ''-''" using d by (auto simp: is_digit_def)
    then have head: "(case show_nat n @ r of c # cs \<Rightarrow> if c = CHR ''-'' then (True, cs) else (False, show_nat n @ r) | [] \<Rightarrow> (False, show_nat n @ r)) =
      (False, show_nat n @ r)" using s by simp
    have lead: "\<not> (show_nat n \<noteq> ''0'' \<and> hd (show_nat n) = CHR ''0'')"
      using show_nat_head [of n] by (auto simp: show_nat.simps [of 0] digit_char_def)
    have tail: "\<not> (r \<noteq> [] \<and> hd r \<in> {CHR ''.'', CHR ''e'', CHR ''E''})" using r by (auto simp: delimited_def)
    have "parse_number (show_nat n @ r) = Some (int n, r)"
      unfolding parse_number_def head Let_def prod.case t using lead tail by simp
    moreover have "parse_number (CHR ''-'' # show_nat n @ r) = Some (- int n, r)"
      unfolding parse_number_def Let_def list.case simp_thms if_True prod.case t using lead tail by simp
    ultimately show ?thesis by blast
  qed
  show ?thesis using nat [of "nat i"] nat [of "nat (- i)"] by (auto simp: show_int_def)
qed

lemma stringify_head: "plain j \<Longrightarrow> \<exists>c cs. stringify j = c # cs \<and> \<not> json_space c \<and> c \<noteq> CHR '']'' \<and>
    ((\<exists>i. j = JNum i) \<longrightarrow> c \<notin> {CHR ''n'', CHR ''t'', CHR ''f'', CHR 0x22, CHR ''['', CHR ''{''})"
proof (cases j)
  case (JNum i)
  obtain c cs where s: "show_int i = c # cs" by (cases "show_int i") (auto simp: show_int_def split: if_splits)
  have "c = CHR ''-'' \<or> is_digit c" using s show_nat_digits by (auto simp: show_int_def split: if_splits) (metis list.set_intros(1))
  then show ?thesis using s JNum by (auto simp: json_space_def is_digit_def)
qed (auto simp: json_quote_def json_space_def)

lemma skip_printed: "plain j \<Longrightarrow> skip (stringify j @ r) = stringify j @ r"
  using stringify_head [of j] by (auto simp: skip_def)

lemma skip_head: "\<not> json_space c \<Longrightarrow> skip (c # r) = c # r"
  by (simp add: skip_def)

lemma punctuation [simp]: "\<not> json_space (CHR '','')" "\<not> json_space (CHR '']'')" "\<not> json_space (CHR ''}'')"
    "\<not> json_space (CHR '':'')" "\<not> json_space (CHR 0x22)" "\<not> json_space (CHR ''['')" "\<not> json_space (CHR ''{'')"
  by (simp_all add: json_space_def)

lemma parse_array: "\<not> json_space d \<Longrightarrow> d \<noteq> CHR '']'' \<Longrightarrow>
    parse_value (Suc m) (CHR ''['' # d # cs) = map_option (\<lambda>(xs, r). (JArr xs, r)) (parse_items m (d # cs))"
  by (simp add: skip_head)

lemma parse_object: "parse_value (Suc m) (CHR ''{'' # CHR 0x22 # cs) =
    map_option (\<lambda>(kvs, r). (JObj (js_object kvs), r)) (parse_members m (CHR 0x22 # cs))"
  by (simp add: skip_head)

lemma parse_number_value: "\<not> json_space c \<Longrightarrow> c \<notin> {CHR ''n'', CHR ''t'', CHR ''f'', CHR 0x22, CHR ''['', CHR ''{''} \<Longrightarrow>
    parse_value (Suc m) (c # cs) = map_option (\<lambda>(i, r). (JNum i, r)) (parse_number (c # cs))"
  by (simp add: skip_head)

lemma parse_last_item: "parse_value m s = Some (v, CHR '']'' # r) \<Longrightarrow> parse_items (Suc m) s = Some ([v], r)"
  by (simp add: skip_head)

lemma parse_next_item: "parse_value m s = Some (v, CHR '','' # t) \<Longrightarrow> parse_items m t = Some (vs, r) \<Longrightarrow>
    parse_items (Suc m) s = Some (v # vs, r)"
  by (simp add: skip_head)

lemma parse_last_member: "parse_string cs = Some (k, CHR '':'' # s) \<Longrightarrow> parse_value m s = Some (v, CHR ''}'' # r) \<Longrightarrow>
    parse_members (Suc m) (CHR 0x22 # cs) = Some ([(k, v)], r)"
  by (simp add: skip_head)

lemma parse_next_member: "parse_string cs = Some (k, CHR '':'' # s) \<Longrightarrow> parse_value m s = Some (v, CHR '','' # t) \<Longrightarrow>
    parse_members m t = Some (kvs, r) \<Longrightarrow> parse_members (Suc m) (CHR 0x22 # cs) = Some ((k, v) # kvs, r)"
  by (simp add: skip_head)

text \<open>A value is read back from its text, whatever delimiter follows.\<close>

definition reads_back :: "json \<Rightarrow> bool" where
  "reads_back j = (\<forall>n r. length (stringify j) < n \<longrightarrow> delimited r \<longrightarrow> parse_value n (stringify j @ r) = Some (j, r))"

lemma reads_backD: "reads_back j \<Longrightarrow> length (stringify j) < n \<Longrightarrow> delimited r \<Longrightarrow> parse_value n (stringify j @ r) = Some (j, r)"
  by (simp add: reads_back_def)

lemma delimiters [simp]: "delimited (CHR '','' # r)" "delimited (CHR '']'' # r)" "delimited (CHR ''}'' # r)" "delimited []"
  by (simp_all add: delimited_def)

lemma join_two: "join sep (x # y # ys) = x @ sep @ join sep (y # ys)"
  by simp

lemma parse_printed_items:
  "\<forall>x\<in>set xs. reads_back x \<Longrightarrow> xs \<noteq> [] \<Longrightarrow> Suc (length (join '','' (map stringify xs))) < n \<Longrightarrow>
     parse_items n (join '','' (map stringify xs) @ CHR '']'' # r) = Some (xs, r)"
proof (induction xs arbitrary: n)
  case (Cons x xs)
  then obtain m where n: "n = Suc m" by (cases n) auto
  have x: "reads_back x" using Cons.prems(1) by simp
  show ?case
  proof (cases xs)
    case Nil
    have "parse_value m (stringify x @ CHR '']'' # r) = Some (x, CHR '']'' # r)"
      using Cons.prems(3) by (intro reads_backD [OF x]) (simp_all add: Nil n)
    then show ?thesis unfolding n Nil list.map join.simps by (rule parse_last_item)
  next
    case more: (Cons y ys)
    let ?tail = "join '','' (map stringify xs)"
    have printed: "join '','' (map stringify (x # xs)) = stringify x @ CHR '','' # ?tail"
      by (simp add: more)
    have len: "length (stringify x) < m" "Suc (length ?tail) \<le> m"
      using Cons.prems(3) unfolding printed n by simp_all
    have "parse_items m (?tail @ CHR '']'' # r) = Some (xs, r)" if "Suc (length ?tail) < m"
      using Cons.IH [of m] Cons.prems(1) more that by simp
    moreover have "Suc (length ?tail) < m"
      using Cons.prems(3) unfolding printed n by (cases "stringify x") auto
    ultimately show ?thesis unfolding printed n append_assoc append_Cons
      by (intro parse_next_item [OF reads_backD [OF x len(1)]]) simp_all
  qed
qed simp

abbreviation "printed_member kv \<equiv> json_quote (fst kv) @ '':'' @ stringify (snd kv)"

lemma printed_member_text: "printed_member (k, v) @ s = CHR 0x22 # concat (map quote_char k) @ CHR 0x22 # CHR '':'' # stringify v @ s"
  by (simp add: json_quote_def)

lemma parse_printed_next:
  assumes "reads_back v" "length (stringify v) < m" "parse_members m (t @ s) = Some (kvs, r)"
  shows "parse_members (Suc m) ((printed_member (k, v) @ CHR '','' # t) @ s) = Some ((k, v) # kvs, r)"
proof -
  have "parse_members (Suc m) (CHR 0x22 # concat (map quote_char k) @ CHR 0x22 # CHR '':'' # stringify v @ CHR '','' # t @ s) = Some ((k, v) # kvs, r)"
    by (rule parse_next_member [OF parse_quoted reads_backD [OF assms(1,2)] assms(3)]) simp
  then show ?thesis by (simp add: json_quote_def del: parse_members.simps)
qed

lemma parse_printed_members:
  "\<forall>kv\<in>set kvs. reads_back (snd kv) \<Longrightarrow> kvs \<noteq> [] \<Longrightarrow> length (join '','' (map printed_member kvs)) < n \<Longrightarrow>
     parse_members n (join '','' (map printed_member kvs) @ CHR ''}'' # r) = Some (kvs, r)"
proof (induction kvs arbitrary: n)
  case (Cons kv kvs)
  obtain k v where kv: "kv = (k, v)" by force
  obtain m where n: "n = Suc m" using Cons.prems(3) by (cases n) auto
  have v: "reads_back v" using Cons.prems(1) by (simp add: kv)
  show ?case
  proof (cases kvs)
    case Nil
    have "length (stringify v) < m" using Cons.prems(3) by (simp add: n Nil kv json_quote_def)
    then show ?thesis unfolding n Nil kv list.map join.simps printed_member_text
      by (intro parse_last_member [OF parse_quoted reads_backD [OF v]]) simp_all
  next
    case more: (Cons y ys)
    let ?tail = "join '','' (map printed_member kvs)"
    have printed: "join '','' (map printed_member (kv # kvs)) = printed_member kv @ CHR '','' # ?tail"
      by (simp add: more)
    have len: "length (stringify v) < m" "length ?tail < m"
      using Cons.prems(3) unfolding printed unfolding n kv by (simp_all add: json_quote_def)
    have "parse_members m (?tail @ CHR ''}'' # r) = Some (kvs, r)"
      using Cons.IH [OF _ _ len(2)] Cons.prems(1) more by simp
    then show ?thesis unfolding printed unfolding n kv by (rule parse_printed_next [OF v len(1)])
  qed
qed simp

lemma concat_members:
  "\<forall>kv\<in>set kvs. plain (snd kv) \<Longrightarrow>
     concat (map (\<lambda>kv. if snd kv \<noteq> JUndef then [json_quote (fst kv) @ '':'' @ stringify (snd kv)] else []) kvs) = map printed_member kvs"
  by (induction kvs) auto

lemma join_head: "xs \<noteq> [] \<Longrightarrow> \<forall>x\<in>set xs. \<exists>c cs. f x = c # cs \<and> Q c \<Longrightarrow> \<exists>c cs. join sep (map f xs) = c # cs \<and> Q c"
  by (cases xs rule: remdups_adj.cases) auto

lemma leaf_reads_back: "reads_back JNull" "reads_back (JBool b)" "reads_back (JStr s)"
proof -
  have "parse_value n (stringify j @ r) = Some (j, r)" if "length (stringify j) < n" "j \<in> {JNull, JBool b, JStr s}" for j n r
    using that parse_quoted [of s r] by (cases n) (auto simp: skip_head literal_def json_quote_def json_space_def)
  then show "reads_back JNull" "reads_back (JBool b)" "reads_back (JStr s)" unfolding reads_back_def by blast+
qed

lemma number_reads_back: "reads_back (JNum i)"
  unfolding reads_back_def
proof (intro allI impI)
  fix n r assume n: "length (stringify (JNum i)) < n" "delimited r"
  obtain c cs where c: "show_int i = c # cs" "\<not> json_space c" "c \<notin> {CHR ''n'', CHR ''t'', CHR ''f'', CHR 0x22, CHR ''['', CHR ''{''}"
    using stringify_head [of "JNum i"] by auto
  obtain m where m: "n = Suc m" using n by (cases n) auto
  have "parse_number (c # cs @ r) = Some (i, r)" using parse_show_int [OF n(2), of i] c(1) by simp
  then show "parse_value n (stringify (JNum i) @ r) = Some (JNum i, r)"
    unfolding m stringify.simps c(1) append_Cons parse_number_value [OF c(2,3)] by simp
qed

lemma array_reads_back:
  assumes "\<forall>x\<in>set xs. plain x \<and> reads_back x"
  shows "reads_back (JArr xs)"
  unfolding reads_back_def
proof (intro allI impI)
  fix n r assume n: "length (stringify (JArr xs)) < n" "delimited r"
  obtain m where m: "n = Suc m" using n by (cases n) auto
  show "parse_value n (stringify (JArr xs) @ r) = Some (JArr xs, r)"
  proof (cases "xs = []")
    case False
    have "\<forall>x\<in>set xs. \<exists>c cs. stringify x = c # cs \<and> \<not> json_space c \<and> c \<noteq> CHR '']''"
      using assms stringify_head by blast
    then obtain c cs where c: "join '','' (map stringify xs) = c # cs" "\<not> json_space c" "c \<noteq> CHR '']''"
      using join_head [OF False, of stringify "\<lambda>c. \<not> json_space c \<and> c \<noteq> CHR '']''"] by blast
    have "parse_items m (join '','' (map stringify xs) @ CHR '']'' # r) = Some (xs, r)"
      using assms False n(1) by (intro parse_printed_items) (simp_all add: m)
    then show ?thesis using parse_array [OF c(2,3), of m "cs @ CHR '']'' # r"] by (simp only: m stringify.simps append_assoc append_Cons append_Nil c(1)) simp
  qed (simp add: m skip_head)
qed

lemma parse_braces:
  "parse_members m (s @ CHR ''}'' # r) = Some (kvs, r) \<Longrightarrow> s = CHR 0x22 # cs \<Longrightarrow> js_object kvs = kvs \<Longrightarrow>
     parse_value (Suc m) ((CHR ''{'' # s @ ''}'') @ r) = Some (JObj kvs, r)"
  by (simp add: parse_object del: parse_value.simps parse_members.simps)

lemma object_reads_back:
  assumes "\<forall>kv\<in>set kvs. plain (snd kv) \<and> reads_back (snd kv)" and "js_object kvs = kvs"
  shows "reads_back (JObj kvs)"
  unfolding reads_back_def
proof (intro allI impI)
  fix n r assume n: "length (stringify (JObj kvs)) < n" "delimited r"
  obtain m where m: "n = Suc m" using n by (cases n) auto
  have printed: "stringify (JObj kvs) = CHR ''{'' # join '','' (map printed_member kvs) @ ''}''"
    using concat_members assms(1) by simp
  show "parse_value n (stringify (JObj kvs) @ r) = Some (JObj kvs, r)"
  proof (cases "kvs = []")
    case False
    obtain cs where c: "join '','' (map printed_member kvs) = CHR 0x22 # cs"
      using join_head [OF False, of printed_member "\<lambda>c. c = CHR 0x22"] by (auto simp: json_quote_def)
    have "parse_members m (join '','' (map printed_member kvs) @ CHR ''}'' # r) = Some (kvs, r)"
      using assms(1) False n(1) unfolding printed by (intro parse_printed_members) (simp_all add: m)
    then show ?thesis unfolding printed m by (rule parse_braces [OF _ c assms(2)])
  qed (simp add: m skip_head js_object_def)
qed

lemma plain_reads_back: "plain j \<Longrightarrow> reads_back j"
proof (induction j)
  case (JArr xs)
  then show ?case by (intro array_reads_back) (simp add: list_all_iff)
next
  case (JObj kvs)
  then show ?case by (intro object_reads_back) (fastforce simp: list_all_iff snds.simps)+
qed (simp_all only: leaf_reads_back number_reads_back plain.simps)

lemma plain_text_parsed: "plain j \<Longrightarrow> parse_json (stringify j) = Some j"
proof -
  assume "plain j"
  then have "parse_value (2 * length (stringify j) + 2) (stringify j @ []) = Some (j, [])"
    by (intro reads_backD [OF plain_reads_back]) simp_all
  then show ?thesis unfolding append_Nil2 by (simp only: parse_json_def option.case prod.case) (simp add: skip_def)
qed

end
