(* ===== verification/Idempotency.thy ===== *)
theory Idempotency
  imports Db JsonText
begin

text \<open>
  Idempotency keys: the two stores of \<open>apps/api/src/redis/idempotency-store.ts\<close>, their common
  contract as a locale, and the interceptor \<open>apps/api/src/common/interceptors/idempotency.interceptor.ts\<close>
  proved against the contract alone. A Redis script runs atomically and a key lives until its time
  has passed; a stored JSON text is represented by the value it encodes, SHA-256 is an argument.
\<close>

section \<open>Records\<close>

datatype stored_value =
    InFlightValue (sv_fingerprint: string) string
  | CompletedValue (sv_fingerprint: string) nat json

datatype idem_record = IN_FLIGHT string | COMPLETED string nat json

datatype idem_claim = Claimed stored_value | Existing idem_record

fun toRecord :: "stored_value \<Rightarrow> idem_record" where
  "toRecord (InFlightValue fp lease) = IN_FLIGHT fp"
| "toRecord (CompletedValue fp status body) = COMPLETED fp status body"

definition REDIS_KEY_PREFIX :: string where "REDIS_KEY_PREFIX = ''vynor:''"

definition idempotencyRecordKey :: "(string \<Rightarrow> string) \<Rightarrow> string \<Rightarrow> string \<Rightarrow> string \<Rightarrow> string \<Rightarrow> string" where
  "idempotencyRecordKey sha256 workspaceId method path key =
     REDIS_KEY_PREFIX @ ''idem:'' @ workspaceId @ '':'' @ sha256 (method @ '' '' @ path @ '' '' @ key)"

section \<open>The Redis store\<close>

record redis_entry =
  re_value :: stored_value
  re_expires :: int

type_synonym redis_store = "string \<rightharpoonup> redis_entry"

definition redis_get :: "int \<Rightarrow> string \<Rightarrow> redis_store \<Rightarrow> stored_value option" where
  "redis_get now key s = (case s key of None \<Rightarrow> None
     | Some e \<Rightarrow> if now \<le> re_expires e then Some (re_value e) else None)"

definition redis_set :: "int \<Rightarrow> string \<Rightarrow> stored_value \<Rightarrow> nat \<Rightarrow> redis_store \<Rightarrow> redis_store" where
  "redis_set now key v ttl s = s(key \<mapsto> \<lparr>re_value = v, re_expires = now + int ttl\<rparr>)"

definition redis_claim :: "string \<Rightarrow> int \<Rightarrow> string \<Rightarrow> string \<Rightarrow> nat \<Rightarrow> redis_store \<Rightarrow> idem_claim \<times> redis_store" where
  "redis_claim uuid now key fp ttl s =
     (let lease = InFlightValue fp uuid in
      case redis_get now key s of
        Some current \<Rightarrow> (Existing (toRecord current), s)
      | None \<Rightarrow> (Claimed lease, redis_set now key lease ttl s))"

definition redis_complete ::
  "int \<Rightarrow> string \<Rightarrow> stored_value \<Rightarrow> string \<Rightarrow> nat \<Rightarrow> json \<Rightarrow> nat \<Rightarrow> redis_store \<Rightarrow> bool \<times> redis_store" where
  "redis_complete now key lease fp status body ttl s =
     (if redis_get now key s \<noteq> Some lease then (False, s)
      else (True, redis_set now key (CompletedValue fp status body) ttl s))"

definition redis_release :: "int \<Rightarrow> string \<Rightarrow> stored_value \<Rightarrow> redis_store \<Rightarrow> redis_store" where
  "redis_release now key lease s = (if redis_get now key s = Some lease then s(key := None) else s)"

section \<open>The memory store\<close>

record memory_entry =
  me_value :: stored_value
  me_lease :: "stored_value option"
  me_expiresAt :: int

type_synonym memory_store = "string \<rightharpoonup> memory_entry"

text \<open>\<open>current\<close> drops an expired entry.\<close>

definition memory_current :: "int \<Rightarrow> string \<Rightarrow> memory_store \<Rightarrow> memory_entry option \<times> memory_store" where
  "memory_current now key s = (case s key of None \<Rightarrow> (None, s)
     | Some e \<Rightarrow> if now > me_expiresAt e then (None, s(key := None)) else (Some e, s))"

definition memory_claim :: "string \<Rightarrow> int \<Rightarrow> string \<Rightarrow> string \<Rightarrow> nat \<Rightarrow> memory_store \<Rightarrow> idem_claim \<times> memory_store" where
  "memory_claim uuid now key fp ttl s =
     (case memory_current now key s of
        (Some e, s') \<Rightarrow> (Existing (toRecord (me_value e)), s')
      | (None, s') \<Rightarrow> let lease = InFlightValue fp uuid in
          (Claimed lease, s'(key \<mapsto> \<lparr>me_value = lease, me_lease = Some lease, me_expiresAt = now + int ttl\<rparr>)))"

definition memory_complete ::
  "int \<Rightarrow> string \<Rightarrow> stored_value \<Rightarrow> string \<Rightarrow> nat \<Rightarrow> json \<Rightarrow> nat \<Rightarrow> memory_store \<Rightarrow> bool \<times> memory_store" where
  "memory_complete now key lease fp status body ttl s =
     (case memory_current now key s of
        (e, s') \<Rightarrow> if (case e of None \<Rightarrow> None | Some x \<Rightarrow> me_lease x) \<noteq> Some lease then (False, s')
          else (True, s'(key \<mapsto> \<lparr>me_value = CompletedValue fp status body, me_lease = None, me_expiresAt = now + int ttl\<rparr>)))"

definition memory_release :: "int \<Rightarrow> string \<Rightarrow> stored_value \<Rightarrow> memory_store \<Rightarrow> memory_store" where
  "memory_release now key lease s =
     (case memory_current now key s of
        (e, s') \<Rightarrow> if (case e of None \<Rightarrow> None | Some x \<Rightarrow> me_lease x) = Some lease then s'(key := None) else s')"

definition memory_get :: "int \<Rightarrow> string \<Rightarrow> memory_store \<Rightarrow> stored_value option" where
  "memory_get now key s = map_option me_value (fst (memory_current now key s))"

text \<open>An entry of the memory store carries a lease exactly while it is in flight, and that lease is
  its value.\<close>

definition leased_entry :: "memory_entry \<Rightarrow> bool" where
  "leased_entry e = (me_lease e = (case me_value e of InFlightValue fp u \<Rightarrow> Some (InFlightValue fp u) | _ \<Rightarrow> None))"

definition memory_ok :: "memory_store \<Rightarrow> bool" where
  "memory_ok s = (\<forall>k e. s k = Some e \<longrightarrow> leased_entry e)"

lemma leased_entries [simp]:
  "leased_entry \<lparr>me_value = InFlightValue fp u, me_lease = Some (InFlightValue fp u), me_expiresAt = t\<rparr>"
  "leased_entry \<lparr>me_value = CompletedValue fp st b, me_lease = None, me_expiresAt = t\<rparr>"
  by (simp_all add: leased_entry_def)

lemma memory_ok_changes:
  "memory_ok s \<Longrightarrow> leased_entry e \<Longrightarrow> memory_ok (s(k \<mapsto> e))"
  "memory_ok s \<Longrightarrow> memory_ok (s(k := None))"
  by (simp_all add: memory_ok_def)

lemma memory_get_simps:
  "memory_get t k s = (case s k of None \<Rightarrow> None | Some e \<Rightarrow> if t > me_expiresAt e then None else Some (me_value e))"
  by (simp add: memory_get_def memory_current_def split: option.splits)

text \<open>The lease test of the memory store is the value test of the Redis script.\<close>

lemma memory_lease_test:
  assumes "memory_ok s"
  shows "(case fst (memory_current t k s) of None \<Rightarrow> None | Some x \<Rightarrow> me_lease x) = Some (InFlightValue f u) \<longleftrightarrow>
    memory_get t k s = Some (InFlightValue f u)"
  using assms by (cases "s k") (auto simp: memory_get_def memory_current_def memory_ok_def leased_entry_def split: stored_value.splits)

lemma memory_current_ok: "memory_ok s \<Longrightarrow> memory_ok (snd (memory_current t k s))"
  by (auto simp: memory_current_def memory_ok_changes split: option.splits)

lemma memory_current_get: "t \<le> t' \<Longrightarrow> memory_get t' k' (snd (memory_current t k s)) = memory_get t' k' s"
  by (auto simp: memory_current_def memory_get_simps split: option.splits)

section \<open>The interceptor\<close>

record 's idem_store =
  so_claim :: "string \<Rightarrow> int \<Rightarrow> string \<Rightarrow> string \<Rightarrow> nat \<Rightarrow> 's \<Rightarrow> idem_claim \<times> 's"
  so_complete :: "int \<Rightarrow> string \<Rightarrow> stored_value \<Rightarrow> string \<Rightarrow> nat \<Rightarrow> json \<Rightarrow> nat \<Rightarrow> 's \<Rightarrow> bool \<times> 's"
  so_release :: "int \<Rightarrow> string \<Rightarrow> stored_value \<Rightarrow> 's \<Rightarrow> 's"

definition redis_idem_store :: "redis_store idem_store" where
  "redis_idem_store = \<lparr>so_claim = redis_claim, so_complete = redis_complete, so_release = redis_release\<rparr>"

definition memory_idem_store :: "memory_store idem_store" where
  "memory_idem_store = \<lparr>so_claim = memory_claim, so_complete = memory_complete, so_release = memory_release\<rparr>"

definition TTL_MS :: nat where "TTL_MS = 24 * 60 * 60 * 1000"

definition IN_FLIGHT_TTL_MS :: nat where "IN_FLIGHT_TTL_MS = 60 * 1000"

record idem_request =
  iq_method :: string
  iq_key :: "string option"
  iq_workspaceId :: "string option"
  iq_path :: string
  iq_query :: json
  iq_body :: json

definition upper_char :: "char \<Rightarrow> char" where
  "upper_char c = (let n = of_char c :: nat in if 97 \<le> n \<and> n \<le> 122 then char_of (n - 32) else c)"

definition mutating :: "string \<Rightarrow> bool" where
  "mutating m = (map upper_char m \<in> {''POST'', ''PATCH'', ''DELETE''})"

definition key_char :: "char \<Rightarrow> bool" where
  "key_char c = (let n = of_char c :: nat in
     (97 \<le> n \<and> n \<le> 122) \<or> (65 \<le> n \<and> n \<le> 90) \<or> (48 \<le> n \<and> n \<le> 57) \<or> n = 95 \<or> n = 45)"

definition valid_key :: "string \<Rightarrow> bool" where
  "valid_key k = (8 \<le> length k \<and> length k \<le> 128 \<and> list_all key_char k)"

text \<open>The text that is hashed: \<open>sortKeys\<close> sorts the entries of every object, but an object built
  from them lists its integer-like keys first, in numerical order.\<close>

definition sorted_entries :: "(string \<times> json) list \<Rightarrow> (string \<times> json) list" where
  "sorted_entries kvs = sort_key (\<lambda>kv. index_value (fst kv)) (filter (\<lambda>kv. array_index (fst kv)) kvs) @
     sort_key fst (filter (\<lambda>kv. \<not> array_index (fst kv)) kvs)"

lemma set_sorted_entries [simp]: "set (sorted_entries kvs) = set kvs"
  by (auto simp: sorted_entries_def)

lemma json_size_property [termination_simp]:
  "kv \<in> set (sorted_entries kvs) \<Longrightarrow> size (snd kv) < Suc (size_list (size_prod (\<lambda>_. 0) size) kvs)"
  by (rule json_size_entry) simp

fun stable_stringify :: "json \<Rightarrow> string" where
  "stable_stringify JUndef = ''null''"
| "stable_stringify JNull = ''null''"
| "stable_stringify (JBool b) = (if b then ''true'' else ''false'')"
| "stable_stringify (JNum n) = show_int n"
| "stable_stringify (JStr s) = json_quote s"
| "stable_stringify (JArr xs) = ''['' @ join '','' (map stable_stringify xs) @ '']''"
| "stable_stringify (JObj kvs) = ''{'' @ join '',''
     (concat (map (\<lambda>kv. if snd kv \<noteq> JUndef
                   then [json_quote (fst kv) @ '':'' @ stable_stringify (snd kv)] else [])
        (sorted_entries kvs))) @ ''}''"

definition requestFingerprint :: "(string \<Rightarrow> string) \<Rightarrow> idem_request \<Rightarrow> string" where
  "requestFingerprint sha256 r = sha256 (stable_stringify (JObj
     [(''query'', if iq_query r \<in> {JUndef, JNull} then JObj [] else iq_query r),
      (''body'', if iq_body r = JUndef then JNull else iq_body r)]))"

definition record_key :: "(string \<Rightarrow> string) \<Rightarrow> idem_request \<Rightarrow> string \<Rightarrow> string" where
  "record_key sha256 r k = idempotencyRecordKey sha256
     (case iq_workspaceId r of None \<Rightarrow> ''global'' | Some w \<Rightarrow> w) (iq_method r) (iq_path r) k"

datatype idem_decision =
    RunUnprotected
  | RunWithLease string stored_value
  | Refuse nat string
  | ReplayResponse nat json

definition answerFromRecord :: "idem_record \<Rightarrow> string \<Rightarrow> idem_decision" where
  "answerFromRecord rec fp = (case rec of
     IN_FLIGHT f \<Rightarrow> if f \<noteq> fp then Refuse 422 ''IDEMPOTENCY_KEY_REUSED'' else Refuse 409 ''IDEMPOTENCY_CONFLICT''
   | COMPLETED f status body \<Rightarrow> if f \<noteq> fp then Refuse 422 ''IDEMPOTENCY_KEY_REUSED'' else ReplayResponse status body)"

text \<open>Before the handler; \<open>reachable\<close> says whether the store answers.\<close>

definition intercept_begin ::
  "'s idem_store \<Rightarrow> (string \<Rightarrow> string) \<Rightarrow> bool \<Rightarrow> string \<Rightarrow> int \<Rightarrow> idem_request \<Rightarrow> 's \<Rightarrow> idem_decision \<times> 's" where
  "intercept_begin ops sha256 reachable uuid now r s =
     (if \<not> mutating (iq_method r) then (RunUnprotected, s)
      else case iq_key r of
        None \<Rightarrow> (RunUnprotected, s)
      | Some k \<Rightarrow>
          if k = [] then (RunUnprotected, s)
          else if \<not> valid_key k then (Refuse 400 ''BAD_REQUEST'', s)
          else let key = record_key sha256 r k; fp = requestFingerprint sha256 r in
            if \<not> reachable then (Refuse 503 ''SERVICE_UNAVAILABLE'', s)
            else (case so_claim ops uuid now key fp IN_FLIGHT_TTL_MS s of
                (Claimed lease, s') \<Rightarrow> (RunWithLease key lease, s')
              | (Existing rec, s') \<Rightarrow> (answerFromRecord rec fp, s')))"

text \<open>After the handler: a response with its status is stored, an error frees the key.\<close>

definition intercept_end ::
  "'s idem_store \<Rightarrow> bool \<Rightarrow> int \<Rightarrow> string \<Rightarrow> stored_value \<Rightarrow> (err + nat \<times> json) \<Rightarrow> 's \<Rightarrow> 's" where
  "intercept_end ops reachable now key lease outcome s =
     (if \<not> reachable then s
      else case outcome of
        Inr (status, body) \<Rightarrow> snd (so_complete ops now key lease (sv_fingerprint lease)
          (if status = 0 then 200 else status) body TTL_MS s)
      | Inl e \<Rightarrow> so_release ops now key lease s)"

section \<open>The system of concurrent requests\<close>

text \<open>\<open>iy_running\<close> holds the requests whose handler runs under a lease, with the time they began;
  \<open>iy_used\<close> the random ids drawn so far.\<close>

record 's idem_system =
  iy_store :: 's
  iy_now :: int
  iy_running :: "(string \<times> stored_value \<times> int) list"
  iy_used :: "string list"

inductive idem_step :: "'s idem_store \<Rightarrow> (string \<Rightarrow> string) \<Rightarrow> 's idem_system \<Rightarrow> 's idem_system \<Rightarrow> bool"
  for ops sha256 where
  begin_run: "uuid \<notin> set (iy_used y) \<Longrightarrow>
    intercept_begin ops sha256 True uuid (iy_now y) r (iy_store y) = (RunWithLease k l, s') \<Longrightarrow>
    idem_step ops sha256 y (y\<lparr>iy_store := s', iy_running := (k, l, iy_now y) # iy_running y, iy_used := uuid # iy_used y\<rparr>)"
| begin_answered: "intercept_begin ops sha256 reachable uuid (iy_now y) r (iy_store y) = (decision, s') \<Longrightarrow>
    (\<And>k l. decision \<noteq> RunWithLease k l) \<Longrightarrow> idem_step ops sha256 y (y\<lparr>iy_store := s'\<rparr>)"
| ended: "(k, l, t0) \<in> set (iy_running y) \<Longrightarrow>
    idem_step ops sha256 y (y\<lparr>iy_store := intercept_end ops reachable (iy_now y) k l outcome (iy_store y),
      iy_running := remove1 (k, l, t0) (iy_running y)\<rparr>)"
| time_passes: "iy_now y \<le> t \<Longrightarrow> idem_step ops sha256 y (y\<lparr>iy_now := t\<rparr>)"

inductive_cases idem_stepE: "idem_step ops sha256 y z"

section \<open>The contract of a store\<close>

locale idem_contract =
  fixes get :: "int \<Rightarrow> string \<Rightarrow> 's \<Rightarrow> stored_value option"
    and ops :: "'s idem_store"
    and ok :: "'s \<Rightarrow> bool"
  assumes claim_spec: "ok s \<Longrightarrow> so_claim ops u t k fp ttl s = (c, s') \<Longrightarrow> ok s' \<and>
      (case get t k s of
         Some v \<Rightarrow> c = Existing (toRecord v) \<and> (\<forall>t' k'. t \<le> t' \<longrightarrow> get t' k' s' = get t' k' s)
       | None \<Rightarrow> c = Claimed (InFlightValue fp u) \<and> (\<forall>t' k'. t \<le> t' \<longrightarrow>
           get t' k' s' = (if k' = k then if t' \<le> t + int ttl then Some (InFlightValue fp u) else None else get t' k' s)))"
    and complete_spec: "ok s \<Longrightarrow> so_complete ops t k (InFlightValue f u) fp st b ttl s = (x, s') \<Longrightarrow> ok s' \<and>
      (if get t k s = Some (InFlightValue f u)
       then x \<and> (\<forall>t' k'. t \<le> t' \<longrightarrow>
         get t' k' s' = (if k' = k then if t' \<le> t + int ttl then Some (CompletedValue fp st b) else None else get t' k' s))
       else \<not> x \<and> (\<forall>t' k'. t \<le> t' \<longrightarrow> get t' k' s' = get t' k' s))"
    and release_spec: "ok s \<Longrightarrow> ok (so_release ops t k (InFlightValue f u) s) \<and>
      (\<forall>t' k'. t \<le> t' \<longrightarrow> get t' k' (so_release ops t k (InFlightValue f u) s) =
         (if k' = k \<and> get t k s = Some (InFlightValue f u) then None else get t' k' s))"
begin

lemma begin_lease:
  assumes "intercept_begin ops sha256 reachable u t r s = (RunWithLease k l, s')" "ok s"
  shows "get t k s = None" "l = InFlightValue (requestFingerprint sha256 r) u" "ok s'"
    "t \<le> t' \<Longrightarrow> get t' k' s' =
       (if k' = k then if t' \<le> t + int IN_FLIGHT_TTL_MS then Some l else None else get t' k' s)"
    "\<exists>key. iq_key r = Some key \<and> k = record_key sha256 r key"
proof -
  from assms(1) obtain key where key: "iq_key r = Some key" "key \<noteq> []" "valid_key key" "mutating (iq_method r)" "reachable"
    by (auto simp: intercept_begin_def Let_def split: option.splits if_splits)
  obtain c s1 where cl: "so_claim ops u t (record_key sha256 r key) (requestFingerprint sha256 r) IN_FLIGHT_TTL_MS s = (c, s1)"
    by force
  have c: "c = Claimed l" "s1 = s'" "k = record_key sha256 r key"
    using assms(1) key cl by (auto simp: intercept_begin_def Let_def answerFromRecord_def split: idem_claim.splits idem_record.splits if_splits)
  note sp = claim_spec [OF assms(2) cl]
  show "get t k s = None" using sp c by (cases "get t k s") auto
  then show "l = InFlightValue (requestFingerprint sha256 r) u" "ok s'"
    "t \<le> t' \<Longrightarrow> get t' k' s' = (if k' = k then if t' \<le> t + int IN_FLIGHT_TTL_MS then Some l else None else get t' k' s)"
    using sp c by auto
  show "\<exists>key. iq_key r = Some key \<and> k = record_key sha256 r key" using key c by blast
qed

lemma begin_answered_get:
  assumes "intercept_begin ops sha256 reachable u t r s = (decision, s')" "\<And>k l. decision \<noteq> RunWithLease k l" "ok s"
  shows "ok s'" "t \<le> t' \<Longrightarrow> get t' k' s' = get t' k' s"
proof -
  have "ok s' \<and> (\<forall>t' k'. t \<le> t' \<longrightarrow> get t' k' s' = get t' k' s)"
  proof (cases "s' = s")
    case False
    have "\<exists>key v. so_claim ops u t (record_key sha256 r key) (requestFingerprint sha256 r) IN_FLIGHT_TTL_MS s = (Existing v, s')"
      using assms(1,2) False
      by (auto simp: intercept_begin_def Let_def split: option.splits if_splits prod.splits idem_claim.splits)
    then obtain key v where cl: "so_claim ops u t (record_key sha256 r key) (requestFingerprint sha256 r) IN_FLIGHT_TTL_MS s = (Existing v, s')"
      by blast
    then show ?thesis using claim_spec [OF assms(3) cl] by (auto split: option.splits)
  qed (use assms(3) in simp)
  then show "ok s'" "t \<le> t' \<Longrightarrow> get t' k' s' = get t' k' s" by blast+
qed

text \<open>Ending a request never touches another request's record.\<close>

lemma end_get:
  assumes "ok s" "l = InFlightValue f u"
  shows "ok (intercept_end ops reachable t k l outcome s)"
    "t \<le> t' \<Longrightarrow> k' \<noteq> k \<or> get t k s \<noteq> Some l \<Longrightarrow> get t' k' (intercept_end ops reachable t k l outcome s) = get t' k' s"
proof -
  have "ok (intercept_end ops reachable t k l outcome s) \<and>
    (t \<le> t' \<longrightarrow> k' \<noteq> k \<or> get t k s \<noteq> Some l \<longrightarrow> get t' k' (intercept_end ops reachable t k l outcome s) = get t' k' s)" for t' k'
  proof (cases outcome)
    case (Inl e)
    then show ?thesis using release_spec [OF assms(1), of t k f u] assms by (auto simp: intercept_end_def)
  next
    case (Inr p)
    obtain status body where p: "p = (status, body)" by force
    obtain x s' where c: "so_complete ops t k l (sv_fingerprint l) (if status = 0 then 200 else status) body TTL_MS s = (x, s')"
      by force
    from complete_spec [OF assms(1) c [unfolded assms(2)]] show ?thesis
      using Inr p c assms by (auto simp: intercept_end_def split: if_splits)
  qed
  then show "ok (intercept_end ops reachable t k l outcome s)"
    "t \<le> t' \<Longrightarrow> k' \<noteq> k \<or> get t k s \<noteq> Some l \<Longrightarrow> get t' k' (intercept_end ops reachable t k l outcome s) = get t' k' s"
    by blast+
qed

definition idem_good :: "'s idem_system \<Rightarrow> bool" where
  "idem_good y = (ok (iy_store y) \<and> distinct (map (\<lambda>(k, l, t). l) (iy_running y)) \<and>
     (\<forall>(k, l, t0)\<in>set (iy_running y). t0 \<le> iy_now y \<and> (\<exists>fp u. l = InFlightValue fp u \<and> u \<in> set (iy_used y)) \<and>
        (\<forall>t. iy_now y \<le> t \<and> t \<le> t0 + int IN_FLIGHT_TTL_MS \<longrightarrow> get t k (iy_store y) = Some l)))"

definition idem_start :: "'s idem_system \<Rightarrow> bool" where
  "idem_start y = (ok (iy_store y) \<and> iy_running y = [])"

lemma idem_good_step:
  assumes "idem_good y" "idem_step ops sha256 y z"
  shows "idem_good z"
  using assms(2)
proof (cases rule: idem_step.cases)
  case (begin_run u r k l s1)
  have ok: "ok (iy_store y)" using assms(1) by (simp add: idem_good_def)
  note b = begin_lease [OF begin_run(3) ok]
  have fresh: "l \<notin> set (map (\<lambda>(k, l, t). l) (iy_running y))"
    using assms(1) begin_run(2) b(2) by (auto simp: idem_good_def)
  have other: "get t k' s1 = Some l'"
    if run: "(k', l', t0) \<in> set (iy_running y)" and t: "iy_now y \<le> t" "t \<le> t0 + int IN_FLIGHT_TTL_MS" for k' l' t0 t
  proof -
    have old: "get t k' (iy_store y) = Some l'" and now: "get (iy_now y) k' (iy_store y) = Some l'"
      using assms(1) run t by (auto simp: idem_good_def)
    then have "k' \<noteq> k" using b(1) by auto
    then show ?thesis using old b(4) [OF t(1), of k'] by simp
  qed
  have mine: "get t k s1 = Some l" if t: "iy_now y \<le> t" "t \<le> iy_now y + int IN_FLIGHT_TTL_MS" for t
    using b(4) [OF t(1), of k] t(2) by simp
  show ?thesis unfolding idem_good_def begin_run(1)
    using assms(1) fresh b(2,3) mine other by (force simp: idem_good_def)
next
  case (begin_answered reachable u r decision s')
  then show ?thesis using assms(1) begin_answered_get [OF begin_answered(2,3)] by (auto simp: idem_good_def)
next
  case (ended k l t0 reachable outcome)
  have ok: "ok (iy_store y)" using assms(1) by (simp add: idem_good_def)
  obtain fp u where l: "l = InFlightValue fp u" using assms(1) ended(2) by (auto simp: idem_good_def)
  note e = end_get [OF ok l]
  have "get t k' (intercept_end ops reachable (iy_now y) k l outcome (iy_store y)) = Some l'"
    if run: "(k', l', t1) \<in> set (remove1 (k, l, t0) (iy_running y))" and t: "iy_now y \<le> t" "t \<le> t1 + int IN_FLIGHT_TTL_MS" for k' l' t1 t
  proof -
    have mem: "(k', l', t1) \<in> set (iy_running y)" using run set_remove1_subset by fastforce
    have now: "get t k' (iy_store y) = Some l'" "get (iy_now y) k' (iy_store y) = Some l'"
      using assms(1) mem t by (auto simp: idem_good_def)
    have "l' \<noteq> l"
    proof
      assume same: "l' = l"
      have inj: "inj_on (\<lambda>(k, l, t). l) (set (iy_running y))" and d: "distinct (iy_running y)"
        using assms(1) by (auto simp: idem_good_def distinct_map)
      have "(k', l', t1) = (k, l, t0)" using inj_onD [OF inj, of "(k', l', t1)" "(k, l, t0)"] mem ended(2) same by simp
      then show False using run d by simp
    qed
    then have "k' \<noteq> k \<or> get (iy_now y) k (iy_store y) \<noteq> Some l" using now(2) by auto
    then show ?thesis using e(2) [OF t(1)] now(1) by metis
  qed
  moreover have "distinct (map (\<lambda>(k, l, t). l) (remove1 (k, l, t0) (iy_running y)))"
    using assms(1) by (auto simp: idem_good_def distinct_map intro: inj_on_diff)
  ultimately show ?thesis unfolding idem_good_def ended(1)
    using assms(1) e(1) set_remove1_subset [of "(k, l, t0)" "iy_running y"] by (auto simp: idem_good_def) 
next
  case (time_passes t)
  then show ?thesis using assms(1) by (fastforce simp: idem_good_def)
qed

lemma two_running:
  assumes "idem_good y" "(k, l1, t1) \<in> set (iy_running y)" "(k, l2, t2) \<in> set (iy_running y)" "l1 \<noteq> l2"
  shows "iy_now y > min t1 t2 + int IN_FLIGHT_TTL_MS"
proof (rule ccontr)
  assume "\<not> iy_now y > min t1 t2 + int IN_FLIGHT_TTL_MS"
  then have le: "iy_now y \<le> t1 + int IN_FLIGHT_TTL_MS" "iy_now y \<le> t2 + int IN_FLIGHT_TTL_MS" by auto
  then have "get (iy_now y) k (iy_store y) = Some l1" "get (iy_now y) k (iy_store y) = Some l2"
    using assms(1-3) by (auto simp: idem_good_def)
  then show False using assms(4) by simp
qed

text \<open>A completed record answers until its time has passed, whatever happens in between.\<close>

definition recorded_until :: "string \<Rightarrow> stored_value \<Rightarrow> int \<Rightarrow> 's idem_system \<Rightarrow> bool" where
  "recorded_until k v T y = (\<forall>t. iy_now y \<le> t \<and> t \<le> T \<longrightarrow> get t k (iy_store y) = Some v)"

lemma recorded_step:
  assumes "idem_good y" "recorded_until k (CompletedValue fp st b) T y" "idem_step ops sha256 y z"
  shows "recorded_until k (CompletedValue fp st b) T z"
  using assms(3)
proof (cases rule: idem_step.cases)
  case (begin_run u r k1 l s1)
  have ok: "ok (iy_store y)" using assms(1) by (simp add: idem_good_def)
  note b = begin_lease [OF begin_run(3) ok]
  have "get t k s1 = Some (CompletedValue fp st b)" if t: "iy_now y \<le> t" "t \<le> T" for t
  proof -
    have "get (iy_now y) k (iy_store y) = Some (CompletedValue fp st b)"
      "get t k (iy_store y) = Some (CompletedValue fp st b)"
      using assms(2) t by (auto simp: recorded_until_def)
    moreover then have "k \<noteq> k1" using b(1) by auto
    ultimately show ?thesis using b(4) [OF t(1), of k] by simp
  qed
  then show ?thesis by (simp add: recorded_until_def begin_run(1))
next
  case (begin_answered reachable u r decision s')
  then show ?thesis using assms(1,2) begin_answered_get [OF begin_answered(2,3)]
    by (auto simp: idem_good_def recorded_until_def)
next
  case (ended k1 l t0 reachable outcome)
  have ok: "ok (iy_store y)" using assms(1) by (simp add: idem_good_def)
  obtain f u where l: "l = InFlightValue f u" using assms(1) ended(2) by (auto simp: idem_good_def)
  have "get t k (intercept_end ops reachable (iy_now y) k1 l outcome (iy_store y)) = Some (CompletedValue fp st b)"
    if t: "iy_now y \<le> t" "t \<le> T" for t
  proof -
    have "get (iy_now y) k (iy_store y) = Some (CompletedValue fp st b)"
      and old: "get t k (iy_store y) = Some (CompletedValue fp st b)"
      using assms(2) t by (auto simp: recorded_until_def)
    then have "k \<noteq> k1 \<or> get (iy_now y) k1 (iy_store y) \<noteq> Some l" using l by auto
    then show ?thesis using end_get(2) [OF ok l t(1)] old by metis
  qed
  then show ?thesis by (simp add: recorded_until_def ended(1))
next
  case (time_passes t)
  then show ?thesis using assms(2) by (auto simp: recorded_until_def)
qed

lemma good_steps:
  assumes "(idem_step ops sha256)\<^sup>*\<^sup>* y z" "idem_good y"
  shows "idem_good z"
  using assms by (induction rule: rtranclp_induct) (auto intro: idem_good_step)

lemma recorded_steps:
  assumes "(idem_step ops sha256)\<^sup>*\<^sup>* y z" "idem_good y" "recorded_until k (CompletedValue fp st b) T y"
  shows "recorded_until k (CompletedValue fp st b) T z"
  using assms
proof (induction rule: rtranclp_induct)
  case (step z1 z2)
  then show ?case using recorded_step good_steps by blast
qed

lemma start_good: "idem_start y \<Longrightarrow> idem_good y"
  by (simp add: idem_start_def idem_good_def)

lemma exclusive:
  assumes "ok (iy_store y)" "iy_running y = []" "(idem_step ops sha256)\<^sup>*\<^sup>* y z"
    and "i < j" "j < length (iy_running z)" "iy_running z ! i = (k, l1, t1)" "iy_running z ! j = (k, l2, t2)"
  shows "l1 \<noteq> l2 \<and> iy_now z > min t1 t2 + int IN_FLIGHT_TTL_MS"
proof -
  have good: "idem_good z" using assms(1-3) start_good good_steps by (simp add: idem_start_def)
  then have "distinct (map (\<lambda>(k, l, t). l) (iy_running z))" by (simp add: idem_good_def)
  then have "map (\<lambda>(k, l, t). l) (iy_running z) ! i \<noteq> map (\<lambda>(k, l, t). l) (iy_running z) ! j"
    using assms(4,5) nth_eq_iff_index_eq by fastforce
  then have "l1 \<noteq> l2" using assms(4-7) by simp
  moreover have "(k, l1, t1) \<in> set (iy_running z)" "(k, l2, t2) \<in> set (iy_running z)"
    using assms(4-7) nth_mem [of i "iy_running z"] nth_mem [of j "iy_running z"] by auto
  ultimately show ?thesis using two_running [OF good] by blast
qed

lemma end_records:
  assumes "idem_good y" "(k, l, t0) \<in> set (iy_running y)" "iy_now y \<le> t0 + int IN_FLIGHT_TTL_MS"
  shows "recorded_until k (CompletedValue (sv_fingerprint l) (if status = 0 then 200 else status) body) (iy_now y + int TTL_MS)
    (y\<lparr>iy_store := intercept_end ops True (iy_now y) k l (Inr (status, body)) (iy_store y), iy_running := rs\<rparr>)"
proof -
  obtain f u where l: "l = InFlightValue f u" using assms(1,2) by (auto simp: idem_good_def)
  have held: "ok (iy_store y)" "get (iy_now y) k (iy_store y) = Some l"
    using assms by (auto simp: idem_good_def)
  obtain x s' where c: "so_complete ops (iy_now y) k l (sv_fingerprint l) (if status = 0 then 200 else status) body TTL_MS (iy_store y) = (x, s')"
    by force
  from complete_spec [OF held(1) c [unfolded l]] held(2) l c show ?thesis
    by (simp add: recorded_until_def intercept_end_def)
qed

lemma replayed:
  assumes "ok (iy_store z)" "recorded_until k (CompletedValue fp st b) T z" "iy_now z \<le> T"
    and "mutating (iq_method r)" "iq_key r = Some key" "valid_key key" "record_key sha256 r key = k"
    and "intercept_begin ops sha256 True u (iy_now z) r (iy_store z) = (d, s')"
  shows "d = (if fp = requestFingerprint sha256 r then ReplayResponse st b else Refuse 422 ''IDEMPOTENCY_KEY_REUSED'')"
proof -
  have "key \<noteq> []" using assms(6) by (auto simp: valid_key_def)
  obtain c s1 where cl: "so_claim ops u (iy_now z) k (requestFingerprint sha256 r) IN_FLIGHT_TTL_MS (iy_store z) = (c, s1)" by force
  have "get (iy_now z) k (iy_store z) = Some (CompletedValue fp st b)" using assms(2,3) by (simp add: recorded_until_def)
  then have "c = Existing (COMPLETED fp st b)" using claim_spec [OF assms(1) cl] by simp
  then show ?thesis using assms(4-8) cl \<open>key \<noteq> []\<close>
    by (auto simp: intercept_begin_def answerFromRecord_def)
qed

end

section \<open>Both stores keep the contract\<close>

interpretation redis_contract: idem_contract redis_get redis_idem_store "\<lambda>_. True"
proof
  fix s :: redis_store and u t k fp ttl c s'
  assume "so_claim redis_idem_store u t k fp ttl s = (c, s')"
  then show "True \<and> (case redis_get t k s of
      Some v \<Rightarrow> c = Existing (toRecord v) \<and> (\<forall>t' k'. t \<le> t' \<longrightarrow> redis_get t' k' s' = redis_get t' k' s)
    | None \<Rightarrow> c = Claimed (InFlightValue fp u) \<and> (\<forall>t' k'. t \<le> t' \<longrightarrow>
        redis_get t' k' s' = (if k' = k then if t' \<le> t + int ttl then Some (InFlightValue fp u) else None else redis_get t' k' s)))"
    by (auto simp: redis_idem_store_def redis_claim_def redis_set_def Let_def split: option.splits)
      (auto simp: redis_get_def split: option.splits if_splits)
qed (auto simp: redis_idem_store_def redis_complete_def redis_release_def redis_set_def redis_get_def split: option.splits if_splits)

interpretation memory_contract: idem_contract memory_get memory_idem_store memory_ok
proof
  fix s :: memory_store and u t k fp ttl c s'
  assume ok: "memory_ok s" and c: "so_claim memory_idem_store u t k fp ttl s = (c, s')"
  obtain e s1 where cur: "memory_current t k s = (e, s1)" by force
  have s1: "memory_ok s1" "\<And>t' k'. t \<le> t' \<Longrightarrow> memory_get t' k' s1 = memory_get t' k' s" "memory_get t k s = map_option me_value e"
    using memory_current_ok [OF ok, of t k] memory_current_get [of t _ _ k s] cur by (auto simp: memory_get_def)
  then show "memory_ok s' \<and> (case memory_get t k s of
      Some v \<Rightarrow> c = Existing (toRecord v) \<and> (\<forall>t' k'. t \<le> t' \<longrightarrow> memory_get t' k' s' = memory_get t' k' s)
    | None \<Rightarrow> c = Claimed (InFlightValue fp u) \<and> (\<forall>t' k'. t \<le> t' \<longrightarrow>
        memory_get t' k' s' = (if k' = k then if t' \<le> t + int ttl then Some (InFlightValue fp u) else None else memory_get t' k' s)))"
    using c cur by (cases e) (auto simp: memory_idem_store_def memory_claim_def Let_def memory_ok_changes memory_get_simps)
next
  fix s :: memory_store and t k f u fp st b ttl x s'
  assume ok: "memory_ok s" and c: "so_complete memory_idem_store t k (InFlightValue f u) fp st b ttl s = (x, s')"
  obtain e s1 where cur: "memory_current t k s = (e, s1)" by force
  have s1: "memory_ok s1" "\<And>t' k'. t \<le> t' \<Longrightarrow> memory_get t' k' s1 = memory_get t' k' s"
    "(case e of None \<Rightarrow> None | Some x \<Rightarrow> me_lease x) = Some (InFlightValue f u) \<longleftrightarrow> memory_get t k s = Some (InFlightValue f u)"
    using memory_current_ok [OF ok, of t k] memory_current_get [of t _ _ k s] memory_lease_test [OF ok, of t k f u] cur by auto
  then show "memory_ok s' \<and> (if memory_get t k s = Some (InFlightValue f u)
       then x \<and> (\<forall>t' k'. t \<le> t' \<longrightarrow>
         memory_get t' k' s' = (if k' = k then if t' \<le> t + int ttl then Some (CompletedValue fp st b) else None else memory_get t' k' s))
       else \<not> x \<and> (\<forall>t' k'. t \<le> t' \<longrightarrow> memory_get t' k' s' = memory_get t' k' s))"
    using c cur by (cases "memory_get t k s = Some (InFlightValue f u)")
      (auto simp: memory_idem_store_def memory_complete_def memory_ok_changes memory_get_simps)
next
  fix s :: memory_store and t k f u
  assume ok: "memory_ok s"
  obtain e s1 where cur: "memory_current t k s = (e, s1)" by force
  have s1: "memory_ok s1" "\<And>t' k'. t \<le> t' \<Longrightarrow> memory_get t' k' s1 = memory_get t' k' s"
    "(case e of None \<Rightarrow> None | Some x \<Rightarrow> me_lease x) = Some (InFlightValue f u) \<longleftrightarrow> memory_get t k s = Some (InFlightValue f u)"
    using memory_current_ok [OF ok, of t k] memory_current_get [of t _ _ k s] memory_lease_test [OF ok, of t k f u] cur by auto
  then show "memory_ok (so_release memory_idem_store t k (InFlightValue f u) s) \<and>
      (\<forall>t' k'. t \<le> t' \<longrightarrow> memory_get t' k' (so_release memory_idem_store t k (InFlightValue f u) s) =
         (if k' = k \<and> memory_get t k s = Some (InFlightValue f u) then None else memory_get t' k' s))"
    using cur by (cases "memory_get t k s = Some (InFlightValue f u)")
      (auto simp: memory_idem_store_def memory_release_def memory_ok_changes memory_get_simps)
qed

section \<open>The properties\<close>

text \<open>C8: From a Redis store in any state and no request in progress, two requests with the same
  idempotency key run at the same time only when one of them began more than 60 s ago; their leases
  differ, so the older one can no longer complete or release the younger one's record.\<close>

theorem idempotency_exclusive:
  assumes "iy_running y = []" "(idem_step redis_idem_store sha256)\<^sup>*\<^sup>* y z"
    and "i < j" "j < length (iy_running z)" "iy_running z ! i = (k, l1, t1)" "iy_running z ! j = (k, l2, t2)"
  shows "l1 \<noteq> l2 \<and> iy_now z > min t1 t2 + 60000"
  using redis_contract.exclusive [OF TrueI assms] by (simp add: IN_FLIGHT_TTL_MS_def)


definition same_records :: "int \<Rightarrow> memory_store \<Rightarrow> redis_store \<Rightarrow> bool" where
  "same_records now m s = (memory_ok m \<and> (\<forall>t k. now \<le> t \<longrightarrow> memory_get t k m = redis_get t k s))"

lemma claims_match:
  assumes "same_records now m s"
  shows "fst (memory_claim u now k fp ttl m) = fst (redis_claim u now k fp ttl s) \<and>
    same_records now (snd (memory_claim u now k fp ttl m)) (snd (redis_claim u now k fp ttl s))"
proof -
  obtain c m' where m: "memory_claim u now k fp ttl m = (c, m')" by force
  obtain c' s' where s: "redis_claim u now k fp ttl s = (c', s')" by force
  have "memory_ok m" "memory_get now k m = redis_get now k s" using assms by (auto simp: same_records_def)
  then show ?thesis
    using memory_contract.claim_spec [of m u now k fp ttl c m'] redis_contract.claim_spec [where s=s and u=u and t=now and k=k and fp=fp and ttl=ttl and c=c' and s'=s'] m s assms
    by (cases "redis_get now k s") (auto simp: memory_idem_store_def redis_idem_store_def same_records_def)
qed

lemma completions_match:
  assumes "same_records now m s"
  shows "same_records now (snd (memory_complete now k (InFlightValue f v) fp st b ttl m))
    (snd (redis_complete now k (InFlightValue f v) fp st b ttl s))"
proof -
  obtain x m' where m: "memory_complete now k (InFlightValue f v) fp st b ttl m = (x, m')" by force
  obtain x' s' where s: "redis_complete now k (InFlightValue f v) fp st b ttl s = (x', s')" by force
  have "memory_ok m" "memory_get now k m = redis_get now k s" using assms by (auto simp: same_records_def)
  then show ?thesis
    using memory_contract.complete_spec [of m now k f v fp st b ttl x m'] redis_contract.complete_spec [where s=s and t=now and k=k and f=f and u=v and fp=fp and st=st and b=b and ttl=ttl and x=x' and s'=s']
      m s assms
    by (auto simp: memory_idem_store_def redis_idem_store_def same_records_def split: if_splits)
qed

lemma releases_match:
  assumes "same_records now m s"
  shows "same_records now (memory_release now k (InFlightValue f v) m) (redis_release now k (InFlightValue f v) s)"
proof -
  have "memory_ok m" "memory_get now k m = redis_get now k s" using assms by (auto simp: same_records_def)
  then show ?thesis
    using memory_contract.release_spec [of m now k f v] redis_contract.release_spec [where s=s and t=now and k=k and f=f and u=v] assms
    by (auto simp: memory_idem_store_def redis_idem_store_def same_records_def)
qed

lemma begins_match:
  assumes "same_records now m s"
  shows "fst (intercept_begin memory_idem_store sha256 reachable u now r m) =
      fst (intercept_begin redis_idem_store sha256 reachable u now r s) \<and>
    same_records now (snd (intercept_begin memory_idem_store sha256 reachable u now r m))
      (snd (intercept_begin redis_idem_store sha256 reachable u now r s))"
proof (cases "iq_key r")
  case (Some key)
  let ?k = "record_key sha256 r key" and ?fp = "requestFingerprint sha256 r"
  obtain c m' where m: "memory_claim u now ?k ?fp IN_FLIGHT_TTL_MS m = (c, m')" by force
  obtain c' s' where s: "redis_claim u now ?k ?fp IN_FLIGHT_TTL_MS s = (c', s')" by force
  have "c = c'" "same_records now m' s'" using claims_match [OF assms, of u ?k ?fp IN_FLIGHT_TTL_MS] m s by auto
  then show ?thesis using assms Some m s
    by (cases c) (auto simp: intercept_begin_def memory_idem_store_def redis_idem_store_def Let_def)
qed (use assms in \<open>simp add: intercept_begin_def\<close>)

lemma ends_match:
  assumes "same_records now m s"
  shows "same_records now (intercept_end memory_idem_store reachable now k (InFlightValue f v) outcome m)
    (intercept_end redis_idem_store reachable now k (InFlightValue f v) outcome s)"
  using assms completions_match [OF assms] releases_match [OF assms]
  by (auto simp: intercept_end_def memory_idem_store_def redis_idem_store_def split: sum.splits)

text \<open>C32: The memory store is a faithful stand-in for Redis: from stores that show the same records
  from now on, a request gets the same decision from both, and after it, and after the end of any
  request, they still show the same records.\<close>

theorem memory_matches_redis:
  assumes "memory_ok m" "\<And>t' k'. now \<le> t' \<Longrightarrow> memory_get t' k' m = redis_get t' k' s"
    and "intercept_begin memory_idem_store sha256 reachable u now r m = (d, m')"
    and "intercept_begin redis_idem_store sha256 reachable u now r s = (d', s')"
  shows "d = d' \<and> same_records now m' s' \<and>
    same_records now (intercept_end memory_idem_store reachable now k (InFlightValue fp v) outcome m)
      (intercept_end redis_idem_store reachable now k (InFlightValue fp v) outcome s)"
proof -
  have same: "same_records now m s" using assms(1,2) by (simp add: same_records_def)
  show ?thesis using begins_match [OF same, of sha256 reachable u r] ends_match [OF same] assms(3,4) by auto
qed

section \<open>Concrete runs\<close>

definition plain_hash :: "string \<Rightarrow> string" where "plain_hash s = s"

definition post_message :: idem_request where
  "post_message = \<lparr>iq_method = ''post'', iq_key = Some ''retry-0001'', iq_workspaceId = Some ''w1'', iq_path = ''/messages'',
    iq_query = JUndef, iq_body = JObj [(''text'', JStr ''hi'')]\<rparr>"

definition idle_system :: "redis_store idem_system" where
  "idle_system = \<lparr>iy_store = (\<lambda>_. None), iy_now = 0, iy_running = [], iy_used = []\<rparr>"

definition post_key :: string where "post_key = record_key plain_hash post_message ''retry-0001''"

definition post_lease :: "string \<Rightarrow> stored_value" where
  "post_lease u = InFlightValue (requestFingerprint plain_hash post_message) u"

definition posting :: "redis_store idem_system" where
  "posting = \<lparr>iy_store = redis_set 0 post_key (post_lease ''u1'') IN_FLIGHT_TTL_MS (\<lambda>_. None), iy_now = 0,
    iy_running = [(post_key, post_lease ''u1'', 0)], iy_used = [''u1'']\<rparr>"

lemma post_admitted: "mutating (iq_method post_message)" "valid_key ''retry-0001''" "iq_key post_message = Some ''retry-0001''"
  by code_simp+

lemma posting_begun: "idem_step redis_idem_store plain_hash idle_system posting"
proof -
  have "intercept_begin redis_idem_store plain_hash True ''u1'' (iy_now idle_system) post_message (iy_store idle_system) =
      (RunWithLease post_key (post_lease ''u1''), redis_set 0 post_key (post_lease ''u1'') IN_FLIGHT_TTL_MS (\<lambda>_. None))"
    using post_admitted by (simp add: intercept_begin_def redis_idem_store_def redis_claim_def redis_get_def idle_system_def
      post_key_def post_lease_def Let_def valid_key_def)
  from idem_step.begin_run [OF _ this] show ?thesis by (simp add: idle_system_def posting_def)
qed

text \<open>A second request of the key begins after the first one's minute is over.\<close>

definition posting_twice :: "redis_store idem_system" where
  "posting_twice = \<lparr>iy_store = redis_set 60001 post_key (post_lease ''u2'') IN_FLIGHT_TTL_MS (iy_store posting), iy_now = 60001,
    iy_running = [(post_key, post_lease ''u2'', 60001), (post_key, post_lease ''u1'', 0)], iy_used = [''u2'', ''u1'']\<rparr>"

lemma posting_twice_begun: "(idem_step redis_idem_store plain_hash)\<^sup>*\<^sup>* idle_system posting_twice"
proof -
  let ?later = "posting\<lparr>iy_now := 60001\<rparr>"
  have 1: "idem_step redis_idem_store plain_hash posting ?later" by (rule idem_step.time_passes) (simp add: posting_def)
  have "intercept_begin redis_idem_store plain_hash True ''u2'' (iy_now ?later) post_message (iy_store ?later) =
      (RunWithLease post_key (post_lease ''u2''), redis_set 60001 post_key (post_lease ''u2'') IN_FLIGHT_TTL_MS (iy_store posting))"
    using post_admitted by (simp add: intercept_begin_def redis_idem_store_def redis_claim_def redis_get_def redis_set_def posting_def
      post_key_def post_lease_def Let_def valid_key_def IN_FLIGHT_TTL_MS_def)
  from idem_step.begin_run [OF _ this] have "idem_step redis_idem_store plain_hash ?later posting_twice"
    by (simp add: posting_def posting_twice_def)
  then show ?thesis using posting_begun 1 by (meson rtranclp.rtrancl_into_rtrancl rtranclp.rtrancl_refl)
qed

theorem idempotency_exclusive_witness:
  "post_lease ''u2'' \<noteq> post_lease ''u1'' \<and> iy_now posting_twice > min 60001 0 + 60000"
  by (rule idempotency_exclusive [OF _ posting_twice_begun, of 0 1 post_key])
    (simp_all add: idle_system_def posting_twice_def)


theorem memory_matches_redis_witness:
  "same_records 0 (intercept_end memory_idem_store True 0 post_key (InFlightValue ''f'' ''u'') (Inr (200, JNull)) Map.empty)
    (intercept_end redis_idem_store True 0 post_key (InFlightValue ''f'' ''u'') (Inr (200, JNull)) Map.empty)"
  using memory_matches_redis [of Map.empty 0 Map.empty, OF _ _ prod.collapse [symmetric] prod.collapse [symmetric]]
  by (simp add: memory_ok_def memory_get_simps redis_get_def)

end
