(* ===== verification/Conversations.thy ===== *)
theory Conversations
  imports Outbound Iam "HOL-Library.Product_Lexorder"
begin

text \<open>
  The conversations service of the API, \<open>apps/api/src/conversations/conversations.service.ts\<close> with
  its presenter: reading, assigning and closing conversations, the paged message list, sending and
  retrying replies. Every operation first reads and then writes in one transaction; what other
  sessions do between the two is the argument \<open>cs_race\<close>. Cursors are represented by the values
  they encode, dates by milliseconds.
\<close>

section \<open>Presenting\<close>

fun replyWindowHours :: "channel_provider \<Rightarrow> nat option" where
  "replyWindowHours WHATSAPP_CLOUD = Some 24"
| "replyWindowHours META_MESSENGER = Some 24"
| "replyWindowHours META_INSTAGRAM = Some 24"
| "replyWindowHours _ = None"

fun hasMediaDownload :: "channel_provider \<Rightarrow> bool" where
  "hasMediaDownload WHATSAPP_CLOUD = True"
| "hasMediaDownload META_MESSENGER = True"
| "hasMediaDownload META_INSTAGRAM = True"
| "hasMediaDownload TELEGRAM_BOT = True"
| "hasMediaDownload LINE_MESSAGING = True"
| "hasMediaDownload _ = False"

definition contactHandle :: "contact \<Rightarrow> contact_identity \<Rightarrow> string" where
  "contactHandle c i = (case ci_channelType i of
     CWHATSAPP \<Rightarrow> (case ct_phone c of Some p \<Rightarrow> p | None \<Rightarrow> ''+'' @ ci_externalId i)
   | CTELEGRAM \<Rightarrow> (case present (ci_username i) of Some u \<Rightarrow> ''@'' @ u | None \<Rightarrow> ci_externalId i)
   | CINSTAGRAM \<Rightarrow> (case present (ci_username i) of Some u \<Rightarrow> ''@'' @ u | None \<Rightarrow> ci_externalId i)
   | CEMAIL \<Rightarrow> ci_externalId i
   | CWEBCHAT \<Rightarrow> (case ct_email c of Some e \<Rightarrow> e | None \<Rightarrow> ''Website visitor'')
   | _ \<Rightarrow> (case ct_email c of Some e \<Rightarrow> e | None \<Rightarrow> (case ct_phone c of Some p \<Rightarrow> p | None \<Rightarrow> ci_externalId i)))"

record summary =
  sm_id :: id
  sm_channelId :: id
  sm_provider :: channel_provider
  sm_channelName :: string
  sm_contactId :: id
  sm_contactName :: string
  sm_handle :: string
  sm_status :: conversation_status
  sm_assignee :: "(id \<times> string) option"
  sm_subject :: "string option"
  sm_unreadCount :: nat
  sm_lastMessageAt :: "int option"
  sm_lastMessagePreview :: "string option"
  sm_lastMessageDirection :: "direction option"
  sm_lastInboundAt :: "int option"
  sm_replyWindowExpiresAt :: "int option"
  sm_hasDeliveryFailure :: bool
  sm_createdAt :: int

definition presentConversation ::
  "conversation \<Rightarrow> provider_account \<Rightarrow> contact \<Rightarrow> contact_identity \<Rightarrow> membership option \<Rightarrow> nat option \<Rightarrow> bool \<Rightarrow> summary" where
  "presentConversation cv pa c i assignee windowHours failed =
     \<lparr>sm_id = cv_id cv, sm_channelId = pa_id pa, sm_provider = pa_provider pa, sm_channelName = pa_name pa,
      sm_contactId = ct_id c, sm_contactName = ct_displayName c, sm_handle = contactHandle c i, sm_status = cv_status cv,
      sm_assignee = map_option (\<lambda>m. (mb_id m, mb_displayName m)) assignee, sm_subject = cv_subject cv,
      sm_unreadCount = cv_unreadCount cv, sm_lastMessageAt = cv_lastMessageAt cv,
      sm_lastMessagePreview = cv_lastMessagePreview cv, sm_lastMessageDirection = cv_lastMessageDirection cv,
      sm_lastInboundAt = cv_lastInboundAt cv,
      sm_replyWindowExpiresAt = (case (windowHours, cv_lastInboundAt cv) of
         (Some h, Some t) \<Rightarrow> if h = 0 then None else Some (t + int h * 3600000) | _ \<Rightarrow> None),
      sm_hasDeliveryFailure = failed, sm_createdAt = cv_createdAt cv\<rparr>"

text \<open>The latest outbound message that is not a note failed.\<close>

definition lastOutboundFailed :: "id \<Rightarrow> db \<Rightarrow> bool" where
  "lastOutboundFailed conv d =
     (case rev (sort_key ms_createdAt (filter (\<lambda>m. ms_conversationId m = conv \<and> ms_direction m = Outbound \<and> \<not> ms_isPrivate m)
        (db_messages d))) of [] \<Rightarrow> False | m # _ \<Rightarrow> ms_status m = DFailed)"

text \<open>The relations of a conversation are required by the schema, so a row always finds them.\<close>

definition presentOne :: "conversation \<Rightarrow> db \<Rightarrow> summary option" where
  "presentOne cv d =
     (case (find_account (cv_providerAccountId cv) d, find_contact (cv_contactId cv) d,
            List.find (\<lambda>i. ci_id i = cv_contactIdentityId cv) (db_identities d)) of
        (Some pa, Some c, Some i) \<Rightarrow> Some (presentConversation cv pa c i
           (case cv_assignee cv of None \<Rightarrow> None | Some a \<Rightarrow> List.find (\<lambda>m. mb_id m = a) (db_members d))
           (replyWindowHours (pa_provider pa)) (lastOutboundFailed (cv_id cv) d))
      | _ \<Rightarrow> None)"

record media_view =
  mv_kind :: string
  mv_mimeType :: string
  mv_filename :: "string option"
  mv_caption :: "string option"
  mv_sizeBytes :: "int option"
  mv_url :: "string option"

record message_view =
  vw_id :: id
  vw_conversationId :: id
  vw_direction :: direction
  vw_senderType :: sender_type
  vw_senderName :: "string option"
  vw_senderMembershipId :: "id option"
  vw_isPrivate :: bool
  vw_contentType :: string
  vw_text :: "string option"
  vw_content :: json
  vw_media :: "media_view option"
  vw_status :: delivery_status
  vw_error :: "(string \<times> string) option"
  vw_replyToMessageId :: "id option"
  vw_createdAt :: int
  vw_sentAt :: "int option"
  vw_deliveredAt :: "int option"
  vw_readAt :: "int option"

definition string_field :: "json \<Rightarrow> string \<Rightarrow> string option" where
  "string_field j k = (case jget j k of JStr s \<Rightarrow> Some s | _ \<Rightarrow> None)"

definition number_field :: "json \<Rightarrow> string \<Rightarrow> int option" where
  "number_field j k = (case jget j k of JNum n \<Rightarrow> Some n | _ \<Rightarrow> None)"

definition media_of :: "(message \<Rightarrow> string option) \<Rightarrow> message \<Rightarrow> media_view option" where
  "media_of mediaUrl m = (let c = ms_content m in
     case string_field c ''mediaType'' of
       Some k \<Rightarrow> if jget c ''type'' = JStr ''MEDIA'' \<and> k \<in> set MEDIA_KINDS
         then Some \<lparr>mv_kind = k,
           mv_mimeType = (case string_field c ''mimeType'' of Some t \<Rightarrow> t | None \<Rightarrow> ''application/octet-stream''),
           mv_filename = string_field c ''filename'', mv_caption = string_field c ''caption'',
           mv_sizeBytes = number_field c ''sizeBytes'', mv_url = mediaUrl m\<rparr>
         else None
     | None \<Rightarrow> None)"

definition error_of :: "message \<Rightarrow> (string \<times> string) option" where
  "error_of m = (if present (ms_errorCode m) = None \<and> present (ms_errorMessage m) = None then None
     else Some (case ms_errorCode m of None \<Rightarrow> ''ERROR'' | Some c \<Rightarrow> c,
                case ms_errorMessage m of None \<Rightarrow> ''Delivery failed.'' | Some t \<Rightarrow> t))"

definition presentMessage :: "(message \<Rightarrow> string option) \<Rightarrow> message \<Rightarrow> message_view" where
  "presentMessage mediaUrl m =
     \<lparr>vw_id = ms_id m, vw_conversationId = ms_conversationId m, vw_direction = ms_direction m,
      vw_senderType = ms_senderType m, vw_senderName = ms_senderName m, vw_senderMembershipId = ms_senderMembershipId m,
      vw_isPrivate = ms_isPrivate m, vw_contentType = ms_contentType m, vw_text = ms_text m,
      vw_content = (case ms_content m of JObj _ \<Rightarrow> ms_content m | JArr _ \<Rightarrow> ms_content m | _ \<Rightarrow> JObj []),
      vw_media = media_of mediaUrl m, vw_status = ms_status m, vw_error = error_of m,
      vw_replyToMessageId = ms_replyToMessageId m, vw_createdAt = ms_createdAt m, vw_sentAt = ms_sentAt m,
      vw_deliveredAt = ms_deliveredAt m, vw_readAt = ms_readAt m\<rparr>"

text \<open>\<open>sign\<close> stands for the signed link of \<open>media-url.service.ts\<close>.\<close>

definition mediaUrlFor :: "(id \<Rightarrow> string option) \<Rightarrow> bool \<Rightarrow> message \<Rightarrow> string option" where
  "mediaUrlFor sign canDownload m =
     (if jget (ms_content m) ''type'' \<noteq> JStr ''MEDIA'' \<or> \<not> canDownload then None
      else if string_field (ms_content m) ''providerMediaId'' = None \<and> string_field (ms_content m) ''url'' = None then None
      else sign (ms_id m))"

section \<open>Conversations\<close>

record conv_env =
  cs_now :: int
  cs_ids :: "nat \<Rightarrow> id"
  cs_race :: "db \<Rightarrow> db"
  cs_fault :: "err option"
  cs_tx :: tx_env

definition findConversation :: "actor \<Rightarrow> id \<Rightarrow> db \<Rightarrow> err + conversation" where
  "findConversation a i d =
     (case List.find (\<lambda>c. cv_id c = i \<and> cv_workspaceId c = ac_workspaceId a) (db_conversations d) of
        None \<Rightarrow> Inl (ApiFailure 404 ''CONVERSATION_NOT_FOUND'' ''This conversation does not exist.'')
      | Some c \<Rightarrow> Inr c)"

definition get_conversation :: "actor \<Rightarrow> id \<Rightarrow> db \<Rightarrow> err + summary option" where
  "get_conversation a i d = (case findConversation a i d of Inl e \<Rightarrow> Inl e | Inr c \<Rightarrow> Inr (presentOne c d))"

record update_request =
  ur_status :: "conversation_status option"
  ur_assignee :: "id option option"

record conv_change =
  cc_assignee :: "id option option"
  cc_status :: "conversation_status option"
  cc_events :: "string list"

definition assignee_change :: "actor \<Rightarrow> update_request \<Rightarrow> conversation \<Rightarrow> db \<Rightarrow> err + (id option option \<times> string list)" where
  "assignee_change a r c d =
     (case ur_assignee r of
        None \<Rightarrow> Inr (None, [])
      | Some new \<Rightarrow>
          if new = cv_assignee c then Inr (None, [])
          else if \<not> hasPermission (ac_permissions a) ''conversation:assign''
          then Inl (ApiFailure 403 ''PERMISSION_DENIED'' ''You cannot assign conversations.'')
          else (case present new of
             None \<Rightarrow> Inr (Some new, [''Unassigned by '' @ ac_displayName a])
           | Some i \<Rightarrow>
               (case List.find (\<lambda>m. mb_id m = i \<and> mb_workspaceId m = ac_workspaceId a \<and> mb_status m = MActive \<and> mb_deletedAt m = None)
                       (db_members d) of
                  None \<Rightarrow> Inl (ApiFailure 422 ''INVALID_ASSIGNEE'' ''That person is not an active member of this workspace.'')
                | Some m \<Rightarrow> Inr (Some new,
                    [if mb_id m = ac_membershipId a then ac_displayName a @ '' took this conversation''
                     else ''Assigned to '' @ mb_displayName m @ '' by '' @ ac_displayName a]))))"

definition status_change :: "actor \<Rightarrow> update_request \<Rightarrow> conversation \<Rightarrow> err + (conversation_status option \<times> string list)" where
  "status_change a r c =
     (case ur_status r of
        None \<Rightarrow> Inr (None, [])
      | Some st \<Rightarrow>
          if st = cv_status c then Inr (None, [])
          else if st = VResolved \<and> \<not> hasPermission (ac_permissions a) ''conversation:close''
          then Inl (ApiFailure 403 ''PERMISSION_DENIED'' ''You cannot resolve conversations.'')
          else Inr (Some st, [(case st of VResolved \<Rightarrow> ''Resolved by '' | VPending \<Rightarrow> ''Marked as pending by '' | VOpen \<Rightarrow> ''Reopened by '')
                 @ ac_displayName a]))"

definition plan_update :: "actor \<Rightarrow> update_request \<Rightarrow> conversation \<Rightarrow> db \<Rightarrow> err + conv_change" where
  "plan_update a r c d =
     (case assignee_change a r c d of
        Inl e \<Rightarrow> Inl e
      | Inr (asg, ev1) \<Rightarrow>
          (case status_change a r c of
             Inl e \<Rightarrow> Inl e
           | Inr (st, ev2) \<Rightarrow> Inr \<lparr>cc_assignee = asg, cc_status = st, cc_events = ev1 @ ev2\<rparr>))"

definition apply_change :: "int \<Rightarrow> conv_change \<Rightarrow> conversation \<Rightarrow> conversation" where
  "apply_change now ch c = c\<lparr>
     cv_assignee := (case cc_assignee ch of None \<Rightarrow> cv_assignee c | Some x \<Rightarrow> x),
     cv_status := (case cc_status ch of None \<Rightarrow> cv_status c | Some s \<Rightarrow> s),
     cv_resolvedAt := (case cc_status ch of None \<Rightarrow> cv_resolvedAt c | Some s \<Rightarrow> if s = VResolved then Some now else None)\<rparr>"

definition timeline_note :: "id \<Rightarrow> int \<Rightarrow> conversation \<Rightarrow> string \<Rightarrow> message" where
  "timeline_note i now c txt =
     \<lparr>ms_id = i, ms_workspaceId = cv_workspaceId c, ms_conversationId = cv_id c,
      ms_providerAccountId = cv_providerAccountId c, ms_direction = Outbound, ms_senderType = SSystem,
      ms_senderMembershipId = None, ms_senderName = Some ''VYNOR'', ms_isPrivate = True, ms_contentType = ''TEXT'',
      ms_content = JObj [(''type'', JStr ''TEXT''), (''text'', JStr txt)], ms_text = Some txt,
      ms_providerMessageId = None, ms_replyToMessageId = None, ms_status = DSent, ms_errorCode = None,
      ms_errorMessage = None, ms_providerEventId = None, ms_sentAt = None, ms_deliveredAt = None, ms_readAt = None,
      ms_failedAt = None, ms_createdAt = now, ms_updatedAt = now\<rparr>"

fun status_name :: "conversation_status \<Rightarrow> string" where
  "status_name VOpen = ''OPEN''"
| "status_name VPending = ''PENDING''"
| "status_name VResolved = ''RESOLVED''"

definition conv_state :: "conversation_status \<Rightarrow> id option \<Rightarrow> json" where
  "conv_state st asg = JObj [(''status'', JStr (status_name st)),
     (''assigneeMembershipId'', case asg of None \<Rightarrow> JNull | Some i \<Rightarrow> JStr i)]"

definition recordForActor :: "id \<Rightarrow> actor \<Rightarrow> string \<Rightarrow> string \<Rightarrow> id \<Rightarrow> string \<Rightarrow> json \<Rightarrow> json \<Rightarrow> unit tx" where
  "recordForActor i a action ty rid corr before after = create_audit
     \<lparr>au_id = i, au_workspaceId = ac_workspaceId a, au_actorId = ac_userId a, au_actorType = ''USER'', au_action = action,
      au_resourceType = ty, au_resourceId = rid, au_correlationId = corr, au_beforeState = Some before,
      au_afterState = Some after, au_metadata = None\<rparr>"

definition update_tx :: "conv_env \<Rightarrow> actor \<Rightarrow> string \<Rightarrow> conversation \<Rightarrow> conv_change \<Rightarrow> unit tx" where
  "update_tx env a corr c ch =
     thenT (update_conversation (cv_id c) (apply_change (cs_now env) ch))
    (bindT (eachT (\<lambda>(k, txt). create_message (timeline_note (cs_ids env (Suc k)) (cs_now env) c txt))
       (enumerate 0 (cc_events ch))) (\<lambda>_.
     thenT (recordForActor (cs_ids env 0) a ''conversation.updated'' ''conversation'' (cv_id c) corr
       (conv_state (cv_status c) (cv_assignee c))
       (conv_state (case cc_status ch of None \<Rightarrow> cv_status c | Some s \<Rightarrow> s)
          (case cc_assignee ch of Some (Some x) \<Rightarrow> Some x | _ \<Rightarrow> cv_assignee c)))
     (notifyRealtime (notice ''conversation.updated'' (cv_workspaceId c) (Some (cv_id c)) None None))))"

definition update :: "conv_env \<Rightarrow> actor \<Rightarrow> id \<Rightarrow> update_request \<Rightarrow> string \<Rightarrow> db \<Rightarrow> (err + summary option) \<times> db" where
  "update env a i r corr d =
     (case findConversation a i d of
        Inl e \<Rightarrow> (Inl e, d)
      | Inr c \<Rightarrow>
          (case plan_update a r c d of
             Inl e \<Rightarrow> (Inl e, d)
           | Inr ch \<Rightarrow>
               if cc_events ch = [] then (get_conversation a i d, d)
               else (case run_attempt (cs_fault env) (update_tx env a corr c ch) (cs_race env d) of
                  (Inl e, d') \<Rightarrow> (Inl e, d')
                | (Inr _, d') \<Rightarrow> (get_conversation a i d', d'))))"

definition markRead :: "conv_env \<Rightarrow> actor \<Rightarrow> id \<Rightarrow> db \<Rightarrow> (err + unit) \<times> db" where
  "markRead env a i d =
     (case findConversation a i d of
        Inl e \<Rightarrow> (Inl e, d)
      | Inr c \<Rightarrow>
          if cv_unreadCount c = 0 then (Inr (), d)
          else run_attempt (cs_fault env) (thenT (update_conversation i (\<lambda>c. c\<lparr>cv_unreadCount := 0\<rparr>))
            (notifyRealtime (notice ''conversation.updated'' (cv_workspaceId c) (Some i) None None))) (cs_race env d))"

section \<open>Messages\<close>

definition message_key :: "message \<Rightarrow> int \<times> string" where
  "message_key m = (ms_createdAt m, ms_id m)"

text \<open>One page: newest first from the cursor on, returned oldest first, with the cursor of the next.\<close>

definition message_page :: "id \<Rightarrow> nat \<Rightarrow> (int \<times> string) option \<Rightarrow> db \<Rightarrow> message list \<times> (int \<times> string) option" where
  "message_page conv limit before d =
     (let rows = take (limit + 1) (rev (sort_key message_key (filter (\<lambda>m. ms_conversationId m = conv \<and>
            (case before of None \<Rightarrow> True | Some (t, i) \<Rightarrow> ms_createdAt m < t \<or> (ms_createdAt m = t \<and> ms_id m < i)))
          (db_messages d))));
          page = take limit rows
      in (rev page, if length rows > limit \<and> page \<noteq> [] then Some (message_key (last page)) else None))"

definition listMessages ::
  "(id \<Rightarrow> string option) \<Rightarrow> actor \<Rightarrow> id \<Rightarrow> nat \<Rightarrow> (int \<times> string) option \<Rightarrow> db \<Rightarrow> err + message_view list \<times> (int \<times> string) option" where
  "listMessages sign a conv limit before d =
     (case findConversation a conv d of
        Inl e \<Rightarrow> Inl e
      | Inr c \<Rightarrow>
          (case find_account (cv_providerAccountId c) d of
             None \<Rightarrow> Inl recordNotFound
           | Some ch \<Rightarrow> let (page, nxt) = message_page conv limit before d in
               Inr (map (presentMessage (mediaUrlFor sign (hasMediaDownload (pa_provider ch)))) page, nxt)))"

record send_request =
  sq_text :: string
  sq_isPrivate :: bool
  sq_replyToMessageId :: "id option"

definition OUTBOUND_MESSAGE_REQUESTED :: string where
  "OUTBOUND_MESSAGE_REQUESTED = ''message.outbound.requested''"

definition check_channel :: "provider_account \<Rightarrow> err option" where
  "check_channel ch =
     (if pa_deletedAt ch \<noteq> None then Some (ApiFailure 409 ''CHANNEL_DELETED''
        ''This channel was deleted, so replies cannot be sent. Add it again to continue.'')
      else if pa_status ch = ADISCONNECTED then Some (ApiFailure 409 ''CHANNEL_NEEDS_RECONNECT''
        (pa_name ch @ '' is disconnected. An admin has to reconnect it on the Channels page before replies can be sent.''))
      else None)"

definition reply_row :: "conv_env \<Rightarrow> actor \<Rightarrow> send_request \<Rightarrow> conversation \<Rightarrow> message" where
  "reply_row env a r c =
     \<lparr>ms_id = cs_ids env 0, ms_workspaceId = cv_workspaceId c, ms_conversationId = cv_id c,
      ms_providerAccountId = cv_providerAccountId c, ms_direction = Outbound, ms_senderType = SAgent,
      ms_senderMembershipId = Some (ac_membershipId a), ms_senderName = Some (ac_displayName a),
      ms_isPrivate = sq_isPrivate r, ms_contentType = ''TEXT'',
      ms_content = JObj [(''type'', JStr ''TEXT''), (''text'', JStr (sq_text r))], ms_text = Some (sq_text r),
      ms_providerMessageId = None, ms_replyToMessageId = sq_replyToMessageId r,
      ms_status = (if sq_isPrivate r then DSent else DPending), ms_errorCode = None, ms_errorMessage = None,
      ms_providerEventId = None, ms_sentAt = None, ms_deliveredAt = None, ms_readAt = None, ms_failedAt = None,
      ms_createdAt = cs_now env, ms_updatedAt = cs_now env\<rparr>"

definition outbound_requested :: "id \<Rightarrow> id \<Rightarrow> string \<Rightarrow> actor \<Rightarrow> outbox_params" where
  "outbound_requested ws i corr a = \<lparr>op_workspaceId = ws, op_eventType = OUTBOUND_MESSAGE_REQUESTED,
     op_payload = JObj [(''messageId'', JStr i)], op_correlationId = corr, op_causationId = None,
     op_actorId = Some (ac_userId a), op_traceparent = None, op_scheduledAt = None\<rparr>"

definition send_bump :: "int \<Rightarrow> string \<Rightarrow> conversation \<Rightarrow> conversation" where
  "send_bump now txt c = c\<lparr>cv_lastMessageAt := Some now, cv_lastMessagePreview := Some (preview txt),
     cv_lastMessageDirection := Some Outbound, cv_unreadCount := 0\<rparr>"

definition send_tx :: "conv_env \<Rightarrow> actor \<Rightarrow> send_request \<Rightarrow> string \<Rightarrow> conversation \<Rightarrow> (message \<times> outbox_params list) tx" where
  "send_tx env a r corr c =
     thenT (create_message (reply_row env a r c))
    (thenT (if sq_isPrivate r then returnT () else update_conversation (cv_id c) (send_bump (cs_now env) (sq_text r)))
    (thenT (notifyRealtime (notice ''conversation.message.created'' (cv_workspaceId c) (Some (cv_id c)) (Some (cs_ids env 0)) None))
    (returnT (reply_row env a r c,
       if sq_isPrivate r then [] else [outbound_requested (cv_workspaceId c) (cs_ids env 0) corr a]))))"

definition outbox_run :: "conv_env \<Rightarrow> (message \<times> outbox_params list) tx \<Rightarrow> db \<Rightarrow> (err + message_view) \<times> db" where
  "outbox_run env op d =
     (case withTransactionalOutbox default_tx_policy (cs_tx env) (\<lambda>k. cs_ids env (Suc k)) (cs_now env) op d of
        (Inl e, d', _) \<Rightarrow> (Inl e, d')
      | (Inr (m, _), d', _) \<Rightarrow> (Inr (presentMessage (\<lambda>_. None) m), d'))"

definition sendMessage :: "conv_env \<Rightarrow> actor \<Rightarrow> id \<Rightarrow> send_request \<Rightarrow> string \<Rightarrow> db \<Rightarrow> (err + message_view) \<times> db" where
  "sendMessage env a conv r corr d =
     (case findConversation a conv d of
        Inl e \<Rightarrow> (Inl e, d)
      | Inr c \<Rightarrow>
          (case find_account (cv_providerAccountId c) d of
             None \<Rightarrow> (Inl recordNotFound, d)
           | Some ch \<Rightarrow>
               (case if sq_isPrivate r then None else check_channel ch of
                  Some e \<Rightarrow> (Inl e, d)
                | None \<Rightarrow>
                    if (case present (sq_replyToMessageId r) of None \<Rightarrow> False
                        | Some t \<Rightarrow> \<not> list_ex (\<lambda>m. ms_id m = t \<and> ms_conversationId m = conv) (db_messages d))
                    then (Inl (ApiFailure 422 ''INVALID_REPLY_TARGET'' ''The message you are replying to is not in this conversation.''), d)
                    else outbox_run env (send_tx env a r corr c) (cs_race env d))))"

definition retryable_message :: "message \<Rightarrow> bool" where
  "retryable_message m = (ms_direction m = Outbound \<and> \<not> ms_isPrivate m \<and> ms_status m = DFailed)"

definition retry_row :: "int \<Rightarrow> message \<Rightarrow> message" where
  "retry_row now m = m\<lparr>ms_status := DPending, ms_errorCode := None, ms_errorMessage := None, ms_failedAt := None,
     ms_updatedAt := now\<rparr>"

definition update_message :: "id \<Rightarrow> (message \<Rightarrow> message) \<Rightarrow> message tx" where
  "update_message i f d =
     (case find_message i d of None \<Rightarrow> Inl recordNotFound
      | Some m \<Rightarrow> Inr (f m, d\<lparr>db_messages := update_where (\<lambda>x. ms_id x = i) f (db_messages d)\<rparr>))"

definition retry_tx :: "conv_env \<Rightarrow> actor \<Rightarrow> string \<Rightarrow> message \<Rightarrow> (message \<times> outbox_params list) tx" where
  "retry_tx env a corr m =
     bindT (update_message (ms_id m) (retry_row (cs_now env))) (\<lambda>m'.
       thenT (notifyRealtime (notice ''conversation.message.updated'' (ms_workspaceId m) (Some (ms_conversationId m)) (Some (ms_id m)) None))
       (returnT (m', [outbound_requested (ms_workspaceId m) (ms_id m) corr a])))"

definition retryMessage :: "conv_env \<Rightarrow> actor \<Rightarrow> id \<Rightarrow> string \<Rightarrow> db \<Rightarrow> (err + message_view) \<times> db" where
  "retryMessage env a i corr d =
     (case List.find (\<lambda>m. ms_id m = i \<and> ms_workspaceId m = ac_workspaceId a) (db_messages d) of
        None \<Rightarrow> (Inl (ApiFailure 404 ''MESSAGE_NOT_FOUND'' ''This message does not exist.''), d)
      | Some m \<Rightarrow>
          if \<not> retryable_message m
          then (Inl (ApiFailure 409 ''MESSAGE_NOT_RETRYABLE'' ''Only failed replies can be sent again.''), d)
          else (case find_account (ms_providerAccountId m) d of
             None \<Rightarrow> (Inl recordNotFound, d)
           | Some ch \<Rightarrow>
               if pa_deletedAt ch \<noteq> None \<or> pa_status ch = ADISCONNECTED
               then (Inl (ApiFailure 409 ''CHANNEL_NEEDS_RECONNECT'' (pa_name ch @ '' must be reconnected before retrying.'')), d)
               else outbox_run env (retry_tx env a corr m) (cs_race env d)))"

section \<open>Paging\<close>

text \<open>Following the cursors to the end; \<open>n\<close> bounds the number of pages.\<close>

fun all_pages :: "nat \<Rightarrow> id \<Rightarrow> nat \<Rightarrow> (int \<times> string) option \<Rightarrow> db \<Rightarrow> message list" where
  "all_pages 0 conv limit before d = []"
| "all_pages (Suc n) conv limit before d =
     (case message_page conv limit before d of
        (page, None) \<Rightarrow> page
      | (page, Some c) \<Rightarrow> all_pages n conv limit (Some c) d @ page)"

definition timeline :: "id \<Rightarrow> db \<Rightarrow> message list" where
  "timeline conv d = sort_key message_key (filter (\<lambda>m. ms_conversationId m = conv) (db_messages d))"

definition older :: "(int \<times> string) option \<Rightarrow> message \<Rightarrow> bool" where
  "older before m = (case before of None \<Rightarrow> True | Some c \<Rightarrow> message_key m < c)"

lemma older_simp: "(case before of None \<Rightarrow> True | Some (t, i) \<Rightarrow> ms_createdAt m < t \<or> (ms_createdAt m = t \<and> ms_id m < i)) = older before m"
  by (auto simp: older_def message_key_def less_prod_def order_le_less split: option.splits prod.splits)

lemma filter_less_take:
  assumes "sorted_wrt (\<lambda>x y. f x < (f y :: 'b::linorder)) xs" "k < length xs"
  shows "filter (\<lambda>x. f x < f (xs ! k)) xs = take k xs"
proof -
  have "filter (\<lambda>x. f x < f (xs ! k)) (take k xs @ drop k xs) = take k xs"
  proof -
    have "filter (\<lambda>x. f x < f (xs ! k)) (take k xs) = take k xs"
      using assms by (auto simp: filter_id_conv in_set_conv_nth sorted_wrt_iff_nth_less)
    moreover have "filter (\<lambda>x. f x < f (xs ! k)) (drop k xs) = []"
    proof -
      have "\<not> f (xs ! j) < f (xs ! k)" if "k \<le> j" "j < length xs" for j
        using that assms by (cases "j = k") (auto simp: sorted_wrt_iff_nth_less not_less_iff_gr_or_eq)
      then show ?thesis by (auto simp: filter_empty_conv in_set_conv_nth)
    qed
    ultimately show ?thesis unfolding filter_append by simp
  qed
  then show ?thesis by simp
qed

lemma timeline_strict:
  assumes "distinct (map ms_id (db_messages d))"
  shows "sorted_wrt (\<lambda>x y. message_key x < message_key y) (timeline conv d)"
proof -
  have "distinct (map ms_id (filter (\<lambda>m. ms_conversationId m = conv) (db_messages d)))"
    using assms by (rule distinct_map_filter)
  then have "distinct (map message_key (filter (\<lambda>m. ms_conversationId m = conv) (db_messages d)))"
    by (auto simp: distinct_map inj_on_def message_key_def)
  then have "distinct (map message_key (timeline conv d))"
    by (simp add: timeline_def distinct_map)
  moreover have "sorted (map message_key (timeline conv d))" by (simp add: timeline_def)
  ultimately have "sorted_wrt (<) (map message_key (timeline conv d))" by (simp add: strict_sorted_iff)
  then show ?thesis by (simp add: sorted_wrt_map)
qed

lemma page_rows:
  "message_page conv limit before d =
     (let rows = rev (filter (older before) (timeline conv d)) in
      (rev (take limit rows), if length rows > limit \<and> limit > 0 then Some (message_key (rows ! (limit - 1))) else None))"
proof -
  have rows: "rev (sort_key message_key (filter (\<lambda>m. ms_conversationId m = conv \<and> older before m) (db_messages d))) =
      rev (filter (older before) (timeline conv d))"
    by (simp add: timeline_def filter_sort conj_commute)
  have "last (take limit xs) = xs ! (limit - 1)" if "limit < length xs" "0 < limit" for xs :: "message list"
    using that by (subst last_conv_nth) auto
  then show ?thesis unfolding message_page_def older_simp rows
    by (auto simp: Let_def min_def)
qed

lemma page_at:
  assumes "filter (older before) (timeline conv d) = take k (timeline conv d)" "k \<le> length (timeline conv d)" "0 < limit"
  shows "message_page conv limit before d = (drop (k - limit) (take k (timeline conv d)),
     if limit < k then Some (message_key (timeline conv d ! (k - limit))) else None)"
proof -
  let ?S = "timeline conv d"
  have "rev (take limit (rev (take k ?S))) = drop (k - limit) (take k ?S)"
    using assms(2) by (simp add: take_rev min_def)
  moreover have "rev (take k ?S) ! (limit - 1) = ?S ! (k - limit)" if "limit < k"
    using that assms(2,3) by (simp add: rev_nth min_def)
  ultimately show ?thesis using assms(2,3) unfolding page_rows assms(1) by (simp add: Let_def min_def)
qed

lemma all_pages_take:
  assumes "distinct (map ms_id (db_messages d))" "0 < limit"
  shows "filter (older before) (timeline conv d) = take k (timeline conv d) \<Longrightarrow> k \<le> length (timeline conv d) \<Longrightarrow> k < n \<Longrightarrow>
    all_pages n conv limit before d = take k (timeline conv d)"
proof (induction n arbitrary: before k)
  case (Suc n)
  let ?S = "timeline conv d"
  note page = page_at [OF Suc.prems(1,2) assms(2)]
  show ?case
  proof (cases "limit < k")
    case True
    let ?c = "message_key (?S ! (k - limit))"
    have j: "k - limit < length ?S" using True Suc.prems(2) assms(2) by linarith
    have "older (Some ?c) = (\<lambda>x. message_key x < ?c)" by (simp add: older_def fun_eq_iff)
    then have "filter (older (Some ?c)) ?S = take (k - limit) ?S"
      using filter_less_take [OF timeline_strict [OF assms(1)] j] by simp
    then have "all_pages n conv limit (Some ?c) d = take (k - limit) ?S"
      using Suc.IH [of "Some ?c" "k - limit"] True Suc.prems(2,3) assms(2) by simp
    moreover have "take (k - limit) ?S @ drop (k - limit) (take k ?S) = take k ?S"
      using append_take_drop_id [of "k - limit" "take k ?S"] by (simp add: min_def)
    ultimately show ?thesis using True by (simp add: page)
  qed (use assms(2) in \<open>simp add: page\<close>)
qed simp

text \<open>Following the cursors of the message list with any page size, and enough pages, gives every
  message of the conversation exactly once, in order of time and id, as long as nothing is written.\<close>

theorem paging_complete:
  assumes "distinct (map ms_id (db_messages d))" "0 < limit" "length (db_messages d) < n"
  shows "all_pages n conv limit None d = sort_key message_key (filter (\<lambda>m. ms_conversationId m = conv) (db_messages d))"
proof -
  have "length (timeline conv d) \<le> length (db_messages d)" by (simp add: timeline_def)
  moreover have "older None = (\<lambda>_. True)" by (simp add: older_def fun_eq_iff)
  ultimately have "all_pages n conv limit None d = take (length (timeline conv d)) (timeline conv d)"
    using assms by (intro all_pages_take) auto
  then show ?thesis by (simp add: timeline_def)
qed

theorem paging_complete_witness:
  "\<forall>c. all_pages 3 (cv_id c) 1 None (empty_db\<lparr>db_messages := [timeline_note ''m2'' 5 c ''x'', timeline_note ''m1'' 5 c ''y'']\<rparr>) =
   sort_key message_key [timeline_note ''m2'' 5 c ''x'', timeline_note ''m1'' 5 c ''y'']"
proof
  fix c
  let ?d = "empty_db\<lparr>db_messages := [timeline_note ''m2'' 5 c ''x'', timeline_note ''m1'' 5 c ''y'']\<rparr>"
  show "all_pages 3 (cv_id c) 1 None ?d = sort_key message_key [timeline_note ''m2'' 5 c ''x'', timeline_note ''m1'' 5 c ''y'']"
    using paging_complete [of ?d 1 3 "cv_id c"] by (simp add: timeline_note_def)
qed

section \<open>Sending\<close>

lemma outbox_run_calm:
  assumes "outbox_run env op d = (q, d')" "\<And>i s. te_drift (cs_tx env) i s = s"
  shows "case q of Inl e \<Rightarrow> d' = d
    | Inr v \<Rightarrow> \<exists>m ps d1. op d = Inr ((m, ps), d1) \<and> v = presentMessage (\<lambda>_. None) m \<and>
        d' = d1\<lparr>db_outbox := db_outbox d1 @
          map2 (\<lambda>i p. outbox_row i (cs_now env) p) (map (\<lambda>k. cs_ids env (Suc k)) [0..<length ps]) ps\<rparr>"
proof -
  obtain r d2 n ds where run: "withTransactionalOutbox default_tx_policy (cs_tx env) (\<lambda>k. cs_ids env (Suc k)) (cs_now env) op d = (r, d2, n, ds)"
    by (metis prod_cases4)
  have "case r of Inr a \<Rightarrow> outbox_tx (\<lambda>k. cs_ids env (Suc k)) (cs_now env) op d = Inr (a, d2) | Inl e \<Rightarrow> d2 = d"
    using tx_loop_result [OF run [unfolded withTransactionalOutbox_def withTransaction_def]] drifted_calm [OF assms(2)]
    by (auto split: sum.splits)
  then show ?thesis using assms(1) run
    by (auto simp: outbox_run_def outbox_tx_def bindT_Inr split: sum.splits dest!: persist_outbox_Inr)
qed

lemma find_conversation_facts:
  assumes "findConversation a i d = Inr c"
  shows "c \<in> set (db_conversations d)" "cv_id c = i" "cv_workspaceId c = ac_workspaceId a"
  using assms by (auto simp: findConversation_def find_Some_iff split: option.splits dest: nth_mem)

lemma send_tx_Inr:
  assumes "send_tx env a r corr c d = Inr ((m, ps), d')"
  shows "m = reply_row env a r c \<and> ms_id m \<notin> ms_id ` set (db_messages d) \<and>
    ps = (if sq_isPrivate r then [] else [outbound_requested (cv_workspaceId c) (cs_ids env 0) corr a]) \<and>
    d' = d\<lparr>db_messages := db_messages d @ [m],
      db_conversations := (if sq_isPrivate r then db_conversations d
         else update_where (\<lambda>x. cv_id x = cv_id c) (send_bump (cs_now env) (sq_text r)) (db_conversations d)),
      db_notified := db_notified d @ [notice ''conversation.message.created'' (cv_workspaceId c) (Some (cv_id c)) (Some (cs_ids env 0)) None]\<rparr>"
  using assms
  by (cases "sq_isPrivate r") (auto simp: send_tx_def thenT_Inr store_Inr notifyRealtime_def)

lemma send_cases:
  assumes "sendMessage env a conv r corr d = (q, d')"
  obtains e where "q = Inl e" "d' = d"
  | c where "findConversation a conv d = Inr c" "outbox_run env (send_tx env a r corr c) (cs_race env d) = (q, d')"
  using assms unfolding sendMessage_def by (auto split: option.splits if_splits sum.splits)

text \<open>What an accepted reply writes, whatever other sessions did between the checks and the
  transaction: one message row under a new id; a note is stored as SENT and touches nothing else; a
  reply is PENDING, has exactly one PENDING outbox event that asks the worker to send it, and moves
  its conversation to the top without unread messages. A refused one writes nothing.\<close>

theorem send_exact:
  assumes "sendMessage env a conv r corr d = (q, d')" "\<And>i s. te_drift (cs_tx env) i s = s"
  shows "case q of
      Inl e \<Rightarrow> d' = d \<or> d' = cs_race env d
    | Inr v \<Rightarrow> \<exists>c m. let s = cs_race env d in
        c \<in> set (db_conversations d) \<and> cv_id c = conv \<and> cv_workspaceId c = ac_workspaceId a \<and>
        m = reply_row env a r c \<and> v = presentMessage (\<lambda>_. None) m \<and>
        ms_id m \<notin> ms_id ` set (db_messages s) \<and> db_messages d' = db_messages s @ [m] \<and>
        (if sq_isPrivate r
         then db_conversations d' = db_conversations s \<and> db_outbox d' = db_outbox s
         else sendable m \<and>
           db_conversations d' = update_where (\<lambda>x. cv_id x = conv) (send_bump (cs_now env) (sq_text r)) (db_conversations s) \<and>
           db_outbox d' = db_outbox s @ [outbox_row (cs_ids env 1) (cs_now env)
             (outbound_requested (cv_workspaceId c) (ms_id m) corr a)])"
using assms(1)
proof (cases rule: send_cases)
  case (2 c)
  note c = find_conversation_facts [OF 2(1)] and run = outbox_run_calm [OF 2(2) assms(2)]
  show ?thesis
  proof (cases q)
    case (Inr v)
    with run obtain m ps d1 where "send_tx env a r corr c (cs_race env d) = Inr ((m, ps), d1)"
      and v: "v = presentMessage (\<lambda>_. None) m" and d': "d' = d1\<lparr>db_outbox := db_outbox d1 @
        map2 (\<lambda>i p. outbox_row i (cs_now env) p) (map (\<lambda>k. cs_ids env (Suc k)) [0..<length ps]) ps\<rparr>"
      by auto
    note tx = send_tx_Inr [OF this(1)]
    show ?thesis unfolding Inr sum.case Let_def
      by (rule exI [of _ c], rule exI [of _ m])
        (use tx v d' c in \<open>auto simp: reply_row_def sendable_def outbound_requested_def\<close>)
  qed (use run in simp)
qed simp

section \<open>Retrying\<close>

lemma retry_tx_Inr:
  assumes "retry_tx env a corr m d = Inr ((m', ps), d')"
  shows "ps = [outbound_requested (ms_workspaceId m) (ms_id m) corr a] \<and>
    (\<exists>x. find_message (ms_id m) d = Some x \<and> m' = retry_row (cs_now env) x) \<and>
    d' = d\<lparr>db_messages := update_where (\<lambda>x. ms_id x = ms_id m) (retry_row (cs_now env)) (db_messages d),
      db_notified := db_notified d @ [notice ''conversation.message.updated'' (ms_workspaceId m) (Some (ms_conversationId m)) (Some (ms_id m)) None]\<rparr>"
  using assms by (auto simp: retry_tx_def bindT_Inr thenT_Inr update_message_def notifyRealtime_def split: option.splits)

lemma retry_cases:
  assumes "retryMessage env a i corr d = (q, d')"
  obtains e where "q = Inl e" "d' = d"
  | m ch where "m \<in> set (db_messages d)" "ms_id m = i" "ms_workspaceId m = ac_workspaceId a" "retryable_message m"
      "find_account (ms_providerAccountId m) d = Some ch" "pa_deletedAt ch = None" "pa_status ch \<noteq> ADISCONNECTED"
      "outbox_run env (retry_tx env a corr m) (cs_race env d) = (q, d')"
  using assms unfolding retryMessage_def
  by (auto simp: find_Some_iff split: option.splits if_splits) (metis nth_mem)

text \<open>A retry is accepted only for a failed reply of the actor's workspace on a usable channel. It
  makes the row PENDING without an error and queues exactly one outbox event that asks the worker to
  send it; everything else stays as it is. A refused retry writes nothing.\<close>

theorem retry_exact:
  assumes "retryMessage env a i corr d = (q, d')" "\<And>k s. te_drift (cs_tx env) k s = s"
  shows "case q of
      Inl e \<Rightarrow> d' = d \<or> d' = cs_race env d
    | Inr v \<Rightarrow> \<exists>m ch. let s = cs_race env d in
        m \<in> set (db_messages d) \<and> ms_id m = i \<and> ms_workspaceId m = ac_workspaceId a \<and> retryable_message m \<and>
        find_account (ms_providerAccountId m) d = Some ch \<and> pa_deletedAt ch = None \<and> pa_status ch \<noteq> ADISCONNECTED \<and>
        vw_id v = i \<and> vw_status v = DPending \<and> vw_error v = None \<and>
        db_messages d' = update_where (\<lambda>x. ms_id x = i) (retry_row (cs_now env)) (db_messages s) \<and>
        db_outbox d' = db_outbox s @ [outbox_row (cs_ids env 1) (cs_now env) (outbound_requested (ms_workspaceId m) i corr a)] \<and>
        db_conversations d' = db_conversations s"
using assms(1)
proof (cases rule: retry_cases)
  case (2 m ch)
  note run = outbox_run_calm [OF 2(8) assms(2)]
  show ?thesis
  proof (cases q)
    case (Inr v)
    with run obtain m' ps d1 where "retry_tx env a corr m (cs_race env d) = Inr ((m', ps), d1)"
      and v: "v = presentMessage (\<lambda>_. None) m'" and d': "d' = d1\<lparr>db_outbox := db_outbox d1 @
        map2 (\<lambda>i p. outbox_row i (cs_now env) p) (map (\<lambda>k. cs_ids env (Suc k)) [0..<length ps]) ps\<rparr>"
      by auto
    note tx = retry_tx_Inr [OF this(1)]
    then obtain x where x: "find_message i (cs_race env d) = Some x" "m' = retry_row (cs_now env) x" using 2(2) by auto
    then have "ms_id x = i" by (auto simp: find_message_def find_Some_iff)
    then have "vw_id v = i \<and> vw_status v = DPending \<and> vw_error v = None"
      by (simp add: v x(2) presentMessage_def retry_row_def error_of_def)
    then show ?thesis unfolding Inr sum.case Let_def
      by (intro exI [of _ m] exI [of _ ch]) (use tx d' 2 in auto)
  qed (use run in simp)
qed simp

section \<open>Updating\<close>

lemma notes_Inr:
  "eachT (\<lambda>(k, txt). create_message (timeline_note (f k) now c txt)) xs d = Inr (u, d') \<Longrightarrow>
     d' = d\<lparr>db_messages := db_messages d @ map (\<lambda>(k, txt). timeline_note (f k) now c txt) xs\<rparr>"
proof (induction xs arbitrary: d u)
  case (Cons x xs)
  obtain k t where x: "x = (k, t)" by force
  from Cons.prems obtain d1 us where "create_message (timeline_note (f k) now c t) d = Inr ((), d1)"
    and rest: "eachT (\<lambda>(k, txt). create_message (timeline_note (f k) now c txt)) xs d1 = Inr (us, d')"
    by (auto simp: x bindT_Inr)
  then show ?case using Cons.IH [OF rest] by (simp add: x create_message_Inr)
qed simp

definition update_log :: "conv_env \<Rightarrow> actor \<Rightarrow> string \<Rightarrow> conversation \<Rightarrow> conv_change \<Rightarrow> audit_log" where
  "update_log env a corr c ch = \<lparr>au_id = cs_ids env 0, au_workspaceId = ac_workspaceId a, au_actorId = ac_userId a,
     au_actorType = ''USER'', au_action = ''conversation.updated'', au_resourceType = ''conversation'', au_resourceId = cv_id c,
     au_correlationId = corr, au_beforeState = Some (conv_state (cv_status c) (cv_assignee c)),
     au_afterState = Some (conv_state (case cc_status ch of None \<Rightarrow> cv_status c | Some s \<Rightarrow> s)
          (case cc_assignee ch of Some (Some x) \<Rightarrow> Some x | _ \<Rightarrow> cv_assignee c)), au_metadata = None\<rparr>"

lemma update_tx_Inr:
  assumes "update_tx env a corr c ch d = Inr (u, d')"
  shows "d' = d\<lparr>db_conversations := update_where (\<lambda>x. cv_id x = cv_id c) (apply_change (cs_now env) ch) (db_conversations d),
    db_messages := db_messages d @ map (\<lambda>(k, txt). timeline_note (cs_ids env (Suc k)) (cs_now env) c txt) (enumerate 0 (cc_events ch)),
    db_audit := db_audit d @ [update_log env a corr c ch],
    db_notified := db_notified d @ [notice ''conversation.updated'' (cv_workspaceId c) (Some (cv_id c)) None None]\<rparr>"
  using assms
  by (auto simp: update_tx_def thenT_Inr bindT_Inr update_conversation_Inr recordForActor_def create_audit_def
      notifyRealtime_def update_log_def split: if_splits dest!: notes_Inr)

lemma plan_authorised:
  assumes "plan_update a r c d = Inr ch"
  shows "cc_assignee ch \<noteq> None \<longrightarrow> hasPermission (ac_permissions a) ''conversation:assign'' \<and> cc_assignee ch = ur_assignee r \<and>
      cc_assignee ch \<noteq> Some (cv_assignee c) \<and>
      (\<forall>i. cc_assignee ch = Some (Some i) \<longrightarrow> i = [] \<or> (\<exists>m\<in>set (db_members d). mb_id m = i \<and> mb_workspaceId m = ac_workspaceId a \<and>
         mb_status m = MActive \<and> mb_deletedAt m = None))"
    "cc_status ch \<noteq> None \<longrightarrow> cc_status ch = ur_status r \<and> cc_status ch \<noteq> Some (cv_status c)"
    "cc_status ch = Some VResolved \<longrightarrow> hasPermission (ac_permissions a) ''conversation:close''"
    "length (cc_events ch) = (if cc_assignee ch = None then 0 else 1) + (if cc_status ch = None then 0 else 1)"
proof -
  from assms obtain asg ev1 st ev2 where asg: "assignee_change a r c d = Inr (asg, ev1)" and st: "status_change a r c = Inr (st, ev2)"
    and ch: "ch = \<lparr>cc_assignee = asg, cc_status = st, cc_events = ev1 @ ev2\<rparr>"
    by (auto simp: plan_update_def split: sum.splits)
  have "present x = Some i \<longleftrightarrow> x = Some i \<and> i \<noteq> []" "present x = None \<longleftrightarrow> x = None \<or> x = Some []" for x i
    by (cases x rule: present.cases; auto)+
  then have "asg \<noteq> None \<longrightarrow> hasPermission (ac_permissions a) ''conversation:assign'' \<and> asg = ur_assignee r \<and>
      asg \<noteq> Some (cv_assignee c) \<and>
      (\<forall>i. asg = Some (Some i) \<longrightarrow> i = [] \<or> (\<exists>m\<in>set (db_members d). mb_id m = i \<and> mb_workspaceId m = ac_workspaceId a \<and>
         mb_status m = MActive \<and> mb_deletedAt m = None))" "length ev1 = (if asg = None then 0 else 1)"
    using asg by (auto simp: assignee_change_def find_Some_iff split: option.splits if_splits dest: nth_mem)
  moreover have "st \<noteq> None \<longrightarrow> st = ur_status r \<and> st \<noteq> Some (cv_status c)"
    "st = Some VResolved \<longrightarrow> hasPermission (ac_permissions a) ''conversation:close''"
    "length ev2 = (if st = None then 0 else 1)"
    using st by (auto simp: status_change_def split: option.splits if_splits)
  ultimately show
    "cc_assignee ch \<noteq> None \<longrightarrow> hasPermission (ac_permissions a) ''conversation:assign'' \<and> cc_assignee ch = ur_assignee r \<and>
      cc_assignee ch \<noteq> Some (cv_assignee c) \<and>
      (\<forall>i. cc_assignee ch = Some (Some i) \<longrightarrow> i = [] \<or> (\<exists>m\<in>set (db_members d). mb_id m = i \<and> mb_workspaceId m = ac_workspaceId a \<and>
         mb_status m = MActive \<and> mb_deletedAt m = None))"
    "cc_status ch \<noteq> None \<longrightarrow> cc_status ch = ur_status r \<and> cc_status ch \<noteq> Some (cv_status c)"
    "cc_status ch = Some VResolved \<longrightarrow> hasPermission (ac_permissions a) ''conversation:close''"
    "length (cc_events ch) = (if cc_assignee ch = None then 0 else 1) + (if cc_status ch = None then 0 else 1)"
    by (simp_all add: ch)
qed

lemma update_cases:
  assumes "update env a i r corr d = (q, d')"
  obtains "d' = d" | "d' = cs_race env d"
  | c ch u where "findConversation a i d = Inr c" "plan_update a r c d = Inr ch"
      "update_tx env a corr c ch (cs_race env d) = Inr (u, d')"
proof (cases "findConversation a i d")
  case (Inr c)
  show ?thesis
  proof (cases "plan_update a r c d")
    case plan: (Inr ch)
    obtain q1 d1 where run: "run_attempt (cs_fault env) (update_tx env a corr c ch) (cs_race env d) = (q1, d1)" by force
    show ?thesis
    proof (cases q1)
      case (Inl e)
      then have "d1 = cs_race env d" using run run_attempt_error by metis
      then show ?thesis using that assms Inl run plan \<open>findConversation a i d = Inr c\<close>
        by (auto simp: update_def split: if_splits)
    next
      case u: (Inr u)
      then have "update_tx env a corr c ch (cs_race env d) = Inr (u, d1)" using run run_attempt_ok by metis
      then show ?thesis using that assms u run plan \<open>findConversation a i d = Inr c\<close>
        by (auto simp: update_def split: if_splits)
    qed
  qed (use that Inr assms in \<open>simp add: update_def\<close>)
qed (use that assms in \<open>simp add: update_def\<close>)

text \<open>An update is refused without a trace, changes nothing, or commits this as one transaction: the
  conversation gets the requested assignee and status, one SYSTEM note per change appears in its
  timeline, and one audit entry is written. A new assignee needs the assign permission and is an
  active member of the workspace; resolving needs the close permission.\<close>

theorem update_exact:
  assumes "update env a i r corr d = (q, d')"
  shows "d' = d \<or> d' = cs_race env d \<or> (\<exists>c ch. let s = cs_race env d in
     c \<in> set (db_conversations d) \<and> cv_id c = i \<and> cv_workspaceId c = ac_workspaceId a \<and>
     cc_assignee ch \<in> {None, ur_assignee r} \<and> cc_status ch \<in> {None, ur_status r} \<and>
     (cc_assignee ch \<noteq> None \<longrightarrow> hasPermission (ac_permissions a) ''conversation:assign'') \<and>
     (\<forall>m. cc_assignee ch = Some (Some m) \<and> m \<noteq> [] \<longrightarrow>
        (\<exists>mb\<in>set (db_members d). mb_id mb = m \<and> mb_workspaceId mb = ac_workspaceId a \<and> mb_status mb = MActive \<and> mb_deletedAt mb = None)) \<and>
     (cc_status ch = Some VResolved \<longrightarrow> hasPermission (ac_permissions a) ''conversation:close'') \<and>
     db_conversations d' = update_where (\<lambda>x. cv_id x = i) (apply_change (cs_now env) ch) (db_conversations s) \<and>
     (\<exists>notes. db_messages d' = db_messages s @ notes \<and>
        length notes = (if cc_assignee ch = None then 0 else 1) + (if cc_status ch = None then 0 else 1) \<and>
        (\<forall>m\<in>set notes. ms_conversationId m = i \<and> ms_senderType m = SSystem \<and> ms_isPrivate m \<and> \<not> sendable m)) \<and>
     db_audit d' = db_audit s @ [update_log env a corr c ch] \<and> db_outbox d' = db_outbox s)"
using assms
proof (cases rule: update_cases)
  case (3 c ch u)
  note c = find_conversation_facts [OF 3(1)] and p = plan_authorised [OF 3(2)] and tx = update_tx_Inr [OF 3(3)]
  let ?notes = "map (\<lambda>(k, txt). timeline_note (cs_ids env (Suc k)) (cs_now env) c txt) (enumerate 0 (cc_events ch))"
  have "\<forall>m\<in>set ?notes. ms_conversationId m = i \<and> ms_senderType m = SSystem \<and> ms_isPrivate m \<and> \<not> sendable m"
    using c by (auto simp: timeline_note_def sendable_def)
  moreover have "length ?notes = (if cc_assignee ch = None then 0 else 1) + (if cc_status ch = None then 0 else 1)"
    using p(4) by simp
  moreover have "db_messages d' = db_messages (cs_race env d) @ ?notes" by (simp add: tx)
  ultimately have added: "\<exists>notes. db_messages d' = db_messages (cs_race env d) @ notes \<and>
        length notes = (if cc_assignee ch = None then 0 else 1) + (if cc_status ch = None then 0 else 1) \<and>
        (\<forall>m\<in>set notes. ms_conversationId m = i \<and> ms_senderType m = SSystem \<and> ms_isPrivate m \<and> \<not> sendable m)" by blast
  have "cc_assignee ch \<in> {None, ur_assignee r}" "cc_status ch \<in> {None, ur_status r}" using p(1,2) by auto
  then show ?thesis using c p(1,3) added
    by (intro disjI2 exI [of _ c] exI [of _ ch]) (auto simp: tx Let_def)
qed blast+

section \<open>Workspaces are separate\<close>

text \<open>Everything another workspace owns.\<close>

definition foreign :: "id \<Rightarrow> db \<Rightarrow> conversation list \<times> message list \<times> outbox_event list \<times> audit_log list \<times> notification list" where
  "foreign w d = (filter (\<lambda>c. cv_workspaceId c \<noteq> w) (db_conversations d), filter (\<lambda>m. ms_workspaceId m \<noteq> w) (db_messages d),
     filter (\<lambda>e. oe_workspaceId e \<noteq> w) (db_outbox d), filter (\<lambda>l. au_workspaceId l \<noteq> w) (db_audit d),
     filter (\<lambda>n. nt_workspaceId n \<noteq> w) (db_notified d))"

lemma filter_update_foreign:
  assumes "distinct (map k xs)" "c \<in> set xs" "\<not> Q c" "\<And>x. Q (f x) = Q x"
  shows "filter Q (update_where (\<lambda>x. k x = k c) f xs) = filter Q xs"
proof -
  have "x = c" if "x \<in> set xs" "k x = k c" for x using that assms(1,2) by (metis distinct_map inj_onD)
  then have "\<And>x. x \<in> set (filter Q xs) \<Longrightarrow> k x \<noteq> k c" using assms(3) by auto
  then have "update_where (\<lambda>x. k x = k c) f (filter Q xs) = filter Q xs" by (rule update_where_none)
  then show ?thesis using filter_update_where [of "\<lambda>x. k x = k c" Q f xs] assms(4) by simp
qed

lemma foreign_conversation:
  assumes "core_ok d" "findConversation a i d = Inr c" "\<And>x. cv_workspaceId (f x) = cv_workspaceId x"
  shows "filter (\<lambda>x. cv_workspaceId x \<noteq> ac_workspaceId a) (update_where (\<lambda>x. cv_id x = i) f (db_conversations d)) =
    filter (\<lambda>x. cv_workspaceId x \<noteq> ac_workspaceId a) (db_conversations d)"
  using filter_update_foreign [of cv_id "db_conversations d" c "\<lambda>x. cv_workspaceId x \<noteq> ac_workspaceId a" f]
    find_conversation_facts [OF assms(2)] assms(1,3) by (simp add: core_ok_def conversations_ok_def)

lemma notice_workspace [simp]: "nt_workspaceId (notice ty w c m ch) = w"
  by (simp add: notice_def)

lemma requested_workspace [simp]: "oe_workspaceId (outbox_row i now (outbound_requested w m corr a)) = w"
  by (simp add: outbox_row_def outbound_requested_def)

lemma markRead_foreign:
  assumes "core_ok d" "cs_race env d = d" "markRead env a i d = (q, d')"
  shows "foreign (ac_workspaceId a) d' = foreign (ac_workspaceId a) d"
proof (cases "findConversation a i d")
  case c: (Inr c)
  let ?tx = "thenT (update_conversation i (\<lambda>c. c\<lparr>cv_unreadCount := 0\<rparr>))
            (notifyRealtime (notice ''conversation.updated'' (cv_workspaceId c) (Some i) None None))"
  have "d' = d \<or> run_attempt (cs_fault env) ?tx d = (q, d')"
    using assms(2,3) c by (auto simp: markRead_def split: if_splits)
  moreover have "d' = d \<or> (\<exists>u. ?tx d = Inr (u, d'))" if "run_attempt (cs_fault env) ?tx d = (q, d')"
    using that run_attempt_error [of _ ?tx d _ d'] run_attempt_ok [of _ ?tx d _ d'] by (cases q) auto
  ultimately consider "d' = d" | u where "?tx d = Inr (u, d')" by blast
  then show ?thesis
  proof cases
    case (2 u)
    then show ?thesis
      using find_conversation_facts(3) [OF c] foreign_conversation [OF assms(1) c, of "\<lambda>c. c\<lparr>cv_unreadCount := 0\<rparr>"]
      by (auto simp: foreign_def thenT_Inr update_conversation_Inr notifyRealtime_def)
  qed simp
qed (use assms(3) in \<open>simp add: markRead_def\<close>)

lemma update_foreign:
  assumes "core_ok d" "cs_race env d = d" "update env a i r corr d = (q, d')"
  shows "foreign (ac_workspaceId a) d' = foreign (ac_workspaceId a) d"
  using assms(3)
proof (cases rule: update_cases)
  case (3 c ch u)
  have "filter (\<lambda>m. ms_workspaceId m \<noteq> ac_workspaceId a)
      (map (\<lambda>(k, txt). timeline_note (cs_ids env (Suc k)) (cs_now env) c txt) (enumerate 0 (cc_events ch))) = []"
    using find_conversation_facts(3) [OF 3(1)] by (auto simp: timeline_note_def filter_empty_conv)
  then show ?thesis
    using update_tx_Inr [OF 3(3)] find_conversation_facts [OF 3(1)] assms(2)
      foreign_conversation [OF assms(1) 3(1), of "apply_change (cs_now env) ch"]
    by (simp add: foreign_def update_log_def apply_change_def)
qed (use assms(2) in simp_all)

lemma send_foreign:
  assumes "core_ok d" "cs_race env d = d" "\<And>k s. te_drift (cs_tx env) k s = s" "sendMessage env a i r corr d = (q, d')"
  shows "foreign (ac_workspaceId a) d' = foreign (ac_workspaceId a) d"
  using assms(4)
proof (cases rule: send_cases)
  case (2 c)
  show ?thesis
  proof (cases q)
    case (Inr v)
    with outbox_run_calm [OF 2(2) assms(3)] assms(2) obtain m ps d1 where "send_tx env a r corr c d = Inr ((m, ps), d1)"
      and d': "d' = d1\<lparr>db_outbox := db_outbox d1 @
        map2 (\<lambda>i p. outbox_row i (cs_now env) p) (map (\<lambda>k. cs_ids env (Suc k)) [0..<length ps]) ps\<rparr>" by auto
    from send_tx_Inr [OF this(1)] d' find_conversation_facts [OF 2(1)]
      foreign_conversation [OF assms(1) 2(1), of "send_bump (cs_now env) (sq_text r)"]
    show ?thesis by (auto simp: foreign_def send_bump_def reply_row_def)
  qed (use outbox_run_calm [OF 2(2) assms(3)] assms(2) in simp)
qed simp

lemma retry_foreign:
  assumes "core_ok d" "cs_race env d = d" "\<And>k s. te_drift (cs_tx env) k s = s" "retryMessage env a i corr d = (q, d')"
  shows "foreign (ac_workspaceId a) d' = foreign (ac_workspaceId a) d"
  using assms(4)
proof (cases rule: retry_cases)
  case (2 m ch)
  show ?thesis
  proof (cases q)
    case (Inr v)
    with outbox_run_calm [OF 2(8) assms(3)] assms(2) obtain m' ps d1 where "retry_tx env a corr m d = Inr ((m', ps), d1)"
      and d': "d' = d1\<lparr>db_outbox := db_outbox d1 @
        map2 (\<lambda>i p. outbox_row i (cs_now env) p) (map (\<lambda>k. cs_ids env (Suc k)) [0..<length ps]) ps\<rparr>" by auto
    from retry_tx_Inr [OF this(1)] d' 2(1,2,3)
      filter_update_foreign [of ms_id "db_messages d" m "\<lambda>x. ms_workspaceId x \<noteq> ac_workspaceId a" "retry_row (cs_now env)"] assms(1)
    show ?thesis by (auto simp: foreign_def retry_row_def core_ok_def messages_ok_def)
  qed (use outbox_run_calm [OF 2(8) assms(3)] assms(2) in simp)
qed simp

text \<open>C10: An actor's requests never reach another workspace: whatever they update, mark as read, send or
  retry, the conversations, messages, outbox events, audit entries and notifications of all other
  workspaces stay as they are; and a conversation the actor is shown is one of the actor's workspace.\<close>

theorem workspaces_separate:
  assumes "core_ok d" "cs_race env d = d" "\<And>k s. te_drift (cs_tx env) k s = s"
    and "(q, d') \<in> {update env a i ur corr d} \<or> (z, d') \<in> {markRead env a i d} \<or>
      (v, d') \<in> {sendMessage env a i sr corr d, retryMessage env a i corr d}"
  shows "foreign (ac_workspaceId a) d' = foreign (ac_workspaceId a) d \<and>
    (findConversation a i d = Inr c \<longrightarrow> cv_workspaceId c = ac_workspaceId a)"
proof -
  have "foreign (ac_workspaceId a) d' = foreign (ac_workspaceId a) d"
    using assms(4) update_foreign [OF assms(1,2)] markRead_foreign [OF assms(1,2)] send_foreign [OF assms(1-3)]
      retry_foreign [OF assms(1-3)] by (auto simp: eq_commute)
  then show ?thesis using find_conversation_facts(3) by blast
qed

section \<open>Concrete runs\<close>

definition sample_actor :: "string list \<Rightarrow> actor" where
  "sample_actor ps = \<lparr>ac_userId = ''u9'', ac_supabaseAuthId = ''s9'', ac_email = ''bo@x'', ac_displayName = ''Bo'',
     ac_avatarUrl = None, ac_workspaceId = ''w'', ac_workspaceName = ''W'', ac_workspaceSlug = ''acme'', ac_timezone = ''UTC'',
     ac_membershipId = ''a1'', ac_membershipStatus = MActive, ac_roles = [''AGENT''], ac_teams = [],
     ac_permissions = ps, ac_correlationId = ''c1'', ac_ipAddress = None, ac_userAgent = None\<rparr>"

definition calm_conv :: "int \<Rightarrow> conv_env" where
  "calm_conv now = \<lparr>cs_now = now, cs_ids = (\<lambda>k. ''n'' @ show_nat k), cs_race = (\<lambda>s. s), cs_fault = None, cs_tx = calm_env\<rparr>"

definition inbox_db :: db where
  "inbox_db = first_ingested\<lparr>db_accounts := [sample_channel]\<rparr>"

definition hello_request :: send_request where
  "hello_request = \<lparr>sq_text = ''hello'', sq_isPrivate = False, sq_replyToMessageId = None\<rparr>"

lemma calm_conv_simps [simp]: "cs_race (calm_conv now) = (\<lambda>s. s)" "te_drift (cs_tx (calm_conv now)) k s = s"
  by (simp_all add: calm_conv_def calm_env_def)

theorem send_exact_witness:
  "map (\<lambda>e. (oe_eventType e, oe_status e)) (db_outbox (snd (sendMessage (calm_conv 500) (sample_actor []) ''v1'' hello_request ''c1'' inbox_db))) =
     map (\<lambda>e. (oe_eventType e, oe_status e)) (db_outbox inbox_db) @ [(''message.outbound.requested'', OPending)]"
proof -
  obtain q d' where run: "sendMessage (calm_conv 500) (sample_actor []) ''v1'' hello_request ''c1'' inbox_db = (q, d')" by force
  have "isOk (fst (sendMessage (calm_conv 500) (sample_actor []) ''v1'' hello_request ''c1'' inbox_db))" by code_simp
  then obtain v where q: "q = Inr v" using run by (cases q) auto
  have "case q of
      Inl e \<Rightarrow> d' = inbox_db \<or> d' = cs_race (calm_conv 500) inbox_db
    | Inr v \<Rightarrow> \<exists>c m. let s = cs_race (calm_conv 500) inbox_db in
        c \<in> set (db_conversations inbox_db) \<and> cv_id c = ''v1'' \<and> cv_workspaceId c = ac_workspaceId (sample_actor []) \<and>
        m = reply_row (calm_conv 500) (sample_actor []) hello_request c \<and> v = presentMessage (\<lambda>_. None) m \<and>
        ms_id m \<notin> ms_id ` set (db_messages s) \<and> db_messages d' = db_messages s @ [m] \<and>
        (if sq_isPrivate hello_request
         then db_conversations d' = db_conversations s \<and> db_outbox d' = db_outbox s
         else sendable m \<and>
           db_conversations d' = update_where (\<lambda>x. cv_id x = ''v1'') (send_bump (cs_now (calm_conv 500)) (sq_text hello_request)) (db_conversations s) \<and>
           db_outbox d' = db_outbox s @ [outbox_row (cs_ids (calm_conv 500) 1) (cs_now (calm_conv 500))
             (outbound_requested (cv_workspaceId c) (ms_id m) ''c1'' (sample_actor []))])"
    by (rule send_exact [OF run]) simp
  then show ?thesis unfolding q run
    by (auto simp: Let_def hello_request_def outbox_row_def outbound_requested_def OUTBOUND_MESSAGE_REQUESTED_def)
qed

definition failed_db :: db where
  "failed_db = inbox_db\<lparr>db_messages := db_messages inbox_db @ [queued_reply\<lparr>ms_status := DFailed, ms_errorCode := Some ''401''\<rparr>]\<rparr>"

theorem retry_exact_witness:
  "\<exists>v d'. retryMessage (calm_conv 600) (sample_actor []) ''r1'' ''c2'' failed_db = (Inr v, d') \<and> vw_status v = DPending \<and> vw_error v = None"
proof -
  obtain q d' where run: "retryMessage (calm_conv 600) (sample_actor []) ''r1'' ''c2'' failed_db = (q, d')" by force
  have "isOk (fst (retryMessage (calm_conv 600) (sample_actor []) ''r1'' ''c2'' failed_db))" by code_simp
  then obtain v where q: "q = Inr v" using run by (cases q) auto
  from retry_exact [OF run] have "vw_status v = DPending \<and> vw_error v = None" unfolding q by (auto simp: Let_def)
  with run q show ?thesis by blast
qed

definition resolve_request :: update_request where
  "resolve_request = \<lparr>ur_status = Some VResolved, ur_assignee = None\<rparr>"

theorem update_exact_witness:
  "hasPermission (ac_permissions (sample_actor [''conversation:close''])) ''conversation:close'' \<and>
   (\<exists>c ch. db_audit (snd (update (calm_conv 700) (sample_actor [''conversation:close'']) ''v1'' resolve_request ''c3'' inbox_db)) =
      [update_log (calm_conv 700) (sample_actor [''conversation:close'']) ''c3'' c ch])"
proof
  let ?a = "sample_actor [''conversation:close'']"
  show "hasPermission (ac_permissions ?a) ''conversation:close''" by code_simp
  obtain q d' where run: "update (calm_conv 700) ?a ''v1'' resolve_request ''c3'' inbox_db = (q, d')" by force
  have "length (db_audit (snd (update (calm_conv 700) ?a ''v1'' resolve_request ''c3'' inbox_db))) = 1 \<and> db_audit inbox_db = []"
    by code_simp
  with run have "d' \<noteq> inbox_db" "db_audit inbox_db = []" by auto
  with update_exact [OF run] show "\<exists>c ch. db_audit (snd (update (calm_conv 700) ?a ''v1'' resolve_request ''c3'' inbox_db)) =
      [update_log (calm_conv 700) ?a ''c3'' c ch]"
    unfolding run snd_conv by (simp add: Let_def) blast
qed

lemma inbox_ok: "core_ok inbox_db"
proof -
  have "distinct (map ms_id (db_messages inbox_db)) \<and> list_all (\<lambda>a. list_all (\<lambda>b. msg_key_clash a b \<longrightarrow> ms_id a = ms_id b)
     (db_messages inbox_db)) (db_messages inbox_db)" by code_simp
  then have "messages_ok inbox_db" unfolding messages_ok_def list_all_iff by (metis distinct_map inj_onD)
  moreover have "identities_ok inbox_db" "conversations_ok inbox_db"
    "set (map ms_conversationId (db_messages inbox_db)) \<subseteq> set (map cv_id (db_conversations inbox_db))" by code_simp+
  ultimately show ?thesis by (simp add: core_ok_def)
qed

theorem workspaces_separate_witness:
  "foreign ''w'' (snd (sendMessage (calm_conv 500) (sample_actor []) ''v1'' hello_request ''c1'' inbox_db)) = foreign ''w'' inbox_db"
proof -
  obtain v d' where run: "sendMessage (calm_conv 500) (sample_actor []) ''v1'' hello_request ''c1'' inbox_db = (v, d')" by force
  have w: "ac_workspaceId (sample_actor []) = ''w''" by (simp add: sample_actor_def)
  show ?thesis
    using workspaces_separate [OF inbox_ok, of "calm_conv 500" _ d' "sample_actor []" "''v1''" _ "''c1''" _ v hello_request] run w by simp
qed

section \<open>Divergences\<close>

text \<open>A retry updates the row whatever its status is by then: when another retry and the send it queued
  come in between, a reply that is SENT becomes PENDING again, and the provider receives it twice.\<close>

lemma retry_resends_sent:
  "let race = \<lambda>d. snd (snd (send (calm_outbound 550) (\<lambda>_. True) (\<lambda>_. None) accepting False ''r1''
         (snd (retryMessage (calm_conv 540) (sample_actor []) ''r1'' ''c2'' d))));
       env = (calm_conv 600)\<lparr>cs_ids := \<lambda>k. ''z'' @ show_nat k, cs_race := race\<rparr>;
       (q, d') = retryMessage env (sample_actor []) ''r1'' ''c2'' failed_db
     in map ms_status (filter (\<lambda>m. ms_id m = ''r1'') (db_messages (race failed_db))) = [DSent] \<and> isOk q \<and>
        map ms_status (filter (\<lambda>m. ms_id m = ''r1'') (db_messages d')) = [DPending]"
  by code_simp

text \<open>The audit entry of an unassignment says that the assignee stayed: \<open>null ?? old\<close> is \<open>old\<close>.\<close>

lemma unassign_audit_wrong:
  "au_afterState (update_log env a corr c \<lparr>cc_assignee = Some None, cc_status = None, cc_events = es\<rparr>) =
   Some (conv_state (cv_status c) (cv_assignee c))"
  by (simp add: update_log_def)

end
