(* ===== verification/RateLimit.thy ===== *)
theory RateLimit
  imports Idempotency
begin

text \<open>
  Fixed-window rate limits, \<open>apps/api/src/redis/rate-limit-store.ts\<close>: the Redis counters, the
  per-process counters, and the contract of both as a locale in which the bound on admitted
  requests is proved. A Redis script runs atomically; a key lives until its time has passed.
\<close>

section \<open>The stores\<close>

definition rateLimitKey :: "(string \<Rightarrow> string) \<Rightarrow> string \<Rightarrow> string \<Rightarrow> string" where
  "rateLimitKey sha256 scope identity = REDIS_KEY_PREFIX @ ''rl:'' @ scope @ '':'' @ sha256 identity"

text \<open>A Redis counter; without an expiry it lives forever.\<close>

record redis_counter =
  rl_count :: nat
  rl_expires :: "int option"

type_synonym redis_counters = "string \<rightharpoonup> redis_counter"

definition live_counter :: "int \<Rightarrow> string \<Rightarrow> redis_counters \<Rightarrow> redis_counter option" where
  "live_counter now key s = (case s key of None \<Rightarrow> None
     | Some e \<Rightarrow> (case rl_expires e of None \<Rightarrow> Some e | Some t \<Rightarrow> if now \<le> t then Some e else None))"

definition redis_hit :: "nat \<Rightarrow> nat \<Rightarrow> int \<Rightarrow> string \<Rightarrow> redis_counters \<Rightarrow> bool \<times> redis_counters" where
  "redis_hit limit windowMs now key s =
     (let old = live_counter now key s;
          n = (case old of None \<Rightarrow> 1 | Some e \<Rightarrow> rl_count e + 1);
          expires = (case old of None \<Rightarrow> None | Some e \<Rightarrow> rl_expires e);
          expires' = (if n = 1 \<or> expires = None then Some (now + int windowMs) else expires)
      in (n \<le> limit, s(key \<mapsto> \<lparr>rl_count = n, rl_expires = expires'\<rparr>)))"

text \<open>The per-process map, in order of insertion.\<close>

type_synonym memory_counters = "(string \<times> nat \<times> int) list"

definition put :: "string \<Rightarrow> 'v \<Rightarrow> (string \<times> 'v) list \<Rightarrow> (string \<times> 'v) list" where
  "put k v m = (if k \<in> set (map fst m) then map (\<lambda>(k', v'). if k' = k then (k, v) else (k', v')) m else m @ [(k, v)])"

definition memory_hit :: "nat \<Rightarrow> nat \<Rightarrow> int \<Rightarrow> string \<Rightarrow> memory_counters \<Rightarrow> bool \<times> memory_counters" where
  "memory_hit limit windowMs now key m =
     (let fresh = (let m' = put key (1, now + int windowMs) m in (True, if length m' > 10000 then [] else m')) in
      case map_of m key of
        None \<Rightarrow> fresh
      | Some (n, resetAt) \<Rightarrow>
          if resetAt < now then fresh
          else (n + 1 \<le> limit, put key (n + 1, resetAt) m))"

lemma map_of_replace:
  "map_of (map (\<lambda>(k', v'). if k' = k then (k, v) else (k', v')) m) x =
     (if x = k then (if k \<in> fst ` set m then Some v else None) else map_of m x)"
  by (induction m) force+

lemma map_of_put [simp]: "map_of (put k v m) x = ((map_of m)(k \<mapsto> v)) x"
proof (cases "k \<in> fst ` set m")
  case True
  then show ?thesis by (simp add: put_def map_of_replace)
next
  case False
  then have "map_of m k = None" by (simp add: map_of_eq_None_iff)
  then show ?thesis using False by (cases "map_of m x") (auto simp: put_def map_add_def)
qed

lemma dropWhile_from: "sorted (map fst hs) \<Longrightarrow> h \<in> set (dropWhile (\<lambda>h. fst h < from) hs) \<Longrightarrow> (from :: 'a :: linorder) \<le> fst h"
  by (induction hs) (auto split: if_splits)

lemma filter_length_mono: "(\<And>x. P x \<Longrightarrow> Q x) \<Longrightarrow> length (filter P xs) \<le> length (filter Q xs)"
  by (induction xs) auto

section \<open>The contract\<close>

text \<open>\<open>view\<close> shows the counter of a key and when its window ends; an expired counter is not shown.\<close>

locale rate_limiter =
  fixes hit :: "nat \<Rightarrow> nat \<Rightarrow> int \<Rightarrow> string \<Rightarrow> 's \<Rightarrow> bool \<times> 's"
    and view :: "int \<Rightarrow> string \<Rightarrow> 's \<Rightarrow> (nat \<times> int) option"
    and ok :: "'s \<Rightarrow> bool"
  assumes first_hit: "ok s \<Longrightarrow> view now k s = None \<Longrightarrow> 0 < limit \<Longrightarrow> hit limit w now k s = (b, s') \<Longrightarrow>
      b \<and> (\<forall>t. now \<le> t \<longrightarrow> view t k s' = (if t \<le> now + int w then Some (1, now + int w) else None))"
    and next_hit: "ok s \<Longrightarrow> view now k s = Some (c, e) \<Longrightarrow> hit limit w now k s = (b, s') \<Longrightarrow>
      (b \<longleftrightarrow> c + 1 \<le> limit) \<and> (\<forall>t. now \<le> t \<longrightarrow> view t k s' = (if t \<le> e then Some (c + 1, e) else None))"
    and other_key: "ok s \<Longrightarrow> k' \<noteq> k \<Longrightarrow> hit limit w now k s = (b, s') \<Longrightarrow> now \<le> t \<Longrightarrow> view t k' s' = view t k' s"
    and view_end: "view t k s = Some (c, e) \<Longrightarrow> t \<le> e \<and> (\<forall>t'. t \<le> t' \<longrightarrow> view t' k s = (if t' \<le> e then Some (c, e) else None))"
    and view_gone: "view t k s = None \<Longrightarrow> t \<le> t' \<Longrightarrow> view t' k s = None"
begin

text \<open>A run of hits, with what each was answered.\<close>

fun hits :: "nat \<Rightarrow> nat \<Rightarrow> (int \<times> string) list \<Rightarrow> 's \<Rightarrow> (int \<times> string \<times> bool) list" where
  "hits limit w [] s = []"
| "hits limit w ((t, k) # hs) s = (case hit limit w t k s of (b, s') \<Rightarrow> (t, k, b) # hits limit w hs s')"

fun all_ok :: "nat \<Rightarrow> nat \<Rightarrow> (int \<times> string) list \<Rightarrow> 's \<Rightarrow> bool" where
  "all_ok limit w [] s = True"
| "all_ok limit w ((t, k) # hs) s = (ok s \<and> all_ok limit w hs (snd (hit limit w t k s)))"

abbreviation admitted_by :: "int \<Rightarrow> string \<Rightarrow> (int \<times> string \<times> bool) list \<Rightarrow> (int \<times> string \<times> bool) list" where
  "admitted_by b k rs \<equiv> filter (\<lambda>(t, k', a). a \<and> k' = k \<and> t \<le> b) rs"

text \<open>Inside a running window only the rest of the limit is admitted.\<close>

lemma rest_of_window:
  assumes "all_ok limit w hs s" "sorted (map fst hs)" "\<forall>h\<in>set hs. now \<le> fst h" "view now k s = Some (c, e)" "b \<le> e"
  shows "length (admitted_by b k (hits limit w hs s)) \<le> limit - c"
  using assms
proof (induction hs arbitrary: s now c)
  case (Cons h hs)
  obtain t k' where h: "h = (t, k')" by force
  obtain a s' where run: "hit limit w t k' s = (a, s')" by force
  have ok: "ok s" and ok': "all_ok limit w hs s'" using Cons.prems(1) run by (auto simp: h)
  have times: "sorted (map fst hs)" "\<forall>x\<in>set hs. t \<le> fst x" "now \<le> t" using Cons.prems(2,3) by (auto simp: h)
  have later: "view t k s = (if t \<le> e then Some (c, e) else None)" using view_end [OF Cons.prems(4)] times(3) by simp
  show ?case
  proof (cases "t \<le> b")
    case False
    then have "\<forall>x\<in>set hs. \<not> fst x \<le> b" using times(2) by fastforce
    then have "admitted_by b k (hits limit w hs s') = []"
      by (induction hs arbitrary: s') (auto split: prod.splits)
    then show ?thesis using False run by (simp add: h)
  next
    case True
    then have view: "view t k s = Some (c, e)" using later Cons.prems(5) by simp
    show ?thesis
    proof (cases "k' = k")
      case True
      note n = next_hit [OF ok view, of limit w a s'] run True
      have "view t k s' = Some (c + 1, e)" using n view_end [OF view] by simp
      from Cons.IH [OF ok' times(1,2) this Cons.prems(5)] show ?thesis using n by (auto simp: h)
    next
      case False
      have "view t k s' = Some (c, e)" using other_key [OF ok _ run, of k t] False view by simp
      from Cons.IH [OF ok' times(1,2) this Cons.prems(5)] show ?thesis using run False by (simp add: h)
    qed
  qed
qed simp

text \<open>From a time on, the window running then and one more admit hits before the next has to end.\<close>

lemma two_windows:
  assumes "all_ok limit w hs s" "sorted (map fst hs)" "\<forall>h\<in>set hs. now \<le> fst h" "b \<le> now + int w" "0 < limit"
  shows "length (admitted_by b k (hits limit w hs s)) \<le> (case view now k s of None \<Rightarrow> limit | Some (c, e) \<Rightarrow> (limit - c) + limit)"
  using assms
proof (induction hs arbitrary: s now)
  case (Cons h hs)
  obtain t k' where h: "h = (t, k')" by force
  obtain a s' where run: "hit limit w t k' s = (a, s')" by force
  have ok: "ok s" and ok': "all_ok limit w hs s'" using Cons.prems(1) run by (auto simp: h)
  have times: "sorted (map fst hs)" "\<forall>x\<in>set hs. t \<le> fst x" "now \<le> t" using Cons.prems(2,3) by (auto simp: h)
  have b: "b \<le> t + int w" using Cons.prems(4) times(3) by simp
  note IH = Cons.IH [OF ok' times(1,2) b Cons.prems(5)]
  show ?case
  proof (cases "k' = k")
    case False
    have "view t k s' = view t k s" using other_key [OF ok _ run, of k t] False by simp
    moreover have "(case view t k s of None \<Rightarrow> limit | Some (c, e) \<Rightarrow> limit - c + limit) \<le>
        (case view now k s of None \<Rightarrow> limit | Some (c, e) \<Rightarrow> limit - c + limit)"
      using view_gone [of now k s t] view_end [of now k s] times(3) by (auto split: option.splits)
    ultimately show ?thesis using IH run False by (auto simp: h)
  next
    case True
    show ?thesis
    proof (cases "view t k s")
      case None
      note n = first_hit [OF ok None Cons.prems(5), of w a s'] run True
      have "view t k s' = Some (1, t + int w)" using n by simp
      from rest_of_window [OF ok' times(1,2) this b]
      have "length (admitted_by b k (hits limit w ((t, k) # hs) s)) \<le> limit"
        using n Cons.prems(5) by (auto split: prod.splits)
      then show ?thesis using True by (auto simp: h split: option.splits)
    next
      case (Some ce)
      obtain c e where ce: "ce = (c, e)" by force
      have now: "view now k s = Some (c, e)"
      proof (cases "view now k s")
        case None
        then show ?thesis using view_gone [OF None times(3)] Some by simp
      next
        case (Some ce')
        obtain c' e' where "ce' = (c', e')" by force
        then show ?thesis using view_end [of now k s c' e'] Some \<open>view t k s = Some ce\<close> ce times(3) by (auto split: if_splits)
      qed
      note n = next_hit [OF ok Some [unfolded ce], of limit w a s'] run True
      have "view t k s' = Some (c + 1, e)" using n view_end [OF Some [unfolded ce]] by simp
      then show ?thesis using IH n now by (auto simp: h)
    qed
  qed
qed (auto split: option.splits)

lemma hits_append: "\<exists>s'. hits limit w (xs @ ys) s = hits limit w xs s @ hits limit w ys s' \<and> (all_ok limit w (xs @ ys) s \<longrightarrow> all_ok limit w ys s')"
proof (induction xs arbitrary: s)
  case (Cons x xs)
  obtain t k where x: "x = (t, k)" by force
  obtain b s1 where run: "hit limit w t k s = (b, s1)" by force
  from Cons [of s1] show ?case by (auto simp: x run)
qed auto

lemma hits_times: "map (\<lambda>(t, k, b). (t, k)) (hits limit w hs s) = hs"
  by (induction hs arbitrary: s) (auto split: prod.splits)

lemma interval_bound:
  assumes "all_ok limit w hs s" "sorted (map fst hs)" "0 < limit"
  shows "length (filter (\<lambda>(t, k', a). a \<and> k' = k \<and> from \<le> t \<and> t \<le> from + int w) (hits limit w hs s)) \<le> 2 * limit"
proof -
  let ?old = "takeWhile (\<lambda>h. fst h < from) hs" and ?new = "dropWhile (\<lambda>h. fst h < from) hs"
  have split: "hs = ?old @ ?new" by simp
  obtain s' where s': "hits limit w hs s = hits limit w ?old s @ hits limit w ?new s'" "all_ok limit w ?new s'"
    using hits_append [of limit w ?old ?new s] assms(1) by auto
  have "sorted (map fst (?old @ ?new))" using assms(2) by simp
  then have new: "sorted (map fst ?new)" unfolding map_append sorted_append by blast
  have ge: "\<forall>h\<in>set ?new. from \<le> fst h" using dropWhile_from [OF assms(2)] by blast
  have "t < from" if "(t, k', a) \<in> set (hits limit w ?old s)" for t k' a
  proof -
    have "(t, k') \<in> set ?old" using that hits_times [of limit w ?old s] by (metis (mono_tags, lifting) case_prod_conv image_eqI image_set)
    then show ?thesis using set_takeWhileD by fastforce
  qed
  then have "filter (\<lambda>(t, k', a). a \<and> k' = k \<and> from \<le> t \<and> t \<le> from + int w) (hits limit w ?old s) = []"
    by (fastforce simp: filter_empty_conv)
  then have "length (filter (\<lambda>(t, k', a). a \<and> k' = k \<and> from \<le> t \<and> t \<le> from + int w) (hits limit w hs s)) \<le>
      length (admitted_by (from + int w) k (hits limit w ?new s'))"
    by (simp add: s'(1)) (rule filter_length_mono, auto)
  also have "\<dots> \<le> (case view from k s' of None \<Rightarrow> limit | Some (c, e) \<Rightarrow> (limit - c) + limit)"
    by (rule two_windows [OF s'(2) new ge order_refl assms(3)])
  also have "\<dots> \<le> 2 * limit" by (auto split: option.splits)
  finally show ?thesis .
qed

end

section \<open>Both stores\<close>

definition redis_view :: "int \<Rightarrow> string \<Rightarrow> redis_counters \<Rightarrow> (nat \<times> int) option" where
  "redis_view now k s = (case live_counter now k s of None \<Rightarrow> None
     | Some c \<Rightarrow> (case rl_expires c of None \<Rightarrow> None | Some e \<Rightarrow> Some (rl_count c, e)))"

definition memory_view :: "int \<Rightarrow> string \<Rightarrow> memory_counters \<Rightarrow> (nat \<times> int) option" where
  "memory_view now k m = (case map_of m k of None \<Rightarrow> None | Some (c, e) \<Rightarrow> if now \<le> e then Some (c, e) else None)"

text \<open>The scripts never leave a counter without an expiry.\<close>

definition redis_ok :: "redis_counters \<Rightarrow> bool" where
  "redis_ok s = (\<forall>k c. s k = Some c \<longrightarrow> rl_expires c \<noteq> None \<and> 0 < rl_count c)"

text \<open>The per-process map forgets everything when it would hold more than 10,000 keys.\<close>

definition counters_ok :: "memory_counters \<Rightarrow> bool" where
  "counters_ok m = (length m < 10000)"

lemma redis_hit_ok: "redis_ok s \<Longrightarrow> redis_ok (snd (redis_hit limit w now k s))"
  by (auto simp: redis_hit_def redis_ok_def Let_def split: option.splits)

lemma put_length: "length (put k v m) \<le> Suc (length m)"
  by (simp add: put_def)

lemma redis_view_ok: "redis_ok s \<Longrightarrow> redis_view now k s = (case live_counter now k s of None \<Rightarrow> None | Some c \<Rightarrow> Some (rl_count c, the (rl_expires c)))"
  by (fastforce simp: redis_view_def redis_ok_def live_counter_def split: option.splits)

interpretation redis_limiter: rate_limiter redis_hit redis_view redis_ok
proof
  fix s now k and limit w :: nat and b s'
  assume a: "redis_ok s" "redis_view now k s = None" "0 < limit" "redis_hit limit w now k s = (b, s')"
  then have "live_counter now k s = None" by (simp add: redis_view_ok split: option.splits)
  then show "b \<and> (\<forall>t. now \<le> t \<longrightarrow> redis_view t k s' = (if t \<le> now + int w then Some (1, now + int w) else None))"
    using a(3,4) by (auto simp: redis_hit_def Let_def redis_view_def live_counter_def)
next
  fix s now k c e and limit w :: nat and b s'
  assume a: "redis_ok s" "redis_view now k s = Some (c, e)" "redis_hit limit w now k s = (b, s')"
  then obtain r where r: "live_counter now k s = Some r" "rl_count r = c" "rl_expires r = Some e"
    by (auto simp: redis_view_def split: option.splits)
  then have "0 < c" using a(1) by (auto simp: redis_ok_def live_counter_def split: option.splits if_splits)
  then have "(b \<longleftrightarrow> c + 1 \<le> limit) \<and> s' = s(k \<mapsto> \<lparr>rl_count = c + 1, rl_expires = Some e\<rparr>)"
    using a(3) r by (auto simp: redis_hit_def Let_def)
  then show "(b \<longleftrightarrow> c + 1 \<le> limit) \<and> (\<forall>t. now \<le> t \<longrightarrow> redis_view t k s' = (if t \<le> e then Some (c + 1, e) else None))"
    by (auto simp: redis_view_def live_counter_def)
next
  fix s k' k and limit w :: nat and now b s' t
  assume "k' \<noteq> k" "redis_hit limit w now k s = (b, s')"
  then show "redis_view t k' s' = redis_view t k' s"
    by (auto simp: redis_hit_def Let_def redis_view_def live_counter_def)
qed (auto simp: redis_hit_def Let_def redis_view_def live_counter_def split: option.splits if_splits)

interpretation memory_limiter: rate_limiter memory_hit memory_view counters_ok
proof
  fix m now k and limit w :: nat and b m'
  assume a: "counters_ok m" "memory_view now k m = None" "0 < limit" "memory_hit limit w now k m = (b, m')"
  have "\<not> length (put k (1 :: nat, now + int w) m) > 10000"
    using put_length [of k "(1, now + int w)" m] a(1) by (simp add: counters_ok_def)
  then have "b" "m' = put k (1, now + int w) m"
    using a(2,4) by (auto simp: memory_hit_def memory_view_def Let_def split: option.splits if_splits)
  then show "b \<and> (\<forall>t. now \<le> t \<longrightarrow> memory_view t k m' = (if t \<le> now + int w then Some (1, now + int w) else None))"
    by (auto simp: memory_view_def)
next
  fix m k' k and limit w :: nat and now b m' t
  assume a: "counters_ok m" "k' \<noteq> k" "memory_hit limit w now k m = (b, m')"
  have "\<not> length (put k v m) > 10000" for v using put_length [of k v m] a(1) by (simp add: counters_ok_def)
  then show "memory_view t k' m' = memory_view t k' m"
    using a(2,3) by (auto simp: memory_hit_def memory_view_def Let_def split: option.splits if_splits)
qed (auto simp: memory_hit_def memory_view_def Let_def split: option.splits if_splits)

section \<open>The properties\<close>

text \<open>C35: From any Redis state the scripts leave, and whatever other keys are hit in between: within any
  interval as long as a window, at most twice the limit of hits of one key is admitted.\<close>

theorem rate_limit_bound:
  assumes "redis_ok s" "sorted (map fst hs)" "0 < limit"
  shows "length (filter (\<lambda>(t, k', a). a \<and> k' = k \<and> from \<le> t \<and> t \<le> from + int w) (redis_limiter.hits limit w hs s)) \<le> 2 * limit"
proof -
  have "redis_limiter.all_ok limit w hs s"
    using assms(1) redis_hit_ok by (induction hs arbitrary: s) auto
  then show ?thesis using redis_limiter.interval_bound assms(2,3) by blast
qed

text \<open>The per-process counters stand in for Redis: while they hold fewer than 10,000 keys, a hit is
  answered as by Redis and both show the same windows afterwards.\<close>

theorem memory_counts_like_redis:
  assumes "counters_ok m" "redis_ok s" "0 < limit" "\<And>t k'. now \<le> t \<Longrightarrow> memory_view t k' m = redis_view t k' s"
    and "memory_hit limit w now k m = (b, m')" "redis_hit limit w now k s = (b', s')"
  shows "b = b' \<and> redis_ok s' \<and> (\<forall>t k'. now \<le> t \<longrightarrow> memory_view t k' m' = redis_view t k' s')"
proof -
  have other: "memory_view t k' m' = redis_view t k' s'" if "now \<le> t" "k' \<noteq> k" for t k'
    using memory_limiter.other_key [OF assms(1) that(2) assms(5) that(1)] redis_limiter.other_key [OF assms(2) that(2) assms(6) that(1)]
      assms(4) [OF that(1)] by simp
  have "b = b' \<and> (\<forall>t. now \<le> t \<longrightarrow> memory_view t k m' = redis_view t k s')"
  proof (cases "redis_view now k s")
    case None
    then have m: "memory_view now k m = None" using assms(4) by simp
    show ?thesis using memory_limiter.first_hit [OF assms(1) m assms(3,5)] redis_limiter.first_hit [OF assms(2) None assms(3,6)] by simp
  next
    case (Some ce)
    obtain c e where r: "redis_view now k s = Some (c, e)" using Some by (cases ce) auto
    then have m: "memory_view now k m = Some (c, e)" using assms(4) by simp
    show ?thesis using memory_limiter.next_hit [OF assms(1) m assms(5)] redis_limiter.next_hit [OF assms(2) r assms(6)] by simp
  qed
  then show ?thesis using other redis_hit_ok [OF assms(2), of limit w now k] assms(6) by (metis snd_conv)
qed

theorem rate_limit_bound_witness:
  "length (filter (\<lambda>(t, k', a). a \<and> k' = ''k'' \<and> 60 \<le> t \<and> t \<le> 60 + int 100)
     (redis_limiter.hits 1 100 [(0, ''k''), (60, ''k''), (101, ''k'')] (\<lambda>_. None))) \<le> 2 * 1"
  by (rule rate_limit_bound) (simp_all add: redis_ok_def)

theorem memory_counts_like_redis_witness:
  "fst (memory_hit 1 100 5 ''k'' []) = fst (redis_hit 1 100 5 ''k'' (\<lambda>_. None))"
  using memory_counts_like_redis [OF _ _ _ _ prod.collapse [symmetric] prod.collapse [symmetric], of "[]" "\<lambda>_. None" 1 5 100 "''k''"]
  by (simp add: counters_ok_def redis_ok_def memory_view_def redis_view_def live_counter_def)

text \<open>The limit of one window holds only per window: hits around its end may reach twice the limit.\<close>

lemma twice_the_limit:
  "redis_limiter.hits 1 100 [(0, ''k''), (101, ''k''), (102, ''k'')] (\<lambda>_. None) = [(0, ''k'', True), (101, ''k'', True), (102, ''k'', False)]"
  by (simp add: redis_hit_def live_counter_def)

text \<open>A window that fills the map clears the counters of all other keys, which start again.\<close>

lemma full_map_forgets:
  assumes "length m = 10000" "k \<notin> set (map fst m)"
  shows "memory_hit limit w now k m = (True, [])"
  using assms by (simp add: memory_hit_def put_def map_of_eq_None_iff [THEN iffD2])

end
