(* ===== verification/Bytes.thy ===== *)
theory Bytes
  imports JsonText
begin

text \<open>
  The byte encodings of Node's \<open>Buffer\<close> the program uses: UTF-8 of texts (of code points below 256),
  hexadecimal, and base64 in its two alphabets; and on top of them the page cursors of
  \<open>packages/contracts/src/api/pagination.ts\<close>. A byte is a HOL character.
\<close>

type_synonym bytes = "char list"

section \<open>UTF-8\<close>

definition utf8_char :: "char \<Rightarrow> bytes" where
  "utf8_char c = (let n = of_char c :: nat in if n < 128 then [c] else [char_of (192 + n div 64), char_of (128 + n mod 64)])"

definition utf8 :: "string \<Rightarrow> bytes" where
  "utf8 s = concat (map utf8_char s)"

text \<open>Bytes that are not the UTF-8 of such a text decode to characters outside of the model.\<close>

fun from_utf8 :: "bytes \<Rightarrow> string option" where
  "from_utf8 [] = Some []"
| "from_utf8 (b # bs) = (let n = of_char b :: nat in
     if n < 128 then map_option ((#) b) (from_utf8 bs)
     else (case bs of
             d # ds \<Rightarrow> (let m = of_char d :: nat in
               if 194 \<le> n \<and> n < 196 \<and> 128 \<le> m \<and> m < 192
               then map_option ((#) (char_of (64 * (n - 192) + (m - 128)))) (from_utf8 ds) else None)
           | [] \<Rightarrow> None))"

lemma utf8_simps [simp]: "utf8 [] = []" "utf8 (c # s) = utf8_char c @ utf8 s"
  by (simp_all add: utf8_def)

lemma of_char_less: "(of_char c :: nat) < 256"
  by simp

lemma from_utf8_char: "from_utf8 (utf8_char c @ bs) = map_option ((#) c) (from_utf8 bs)"
proof (cases "(of_char c :: nat) < 128")
  case True
  then show ?thesis by (simp add: utf8_char_def)
next
  case False
  let ?n = "of_char c :: nat"
  have q: "?n div 64 = 2 \<or> ?n div 64 = 3" using False of_char_less [of c] by linarith
  have "char_of (64 * (?n div 64) + ?n mod 64) = c" by (simp add: mult_div_mod_eq)
  moreover have "(192 + ?n div 64) mod 256 = 192 + ?n div 64" "(128 + ?n mod 64) mod 256 = 128 + ?n mod 64"
    using q by auto
  ultimately show ?thesis using False q by (auto simp: utf8_char_def Let_def of_char_of)
qed

lemma from_utf8_utf8 [simp]: "from_utf8 (utf8 s) = Some s"
  by (induction s) (simp_all add: from_utf8_char del: from_utf8.simps(2))

section \<open>Base64\<close>

text \<open>Three bytes are four sextets; the last group may be short.\<close>

fun sextets :: "nat list \<Rightarrow> nat list" where
  "sextets [] = []"
| "sextets [a] = [a div 4, a mod 4 * 16]"
| "sextets [a, b] = [a div 4, a mod 4 * 16 + b div 16, b mod 16 * 4]"
| "sextets (a # b # c # r) = [a div 4, a mod 4 * 16 + b div 16, b mod 16 * 4 + c div 64, c mod 64] @ sextets r"

fun octets :: "nat list \<Rightarrow> nat list" where
  "octets (p # q # r # s # t) = [p * 4 + q div 16, q mod 16 * 16 + r div 4, r mod 4 * 64 + s] @ octets t"
| "octets [p, q, r] = [p * 4 + q div 16, q mod 16 * 16 + r div 4]"
| "octets [p, q] = [p * 4 + q div 16]"
| "octets _ = []"

definition b64_char :: "bool \<Rightarrow> nat \<Rightarrow> char" where
  "b64_char url n =
     (if n < 26 then char_of (65 + n)
      else if n < 52 then char_of (71 + n)
      else if n < 62 then char_of (n - 4)
      else if n = 62 then (if url then CHR ''-'' else CHR ''+'')
      else (if url then CHR ''_'' else CHR ''/''))"

text \<open>The decoder accepts both alphabets and skips every other character.\<close>

definition b64_val :: "char \<Rightarrow> nat option" where
  "b64_val c = (let n = of_char c :: nat in
     if 65 \<le> n \<and> n \<le> 90 then Some (n - 65)
     else if 97 \<le> n \<and> n \<le> 122 then Some (n - 71)
     else if 48 \<le> n \<and> n \<le> 57 then Some (n + 4)
     else if c \<in> {CHR ''+'', CHR ''-''} then Some 62
     else if c \<in> {CHR ''/'', CHR ''_''} then Some 63 else None)"

definition to_base64url :: "bytes \<Rightarrow> string" where
  "to_base64url bs = map (b64_char True) (sextets (map of_char bs))"

definition to_base64 :: "bytes \<Rightarrow> string" where
  "to_base64 bs = map (b64_char False) (sextets (map of_char bs)) @ replicate ((3 - length bs mod 3) mod 3) (CHR ''='')"

definition from_base64 :: "string \<Rightarrow> bytes" where
  "from_base64 s = map char_of (octets (List.map_filter b64_val s))"

lemma b64_special [simp]: "b64_val (CHR ''+'') = Some 62" "b64_val (CHR ''-'') = Some 62" "b64_val (CHR ''/'') = Some 63" "b64_val (CHR ''_'') = Some 63"
  by (simp_all add: b64_val_def)

lemma b64_inverse:
  assumes "n < 64"
  shows "b64_val (b64_char url n) = Some n"
proof -
  consider "n < 26" | "26 \<le> n" "n < 52" | "48 \<le> n - 4" "n - 4 \<le> 57" "52 \<le> n" "n < 62" | "n = 62" | "n = 63" using assms by linarith
  then show ?thesis by cases (simp_all add: b64_char_def b64_val_def of_char_of Let_def)
qed

lemma sextets_small: "list_all (\<lambda>b. b < 256) bs \<Longrightarrow> n \<in> set (sextets bs) \<Longrightarrow> n < 64"
proof (induction bs rule: sextets.induct)
  case (4 a b c r)
  have "a mod 4 * 16 + b div 16 < 64" "b mod 16 * 4 + c div 64 < 64" "c mod 64 < 64" "a div 4 < 64"
    using 4(2) by simp_all linarith+
  then show ?case using 4 by auto
next
  case (3 a b)
  have "a mod 4 * 16 + b div 16 < 64" "b mod 16 * 4 < 64" "a div 4 < 64"
    using 3(1) by simp_all linarith+
  then show ?case using 3 by auto
next
  case (2 a)
  have "a mod 4 * 16 < 64" "a div 4 < 64" using 2(1) by auto
  then show ?case using 2 by auto
qed simp

lemma group_first: "(b :: nat) < 256 \<Longrightarrow> a div 4 * 4 + (a mod 4 * 16 + b div 16) div 16 = a"
proof -
  assume "b < 256"
  then have "(a mod 4 * 16 + b div 16) div 16 = a mod 4" by simp
  then show ?thesis by simp
qed

lemma group_second: "(b :: nat) < 256 \<Longrightarrow> c < 256 \<Longrightarrow> (a mod 4 * 16 + b div 16) mod 16 * 16 + (b mod 16 * 4 + c div 64) div 4 = b"
proof -
  assume "b < 256" "c < 256"
  then have "(a mod 4 * 16 + b div 16) mod 16 = b div 16" "(b mod 16 * 4 + c div 64) div 4 = b mod 16" by simp_all
  then show ?thesis by simp
qed

lemma group_third: "(c :: nat) < 256 \<Longrightarrow> (b mod 16 * 4 + c div 64) mod 4 * 64 + c mod 64 = c"
proof -
  assume "c < 256"
  then have "(b mod 16 * 4 + c div 64) mod 4 = c div 64" by simp
  then show ?thesis by simp
qed

lemma octets_sextets: "list_all (\<lambda>b. b < 256) bs \<Longrightarrow> octets (sextets bs) = bs"
proof (induction bs rule: sextets.induct)
  case (4 a b c r)
  then show ?case using group_first [of b a] group_second [of b c a] group_third [of c b] by simp
next
  case (3 a b)
  then show ?case using group_first [of b a] group_second [of b 0 a] by simp
next
  case (2 a)
  then show ?case using group_first [of 0 a] by simp
qed simp

lemma values_of_chars: "\<forall>n\<in>set ns. n < 64 \<Longrightarrow> List.map_filter b64_val (map (b64_char url) ns) = ns"
  by (induction ns) (simp_all add: List.map_filter_def b64_inverse)

lemma values_of_padding: "List.map_filter b64_val (s @ replicate k (CHR ''='')) = List.map_filter b64_val s"
proof -
  have "b64_val (CHR ''='') = None" by code_simp
  then show ?thesis by (induction k arbitrary: s) (simp_all add: List.map_filter_def)
qed

lemma byte_values: "list_all (\<lambda>b. b < 256) (map (of_char :: char \<Rightarrow> nat) bs)"
  by (simp add: list_all_iff)

lemma from_base64_sextets: "List.map_filter b64_val (map (b64_char url) (sextets (map of_char bs))) = sextets (map of_char bs)"
  using sextets_small [OF byte_values] by (intro values_of_chars) blast

lemma from_to_base64 [simp]: "from_base64 (to_base64 bs) = bs"
  by (simp add: from_base64_def to_base64_def values_of_padding from_base64_sextets octets_sextets byte_values comp_def)

lemma from_to_base64url [simp]: "from_base64 (to_base64url bs) = bs"
  by (simp add: from_base64_def to_base64url_def from_base64_sextets octets_sextets byte_values comp_def)

lemma to_base64_empty [simp]: "to_base64 bs = [] \<longleftrightarrow> bs = []"
proof
  assume "to_base64 bs = []"
  then have "from_base64 (to_base64 bs) = from_base64 []" by simp
  then show "bs = []" unfolding from_to_base64 by (simp add: from_base64_def List.map_filter_def)
qed (simp add: to_base64_def)

section \<open>Hexadecimal\<close>

text \<open>\<open>Buffer.from(s, 'hex')\<close> stops at the first pair that is not hexadecimal.\<close>

fun from_hex :: "string \<Rightarrow> bytes" where
  "from_hex (h # l # r) = (case (hex_val h, hex_val l) of
     (Some a, Some b) \<Rightarrow> char_of (16 * a + b) # from_hex r
   | _ \<Rightarrow> [])"
| "from_hex _ = []"

definition to_hex :: "bytes \<Rightarrow> string" where
  "to_hex bs = concat (map (\<lambda>b. [hex_digit (of_char b div 16), hex_digit (of_char b mod 16)]) bs)"

lemma from_to_hex [simp]: "from_hex (to_hex bs) = bs"
proof (induction bs)
  case (Cons b bs)
  have "(of_char b :: nat) div 16 < 16" using of_char_less [of b] by linarith
  then show ?case using Cons by (simp add: to_hex_def hex_val_digit)
qed (simp add: to_hex_def)

section \<open>Cursors\<close>

definition encodeCursor :: "(string \<times> json) list \<Rightarrow> string" where
  "encodeCursor p = to_base64url (utf8 (stringify (JObj p)))"

definition decodeCursor :: "string \<Rightarrow> json option" where
  "decodeCursor c = (case from_utf8 (from_base64 c) of None \<Rightarrow> None | Some s \<Rightarrow> parse_json s)"

text \<open>Characters that stand for themselves in a URL.\<close>

definition url_safe :: "char \<Rightarrow> bool" where
  "url_safe c = (let n = of_char c :: nat in (65 \<le> n \<and> n \<le> 90) \<or> (97 \<le> n \<and> n \<le> 122) \<or> (48 \<le> n \<and> n \<le> 57) \<or> n = 45 \<or> n = 95)"

lemma b64url_safe:
  assumes "n < 64"
  shows "url_safe (b64_char True n)"
proof -
  consider "n < 26" | "26 \<le> n" "n < 52" | "48 \<le> n - 4" "n - 4 \<le> 57" "52 \<le> n" "n < 62" | "n = 62" | "n = 63" using assms by linarith
  then show ?thesis by cases (simp_all add: b64_char_def url_safe_def of_char_of Let_def)
qed

lemma base64url_safe: "list_all url_safe (to_base64url bs)"
  using sextets_small [OF byte_values] b64url_safe by (auto simp: to_base64url_def list_all_iff)

lemma decode_encode_cursor: "plain (JObj p) \<Longrightarrow> decodeCursor (encodeCursor p) = Some (JObj p)"
  unfolding decodeCursor_def encodeCursor_def from_to_base64url from_utf8_utf8 option.case by (rule plain_text_parsed)

text \<open>C40: A page cursor decodes to the payload it was made of, for every payload of the program's values,
  and consists of characters that need no escaping in a URL.
\<close>

theorem cursor_roundtrip:
  assumes "plain (JObj p)"
  shows "decodeCursor (encodeCursor p) = Some (JObj p) \<and> list_all url_safe (encodeCursor p)"
  using decode_encode_cursor [OF assms] base64url_safe by (simp add: encodeCursor_def)

theorem cursor_roundtrip_witness:
  "decodeCursor (encodeCursor [(''id'', JStr ''cm1''), (''at'', JNum 1700000000)]) = Some (JObj [(''id'', JStr ''cm1''), (''at'', JNum 1700000000)]) \<and>
   list_all url_safe (encodeCursor [(''id'', JStr ''cm1''), (''at'', JNum 1700000000)])"
  by (rule cursor_roundtrip) code_simp

end
