(* ===== verification/Cipher.thy ===== *)
theory Cipher
  imports Bytes Providers
begin

text \<open>
  Secrets at rest: the AES-256-GCM cipher with its key ring
  (\<open>packages/shared/src/crypto/credential-cipher.ts\<close>), the sealed credentials of a channel and what
  of them is shown (\<open>packages/channel-adapters/src/credentials/credential-store.ts\<close>, with the
  envelope of \<open>packages/contracts/src/security/credential-envelope.ts\<close>). AES-GCM, HKDF, the random
  vector, the clock and the date-time check of the schema library are parameters.
\<close>

section \<open>Keys\<close>

text \<open>The last error stands for decrypted texts with characters outside of the model.\<close>

datatype cipher_error = CredentialCipherError string | JsonSyntaxError | OutsideModel

definition KEY_BYTES :: nat where
  "KEY_BYTES = 32"

definition hex_key :: "string \<Rightarrow> bool" where
  "hex_key v = (length v = 64 \<and> list_all (\<lambda>c. hex_val c \<noteq> None) v)"

definition parseEncryptionKey :: "string \<Rightarrow> cipher_error + bytes" where
  "parseEncryptionKey raw = (let v = trim raw; key = (if hex_key v then from_hex v else from_base64 v) in
     if length key \<noteq> KEY_BYTES then Inl (CredentialCipherError
       ''Encryption key must be 32 bytes, encoded as base64 or hex (generate one with: openssl rand -base64 32).'')
     else Inr key)"

text \<open>\<open>kid:key,kid:key\<close>.\<close>

fun previous_entries :: "string list \<Rightarrow> (string \<rightharpoonup> bytes) \<Rightarrow> cipher_error + (string \<rightharpoonup> bytes)" where
  "previous_entries [] keys = Inr keys"
| "previous_entries (entry # es) keys = (let trimmed = trim entry in
     if trimmed = [] then previous_entries es keys
     else (let kid = takeWhile (\<lambda>c. c \<noteq> CHR '':'') trimmed in
       if CHR '':'' \<notin> set trimmed \<or> kid = []
       then Inl (CredentialCipherError ''ENCRYPTION_PREVIOUS_KEYS entries must look like kid:base64key'')
       else bindR (parseEncryptionKey (drop (length kid + 1) trimmed)) (\<lambda>key. previous_entries es (keys(kid \<mapsto> key)))))"

definition parsePreviousKeys :: "string option \<Rightarrow> cipher_error + (string \<rightharpoonup> bytes)" where
  "parsePreviousKeys raw = (case raw of
     None \<Rightarrow> Inr Map.empty
   | Some s \<Rightarrow> if s = [] then Inr Map.empty else previous_entries (split_on (CHR '','') s) Map.empty)"

record cipher =
  cc_activeKeyId :: string
  cc_keys :: "string \<rightharpoonup> bytes"

definition new_cipher :: "string \<Rightarrow> bytes \<Rightarrow> (string \<rightharpoonup> bytes) \<Rightarrow> cipher_error + cipher" where
  "new_cipher kid key previous =
     (if length key \<noteq> KEY_BYTES then Inl (CredentialCipherError ''Active encryption key must be 32 bytes.'')
      else Inr \<lparr>cc_activeKeyId = kid, cc_keys = previous(kid \<mapsto> key)\<rparr>)"

record cipher_env =
  ENCRYPTION_MASTER_KEY :: "string option"
  ENCRYPTION_KEY_ID :: "string option"
  ENCRYPTION_PREVIOUS_KEYS :: "string option"

definition fromEnv :: "cipher_env \<Rightarrow> cipher_error + cipher option" where
  "fromEnv env = (case ENCRYPTION_MASTER_KEY env of
     None \<Rightarrow> Inr None
   | Some master \<Rightarrow> if master = [] then Inr None else
       bindR (parseEncryptionKey master) (\<lambda>key.
       bindR (parsePreviousKeys (ENCRYPTION_PREVIOUS_KEYS env)) (\<lambda>previous.
       bindR (new_cipher (case ENCRYPTION_KEY_ID env of None \<Rightarrow> ''v1'' | Some k \<Rightarrow> if k = [] then ''v1'' else k) key previous)
         (\<lambda>c. Inr (Some c)))))"

definition requireKey :: "cipher \<Rightarrow> string \<Rightarrow> cipher_error + bytes" where
  "requireKey c kid = (case cc_keys c kid of
     Some key \<Rightarrow> Inr key
   | None \<Rightarrow> Inl (CredentialCipherError (''No encryption key is configured for key ID '' @ [CHR 0x22] @ kid @ [CHR 0x22] @
       ''. Add it to ENCRYPTION_PREVIOUS_KEYS.'')))"

section \<open>Encryption\<close>

text \<open>AES-256-GCM: sealing takes key, vector, associated data and plain text and gives the cipher
  text and its tag; opening returns nothing when the tag does not verify or an input is malformed.\<close>

type_synonym gcm_seal = "bytes \<Rightarrow> bytes \<Rightarrow> bytes \<Rightarrow> bytes \<Rightarrow> bytes \<times> bytes"
type_synonym gcm_open = "bytes \<Rightarrow> bytes \<Rightarrow> bytes \<Rightarrow> bytes \<Rightarrow> bytes \<Rightarrow> bytes option"

text \<open>What the standard says of them: an authentic pair opens to its plain text and no other pair
  opens, the cipher text is as long as the plain text, the tag has 16 bytes.\<close>

definition gcm_laws :: "gcm_seal \<Rightarrow> gcm_open \<Rightarrow> bool" where
  "gcm_laws seal gopen = (\<forall>key iv aad p. length key = KEY_BYTES \<longrightarrow> length iv = 12 \<longrightarrow>
     length (fst (seal key iv aad p)) = length p \<and> length (snd (seal key iv aad p)) = 16 \<and>
     (\<forall>ct tag. gopen key iv aad tag ct = Some p \<longleftrightarrow> seal key iv aad p = (ct, tag)))"

record encrypted_value =
  ev_keyId :: string
  ev_iv :: string
  ev_tag :: string
  ev_ciphertext :: string

definition encrypt :: "gcm_seal \<Rightarrow> bytes \<Rightarrow> cipher \<Rightarrow> string \<Rightarrow> string \<Rightarrow> cipher_error + encrypted_value" where
  "encrypt seal iv c plaintext aad = bindR (requireKey c (cc_activeKeyId c)) (\<lambda>key.
     let (ct, tag) = seal key iv (utf8 aad) (utf8 plaintext) in
     Inr \<lparr>ev_keyId = cc_activeKeyId c, ev_iv = to_base64 iv, ev_tag = to_base64 tag, ev_ciphertext = to_base64 ct\<rparr>)"

definition decrypt :: "gcm_open \<Rightarrow> cipher \<Rightarrow> encrypted_value \<Rightarrow> string \<Rightarrow> cipher_error + string" where
  "decrypt gopen c v aad = bindR (requireKey c (ev_keyId v)) (\<lambda>key.
     case gopen key (from_base64 (ev_iv v)) (utf8 aad) (from_base64 (ev_tag v)) (from_base64 (ev_ciphertext v)) of
       None \<Rightarrow> Inl (CredentialCipherError ''Stored secret could not be decrypted (wrong key, tampered data, or record mismatch).'')
     | Some p \<Rightarrow> (case from_utf8 p of None \<Rightarrow> Inl OutsideModel | Some s \<Rightarrow> Inr s))"

definition encryptJson :: "gcm_seal \<Rightarrow> bytes \<Rightarrow> cipher \<Rightarrow> json \<Rightarrow> string \<Rightarrow> cipher_error + encrypted_value" where
  "encryptJson seal iv c v aad = encrypt seal iv c (stringify v) aad"

definition decryptJson :: "gcm_open \<Rightarrow> cipher \<Rightarrow> encrypted_value \<Rightarrow> string \<Rightarrow> cipher_error + json" where
  "decryptJson gopen c v aad = bindR (decrypt gopen c v aad) (\<lambda>s.
     case parse_json s of None \<Rightarrow> Inl JsonSyntaxError | Some j \<Rightarrow> Inr j)"

definition needsRotation :: "cipher \<Rightarrow> string \<Rightarrow> bool" where
  "needsRotation c kid = (kid \<noteq> cc_activeKeyId c)"

text \<open>HKDF takes the master key and the purpose.\<close>

definition deriveKey :: "(bytes \<Rightarrow> bytes \<Rightarrow> bytes) \<Rightarrow> cipher \<Rightarrow> string \<Rightarrow> cipher_error + bytes" where
  "deriveKey hkdf c purpose = bindR (requireKey c (cc_activeKeyId c)) (\<lambda>master. Inr (hkdf master (utf8 (''vynor:'' @ purpose))))"

section \<open>Channel credentials\<close>

fun ENVELOPE_PROVIDERS :: "channel_provider \<Rightarrow> string" where
  "ENVELOPE_PROVIDERS WHATSAPP_CLOUD = ''meta_whatsapp''"
| "ENVELOPE_PROVIDERS META_MESSENGER = ''facebook_messenger''"
| "ENVELOPE_PROVIDERS META_INSTAGRAM = ''instagram''"
| "ENVELOPE_PROVIDERS TELEGRAM_BOT = ''telegram''"
| "ENVELOPE_PROVIDERS EMAIL_SMTP_IMAP = ''email_smtp''"
| "ENVELOPE_PROVIDERS LINE_MESSAGING = ''line_messaging''"
| "ENVELOPE_PROVIDERS WEBCHAT_EMBED = ''webchat''"
| "ENVELOPE_PROVIDERS CUSTOM_WEBHOOK = ''custom_webhook''"

fun ENVELOPE_AUTH_TYPES :: "channel_provider \<Rightarrow> string" where
  "ENVELOPE_AUTH_TYPES WHATSAPP_CLOUD = ''bearer_token''"
| "ENVELOPE_AUTH_TYPES META_MESSENGER = ''bearer_token''"
| "ENVELOPE_AUTH_TYPES META_INSTAGRAM = ''bearer_token''"
| "ENVELOPE_AUTH_TYPES TELEGRAM_BOT = ''bearer_token''"
| "ENVELOPE_AUTH_TYPES EMAIL_SMTP_IMAP = ''basic_auth''"
| "ENVELOPE_AUTH_TYPES LINE_MESSAGING = ''bearer_token''"
| "ENVELOPE_AUTH_TYPES WEBCHAT_EMBED = ''hmac_key''"
| "ENVELOPE_AUTH_TYPES CUSTOM_WEBHOOK = ''hmac_key''"

definition aadFor :: "string \<Rightarrow> string" where
  "aadFor providerAccountId = ''vynor:provider-account:'' @ providerAccountId"

text \<open>The schema of the stored envelope; unknown keys are ignored.\<close>

definition ProviderTypeSchema :: "string list" where
  "ProviderTypeSchema = [''meta_whatsapp'', ''instagram'', ''facebook_messenger'', ''telegram'', ''email_smtp'', ''line_messaging'',
     ''webchat'', ''openai'', ''anthropic'', ''custom_webhook'']"

definition AuthTypeSchema :: "string list" where
  "AuthTypeSchema = [''bearer_token'', ''api_key'', ''oauth2'', ''hmac_key'', ''basic_auth'']"

definition SecretStorageTypeSchema :: "string list" where
  "SecretStorageTypeSchema = [''env'', ''vault'', ''encrypted_db'', ''aws_secrets_manager'']"

definition some_string :: "json \<Rightarrow> bool" where
  "some_string j = (case j of JStr s \<Rightarrow> s \<noteq> [] | _ \<Rightarrow> False)"

definition one_of :: "string list \<Rightarrow> json \<Rightarrow> bool" where
  "one_of ss j = (case j of JStr s \<Rightarrow> s \<in> set ss | _ \<Rightarrow> False)"

definition optional_date :: "(string \<Rightarrow> bool) \<Rightarrow> json \<Rightarrow> bool" where
  "optional_date datetime j = (case j of JUndef \<Rightarrow> True | JStr s \<Rightarrow> datetime s | _ \<Rightarrow> False)"

definition SecretReferenceSchema :: "json \<Rightarrow> bool" where
  "SecretReferenceSchema j = (case j of
     JObj _ \<Rightarrow> one_of SecretStorageTypeSchema (jget j ''type'') \<and> some_string (jget j ''key'') \<and>
       (case jget j ''version'' of JUndef \<Rightarrow> True | JStr _ \<Rightarrow> True | _ \<Rightarrow> False)
   | _ \<Rightarrow> False)"

definition is_string :: "json \<Rightarrow> bool" where
  "is_string j = (case j of JStr _ \<Rightarrow> True | _ \<Rightarrow> False)"

definition ProviderCredentialEnvelopeSchema :: "(string \<Rightarrow> bool) \<Rightarrow> json \<Rightarrow> bool" where
  "ProviderCredentialEnvelopeSchema datetime j = (case j of
     JObj _ \<Rightarrow>
       one_of ProviderTypeSchema (jget j ''provider'') \<and> some_string (jget j ''accountId'') \<and>
       one_of AuthTypeSchema (jget j ''authType'') \<and> some_string (jget j ''encryptedPayload'') \<and>
       some_string (jget j ''keyId'') \<and> some_string (jget j ''iv'') \<and> some_string (jget j ''tag'') \<and>
       (jget j ''secretRef'' = JUndef \<or> SecretReferenceSchema (jget j ''secretRef'')) \<and>
       (case jget j ''metadata'' of JUndef \<Rightarrow> True | JObj kvs \<Rightarrow> list_all (\<lambda>kv. is_string (snd kv)) kvs | _ \<Rightarrow> False) \<and>
       optional_date datetime (jget j ''expiresAt'') \<and> optional_date datetime (jget j ''rotatedAt'') \<and>
       jget j ''createdAt'' \<noteq> JUndef \<and> optional_date datetime (jget j ''createdAt'')
   | _ \<Rightarrow> False)"

definition text_of :: "json \<Rightarrow> string" where
  "text_of j = (case j of JStr s \<Rightarrow> s | _ \<Rightarrow> [])"

text \<open>The secrets: the credentials an administrator entered and the generated ones.\<close>

definition channel_secrets :: "json \<Rightarrow> json \<Rightarrow> json" where
  "channel_secrets credentials generated = JObj [(''credentials'', credentials), (''generated'', generated)]"

definition sealChannelSecrets ::
  "gcm_seal \<Rightarrow> bytes \<Rightarrow> cipher \<Rightarrow> channel_provider \<Rightarrow> string \<Rightarrow> json \<Rightarrow> string \<Rightarrow> string option \<Rightarrow> cipher_error + json" where
  "sealChannelSecrets seal iv c provider providerAccountId secrets createdAt rotatedAt =
     bindR (encryptJson seal iv c secrets (aadFor providerAccountId)) (\<lambda>sealed.
       Inr (JObj ([(''provider'', JStr (ENVELOPE_PROVIDERS provider)), (''accountId'', JStr providerAccountId),
         (''authType'', JStr (ENVELOPE_AUTH_TYPES provider)), (''encryptedPayload'', JStr (ev_ciphertext sealed)),
         (''keyId'', JStr (ev_keyId sealed)), (''iv'', JStr (ev_iv sealed)), (''tag'', JStr (ev_tag sealed)),
         (''createdAt'', JStr createdAt)] @
         (case rotatedAt of None \<Rightarrow> [] | Some t \<Rightarrow> [(''rotatedAt'', JStr t)]))))"

definition openChannelSecrets :: "(string \<Rightarrow> bool) \<Rightarrow> gcm_open \<Rightarrow> cipher \<Rightarrow> json \<Rightarrow> string \<Rightarrow> cipher_error + json" where
  "openChannelSecrets datetime gopen c envelope providerAccountId =
     (if \<not> ProviderCredentialEnvelopeSchema datetime envelope then Inl (CredentialCipherError
        ''Stored channel credentials are not an encrypted envelope. Reconnect the channel.'')
      else if text_of (jget envelope ''accountId'') \<noteq> providerAccountId then Inl (CredentialCipherError
        ''Stored channel credentials belong to another channel.'')
      else decryptJson gopen c \<lparr>ev_keyId = text_of (jget envelope ''keyId''), ev_iv = text_of (jget envelope ''iv''),
        ev_tag = text_of (jget envelope ''tag''), ev_ciphertext = text_of (jget envelope ''encryptedPayload'')\<rparr>
        (aadFor providerAccountId))"

section \<open>What is shown of credentials\<close>

text \<open>A masked secret: \<open>None\<close> is a bullet.\<close>

type_synonym hint = "char option list"

definition maskSecret :: "string \<Rightarrow> hint" where
  "maskSecret v = (if length v \<le> 8 then replicate 4 None else replicate 4 None @ map Some (drop (length v - 4) v))"

fun getPath :: "json \<Rightarrow> string list \<Rightarrow> json" where
  "getPath j [] = j"
| "getPath j (k # ks) = getPath (case j of JObj _ \<Rightarrow> jget j k | _ \<Rightarrow> JUndef) ks"

text \<open>No path meets an array: the names of the paths are not array indices.\<close>

fun withoutPath :: "(string \<times> json) list \<Rightarrow> string list \<Rightarrow> (string \<times> json) list" where
  "withoutPath source [] = source"
| "withoutPath source [k] = (if k = [] \<or> k \<notin> fst ` set source then source else filter (\<lambda>e. fst e \<noteq> k) source)"
| "withoutPath source (k # ks) = (if k = [] \<or> k \<notin> fst ` set source then source
     else map (\<lambda>(n, v). (n, if n = k then (case v of JObj child \<Rightarrow> JObj (withoutPath child ks) | _ \<Rightarrow> v) else v)) source)"

fun PROVIDER_SECRET_FIELDS :: "channel_provider \<Rightarrow> string list" where
  "PROVIDER_SECRET_FIELDS WHATSAPP_CLOUD = [''accessToken'', ''appSecret'']"
| "PROVIDER_SECRET_FIELDS TELEGRAM_BOT = [''botToken'']"
| "PROVIDER_SECRET_FIELDS EMAIL_SMTP_IMAP = [''imap.password'', ''smtp.password'']"
| "PROVIDER_SECRET_FIELDS META_MESSENGER = [''pageAccessToken'', ''appSecret'']"
| "PROVIDER_SECRET_FIELDS META_INSTAGRAM = [''accessToken'', ''appSecret'']"
| "PROVIDER_SECRET_FIELDS LINE_MESSAGING = [''channelAccessToken'', ''channelSecret'']"
| "PROVIDER_SECRET_FIELDS WEBCHAT_EMBED = []"
| "PROVIDER_SECRET_FIELDS CUSTOM_WEBHOOK = []"

definition secret_hint :: "channel_provider \<Rightarrow> string \<Rightarrow> string \<Rightarrow> hint" where
  "secret_hint provider path v =
     (if endsWith path ''password'' then replicate 8 None
      else if provider = TELEGRAM_BOT \<and> path = ''botToken''
        then map Some (hd (split_on (CHR '':'') v) @ '':'') @ maskSecret (case tl (split_on (CHR '':'') v) of t # _ \<Rightarrow> t | [] \<Rightarrow> [])
      else maskSecret v)"

fun present_paths ::
  "channel_provider \<Rightarrow> (string \<times> json) list \<Rightarrow> string list \<Rightarrow> (string \<times> json) list \<Rightarrow> (string \<times> hint) list \<Rightarrow>
   (string \<times> json) list \<times> (string \<times> hint) list" where
  "present_paths provider credentials [] details hints = (details, hints)"
| "present_paths provider credentials (path # ps) details hints =
     present_paths provider credentials ps (withoutPath details (split_on (CHR ''.'') path))
       (case getPath (JObj credentials) (split_on (CHR ''.'') path) of
          JStr v \<Rightarrow> if v \<noteq> [] then hints @ [(path, secret_hint provider path v)] else hints
        | _ \<Rightarrow> hints)"

definition presentCredentials ::
  "channel_provider \<Rightarrow> (string \<times> json) list \<Rightarrow> (string \<times> json) list \<times> (string \<times> hint) list" where
  "presentCredentials provider credentials = present_paths provider credentials (PROVIDER_SECRET_FIELDS provider) credentials []"

section \<open>Lemmas\<close>

definition sound_keys :: "(string \<rightharpoonup> bytes) \<Rightarrow> bool" where
  "sound_keys m = (\<forall>k v. m k = Some v \<longrightarrow> length v = KEY_BYTES)"

lemma sound_keys_update: "sound_keys m \<Longrightarrow> length key = KEY_BYTES \<Longrightarrow> sound_keys (m(k \<mapsto> key))"
  by (simp add: sound_keys_def)

lemma parse_key_length: "parseEncryptionKey raw = Inr key \<Longrightarrow> length key = KEY_BYTES"
  by (auto simp: parseEncryptionKey_def Let_def split: if_splits)

lemma previous_sound: "previous_entries es keys = Inr m \<Longrightarrow> sound_keys keys \<Longrightarrow> sound_keys m"
  by (induction es keys rule: previous_entries.induct)
    (auto simp: Let_def bindR_Inr_iff parse_key_length sound_keys_update split: if_splits)

lemma new_cipher_facts:
  "new_cipher kid key previous = Inr c \<Longrightarrow> sound_keys previous \<Longrightarrow>
     sound_keys (cc_keys c) \<and> cc_activeKeyId c = kid \<and> requireKey c kid = Inr key"
  by (auto simp: new_cipher_def sound_keys_def requireKey_def split: if_splits)

lemma fromEnv_facts:
  assumes "fromEnv env = Inr (Some c)"
  shows "sound_keys (cc_keys c) \<and> (\<exists>key. requireKey c (cc_activeKeyId c) = Inr key)"
proof -
  obtain kid key previous where c: "parsePreviousKeys (ENCRYPTION_PREVIOUS_KEYS env) = Inr previous" "new_cipher kid key previous = Inr c"
    using assms by (auto simp: fromEnv_def bindR_Inr_iff split: option.splits if_splits)
  have "sound_keys previous"
    using c(1) previous_sound [of _ Map.empty previous] by (auto simp: parsePreviousKeys_def sound_keys_def split: option.splits if_splits)
  then show ?thesis using new_cipher_facts [OF c(2)] by blast
qed

lemma requireKey_length: "sound_keys (cc_keys c) \<Longrightarrow> requireKey c kid = Inr key \<Longrightarrow> length key = KEY_BYTES"
  by (auto simp: requireKey_def sound_keys_def split: option.splits)

lemma encrypt_decrypt:
  assumes gcm: "gcm_laws seal gopen" and iv: "length iv = 12"
    and key: "requireKey c (cc_activeKeyId c) = Inr key" "length key = KEY_BYTES"
    and kept: "requireKey c' (cc_activeKeyId c) = Inr key"
  shows "\<exists>v. encrypt seal iv c s aad = Inr v \<and> ev_keyId v = cc_activeKeyId c \<and> decrypt gopen c' v aad = Inr s \<and>
    (s \<noteq> [] \<longrightarrow> ev_ciphertext v \<noteq> []) \<and> ev_iv v \<noteq> [] \<and> ev_tag v \<noteq> []"
proof -
  obtain ct tag where s: "seal key iv (utf8 aad) (utf8 s) = (ct, tag)" by force
  have opened: "gopen key iv (utf8 aad) tag ct = Some (utf8 s)" and lengths: "length ct = length (utf8 s)" "length tag = 16"
    using gcm iv key(2) s unfolding gcm_laws_def by (metis fst_conv, metis fst_conv, metis snd_conv)
  have "utf8 s = [] \<longleftrightarrow> s = []" by (cases s) (auto simp: utf8_char_def Let_def)
  then show ?thesis using iv lengths opened key(1) kept s
    by (auto simp: encrypt_def decrypt_def)
qed

lemma stringify_nonempty: "stringify (JObj kvs) \<noteq> []"
  by simp

declare stringify.simps [simp del]

lemma seal_open:
  assumes gcm: "gcm_laws seal gopen" and iv: "length iv = 12"
    and key: "requireKey c (cc_activeKeyId c) = Inr key" "length key = KEY_BYTES"
    and kept: "requireKey c' (cc_activeKeyId c) = Inr key"
    and secrets: "plain (JObj kvs)" and account: "account \<noteq> []" and kid: "cc_activeKeyId c \<noteq> []"
    and dates: "datetime created" "\<forall>t. rotated = Some t \<longrightarrow> datetime t"
  shows "\<exists>e. sealChannelSecrets seal iv c provider account (JObj kvs) created rotated = Inr e \<and>
    openChannelSecrets datetime gopen c' e account = Inr (JObj kvs) \<and> jget e ''keyId'' = JStr (cc_activeKeyId c)"
proof -
  obtain v where v: "encryptJson seal iv c (JObj kvs) (aadFor account) = Inr v" "ev_keyId v = cc_activeKeyId c"
      "decrypt gopen c' v (aadFor account) = Inr (stringify (JObj kvs))" "ev_ciphertext v \<noteq> []" "ev_iv v \<noteq> []" "ev_tag v \<noteq> []"
    using encrypt_decrypt [OF gcm iv key kept, of "stringify (JObj kvs)" "aadFor account"] stringify_nonempty
    by (auto simp: encryptJson_def)
  have opens: "decryptJson gopen c' v (aadFor account) = Inr (JObj kvs)"
    using v(3) plain_text_parsed [OF secrets] by (simp add: decryptJson_def)
  have listed: "ENVELOPE_PROVIDERS provider \<in> set ProviderTypeSchema" "ENVELOPE_AUTH_TYPES provider \<in> set AuthTypeSchema"
    by (cases provider; simp add: ProviderTypeSchema_def AuthTypeSchema_def)+
  obtain kvs' where e: "sealChannelSecrets seal iv c provider account (JObj kvs) created rotated = Inr (JObj kvs')"
    and f: "jget (JObj kvs') ''accountId'' = JStr account" "jget (JObj kvs') ''keyId'' = JStr (ev_keyId v)"
      "jget (JObj kvs') ''iv'' = JStr (ev_iv v)" "jget (JObj kvs') ''tag'' = JStr (ev_tag v)"
      "jget (JObj kvs') ''encryptedPayload'' = JStr (ev_ciphertext v)" "jget (JObj kvs') ''createdAt'' = JStr created"
      "jget (JObj kvs') ''provider'' = JStr (ENVELOPE_PROVIDERS provider)" "jget (JObj kvs') ''authType'' = JStr (ENVELOPE_AUTH_TYPES provider)"
      "jget (JObj kvs') ''rotatedAt'' = (case rotated of None \<Rightarrow> JUndef | Some t \<Rightarrow> JStr t)"
      "jget (JObj kvs') ''secretRef'' = JUndef" "jget (JObj kvs') ''metadata'' = JUndef" "jget (JObj kvs') ''expiresAt'' = JUndef"
    using v(1) by (auto simp: sealChannelSecrets_def jget_def split: option.splits)
  have valid: "ProviderCredentialEnvelopeSchema datetime (JObj kvs')"
    using listed account kid v dates by (simp add: ProviderCredentialEnvelopeSchema_def f one_of_def some_string_def optional_date_def split: option.splits)
  have "v = \<lparr>ev_keyId = cc_activeKeyId c, ev_iv = ev_iv v, ev_tag = ev_tag v, ev_ciphertext = ev_ciphertext v\<rparr>"
    using v(2) by (cases v) simp
  then have "decryptJson gopen c' \<lparr>ev_keyId = cc_activeKeyId c, ev_iv = ev_iv v, ev_tag = ev_tag v, ev_ciphertext = ev_ciphertext v\<rparr>
      (aadFor account) = Inr (JObj kvs)" using opens by metis
  then show ?thesis using e valid v(2) by (auto simp: openChannelSecrets_def f text_of_def)
qed

lemma other_account_refused:
  assumes "jget e ''accountId'' = JStr a" "a \<noteq> account"
  shows "\<exists>msg. openChannelSecrets datetime gopen c e account = Inl (CredentialCipherError msg)"
  using assms by (simp add: openChannelSecrets_def text_of_def)

lemma trim_id: "s \<noteq> [] \<Longrightarrow> \<not> is_space (hd s) \<Longrightarrow> \<not> is_space (last s) \<Longrightarrow> trim s = s"
proof -
  assume s: "s \<noteq> []" "\<not> is_space (hd s)" "\<not> is_space (last s)"
  then have "dropWhile is_space s = s" "dropWhile is_space (rev s) = rev s"
    using hd_rev [of s] by (auto simp: dropWhile_eq_self_iff)
  then show "trim s = s" by (simp add: trim_def)
qed

lemma trim_last: "trim s = s \<Longrightarrow> s \<noteq> [] \<Longrightarrow> \<not> is_space (last s)"
  by (metis hd_dropWhile last_rev rev_is_Nil_conv trim_def)

lemma plain_name_no_space: "list_all (\<lambda>x. x \<noteq> CHR '','' \<and> x \<noteq> CHR '':'' \<and> \<not> is_space x) kid \<Longrightarrow>
    CHR '','' \<notin> set kid \<and> CHR '':'' \<notin> set kid \<and> (kid \<noteq> [] \<longrightarrow> \<not> is_space (hd kid))"
  by (cases kid) (auto simp: list_all_iff)

text \<open>A retired key listed under its name is found again.\<close>

lemma previous_key_parsed:
  assumes kid: "kid \<noteq> []" "list_all (\<lambda>x. x \<noteq> CHR '','' \<and> x \<noteq> CHR '':'' \<and> \<not> is_space x) kid"
    and raw: "parseEncryptionKey raw = Inr key" "trim raw = raw" "CHR '','' \<notin> set raw"
  shows "parsePreviousKeys (Some (kid @ CHR '':'' # raw)) = Inr [kid \<mapsto> key]"
proof -
  have "from_base64 [] = []" by (simp add: from_base64_def List.map_filter_def)
  then have "raw \<noteq> []" using raw(1) by (auto simp: parseEncryptionKey_def hex_key_def trim_def KEY_BYTES_def)
  then have t: "trim (kid @ CHR '':'' # raw) = kid @ CHR '':'' # raw"
    using kid trim_last [OF raw(2)] plain_name_no_space [OF kid(2)] by (intro trim_id) auto
  have "split_on (CHR '','') (kid @ CHR '':'' # raw) = [kid @ CHR '':'' # raw]"
    using raw(3) plain_name_no_space [OF kid(2)] by (intro split_on_no_sep) auto
  moreover have "takeWhile (\<lambda>c. c \<noteq> CHR '':'') (kid @ CHR '':'' # raw) = kid"
    using plain_name_no_space [OF kid(2)] by (subst takeWhile_append2) auto
  ultimately show ?thesis using kid(1) raw(1) by (simp add: parsePreviousKeys_def t Let_def)
qed

section \<open>Removing and masking\<close>

lemma getPath_undef [simp]: "getPath JUndef ks = JUndef"
  by (induction ks) simp_all

lemma map_of_removed: "map_of (filter (\<lambda>e. fst e \<noteq> k) xs) a = (if a = k then None else map_of xs a)"
  by (induction xs) auto

lemma map_of_changed:
  "map_of (map (\<lambda>(n, v). (n, if n = k then f v else v)) xs) a = (if a = k then map_option f (map_of xs a) else map_of xs a)"
  by (induction xs) auto

lemma jget_entries: "jget (JObj kvs) k = (case map_of kvs k of None \<Rightarrow> JUndef | Some v \<Rightarrow> v)"
  by (simp add: jget_def)

lemma map_of_absent: "k \<notin> fst ` set kvs \<Longrightarrow> map_of kvs k = None"
  by (simp add: map_of_eq_None_iff)

lemma withoutPath_other: "ks \<noteq> [] \<Longrightarrow> a \<noteq> hd ks \<Longrightarrow> map_of (withoutPath kvs ks) a = map_of kvs a"
  by (induction kvs ks rule: withoutPath.induct) (simp_all add: map_of_removed map_of_changed)

lemma withoutPath_deep: "k \<noteq> [] \<Longrightarrow> map_of (withoutPath kvs (k # l # ks)) k =
    map_option (\<lambda>v. case v of JObj child \<Rightarrow> JObj (withoutPath child (l # ks)) | _ \<Rightarrow> v) (map_of kvs k)"
  by (simp add: map_of_changed map_of_absent)

lemma path_removed: "ks \<noteq> [] \<Longrightarrow> list_all (\<lambda>k. k \<noteq> []) ks \<Longrightarrow> getPath (JObj (withoutPath kvs ks)) ks = JUndef"
proof (induction ks arbitrary: kvs)
  case (Cons k ks)
  show ?case
  proof (cases ks)
    case Nil
    then show ?thesis using Cons.prems by (simp add: jget_entries map_of_removed map_of_absent)
  next
    case more: (Cons l ls)
    show ?thesis
    proof (cases "map_of kvs k")
      case None
      then show ?thesis using Cons.prems withoutPath_deep [of k kvs l ls]
        by (simp add: more jget_entries del: withoutPath.simps)
    next
      case (Some v)
      then show ?thesis using Cons.prems Cons.IH withoutPath_deep [of k kvs l ls]
        by (cases v) (simp_all add: more jget_entries del: withoutPath.simps)
    qed
  qed
qed simp

lemma path_stays_removed: "getPath (JObj kvs) ks = JUndef \<Longrightarrow> getPath (JObj (withoutPath kvs ks')) ks = JUndef"
proof (induction kvs ks' arbitrary: ks rule: withoutPath.induct)
  case (2 source k)
  then show ?case by (cases ks) (auto simp: jget_entries map_of_removed)
next
  case (3 source k l ls)
  show ?case
  proof (cases "k = [] \<or> k \<notin> fst ` set source")
    case False
    obtain a as where ks: "ks = a # as" using 3(2) by (cases ks) auto
    show ?thesis
    proof (cases "a = k \<and> map_of source a \<noteq> None")
      case True
      then obtain v where v: "map_of source k = Some v" by auto
      have undef: "getPath v as = JUndef" using 3(2) True v by (simp add: ks jget_entries)
      have "getPath (case v of JObj child \<Rightarrow> JObj (withoutPath child (l # ls)) | _ \<Rightarrow> v) as = JUndef"
        using undef 3(1) [OF False] map_of_SomeD [OF v] by (cases v) simp_all
      then show ?thesis using True v False withoutPath_deep [of k source l ls]
        by (simp add: ks jget_entries del: withoutPath.simps)
    next
      case other: False
      then have "map_of (withoutPath source (k # l # ls)) a = map_of source a"
        using withoutPath_other [of "k # l # ls" a source] withoutPath_deep [of k source l ls] False by (cases "a = k") auto
      then show ?thesis using 3(2) by (simp add: ks jget_entries del: withoutPath.simps)
    qed
  qed (use 3(2) in simp)
qed simp

lemma present_removed:
  "getPath (JObj details) ks = JUndef \<Longrightarrow> getPath (JObj (fst (present_paths provider credentials ps details hints))) ks = JUndef"
  by (induction provider credentials ps details hints rule: present_paths.induct) (simp_all add: path_stays_removed)

lemma present_removes:
  "path \<in> set ps \<Longrightarrow> list_all (\<lambda>k. k \<noteq> []) (split_on (CHR ''.'') path) \<Longrightarrow>
     getPath (JObj (fst (present_paths provider credentials ps details hints))) (split_on (CHR ''.'') path) = JUndef"
proof (induction provider credentials ps details hints rule: present_paths.induct)
  case (2 provider credentials p ps details hints)
  show ?case
  proof (cases "path = p")
    case True
    then show ?thesis using path_removed [OF split_on_nonempty 2(3)] by (simp add: present_removed)
  qed (use 2 in simp)
qed simp

lemma present_keeps:
  "\<forall>path\<in>set ps. k \<noteq> hd (split_on (CHR ''.'') path) \<Longrightarrow>
     map_of (fst (present_paths provider credentials ps details hints)) k = map_of details k"
  by (induction provider credentials ps details hints rule: present_paths.induct) (simp_all add: withoutPath_other)

lemma present_hints:
  "(path, x) \<in> set (snd (present_paths provider credentials ps details hints)) \<Longrightarrow>
     (path, x) \<in> set hints \<or> (\<exists>v. getPath (JObj credentials) (split_on (CHR ''.'') path) = JStr v \<and> x = secret_hint provider path v)"
proof (induction provider credentials ps details hints rule: present_paths.induct)
  case (2 provider credentials p ps details hints)
  then show ?case by (auto split: json.splits if_splits)
qed simp

definition revealed :: "hint \<Rightarrow> string" where
  "revealed x = List.map_filter id x"

lemma revealed_simps [simp]: "revealed [] = []" "revealed (None # x) = revealed x" "revealed (Some c # x) = c # revealed x"
  by (simp_all add: revealed_def List.map_filter_def)

lemma revealed_append [simp]: "revealed (x @ y) = revealed x @ revealed y"
  by (simp add: revealed_def List.map_filter_def)

lemma revealed_bullets [simp]: "revealed (replicate n None) = []"
  by (induction n) simp_all

lemma revealed_map [simp]: "revealed (map Some s) = s"
  by (induction s) simp_all

lemma mask_reveals: "length (revealed (maskSecret v)) \<le> 4 \<and> 2 * length (revealed (maskSecret v)) \<le> length v"
  by (simp add: maskSecret_def)

lemma secret_paths_valid: "path \<in> set (PROVIDER_SECRET_FIELDS p) \<Longrightarrow> list_all (\<lambda>k. k \<noteq> []) (split_on (CHR ''.'') path)"
  by (cases p) auto

section \<open>Properties\<close>

text \<open>C27: Rotating the encryption key loses no channel: credentials sealed under the old key open to
  themselves under it and, once the old key is listed under ENCRYPTION_PREVIOUS_KEYS of the new
  configuration, under the new one, which reports them as due for rotation; and they never open for
  another channel.
\<close>

theorem rotation_keeps_secrets:
  assumes "gcm_laws seal gopen" and "length iv = 12"
    and old: "fromEnv \<lparr>ENCRYPTION_MASTER_KEY = Some raw, ENCRYPTION_KEY_ID = Some kid, ENCRYPTION_PREVIOUS_KEYS = previous\<rparr> = Inr (Some c)"
    and kid: "kid \<noteq> []" "list_all (\<lambda>x. x \<noteq> CHR '','' \<and> x \<noteq> CHR '':'' \<and> \<not> is_space x) kid"
    and raw: "trim raw = raw" "CHR '','' \<notin> set raw"
    and new: "raw' \<noteq> []" "parseEncryptionKey raw' = Inr key'" "kid' \<noteq> []" "kid' \<noteq> kid"
    and secrets: "plain (JObj kvs)" "account \<noteq> []" "datetime created" "\<forall>t. rotated = Some t \<longrightarrow> datetime t"
  shows "\<exists>c' e. fromEnv \<lparr>ENCRYPTION_MASTER_KEY = Some raw', ENCRYPTION_KEY_ID = Some kid',
        ENCRYPTION_PREVIOUS_KEYS = Some (kid @ CHR '':'' # raw)\<rparr> = Inr (Some c') \<and>
      sealChannelSecrets seal iv c provider account (JObj kvs) created rotated = Inr e \<and>
      openChannelSecrets datetime gopen c e account = Inr (JObj kvs) \<and>
      openChannelSecrets datetime gopen c' e account = Inr (JObj kvs) \<and>
      needsRotation c' (text_of (jget e ''keyId'')) \<and> \<not> needsRotation c (text_of (jget e ''keyId'')) \<and>
      (\<forall>other. other \<noteq> account \<longrightarrow> \<not> isOk (openChannelSecrets datetime gopen c e other))"
proof -
  obtain key where key: "parseEncryptionKey raw = Inr key" "cc_activeKeyId c = kid" "requireKey c kid = Inr key"
    using old kid(1) by (auto simp: fromEnv_def bindR_Inr_iff new_cipher_def requireKey_def split: if_splits)
  let ?c' = "\<lparr>cc_activeKeyId = kid', cc_keys = [kid \<mapsto> key, kid' \<mapsto> key']\<rparr>"
  have c': "fromEnv \<lparr>ENCRYPTION_MASTER_KEY = Some raw', ENCRYPTION_KEY_ID = Some kid',
        ENCRYPTION_PREVIOUS_KEYS = Some (kid @ CHR '':'' # raw)\<rparr> = Inr (Some ?c')"
    using new previous_key_parsed [OF kid key(1) raw] parse_key_length [OF new(2)] by (simp add: fromEnv_def new_cipher_def)
  have kept: "requireKey ?c' kid = Inr key" using new(4) by (simp add: requireKey_def)
  note seal = seal_open [OF assms(1,2) _ parse_key_length [OF key(1)] _ secrets(1,2) _ secrets(3,4), of c]
  obtain e where e: "sealChannelSecrets seal iv c provider account (JObj kvs) created rotated = Inr e"
      "openChannelSecrets datetime gopen c e account = Inr (JObj kvs)" "jget e ''keyId'' = JStr kid"
    using seal [of c provider] key kid(1) by auto
  have "openChannelSecrets datetime gopen ?c' e account = Inr (JObj kvs)"
    using seal [of ?c' provider] key kid(1) kept e(1) by auto
  moreover have "text_of (jget e ''accountId'') = account"
    using e(2) by (auto simp: openChannelSecrets_def split: if_splits)
  ultimately show ?thesis using e c' key(2) new(4)
    by (intro exI [of _ ?c'] exI [of _ e]) (auto simp: needsRotation_def text_of_def openChannelSecrets_def)
qed

text \<open>What is shown of stored credentials holds no secret: every secret field is removed from the
  details, every other top-level field is unchanged, and the hint of a secret reveals nothing of a
  password and at most the last four characters, never more than half, of any other secret, after the
  public identifier in front of the colon of a Telegram token.
\<close>

theorem secrets_not_presented:
  assumes "presentCredentials p kvs = (details, hints)" and "path \<in> set (PROVIDER_SECRET_FIELDS p)"
  shows "getPath (JObj details) (split_on (CHR ''.'') path) = JUndef \<and>
    (\<forall>k. (\<forall>q\<in>set (PROVIDER_SECRET_FIELDS p). k \<noteq> hd (split_on (CHR ''.'') q)) \<longrightarrow> map_of details k = map_of kvs k) \<and>
    (\<forall>x. (path, x) \<in> set hints \<longrightarrow> (\<exists>v. getPath (JObj kvs) (split_on (CHR ''.'') path) = JStr v \<and>
       (if endsWith path ''password'' then revealed x = []
        else if p = TELEGRAM_BOT
          then (\<exists>secret. revealed x = hd (split_on (CHR '':'') v) @ '':'' @ revealed (maskSecret secret) \<and>
            secret = (case tl (split_on (CHR '':'') v) of t # _ \<Rightarrow> t | [] \<Rightarrow> []) \<and>
            length (revealed (maskSecret secret)) \<le> 4 \<and> 2 * length (revealed (maskSecret secret)) \<le> length secret)
        else length (revealed x) \<le> 4 \<and> 2 * length (revealed x) \<le> length v)))"
proof -
  have d: "details = fst (present_paths p kvs (PROVIDER_SECRET_FIELDS p) kvs [])" "hints = snd (present_paths p kvs (PROVIDER_SECRET_FIELDS p) kvs [])"
    using assms(1) by (simp_all add: presentCredentials_def)
  have bot: "p = TELEGRAM_BOT \<Longrightarrow> path = ''botToken''" using assms(2) by simp
  show ?thesis
    using present_removes [OF assms(2) secret_paths_valid [OF assms(2)], of p kvs kvs "[]"]
      present_keeps [of "PROVIDER_SECRET_FIELDS p" _ p kvs kvs "[]"] present_hints [of path _ p kvs "PROVIDER_SECRET_FIELDS p" kvs "[]"]
    unfolding d [symmetric] by (fastforce simp: secret_hint_def mask_reveals dest: bot)
qed

text \<open>A cipher that satisfies the laws, and a configuration.\<close>

definition plain_seal :: gcm_seal where
  "plain_seal key iv aad p = (rev p, take 16 (aad @ replicate 16 (CHR ''t'')))"

definition plain_open :: gcm_open where
  "plain_open key iv aad tag ct = (if tag = take 16 (aad @ replicate 16 (CHR ''t'')) then Some (rev ct) else None)"

lemma plain_gcm_laws: "gcm_laws plain_seal plain_open"
  by (auto simp: gcm_laws_def plain_seal_def plain_open_def)

theorem rotation_keeps_secrets_witness:
  "\<exists>c. fromEnv \<lparr>ENCRYPTION_MASTER_KEY = Some (replicate 64 (CHR ''a'')), ENCRYPTION_KEY_ID = Some ''v1'', ENCRYPTION_PREVIOUS_KEYS = None\<rparr> = Inr (Some c) \<and>
    (\<exists>c' e. fromEnv \<lparr>ENCRYPTION_MASTER_KEY = Some (replicate 64 (CHR ''b'')), ENCRYPTION_KEY_ID = Some ''v2'',
        ENCRYPTION_PREVIOUS_KEYS = Some (''v1'' @ CHR '':'' # replicate 64 (CHR ''a''))\<rparr> = Inr (Some c') \<and>
      sealChannelSecrets plain_seal (replicate 12 (CHR ''i'')) c TELEGRAM_BOT ''acc1'' (JObj [(''botToken'', JStr ''1:x'')]) ''now'' None = Inr e \<and>
      openChannelSecrets (\<lambda>_. True) plain_open c e ''acc1'' = Inr (JObj [(''botToken'', JStr ''1:x'')]) \<and>
      openChannelSecrets (\<lambda>_. True) plain_open c' e ''acc1'' = Inr (JObj [(''botToken'', JStr ''1:x'')]) \<and>
      needsRotation c' (text_of (jget e ''keyId'')) \<and> \<not> needsRotation c (text_of (jget e ''keyId'')) \<and>
      (\<forall>other. other \<noteq> ''acc1'' \<longrightarrow> \<not> isOk (openChannelSecrets (\<lambda>_. True) plain_open c e other)))"
proof -
  have key: "\<exists>k. parseEncryptionKey (replicate 64 (CHR ''a'')) = Inr k" "\<exists>k. parseEncryptionKey (replicate 64 (CHR ''b'')) = Inr k"
  proof -
    have "isOk (parseEncryptionKey (replicate 64 (CHR ''a'')))" "isOk (parseEncryptionKey (replicate 64 (CHR ''b'')))" by code_simp+
    then show "\<exists>k. parseEncryptionKey (replicate 64 (CHR ''a'')) = Inr k" "\<exists>k. parseEncryptionKey (replicate 64 (CHR ''b'')) = Inr k"
      by (auto elim: isOk.elims)
  qed
  have "\<exists>c. fromEnv \<lparr>ENCRYPTION_MASTER_KEY = Some (replicate 64 (CHR ''a'')), ENCRYPTION_KEY_ID = Some ''v1'', ENCRYPTION_PREVIOUS_KEYS = None\<rparr> = Inr (Some c)"
    using key(1) parse_key_length by (fastforce simp: fromEnv_def parsePreviousKeys_def new_cipher_def)
  then obtain c where c: "fromEnv \<lparr>ENCRYPTION_MASTER_KEY = Some (replicate 64 (CHR ''a'')), ENCRYPTION_KEY_ID = Some ''v1'', ENCRYPTION_PREVIOUS_KEYS = None\<rparr> = Inr (Some c)"
    by blast
  obtain k where k: "parseEncryptionKey (replicate 64 (CHR ''b'')) = Inr k" using key(2) by blast
  have side: "list_all (\<lambda>x. x \<noteq> CHR '','' \<and> x \<noteq> CHR '':'' \<and> \<not> is_space x) ''v1''"
      "trim (replicate 64 (CHR ''a'')) = replicate 64 (CHR ''a'')" "CHR '','' \<notin> set (replicate 64 (CHR ''a''))"
      "plain (JObj [(''botToken'', JStr ''1:x'')])"
    by code_simp+
  show ?thesis
    using rotation_keeps_secrets [OF plain_gcm_laws _ c _ side(1-3) _ k _ _ side(4), of "replicate 12 (CHR ''i'')" "''v2''" "''acc1''" "\<lambda>_. True" "''now''" None TELEGRAM_BOT] c
    by auto
qed

theorem secrets_not_presented_witness:
  "\<exists>d h. presentCredentials TELEGRAM_BOT [(''botToken'', JStr ''12345:ABCDEFGHIJ''), (''mode'', JStr ''x'')] = (d, h) \<and>
     getPath (JObj d) [''botToken''] = JUndef \<and> map_of d ''mode'' = Some (JStr ''x'')"
proof -
  obtain d h where p: "presentCredentials TELEGRAM_BOT [(''botToken'', JStr ''12345:ABCDEFGHIJ''), (''mode'', JStr ''x'')] = (d, h)" by force
  have "split_on (CHR ''.'') ''botToken'' = [''botToken'']" by code_simp
  then show ?thesis using secrets_not_presented [OF p, of "''botToken''"] p by simp
qed

end
