(* ===== verification/Signatures.thy ===== *)
theory Signatures
  imports Cipher Db
begin

text \<open>
  Authentication of webhooks: the HMAC helpers (\<open>packages/channel-adapters/src/signatures/hmac.ts\<close>), the
  account an adapter sees (\<open>credentials/stored-channel.ts\<close>) and \<open>validateWebhook\<close> of every adapter
  (\<open>meta-common.ts\<close>, \<open>telegram-bot.adapter.ts\<close>, \<open>line-messaging.adapter.ts\<close>, \<open>custom-api.adapter.ts\<close>).
  HMAC-SHA256 is a parameter; credentials have the strings their schemas demand.
\<close>

section \<open>Numbers in texts\<close>

text \<open>\<open>Number(s)\<close>: the exact value, and nothing for what is not a number or rounds to infinity.\<close>

definition radix_digits :: "nat \<Rightarrow> string \<Rightarrow> nat option" where
  "radix_digits b ds = (if ds \<noteq> [] \<and> list_all (\<lambda>c. case hex_val c of Some v \<Rightarrow> v < b | None \<Rightarrow> False) ds
     then Some (foldl (\<lambda>n c. b * n + (case hex_val c of Some v \<Rightarrow> v | None \<Rightarrow> 0)) 0 ds) else None)"

definition read_exponent :: "string \<Rightarrow> int option" where
  "read_exponent s = (case s of
     [] \<Rightarrow> Some 0
   | c # x \<Rightarrow> if c \<noteq> CHR ''e'' \<and> c \<noteq> CHR ''E'' then None
       else (let (neg, ds) = (case x of [] \<Rightarrow> (False, []) | d # y \<Rightarrow> if d = CHR ''-'' then (True, y) else if d = CHR ''+'' then (False, y) else (False, x)) in
         if ds = [] \<or> \<not> list_all is_digit ds then None else Some (if neg then - int (read_nat ds) else int (read_nat ds))))"

definition scale10 :: "int \<Rightarrow> rat" where
  "scale10 e = (if 0 \<le> e then 10 ^ nat e else 1 / 10 ^ nat (- e))"

definition read_decimal :: "string \<Rightarrow> rat option" where
  "read_decimal u = (let ip = takeWhile is_digit u; r = dropWhile is_digit u;
       (fp, r') = (case r of c # x \<Rightarrow> if c = CHR ''.'' then (takeWhile is_digit x, dropWhile is_digit x) else ([], r) | [] \<Rightarrow> ([], r)) in
     if ip = [] \<and> fp = [] then None
     else map_option (\<lambda>e. of_nat (read_nat (ip @ fp)) * scale10 (e - int (length fp))) (read_exponent r'))"

definition finite_double :: "rat \<Rightarrow> bool" where
  "finite_double v = (\<bar>v\<bar> < 2 ^ 1024 - 2 ^ 970)"

definition js_Number :: "string \<Rightarrow> rat option" where
  "js_Number s = (let t = trim s in
     if t = [] then Some 0
     else if take 2 t \<in> {''0x'', ''0X''} then map_option of_nat (radix_digits 16 (drop 2 t))
     else if take 2 t \<in> {''0o'', ''0O''} then map_option of_nat (radix_digits 8 (drop 2 t))
     else if take 2 t \<in> {''0b'', ''0B''} then map_option of_nat (radix_digits 2 (drop 2 t))
     else (let v = (if hd t = CHR ''-'' then map_option uminus (read_decimal (tl t))
                    else if hd t = CHR ''+'' then read_decimal (tl t) else read_decimal t) in
       case v of Some x \<Rightarrow> if finite_double x then Some x else None | None \<Rightarrow> None))"

text \<open>\<open>asNumber\<close>.\<close>

definition asNumber :: "json \<Rightarrow> rat option" where
  "asNumber j = (case j of JNum n \<Rightarrow> Some (of_int n) | JStr s \<Rightarrow> js_Number s | _ \<Rightarrow> None)"

section \<open>Requests and accounts\<close>

datatype http_method = GET | POST

datatype header_value = One string | Many "string list" | Absent

record webhook_request =
  wr_method :: http_method
  wr_rawBody :: bytes
  wr_headers :: "(string \<times> header_value) list"
  wr_query :: "(string \<times> header_value) list"

record webhook_validation =
  wv_isValid :: bool
  wv_challengeResponse :: "string option"
  wv_statusCode :: "nat option"
  wv_failureReason :: "string option"

definition rejected :: "nat \<Rightarrow> string \<Rightarrow> webhook_validation" where
  "rejected code reason = \<lparr>wv_isValid = False, wv_challengeResponse = None, wv_statusCode = Some code, wv_failureReason = Some reason\<rparr>"

definition accepted :: webhook_validation where
  "accepted = \<lparr>wv_isValid = True, wv_challengeResponse = None, wv_statusCode = Some 200, wv_failureReason = None\<rparr>"

datatype inbound_mode = WEBHOOK | POLLING | WIDGET

record adapter_account =
  aa_id :: id
  aa_workspaceId :: id
  aa_name :: string
  aa_accountIdentifier :: string
  aa_displayIdentifier :: string
  aa_credentials :: json
  aa_secrets :: json
  aa_inboundMode :: inbound_mode

record connection_config =
  cf_inboundMode :: inbound_mode
  cf_webhookRegistered :: bool
  cf_setupNote :: "string option"
  cf_displayName :: "string option"
  cf_providerMetadata :: "(string \<times> json) list"
  cf_details :: "(string \<times> json) list"
  cf_hints :: "(string \<times> json) list"

definition read_mode :: "json \<Rightarrow> inbound_mode" where
  "read_mode j = (if j = JStr ''POLLING'' then POLLING else if j = JStr ''WIDGET'' then WIDGET else WEBHOOK)"

definition readConnectionConfig :: "json \<Rightarrow> connection_config" where
  "readConnectionConfig v = (let config = JObj (asRecord v); presentation = JObj (asRecord (jget config ''presentation'')) in
     \<lparr>cf_inboundMode = read_mode (jget config ''inboundMode''),
      cf_webhookRegistered = (jget config ''webhookRegistered'' = JBool True),
      cf_setupNote = asString (jget config ''setupNote''),
      cf_displayName = asString (jget config ''displayName''),
      cf_providerMetadata = asRecord (jget config ''providerMetadata''),
      cf_details = asRecord (jget presentation ''details''),
      cf_hints = filter (\<lambda>kv. is_string (snd kv)) (asRecord (jget presentation ''hints''))\<rparr>)"

definition buildAdapterAccount ::
  "(string \<Rightarrow> bool) \<Rightarrow> gcm_open \<Rightarrow> provider_account \<Rightarrow> cipher \<Rightarrow> cipher_error + adapter_account" where
  "buildAdapterAccount datetime gopen row c =
     bindR (openChannelSecrets datetime gopen c (pa_credentials row) (pa_id row)) (\<lambda>secrets.
       Inr \<lparr>aa_id = pa_id row, aa_workspaceId = pa_workspaceId row, aa_name = pa_name row,
         aa_accountIdentifier = pa_accountIdentifier row,
         aa_displayIdentifier = (case pa_displayIdentifier row of None \<Rightarrow> pa_accountIdentifier row | Some x \<Rightarrow> x),
         aa_credentials = jget secrets ''credentials'',
         aa_secrets = (case jget secrets ''generated'' of JUndef \<Rightarrow> JObj [] | JNull \<Rightarrow> JObj [] | g \<Rightarrow> g),
         aa_inboundMode = cf_inboundMode (readConnectionConfig (pa_config row))\<rparr>)"

text \<open>A cipher failure as a thrown value; the text of a syntax error is the engine's and left empty.\<close>

fun cipher_thrown :: "cipher_error \<Rightarrow> err" where
  "cipher_thrown (CredentialCipherError m) = OtherError ''CredentialCipherError'' m"
| "cipher_thrown JsonSyntaxError = OtherError ''SyntaxError'' []"
| "cipher_thrown OutsideModel = OtherError ''Error'' []"

definition credential :: "adapter_account \<Rightarrow> string \<Rightarrow> string" where
  "credential a k = text_of (jget (aa_credentials a) k)"

definition secret :: "adapter_account \<Rightarrow> string \<Rightarrow> string option" where
  "secret a k = (case jget (aa_secrets a) k of JStr s \<Rightarrow> Some s | _ \<Rightarrow> None)"

section \<open>Signatures\<close>

type_synonym hmac = "bytes \<Rightarrow> bytes \<Rightarrow> bytes"

definition hmacSha256Hex :: "hmac \<Rightarrow> string \<Rightarrow> bytes \<Rightarrow> string" where
  "hmacSha256Hex hmac key payload = to_hex (hmac (utf8 key) payload)"

definition hmacSha256Base64 :: "hmac \<Rightarrow> string \<Rightarrow> bytes \<Rightarrow> string" where
  "hmacSha256Base64 hmac key payload = to_base64 (hmac (utf8 key) payload)"

definition safeEqual :: "string \<Rightarrow> string \<Rightarrow> bool" where
  "safeEqual a b = (let left = utf8 a; right = utf8 b in if length left \<noteq> length right then False else left = right)"

fun first_value :: "header_value \<Rightarrow> string option" where
  "first_value (One s) = Some s"
| "first_value (Many []) = None"
| "first_value (Many (s # _)) = Some s"
| "first_value Absent = None"

fun readHeader :: "(string \<times> header_value) list \<Rightarrow> string \<Rightarrow> string option" where
  "readHeader [] name = None"
| "readHeader ((key, v) # hs) name = (if to_lower key = to_lower name then first_value v else readHeader hs name)"

definition query_value :: "webhook_request \<Rightarrow> string \<Rightarrow> string option" where
  "query_value r k = (case map_of (wr_query r) k of None \<Rightarrow> None | Some v \<Rightarrow> first_value v)"

definition blank :: "string option \<Rightarrow> bool" where
  "blank x = (x = None \<or> x = Some [])"

section \<open>Meta\<close>

definition answerMetaVerificationChallenge :: "webhook_request \<Rightarrow> string option \<Rightarrow> webhook_validation" where
  "answerMetaVerificationChallenge r verifyToken =
     (let mode = query_value r ''hub.mode''; token = query_value r ''hub.verify_token''; challenge = query_value r ''hub.challenge'' in
      if mode \<noteq> Some ''subscribe'' \<or> blank challenge then rejected 400 ''Not a verification request.''
      else if blank verifyToken \<or> blank token \<or> \<not> safeEqual (the token) (the verifyToken)
      then rejected 403 ''Verify token does not match.''
      else accepted\<lparr>wv_challengeResponse := challenge\<rparr>)"

definition verifyMetaSignature :: "hmac \<Rightarrow> webhook_request \<Rightarrow> string \<Rightarrow> webhook_validation" where
  "verifyMetaSignature hmac r appSecret = (case readHeader (wr_headers r) ''x-hub-signature-256'' of
     None \<Rightarrow> rejected 401 ''Missing webhook signature.''
   | Some h \<Rightarrow>
       if \<not> startsWith h ''sha256='' then rejected 401 ''Missing webhook signature.''
       else if \<not> safeEqual (drop (length ''sha256='') h) (hmacSha256Hex hmac appSecret (wr_rawBody r))
       then rejected 401 ''Invalid webhook signature.'' else accepted)"

definition validateMetaWebhook :: "hmac \<Rightarrow> webhook_request \<Rightarrow> adapter_account \<Rightarrow> webhook_validation" where
  "validateMetaWebhook hmac r a = (if wr_method r = GET then answerMetaVerificationChallenge r (secret a ''verifyToken'')
     else verifyMetaSignature hmac r (credential a ''appSecret''))"

section \<open>Telegram, LINE, custom API\<close>

definition validateTelegram :: "webhook_request \<Rightarrow> adapter_account \<Rightarrow> webhook_validation" where
  "validateTelegram r a =
     (if wr_method r \<noteq> POST then rejected 405 ''Telegram only sends POST requests.''
      else (let header = readHeader (wr_headers r) ''x-telegram-bot-api-secret-token''; expected = secret a ''webhookSecret'' in
        if blank expected \<or> blank header \<or> \<not> safeEqual (the header) (the expected)
        then rejected 401 ''Invalid webhook secret token.'' else accepted))"

definition validateLine :: "hmac \<Rightarrow> webhook_request \<Rightarrow> adapter_account \<Rightarrow> webhook_validation" where
  "validateLine hmac r a =
     (if wr_method r \<noteq> POST then rejected 405 ''LINE only sends POST requests.''
      else (let signature = readHeader (wr_headers r) ''x-line-signature'';
                expected = hmacSha256Base64 hmac (credential a ''channelSecret'') (wr_rawBody r) in
        if blank signature \<or> \<not> safeEqual (the signature) expected then rejected 401 ''Invalid webhook signature.'' else accepted))"

definition CUSTOM_API_SIGNATURE_TOLERANCE_SECONDS :: rat where
  "CUSTOM_API_SIGNATURE_TOLERANCE_SECONDS = 300"

definition signCustomApiPayload :: "hmac \<Rightarrow> string \<Rightarrow> string \<Rightarrow> bytes \<Rightarrow> string" where
  "signCustomApiPayload hmac key timestamp body = ''sha256='' @ hmacSha256Hex hmac key (utf8 (timestamp @ ''.'') @ body)"

definition validateCustom :: "hmac \<Rightarrow> int \<Rightarrow> webhook_request \<Rightarrow> adapter_account \<Rightarrow> webhook_validation" where
  "validateCustom hmac now r a =
     (if wr_method r \<noteq> POST then rejected 405 ''Send messages with POST.''
      else (let key = secret a ''webhookSecret''; timestamp = readHeader (wr_headers r) ''x-vynor-timestamp'';
                signature = readHeader (wr_headers r) ''x-vynor-signature'' in
        if blank key \<or> blank timestamp \<or> blank signature
        then rejected 401 ''Missing X-Vynor-Timestamp or X-Vynor-Signature header.''
        else if (case js_Number (the timestamp) of None \<Rightarrow> True
                 | Some t \<Rightarrow> \<bar>of_int now / 1000 - t\<bar> > CUSTOM_API_SIGNATURE_TOLERANCE_SECONDS)
        then rejected 401 ''Request timestamp is too old or invalid.''
        else if \<not> safeEqual (the signature) (signCustomApiPayload hmac (the key) (the timestamp) (wr_rawBody r))
        then rejected 401 ''Invalid webhook signature.'' else accepted))"

text \<open>The method of each adapter; the mailbox and the widget have none.\<close>

fun validateWebhook ::
  "hmac \<Rightarrow> int \<Rightarrow> channel_provider \<Rightarrow> (webhook_request \<Rightarrow> adapter_account \<Rightarrow> webhook_validation) option" where
  "validateWebhook hmac now WHATSAPP_CLOUD = Some (validateMetaWebhook hmac)"
| "validateWebhook hmac now META_MESSENGER = Some (validateMetaWebhook hmac)"
| "validateWebhook hmac now META_INSTAGRAM = Some (validateMetaWebhook hmac)"
| "validateWebhook hmac now TELEGRAM_BOT = Some validateTelegram"
| "validateWebhook hmac now LINE_MESSAGING = Some (validateLine hmac)"
| "validateWebhook hmac now CUSTOM_WEBHOOK = Some (validateCustom hmac now)"
| "validateWebhook hmac now EMAIL_SMTP_IMAP = None"
| "validateWebhook hmac now WEBCHAT_EMBED = None"

fun webhookPath :: "channel_provider \<Rightarrow> string option" where
  "webhookPath WHATSAPP_CLOUD = Some ''whatsapp''"
| "webhookPath META_MESSENGER = Some ''messenger''"
| "webhookPath META_INSTAGRAM = Some ''instagram''"
| "webhookPath TELEGRAM_BOT = Some ''telegram''"
| "webhookPath LINE_MESSAGING = Some ''line''"
| "webhookPath CUSTOM_WEBHOOK = Some ''custom''"
| "webhookPath EMAIL_SMTP_IMAP = None"
| "webhookPath WEBCHAT_EMBED = None"

section \<open>What a valid request carries\<close>

lemma utf8_inject: "utf8 a = utf8 b \<longleftrightarrow> a = b"
  by (metis from_utf8_utf8 option.inject)

lemma safeEqual_iff [simp]: "safeEqual a b \<longleftrightarrow> a = b"
  by (auto simp: safeEqual_def Let_def utf8_inject)

lemma validation_simps [simp]: "\<not> wv_isValid (rejected code reason)" "wv_isValid accepted" "wv_isValid (accepted\<lparr>wv_challengeResponse := c\<rparr>)"
    "wv_challengeResponse (rejected code reason) = None" "wv_challengeResponse accepted = None"
  by (simp_all add: rejected_def accepted_def)

lemma blank_simps [simp]: "blank None" "blank (Some s) \<longleftrightarrow> s = []" "\<not> blank x \<longleftrightarrow> (\<exists>s. x = Some s \<and> s \<noteq> [])"
  by (cases x; simp add: blank_def)+

lemma sha256_header: "startsWith h ''sha256='' \<Longrightarrow> drop (length ''sha256='') h = s \<longleftrightarrow> h = ''sha256='' @ s"
  by (auto simp: startsWith_def prefix_def)

text \<open>The proof of origin each provider defines for a call with a body.\<close>

definition authentic :: "hmac \<Rightarrow> int \<Rightarrow> channel_provider \<Rightarrow> adapter_account \<Rightarrow> webhook_request \<Rightarrow> bool" where
  "authentic hmac now p a r = (let header = readHeader (wr_headers r) in
     if p \<in> {WHATSAPP_CLOUD, META_MESSENGER, META_INSTAGRAM}
     then header ''x-hub-signature-256'' = Some (''sha256='' @ to_hex (hmac (utf8 (credential a ''appSecret'')) (wr_rawBody r)))
     else if p = TELEGRAM_BOT
     then (\<exists>s. s \<noteq> [] \<and> secret a ''webhookSecret'' = Some s \<and> header ''x-telegram-bot-api-secret-token'' = Some s)
     else if p = LINE_MESSAGING
     then header ''x-line-signature'' = Some (to_base64 (hmac (utf8 (credential a ''channelSecret'')) (wr_rawBody r)))
     else (\<exists>key ts t. key \<noteq> [] \<and> ts \<noteq> [] \<and> secret a ''webhookSecret'' = Some key \<and> header ''x-vynor-timestamp'' = Some ts \<and>
        js_Number ts = Some t \<and> \<bar>of_int now / 1000 - t\<bar> \<le> 300 \<and>
        header ''x-vynor-signature'' = Some (''sha256='' @ to_hex (hmac (utf8 key) (utf8 (ts @ ''.'') @ wr_rawBody r)))))"

lemma meta_authentic: "wr_method r = POST \<Longrightarrow> wv_isValid (validateMetaWebhook hmac r a) \<longleftrightarrow>
    readHeader (wr_headers r) ''x-hub-signature-256'' = Some (''sha256='' @ to_hex (hmac (utf8 (credential a ''appSecret'')) (wr_rawBody r)))"
proof -
  assume "wr_method r = POST"
  moreover have "startsWith (''sha256='' @ s) ''sha256=''" for s by (simp add: startsWith_def prefix_def)
  ultimately show ?thesis
    by (cases "readHeader (wr_headers r) ''x-hub-signature-256''")
      (auto simp: validateMetaWebhook_def verifyMetaSignature_def hmacSha256Hex_def sha256_header simp del: append_Cons list.size)
qed

lemma empty_base64 [simp]: "[] = to_base64 bs \<longleftrightarrow> bs = []"
  using to_base64_empty [of bs] by (metis (full_types))

lemma line_authentic: "\<forall>k b. length (hmac k b) = 32 \<Longrightarrow> wr_method r = POST \<Longrightarrow> wv_isValid (validateLine hmac r a) \<longleftrightarrow>
    readHeader (wr_headers r) ''x-line-signature'' = Some (to_base64 (hmac (utf8 (credential a ''channelSecret'')) (wr_rawBody r)))"
proof -
  assume h: "\<forall>k b. length (hmac k b) = 32" and m: "wr_method r = POST"
  have "hmac (utf8 (credential a ''channelSecret'')) (wr_rawBody r) \<noteq> []"
    using h by (metis list.size(3) zero_neq_numeral)
  then show ?thesis using m
    by (cases "readHeader (wr_headers r) ''x-line-signature''") (auto simp: validateLine_def hmacSha256Base64_def Let_def)
qed

lemma telegram_authentic: "wr_method r = POST \<Longrightarrow> wv_isValid (validateTelegram r a) \<longleftrightarrow>
    (\<exists>s. s \<noteq> [] \<and> secret a ''webhookSecret'' = Some s \<and> readHeader (wr_headers r) ''x-telegram-bot-api-secret-token'' = Some s)"
  by (cases "readHeader (wr_headers r) ''x-telegram-bot-api-secret-token''"; cases "secret a ''webhookSecret''")
    (auto simp: validateTelegram_def Let_def)

lemma custom_authentic: "wr_method r = POST \<Longrightarrow> wv_isValid (validateCustom hmac now r a) \<longleftrightarrow>
    (\<exists>key ts t. key \<noteq> [] \<and> ts \<noteq> [] \<and> secret a ''webhookSecret'' = Some key \<and> readHeader (wr_headers r) ''x-vynor-timestamp'' = Some ts \<and>
        js_Number ts = Some t \<and> \<bar>of_int now / 1000 - t\<bar> \<le> 300 \<and>
        readHeader (wr_headers r) ''x-vynor-signature'' = Some (''sha256='' @ to_hex (hmac (utf8 key) (utf8 (ts @ ''.'') @ wr_rawBody r))))"
  by (cases "secret a ''webhookSecret''"; cases "readHeader (wr_headers r) ''x-vynor-timestamp''"; cases "readHeader (wr_headers r) ''x-vynor-signature''")
    (auto simp: validateCustom_def Let_def signCustomApiPayload_def hmacSha256Hex_def CUSTOM_API_SIGNATURE_TOLERANCE_SECONDS_def split: option.splits)

lemma valid_calls:
  assumes "validateWebhook hmac now p = Some v" and "\<forall>k b. length (hmac k b) = 32"
  shows "(wr_method r = POST \<longrightarrow> wv_isValid (v r a) = authentic hmac now p a r) \<and>
    (wr_method r = GET \<longrightarrow> wv_isValid (v r a) =
       (p \<in> {WHATSAPP_CLOUD, META_MESSENGER, META_INSTAGRAM} \<and> query_value r ''hub.mode'' = Some ''subscribe'' \<and>
        (\<exists>t. t \<noteq> [] \<and> secret a ''verifyToken'' = Some t \<and> query_value r ''hub.verify_token'' = Some t) \<and>
        \<not> blank (query_value r ''hub.challenge''))) \<and>
    (wr_method r = GET \<and> wv_isValid (v r a) \<longrightarrow> wv_challengeResponse (v r a) = query_value r ''hub.challenge'')"
proof -
  have handshake: "wr_method r = GET \<Longrightarrow> wv_isValid (validateMetaWebhook hmac r a) \<longleftrightarrow>
      query_value r ''hub.mode'' = Some ''subscribe'' \<and>
      (\<exists>t. t \<noteq> [] \<and> secret a ''verifyToken'' = Some t \<and> query_value r ''hub.verify_token'' = Some t) \<and> \<not> blank (query_value r ''hub.challenge'')"
    by (cases "secret a ''verifyToken''"; cases "query_value r ''hub.verify_token''")
      (auto simp: validateMetaWebhook_def answerMetaVerificationChallenge_def Let_def)
  have challenge: "wr_method r = GET \<Longrightarrow> wv_isValid (validateMetaWebhook hmac r a) \<Longrightarrow>
      wv_challengeResponse (validateMetaWebhook hmac r a) = query_value r ''hub.challenge''"
    by (auto simp: validateMetaWebhook_def answerMetaVerificationChallenge_def Let_def split: if_splits)
  show ?thesis
    using assms(1) meta_authentic [where r = r and hmac = hmac and a = a] line_authentic [OF assms(2), where r = r and a = a] telegram_authentic [where r = r and a = a]
      custom_authentic [where r = r and hmac = hmac and now = now and a = a] handshake challenge
    by (cases p) (auto simp: authentic_def Let_def validateTelegram_def validateLine_def validateCustom_def)
qed

text \<open>C13: A webhook call is taken as genuine exactly when it proves its origin: a call with a body must
  carry the provider's signature of exactly that body under the secret of this channel (for Telegram
  the secret itself, for the custom API within five minutes of the signed time); of the calls without
  a body only the handshake with the channel's own verify token is answered, with its challenge.
\<close>

theorem webhook_authentic:
  assumes "validateWebhook hmac now p = Some v" and "\<forall>k b. length (hmac k b) = 32"
  shows "(wr_method r = POST \<longrightarrow> wv_isValid (v r a) = authentic hmac now p a r) \<and>
    (wr_method r = GET \<longrightarrow> wv_isValid (v r a) =
       (p \<in> {WHATSAPP_CLOUD, META_MESSENGER, META_INSTAGRAM} \<and> query_value r ''hub.mode'' = Some ''subscribe'' \<and>
        (\<exists>t. t \<noteq> [] \<and> secret a ''verifyToken'' = Some t \<and> query_value r ''hub.verify_token'' = Some t) \<and>
        \<not> blank (query_value r ''hub.challenge''))) \<and>
    (wr_method r = GET \<and> wv_isValid (v r a) \<longrightarrow> wv_challengeResponse (v r a) = query_value r ''hub.challenge'')"
  by (rule valid_calls [OF assms])

text \<open>A sample keyed hash, and a signed call.\<close>

definition sample_hmac :: hmac where
  "sample_hmac k b = take 32 (k @ b @ replicate 32 (CHR ''0''))"

definition sample_account :: adapter_account where
  "sample_account = \<lparr>aa_id = ''acc1'', aa_workspaceId = ''w1'', aa_name = ''Bot'', aa_accountIdentifier = ''77'',
     aa_displayIdentifier = ''@bot'', aa_credentials = JObj [(''botToken'', JStr ''77:x'')],
     aa_secrets = JObj [(''webhookSecret'', JStr ''s3'')], aa_inboundMode = WEBHOOK\<rparr>"

definition sample_call :: webhook_request where
  "sample_call = \<lparr>wr_method = POST, wr_rawBody = ''{}'',
     wr_headers = [(''X-Telegram-Bot-Api-Secret-Token'', One ''s3'')], wr_query = []\<rparr>"

lemma sample_hmac_length: "length (sample_hmac k b) = 32"
  by (simp add: sample_hmac_def)

theorem webhook_authentic_witness:
  "wv_isValid (validateTelegram sample_call sample_account) = authentic sample_hmac 0 TELEGRAM_BOT sample_account sample_call \<and>
   wv_isValid (validateTelegram sample_call sample_account)"
proof -
  have "wv_isValid (validateTelegram sample_call sample_account)" by code_simp
  moreover have "wr_method sample_call = POST" by code_simp
  ultimately show ?thesis
    using webhook_authentic [of sample_hmac 0 TELEGRAM_BOT validateTelegram sample_call sample_account] sample_hmac_length by simp
qed

end
