(* ===== verification/EventExtraction.thy ===== *)
theory EventExtraction
  imports Signatures
begin

text \<open>
  Splitting a webhook body into journal events: \<open>extractEvents\<close> of the adapters of
  \<open>packages/channel-adapters/src/providers\<close> (WhatsApp Cloud, Messenger and Instagram through
  \<open>meta-messaging.ts\<close>, Telegram, LINE, custom API) and \<open>webchatEventFor\<close>. A number printed into a key is
  an integer.
\<close>

section \<open>Events\<close>

record extracted_event =
  xe_key :: string
  xe_isFingerprinted :: bool
  xe_payload :: json
  xe_routing :: "string option"

definition event :: "string \<Rightarrow> json \<Rightarrow> string option \<Rightarrow> extracted_event" where
  "event key p routing = \<lparr>xe_key = key, xe_isFingerprinted = False, xe_payload = p, xe_routing = routing\<rparr>"

text \<open>A routing identifier that is empty is left out; an undefined value in a template text.\<close>

definition nonblank :: "string option \<Rightarrow> string option" where
  "nonblank x = (case x of Some s \<Rightarrow> if s = [] then None else Some s | None \<Rightarrow> None)"

definition shown :: "string option \<Rightarrow> string" where
  "shown x = (case x of Some s \<Rightarrow> s | None \<Rightarrow> ''undefined'')"

definition orElse :: "string option \<Rightarrow> string option \<Rightarrow> string option" where
  "orElse a b = (case a of Some s \<Rightarrow> Some s | None \<Rightarrow> b)"

definition record_of :: "json \<Rightarrow> json" where
  "record_of j = JObj (asRecord j)"

definition field :: "json \<Rightarrow> string \<Rightarrow> string option" where
  "field j k = asString (jget j k)"

lemma jget_record_of [simp]: "jget (record_of j) k = jget j k"
  by (cases j) (simp_all add: record_of_def jget_def)

lemma field_record_of [simp]: "field (record_of j) k = field j k"
  by (simp add: field_def)

section \<open>WhatsApp\<close>

definition whatsapp_message_event :: "json \<Rightarrow> string option \<Rightarrow> json list \<Rightarrow> json \<Rightarrow> extracted_event list" where
  "whatsapp_message_event metadata phoneNumberId contacts message = (case nonblank (field message ''id'') of
     None \<Rightarrow> []
   | Some i \<Rightarrow> [event (''msg:'' @ i)
       (JObj ([(''metadata'', metadata), (''message'', message)] @
         (case List.find (\<lambda>c. field c ''wa_id'' = field message ''from'') contacts of Some c \<Rightarrow> [(''contact'', c)] | None \<Rightarrow> [])))
       (nonblank phoneNumberId)])"

definition whatsapp_status_event :: "json \<Rightarrow> string option \<Rightarrow> json \<Rightarrow> extracted_event list" where
  "whatsapp_status_event metadata phoneNumberId status =
     (case (nonblank (field status ''id''), nonblank (field status ''status'')) of
        (Some i, Some state) \<Rightarrow> [event (''status:'' @ i @ '':'' @ state) (JObj [(''metadata'', metadata), (''status'', status)]) (nonblank phoneNumberId)]
      | _ \<Rightarrow> [])"

definition whatsapp_change :: "json \<Rightarrow> extracted_event list" where
  "whatsapp_change change = (if jget change ''field'' \<noteq> JStr ''messages'' then []
     else let v = jget change ''value''; metadata = record_of (jget v ''metadata''); phone = field metadata ''phone_number_id'';
              contacts = map record_of (asArray (jget v ''contacts'')) in
       concat (map (\<lambda>m. whatsapp_message_event metadata phone contacts (record_of m)) (asArray (jget v ''messages''))) @
       concat (map (\<lambda>s. whatsapp_status_event metadata phone (record_of s)) (asArray (jget v ''statuses''))))"

definition extract_whatsapp :: "json \<Rightarrow> extracted_event list" where
  "extract_whatsapp payload = (if jget payload ''object'' \<noteq> JStr ''whatsapp_business_account'' then []
     else concat (map (\<lambda>entry. concat (map whatsapp_change (asArray (jget entry ''changes'')))) (asArray (jget payload ''entry''))))"

section \<open>Messenger and Instagram\<close>

definition messaging_key :: "json \<Rightarrow> string option" where
  "messaging_key e = (let senderId = (case field (jget e ''sender'') ''id'' of Some s \<Rightarrow> s | None \<Rightarrow> ''unknown''); ts = shown (field e ''timestamp'') in
     if truthy (jget e ''message'') then
       (if jget (jget e ''message'') ''is_echo'' = JBool True then None
        else map_option (\<lambda>m. ''mid:'' @ m) (nonblank (field (jget e ''message'') ''mid'')))
     else if truthy (jget e ''postback'') then
       Some (''postback:'' @ (case field (jget e ''postback'') ''mid'' of Some m \<Rightarrow> m | None \<Rightarrow> senderId @ '':'' @ ts))
     else if truthy (jget e ''delivery'') then
       Some (''delivery:'' @ senderId @ '':'' @ (case field (jget e ''delivery'') ''watermark'' of Some w \<Rightarrow> w | None \<Rightarrow> ts))
     else if truthy (jget e ''read'') then
       Some (''read:'' @ senderId @ '':'' @
         (case orElse (field (jget e ''read'') ''mid'') (field (jget e ''read'') ''watermark'') of Some w \<Rightarrow> w | None \<Rightarrow> ts))
     else if truthy (jget e ''reaction'') then
       Some (''reaction:'' @ shown (field (jget e ''reaction'') ''mid'') @ '':'' @ senderId @ '':'' @
         shown (field (jget e ''reaction'') ''action'') @ '':'' @ ts)
     else None)"

definition messaging_event :: "string option \<Rightarrow> json \<Rightarrow> extracted_event list" where
  "messaging_event accountId e = (case messaging_key e of
     None \<Rightarrow> [] | Some key \<Rightarrow> [event (take 255 key) e (nonblank accountId)])"

definition extractMessagingEvents :: "string \<Rightarrow> json \<Rightarrow> extracted_event list" where
  "extractMessagingEvents expectedObject payload = (if jget payload ''object'' \<noteq> JStr expectedObject then []
     else concat (map (\<lambda>entry. concat (map (\<lambda>e. messaging_event (field entry ''id'') (record_of e)) (asArray (jget entry ''messaging''))))
       (asArray (jget payload ''entry''))))"

section \<open>Telegram, LINE, custom API, web chat\<close>

definition asInteger :: "json \<Rightarrow> int option" where
  "asInteger j = (case asNumber j of Some v \<Rightarrow> if snd (quotient_of v) = 1 then Some (fst (quotient_of v)) else None | None \<Rightarrow> None)"

definition extract_telegram :: "json \<Rightarrow> extracted_event list" where
  "extract_telegram payload = (case asInteger (jget payload ''update_id'') of
     None \<Rightarrow> [] | Some i \<Rightarrow> [event (''update:'' @ show_int i) (record_of payload) None])"

definition extract_line :: "json \<Rightarrow> extracted_event list" where
  "extract_line payload = concat (map (\<lambda>e. case nonblank (field e ''webhookEventId'') of
       None \<Rightarrow> [] | Some i \<Rightarrow> [event (''event:'' @ i) (record_of e) (nonblank (field payload ''destination''))])
     (asArray (jget payload ''events'')))"

definition custom_event :: "json \<Rightarrow> extracted_event list" where
  "custom_event item = (case nonblank (field item ''messageId'') of
     None \<Rightarrow> []
   | Some i \<Rightarrow>
       if field item ''type'' = Some ''status''
       then [event (take 255 (''status:'' @ i @ '':'' @ (case field item ''status'' of Some s \<Rightarrow> s | None \<Rightarrow> ''unknown''))) item None]
       else [event (take 255 (''msg:'' @ i)) item None])"

definition extract_custom :: "json \<Rightarrow> extracted_event list" where
  "extract_custom payload = concat (map custom_event (case jget payload ''events'' of
     JArr es \<Rightarrow> map record_of es | _ \<Rightarrow> [record_of payload]))"

definition webchatEventFor :: "string \<Rightarrow> string \<Rightarrow> string \<Rightarrow> string \<Rightarrow> (string \<times> json) list \<Rightarrow> extracted_event" where
  "webchatEventFor visitorId clientMessageId message sentAt optional =
     event (take 255 (''msg:'' @ visitorId @ '':'' @ clientMessageId))
       (JObj ([(''visitorId'', JStr visitorId), (''clientMessageId'', JStr clientMessageId), (''text'', JStr message),
         (''sentAt'', JStr sentAt)] @ optional)) None"

fun extractEvents :: "channel_provider \<Rightarrow> (json \<Rightarrow> extracted_event list) option" where
  "extractEvents WHATSAPP_CLOUD = Some extract_whatsapp"
| "extractEvents META_MESSENGER = Some (extractMessagingEvents ''page'')"
| "extractEvents META_INSTAGRAM = Some (extractMessagingEvents ''instagram'')"
| "extractEvents TELEGRAM_BOT = Some extract_telegram"
| "extractEvents LINE_MESSAGING = Some extract_line"
| "extractEvents CUSTOM_WEBHOOK = Some extract_custom"
| "extractEvents EMAIL_SMTP_IMAP = None"
| "extractEvents WEBCHAT_EMBED = None"

section \<open>Facts\<close>

lemma event_simps [simp]: "xe_key (event k p r) = k" "xe_payload (event k p r) = p" "xe_routing (event k p r) = r"
    "\<not> xe_isFingerprinted (event k p r)"
  by (simp_all add: event_def)

lemma nonblank_Some: "nonblank x = Some s \<longleftrightarrow> x = Some s \<and> s \<noteq> []"
  by (auto simp: nonblank_def split: option.splits)

text \<open>The interface promises keys of at most 255 characters; WhatsApp and LINE do not cut theirs.\<close>

lemma whatsapp_key_uncut:
  "map (length \<circ> xe_key) (extract_whatsapp (JObj [(''object'', JStr ''whatsapp_business_account''),
     (''entry'', JArr [JObj [(''changes'', JArr [JObj [(''field'', JStr ''messages''),
        (''value'', JObj [(''messages'', JArr [JObj [(''id'', JStr (replicate 300 (CHR ''a'')))]])])]])]])])) = [304]"
  by (simp add: extract_whatsapp_def whatsapp_change_def whatsapp_message_event_def field_def jget_def record_of_def nonblank_def)

text \<open>Cutting a custom status key drops the status from it, so that two statuses of one message share
  a key and the second is taken for a repetition.\<close>

lemma custom_status_keys_collide:
  assumes "length i = 250"
  shows "map xe_key (custom_event (JObj [(''messageId'', JStr i), (''type'', JStr ''status''), (''status'', JStr ''delivered'')])) =
     map xe_key (custom_event (JObj [(''messageId'', JStr i), (''type'', JStr ''status''), (''status'', JStr ''failed'')]))"
  using assms by (cases "i = []") (simp_all add: custom_event_def field_def jget_def nonblank_def)

end
