(* ===== verification/Webhooks.thy ===== *)
theory Webhooks
  imports EventExtraction ProviderEvents
begin

text \<open>
  The webhook ingress, \<open>apps/api/src/webhooks/webhook-ingest.service.ts\<close>: a provider's call is
  authenticated for the channel of its secret key, split into events, routed to the channels of the
  same workspace and provider they belong to, and journaled. What decrypts credentials, parses the
  body, reads the clock and generates ids is the environment of a call.
\<close>

section \<open>The registry of the program\<close>

definition entry_of :: "channel_provider \<Rightarrow> channel_provider adapter_entry" where
  "entry_of p = \<lparr>ad_channelType = PROVIDER_CHANNEL_TYPES p, ad_provider = p, ad_webhookPath = webhookPath p, ad_impl = p\<rparr>"

fun register_all :: "channel_provider list \<Rightarrow> channel_provider registry \<Rightarrow> err + channel_provider registry" where
  "register_all [] r = Inr r"
| "register_all (p # ps) r = bindR (registry_register r (entry_of p)) (register_all ps)"

definition createChannelAdapterRegistry :: "err + channel_provider registry" where
  "createChannelAdapterRegistry = register_all
     [WHATSAPP_CLOUD, TELEGRAM_BOT, EMAIL_SMTP_IMAP, META_MESSENGER, META_INSTAGRAM, LINE_MESSAGING, WEBCHAT_EMBED, CUSTOM_WEBHOOK] []"

definition channel_registry :: "channel_provider registry" where
  "channel_registry = (case createChannelAdapterRegistry of Inr r \<Rightarrow> r | Inl _ \<Rightarrow> [])"

section \<open>The service\<close>

datatype webhook_body = Plain string | Fields "(string \<times> json) list"

record webhook_response =
  wp_status :: nat
  wp_body :: webhook_body

text \<open>The cipher is absent when no key is configured; \<open>we_parse\<close> decodes and parses a body; \<open>we_gen\<close> and
  \<open>we_gen'\<close> generate the ids of the rows and outbox rows of each group.\<close>

record webhook_env =
  we_hmac :: hmac
  we_now :: int
  we_datetime :: "string \<Rightarrow> bool"
  we_open :: gcm_open
  we_cipher :: "cipher option"
  we_parse :: "bytes \<Rightarrow> json option"
  we_gen :: "nat \<Rightarrow> nat \<Rightarrow> id"
  we_gen' :: "nat \<Rightarrow> nat \<Rightarrow> id"

definition refused :: "nat \<Rightarrow> string \<Rightarrow> webhook_response" where
  "refused status message = \<lparr>wp_status = status, wp_body = Fields [(''received'', JBool False), (''message'', JStr message)]\<rparr>"

definition find_webhook_channel :: "string \<Rightarrow> channel_provider \<Rightarrow> db \<Rightarrow> provider_account option" where
  "find_webhook_channel key p d = List.find (\<lambda>a. pa_webhookKey a = Some key \<and> pa_provider a = p \<and> pa_deletedAt a = None) (db_accounts d)"

definition find_sibling :: "provider_account \<Rightarrow> channel_provider \<Rightarrow> string \<Rightarrow> db \<Rightarrow> provider_account option" where
  "find_sibling channel p ident d = List.find (\<lambda>a. pa_workspaceId a = pa_workspaceId channel \<and> pa_provider a = p \<and>
     pa_accountIdentifier a = ident \<and> pa_deletedAt a = None) (db_accounts d)"

text \<open>\<open>Map\<close>: insertion-ordered groups, and the cache of looked-up siblings.\<close>

fun add_to_group :: "id \<Rightarrow> extracted_event \<Rightarrow> (id \<times> extracted_event list) list \<Rightarrow> (id \<times> extracted_event list) list" where
  "add_to_group i e [] = [(i, [e])]"
| "add_to_group i e ((j, es) # gs) = (if j = i then (j, es @ [e]) # gs else (j, es) # add_to_group i e gs)"

definition sibling_id :: "channel_provider \<Rightarrow> provider_account \<Rightarrow> db \<Rightarrow> string \<Rightarrow> (string \<times> id option) list \<Rightarrow> id option \<times> (string \<times> id option) list" where
  "sibling_id p channel d routing siblings = (case map_of siblings routing of
     Some t \<Rightarrow> (t, siblings)
   | None \<Rightarrow> (let t = map_option pa_id (find_sibling channel p routing d) in (t, (routing, t) # siblings)))"

fun route_events :: "channel_provider \<Rightarrow> provider_account \<Rightarrow> db \<Rightarrow> extracted_event list \<Rightarrow> (string \<times> id option) list \<Rightarrow>
    (id \<times> extracted_event list) list \<Rightarrow> (id \<times> extracted_event list) list" where
  "route_events p channel d [] siblings groups = groups"
| "route_events p channel d (e # es) siblings groups =
     (let (target, siblings') =
        (case xe_routing e of
           Some routing \<Rightarrow> if routing \<noteq> [] \<and> routing \<noteq> pa_accountIdentifier channel
             then sibling_id p channel d routing siblings else (Some (pa_id channel), siblings)
         | None \<Rightarrow> (Some (pa_id channel), siblings)) in
      route_events p channel d es siblings' (case target of None \<Rightarrow> groups | Some i \<Rightarrow> add_to_group i e groups))"

definition route :: "channel_provider \<Rightarrow> provider_account \<Rightarrow> extracted_event list \<Rightarrow> db \<Rightarrow> (id \<times> extracted_event list) list" where
  "route p channel events d = route_events p channel d events [] []"

definition JOURNALED_HEADERS :: "string list" where
  "JOURNALED_HEADERS = [''content-type'', ''user-agent'']"

definition journaled_headers :: "webhook_request \<Rightarrow> json" where
  "journaled_headers r = JObj (concat (map (\<lambda>name. case map_of (wr_headers r) name of
     Some (One v) \<Rightarrow> [(name, JStr v)] | _ \<Rightarrow> []) JOURNALED_HEADERS))"

definition group_params :: "provider_account \<Rightarrow> string \<Rightarrow> json \<Rightarrow> extracted_event list \<Rightarrow> journal_params" where
  "group_params target correlationId headers es = \<lparr>jp_workspaceId = pa_workspaceId target, jp_providerAccountId = pa_id target,
     jp_provider = pa_provider target, jp_channelType = pa_channelType target,
     jp_events = map (\<lambda>e. \<lparr>ji_providerEventKey = xe_key e, ji_isFingerprinted = xe_isFingerprinted e, ji_payload = xe_payload e,
        ji_headers = Some headers\<rparr>) es,
     jp_correlationId = correlationId, jp_retentionDays = None\<rparr>"

fun journal_groups :: "webhook_env \<Rightarrow> string \<Rightarrow> json \<Rightarrow> provider_account \<Rightarrow> nat \<Rightarrow> (id \<times> extracted_event list) list \<Rightarrow> nat \<times> nat \<Rightarrow> db \<Rightarrow>
    (err + nat \<times> nat) \<times> db" where
  "journal_groups env corr headers channel k [] counts d = (Inr counts, d)"
| "journal_groups env corr headers channel k ((i, es) # gs) counts d =
     (case (if i = pa_id channel then Some channel else find_account i d) of
        None \<Rightarrow> journal_groups env corr headers channel (Suc k) gs counts d
      | Some target \<Rightarrow>
          (case journalProviderEvents (we_gen env k) (we_gen' env k) (we_now env) (group_params target corr headers es) d of
             (Inl e, d') \<Rightarrow> (Inl e, d')
           | (Inr (ids, dup), d') \<Rightarrow>
               journal_groups env corr headers channel (Suc k) gs (fst counts + length ids, snd counts + dup) d'))"

definition webhook_payload :: "webhook_env \<Rightarrow> webhook_request \<Rightarrow> json option" where
  "webhook_payload env r = (if wr_rawBody r \<noteq> [] then we_parse env (wr_rawBody r) else Some (JObj []))"

definition webhook_account :: "webhook_env \<Rightarrow> provider_account \<Rightarrow> adapter_account option" where
  "webhook_account env channel = (case we_cipher env of None \<Rightarrow> None
     | Some c \<Rightarrow> (case buildAdapterAccount (we_datetime env) (we_open env) channel c of Inl _ \<Rightarrow> None | Inr a \<Rightarrow> Some a))"

text \<open>The verified call: parsed, split, routed, journaled.\<close>

definition ingest :: "webhook_env \<Rightarrow> channel_provider \<Rightarrow> provider_account \<Rightarrow> webhook_request \<Rightarrow> string \<Rightarrow> db \<Rightarrow> (err + webhook_response) \<times> db" where
  "ingest env p channel r correlationId d = (case webhook_payload env r of
     None \<Rightarrow> (Inr (refused 400 ''Malformed request payload.''), d)
   | Some payload \<Rightarrow>
       (let events = (case extractEvents p of Some f \<Rightarrow> f payload | None \<Rightarrow> []) in
        case journal_groups env correlationId (journaled_headers r) channel 0 (route p channel events d) (0, 0) d of
          (Inl e, d') \<Rightarrow> (Inl e, d')
        | (Inr (acc, dup), d') \<Rightarrow> (Inr \<lparr>wp_status = 200, wp_body = Fields [(''received'', JBool True),
            (''accepted'', JNum (int acc)), (''duplicates'', JNum (int dup))]\<rparr>, d')))"

definition handle :: "webhook_env \<Rightarrow> string \<Rightarrow> string \<Rightarrow> webhook_request \<Rightarrow> string \<Rightarrow> db \<Rightarrow> (err + webhook_response) \<times> db" where
  "handle env providerPath webhookKey r correlationId d =
     (let unknown = refused 404 ''Unknown webhook.'' in
      case registry_getByWebhookPath channel_registry providerPath of
        None \<Rightarrow> (Inr unknown, d)
      | Some adapter \<Rightarrow>
          (case validateWebhook (we_hmac env) (we_now env) (ad_provider adapter) of
             None \<Rightarrow> (Inr unknown, d)
           | Some validate \<Rightarrow>
               (case find_webhook_channel webhookKey (ad_provider adapter) d of
                  None \<Rightarrow> (Inr unknown, d)
                | Some channel \<Rightarrow>
                    (case webhook_account env channel of
                       None \<Rightarrow> (Inr (refused 503 ''Channel temporarily unavailable.''), d)
                     | Some account \<Rightarrow>
                         (let validation = validate r account in
                          if \<not> wv_isValid validation
                          then (Inr (refused (case wv_statusCode validation of Some c \<Rightarrow> c | None \<Rightarrow> 401)
                            (case wv_failureReason validation of Some m \<Rightarrow> m | None \<Rightarrow> ''Invalid webhook request.'')), d)
                          else if wr_method r = GET
                          then (Inr \<lparr>wp_status = 200, wp_body = (case wv_challengeResponse validation of
                            Some c \<Rightarrow> Plain c | None \<Rightarrow> Fields [(''ok'', JBool True)])\<rparr>, d)
                          else ingest env (ad_provider adapter) channel r correlationId d)))))"

section \<open>Facts\<close>

lemma channel_registry_entries:
  "registry_list channel_registry = map entry_of
     [WHATSAPP_CLOUD, TELEGRAM_BOT, EMAIL_SMTP_IMAP, META_MESSENGER, META_INSTAGRAM, LINE_MESSAGING, WEBCHAT_EMBED, CUSTOM_WEBHOOK]"
  by (simp add: channel_registry_def createChannelAdapterRegistry_def registry_register_def entry_of_def registry_list_def makeKey_def)

lemma entry_simps [simp]: "ad_provider (entry_of p) = p" "ad_webhookPath (entry_of p) = webhookPath p"
  by (simp_all add: entry_of_def)

lemma registry_path:
  assumes "registry_getByWebhookPath channel_registry path = Some a"
  shows "webhookPath (ad_provider a) = Some path"
proof -
  have a: "a \<in> set (registry_list channel_registry)" "ad_webhookPath a = Some path"
    using assms find_SomeD unfolding registry_getByWebhookPath_def by fast+
  then obtain p where "a = entry_of p" unfolding channel_registry_entries by auto
  then show ?thesis using a(2) by simp
qed

lemma unique_events_subset: "set (unique_events es) \<subseteq> set es"
proof -
  have "set (map_set e xs) \<subseteq> insert e (set xs)" for e xs by (induction xs) auto
  then have "set (foldl (\<lambda>m e. map_set e m) acc es) \<subseteq> set acc \<union> set es" for acc
    by (induction es arbitrary: acc) fastforce+
  then show ?thesis by (fastforce simp: unique_events_def)
qed

lemma journal_row_source:
  assumes "r \<in> set (journal_rows gen now p)"
  shows "\<exists>e\<in>set (jp_events p). pe_workspaceId r = jp_workspaceId p \<and> pe_providerAccountId r = jp_providerAccountId p \<and>
    pe_provider r = jp_provider p \<and> pe_providerEventKey r = ji_providerEventKey e \<and> pe_payload r = ji_payload e \<and> pe_status r = EReceived"
proof -
  obtain k where "k < length (unique_events (jp_events p))" "r = journal_row now p (gen k) (unique_events (jp_events p) ! k)"
    using assms by (auto simp: journal_rows_def Let_def set_zip)
  moreover from this(1) have "unique_events (jp_events p) ! k \<in> set (jp_events p)"
    using unique_events_subset nth_mem by blast
  ultimately show ?thesis
    by (intro bexI [of _ "unique_events (jp_events p) ! k"]) (simp_all add: journal_row_def event_row_def Let_def)
qed

lemma journal_changes:
  assumes "journalProviderEvents gen gen' now p d = (r, d')"
  shows "\<exists>created rows. d' = d\<lparr>db_events := db_events d @ created, db_outbox := db_outbox d @ rows\<rparr> \<and>
    set created \<subseteq> set (journal_rows gen now p) \<and>
    map oe_payload rows = map (\<lambda>e. JObj [(''providerEventId'', JStr (pe_id e))]) created"
proof (cases "journalProviderEventsInTransaction gen gen' now p d")
  case (Inl e)
  then have "d' = d" using assms by (auto simp: journalProviderEvents_def runTx_def split: if_splits)
  then show ?thesis by (intro exI [of _ "[]"]) simp
next
  case (Inr s)
  obtain ids dup d1 where s: "s = ((ids, dup), d1)" by (metis prod.collapse)
  show ?thesis
  proof (cases "jp_events p = []")
    case True
    then have "d' = d" using assms by (simp add: journalProviderEvents_def)
    then show ?thesis by (intro exI [of _ "[]"]) simp
  next
    case False
    then have d': "d' = d1" using assms Inr s by (auto simp: journalProviderEvents_def runTx_def)
    obtain created d2 where cr: "create_events_skip (journal_rows gen now p) d = (created, d2)" by force
    obtain rows where per: "persist_outbox (map gen' [0..<length created]) now (map (received_params p) created) d2 = Inr (rows, d1)"
      using Inr s False cr by (auto simp: journalProviderEventsInTransaction_def journal_rows_def Let_def bindT_Inr)
    have "rows = map2 (\<lambda>i p. outbox_row i now p) (map gen' [0..<length created]) (map (received_params p) created)"
      and "d1 = d2\<lparr>db_outbox := db_outbox d2 @ rows\<rparr>"
      using persist_outbox_Inr [OF per] by simp_all
    moreover have "map oe_payload rows = map (\<lambda>e. JObj [(''providerEventId'', JStr (pe_id e))]) created"
      by (rule nth_equalityI) (simp_all add: calculation(1) received_params_def)
    ultimately show ?thesis using create_events_skip_facts [OF cr] d'
      by (intro exI [of _ created] exI [of _ rows]) simp
  qed
qed

subsection \<open>Routing\<close>

text \<open>The channel an event belongs to.\<close>

definition filed_under :: "channel_provider \<Rightarrow> provider_account \<Rightarrow> db \<Rightarrow> extracted_event \<Rightarrow> provider_account option" where
  "filed_under p channel d e = (case xe_routing e of
     None \<Rightarrow> Some channel
   | Some s \<Rightarrow> if s = [] \<or> s = pa_accountIdentifier channel then Some channel else find_sibling channel p s d)"

definition group_pairs :: "(id \<times> extracted_event list) list \<Rightarrow> (id \<times> extracted_event) set" where
  "group_pairs gs = {(i, e). \<exists>es. (i, es) \<in> set gs \<and> e \<in> set es}"

lemma add_to_group_pairs: "group_pairs (add_to_group i e gs) = insert (i, e) (group_pairs gs)"
proof (induction i e gs rule: add_to_group.induct)
  case (2 i e j es gs)
  have "group_pairs ((k, xs) # hs) = {(k, x) |x. x \<in> set xs} \<union> group_pairs hs" for k xs hs
    by (auto simp: group_pairs_def)
  then show ?case using 2 by auto
qed (auto simp: group_pairs_def)

lemma route_events_pairs:
  assumes "\<forall>(s, t)\<in>set siblings. t = map_option pa_id (find_sibling channel p s d)"
  shows "group_pairs (route_events p channel d es siblings groups) = group_pairs groups \<union>
    {(pa_id t, e) |t e. e \<in> set es \<and> filed_under p channel d e = Some t}"
  using assms
proof (induction p channel d es siblings groups rule: route_events.induct)
  case (2 p channel d e es siblings groups)
  obtain target siblings' where t: "(case xe_routing e of
           Some routing \<Rightarrow> if routing \<noteq> [] \<and> routing \<noteq> pa_accountIdentifier channel
             then sibling_id p channel d routing siblings else (Some (pa_id channel), siblings)
         | None \<Rightarrow> (Some (pa_id channel), siblings)) = (target, siblings')" by force
  have target: "target = map_option pa_id (filed_under p channel d e)"
    and sound: "\<forall>(s, t)\<in>set siblings'. t = map_option pa_id (find_sibling channel p s d)"
    using t 2(2) by (auto simp: filed_under_def sibling_id_def Let_def dest!: map_of_SomeD split: option.splits if_splits)
  note IH = 2(1) [OF t [symmetric] refl sound]
  have step: "group_pairs (case target of None \<Rightarrow> groups | Some i \<Rightarrow> add_to_group i e groups) =
      group_pairs groups \<union> {(pa_id t, e) |t. filed_under p channel d e = Some t}"
    using target by (auto simp: add_to_group_pairs split: option.splits)
  show ?case using IH step by (auto simp: t)
qed simp

lemma route_pairs: "group_pairs (route p channel es d) = {(pa_id t, e) |t e. e \<in> set es \<and> filed_under p channel d e = Some t}"
  unfolding route_def by (subst route_events_pairs) (auto simp: group_pairs_def)

lemma filed_under_facts:
  assumes "filed_under p channel d e = Some t" "channel \<in> set (db_accounts d)" "pa_provider channel = p" "pa_deletedAt channel = None"
  shows "t \<in> set (db_accounts d) \<and> pa_workspaceId t = pa_workspaceId channel \<and> pa_provider t = p \<and> pa_deletedAt t = None \<and>
    (\<forall>s. xe_routing e = Some s \<longrightarrow> s \<noteq> [] \<longrightarrow> pa_accountIdentifier t = s) \<and> (xe_routing e = None \<or> xe_routing e = Some [] \<longrightarrow> t = channel)"
  using assms by (auto simp: filed_under_def find_sibling_def dest!: find_SomeD split: option.splits if_splits)

lemma find_by_key: "distinct (map f xs) \<Longrightarrow> t \<in> set xs \<Longrightarrow> List.find (\<lambda>a. f a = f t) xs = Some t"
  by (induction xs) force+

lemma find_account_member: "distinct (map pa_id (db_accounts d)) \<Longrightarrow> t \<in> set (db_accounts d) \<Longrightarrow> find_account (pa_id t) d = Some t"
  unfolding find_account_def by (rule find_by_key)

subsection \<open>Journaling the groups\<close>

definition group_target :: "provider_account \<Rightarrow> db \<Rightarrow> id \<Rightarrow> provider_account option" where
  "group_target channel d i = (if i = pa_id channel then Some channel else find_account i d)"

definition files_event :: "provider_account \<Rightarrow> extracted_event \<Rightarrow> provider_event \<Rightarrow> bool" where
  "files_event t x e = (pe_workspaceId e = pa_workspaceId t \<and> pe_providerAccountId e = pa_id t \<and> pe_provider e = pa_provider t \<and>
     pe_providerEventKey e = xe_key x \<and> pe_payload e = xe_payload x \<and> pe_status e = EReceived)"

lemma group_pairs_simps: "group_pairs [] = {}" "group_pairs ((i, es) # gs) = Pair i ` set es \<union> group_pairs gs"
  by (auto simp: group_pairs_def)

lemma group_row_source:
  "e \<in> set (journal_rows gen now (group_params t corr headers es)) \<Longrightarrow> \<exists>x\<in>set es. files_event t x e"
  by (drule journal_row_source) (auto simp: group_params_def files_event_def)

lemma batch_keys_group: "batch_keys (group_params t corr headers es) = (\<lambda>x. (pa_id t, xe_key x)) ` set es"
  by (simp add: batch_keys_def group_params_def image_image)

lemma own_target:
  assumes "distinct (map pa_id (db_accounts d))" "t \<in> set (db_accounts d)" "ch \<in> set (db_accounts d)"
  shows "group_target ch d (pa_id t) = Some t"
proof (cases "pa_id t = pa_id ch")
  case True
  then have "t = ch" using find_account_member [OF assms(1,2)] find_account_member [OF assms(1,3)] by (metis option.inject)
  then show ?thesis by (simp add: group_target_def)
next
  case False
  then show ?thesis unfolding group_target_def using find_account_member [OF assms(1,2)] by (simp only: if_False)
qed

lemma group_target_accounts: "db_accounts d' = db_accounts d \<Longrightarrow> group_target ch d' i = group_target ch d i"
  by (simp add: group_target_def find_account_def)

text \<open>What journaling adds: rows of the groups' events, one outbox event for each, nothing else.\<close>

definition adds_rows :: "provider_account \<Rightarrow> (id \<times> extracted_event) set \<Rightarrow> db \<Rightarrow> db \<Rightarrow> bool" where
  "adds_rows channel pairs d d' = (\<exists>created rows. d' = d\<lparr>db_events := db_events d @ created, db_outbox := db_outbox d @ rows\<rparr> \<and>
     map oe_payload rows = map (\<lambda>e. JObj [(''providerEventId'', JStr (pe_id e))]) created \<and>
     (\<forall>e\<in>set created. \<exists>(i, x)\<in>pairs. \<exists>t. group_target channel d i = Some t \<and> files_event t x e))"

lemma group_target_stable [simp]: "group_target channel (d\<lparr>db_events := a, db_outbox := b\<rparr>) i = group_target channel d i"
  by (simp add: group_target_def find_account_def)

lemma adds_none: "adds_rows channel pairs d d"
  unfolding adds_rows_def by (intro exI [of _ "[]"]) simp

lemma adds_rows_trans:
  assumes "adds_rows channel A d d1" "adds_rows channel B d1 d'"
  shows "adds_rows channel (A \<union> B) d d'"
proof -
  obtain c r where 1: "d1 = d\<lparr>db_events := db_events d @ c, db_outbox := db_outbox d @ r\<rparr>"
      "map oe_payload r = map (\<lambda>e. JObj [(''providerEventId'', JStr (pe_id e))]) c"
      "\<forall>e\<in>set c. \<exists>(i, x)\<in>A. \<exists>t. group_target channel d i = Some t \<and> files_event t x e"
    using assms(1) unfolding adds_rows_def by blast
  obtain c' r' where 2: "d' = d1\<lparr>db_events := db_events d1 @ c', db_outbox := db_outbox d1 @ r'\<rparr>"
      "map oe_payload r' = map (\<lambda>e. JObj [(''providerEventId'', JStr (pe_id e))]) c'"
      "\<forall>e\<in>set c'. \<exists>(i, x)\<in>B. \<exists>t. group_target channel d1 i = Some t \<and> files_event t x e"
    using assms(2) unfolding adds_rows_def by blast
  have "d' = d\<lparr>db_events := db_events d @ c @ c', db_outbox := db_outbox d @ r @ r'\<rparr>" using 1(1) 2(1) by simp
  moreover have "map oe_payload (r @ r') = map (\<lambda>e. JObj [(''providerEventId'', JStr (pe_id e))]) (c @ c')" using 1(2) 2(2) by simp
  moreover have "\<forall>e\<in>set (c @ c'). \<exists>(i, x)\<in>A \<union> B. \<exists>t. group_target channel d i = Some t \<and> files_event t x e"
    using 1(3) 2(3) unfolding 1(1) group_target_stable set_append ball_Un bex_Un by simp
  ultimately show ?thesis unfolding adds_rows_def by blast
qed

lemma journal_group_adds:
  assumes "journalProviderEvents gen gen' now (group_params t corr headers es) d = (r, d')" "group_target channel d i = Some t"
  shows "adds_rows channel (Pair i ` set es) d d'"
proof -
  obtain created rows where c: "d' = d\<lparr>db_events := db_events d @ created, db_outbox := db_outbox d @ rows\<rparr>"
      "set created \<subseteq> set (journal_rows gen now (group_params t corr headers es))"
      "map oe_payload rows = map (\<lambda>e. JObj [(''providerEventId'', JStr (pe_id e))]) created"
    using journal_changes [OF assms(1)] by blast
  have "\<forall>e\<in>set created. \<exists>(i, x)\<in>Pair i ` set es. \<exists>t. group_target channel d i = Some t \<and> files_event t x e"
    using c(2) group_row_source assms(2) by blast
  then show ?thesis using c(1,3) unfolding adds_rows_def by blast
qed

lemma journal_groups_add:
  "journal_groups env corr headers channel k gs counts d = (r, d') \<Longrightarrow> adds_rows channel (group_pairs gs) d d'"
proof (induction gs arbitrary: k counts d)
  case (Cons g gs)
  obtain i es where g: "g = (i, es)" by force
  show ?case
  proof (cases "group_target channel d i")
    case None
    then have "journal_groups env corr headers channel (Suc k) gs counts d = (r, d')"
      using Cons.prems by (auto simp: g group_target_def split: if_splits option.splits)
    then show ?thesis using adds_rows_trans [OF adds_none Cons.IH] by (simp add: g group_pairs_simps)
  next
    case (Some t)
    obtain r1 d1 where j: "journalProviderEvents (we_gen env k) (we_gen' env k) (we_now env) (group_params t corr headers es) d = (r1, d1)"
      by force
    note adds = journal_group_adds [OF j Some]
    show ?thesis
    proof (cases r1)
      case (Inl e)
      then have "d' = d1" using Cons.prems Some j by (auto simp: g group_target_def)
      then show ?thesis using adds_rows_trans [OF adds adds_none] by (simp add: g group_pairs_simps)
    next
      case (Inr c)
      then obtain counts' where "journal_groups env corr headers channel (Suc k) gs counts' d1 = (r, d')"
        using Cons.prems Some j by (auto simp: g group_target_def split: prod.splits)
      then show ?thesis using adds_rows_trans [OF adds Cons.IH] by (simp add: g group_pairs_simps)
    qed
  qed
qed (auto intro: adds_none simp: group_pairs_simps)

text \<open>The ids generated for the groups from the \<open>k\<close>-th on are new and pairwise different.\<close>

definition fresh_from :: "webhook_env \<Rightarrow> nat \<Rightarrow> db \<Rightarrow> bool" where
  "fresh_from env k d = (\<forall>l\<ge>k. fresh_ids (we_gen env l) d \<and> (\<forall>m>l. range (we_gen env l) \<inter> range (we_gen env m) = {}))"

definition keys_known :: "provider_account \<Rightarrow> (id \<times> extracted_event) set \<Rightarrow> db \<Rightarrow> bool" where
  "keys_known channel pairs d = (\<forall>i x t. (i, x) \<in> pairs \<longrightarrow> group_target channel d i = Some t \<longrightarrow>
     (pa_id t, xe_key x) \<in> event_key ` set (db_events d))"

lemma keys_known_later:
  assumes "keys_known channel pairs d" "adds_rows channel P d d'"
  shows "keys_known channel pairs d'"
proof -
  obtain created rows where d': "d' = d\<lparr>db_events := db_events d @ created, db_outbox := db_outbox d @ rows\<rparr>"
    using assms(2) unfolding adds_rows_def by blast
  have "event_key ` set (db_events d) \<subseteq> event_key ` set (db_events d')" by (auto simp: d')
  note later = rev_subsetD [OF _ this]
  have gt: "group_target channel d' i = group_target channel d i" for i by (simp add: d')
  show ?thesis unfolding keys_known_def
  proof (intro allI impI)
    fix i x t assume "(i, x) \<in> pairs" "group_target channel d' i = Some t"
    then have "(pa_id t, xe_key x) \<in> event_key ` set (db_events d)"
      using assms(1) unfolding keys_known_def gt by simp
    then show "(pa_id t, xe_key x) \<in> event_key ` set (db_events d')" by (rule later)
  qed
qed

lemma keys_known_union: "keys_known channel (A \<union> B) d \<longleftrightarrow> keys_known channel A d \<and> keys_known channel B d"
  unfolding keys_known_def by blast

lemma journal_group_known:
  assumes j: "journalProviderEvents (we_gen env k) gen' now (group_params t corr headers es) d = (Inr c, d1)"
    and t: "group_target channel d i = Some t" and fresh: "fresh_from env k d"
  shows "keys_known channel (Pair i ` set es) d1 \<and> fresh_from env (Suc k) d1"
proof -
  obtain ids dup where c: "c = (ids, dup)" by force
  have f: "fresh_ids (we_gen env k) d" using fresh by (simp add: fresh_from_def)
  obtain created where created: "db_events d1 = db_events d @ created"
      "event_key ` set created = batch_keys (group_params t corr headers es) - event_key ` set (db_events d)"
    using journal_facts [OF f j] by (auto simp: c)
  obtain created' rows where ch: "d1 = d\<lparr>db_events := db_events d @ created', db_outbox := db_outbox d @ rows\<rparr>"
      "set created' \<subseteq> set (journal_rows (we_gen env k) now (group_params t corr headers es))"
    using journal_changes [OF j] by blast
  have same: "created' = created" using ch(1) created(1) by simp
  have "group_target channel d1 i = Some t" using t by (simp add: ch(1))
  moreover have "(pa_id t, xe_key x) \<in> event_key ` set (db_events d1)" if "x \<in> set es" for x
  proof -
    have "(pa_id t, xe_key x) \<in> batch_keys (group_params t corr headers es)" using that by (simp add: batch_keys_group)
    then show ?thesis unfolding created(1) set_append image_Un using created(2) by blast
  qed
  ultimately have "keys_known channel (Pair i ` set es) d1" by (auto simp: keys_known_def)
  moreover have "fresh_from env (Suc k) d1"
  proof -
    have "pe_id ` set created \<subseteq> pe_id ` set (journal_rows (we_gen env k) now (group_params t corr headers es))"
      using ch(2) unfolding same by (rule image_mono)
    also have "\<dots> \<subseteq> range (we_gen env k)"
      using arg_cong [OF journal_rows_facts(1) [of "we_gen env k" now "group_params t corr headers es"], of set] by auto
    finally have ids: "pe_id ` set created \<subseteq> range (we_gen env k)" .
    have "range (we_gen env l) \<inter> pe_id ` set (db_events d1) = {}" if "Suc k \<le> l" for l
    proof -
      have "range (we_gen env l) \<inter> pe_id ` set (db_events d) = {}" "range (we_gen env k) \<inter> range (we_gen env l) = {}"
        using fresh that by (auto simp: fresh_from_def fresh_ids_def)
      moreover have "range (we_gen env l) \<inter> pe_id ` set created \<subseteq> range (we_gen env l) \<inter> range (we_gen env k)"
        by (rule Int_mono [OF subset_refl ids])
      ultimately show ?thesis unfolding created(1) set_append image_Un Int_Un_distrib by (simp add: Int_commute)
    qed
    then show ?thesis using fresh by (simp add: fresh_from_def fresh_ids_def)
  qed
  ultimately show ?thesis by blast
qed

lemma journal_groups_known:
  "journal_groups env corr headers channel k gs counts d = (Inr counts', d') \<Longrightarrow> fresh_from env k d \<Longrightarrow> keys_known channel (group_pairs gs) d'"
proof (induction gs arbitrary: k counts d)
  case (Cons g gs)
  obtain i es where g: "g = (i, es)" by force
  show ?case
  proof (cases "group_target channel d i")
    case None
    then have "journal_groups env corr headers channel (Suc k) gs counts d = (Inr counts', d')"
      using Cons.prems(1) by (auto simp: g group_target_def split: if_splits option.splits)
    moreover have "fresh_from env (Suc k) d" using Cons.prems(2) by (auto simp: fresh_from_def)
    ultimately have rest: "keys_known channel (group_pairs gs) d'" "adds_rows channel (group_pairs gs) d d'"
      using Cons.IH journal_groups_add by blast+
    have "keys_known channel (Pair i ` set es) d" using None by (auto simp: keys_known_def)
    then show ?thesis using keys_known_later [OF _ rest(2)] rest(1) by (simp add: g group_pairs_simps keys_known_union)
  next
    case (Some t)
    obtain c d1 counts1 where j: "journalProviderEvents (we_gen env k) (we_gen' env k) (we_now env) (group_params t corr headers es) d = (Inr c, d1)"
      and rest: "journal_groups env corr headers channel (Suc k) gs counts1 d1 = (Inr counts', d')"
      using Cons.prems(1) Some by (auto simp: g group_target_def split: prod.splits sum.splits)
    note known = journal_group_known [OF j Some Cons.prems(2)]
    have "keys_known channel (Pair i ` set es) d'"
      using keys_known_later [OF _ journal_groups_add [OF rest]] known by blast
    then show ?thesis using Cons.IH [OF rest] known by (simp add: g group_pairs_simps keys_known_union)
  qed
qed (simp add: keys_known_def group_pairs_simps)

lemma journal_known:
  assumes "batch_keys p \<subseteq> event_key ` set (db_events d)"
  shows "journalProviderEvents gen gen' now p d = (Inr ([], length (jp_events p)), d)"
proof (cases "jp_events p = []")
  case False
  have keys: "event_key ` set (journal_rows gen now p) = batch_keys p"
    using journal_rows_facts(4) [of gen now p] by (simp add: batch_keys_def)
  have "\<forall>r\<in>set (journal_rows gen now p). event_key r \<in> event_key ` set (db_events d)"
  proof
    fix r assume "r \<in> set (journal_rows gen now p)"
    then have "event_key r \<in> batch_keys p" unfolding keys [symmetric] by (rule imageI)
    then show "event_key r \<in> event_key ` set (db_events d)" by (rule subsetD [OF assms])
  qed
  then have "create_events_skip (journal_rows gen now p) d = ([], d)" by (rule create_events_skip_known)
  then show ?thesis using False
    by (simp add: journalProviderEvents_def journalProviderEventsInTransaction_def journal_rows_def Let_def bindT_def runTx_def returnT_def)
qed (simp add: journalProviderEvents_def)

lemma journal_groups_repeat:
  "keys_known channel (group_pairs gs) d \<Longrightarrow> \<exists>n. journal_groups env corr headers channel k gs counts d = (Inr (fst counts, n), d)"
proof (induction gs arbitrary: k counts)
  case (Cons g gs)
  obtain i es where g: "g = (i, es)" by force
  have rest: "keys_known channel (group_pairs gs) d" and own: "keys_known channel (Pair i ` set es) d"
    using Cons.prems by (simp_all add: g group_pairs_simps keys_known_union)
  show ?case
  proof (cases "group_target channel d i")
    case None
    then show ?thesis using Cons.IH [OF rest] by (auto simp: g group_target_def split: if_splits option.splits)
  next
    case (Some t)
    have "batch_keys (group_params t corr headers es) \<subseteq> event_key ` set (db_events d)"
      unfolding batch_keys_group using own Some by (auto simp: keys_known_def simp del: image_eqI)
    then have "journalProviderEvents (we_gen env k) (we_gen' env k) (we_now env) (group_params t corr headers es) d =
        (Inr ([], length (jp_events (group_params t corr headers es))), d)" by (rule journal_known)
    then show ?thesis using Some Cons.IH [OF rest, of "Suc k"] by (auto simp: g group_target_def)
  qed
next
  case Nil
  show ?case by (cases counts) simp
qed

lemma webhook_channel_facts: "find_webhook_channel key p d = Some ch \<Longrightarrow>
    ch \<in> set (db_accounts d) \<and> pa_webhookKey ch = Some key \<and> pa_provider ch = p \<and> pa_deletedAt ch = None"
  by (auto simp: find_webhook_channel_def dest!: find_SomeD)

text \<open>A call that changes something has passed every gate and was ingested.\<close>

lemma handle_cases:
  assumes "handle env path key r corr d = (res, d')"
  shows "(d' = d \<and> (\<exists>resp. res = Inr resp \<and> (\<forall>acc dup. resp \<noteq> \<lparr>wp_status = 200, wp_body = Fields [(''received'', JBool True),
            (''accepted'', JNum acc), (''duplicates'', JNum dup)]\<rparr>))) \<or>
    (\<exists>p ch a v. webhookPath p = Some path \<and> find_webhook_channel key p d = Some ch \<and> webhook_account env ch = Some a \<and>
       validateWebhook (we_hmac env) (we_now env) p = Some v \<and> wv_isValid (v r a) \<and> wr_method r = POST \<and>
       ingest env p ch r corr d = (res, d'))"
proof -
  have silent: "refused s m \<noteq> \<lparr>wp_status = 200, wp_body = Fields [(''received'', JBool True), (''accepted'', JNum acc), (''duplicates'', JNum dup)]\<rparr>" for s m acc dup
    by (simp add: refused_def)
  have post: "wr_method r \<noteq> GET \<longleftrightarrow> wr_method r = POST" by (cases "wr_method r") simp_all
  show ?thesis using assms registry_path [of path]
    by (auto simp: handle_def Let_def silent post split: option.splits if_splits)
qed

lemma ingest_facts:
  assumes "ingest env p channel r corr d = (res, d')"
  shows "(d' = d \<and> res = Inr (refused 400 ''Malformed request payload.'')) \<or>
    (\<exists>payload res'. webhook_payload env r = Some payload \<and>
      journal_groups env corr (journaled_headers r) channel 0
        (route p channel (case extractEvents p of Some f \<Rightarrow> f payload | None \<Rightarrow> []) d) (0, 0) d = (res', d') \<and>
      (\<forall>counts. res' = Inr counts \<longrightarrow> res = Inr \<lparr>wp_status = 200, wp_body = Fields [(''received'', JBool True),
            (''accepted'', JNum (int (fst counts))), (''duplicates'', JNum (int (snd counts)))]\<rparr>) \<and>
      (\<forall>e. res' = Inl e \<longrightarrow> res = Inl e))"
  using assms by (auto simp: ingest_def Let_def split: option.splits prod.splits sum.splits)

section \<open>Properties\<close>

abbreviation acknowledged :: "int \<Rightarrow> int \<Rightarrow> webhook_response" where
  "acknowledged acc dup \<equiv> \<lparr>wp_status = 200, wp_body = Fields [(''received'', JBool True), (''accepted'', JNum acc), (''duplicates'', JNum dup)]\<rparr>"

text \<open>C3: Whatever a call to the webhook endpoint changes is a set of journal rows, with one outbox event
  for each, and every one of them comes from a call that proved its origin under the secrets of the
  channel its secret key names, holds an event of the body, and is filed under that channel or, when
  the event names another account, under the connected channel of that account in the same workspace
  with the same provider. A call that proves nothing writes nothing.
\<close>

theorem webhook_gate:
  assumes "handle env path key r corr d = (res, d')" and "distinct (map pa_id (db_accounts d))"
    and "\<forall>k b. length (we_hmac env k b) = 32"
  shows "\<exists>created rows. d' = d\<lparr>db_events := db_events d @ created, db_outbox := db_outbox d @ rows\<rparr> \<and>
    map oe_payload rows = map (\<lambda>e. JObj [(''providerEventId'', JStr (pe_id e))]) created \<and>
    (\<forall>e\<in>set created. \<exists>p ch a payload f x t.
       webhookPath p = Some path \<and> ch \<in> set (db_accounts d) \<and> pa_webhookKey ch = Some key \<and> pa_provider ch = p \<and> pa_deletedAt ch = None \<and>
       webhook_account env ch = Some a \<and> wr_method r = POST \<and> authentic (we_hmac env) (we_now env) p a r \<and>
       webhook_payload env r = Some payload \<and> extractEvents p = Some f \<and> x \<in> set (f payload) \<and> files_event t x e \<and>
       t \<in> set (db_accounts d) \<and> pa_workspaceId t = pa_workspaceId ch \<and> pa_provider t = p \<and> pa_deletedAt t = None \<and>
       (\<forall>s. xe_routing x = Some s \<longrightarrow> s \<noteq> [] \<longrightarrow> pa_accountIdentifier t = s) \<and> (xe_routing x \<in> {None, Some []} \<longrightarrow> t = ch))"
  using handle_cases [OF assms(1)]
proof (elim disjE exE conjE)
  assume "d' = d"
  then show ?thesis by (intro exI [of _ "[]"]) simp
next
  fix p ch a v
  assume p: "webhookPath p = Some path" "find_webhook_channel key p d = Some ch" "webhook_account env ch = Some a"
    "validateWebhook (we_hmac env) (we_now env) p = Some v" "wv_isValid (v r a)" "wr_method r = POST" "ingest env p ch r corr d = (res, d')"
  have auth: "authentic (we_hmac env) (we_now env) p a r" using valid_calls [OF p(4) assms(3)] p(5,6) by blast
  note ch = webhook_channel_facts [OF p(2)]
  obtain f where f: "extractEvents p = Some f" using p(4) by (cases p) simp_all
  show ?thesis using ingest_facts [OF p(7)]
  proof (elim disjE exE conjE)
    assume "d' = d"
    then show ?thesis by (intro exI [of _ "[]"]) simp
  next
    fix payload res'
    assume pay: "webhook_payload env r = Some payload"
      and j: "journal_groups env corr (journaled_headers r) ch 0 (route p ch (case extractEvents p of Some f \<Rightarrow> f payload | None \<Rightarrow> []) d) (0, 0) d = (res', d')"
    obtain created rows where c: "d' = d\<lparr>db_events := db_events d @ created, db_outbox := db_outbox d @ rows\<rparr>"
        "map oe_payload rows = map (\<lambda>e. JObj [(''providerEventId'', JStr (pe_id e))]) created"
        "\<forall>e\<in>set created. \<exists>(i, x)\<in>group_pairs (route p ch (f payload) d). \<exists>t. group_target ch d i = Some t \<and> files_event t x e"
      using journal_groups_add [OF j] unfolding adds_rows_def f option.case by blast
    have "\<exists>x t. x \<in> set (f payload) \<and> files_event t x e \<and> filed_under p ch d x = Some t" if "e \<in> set created" for e
    proof -
      obtain x t t' where x: "x \<in> set (f payload)" "filed_under p ch d x = Some t" "group_target ch d (pa_id t) = Some t'" "files_event t' x e"
      proof -
        obtain i x t' where "(i, x) \<in> group_pairs (route p ch (f payload) d)" "group_target ch d i = Some t'" "files_event t' x e"
          using c(3) \<open>e \<in> set created\<close> by blast
        then show thesis using that by (auto simp: route_pairs)
      qed
      have "t \<in> set (db_accounts d)" using filed_under_facts [OF x(2)] ch by simp
      then have "t' = t" using x(3) own_target [OF assms(2), of t ch] ch by simp
      then show ?thesis using x by blast
    qed
    then have "\<forall>e\<in>set created. \<exists>p ch a payload f x t.
       webhookPath p = Some path \<and> ch \<in> set (db_accounts d) \<and> pa_webhookKey ch = Some key \<and> pa_provider ch = p \<and> pa_deletedAt ch = None \<and>
       webhook_account env ch = Some a \<and> wr_method r = POST \<and> authentic (we_hmac env) (we_now env) p a r \<and>
       webhook_payload env r = Some payload \<and> extractEvents p = Some f \<and> x \<in> set (f payload) \<and> files_event t x e \<and>
       t \<in> set (db_accounts d) \<and> pa_workspaceId t = pa_workspaceId ch \<and> pa_provider t = p \<and> pa_deletedAt t = None \<and>
       (\<forall>s. xe_routing x = Some s \<longrightarrow> s \<noteq> [] \<longrightarrow> pa_accountIdentifier t = s) \<and> (xe_routing x \<in> {None, Some []} \<longrightarrow> t = ch)"
    proof (intro ballI)
      fix e assume e: "e \<in> set created" and all: "\<And>e. e \<in> set created \<Longrightarrow> \<exists>x t. x \<in> set (f payload) \<and> files_event t x e \<and> filed_under p ch d x = Some t"
      obtain x t where x: "x \<in> set (f payload)" "files_event t x e" "filed_under p ch d x = Some t" using all [OF e] by blast
      note ff = filed_under_facts [OF x(3)]
      show "\<exists>p ch a payload f x t.
       webhookPath p = Some path \<and> ch \<in> set (db_accounts d) \<and> pa_webhookKey ch = Some key \<and> pa_provider ch = p \<and> pa_deletedAt ch = None \<and>
       webhook_account env ch = Some a \<and> wr_method r = POST \<and> authentic (we_hmac env) (we_now env) p a r \<and>
       webhook_payload env r = Some payload \<and> extractEvents p = Some f \<and> x \<in> set (f payload) \<and> files_event t x e \<and>
       t \<in> set (db_accounts d) \<and> pa_workspaceId t = pa_workspaceId ch \<and> pa_provider t = p \<and> pa_deletedAt t = None \<and>
       (\<forall>s. xe_routing x = Some s \<longrightarrow> s \<noteq> [] \<longrightarrow> pa_accountIdentifier t = s) \<and> (xe_routing x \<in> {None, Some []} \<longrightarrow> t = ch)"
        by (intro exI [of _ p] exI [of _ ch] exI [of _ a] exI [of _ payload] exI [of _ f] exI [of _ x] exI [of _ t])
          (use p ch auth pay f x ff in simp)
    qed
    then show ?thesis using c(1,2) by blast
  qed
qed

text \<open>What the endpoint acknowledged is safe: afterwards the journal holds every event of the body that
  belongs to a connected channel, and in any later state of the same channels that has lost none of
  it, a redelivery of the call writes nothing and accepts nothing.
\<close>

theorem webhook_acknowledged:
  assumes "handle env path key r corr d = (Inr (acknowledged acc dup), d1)" and "fresh_from env 0 d"
    and "distinct (map pa_id (db_accounts d))"
    and "db_accounts d2 = db_accounts d1" and "event_key ` set (db_events d1) \<subseteq> event_key ` set (db_events d2)"
    and "we_parse env2 = we_parse env"
  shows "(\<exists>p ch payload f. webhookPath p = Some path \<and> find_webhook_channel key p d = Some ch \<and> webhook_payload env r = Some payload \<and>
      extractEvents p = Some f \<and> (\<forall>x\<in>set (f payload). \<forall>t. filed_under p ch d x = Some t \<longrightarrow> (pa_id t, xe_key x) \<in> event_key ` set (db_events d1))) \<and>
    snd (handle env2 path key r corr2 d2) = d2 \<and>
    (\<forall>acc2 dup2. fst (handle env2 path key r corr2 d2) = Inr (acknowledged acc2 dup2) \<longrightarrow> acc2 = 0)"
proof -
  obtain p ch a v where p: "webhookPath p = Some path" "find_webhook_channel key p d = Some ch"
      "validateWebhook (we_hmac env) (we_now env) p = Some v" "ingest env p ch r corr d = (Inr (acknowledged acc dup), d1)"
    using handle_cases [OF assms(1)] by auto
  obtain f where f: "extractEvents p = Some f" using p(3) by (cases p) simp_all
  note ch = webhook_channel_facts [OF p(2)]
  obtain payload counts where pay: "webhook_payload env r = Some payload"
    and j: "journal_groups env corr (journaled_headers r) ch 0 (route p ch (f payload) d) (0, 0) d = (Inr counts, d1)"
  proof -
    obtain payload res' where "webhook_payload env r = Some payload"
        "journal_groups env corr (journaled_headers r) ch 0 (route p ch (f payload) d) (0, 0) d = (res', d1)" "\<forall>e. res' \<noteq> Inl e"
      using ingest_facts [OF p(4)] f by (auto simp: refused_def)
    then show thesis using that by (cases res') blast+
  qed
  have known: "keys_known ch (group_pairs (route p ch (f payload) d)) d1" by (rule journal_groups_known [OF j assms(2)])
  have accounts: "db_accounts d1 = db_accounts d" using journal_groups_add [OF j] by (auto simp: adds_rows_def)
  have target: "group_target ch d1 (pa_id t) = Some t" if t: "filed_under p ch d x = Some t" for x t
  proof -
    have "t \<in> set (db_accounts d)" using filed_under_facts [OF t] ch by simp
    then have "group_target ch d (pa_id t) = Some t" using own_target [OF assms(3)] ch by simp
    then show ?thesis unfolding group_target_accounts [OF accounts] .
  qed
  have held: "(pa_id t, xe_key x) \<in> event_key ` set (db_events d1)" if "x \<in> set (f payload)" "filed_under p ch d x = Some t" for x t
    using known that target [OF that(2)] unfolding keys_known_def route_pairs by blast
  have paths: "q = p" if "webhookPath q = Some path" for q
    using that p(1) by (cases q; cases p) auto
  have sib: "filed_under p ch d2 x = filed_under p ch d x" for x
    by (simp add: filed_under_def find_sibling_def accounts assms(4) split: option.splits)
  have known2: "keys_known ch (group_pairs (route p ch (f payload) d2)) d2"
    unfolding keys_known_def
  proof (intro allI impI)
    fix i x t assume x: "(i, x) \<in> group_pairs (route p ch (f payload) d2)" "group_target ch d2 i = Some t"
    then obtain t' where t': "i = pa_id t'" "x \<in> set (f payload)" "filed_under p ch d x = Some t'"
      unfolding route_pairs sib by blast
    have "group_target ch d2 i = group_target ch d1 i" by (rule group_target_accounts [OF assms(4)])
    then have "t = t'" using x(2) target [OF t'(3)] t'(1) by simp
    then show "(pa_id t, xe_key x) \<in> event_key ` set (db_events d2)" using subsetD [OF assms(5) held [OF t'(2,3)]] by simp
  qed
  have again: "\<exists>n. journal_groups env2 corr2 (journaled_headers r) ch 0 (route p ch (f payload) d2) (0, 0) d2 = (Inr (0, n), d2)"
    using journal_groups_repeat [OF known2, of env2 corr2 "journaled_headers r" 0 "(0, 0)"] by simp
  have "snd (handle env2 path key r corr2 d2) = d2 \<and>
    (\<forall>acc2 dup2. fst (handle env2 path key r corr2 d2) = Inr (acknowledged acc2 dup2) \<longrightarrow> acc2 = 0)"
  proof -
    obtain res d3 where h: "handle env2 path key r corr2 d2 = (res, d3)" by force
    show ?thesis using handle_cases [OF h]
    proof (elim disjE exE conjE)
      fix q ch' a' v'
      assume q: "webhookPath q = Some path" "find_webhook_channel key q d2 = Some ch'" "ingest env2 q ch' r corr2 d2 = (res, d3)"
      have "q = p" using paths q(1) .
      moreover have "ch' = ch" using q(2) p(2) by (simp add: \<open>q = p\<close> find_webhook_channel_def accounts assms(4))
      moreover have "webhook_payload env2 r = Some payload" using pay unfolding webhook_payload_def assms(6) .
      ultimately show ?thesis using q(3) again f h by (auto simp: ingest_def)
    qed (auto simp: h)
  qed
  then show ?thesis using p(1,2) pay f held by blast
qed

text \<open>A Telegram channel, its call with one update, and an environment whose cipher opens every envelope
  to the channel's secrets.\<close>

definition hook_channel :: provider_account where
  "hook_channel = \<lparr>pa_id = ''acc1'', pa_workspaceId = ''w1'', pa_channelType = CTELEGRAM, pa_provider = TELEGRAM_BOT, pa_name = ''Bot'',
     pa_accountIdentifier = ''77'', pa_status = AACTIVE,
     pa_credentials = JObj [(''provider'', JStr ''telegram''), (''accountId'', JStr ''acc1''), (''authType'', JStr ''bearer_token''),
       (''encryptedPayload'', JStr ''AA''), (''keyId'', JStr ''v1''), (''iv'', JStr ''AA''), (''tag'', JStr ''AA''), (''createdAt'', JStr ''t'')],
     pa_config = JNull, pa_description = None, pa_displayIdentifier = None, pa_webhookKey = Some ''k1'', pa_statusReason = None,
     pa_lastErrorAt = None, pa_lastHealthCheckAt = None, pa_connectedAt = None, pa_settings = JNull, pa_syncState = JNull,
     pa_syncLeaseExpiresAt = None, pa_deletedAt = None\<rparr>"

definition hook_env :: webhook_env where
  "hook_env = \<lparr>we_hmac = sample_hmac, we_now = 5, we_datetime = (\<lambda>_. True),
     we_open = (\<lambda>_ _ _ _ _. Some (utf8 (stringify (channel_secrets (JObj []) (JObj [(''webhookSecret'', JStr ''s3'')]))))),
     we_cipher = Some \<lparr>cc_activeKeyId = ''v1'', cc_keys = [''v1'' \<mapsto> []]\<rparr>,
     we_parse = (\<lambda>_. Some (JObj [(''update_id'', JNum 9)])),
     we_gen = (\<lambda>k n. replicate k (CHR ''a'') @ CHR ''b'' # replicate n (CHR ''c'')), we_gen' = (\<lambda>k n. replicate k (CHR ''a'') @ CHR ''b'' # replicate n (CHR ''c''))\<rparr>"

definition hook_db :: db where
  "hook_db = empty_db\<lparr>db_accounts := [hook_channel]\<rparr>"

lemma hook_run: "fst (handle hook_env ''telegram'' ''k1'' sample_call ''c'' hook_db) = Inr (acknowledged 1 0)"
  by code_simp

lemma hook_accounts: "db_accounts hook_db = [hook_channel]" "db_events hook_db = []"
  by (simp_all add: hook_db_def empty_db_def)

lemma hook_call: "\<exists>d'. handle hook_env ''telegram'' ''k1'' sample_call ''c'' hook_db = (Inr (acknowledged 1 0), d')"
  using hook_run by (metis prod.collapse)

lemma hook_fresh: "fresh_from hook_env 0 hook_db"
proof -
  have tail: "takeWhile (\<lambda>c. c = CHR ''a'') (replicate k (CHR ''a'') @ CHR ''b'' # x) = replicate k (CHR ''a'')" for k x
    by (induction k) simp_all
  have "inj (\<lambda>n. replicate k (CHR ''a'') @ CHR ''b'' # replicate n (CHR ''c''))" for k
    by (rule injI) (simp add: replicate_eq_replicate)
  moreover have "replicate k (CHR ''a'') @ CHR ''b'' # x \<noteq> replicate l (CHR ''a'') @ CHR ''b'' # y" if "k < l" for k l x y
  proof
    assume "replicate k (CHR ''a'') @ CHR ''b'' # x = replicate l (CHR ''a'') @ CHR ''b'' # y"
    then have "replicate k (CHR ''a'') = replicate l (CHR ''a'')" using tail by metis
    then show False using that by (simp add: replicate_eq_replicate)
  qed
  ultimately show ?thesis by (fastforce simp: fresh_from_def fresh_ids_def hook_env_def hook_accounts)
qed

theorem webhook_gate_witness:
  "\<exists>d' created. handle hook_env ''telegram'' ''k1'' sample_call ''c'' hook_db = (Inr (acknowledged 1 0), d') \<and>
     db_events d' = created \<and> (\<forall>e\<in>set created. pe_providerAccountId e = ''acc1'' \<and> pe_status e = EReceived)"
proof -
  obtain d' where h: "handle hook_env ''telegram'' ''k1'' sample_call ''c'' hook_db = (Inr (acknowledged 1 0), d')" using hook_call by blast
  obtain created rows where c: "d' = hook_db\<lparr>db_events := db_events hook_db @ created, db_outbox := db_outbox hook_db @ rows\<rparr>"
      "\<forall>e\<in>set created. \<exists>x t. files_event t x e \<and> t \<in> set (db_accounts hook_db)"
    using webhook_gate [OF h] by (fastforce simp: hook_accounts hook_env_def sample_hmac_length)
  have "pe_providerAccountId e = ''acc1'' \<and> pe_status e = EReceived" if "e \<in> set created" for e
    using c(2) that by (auto simp: hook_accounts files_event_def hook_channel_def)
  then show ?thesis using h c(1) by (simp add: hook_accounts)
qed

theorem webhook_acknowledged_witness:
  "\<exists>d'. handle hook_env ''telegram'' ''k1'' sample_call ''c'' hook_db = (Inr (acknowledged 1 0), d') \<and>
     snd (handle hook_env ''telegram'' ''k1'' sample_call ''c2'' d') = d'"
proof -
  obtain d' where h: "handle hook_env ''telegram'' ''k1'' sample_call ''c'' hook_db = (Inr (acknowledged 1 0), d')" using hook_call by blast
  show ?thesis using webhook_acknowledged [OF h hook_fresh, of d' hook_env "''c2''"] h by (simp add: hook_accounts)
qed

end
