(* ===== verification/Webchat.thy ===== *)
theory Webchat
  imports RateLimit Webhooks
begin

text \<open>
  The public endpoints of the chat widget, \<open>apps/api/src/webchat/webchat.service.ts\<close>: rate limits,
  visitor tokens, posting a message into the journal and fetching the conversation. The clock,
  random bytes, the hash functions and what other requests commit between two database calls are the
  environment of a request; the counters are the Redis ones.
\<close>

section \<open>The service\<close>

record webchat_env =
  wc_now :: int
  wc_iso :: "int \<Rightarrow> string"
  wc_date :: "string \<Rightarrow> int option"
  wc_sha256 :: "string \<Rightarrow> string"
  wc_reachable :: bool
  wc_cipher :: "cipher option"
  wc_hkdf :: "bytes \<Rightarrow> bytes \<Rightarrow> bytes"
  wc_hmac :: hmac
  wc_random :: bytes
  wc_race :: "db \<Rightarrow> db"
  wc_gen :: "nat \<Rightarrow> id"
  wc_gen' :: "nat \<Rightarrow> id"

record session_request =
  sq_visitorId :: "string option"
  sq_visitorToken :: "string option"

record message_request =
  mq_visitorId :: string
  mq_clientMessageId :: string
  mq_text :: string
  mq_name :: "string option"
  mq_email :: "string option"
  mq_pageUrl :: "string option"

record webchat_message =
  wm_id :: id
  wm_direction :: direction
  wm_text :: string
  wm_senderName :: "string option"
  wm_createdAt :: int

definition SESSION_LIMIT :: "string \<times> nat \<times> nat" where
  "SESSION_LIMIT = (''webchat-session'', 20, 60000)"

definition MESSAGE_LIMIT :: "string \<times> nat \<times> nat" where
  "MESSAGE_LIMIT = (''webchat-message'', 30, 60000)"

definition withinLimit :: "webchat_env \<Rightarrow> string \<times> nat \<times> nat \<Rightarrow> string \<Rightarrow> redis_counters \<Rightarrow> (err + bool) \<times> redis_counters" where
  "withinLimit env rate identity s = (case rate of (scope, limit, windowMs) \<Rightarrow>
     if \<not> wc_reachable env
     then (Inl (ApiFailure 503 ''SERVICE_UNAVAILABLE'' ''Chat is temporarily unavailable. Please try again shortly.''), s)
     else (let (ok, s') = redis_hit limit windowMs (wc_now env) (rateLimitKey (wc_sha256 env) scope identity) s in (Inr ok, s')))"

definition findChannel :: "string \<Rightarrow> db \<Rightarrow> err + provider_account" where
  "findChannel widgetKey d = (case find_webhook_channel widgetKey WEBCHAT_EMBED d of
     None \<Rightarrow> Inl (ApiFailure 404 ''WIDGET_NOT_FOUND'' ''This chat widget is not available.'')
   | Some ch \<Rightarrow> Inr ch)"

definition requireCipher :: "cipher option \<Rightarrow> err + cipher" where
  "requireCipher c = (case c of None \<Rightarrow> Inl (ApiFailure 503 ''CREDENTIAL_ENCRYPTION_NOT_CONFIGURED''
      ''Channel credentials cannot be stored because ENCRYPTION_MASTER_KEY is not set on the API. Generate one with \"openssl rand -base64 32\" and restart the API and worker.'')
    | Some c \<Rightarrow> Inr c)"

definition derived_key :: "(bytes \<Rightarrow> bytes \<Rightarrow> bytes) \<Rightarrow> cipher option \<Rightarrow> string \<Rightarrow> err + bytes" where
  "derived_key hkdf c purpose = bindR (requireCipher c) (\<lambda>c. case deriveKey hkdf c purpose of
     Inr k \<Rightarrow> Inr k | Inl e \<Rightarrow> Inl (cipher_thrown e))"

definition visitorToken :: "webchat_env \<Rightarrow> id \<Rightarrow> string \<Rightarrow> err + string" where
  "visitorToken env channelId visitorId = bindR (derived_key (wc_hkdf env) (wc_cipher env) ''webchat-visitor-v1'')
     (\<lambda>key. Inr (to_base64url (wc_hmac env key (utf8 (channelId @ '':'' @ visitorId)))))"

definition assertVisitor :: "webchat_env \<Rightarrow> id \<Rightarrow> string \<Rightarrow> string option \<Rightarrow> err + unit" where
  "assertVisitor env channelId visitorId token =
     (let invalid = ApiFailure 401 ''VISITOR_TOKEN_INVALID'' ''Chat session expired. Reload the page to start again.'' in
      if blank token then Inl invalid
      else bindR (visitorToken env channelId visitorId) (\<lambda>t. if safeEqual (the token) t then Inr () else Inl invalid))"

definition session ::
  "webchat_env \<Rightarrow> string \<Rightarrow> session_request \<Rightarrow> string \<Rightarrow> redis_counters \<Rightarrow> db \<Rightarrow> (err + string \<times> string) \<times> redis_counters" where
  "session env widgetKey q ip s d = (case withinLimit env SESSION_LIMIT (ip @ '':'' @ widgetKey) s of
     (Inl e, s') \<Rightarrow> (Inl e, s')
   | (Inr ok, s') \<Rightarrow>
       (if \<not> ok then Inl (ApiFailure 429 ''RATE_LIMITED'' ''Too many chat sessions. Try again in a minute.'')
        else bindR (findChannel widgetKey d) (\<lambda>ch.
          if \<not> blank (sq_visitorId q) \<and> \<not> blank (sq_visitorToken q) \<and>
             isOk (assertVisitor env (pa_id ch) (the (sq_visitorId q)) (sq_visitorToken q))
          then Inr (the (sq_visitorId q), the (sq_visitorToken q))
          else (let visitorId = ''v_'' @ to_base64url (wc_random env) in
            bindR (visitorToken env (pa_id ch) visitorId) (\<lambda>t. Inr (visitorId, t)))), s'))"

definition optional_text :: "string \<Rightarrow> string option \<Rightarrow> (string \<times> json) list" where
  "optional_text k v = (if blank v then [] else [(k, JStr (the v))])"

definition visitor_event :: "webchat_env \<Rightarrow> message_request \<Rightarrow> extracted_event" where
  "visitor_event env q = webchatEventFor (mq_visitorId q) (mq_clientMessageId q) (mq_text q) (wc_iso env (wc_now env))
     (optional_text ''visitorName'' (mq_name q) @ optional_text ''visitorEmail'' (mq_email q) @ optional_text ''pageUrl'' (mq_pageUrl q))"

definition post_params :: "webchat_env \<Rightarrow> provider_account \<Rightarrow> message_request \<Rightarrow> string \<Rightarrow> journal_params" where
  "post_params env ch q corr = \<lparr>jp_workspaceId = pa_workspaceId ch, jp_providerAccountId = pa_id ch, jp_provider = pa_provider ch,
     jp_channelType = CWEBCHAT,
     jp_events = [let e = visitor_event env q in \<lparr>ji_providerEventKey = xe_key e, ji_isFingerprinted = xe_isFingerprinted e,
       ji_payload = xe_payload e, ji_headers = None\<rparr>],
     jp_correlationId = corr, jp_retentionDays = None\<rparr>"

definition postMessage ::
  "webchat_env \<Rightarrow> string \<Rightarrow> message_request \<Rightarrow> string option \<Rightarrow> string \<Rightarrow> string \<Rightarrow> redis_counters \<Rightarrow> db \<Rightarrow>
     (err + unit) \<times> redis_counters \<times> db" where
  "postMessage env widgetKey q token ip corr s d = (case withinLimit env MESSAGE_LIMIT (ip @ '':'' @ widgetKey) s of
     (Inl e, s') \<Rightarrow> (Inl e, s', d)
   | (Inr ok, s') \<Rightarrow>
       if \<not> ok then (Inl (ApiFailure 429 ''RATE_LIMITED'' ''You are sending messages too quickly. Please wait a moment.''), s', d)
       else (case bindR (findChannel widgetKey d) (\<lambda>ch. bindR (assertVisitor env (pa_id ch) (mq_visitorId q) token) (\<lambda>_. Inr ch)) of
          Inl e \<Rightarrow> (Inl e, s', d)
        | Inr ch \<Rightarrow>
            (case journalProviderEvents (wc_gen env) (wc_gen' env) (wc_now env) (post_params env ch q corr) d of
               (Inl e, d') \<Rightarrow> (Inl e, s', d')
             | (Inr _, d') \<Rightarrow> (Inr (), s', d'))))"

definition visible_to :: "contact_identity \<Rightarrow> int option \<Rightarrow> db \<Rightarrow> message \<Rightarrow> bool" where
  "visible_to ident since d m = (\<not> ms_isPrivate m \<and>
     (case find_conversation (ms_conversationId m) d of None \<Rightarrow> False | Some c \<Rightarrow> cv_contactIdentityId c = ci_id ident) \<and>
     (case since of None \<Rightarrow> True | Some t \<Rightarrow> ms_createdAt m > t))"

definition delivered_now :: "message \<Rightarrow> bool" where
  "delivered_now m = (ms_direction m = Outbound \<and> ms_status m = DSent)"

definition webchat_row :: "message \<Rightarrow> webchat_message" where
  "webchat_row m = \<lparr>wm_id = ms_id m, wm_direction = ms_direction m, wm_text = (case ms_text m of Some t \<Rightarrow> t | None \<Rightarrow> []),
     wm_senderName = (if ms_direction m = Outbound then ms_senderName m else None), wm_createdAt = ms_createdAt m\<rparr>"

text \<open>Fetching a reply marks it delivered, in one transaction with the notifications.\<close>

definition mark_delivered :: "int \<Rightarrow> message list \<Rightarrow> unit tx" where
  "mark_delivered now ms = (\<lambda>d.
     bindT (eachT (\<lambda>m. notifyRealtime (notice ''conversation.message.updated'' (ms_workspaceId m) (Some (ms_conversationId m)) (Some (ms_id m)) None)) ms)
       (\<lambda>_. returnT ())
       (d\<lparr>db_messages := update_where (\<lambda>m. ms_id m \<in> ms_id ` set ms \<and> ms_status m = DSent)
         (\<lambda>m. m\<lparr>ms_status := DDelivered, ms_deliveredAt := Some now, ms_updatedAt := now\<rparr>) (db_messages d)\<rparr>))"

definition messages ::
  "webchat_env \<Rightarrow> string \<Rightarrow> string \<Rightarrow> string option \<Rightarrow> string option \<Rightarrow> db \<Rightarrow> (err + webchat_message list) \<times> db" where
  "messages env widgetKey visitorId token after d =
     (case bindR (findChannel widgetKey d) (\<lambda>ch. bindR (assertVisitor env (pa_id ch) visitorId token) (\<lambda>_. Inr ch)) of
        Inl e \<Rightarrow> (Inl e, d)
      | Inr ch \<Rightarrow>
          (case find_identity (pa_id ch) visitorId d of
             None \<Rightarrow> (Inr [], d)
           | Some ident \<Rightarrow>
               (let since = (if blank after then None else wc_date env (the after));
                    rows = take 100 (sort_key ms_createdAt (filter (visible_to ident since d) (db_messages d)));
                    delivered = filter delivered_now rows in
                if delivered = [] then (Inr (map webchat_row rows), d)
                else (case runTx (mark_delivered (wc_now env) delivered) (wc_race env d) of
                  (Inl e, d') \<Rightarrow> (Inl e, d')
                | (Inr _, d') \<Rightarrow> (Inr (map webchat_row rows), d')))))"

definition hex_colour_default :: string where
  "hex_colour_default = ''#1F93FF''"

definition config :: "string \<Rightarrow> db \<Rightarrow> err + string \<times> json \<times> json" where
  "config widgetKey d = bindR (findChannel widgetKey d) (\<lambda>ch.
     let details = JObj (cf_details (readConnectionConfig (pa_config ch))); nullish = (\<lambda>j. j = JUndef \<or> j = JNull) in
     Inr (pa_name ch, if nullish (jget details ''welcomeMessage'') then JNull else jget details ''welcomeMessage'',
       if nullish (jget details ''accentColor'') then JStr hex_colour_default else jget details ''accentColor''))"

section \<open>Facts\<close>

lemma visitorToken_length:
  "visitorToken env c v = Inr t \<Longrightarrow> \<exists>k. derived_key (wc_hkdf env) (wc_cipher env) ''webchat-visitor-v1'' = Inr k \<and>
     t = to_base64url (wc_hmac env k (utf8 (c @ '':'' @ v)))"
  by (auto simp: visitorToken_def bindR_Inr_iff)

lemma assertVisitor_iff: "assertVisitor env c v token = Inr u \<longleftrightarrow> (\<exists>t. t \<noteq> [] \<and> token = Some t \<and> visitorToken env c v = Inr t)"
  by (auto simp: assertVisitor_def Let_def bindR_Inr_iff blank_def)

lemma base64url_inject: "to_base64url a = to_base64url b \<longleftrightarrow> a = b"
  by (metis from_to_base64url)

text \<open>A pair of ids without colons is read off its token's text.\<close>

lemma colon_pair: "CHR '':'' \<notin> set c \<Longrightarrow> CHR '':'' \<notin> set c' \<Longrightarrow> c @ '':'' @ v = c' @ '':'' @ v' \<longleftrightarrow> c = c' \<and> v = v'"
proof -
  assume "CHR '':'' \<notin> set c" "CHR '':'' \<notin> set c'"
  then have "takeWhile (\<lambda>x. x \<noteq> CHR '':'') (c @ '':'' @ v) = c" "takeWhile (\<lambda>x. x \<noteq> CHR '':'') (c' @ '':'' @ v') = c'" for v v'
    by (subst takeWhile_append2; auto)+
  then show ?thesis by (metis append_same_eq same_append_eq)
qed

lemma mark_delivered_Inr:
  "mark_delivered now ms d = Inr (u, d') \<Longrightarrow>
     db_messages d' = update_where (\<lambda>m. ms_id m \<in> ms_id ` set ms \<and> ms_status m = DSent)
         (\<lambda>m. m\<lparr>ms_status := DDelivered, ms_deliveredAt := Some now, ms_updatedAt := now\<rparr>) (db_messages d) \<and>
     d' = d\<lparr>db_messages := db_messages d', db_notified := db_notified d'\<rparr>"
proof -
  have each: "eachT (\<lambda>m. notifyRealtime (n m)) ms s = Inr (us, s') \<Longrightarrow> s' = s\<lparr>db_notified := db_notified s @ map n ms\<rparr>"
    for n :: "message \<Rightarrow> notification" and us s s'
    by (induction ms arbitrary: s us) (fastforce simp: bindT_Inr notifyRealtime_def)+
  assume "mark_delivered now ms d = Inr (u, d')"
  then show ?thesis by (auto simp: mark_delivered_def bindT_Inr dest!: each)
qed

text \<open>The identity a session answers with is one \<open>assertVisitor\<close> accepts.\<close>

lemma session_identity:
  assumes "session env widgetKey q ip s d = (Inr (u, t), s')" "findChannel widgetKey d = Inr ch" "\<forall>k b. length (wc_hmac env k b) = 32"
  shows "assertVisitor env (pa_id ch) u (Some t) = Inr ()"
proof -
  have fresh: "t \<noteq> []" if tok: "visitorToken env (pa_id ch) u = Inr t"
  proof -
    obtain k where "t = to_base64url (wc_hmac env k (utf8 (pa_id ch @ '':'' @ u)))" using visitorToken_length [OF tok] by blast
    moreover have "to_base64url [] = []" by (simp add: to_base64url_def)
    moreover have "wc_hmac env k (utf8 (pa_id ch @ '':'' @ u)) \<noteq> []" using assms(3) by (metis list.size(3) zero_neq_numeral)
    ultimately show ?thesis using base64url_inject by metis
  qed
  show ?thesis using assms(1,2) fresh
    by (auto simp: session_def bindR_Inr_iff assertVisitor_iff Let_def elim!: isOk.elims split: prod.splits sum.splits if_splits)
qed

text \<open>Among messages with distinct ids, the rows a fetch marks are the outgoing ones it returns.\<close>

lemma marked_rows:
  assumes "distinct (map ms_id ms)" "set rows \<subseteq> set ms" "m \<in> set ms"
  shows "ms_id m \<in> ms_id ` set (filter delivered_now rows) \<and> ms_status m = DSent \<longleftrightarrow>
    ms_id m \<in> wm_id ` {w \<in> webchat_row ` set rows. wm_direction w = Outbound} \<and> ms_status m = DSent"
proof -
  have same: "m' = m" if "m' \<in> set rows" "ms_id m' = ms_id m" for m'
    using that assms by (metis distinct_map inj_onD subsetD)
  show ?thesis
  proof (intro iffI conjI; elim conjE)
    assume "ms_id m \<in> ms_id ` set (filter delivered_now rows)"
    then obtain m' where "m' \<in> set rows" "delivered_now m'" "ms_id m = wm_id (webchat_row m')" "ms_id m = ms_id m'"
      by (auto simp: webchat_row_def)
    then show "ms_id m \<in> wm_id ` {w \<in> webchat_row ` set rows. wm_direction w = Outbound}"
      by (auto simp: delivered_now_def webchat_row_def image_iff)
  next
    assume s: "ms_status m = DSent" and "ms_id m \<in> wm_id ` {w \<in> webchat_row ` set rows. wm_direction w = Outbound}"
    then obtain m' where m': "m' \<in> set rows" "ms_direction m' = Outbound" "ms_id m' = ms_id m" by (auto simp: webchat_row_def)
    with same have "m' = m" by blast
    then show "ms_id m \<in> ms_id ` set (filter delivered_now rows)" using m' s by (auto simp: delivered_now_def)
  qed
qed

lemma update_where_same_rows: "(\<And>m. m \<in> set ms \<Longrightarrow> P m = Q m) \<Longrightarrow> update_where P f ms = update_where Q f ms"
  by (simp add: update_where_def)

text \<open>What a fetch that answers has read and written.\<close>

lemma messages_Inr:
  assumes "messages env widgetKey visitorId token after d = (Inr rows, d')" "wc_race env = id"
  obtains (none) ch where "findChannel widgetKey d = Inr ch" "isOk (assertVisitor env (pa_id ch) visitorId token)"
      "find_identity (pa_id ch) visitorId d = None" "rows = []" "d' = d"
  | (some) ch ident since ms where "findChannel widgetKey d = Inr ch" "isOk (assertVisitor env (pa_id ch) visitorId token)"
      "find_identity (pa_id ch) visitorId d = Some ident"
      "ms = take 100 (sort_key ms_createdAt (filter (visible_to ident since d) (db_messages d)))" "rows = map webchat_row ms"
      "d' = d\<lparr>db_messages := db_messages d', db_notified := db_notified d'\<rparr>"
      "db_messages d' = update_where (\<lambda>m. ms_id m \<in> ms_id ` set (filter delivered_now ms) \<and> ms_status m = DSent)
         (\<lambda>m. m\<lparr>ms_status := DDelivered, ms_deliveredAt := Some (wc_now env), ms_updatedAt := wc_now env\<rparr>) (db_messages d)"
proof -
  obtain ch where ch: "findChannel widgetKey d = Inr ch" "assertVisitor env (pa_id ch) visitorId token = Inr ()"
    using assms(1) by (auto simp: messages_def bindR_Inr_iff split: sum.splits)
  then have bound: "bindR (findChannel widgetKey d) (\<lambda>ch. bindR (assertVisitor env (pa_id ch) visitorId token) (\<lambda>_. Inr ch)) = Inr ch"
    by (simp add: bindR_Inr_iff)
  show thesis
  proof (cases "find_identity (pa_id ch) visitorId d")
    case None
    then have "rows = [] \<and> d' = d" using assms(1) unfolding messages_def bound by simp
    then show ?thesis using none [OF ch(1) _ None] ch(2) by simp
  next
    case (Some ident)
    define ms where "ms = take 100 (sort_key ms_createdAt (filter (visible_to ident (if blank after then None else wc_date env (the after)) d) (db_messages d)))"
    have run: "(if filter delivered_now ms = [] then (Inr (map webchat_row ms), d)
        else (case runTx (mark_delivered (wc_now env) (filter delivered_now ms)) d of (Inl e, d') \<Rightarrow> (Inl e, d')
          | (Inr _, d') \<Rightarrow> (Inr (map webchat_row ms), d'))) = (Inr rows, d')"
      using assms(1) unfolding messages_def bound sum.case Some option.case assms(2) id_apply Let_def ms_def by (simp only:)
    show ?thesis
    proof (cases "filter delivered_now ms = []")
      case True
      then have "rows = map webchat_row ms" "d' = d" using run by auto
      moreover have "update_where (\<lambda>m. ms_id m \<in> ms_id ` set (filter delivered_now ms) \<and> ms_status m = DSent)
         (\<lambda>m. m\<lparr>ms_status := DDelivered, ms_deliveredAt := Some (wc_now env), ms_updatedAt := wc_now env\<rparr>) (db_messages d) = db_messages d"
        unfolding True by (rule update_where_none) simp
      ultimately show ?thesis using some [OF ch(1) _ Some ms_def] ch(2) by simp
    next
      case False
      then obtain x where "mark_delivered (wc_now env) (filter delivered_now ms) d = Inr (x, d')" "rows = map webchat_row ms"
        using run by (auto simp: runTx_def split: sum.splits)
      then show ?thesis using some [OF ch(1) _ Some ms_def] ch(2) mark_delivered_Inr by force
    qed
  qed
qed

section \<open>Properties\<close>

text \<open>A visitor's token opens exactly that visitor's chat on that widget: the identity a session
  returns is accepted afterwards, and a token accepted for one visitor and widget is accepted for
  no other, unless the keyed hash collides on the two.\<close>

theorem visitor_tokens_bind:
  assumes "\<forall>k b. length (wc_hmac env k b) = 32"
    and "\<forall>k. wc_hmac env k (utf8 (c @ '':'' @ v)) = wc_hmac env k (utf8 (c' @ '':'' @ v')) \<longrightarrow>
      utf8 (c @ '':'' @ v) = utf8 (c' @ '':'' @ v')"
    and "CHR '':'' \<notin> set c" "CHR '':'' \<notin> set c'"
  shows "(isOk (assertVisitor env c v token) \<and> isOk (assertVisitor env c' v' token) \<longrightarrow> c = c' \<and> v = v') \<and>
    (\<forall>ch u t s'. session env widgetKey q ip s d = (Inr (u, t), s') \<and> findChannel widgetKey d = Inr ch \<longrightarrow>
       assertVisitor env (pa_id ch) u (Some t) = Inr ())"
proof (rule conjI; intro allI impI)
  assume "isOk (assertVisitor env c v token) \<and> isOk (assertVisitor env c' v' token)"
  then obtain t where "visitorToken env c v = Inr t" "visitorToken env c' v' = Inr t"
    by (cases "assertVisitor env c v token"; cases "assertVisitor env c' v' token") (auto simp: assertVisitor_iff)
  then obtain k where "wc_hmac env k (utf8 (c @ '':'' @ v)) = wc_hmac env k (utf8 (c' @ '':'' @ v'))"
    using visitorToken_length base64url_inject by (metis sum.inject(2))
  then have "c @ '':'' @ v = c' @ '':'' @ v'" using assms(2) utf8_inject by blast
  then show "c = c' \<and> v = v'" using colon_pair [OF assms(3,4)] by blast
next
  fix ch u t s' assume s: "session env widgetKey q ip s d = (Inr (u, t), s') \<and> findChannel widgetKey d = Inr ch"
  show "assertVisitor env (pa_id ch) u (Some t) = Inr ()"
    using session_identity [of env widgetKey q ip s d u t s' ch] s assms(1) by blast
qed

definition chat_env :: webchat_env where
  "chat_env = \<lparr>wc_now = 5, wc_iso = (\<lambda>_. ''2024-05-01T00:00:00.000Z''), wc_date = (\<lambda>_. Some 3), wc_sha256 = id, wc_reachable = True,
     wc_cipher = Some \<lparr>cc_activeKeyId = ''v1'', cc_keys = [''v1'' \<mapsto> replicate 32 (CHR ''k'')]\<rparr>, wc_hkdf = (\<lambda>k b. k @ b),
     wc_hmac = (\<lambda>k b. take 32 (b @ replicate 32 (CHR ''0''))), wc_random = ''abcdefghijkl'', wc_race = id,
     wc_gen = (\<lambda>n. ''e''), wc_gen' = (\<lambda>n. ''o'')\<rparr>"

text \<open>C23: A fetch shows a visitor only messages of the visitor's own conversations on that widget and
  never a private note, at most a hundred in order of time; it changes nothing but the status of the
  replies it returns, from SENT to DELIVERED; without the visitor's token it shows and changes nothing.\<close>

theorem webchat_fetch_private:
  assumes "messages env widgetKey visitorId token after d = (r, d')" "wc_race env = id" "distinct (map ms_id (db_messages d))"
  shows "case r of Inl e \<Rightarrow> d' = d
    | Inr rows \<Rightarrow> (\<exists>ch. findChannel widgetKey d = Inr ch \<and> isOk (assertVisitor env (pa_id ch) visitorId token) \<and>
        (\<forall>w\<in>set rows. \<exists>m ident c. m \<in> set (db_messages d) \<and> w = webchat_row m \<and> \<not> ms_isPrivate m \<and>
           find_conversation (ms_conversationId m) d = Some c \<and> find_identity (pa_id ch) visitorId d = Some ident \<and>
           cv_contactIdentityId c = ci_id ident)) \<and>
        sorted (map wm_createdAt rows) \<and> length rows \<le> 100 \<and>
        d' = d\<lparr>db_messages := db_messages d', db_notified := db_notified d'\<rparr> \<and>
        db_messages d' = update_where (\<lambda>m. ms_id m \<in> wm_id ` {w \<in> set rows. wm_direction w = Outbound} \<and> ms_status m = DSent)
          (\<lambda>m. m\<lparr>ms_status := DDelivered, ms_deliveredAt := Some (wc_now env), ms_updatedAt := wc_now env\<rparr>) (db_messages d)"
proof (cases r)
  case (Inl e)
  then show ?thesis using assms(1,2) by (auto simp: messages_def Let_def runTx_def split: sum.splits option.splits if_splits)
next
  case (Inr rows)
  show ?thesis using assms(1) [unfolded Inr] assms(2)
  proof (cases rule: messages_Inr)
    case none
    then show ?thesis by (auto simp: Inr update_where_def)
  next
    case (some ch ident since ms)
    have sub: "set ms \<subseteq> set (db_messages d)" "\<And>m. m \<in> set ms \<Longrightarrow> visible_to ident since d m"
      unfolding some(4) by (auto dest!: in_set_takeD)
    have "sorted (map wm_createdAt rows)" "length rows \<le> 100"
      by (simp_all add: some(4,5) webchat_row_def comp_def sorted_wrt_take flip: take_map)
    moreover have "db_messages d' = update_where (\<lambda>m. ms_id m \<in> wm_id ` {w \<in> set rows. wm_direction w = Outbound} \<and> ms_status m = DSent)
          (\<lambda>m. m\<lparr>ms_status := DDelivered, ms_deliveredAt := Some (wc_now env), ms_updatedAt := wc_now env\<rparr>) (db_messages d)"
      unfolding some(7) some(5) set_map by (rule update_where_same_rows, rule marked_rows [OF assms(3) sub(1)])
    moreover have "\<exists>m ident c. m \<in> set (db_messages d) \<and> w = webchat_row m \<and> \<not> ms_isPrivate m \<and>
           find_conversation (ms_conversationId m) d = Some c \<and> find_identity (pa_id ch) visitorId d = Some ident \<and>
           cv_contactIdentityId c = ci_id ident" if w: "w \<in> set rows" for w
    proof -
      obtain m where m: "m \<in> set ms" "w = webchat_row m" using w some(5) by auto
      have "visible_to ident since d m" by (rule sub(2) [OF m(1)])
      then show ?thesis using m sub(1) some(3)
        by (intro exI [of _ m] exI [of _ ident]) (auto simp: visible_to_def split: option.splits)
    qed
    ultimately show ?thesis using some(1,2,6) by (simp add: Inr)
  qed
qed

text \<open>A widget with one visitor, whose conversation holds a sent reply and a private note.\<close>

definition chat_channel :: provider_account where
  "chat_channel = hook_channel\<lparr>pa_channelType := CWEBCHAT, pa_provider := WEBCHAT_EMBED\<rparr>"

definition chat_reply :: message where
  "chat_reply = \<lparr>ms_id = ''m1'', ms_workspaceId = ''w1'', ms_conversationId = ''c1'', ms_providerAccountId = ''acc1'',
     ms_direction = Outbound, ms_senderType = SAgent, ms_senderMembershipId = Some ''a1'', ms_senderName = Some ''Ana'', ms_isPrivate = False,
     ms_contentType = ''TEXT'', ms_content = JNull, ms_text = Some ''hi'', ms_providerMessageId = None, ms_replyToMessageId = None,
     ms_status = DSent, ms_errorCode = None, ms_errorMessage = None, ms_providerEventId = None, ms_sentAt = Some 4,
     ms_deliveredAt = None, ms_readAt = None, ms_failedAt = None, ms_createdAt = 4, ms_updatedAt = 4\<rparr>"

definition chat_db :: db where
  "chat_db = empty_db\<lparr>db_accounts := [chat_channel],
     db_identities := [\<lparr>ci_id = ''i1'', ci_workspaceId = ''w1'', ci_contactId = ''p1'', ci_providerAccountId = ''acc1'', ci_channelType = CWEBCHAT,
       ci_externalId = ''v_1'', ci_displayName = None, ci_username = None, ci_lastSeenAt = None\<rparr>],
     db_conversations := [\<lparr>cv_id = ''c1'', cv_workspaceId = ''w1'', cv_providerAccountId = ''acc1'', cv_contactId = ''p1'',
       cv_contactIdentityId = ''i1'', cv_status = VOpen, cv_assignee = None, cv_subject = None, cv_externalThreadId = None,
       cv_unreadCount = 0, cv_lastMessageAt = None, cv_lastMessagePreview = None, cv_lastMessageDirection = None,
       cv_lastInboundAt = None, cv_resolvedAt = None, cv_createdAt = 1\<rparr>],
     db_messages := [chat_reply, chat_reply\<lparr>ms_id := ''m2'', ms_isPrivate := True\<rparr>]\<rparr>"

definition chat_token :: "string option" where
  "chat_token = (case visitorToken chat_env ''acc1'' ''v_1'' of Inr t \<Rightarrow> Some t | Inl _ \<Rightarrow> None)"

lemma chat_run: "(case messages chat_env ''k1'' ''v_1'' chat_token None chat_db of (Inr rows, d') \<Rightarrow>
    map wm_id rows = [''m1''] \<and> map ms_status (db_messages d') = [DDelivered, DSent] | _ \<Rightarrow> False)"
  by code_simp

theorem webchat_fetch_private_witness:
  "\<exists>w m d'. messages chat_env ''k1'' ''v_1'' chat_token None chat_db = (Inr [w], d') \<and> m \<in> set (db_messages chat_db) \<and> w = webchat_row m \<and>
     \<not> ms_isPrivate m"
proof -
  obtain rows d' where run: "messages chat_env ''k1'' ''v_1'' chat_token None chat_db = (Inr rows, d')" "map wm_id rows = [''m1'']"
    using chat_run by (auto split: prod.splits sum.splits)
  have "wc_race chat_env = id" "distinct (map ms_id (db_messages chat_db))"
    by (simp_all add: chat_env_def chat_db_def chat_reply_def empty_db_def)
  from webchat_fetch_private [OF run(1) this] run show ?thesis by fastforce
qed

lemma chat_session: "isOk (assertVisitor chat_env ''acc1'' ''v_1'' chat_token)"
  by code_simp

theorem visitor_tokens_bind_witness:
  "isOk (assertVisitor chat_env ''acc1'' ''v_1'' chat_token) \<and> \<not> isOk (assertVisitor chat_env ''acc1'' ''v_2'' chat_token)"
proof -
  have "\<forall>k b. length (wc_hmac chat_env k b) = 32" by (simp add: chat_env_def min_def)
  moreover have "utf8 (''acc1'' @ '':'' @ ''v_1'') = ''acc1:v_1''" "utf8 (''acc1'' @ '':'' @ ''v_2'') = ''acc1:v_2''" by code_simp+
  then have "\<forall>k. wc_hmac chat_env k (utf8 (''acc1'' @ '':'' @ ''v_1'')) = wc_hmac chat_env k (utf8 (''acc1'' @ '':'' @ ''v_2'')) \<longrightarrow>
      utf8 (''acc1'' @ '':'' @ ''v_1'') = utf8 (''acc1'' @ '':'' @ ''v_2'')" by (simp only: chat_env_def) simp
  ultimately show ?thesis
    using visitor_tokens_bind [of chat_env "''acc1''" "''v_1''" "''acc1''" "''v_2''" chat_token] chat_session by auto
qed

end
