(* ===== verification/Media.thy ===== *)
theory Media
  imports Webchat
begin

text \<open>
  Media of inbound messages: signed links (\<open>apps/api/src/conversations/media-url.service.ts\<close>), the download
  endpoint behind them (\<open>media.controller.ts\<close>) and \<open>downloadMedia\<close> of the adapters. The clock, the
  keyed hash and the providers' answers are arguments. Numbers of a link are read exactly: a text
  whose value is no double is outside of the model.
\<close>

section \<open>Links\<close>

definition MEDIA_URL_TTL_SECONDS :: int where
  "MEDIA_URL_TTL_SECONDS = 60 * 60"

text \<open>\<open>md_key\<close> is absent when no encryption key is configured.\<close>

record media_env =
  md_now :: int
  md_key :: "bytes option"
  md_hmac :: hmac
  md_apiBaseUrl :: string

definition percent_byte :: "char \<Rightarrow> string" where
  "percent_byte b = (let n = of_char b :: nat; h = (\<lambda>k. if k < 10 then char_of (48 + k) else char_of (55 + k)) in [CHR ''%'', h (n div 16), h (n mod 16)])"

definition alphanumeric :: "char \<Rightarrow> bool" where
  "alphanumeric c = (let n = of_char c :: nat in 48 \<le> n \<and> n \<le> 57 \<or> 65 \<le> n \<and> n \<le> 90 \<or> 97 \<le> n \<and> n \<le> 122)"

definition encodeURIComponent :: "string \<Rightarrow> string" where
  "encodeURIComponent s = concat (map (\<lambda>b. if alphanumeric b \<or> b \<in> set ''-_.!~*()'' \<or> b = CHR 0x27 then [b] else percent_byte b) (utf8 s))"

text \<open>\<open>URLSearchParams\<close> writes forms: a space is a plus sign.\<close>

definition form_encode :: "string \<Rightarrow> string" where
  "form_encode s = concat (map (\<lambda>b. if alphanumeric b \<or> b \<in> set ''*-._'' then [b]
     else if b = CHR '' '' then ''+'' else percent_byte b) (utf8 s))"

definition search_params :: "(string \<times> string) list \<Rightarrow> string" where
  "search_params ps = join ''&'' (map (\<lambda>(k, v). form_encode k @ ''='' @ form_encode v) ps)"

definition media_signature :: "media_env \<Rightarrow> bytes \<Rightarrow> id \<Rightarrow> int \<Rightarrow> string" where
  "media_signature env key messageId expires = to_base64url (md_hmac env key (utf8 (messageId @ ''.'' @ show_int expires)))"

definition sign :: "media_env \<Rightarrow> id \<Rightarrow> string option" where
  "sign env messageId = (case md_key env of None \<Rightarrow> None
     | Some key \<Rightarrow> (let expires = md_now env div 1000 + MEDIA_URL_TTL_SECONDS in
         Some (md_apiBaseUrl env @ ''/api/v1/media/'' @ encodeURIComponent messageId @ ''?'' @
           search_params [(''exp'', show_int expires), (''sig'', media_signature env key messageId expires)])))"

definition verify :: "media_env \<Rightarrow> id \<Rightarrow> string option \<Rightarrow> string option \<Rightarrow> bool" where
  "verify env messageId expiry sg = (case md_key env of None \<Rightarrow> False
     | Some key \<Rightarrow>
         if blank expiry \<or> blank sg then False
         else (case js_Number (the expiry) of None \<Rightarrow> False
           | Some v \<Rightarrow> if v \<noteq> of_int \<lfloor>v\<rfloor> \<or> \<lfloor>v\<rfloor> < md_now env div 1000 then False
               else safeEqual (the sg) (media_signature env key messageId \<lfloor>v\<rfloor>)))"

lemma digit_not_minus: "is_digit c \<Longrightarrow> c \<noteq> CHR ''-''"
  by (auto simp: is_digit_def)

lemma show_int_inject: "show_int m = show_int n \<longleftrightarrow> m = n"
proof -
  have minus: "CHR ''-'' # x \<noteq> show_nat k" for x k using show_nat_digits [of "CHR ''-''" k] by (metis digit_not_minus list.set_intros(1))
  then show ?thesis by (auto simp: show_int_def minus minus [symmetric])
qed

lemma digit_text_trim: "list_all is_digit s \<Longrightarrow> trim s = s"
proof -
  have digit: "is_digit c \<Longrightarrow> \<not> is_space c" for c by (auto simp: is_digit_def is_space_def)
  assume "list_all is_digit s"
  then show ?thesis by (cases "s = []") (simp_all add: trim_def [of "[]"] list_all_iff trim_id digit)
qed

lemma number_of_expiry:
  assumes "0 \<le> n" "n < 2 ^ 53"
  shows "js_Number (show_int n) = Some (of_int n)"
proof -
  define s where "s = show_nat (nat n)"
  have digits: "list_all is_digit s" by (auto simp: s_def list_all_iff dest: show_nat_digits)
  then have runs: "takeWhile is_digit s = s" "dropWhile is_digit s = []" by (simp_all add: takeWhile_eq_all_conv list_all_iff)
  have nonempty: "s \<noteq> []" by (simp add: s_def)
  have "is_digit (hd s)" using digits nonempty by (simp add: list_all_iff)
  then have sign: "hd s \<noteq> CHR ''-''" "hd s \<noteq> CHR ''+''" by (auto simp: is_digit_def)
  have radix: "take 2 s \<notin> {''0x'', ''0X'', ''0o'', ''0O'', ''0b'', ''0B''}"
  proof
    assume "take 2 s \<in> {''0x'', ''0X'', ''0o'', ''0O'', ''0b'', ''0B''}"
    then have "\<not> list_all is_digit (take 2 s)" by (elim insertE emptyE; simp add: is_digit_def)
    then show False using digits by (auto simp: list_all_iff dest: in_set_takeD)
  qed
  have "read_decimal s = Some (of_int n)"
    unfolding read_decimal_def runs Let_def using nonempty assms(1) by (simp add: read_exponent_def scale10_def) (simp add: s_def)
  moreover have "finite_double (of_int n)"
  proof -
    have "\<bar>rat_of_int n\<bar> < 2 ^ 53" using assms by (simp flip: of_int_abs of_int_power add: of_int_less_iff [of n "2 ^ 53", simplified])
    also have "(2 :: rat) ^ 53 < 2 ^ 1024 - 2 ^ 970" by simp
    finally show ?thesis by (simp add: finite_double_def)
  qed
  moreover have "show_int n = s" using assms(1) by (simp add: show_int_def s_def)
  ultimately show ?thesis
    using radix nonempty sign by (simp add: js_Number_def digit_text_trim [OF digits] Let_def)
qed

lemma while_prefix:
  "\<forall>c\<in>set p. P c \<Longrightarrow> \<not> P x \<Longrightarrow> takeWhile P (p @ x # r) = p"
  "\<forall>c\<in>set p. P c \<Longrightarrow> \<not> P x \<Longrightarrow> dropWhile P (p @ x # r) = x # r"
  by (induction p) auto

text \<open>The text before the last dot and the number after it are read off a signed text.\<close>

lemma dotted_inject:
  assumes "a @ ''.'' @ show_int m = b @ ''.'' @ show_int n"
  shows "a = b \<and> m = n"
proof -
  have digits: "\<forall>c\<in>set (show_int k). c \<noteq> CHR ''.''" for k
  proof
    fix c assume "c \<in> set (show_int k)"
    then have "c = CHR ''-'' \<or> is_digit c" by (auto simp: show_int_def dest: show_nat_digits split: if_splits)
    then show "c \<noteq> CHR ''.''" by (auto simp: is_digit_def)
  qed
  have t: "takeWhile (\<lambda>c. c \<noteq> CHR ''.'') (rev (x @ ''.'' @ show_int k)) = rev (show_int k)"
    "dropWhile (\<lambda>c. c \<noteq> CHR ''.'') (rev (x @ ''.'' @ show_int k)) = CHR ''.'' # rev x" for x k
    using digits [of k] by (simp_all add: while_prefix)
  have "show_int m = show_int n" "a = b" using t [of a m] t [of b n] unfolding assms by simp_all
  then show ?thesis using show_int_inject by blast
qed

section \<open>Downloads\<close>

record media_reference =
  mr_providerMediaId :: "string option"
  mr_directUrl :: "string option"
  mr_mimeType :: "string option"

record media_file =
  mf_data :: bytes
  mf_mimeType :: string
  mf_sizeBytes :: nat
  mf_filename :: "string option"

text \<open>The providers' answers: a JSON document for a URL, the result of a Telegram method, and for a
  binary the failure, the declared length, the chunks and the content type.\<close>

record media_http =
  mh_json :: "string \<Rightarrow> err + json"
  mh_telegram :: "string \<Rightarrow> string \<Rightarrow> json \<Rightarrow> err + json"
  mh_binary :: "string \<Rightarrow> provider_error option \<times> nat \<times> bytes list \<times> string"
  mh_graphBase :: string
  mh_graphVersion :: string
  mh_telegramBase :: string
  mh_lineBase :: string

definition fetch_binary :: "media_http \<Rightarrow> channel_provider \<Rightarrow> string \<Rightarrow> err + bytes \<times> string" where
  "fetch_binary http p url = (case mh_binary http url of (failed, declared, chunks, contentType) \<Rightarrow>
     (case requestBinary p failed declared chunks of Inl e \<Rightarrow> Inl (ProviderFailure e) | Inr body \<Rightarrow> Inr (body, contentType)))"

definition not_found :: "channel_provider \<Rightarrow> string \<Rightarrow> string \<Rightarrow> err" where
  "not_found p code message = ProviderFailure (ChannelProviderError p PNOT_FOUND code message)"

definition plain_file :: "bytes \<times> string \<Rightarrow> media_file" where
  "plain_file f = \<lparr>mf_data = fst f, mf_mimeType = snd f, mf_sizeBytes = length (fst f), mf_filename = None\<rparr>"

text \<open>The URL and path of an answer are the texts the providers document.\<close>

definition download_whatsapp :: "media_http \<Rightarrow> media_reference \<Rightarrow> adapter_account \<Rightarrow> err + media_file" where
  "download_whatsapp http ref account =
     (if blank (mr_providerMediaId ref) then Inl (not_found WHATSAPP_CLOUD ''MEDIA_ID_MISSING'' ''This message has no media to download.'')
      else bindR (mh_json http (mh_graphBase http @ ''/'' @ mh_graphVersion http @ ''/'' @ the (mr_providerMediaId ref))) (\<lambda>info.
        if text_of (jget info ''url'') = [] then Inl (not_found WHATSAPP_CLOUD ''MEDIA_URL_MISSING'' ''WhatsApp no longer has this file (media expires after 30 days).'')
        else bindR (fetch_binary http WHATSAPP_CLOUD (text_of (jget info ''url''))) (\<lambda>f.
          Inr ((plain_file f)\<lparr>mf_mimeType := (if jget info ''mime_type'' = JUndef \<or> jget info ''mime_type'' = JNull
            then snd f else text_of (jget info ''mime_type''))\<rparr>))))"

definition download_telegram :: "media_http \<Rightarrow> media_reference \<Rightarrow> adapter_account \<Rightarrow> err + media_file" where
  "download_telegram http ref account =
     (if blank (mr_providerMediaId ref) then Inl (not_found TELEGRAM_BOT ''MEDIA_ID_MISSING'' ''This message has no file to download.'')
      else bindR (mh_telegram http (credential account ''botToken'') ''getFile'' (JObj [(''file_id'', JStr (the (mr_providerMediaId ref)))])) (\<lambda>info.
        let path = text_of (jget info ''file_path'') in
        if path = [] then Inl (not_found TELEGRAM_BOT ''FILE_UNAVAILABLE'' ''Telegram no longer has this file (bots can download files up to 20 MB).'')
        else bindR (fetch_binary http TELEGRAM_BOT (mh_telegramBase http @ ''/file/bot'' @ credential account ''botToken'' @ ''/'' @ path)) (\<lambda>f.
          Inr ((plain_file f)\<lparr>mf_mimeType := (case mr_mimeType ref of Some m \<Rightarrow> m | None \<Rightarrow> snd f),
            mf_filename := Some (last (split_on (CHR ''/'') path))\<rparr>))))"

definition download_line :: "media_http \<Rightarrow> media_reference \<Rightarrow> adapter_account \<Rightarrow> err + media_file" where
  "download_line http ref account =
     (if blank (mr_providerMediaId ref) then Inl (not_found LINE_MESSAGING ''MEDIA_ID_MISSING'' ''This message has no file to download.'')
      else bindR (fetch_binary http LINE_MESSAGING (mh_lineBase http @ ''/v2/bot/message/'' @
        encodeURIComponent (the (mr_providerMediaId ref)) @ ''/content'')) (\<lambda>f. Inr (plain_file f)))"

definition download_meta :: "channel_provider \<Rightarrow> media_http \<Rightarrow> media_reference \<Rightarrow> adapter_account \<Rightarrow> err + media_file" where
  "download_meta p http ref account =
     (if blank (mr_directUrl ref) then Inl (not_found p ''MEDIA_URL_MISSING'' ''This attachment has no download link.'')
      else bindR (fetch_binary http p (the (mr_directUrl ref))) (\<lambda>f. Inr (plain_file f)))"

fun downloadMedia :: "channel_provider \<Rightarrow> (media_http \<Rightarrow> media_reference \<Rightarrow> adapter_account \<Rightarrow> err + media_file) option" where
  "downloadMedia WHATSAPP_CLOUD = Some download_whatsapp"
| "downloadMedia TELEGRAM_BOT = Some download_telegram"
| "downloadMedia LINE_MESSAGING = Some download_line"
| "downloadMedia META_INSTAGRAM = Some (download_meta META_INSTAGRAM)"
| "downloadMedia META_MESSENGER = Some (download_meta META_MESSENGER)"
| "downloadMedia _ = None"

section \<open>The endpoint\<close>

text \<open>\<open>[\w]\<close> of a regular expression.\<close>

definition word_char :: "char \<Rightarrow> bool" where
  "word_char c = (alphanumeric c \<or> c = CHR ''_'')"

text \<open>Types browsers may render inline.\<close>

definition INLINE_TYPES :: "string \<Rightarrow> bool" where
  "INLINE_TYPES t = (let m = to_lower t in
     m \<in> {''image/jpeg'', ''image/png'', ''image/gif'', ''image/webp'', ''video/mp4'', ''video/3gpp'', ''video/webm'', ''video/quicktime'', ''application/pdf''} \<or>
     take 6 m = ''audio/'' \<and> drop 6 m \<noteq> [] \<and> list_all (\<lambda>c. word_char c \<or> c \<in> set ''.+-'') (drop 6 m))"

definition filename_char :: "char \<Rightarrow> bool" where
  "filename_char c = (word_char c \<or> c \<in> set ''.- '')"

text \<open>A run of other characters becomes one underscore.\<close>

fun replace_runs :: "string \<Rightarrow> string" where
  "replace_runs [] = []"
| "replace_runs (c # s) = (if filename_char c then c # replace_runs s
     else case s of [] \<Rightarrow> ''_'' | d # _ \<Rightarrow> if filename_char d then CHR ''_'' # replace_runs s else replace_runs s)"

definition safe_filename :: "json \<Rightarrow> string option \<Rightarrow> string" where
  "safe_filename name fallback = take 120 (replace_runs (case name of JStr s \<Rightarrow> s
     | _ \<Rightarrow> (case fallback of Some f \<Rightarrow> f | None \<Rightarrow> ''attachment'')))"

datatype media_body = FileBody bytes | ErrorBody string string

record media_response =
  rs_status :: nat
  rs_headers :: "(string \<times> string) list"
  rs_body :: media_body

definition media_error :: "nat \<Rightarrow> string \<Rightarrow> string \<Rightarrow> media_response" where
  "media_error status code message = \<lparr>rs_status = status, rs_headers = [], rs_body = ErrorBody code message\<rparr>"

definition media_type :: "media_file \<Rightarrow> string" where
  "media_type f = trim (hd (split_on (CHR '';'') (mf_mimeType f)))"

definition media_headers :: "json \<Rightarrow> media_file \<Rightarrow> (string \<times> string) list" where
  "media_headers content f = (let mimeType = media_type f; inline = INLINE_TYPES mimeType in
     [(''Content-Type'', if inline then mimeType else ''application/octet-stream''),
      (''Content-Length'', show_nat (mf_sizeBytes f)),
      (''Content-Disposition'', (if inline then ''inline'' else ''attachment'') @ ''; filename='' @ [CHR 0x22] @
         safe_filename (jget content ''filename'') (mf_filename f) @ [CHR 0x22]),
      (''Cache-Control'', ''private, max-age=3600''),
      (''X-Content-Type-Options'', ''nosniff''),
      (''Content-Security-Policy'', ''default-src '' @ [CHR 0x27] @ ''none'' @ [CHR 0x27] @ ''; sandbox'')])"

definition optional_string :: "json \<Rightarrow> string option" where
  "optional_string j = (case j of JStr s \<Rightarrow> Some s | _ \<Rightarrow> None)"

definition adapterFor :: "channel_provider \<Rightarrow> err + channel_provider adapter_entry" where
  "adapterFor p = (case registry_getByProvider channel_registry p of Some a \<Rightarrow> Inr a
     | None \<Rightarrow> Inl (ApiFailure 422 ''CHANNEL_PROVIDER_UNSUPPORTED'' (''Provider \"'' @ provider_name p @ ''\" is not supported.'')))"

definition runtime_account :: "(string \<Rightarrow> bool) \<Rightarrow> gcm_open \<Rightarrow> cipher option \<Rightarrow> provider_account \<Rightarrow> err + adapter_account" where
  "runtime_account datetime gopen c row = bindR (requireCipher c) (\<lambda>c.
     case buildAdapterAccount datetime gopen row c of Inl e \<Rightarrow> Inl (cipher_thrown e) | Inr a \<Rightarrow> Inr a)"

definition fetch_failed :: "err \<Rightarrow> media_response" where
  "fetch_failed e = (let missing = (case e of ProviderFailure x \<Rightarrow> pv_category x = PNOT_FOUND | _ \<Rightarrow> False) in
     media_error (if missing then 404 else 502) (if missing then ''MEDIA_EXPIRED'' else ''MEDIA_UNAVAILABLE'')
       (if is_error_object e then err_message e else ''The file could not be fetched from the provider.''))"

text \<open>\<open>acc\<close> opens the channel's credentials.\<close>

definition download ::
  "media_env \<Rightarrow> media_http \<Rightarrow> (provider_account \<Rightarrow> err + adapter_account) \<Rightarrow> db \<Rightarrow> id \<Rightarrow> string option \<Rightarrow> string option \<Rightarrow> err + media_response" where
  "download env http acc d messageId expiry sg =
     (if \<not> verify env messageId expiry sg then Inr (media_error 403 ''MEDIA_LINK_INVALID'' ''This media link is invalid or has expired.'')
      else let missing = Inr (media_error 404 ''MEDIA_NOT_FOUND'' ''This message has no media.'') in
        (case find_message messageId d of None \<Rightarrow> missing
         | Some m \<Rightarrow>
             if jget (ms_content m) ''type'' \<noteq> JStr ''MEDIA'' then missing
             else (case find_account (ms_providerAccountId m) d of None \<Rightarrow> missing
               | Some row \<Rightarrow> bindR (adapterFor (pa_provider row)) (\<lambda>adapter.
                   (case downloadMedia (ad_provider adapter) of
                      None \<Rightarrow> Inr (media_error 404 ''MEDIA_NOT_FOUND'' ''This channel does not provide media downloads.'')
                    | Some fetch \<Rightarrow>
                        (case bindR (acc row) (fetch http \<lparr>mr_providerMediaId = optional_string (jget (ms_content m) ''providerMediaId''),
                             mr_directUrl = optional_string (jget (ms_content m) ''url''),
                             mr_mimeType = optional_string (jget (ms_content m) ''mimeType'')\<rparr>) of
                           Inl e \<Rightarrow> Inr (fetch_failed e)
                         | Inr f \<Rightarrow> Inr \<lparr>rs_status = 200, rs_headers = media_headers (ms_content m) f, rs_body = FileBody (mf_data f)\<rparr>))))))"

section \<open>Properties\<close>

lemma base64url_chars: "c \<in> set (to_base64url x) \<Longrightarrow> alphanumeric c \<or> c = CHR ''-'' \<or> c = CHR ''_''"
proof -
  assume "c \<in> set (to_base64url x)"
  moreover have "list_all (\<lambda>b. b < 256) (map (of_char :: char \<Rightarrow> nat) x)" by (simp add: list_all_iff)
  ultimately obtain n where n: "n < 64" "c = b64_char True n" using sextets_small by (auto simp: to_base64url_def)
  then consider "n < 26" | "26 \<le> n" "n < 52" | "52 \<le> n" "n < 62" | "n = 62" | "n = 63" by linarith
  then show ?thesis by cases (auto simp: n(2) b64_char_def alphanumeric_def of_char_of Let_def)
qed

lemma form_encode_plain: "\<forall>c\<in>set x. alphanumeric c \<or> c = CHR ''-'' \<or> c = CHR ''_'' \<Longrightarrow> form_encode x = x"
proof (induction x)
  case (Cons c x)
  then have "utf8_char c = [c]" by (auto simp: utf8_char_def alphanumeric_def Let_def)
  then show ?case using Cons by (auto simp: form_encode_def)
qed (simp add: form_encode_def)

lemma digits_plain: "0 \<le> n \<Longrightarrow> form_encode (show_int n) = show_int n"
  by (rule form_encode_plain) (auto simp: show_int_def alphanumeric_def is_digit_def Let_def dest!: show_nat_digits)

lemma signature_nonempty: "\<forall>k b. length (md_hmac env k b) = 32 \<Longrightarrow> media_signature env k i n \<noteq> []"
proof -
  assume "\<forall>k b. length (md_hmac env k b) = 32"
  then have "md_hmac env k (utf8 (i @ ''.'' @ show_int n)) \<noteq> []" by (metis list.size(3) zero_neq_numeral)
  moreover have "to_base64url [] = []" by (simp add: to_base64url_def)
  ultimately show ?thesis unfolding media_signature_def using base64url_inject by metis
qed

text \<open>C22: A media link opens its message for an hour and nothing else: the URL carries an expiry and a
  signature that are accepted for this message exactly until the hour is over, and, as far as the
  keyed hash has no second text for it, the signature is accepted for no other message and no other expiry.\<close>

theorem media_link_roundtrip:
  assumes "sign env i = Some url" "0 \<le> md_now env" "md_now env \<le> 8640000000000000"
    and "\<forall>k b. length (md_hmac env k b) = 32"
    and "md_key env' = md_key env" "md_hmac env' = md_hmac env"
    and "\<forall>k b. md_key env = Some k \<and>
      md_hmac env k b = md_hmac env k (utf8 (i @ ''.'' @ show_int (md_now env div 1000 + 3600))) \<longrightarrow>
      b = utf8 (i @ ''.'' @ show_int (md_now env div 1000 + 3600))"
  shows "\<exists>e s. url = md_apiBaseUrl env @ ''/api/v1/media/'' @ encodeURIComponent i @ ''?exp='' @ e @ ''&sig='' @ s \<and>
    (verify env' i (Some e) (Some s) \<longleftrightarrow> md_now env' div 1000 \<le> md_now env div 1000 + 3600) \<and>
    (\<forall>j e'. verify env' j (Some e') (Some s) \<longrightarrow> j = i \<and> js_Number e' = js_Number e)"
proof -
  obtain k where k: "md_key env = Some k" using assms(1) by (auto simp: sign_def split: option.splits)
  define n where "n = md_now env div 1000 + 3600"
  define s where "s = media_signature env k i n"
  have n: "0 \<le> n" "n < 2 ^ 53" using assms(2,3) by (auto simp: n_def)
  have "form_encode s = s" unfolding s_def media_signature_def by (rule form_encode_plain) (use base64url_chars in blast)
  moreover have "form_encode ''exp'' = ''exp''" "form_encode ''sig'' = ''sig''" by code_simp+
  ultimately have plain: "form_encode s = s" "form_encode (show_int n) = show_int n" "form_encode ''exp'' = ''exp''" "form_encode ''sig'' = ''sig''"
    using digits_plain [OF n(1)] by blast+
  have filled: "s \<noteq> []" "show_int n \<noteq> []" using signature_nonempty assms(4) by (auto simp: s_def show_int_def)
  have url: "url = md_apiBaseUrl env @ ''/api/v1/media/'' @ encodeURIComponent i @ ''?exp='' @ show_int n @ ''&sig='' @ s"
    using assms(1) plain by (simp add: sign_def k Let_def search_params_def s_def n_def MEDIA_URL_TTL_SECONDS_def)
  have same: "media_signature env' k = media_signature env k" by (intro ext) (simp add: media_signature_def assms(6))
  have open_it: "verify env' i (Some (show_int n)) (Some s) \<longleftrightarrow> md_now env' div 1000 \<le> n"
    using filled k by (auto simp: verify_def assms(5) number_of_expiry [OF n] same s_def blank_def)
  have only: "j = i \<and> js_Number e' = js_Number (show_int n)" if v: "verify env' j (Some e') (Some s)" for j e'
  proof -
    obtain w where w: "js_Number e' = Some w" "w = of_int \<lfloor>w\<rfloor>" "s = media_signature env k j \<lfloor>w\<rfloor>"
      using v k by (auto simp: verify_def assms(5) same split: if_splits option.splits)
    then have "md_hmac env k (utf8 (j @ ''.'' @ show_int \<lfloor>w\<rfloor>)) = md_hmac env k (utf8 (i @ ''.'' @ show_int n))"
      by (simp add: s_def media_signature_def base64url_inject)
    then have "utf8 (j @ ''.'' @ show_int \<lfloor>w\<rfloor>) = utf8 (i @ ''.'' @ show_int n)" using assms(7) k by (auto simp: n_def)
    then have "j = i" "\<lfloor>w\<rfloor> = n" using dotted_inject utf8_inject by blast+
    then show ?thesis using w(1,2) number_of_expiry [OF n] by simp
  qed
  have "md_now env' div 1000 \<le> n \<longleftrightarrow> md_now env' div 1000 \<le> md_now env div 1000 + 3600" by (simp add: n_def)
  then show ?thesis using url open_it only by blast
qed

text \<open>What every adapter hands over is the whole binary of at most 100 MB.\<close>

lemma fetch_binary_size: "fetch_binary http p url = Inr f \<Longrightarrow> length (fst f) \<le> MAX_MEDIA_DOWNLOAD_BYTES"
  by (auto simp: fetch_binary_def requestBinary_def readCapped_result split: prod.splits option.splits sum.splits if_splits)

lemma downloadMedia_size:
  "downloadMedia p = Some fetch \<Longrightarrow> fetch http ref a = Inr f \<Longrightarrow>
     length (mf_data f) \<le> MAX_MEDIA_DOWNLOAD_BYTES \<and> mf_sizeBytes f = length (mf_data f)"
  by (cases p) (auto simp: download_whatsapp_def download_telegram_def download_line_def download_meta_def
    bindR_Inr_iff plain_file_def Let_def dest!: fetch_binary_size split: if_splits)

lemma replace_runs_chars: "c \<in> set (replace_runs s) \<Longrightarrow> filename_char c"
  by (induction s rule: replace_runs.induct)
    (auto simp: filename_char_def word_char_def split: if_splits list.splits)

lemma safe_filename_chars: "c \<in> set (safe_filename name fallback) \<Longrightarrow> filename_char c"
  unfolding safe_filename_def using replace_runs_chars in_set_takeD by fast

lemma filename_char_safe: "filename_char c \<Longrightarrow> c \<noteq> CHR 0x22 \<and> c \<noteq> CHR 13 \<and> c \<noteq> CHR 10"
  by (auto simp: filename_char_def word_char_def alphanumeric_def Let_def)

lemma inline_safe:
  assumes "INLINE_TYPES t" "c \<in> set t"
  shows "c \<notin> {CHR 13, CHR 10, CHR '';'', CHR ''<''}"
proof
  assume bad: "c \<in> {CHR 13, CHR 10, CHR '';'', CHR ''<''}"
  define m where "m = to_lower t"
  have "lower_char c = c" using bad by (auto simp: lower_char_def)
  then have c: "c \<in> set m" using assms(2) by (force simp: m_def to_lower_def)
  from assms(1) consider "m \<in> {''image/jpeg'', ''image/png'', ''image/gif'', ''image/webp'', ''video/mp4'', ''video/3gpp'', ''video/webm'', ''video/quicktime'', ''application/pdf''}"
    | "take 6 m = ''audio/''" "list_all (\<lambda>c. word_char c \<or> c \<in> set ''.+-'') (drop 6 m)"
    by (auto simp: INLINE_TYPES_def Let_def m_def)
  then show False
  proof cases
    case 1
    then show ?thesis using c bad by auto
  next
    case 2
    have "c \<in> set (take 6 m) \<or> c \<in> set (drop 6 m)" using c by (metis append_take_drop_id Un_iff set_append)
    then show ?thesis
    proof
      assume "c \<in> set (take 6 m)"
      then show ?thesis using bad by (auto simp: 2(1))
    next
      assume "c \<in> set (drop 6 m)"
      then have "word_char c \<or> c \<in> set ''.+-''" using 2(2) by (simp add: list_all_iff)
      then show ?thesis using bad by (auto simp: word_char_def alphanumeric_def Let_def)
    qed
  qed
qed

text \<open>An answer that is not the file is an error document.\<close>

lemma download_cases:
  assumes "download env http acc d i e s = Inr r"
  shows "(rs_status r \<noteq> 200 \<and> (\<exists>code message. rs_body r = ErrorBody code message) \<and> (\<not> verify env i e s \<longrightarrow> rs_status r = 403)) \<or>
    (verify env i e s \<and> (\<exists>m f. find_message i d = Some m \<and> jget (ms_content m) ''type'' = JStr ''MEDIA'' \<and>
      length (mf_data f) \<le> MAX_MEDIA_DOWNLOAD_BYTES \<and> mf_sizeBytes f = length (mf_data f) \<and>
      r = \<lparr>rs_status = 200, rs_headers = media_headers (ms_content m) f, rs_body = FileBody (mf_data f)\<rparr>))"
proof (cases "verify env i e s")
  case False
  then show ?thesis using assms by (auto simp: download_def media_error_def)
next
  case v: True
  show ?thesis
  proof (cases "\<exists>m row. find_message i d = Some m \<and> jget (ms_content m) ''type'' = JStr ''MEDIA'' \<and> find_account (ms_providerAccountId m) d = Some row")
    case False
    then have "r = media_error 404 ''MEDIA_NOT_FOUND'' ''This message has no media.''"
      using assms v by (auto simp: download_def Let_def split: option.splits if_splits)
    then show ?thesis using v by (simp add: media_error_def)
  next
    case True
    then obtain m row where m: "find_message i d = Some m" "jget (ms_content m) ''type'' = JStr ''MEDIA''"
      "find_account (ms_providerAccountId m) d = Some row" by blast
    then obtain a where a: "adapterFor (pa_provider row) = Inr a" using assms v by (auto simp: download_def bindR_Inr_iff)
    show ?thesis
    proof (cases "downloadMedia (ad_provider a)")
      case None
      then show ?thesis using assms v m a by (auto simp: download_def media_error_def)
    next
      case (Some fetch)
      define res where "res = bindR (acc row) (fetch http \<lparr>mr_providerMediaId = optional_string (jget (ms_content m) ''providerMediaId''),
         mr_directUrl = optional_string (jget (ms_content m) ''url''), mr_mimeType = optional_string (jget (ms_content m) ''mimeType'')\<rparr>)"
      have r: "r = (case res of Inl e \<Rightarrow> fetch_failed e
          | Inr f \<Rightarrow> \<lparr>rs_status = 200, rs_headers = media_headers (ms_content m) f, rs_body = FileBody (mf_data f)\<rparr>)"
        using assms v m a Some by (simp add: download_def res_def split: sum.splits)
      show ?thesis
      proof (cases res)
        case (Inl e)
        then show ?thesis using r v by (simp add: fetch_failed_def media_error_def Let_def)
      next
        case (Inr f)
        then have "length (mf_data f) \<le> MAX_MEDIA_DOWNLOAD_BYTES \<and> mf_sizeBytes f = length (mf_data f)"
          using downloadMedia_size [OF Some] by (auto simp: res_def bindR_Inr_iff)
        then show ?thesis using r Inr v m by auto
      qed
    qed
  qed
qed

text \<open>The download endpoint hands a file out only over a valid link to a media message, at most 100 MB
  and with its true length; the browser may render it only with one of the listed types, anything
  else is an attachment of bytes; and no name or type a customer chose leaves its header.\<close>

theorem media_download_safe:
  assumes "download env http acc d i e s = Inr r"
  shows "if rs_status r = 200
    then verify env i e s \<and> (\<exists>m data ct name. find_message i d = Some m \<and> jget (ms_content m) ''type'' = JStr ''MEDIA'' \<and>
      rs_body r = FileBody data \<and> length data \<le> 100 * 1024 * 1024 \<and>
      rs_headers r = [(''Content-Type'', ct), (''Content-Length'', show_nat (length data)),
        (''Content-Disposition'', (if INLINE_TYPES ct then ''inline'' else ''attachment'') @ ''; filename='' @ [CHR 0x22] @ name @ [CHR 0x22]),
        (''Cache-Control'', ''private, max-age=3600''), (''X-Content-Type-Options'', ''nosniff''),
        (''Content-Security-Policy'', ''default-src '' @ [CHR 0x27] @ ''none'' @ [CHR 0x27] @ ''; sandbox'')] \<and>
      (INLINE_TYPES ct \<or> ct = ''application/octet-stream'') \<and>
      (\<forall>c\<in>set ct. c \<notin> {CHR 13, CHR 10, CHR '';'', CHR ''<''}) \<and>
      length name \<le> 120 \<and> (\<forall>c\<in>set name. c \<noteq> CHR 0x22 \<and> c \<noteq> CHR 13 \<and> c \<noteq> CHR 10))
    else (\<exists>code message. rs_body r = ErrorBody code message) \<and> (\<not> verify env i e s \<longrightarrow> rs_status r = 403)"
proof -
  from download_cases [OF assms] consider
    (refused) "rs_status r \<noteq> 200" "\<exists>code message. rs_body r = ErrorBody code message" "\<not> verify env i e s \<longrightarrow> rs_status r = 403"
  | (sent) m f where "verify env i e s" "find_message i d = Some m" "jget (ms_content m) ''type'' = JStr ''MEDIA''"
      "length (mf_data f) \<le> MAX_MEDIA_DOWNLOAD_BYTES" "mf_sizeBytes f = length (mf_data f)"
      "r = \<lparr>rs_status = 200, rs_headers = media_headers (ms_content m) f, rs_body = FileBody (mf_data f)\<rparr>"
    by blast
  then show ?thesis
  proof cases
    case refused
    then show ?thesis by simp
  next
    case sent
    define ct where "ct = (if INLINE_TYPES (media_type f) then media_type f else ''application/octet-stream'')"
    define name where "name = safe_filename (jget (ms_content m) ''filename'') (mf_filename f)"
    have octets: "\<not> INLINE_TYPES ''application/octet-stream''" by code_simp
    have ct: "INLINE_TYPES ct \<longleftrightarrow> INLINE_TYPES (media_type f)" "INLINE_TYPES ct \<or> ct = ''application/octet-stream''"
      "\<forall>c\<in>set ct. c \<notin> {CHR 13, CHR 10, CHR '';'', CHR ''<''}"
      using octets inline_safe by (auto simp: ct_def)
    have name: "length name \<le> 120" "\<forall>c\<in>set name. c \<noteq> CHR 0x22 \<and> c \<noteq> CHR 13 \<and> c \<noteq> CHR 10"
      using safe_filename_chars filename_char_safe by (auto simp: name_def) (simp add: safe_filename_def)
    have "rs_headers r = [(''Content-Type'', ct), (''Content-Length'', show_nat (length (mf_data f))),
        (''Content-Disposition'', (if INLINE_TYPES ct then ''inline'' else ''attachment'') @ ''; filename='' @ [CHR 0x22] @ name @ [CHR 0x22]),
        (''Cache-Control'', ''private, max-age=3600''), (''X-Content-Type-Options'', ''nosniff''),
        (''Content-Security-Policy'', ''default-src '' @ [CHR 0x27] @ ''none'' @ [CHR 0x27] @ ''; sandbox'')]"
      by (simp only: sent(6) ct(1)) (simp add: media_headers_def Let_def ct_def name_def sent(5))
    then show ?thesis using sent(1-4) ct(2,3) name
      by (simp only: sent(6) media_response.select_convs if_True refl MAX_MEDIA_DOWNLOAD_BYTES_def) blast
  qed
qed

definition link_env :: "int \<Rightarrow> media_env" where
  "link_env now = \<lparr>md_now = now, md_key = Some ''k'',
     md_hmac = (\<lambda>k b. replicate 32 (if b = ''m1.3605'' then CHR ''a'' else CHR ''b'')), md_apiBaseUrl = ''https://api''\<rparr>"

lemma link_text: "utf8 (''m1'' @ ''.'' @ show_int (md_now (link_env 5000) div 1000 + 3600)) = ''m1.3605''"
  by code_simp

theorem media_link_roundtrip_witness:
  "\<exists>url e s. sign (link_env 5000) ''m1'' = Some url \<and> verify (link_env 3605999) ''m1'' (Some e) (Some s)"
proof -
  obtain url where url: "sign (link_env 5000) ''m1'' = Some url" by (simp add: sign_def link_env_def Let_def)
  have len: "\<forall>k b. length (md_hmac (link_env 5000) k b) = 32" by (simp add: link_env_def)
  have same: "md_key (link_env t) = md_key (link_env 5000)" "md_hmac (link_env t) = md_hmac (link_env 5000)" for t by (simp_all add: link_env_def)
  have free: "\<forall>k b. md_key (link_env 5000) = Some k \<and>
      md_hmac (link_env 5000) k b = md_hmac (link_env 5000) k (utf8 (''m1'' @ ''.'' @ show_int (md_now (link_env 5000) div 1000 + 3600))) \<longrightarrow>
      b = utf8 (''m1'' @ ''.'' @ show_int (md_now (link_env 5000) div 1000 + 3600))"
    unfolding link_text by (simp add: link_env_def)
  have now: "0 \<le> md_now (link_env 5000)" "md_now (link_env 5000) \<le> 8640000000000000" by (simp_all add: link_env_def)
  have "md_now (link_env 3605999) div 1000 \<le> md_now (link_env 5000) div 1000 + 3600" by (simp add: link_env_def)
  then show ?thesis using media_link_roundtrip [OF url now len same free, of 3605999] url by blast
qed

definition media_db :: db where
  "media_db = chat_db\<lparr>db_accounts := [hook_channel], db_messages := [chat_reply\<lparr>ms_content :=
     JObj [(''type'', JStr ''MEDIA''), (''providerMediaId'', JStr ''f1''), (''filename'', JStr (''a'' @ [CHR 0x22, CHR 13] @ ''.png''))]\<rparr>]\<rparr>"

definition media_http_ok :: media_http where
  "media_http_ok = \<lparr>mh_json = (\<lambda>_. Inr JNull), mh_telegram = (\<lambda>_ _ _. Inr (JObj [(''file_path'', JStr ''p/x.png'')])),
     mh_binary = (\<lambda>_. (None, 3, [''ab'', ''c''], ''image/png; q=1'')), mh_graphBase = ''g'', mh_graphVersion = ''v'', mh_telegramBase = ''t'', mh_lineBase = ''l''\<rparr>"

definition media_link :: "string option" where
  "media_link = Some (media_signature (link_env 5000) ''k'' ''m1'' 3605)"

lemma media_binary: "fetch_binary media_http_ok p url = Inr (''abc'', ''image/png; q=1'')"
  by (simp add: fetch_binary_def media_http_ok_def requestBinary_def MAX_MEDIA_DOWNLOAD_BYTES_def)

lemma media_fetch: "\<exists>f. download_telegram media_http_ok \<lparr>mr_providerMediaId = Some ''f1'', mr_directUrl = u, mr_mimeType = m\<rparr> a = Inr f"
proof -
  have "mh_telegram media_http_ok x y z = Inr (JObj [(''file_path'', JStr ''p/x.png'')])" for x y z by (simp add: media_http_ok_def)
  moreover have "text_of (jget (JObj [(''file_path'', JStr ''p/x.png'')]) ''file_path'') = ''p/x.png''" by code_simp
  ultimately show ?thesis by (simp add: download_telegram_def media_binary Let_def blank_def)
qed

lemma media_parts:
  "verify (link_env 5000) ''m1'' (Some (show_int 3605)) media_link"
  "\<exists>m. find_message ''m1'' media_db = Some m \<and> jget (ms_content m) ''type'' = JStr ''MEDIA'' \<and>
     optional_string (jget (ms_content m) ''providerMediaId'') = Some ''f1'' \<and> find_account (ms_providerAccountId m) media_db = Some hook_channel"
  "\<exists>a. adapterFor (pa_provider hook_channel) = Inr a \<and> ad_provider a = TELEGRAM_BOT"
proof -
  have "js_Number (show_int 3605) = Some 3605" using number_of_expiry [of 3605] by simp
  moreover have "media_signature (link_env 5000) ''k'' ''m1'' 3605 \<noteq> []"
    by (rule signature_nonempty) (simp add: link_env_def)
  ultimately show "verify (link_env 5000) ''m1'' (Some (show_int 3605)) media_link"
    by (simp add: verify_def link_env_def media_link_def blank_def show_int_def)
  show "\<exists>m. find_message ''m1'' media_db = Some m \<and> jget (ms_content m) ''type'' = JStr ''MEDIA'' \<and>
     optional_string (jget (ms_content m) ''providerMediaId'') = Some ''f1'' \<and> find_account (ms_providerAccountId m) media_db = Some hook_channel"
    by (simp add: find_message_def find_account_def media_db_def chat_reply_def hook_channel_def optional_string_def jget_def)
  have "case adapterFor (pa_provider hook_channel) of Inr a \<Rightarrow> ad_provider a = TELEGRAM_BOT | Inl _ \<Rightarrow> False" by code_simp
  then show "\<exists>a. adapterFor (pa_provider hook_channel) = Inr a \<and> ad_provider a = TELEGRAM_BOT" by (auto split: sum.splits)
qed

lemma media_run: "\<exists>r. download (link_env 5000) media_http_ok (\<lambda>_. Inr sample_account) media_db ''m1'' (Some (show_int 3605)) media_link = Inr r \<and> rs_status r = 200"
proof -
  obtain m a where m: "find_message ''m1'' media_db = Some m" "jget (ms_content m) ''type'' = JStr ''MEDIA''"
     "optional_string (jget (ms_content m) ''providerMediaId'') = Some ''f1''" "find_account (ms_providerAccountId m) media_db = Some hook_channel"
     "adapterFor (pa_provider hook_channel) = Inr a" "ad_provider a = TELEGRAM_BOT" using media_parts(2,3) by blast
  obtain f where "download_telegram media_http_ok \<lparr>mr_providerMediaId = Some ''f1'', mr_directUrl = optional_string (jget (ms_content m) ''url''),
      mr_mimeType = optional_string (jget (ms_content m) ''mimeType'')\<rparr> sample_account = Inr f" using media_fetch by blast
  then show ?thesis using m media_parts(1) by (simp add: download_def)
qed

theorem media_download_safe_witness:
  "\<exists>r data. download (link_env 5000) media_http_ok (\<lambda>_. Inr sample_account) media_db ''m1'' (Some (show_int 3605)) media_link = Inr r \<and>
     rs_status r = 200 \<and> rs_body r = FileBody data \<and> length data \<le> 100 * 1024 * 1024"
proof -
  obtain r where r: "download (link_env 5000) media_http_ok (\<lambda>_. Inr sample_account) media_db ''m1'' (Some (show_int 3605)) media_link = Inr r"
    "rs_status r = 200" using media_run by blast
  then show ?thesis using media_download_safe [OF r(1)] by auto
qed

end
