(* ===== verification/Mailbox.thy ===== *)
theory Mailbox
  imports EventExtraction
begin

text \<open>
  Pulling inbound events from channels without webhooks: \<open>pollInbound\<close> of the email adapter
  (\<open>packages/channel-adapters/src/providers/email/email.adapter.ts\<close>) with the journal payload of a mail and
  the categories of mail errors, and \<open>pollInbound\<close> of the Telegram adapter. What the IMAP server, the mail
  parser and the Telegram API answer is an argument; cursors hold integers, as these functions write them.
\<close>

section \<open>Mail errors\<close>

datatype mail_phase = Verify | Runtime

datatype mail_protocol = IMAP | SMTP

record mail_server =
  sv_host :: string
  sv_port :: nat

text \<open>What a mail library throws: a categorised error of our own, or an error with its fields.\<close>

record mail_error =
  me_authenticationFailed :: bool
  me_code :: "string option"
  me_responseCode :: "nat option"
  me_message :: string

datatype mail_thrown = Categorised provider_error | Raw mail_error

definition TLS_ERROR_CODES :: "string list" where
  "TLS_ERROR_CODES = [''ERR_TLS_CERT_ALTNAME_INVALID'', ''DEPTH_ZERO_SELF_SIGNED_CERT'', ''SELF_SIGNED_CERT_IN_CHAIN'',
     ''UNABLE_TO_VERIFY_LEAF_SIGNATURE'', ''CERT_HAS_EXPIRED'', ''ERR_SSL_WRONG_VERSION_NUMBER'', ''ETLS'']"

definition UNREACHABLE_CODES :: "string list" where
  "UNREACHABLE_CODES = [''ECONNREFUSED'', ''ETIMEDOUT'', ''CONNECT_TIMEOUT'', ''GREETING_TIMEOUT'', ''ECONNECTION'', ''ESOCKET'',
     ''ECONNRESET'', ''EHOSTUNREACH'']"

fun protocol_name :: "mail_protocol \<Rightarrow> string" where
  "protocol_name IMAP = ''IMAP''"
| "protocol_name SMTP = ''SMTP''"

definition tls_failure :: "string \<Rightarrow> string \<Rightarrow> bool" where
  "tls_failure code underlying = (code \<in> set TLS_ERROR_CODES \<or> (let u = to_lower underlying in
     str_includes u ''ssl'' \<or> str_includes u ''tls'' \<or> str_includes u ''certificate''))"

fun mapMailError :: "mail_thrown \<Rightarrow> mail_protocol \<Rightarrow> mail_server \<Rightarrow> mail_phase \<Rightarrow> provider_error" where
  "mapMailError (Categorised e) protocol server phase = e"
| "mapMailError (Raw err) protocol server phase =
     (let code = (case me_code err of Some c \<Rightarrow> c | None \<Rightarrow> []);
          place = protocol_name protocol @ '' '' @ sv_host server @ '':'' @ show_nat (sv_port server);
          underlying = me_message err;
          offline = (if phase = Verify then PCONFIGURATION else PTRANSIENT);
          (category, message) =
            (if me_authenticationFailed err \<or> code = ''EAUTH'' \<or> code = ''ENOAUTH'' then
               (PAUTHENTICATION, place @ '' rejected the username or password. For Gmail, Yahoo and Zoho, use an app password instead of your normal password. Microsoft 365 and Outlook.com only allow OAuth sign-in, which is not supported yet.'')
             else if tls_failure code underlying then
               (PCONFIGURATION, ''Secure connection to '' @ place @ '' failed ('' @ underlying @ ''). Check the SSL/TLS setting: port 993/465 usually need SSL on, 143/587 need it off (STARTTLS).'')
             else if code \<in> set [''ENOTFOUND'', ''EAI_AGAIN'', ''EDNS''] then
               (offline, ''Could not find the server '' @ sv_host server @ ''. Check the '' @ protocol_name protocol @ '' host name.'')
             else if code \<in> set UNREACHABLE_CODES then
               (offline, ''Could not connect to '' @ place @ '' ('' @ code @ ''). Check the host, port and SSL setting.'')
             else if code = ''EENVELOPE'' then (PRECIPIENT_UNAVAILABLE, ''The mail server refused the recipient: '' @ underlying)
             else (case me_responseCode err of
                 Some r \<Rightarrow>
                   if 400 \<le> r \<and> r < 500 then (PTRANSIENT, ''The mail server asked to try again later: '' @ underlying)
                   else if 500 \<le> r then (PINVALID_REQUEST, ''The mail server rejected the message: '' @ underlying)
                   else (offline, place @ '' failed: '' @ underlying)
               | None \<Rightarrow> (offline, place @ '' failed: '' @ underlying)))
      in ChannelProviderError EMAIL_SMTP_IMAP category
           (if code \<noteq> [] then code else case me_responseCode err of Some r \<Rightarrow> ''SMTP_'' @ show_nat r | None \<Rightarrow> ''MAIL_ERROR'') message)"

section \<open>The journal payload of a mail\<close>

text \<open>What the mail parser returns; an address may lack its address or its name.\<close>

type_synonym address_group = "(string option \<times> string option) list"

datatype address_field = NoAddress | OneGroup address_group | Groups "address_group list"

datatype mail_references = NoReferences | ReferenceText string | ReferenceList "string list"

datatype mail_header = NoHeader | HeaderText string | HeaderValue string

record mail_attachment =
  mt_filename :: "string option"
  mt_contentType :: string
  mt_size :: nat
  mt_related :: bool
  mt_contentDisposition :: string

record parsed_mail =
  pm_messageId :: "string option"
  pm_inReplyTo :: "string option"
  pm_references :: mail_references
  pm_subject :: "string option"
  pm_date :: "string option"
  pm_from :: address_field
  pm_to :: address_field
  pm_cc :: address_field
  pm_replyTo :: address_field
  pm_text :: "string option"
  pm_autoSubmitted :: mail_header
  pm_attachments :: "mail_attachment list"

definition MAX_TEXT_CHARS :: nat where
  "MAX_TEXT_CHARS = 100000"

definition MAX_PARSE_BYTES :: nat where
  "MAX_PARSE_BYTES = 15 * 1024 * 1024"

definition POLL_BATCH_SIZE :: nat where
  "POLL_BATCH_SIZE = 10"

fun groups :: "address_field \<Rightarrow> address_group list" where
  "groups NoAddress = []"
| "groups (OneGroup g) = [g]"
| "groups (Groups gs) = gs"

definition shown_address :: "string option \<times> string option \<Rightarrow> json" where
  "shown_address e = JObj [(''address'', JStr (to_lower (the (fst e)))), (''name'', JStr (case snd e of Some n \<Rightarrow> n | None \<Rightarrow> []))]"

definition allAddresses :: "address_field \<Rightarrow> json list" where
  "allAddresses v = map shown_address (filter (\<lambda>e. \<not> blank (fst e)) (concat (groups v)))"

definition firstAddress :: "address_field \<Rightarrow> json option" where
  "firstAddress v = (case allAddresses v of [] \<Rightarrow> None | a # _ \<Rightarrow> Some a)"

fun headerText :: "mail_header \<Rightarrow> string option" where
  "headerText NoHeader = None"
| "headerText (HeaderText s) = Some s"
| "headerText (HeaderValue s) = Some s"

text \<open>\<open>split(/\s+/).filter(Boolean)\<close>.\<close>

fun words_from :: "string \<Rightarrow> string \<Rightarrow> string list" where
  "words_from [] w = (if w = [] then [] else [rev w])"
| "words_from (c # s) w = (if is_space c then (if w = [] then [] else [rev w]) @ words_from s [] else words_from s (c # w))"

definition opt_json :: "string option \<Rightarrow> json" where
  "opt_json x = (case x of Some s \<Rightarrow> JStr s | None \<Rightarrow> JUndef)"

definition reference_list :: "mail_references \<Rightarrow> string list" where
  "reference_list r = (case r of NoReferences \<Rightarrow> [] | ReferenceList rs \<Rightarrow> rs | ReferenceText s \<Rightarrow> words_from s [])"

definition attachment_json :: "mail_attachment \<Rightarrow> json" where
  "attachment_json a = JObj (json_compact [(''filename'', opt_json (mt_filename a)), (''contentType'', JStr (mt_contentType a)),
     (''size'', JNum (int (mt_size a))), (''inline'', if mt_related a \<or> mt_contentDisposition a = ''inline'' then JBool True else JUndef)])"

definition emailToJournalPayload :: "parsed_mail \<Rightarrow> int \<Rightarrow> string \<Rightarrow> json" where
  "emailToJournalPayload p uid uidValidity = JObj (json_compact
     [(''uid'', JNum uid), (''uidValidity'', JStr uidValidity), (''messageId'', opt_json (pm_messageId p)),
      (''inReplyTo'', opt_json (pm_inReplyTo p)), (''references'', JArr (map JStr (reference_list (pm_references p)))),
      (''subject'', opt_json (pm_subject p)), (''date'', opt_json (pm_date p)),
      (''from'', case firstAddress (pm_from p) of Some a \<Rightarrow> a | None \<Rightarrow> JUndef),
      (''to'', JArr (allAddresses (pm_to p))), (''cc'', JArr (allAddresses (pm_cc p))),
      (''replyTo'', case firstAddress (pm_replyTo p) of Some a \<Rightarrow> a | None \<Rightarrow> JUndef),
      (''text'', JStr (take MAX_TEXT_CHARS (case pm_text p of Some t \<Rightarrow> t | None \<Rightarrow> []))),
      (''autoSubmitted'', opt_json (headerText (pm_autoSubmitted p))),
      (''attachments'', JArr (map attachment_json (pm_attachments p)))])"

definition eventKeyFor :: "(string \<Rightarrow> string) \<Rightarrow> string option \<Rightarrow> string \<Rightarrow> int \<Rightarrow> string" where
  "eventKeyFor sha256hex messageId uidValidity uid = (if blank messageId then ''uid:'' @ uidValidity @ '':'' @ show_int uid
     else let key = ''mid:'' @ the messageId in if length key \<le> 255 then key else ''mid-sha256:'' @ sha256hex (the messageId))"

section \<open>Polling a mailbox\<close>

text \<open>The IMAP commands in the order of their use: the mailbox of the lock with its UIDVALIDITY and
  UIDNEXT, the search from a UID on, UIDs with sizes, one envelope, one source; and the parser.\<close>

record imap_env =
  im_mailbox :: "mail_thrown + (string \<times> int) option"
  im_search :: "int \<Rightarrow> mail_thrown + int list option"
  im_fetchAll :: "int list \<Rightarrow> mail_thrown + (int \<times> nat option) list"
  im_envelope :: "int \<Rightarrow> mail_thrown + json option"
  im_source :: "int \<Rightarrow> mail_thrown + bytes option"
  im_parse :: "bytes \<Rightarrow> err + parsed_mail"
  im_sha256hex :: "string \<Rightarrow> string"

record fetched_mail =
  fm_uid :: int
  fm_oversized :: bool
  fm_source :: "bytes option"
  fm_envelope :: json

definition fetch_mail :: "imap_env \<Rightarrow> int \<times> nat option \<Rightarrow> mail_thrown + fetched_mail" where
  "fetch_mail env s = (if (case snd s of Some n \<Rightarrow> n | None \<Rightarrow> 0) > MAX_PARSE_BYTES
     then bindR (im_envelope env (fst s)) (\<lambda>h. Inr \<lparr>fm_uid = fst s, fm_oversized = True, fm_source = None,
        fm_envelope = (case h of Some e \<Rightarrow> e | None \<Rightarrow> JUndef)\<rparr>)
     else bindR (im_source env (fst s)) (\<lambda>src. Inr \<lparr>fm_uid = fst s, fm_oversized = False, fm_source = src, fm_envelope = JUndef\<rparr>))"

fun fetch_mails :: "imap_env \<Rightarrow> (int \<times> nat option) list \<Rightarrow> mail_thrown + fetched_mail list" where
  "fetch_mails env [] = Inr []"
| "fetch_mails env (s # ss) = bindR (fetch_mail env s) (\<lambda>m. bindR (fetch_mails env ss) (\<lambda>ms. Inr (m # ms)))"

definition cursor_uid :: "json \<Rightarrow> string \<Rightarrow> int \<Rightarrow> int" where
  "cursor_uid cursor uidValidity uidNext =
     (if field cursor ''uidValidity'' = Some uidValidity
      then (case asInteger (jget cursor ''lastUid'') of Some u \<Rightarrow> u | None \<Rightarrow> uidNext - 1) else uidNext - 1)"

definition pick_uids :: "int \<Rightarrow> int list option \<Rightarrow> int list" where
  "pick_uids lastUid found = take POLL_BATCH_SIZE (sort (filter (\<lambda>u. u > lastUid) (case found of Some us \<Rightarrow> us | None \<Rightarrow> [])))"

definition imap_fetch :: "imap_env \<Rightarrow> json \<Rightarrow> mail_thrown + (string \<times> int \<times> fetched_mail list)" where
  "imap_fetch env cursor = bindR (im_mailbox env) (\<lambda>mailbox.
     let uidValidity = (case mailbox of Some (v, _) \<Rightarrow> v | None \<Rightarrow> []); uidNext = (case mailbox of Some (_, n) \<Rightarrow> n | None \<Rightarrow> 1);
         lastUid = cursor_uid cursor uidValidity uidNext in
     if uidNext - 1 \<le> lastUid then Inr (uidValidity, lastUid, [])
     else bindR (im_search env (lastUid + 1)) (\<lambda>found.
       let uids = pick_uids lastUid found in
       if uids = [] then Inr (uidValidity, lastUid, [])
       else bindR (im_fetchAll env uids) (\<lambda>summaries.
         bindR (fetch_mails env (sort_key fst summaries)) (\<lambda>ms. Inr (uidValidity, lastUid, ms)))))"

definition envelope_event :: "imap_env \<Rightarrow> string \<Rightarrow> fetched_mail \<Rightarrow> extracted_event" where
  "envelope_event env uidValidity m = (let envelope = record_of (fm_envelope m); messageId = field envelope ''messageId'' in
     event (eventKeyFor (im_sha256hex env) messageId uidValidity (fm_uid m))
       (JObj (json_compact [(''uid'', JNum (fm_uid m)), (''uidValidity'', JStr uidValidity), (''messageId'', opt_json messageId),
         (''subject'', opt_json (field envelope ''subject'')),
         (''from'', case asArray (jget envelope ''from'') of [] \<Rightarrow> JUndef
           | f # _ \<Rightarrow> JObj [(''address'', JStr (to_lower (case field f ''address'' of Some a \<Rightarrow> a | None \<Rightarrow> []))),
               (''name'', JStr (case field f ''name'' of Some n \<Rightarrow> n | None \<Rightarrow> []))]),
         (''text'', JStr ''This email is too large to import. Open it in your mail client.''), (''oversized'', JBool True)])) None)"

definition mail_event :: "imap_env \<Rightarrow> string \<Rightarrow> fetched_mail \<Rightarrow> err + extracted_event" where
  "mail_event env uidValidity m = (case (if fm_oversized m then None else fm_source m) of
     None \<Rightarrow> Inr (envelope_event env uidValidity m)
   | Some src \<Rightarrow> bindR (im_parse env src) (\<lambda>p. Inr (event (eventKeyFor (im_sha256hex env) (pm_messageId p) uidValidity (fm_uid m))
       (emailToJournalPayload p (fm_uid m) uidValidity) None)))"

fun mail_events :: "imap_env \<Rightarrow> string \<Rightarrow> int \<Rightarrow> fetched_mail list \<Rightarrow> err + extracted_event list \<times> int" where
  "mail_events env v lastUid [] = Inr ([], lastUid)"
| "mail_events env v lastUid (m # ms) = bindR (mail_event env v m) (\<lambda>e.
     bindR (mail_events env v (max lastUid (fm_uid m)) ms) (\<lambda>(es, u). Inr (e # es, u)))"

definition poll_email :: "imap_env \<Rightarrow> mail_server \<Rightarrow> json \<Rightarrow> err + extracted_event list \<times> json" where
  "poll_email env server cursor = (case imap_fetch env cursor of
     Inl e \<Rightarrow> Inl (ProviderFailure (mapMailError e IMAP server Runtime))
   | Inr (v, lastUid, ms) \<Rightarrow> bindR (mail_events env v lastUid ms) (\<lambda>(es, u).
       Inr (es, JObj [(''uidValidity'', JStr v), (''lastUid'', JNum u)])))"

section \<open>Polling a bot\<close>

definition ALLOWED_UPDATES :: json where
  "ALLOWED_UPDATES = JArr [JStr ''message'', JStr ''callback_query'']"

fun next_offset :: "int option \<Rightarrow> json list \<Rightarrow> int option" where
  "next_offset off [] = off"
| "next_offset off (u # us) = next_offset (case asInteger (jget u ''update_id'') of None \<Rightarrow> off
     | Some i \<Rightarrow> Some (max (case off of Some x \<Rightarrow> x | None \<Rightarrow> 0) (i + 1))) us"

text \<open>\<open>updates\<close> is the answer of the API method \<open>getUpdates\<close>.\<close>

definition poll_telegram :: "(string \<Rightarrow> json \<Rightarrow> err + json list) \<Rightarrow> adapter_account \<Rightarrow> json \<Rightarrow> err + extracted_event list \<times> json" where
  "poll_telegram updates account cursor = (let off = asInteger (jget cursor ''offset'') in
     bindR (updates (credential account ''botToken'')
         (JObj ((case off of Some i \<Rightarrow> [(''offset'', JNum i)] | None \<Rightarrow> []) @
            [(''timeout'', JNum 0), (''limit'', JNum 100), (''allowed_updates'', ALLOWED_UPDATES)])))
       (\<lambda>us. Inr (concat (map extract_telegram us),
          case next_offset off us of Some i \<Rightarrow> JObj [(''offset'', JNum i)] | None \<Rightarrow> JObj [])))"

section \<open>A mailbox is read in order\<close>

text \<open>A server that holds the mails \<open>box\<close> and answers every command: the search may also return mails before
  its range, as \<open>n:*\<close> does when the range is empty.\<close>

definition serves :: "imap_env \<Rightarrow> string \<Rightarrow> int list \<Rightarrow> bool" where
  "serves env v box \<longleftrightarrow> distinct box \<and>
     (\<exists>n. im_mailbox env = Inr (Some (v, n)) \<and> (\<forall>u\<in>set box. u < n)) \<and>
     (\<forall>k. \<exists>us. im_search env k = Inr (Some us) \<and> distinct us \<and> (\<forall>u. k \<le> u \<longrightarrow> u \<in> set us \<longleftrightarrow> u \<in> set box)) \<and>
     (\<forall>us. set us \<subseteq> set box \<longrightarrow> (\<exists>ss. im_fetchAll env us = Inr ss \<and> distinct (map fst ss) \<and> set (map fst ss) = set us)) \<and>
     (\<forall>u\<in>set box. isOk (im_envelope env u) \<and> isOk (im_source env u) \<and>
        (\<forall>src. im_source env u = Inr (Some src) \<longrightarrow> isOk (im_parse env src)))"

definition pending :: "int list \<Rightarrow> int \<Rightarrow> int list" where
  "pending box k = sort (filter (\<lambda>u. u > k) box)"

definition picked :: "int list \<Rightarrow> int \<Rightarrow> int list" where
  "picked box k = take POLL_BATCH_SIZE (pending box k)"

definition mail_cursor :: "string \<Rightarrow> int \<Rightarrow> json" where
  "mail_cursor v k = JObj [(''uidValidity'', JStr v), (''lastUid'', JNum k)]"

text \<open>An event that stands for a mail of the server.\<close>

definition event_of_mail :: "imap_env \<Rightarrow> string \<Rightarrow> int \<Rightarrow> extracted_event \<Rightarrow> bool" where
  "event_of_mail env v u e \<longleftrightarrow> (\<exists>n m. fetch_mail env (u, n) = Inr m \<and> mail_event env v m = Inr e)"

lemma isOk_Inr: "isOk r \<longleftrightarrow> (\<exists>x. r = Inr x)"
  by (cases r) auto

lemma cursor_uid_mail: "cursor_uid (mail_cursor v k) v n = k"
  by (simp add: cursor_uid_def mail_cursor_def field_def jget_def asInteger_def asNumber_def)

lemma fetch_mail_ok:
  "isOk (im_envelope env u) \<Longrightarrow> isOk (im_source env u) \<Longrightarrow> (\<And>src. im_source env u = Inr (Some src) \<Longrightarrow> isOk (im_parse env src)) \<Longrightarrow>
     \<exists>m e. fetch_mail env (u, n) = Inr m \<and> fm_uid m = u \<and> mail_event env v m = Inr e"
proof -
  assume ok: "isOk (im_envelope env u)" "isOk (im_source env u)" "\<And>src. im_source env u = Inr (Some src) \<Longrightarrow> isOk (im_parse env src)"
  then obtain h src where parts: "im_envelope env u = Inr h" "im_source env u = Inr src" by (auto simp: isOk_Inr)
  show ?thesis
  proof (cases "(case n of Some n \<Rightarrow> n | None \<Rightarrow> 0) > MAX_PARSE_BYTES")
    case True
    then show ?thesis using parts by (simp add: fetch_mail_def mail_event_def)
  next
    case False
    then have "fetch_mail env (u, n) = Inr \<lparr>fm_uid = u, fm_oversized = False, fm_source = src, fm_envelope = JUndef\<rparr>"
      using parts by (simp add: fetch_mail_def)
    moreover have "isOk (mail_event env v \<lparr>fm_uid = u, fm_oversized = False, fm_source = src, fm_envelope = JUndef\<rparr>)"
      using ok(3) parts by (cases src) (auto simp: mail_event_def isOk_Inr)
    ultimately show ?thesis by (auto simp: isOk_Inr)
  qed
qed

lemma fetch_mails_ok:
  assumes "\<forall>s\<in>set ss. \<exists>m e. fetch_mail env s = Inr m \<and> fm_uid m = fst s \<and> mail_event env v m = Inr e"
  shows "\<exists>ms. fetch_mails env ss = Inr ms \<and> map fm_uid ms = map fst ss \<and>
    (\<forall>k. \<exists>es. mail_events env v k ms = Inr (es, foldl max k (map fst ss)) \<and> (\<forall>s\<in>set ss. \<exists>e\<in>set es. event_of_mail env v (fst s) e))"
  using assms
proof (induction ss)
  case (Cons s ss)
  obtain m e where m: "fetch_mail env s = Inr m" "fm_uid m = fst s" "mail_event env v m = Inr e" using Cons.prems by auto
  obtain ms where ms: "fetch_mails env ss = Inr ms" "map fm_uid ms = map fst ss"
    "\<forall>k. \<exists>es. mail_events env v k ms = Inr (es, foldl max k (map fst ss)) \<and> (\<forall>s\<in>set ss. \<exists>e\<in>set es. event_of_mail env v (fst s) e)"
    using Cons.IH Cons.prems by auto
  have here: "event_of_mail env v (fst s) e" using m unfolding event_of_mail_def by (metis prod.collapse)
  have "\<exists>es. mail_events env v k (m # ms) = Inr (es, foldl max k (map fst (s # ss))) \<and>
      (\<forall>s\<in>set (s # ss). \<exists>e\<in>set es. event_of_mail env v (fst s) e)" for k
  proof -
    obtain es where "mail_events env v (max k (fst s)) ms = Inr (es, foldl max (max k (fst s)) (map fst ss))"
      "\<forall>s\<in>set ss. \<exists>e\<in>set es. event_of_mail env v (fst s) e" using ms(3) by blast
    then show ?thesis using m here by (intro exI [of _ "e # es"]) auto
  qed
  then show ?case using m ms(1,2) by simp
qed simp

lemma foldl_max_sorted: "sorted us \<Longrightarrow> (\<And>u. u \<in> set us \<Longrightarrow> k < (u :: int)) \<Longrightarrow> foldl max k us = (if us = [] then k else last us)"
proof (induction us arbitrary: k)
  case (Cons u us)
  have "foldl max (max k u) us = (if us = [] then u else last us)"
  proof (cases "us = []")
    case False
    have "foldl max u us = foldl max k us"
    proof -
      obtain w ws where w: "us = w # ws" using False by (cases us) auto
      then have "k < w" "u \<le> w" using Cons.prems by auto
      then show ?thesis by (simp add: w max_def)
    qed
    moreover have "max k u = u" using Cons.prems(2) by (simp add: max_def less_imp_le)
    moreover have "foldl max k us = last us" using Cons.IH [of k] Cons.prems False by simp
    ultimately show ?thesis using False by simp
  qed (use Cons.prems in simp)
  then show ?case by simp
qed simp

lemma sorted_last: "sorted us \<Longrightarrow> u \<in> set us \<Longrightarrow> (u :: int) \<le> last us"
  by (induction us) auto

lemma pick_pending:
  assumes "serves env v box" "im_search env (k + 1) = Inr (Some us)"
  shows "pick_uids k (Some us) = take POLL_BATCH_SIZE (pending box k)"
proof -
  have us: "distinct us" "\<forall>u. k + 1 \<le> u \<longrightarrow> u \<in> set us \<longleftrightarrow> u \<in> set box"
    using assms unfolding serves_def by (metis option.inject sum.inject(2))+
  have "set (filter (\<lambda>u. u > k) us) = set (filter (\<lambda>u. u > k) box)" using us(2) by auto
  moreover have "distinct box" using assms(1) by (simp add: serves_def)
  ultimately have "sort (filter (\<lambda>u. u > k) us) = sort (filter (\<lambda>u. u > k) box)"
    using us(1) by (intro sorted_distinct_set_unique) simp_all
  then show ?thesis by (simp add: pick_uids_def pending_def)
qed

lemma poll_email_serves:
  assumes "serves env v box"
  shows "\<exists>es. poll_email env server (mail_cursor v k) = Inr (es, mail_cursor v (if picked box k = [] then k else last (picked box k))) \<and>
    (\<forall>u\<in>set (picked box k). \<exists>e\<in>set es. event_of_mail env v u e)"
proof -
  obtain n where n: "im_mailbox env = Inr (Some (v, n))" "\<forall>u\<in>set box. u < n" using assms(1) unfolding serves_def by blast
  obtain us where us: "im_search env (k + 1) = Inr (Some us)" using assms(1) unfolding serves_def by blast
  have sub: "set (picked box k) \<subseteq> {u \<in> set box. k < u}" by (auto simp: picked_def pending_def dest!: in_set_takeD)
  show ?thesis
  proof (cases "picked box k = []")
    case True
    then have "imap_fetch env (mail_cursor v k) = Inr (v, k, [])"
      using n us pick_pending [OF assms(1) us] by (simp add: imap_fetch_def cursor_uid_mail Let_def picked_def)
    then show ?thesis using True by (simp add: poll_email_def mail_cursor_def)
  next
    case False
    then have "\<not> n - 1 \<le> k" using sub n(2) by (cases "picked box k") auto
    have subset: "set (picked box k) \<subseteq> set box" using sub by blast
    then obtain ss where ss: "im_fetchAll env (picked box k) = Inr ss" "distinct (map fst ss)" "set (map fst ss) = set (picked box k)"
      using assms(1) unfolding serves_def by blast
    have "sorted (picked box k)" "distinct (picked box k)" using assms(1) by (auto simp: picked_def pending_def serves_def sorted_wrt_take)
    moreover have "sorted (map fst (sort_key fst ss))" "distinct (map fst (sort_key fst ss))"
      using ss(2) by (simp_all add: distinct_map)
    moreover have "set (map fst (sort_key fst ss)) = set (picked box k)" using ss(3) by simp
    ultimately have order: "map fst (sort_key fst ss) = picked box k" by (intro sorted_distinct_set_unique) simp_all
    have "\<forall>s\<in>set (sort_key fst ss). \<exists>m e. fetch_mail env s = Inr m \<and> fm_uid m = fst s \<and> mail_event env v m = Inr e"
    proof
      fix s assume "s \<in> set (sort_key fst ss)"
      then have "fst s \<in> set box" using order subset by (metis image_eqI list.set_map subsetD)
      then show "\<exists>m e. fetch_mail env s = Inr m \<and> fm_uid m = fst s \<and> mail_event env v m = Inr e"
        using assms(1) fetch_mail_ok [of env "fst s" "snd s" v] unfolding serves_def prod.collapse by blast
    qed
    from fetch_mails_ok [OF this] obtain ms es where ms: "fetch_mails env (sort_key fst ss) = Inr ms"
      "mail_events env v k ms = Inr (es, foldl max k (map fst (sort_key fst ss)))"
      "\<forall>s\<in>set (sort_key fst ss). \<exists>e\<in>set es. event_of_mail env v (fst s) e" by blast
    have known: "\<forall>u\<in>set (picked box k). \<exists>e\<in>set es. event_of_mail env v u e"
    proof
      fix u assume "u \<in> set (picked box k)"
      then have "u \<in> fst ` set (sort_key fst ss)" using order by (metis list.set_map)
      then show "\<exists>e\<in>set es. event_of_mail env v u e" using ms(3) by auto
    qed
    have "foldl max k (picked box k) = last (picked box k)"
      using foldl_max_sorted [OF \<open>sorted (picked box k)\<close>, of k] sub False by auto
    moreover have "imap_fetch env (mail_cursor v k) = Inr (v, k, ms)"
      using n us pick_pending [OF assms(1) us] False \<open>\<not> n - 1 \<le> k\<close> ss(1) ms(1)
      by (simp add: imap_fetch_def cursor_uid_mail Let_def picked_def)
    ultimately show ?thesis using ms(2) known False by (simp add: poll_email_def mail_cursor_def order)
  qed
qed

text \<open>A batch of ten goes on where the last one stopped.\<close>

lemma pending_next:
  assumes "distinct box"
  shows "pending box (if picked box k = [] then k else last (picked box k)) = drop POLL_BATCH_SIZE (pending box k)"
proof (cases "picked box k = []")
  case True
  then have "pending box k = []" by (simp add: picked_def POLL_BATCH_SIZE_def)
  then show ?thesis using True by simp
next
  case False
  define xs where "xs = pending box k"
  define w where "w = last (picked box k)"
  have xs: "sorted xs" "distinct xs" using assms(1) by (simp_all add: xs_def pending_def)
  have split: "xs = picked box k @ drop POLL_BATCH_SIZE xs" by (simp add: xs_def picked_def)
  have w: "w \<in> set (picked box k)" using False by (simp add: w_def)
  have low: "\<forall>u\<in>set (picked box k). u \<le> w"
  proof
    fix u assume "u \<in> set (picked box k)"
    have "sorted (picked box k)" using xs(1) by (simp add: picked_def xs_def sorted_wrt_take)
    then show "u \<le> w" using \<open>u \<in> set (picked box k)\<close> unfolding w_def by (rule sorted_last)
  qed
  have high: "\<forall>u\<in>set (drop POLL_BATCH_SIZE xs). w < u"
  proof
    fix u assume u: "u \<in> set (drop POLL_BATCH_SIZE xs)"
    have "sorted (picked box k @ drop POLL_BATCH_SIZE xs)" "distinct (picked box k @ drop POLL_BATCH_SIZE xs)" using xs split by simp_all
    then have "w \<le> u" "w \<noteq> u" using w u by (auto simp: sorted_append)
    then show "w < u" by simp
  qed
  have "k < w" using w by (auto simp: picked_def pending_def dest!: in_set_takeD)
  have "filter (\<lambda>u. u > w) xs = drop POLL_BATCH_SIZE xs"
    using low high by (subst split, subst filter_append) (auto simp: filter_empty_conv filter_id_conv not_less)
  moreover have "filter (\<lambda>u. u > w) xs = sort (filter (\<lambda>u. u > w) (filter (\<lambda>u. u > k) box))"
    by (simp add: xs_def pending_def filter_sort)
  moreover have "filter (\<lambda>u. u > w) (filter (\<lambda>u. u > k) box) = filter (\<lambda>u. u > w) box"
    using \<open>k < w\<close> by (auto intro: filter_cong)
  ultimately show ?thesis using False by (simp add: pending_def w_def xs_def)
qed

end
