(* ===== verification/Polling.thy ===== *)
theory Polling
  imports Outbound Webhooks Mailbox
begin

text \<open>
  The polling loop of the worker, \<open>apps/worker/src/polling/channel-polling.service.ts\<close>, on the runtime of
  \<open>apps/worker/src/channels/channel-runtime.service.ts\<close>: leases, polling one channel, journaling with the
  cursor, back-off and the discovery of due channels. The database's faults, what others commit
  during the provider call and the providers' answers are the environment of a poll; database and
  worker share one clock.
\<close>

section \<open>The service\<close>

definition DISCOVERY_INTERVAL_MS :: int where "DISCOVERY_INTERVAL_MS = 5000"

definition LEASE_SECONDS :: int where "LEASE_SECONDS = 120"

definition MAX_BACKOFF_MS :: int where "MAX_BACKOFF_MS = 5 * 60000"

definition MAX_PARALLEL_POLLS :: nat where "MAX_PARALLEL_POLLS = 10"

record schedule =
  sd_nextDueAt :: int
  sd_failures :: nat

type_synonym schedules = "id \<rightharpoonup> schedule"

record polling_env =
  pl_now :: int
  pl_race :: "db \<Rightarrow> db"
  pl_faultLease :: "err option"
  pl_faultTx :: "err option"
  pl_faultSuccess :: "err option"
  pl_faultClear :: "err option"
  pl_faultFailure :: "err option"
  pl_emailSeconds :: nat
  pl_telegramSeconds :: nat
  pl_datetime :: "string \<Rightarrow> bool"
  pl_open :: gcm_open
  pl_cipher :: "cipher option"
  pl_imap :: "adapter_account \<Rightarrow> imap_env"
  pl_updates :: "string \<Rightarrow> json \<Rightarrow> err + json list"
  pl_gen :: "nat \<Rightarrow> id"
  pl_gen' :: "nat \<Rightarrow> id"

definition worker_adapter :: "channel_provider \<Rightarrow> err + channel_provider adapter_entry" where
  "worker_adapter p = (case registry_getByProvider channel_registry p of Some a \<Rightarrow> Inr a
     | None \<Rightarrow> Inl (OtherError ''Error'' (''No adapter registered for provider \"'' @ provider_name p @ ''\".'')))"

definition worker_account :: "polling_env \<Rightarrow> provider_account \<Rightarrow> err + adapter_account" where
  "worker_account env row = (case pl_cipher env of
     None \<Rightarrow> Inl (OtherError ''Error'' ''ENCRYPTION_MASTER_KEY is not configured on the worker.'')
   | Some c \<Rightarrow> (case buildAdapterAccount (pl_datetime env) (pl_open env) row c of Inl e \<Rightarrow> Inl (cipher_thrown e) | Inr a \<Rightarrow> Inr a))"

definition imap_server :: "adapter_account \<Rightarrow> mail_server" where
  "imap_server a = (let s = jget (aa_credentials a) ''imap'' in
     \<lparr>sv_host = text_of (jget s ''host''), sv_port = (case asInteger (jget s ''port'') of Some n \<Rightarrow> nat n | None \<Rightarrow> 0)\<rparr>)"

fun pollInbound :: "channel_provider \<Rightarrow> (polling_env \<Rightarrow> adapter_account \<Rightarrow> json \<Rightarrow> err + extracted_event list \<times> json) option" where
  "pollInbound EMAIL_SMTP_IMAP = Some (\<lambda>env a cursor. poll_email (pl_imap env a) (imap_server a) cursor)"
| "pollInbound TELEGRAM_BOT = Some (\<lambda>env a cursor. poll_telegram (pl_updates env) a cursor)"
| "pollInbound _ = None"

definition intervalFor :: "polling_env \<Rightarrow> provider_account \<Rightarrow> int" where
  "intervalFor env ch = int (if pa_channelType ch = CEMAIL then pl_emailSeconds env else pl_telegramSeconds env) * 1000"

text \<open>The lease: one conditional update that returns the stored cursor.\<close>

definition leasable :: "int \<Rightarrow> id \<Rightarrow> provider_account \<Rightarrow> bool" where
  "leasable now i a = (pa_id a = i \<and> pa_deletedAt a = None \<and>
     (case pa_syncLeaseExpiresAt a of None \<Rightarrow> True | Some t \<Rightarrow> t < now))"

definition take_lease :: "int \<Rightarrow> id \<Rightarrow> db \<Rightarrow> json option \<times> db" where
  "take_lease now i d = (map_option pa_syncState (List.find (leasable now i) (db_accounts d)),
     d\<lparr>db_accounts := update_where (leasable now i) (\<lambda>a. a\<lparr>pa_syncLeaseExpiresAt := Some (now + LEASE_SECONDS * 1000)\<rparr>) (db_accounts d)\<rparr>)"

definition stored_cursor :: "json \<Rightarrow> json" where
  "stored_cursor j = (case j of JObj kvs \<Rightarrow> JObj kvs | JArr js \<Rightarrow> JArr js | _ \<Rightarrow> JNull)"

definition poll_params :: "polling_env \<Rightarrow> provider_account \<Rightarrow> extracted_event list \<Rightarrow> journal_params" where
  "poll_params env ch es = \<lparr>jp_workspaceId = pa_workspaceId ch, jp_providerAccountId = pa_id ch, jp_provider = pa_provider ch,
     jp_channelType = pa_channelType ch,
     jp_events = map (\<lambda>e. \<lparr>ji_providerEventKey = xe_key e, ji_isFingerprinted = xe_isFingerprinted e, ji_payload = xe_payload e,
       ji_headers = None\<rparr>) es,
     jp_correlationId = ''poll_'' @ pa_id ch @ ''_'' @ show_int (pl_now env), jp_retentionDays = None\<rparr>"

definition polled_row :: "int \<Rightarrow> json \<Rightarrow> provider_account \<Rightarrow> provider_account" where
  "polled_row now cursor a = a\<lparr>pa_syncState := cursor, pa_syncLeaseExpiresAt := None, pa_lastHealthCheckAt := Some now\<rparr>"

definition poll_tx :: "polling_env \<Rightarrow> provider_account \<Rightarrow> extracted_event list \<Rightarrow> json \<Rightarrow> nat tx" where
  "poll_tx env ch es cursor = bindT (journalProviderEventsInTransaction (pl_gen env) (pl_gen' env) (pl_now env) (poll_params env ch es))
     (\<lambda>(ids, dup). thenT (update_account (pa_id ch) (polled_row (pl_now env) cursor)) (returnT (length ids)))"

text \<open>What the provider answers for a cursor.\<close>

definition poll_provider :: "polling_env \<Rightarrow> provider_account \<Rightarrow> json \<Rightarrow> err + extracted_event list \<times> json" where
  "poll_provider env ch cursor = bindR (worker_adapter (pa_provider ch)) (\<lambda>adapter.
     case pollInbound (ad_provider adapter) of
       None \<Rightarrow> Inl (OtherError ''Error'' (provider_name (pa_provider ch) @ '' does not support polling.''))
     | Some poll \<Rightarrow> bindR (worker_account env ch) (\<lambda>a. poll env a (stored_cursor cursor)))"

text \<open>The body of the \<open>try\<close>: the accepted and the polled events.\<close>

definition poll_body :: "polling_env \<Rightarrow> provider_account \<Rightarrow> json \<Rightarrow> db \<Rightarrow> (err + nat \<times> nat) \<times> db" where
  "poll_body env ch cursor d = (let s = pl_race env d in
     case poll_provider env ch cursor of
       Inl e \<Rightarrow> (Inl e, s)
     | Inr (es, cursor') \<Rightarrow>
         (case run_attempt (pl_faultTx env) (poll_tx env ch es cursor') s of
            (Inl e, s') \<Rightarrow> (Inl e, s')
          | (Inr n, s') \<Rightarrow>
              (case recordSuccess (pl_faultSuccess env) ch s' of
                 (Inl e, s'') \<Rightarrow> (Inl e, s'')
               | (Inr _, s'') \<Rightarrow> (Inr (n, length es), s''))))"

definition clear_lease :: "err option \<Rightarrow> id \<Rightarrow> db \<Rightarrow> db" where
  "clear_lease fault i d = snd (run_attempt fault (update_account i (\<lambda>a. a\<lparr>pa_syncLeaseExpiresAt := None\<rparr>)) d)"

definition backoff :: "polling_env \<Rightarrow> provider_account \<Rightarrow> nat \<Rightarrow> int" where
  "backoff env ch failures = min MAX_BACKOFF_MS (intervalFor env ch * 2 ^ failures)"

definition poll_failed :: "polling_env \<Rightarrow> provider_account \<Rightarrow> schedules \<Rightarrow> err \<Rightarrow> db \<Rightarrow> (err + nat) \<times> schedules \<times> db" where
  "poll_failed env ch sch e d =
     (let d1 = clear_lease (pl_faultClear env) (pa_id ch) d;
          pe = toChannelProviderError (pa_provider ch) e None;
          failures = (case sch (pa_id ch) of None \<Rightarrow> 0 | Some s \<Rightarrow> sd_failures s) + 1;
          sch' = sch(pa_id ch \<mapsto> \<lparr>sd_nextDueAt = pl_now env + backoff env ch failures, sd_failures = failures\<rparr>) in
      if \<not> retryable pe \<or> failures \<ge> 3
      then (case recordFailure (pl_faultFailure env) (pl_now env) ch pe d1 of
          (Inl e', d2) \<Rightarrow> (Inl e', sch', d2) | (Inr _, d2) \<Rightarrow> (Inr 0, sch', d2))
      else (Inr 0, sch', d1))"

definition pollChannel :: "polling_env \<Rightarrow> provider_account \<Rightarrow> schedules \<Rightarrow> db \<Rightarrow> (err + nat) \<times> schedules \<times> db" where
  "pollChannel env ch sch d = (case pl_faultLease env of Some e \<Rightarrow> (Inl e, sch, d)
   | None \<Rightarrow>
      (case take_lease (pl_now env) (pa_id ch) d of
         (None, d1) \<Rightarrow> (Inr 0, sch, d1)
       | (Some cursor, d1) \<Rightarrow>
           (case poll_body env ch cursor d1 of
              (Inl e, d2) \<Rightarrow> poll_failed env ch sch e d2
            | (Inr (n, polled), d2) \<Rightarrow> (Inr n,
                sch(pa_id ch \<mapsto> \<lparr>sd_nextDueAt = pl_now env + (if polled \<ge> 10 then 1000 else intervalFor env ch), sd_failures = 0\<rparr>), d2))))"

section \<open>The loop\<close>

record poller =
  po_schedules :: schedules
  po_inFlight :: "id list"
  po_channels :: "provider_account list"
  po_discoveredAt :: int
  po_stopped :: bool

definition polled_by_discovery :: "provider_account \<Rightarrow> bool" where
  "polled_by_discovery a = (pa_deletedAt a = None \<and> pa_status a \<in> {AACTIVE, AERROR} \<and> jget (pa_config a) ''inboundMode'' = JStr ''POLLING'')"

text \<open>\<open>reachable\<close> says whether the discovery query succeeds.\<close>

definition discover :: "bool \<Rightarrow> int \<Rightarrow> db \<Rightarrow> poller \<Rightarrow> poller" where
  "discover reachable now d p = (if now - po_discoveredAt p > DISCOVERY_INTERVAL_MS
     then p\<lparr>po_discoveredAt := now, po_channels := (if reachable then filter polled_by_discovery (db_accounts d) else po_channels p)\<rparr> else p)"

definition due :: "int \<Rightarrow> poller \<Rightarrow> provider_account \<Rightarrow> bool" where
  "due now p ch = (pa_id ch \<notin> set (po_inFlight p) \<and> (case po_schedules p (pa_id ch) of None \<Rightarrow> True | Some s \<Rightarrow> sd_nextDueAt s \<le> now))"

text \<open>The channels a tick starts to poll.\<close>

definition tick :: "bool \<Rightarrow> int \<Rightarrow> db \<Rightarrow> poller \<Rightarrow> provider_account list \<times> poller" where
  "tick reachable now d p = (if po_stopped p then ([], p)
     else (let p1 = discover reachable now d p;
               started = take (MAX_PARALLEL_POLLS - length (po_inFlight p1)) (filter (due now p1) (po_channels p1)) in
           (started, p1\<lparr>po_inFlight := po_inFlight p1 @ map pa_id started\<rparr>)))"

text \<open>A poll that ended, with what it left of the schedules.\<close>

definition settled :: "id \<Rightarrow> schedules \<Rightarrow> poller \<Rightarrow> poller" where
  "settled i sch p = p\<lparr>po_inFlight := removeAll i (po_inFlight p), po_schedules := (po_schedules p)(i := sch i)\<rparr>"

definition onApplicationShutdown :: "poller \<Rightarrow> poller" where
  "onApplicationShutdown p = p\<lparr>po_stopped := True\<rparr>"

section \<open>The loop stays in its bounds\<close>

inductive poll_step :: "poller \<Rightarrow> poller \<Rightarrow> bool" where
  ticked: "distinct (map pa_id (db_accounts d)) \<Longrightarrow> poll_step p (snd (tick reachable now d p))"
| ended: "poll_step p (settled i sch p)"
| shut: "poll_step p (onApplicationShutdown p)"

inductive_cases poll_stepE: "poll_step p q"

definition poller_ok :: "poller \<Rightarrow> bool" where
  "poller_ok p = (length (po_inFlight p) \<le> MAX_PARALLEL_POLLS \<and> distinct (po_inFlight p) \<and> distinct (map pa_id (po_channels p)))"

definition fresh_poller :: "poller \<Rightarrow> bool" where
  "fresh_poller p = (po_inFlight p = [] \<and> po_channels p = [] \<and> \<not> po_stopped p)"

lemma discover_inFlight [simp]: "po_inFlight (discover r now d p) = po_inFlight p"
  by (simp add: discover_def)

lemma discover_distinct: "distinct (map pa_id (db_accounts d)) \<Longrightarrow> distinct (map pa_id (po_channels p)) \<Longrightarrow>
    distinct (map pa_id (po_channels (discover r now d p)))"
  by (auto simp: discover_def distinct_map_filter)

lemma tick_started:
  assumes "tick r now d p = (started, q)" "distinct (map pa_id (db_accounts d))" "poller_ok p"
  shows "poller_ok q \<and> (\<forall>ch\<in>set started. pa_id ch \<notin> set (po_inFlight p)) \<and> (po_stopped p \<longrightarrow> started = [] \<and> q = p)"
proof (cases "po_stopped p")
  case True
  then show ?thesis using assms by (auto simp: tick_def)
next
  case False
  define p1 where "p1 = discover r now d p"
  have st: "started = take (MAX_PARALLEL_POLLS - length (po_inFlight p)) (filter (due now p1) (po_channels p1))"
    "q = p1\<lparr>po_inFlight := po_inFlight p @ map pa_id started\<rparr>" using assms(1) False by (auto simp: tick_def Let_def p1_def)
  have chans: "distinct (map pa_id (po_channels p1))" using discover_distinct assms(2,3) by (auto simp: p1_def poller_ok_def)
  have new: "\<forall>ch\<in>set started. pa_id ch \<notin> set (po_inFlight p)" unfolding st(1) by (auto simp: due_def p1_def dest!: in_set_takeD)
  have "distinct (map pa_id (filter (due now p1) (po_channels p1)))" using chans by (simp add: distinct_map_filter)
  then have "distinct (map pa_id started)" unfolding st(1) by (simp flip: take_map)
  moreover have "length started \<le> MAX_PARALLEL_POLLS - length (po_inFlight p)" unfolding st(1) by simp
  ultimately show ?thesis using assms(3) chans new False by (auto simp: poller_ok_def st(2))
qed

interpretation poller: transition_system fresh_poller poll_step poller_ok
proof
  show "poller_ok s" if "fresh_poller s" for s using that by (simp add: fresh_poller_def poller_ok_def MAX_PARALLEL_POLLS_def)
  show "poller_ok t" if ok: "poller_ok s" and step: "poll_step s t" for s t
    using step
  proof cases
    case (ticked d reachable now)
    then show ?thesis using tick_started [OF _ ticked(2) ok] by (metis prod.collapse)
  next
    case (ended i sch)
    have "length (removeAll i (po_inFlight s)) \<le> length (po_inFlight s)" by (rule length_removeAll_less_eq)
    moreover have "length (po_inFlight s) \<le> MAX_PARALLEL_POLLS" using ok by (simp add: poller_ok_def)
    ultimately have "length (removeAll i (po_inFlight s)) \<le> MAX_PARALLEL_POLLS" by (rule le_trans)
    then show ?thesis using ok by (simp add: ended poller_ok_def settled_def distinct_removeAll)
  next
    case shut
    then show ?thesis using ok by (simp add: poller_ok_def onApplicationShutdown_def)
  qed
qed

text \<open>Whatever the order of ticks, ends of polls and shutdown: a worker never polls more than ten
  channels at a time and never one channel twice at a time, and after shutdown it starts no poll.\<close>

theorem polling_bounded:
  assumes "fresh_poller p0" "poll_step\<^sup>*\<^sup>* p0 p" "tick reachable now d p = (started, q)" "distinct (map pa_id (db_accounts d))"
  shows "length (po_inFlight q) \<le> 10 \<and> distinct (po_inFlight q) \<and> (\<forall>ch\<in>set started. pa_id ch \<notin> set (po_inFlight p)) \<and>
    (po_stopped p \<longrightarrow> started = [])"
  using tick_started [OF assms(3,4) poller.good_reachable [OF assms(1,2)]]
  by (auto simp: poller_ok_def MAX_PARALLEL_POLLS_def)

section \<open>What a poll leaves\<close>

text \<open>The polling columns of an account.\<close>

definition sync_state :: "id \<Rightarrow> db \<Rightarrow> (json \<times> int option \<times> int option) option" where
  "sync_state i d = map_of (map (\<lambda>a. (pa_id a, pa_syncState a, pa_syncLeaseExpiresAt a, pa_deletedAt a)) (db_accounts d)) i"

definition cursor_of :: "id \<Rightarrow> db \<Rightarrow> json option" where
  "cursor_of i d = map_option fst (sync_state i d)"

lemma map_of_row: "map_of (map (\<lambda>a. (pa_id a, g a)) xs) i \<noteq> None \<longleftrightarrow> list_ex (\<lambda>a. pa_id a = i) xs"
  by (induction xs) auto

lemma sync_row: "sync_state i d \<noteq> None \<longleftrightarrow> list_ex (\<lambda>a. pa_id a = i) (db_accounts d)"
  unfolding sync_state_def by (rule map_of_row)

lemma map_of_update_where:
  assumes "\<And>a. P a \<Longrightarrow> pa_id a = i" "\<And>a. pa_id (f a) = pa_id a"
  shows "j \<noteq> i \<Longrightarrow> map_of (map (\<lambda>a. (pa_id a, g a)) (update_where P f xs)) j = map_of (map (\<lambda>a. (pa_id a, g a)) xs) j"
  using assms by (induction xs) auto

lemma map_of_update_id:
  assumes "\<And>a. pa_id (f a) = pa_id a" "\<And>a. g (f a) = h (g a)"
  shows "map_of (map (\<lambda>a. (pa_id a, g a)) (update_where (\<lambda>a. pa_id a = i) f xs)) i = map_option h (map_of (map (\<lambda>a. (pa_id a, g a)) xs) i)"
  using assms by (induction xs) auto

lemma sync_other:
  "(\<And>a. P a \<Longrightarrow> pa_id a = i) \<Longrightarrow> (\<And>a. pa_id (f a) = pa_id a) \<Longrightarrow> j \<noteq> i \<Longrightarrow>
     sync_state j (d\<lparr>db_accounts := update_where P f (db_accounts d)\<rparr>) = sync_state j d"
  by (simp add: sync_state_def map_of_update_where)

lemma sync_polled:
  "sync_state i (d\<lparr>db_accounts := update_where (\<lambda>a. pa_id a = i) (polled_row now c) (db_accounts d)\<rparr>) =
     map_option (\<lambda>(s, l, x). (c, None, x)) (sync_state i d)"
  unfolding sync_state_def by (simp, rule map_of_update_id) (simp_all add: polled_row_def)

text \<open>Health records and leases leave cursors and the journal alone.\<close>

definition same_journal :: "db \<Rightarrow> db \<Rightarrow> bool" where
  "same_journal d d' = (db_events d' = db_events d \<and> db_outbox d' = db_outbox d \<and> (\<forall>i. cursor_of i d' = cursor_of i d))"

lemma same_journal_refl [simp]: "same_journal d d"
  by (simp add: same_journal_def)

lemma same_journal_trans: "same_journal a b \<Longrightarrow> same_journal b c \<Longrightarrow> same_journal a c"
  by (simp add: same_journal_def)

lemma same_journal_accounts:
  assumes "\<And>a. pa_id (f a) = pa_id a" "\<And>a. pa_syncState (f a) = pa_syncState a"
  shows "same_journal d (d\<lparr>db_accounts := update_where P f (db_accounts d)\<rparr>)"
proof -
  have "map_option fst (map_of (map (\<lambda>a. (pa_id a, pa_syncState a, pa_syncLeaseExpiresAt a, pa_deletedAt a)) (update_where P f xs)) i) =
      map_option fst (map_of (map (\<lambda>a. (pa_id a, pa_syncState a, pa_syncLeaseExpiresAt a, pa_deletedAt a)) xs) i)" for xs i
    using assms by (induction xs) auto
  then show ?thesis by (simp add: same_journal_def cursor_of_def sync_state_def)
qed

lemma sync_health:
  assumes "\<And>a. pa_id (f a) = pa_id a" "\<And>a. pa_syncState (f a) = pa_syncState a"
    "\<And>a. pa_syncLeaseExpiresAt (f a) = pa_syncLeaseExpiresAt a" "\<And>a. pa_deletedAt (f a) = pa_deletedAt a"
  shows "sync_state i (d\<lparr>db_accounts := update_where P f (db_accounts d)\<rparr>) = sync_state i d"
proof -
  have "map_of (map (\<lambda>a. (pa_id a, pa_syncState a, pa_syncLeaseExpiresAt a, pa_deletedAt a)) (update_where P f xs)) i =
      map_of (map (\<lambda>a. (pa_id a, pa_syncState a, pa_syncLeaseExpiresAt a, pa_deletedAt a)) xs) i" for xs
    using assms by (induction xs) auto
  then show ?thesis by (simp add: sync_state_def)
qed

lemma sync_notified [simp]: "sync_state i (d\<lparr>db_notified := n\<rparr>) = sync_state i d"
  by (simp add: sync_state_def)

lemma same_journal_notified [simp]: "same_journal d (d'\<lparr>db_notified := n\<rparr>) = same_journal d d'"
  by (simp add: same_journal_def cursor_of_def)

lemma success_same:
  assumes "recordSuccess f ch d = (r, d')"
  shows "same_journal d d' \<and> sync_state i d' = sync_state i d"
proof (cases "pa_status ch = AERROR \<and> isOk r")
  case False
  then have "d' = d" using assms run_attempt_error by (cases r) (fastforce simp: recordSuccess_def split: if_splits)+
  then show ?thesis by simp
next
  case True
  then obtain u where "r = Inr u" by (cases r) auto
  define d1 where "d1 = d\<lparr>db_accounts := update_where (\<lambda>a. pa_id a = pa_id ch \<and> pa_status a = AERROR)
      (\<lambda>a. a\<lparr>pa_status := AACTIVE, pa_statusReason := None\<rparr>) (db_accounts d)\<rparr>"
  have "d' = d1\<lparr>db_notified := db_notified d'\<rparr>"
    using assms True \<open>r = Inr u\<close> by (auto simp: d1_def recordSuccess_def notifyRealtime_def thenT_Inr dest!: run_attempt_ok)
  moreover have "same_journal d d1" unfolding d1_def by (rule same_journal_accounts) simp_all
  moreover have "sync_state i d1 = sync_state i d" unfolding d1_def by (rule sync_health) simp_all
  ultimately show ?thesis by (metis same_journal_notified sync_notified)
qed

lemma failure_same:
  assumes "recordFailure f now ch e d = (r, d')"
  shows "same_journal d d' \<and> sync_state i d' = sync_state i d"
proof (cases "(pa_status ch = ADISCONNECTED \<and> \<not> requiresReconnect e) \<or> \<not> isOk r")
  case True
  then have "d' = d" using assms run_attempt_error by (cases r) (fastforce simp: recordFailure_def Let_def split: if_splits)+
  then show ?thesis by simp
next
  case False
  then obtain u where r: "r = Inr u" by (cases r) auto
  define d1 where "d1 = d\<lparr>db_accounts := update_where (\<lambda>a. pa_id a = pa_id ch)
      (\<lambda>a. a\<lparr>pa_status := (if requiresReconnect e then ADISCONNECTED else AERROR), pa_statusReason := Some (pv_message e),
           pa_lastErrorAt := Some now\<rparr>) (db_accounts d)\<rparr>"
  have "d' = d1\<lparr>db_notified := db_notified d'\<rparr> \<or> d' = d"
    using assms False r
    by (auto simp: d1_def recordFailure_def Let_def notifyRealtime_def thenT_Inr update_account_def dest!: run_attempt_ok split: if_splits)
  moreover have "same_journal d d1" unfolding d1_def by (rule same_journal_accounts) simp_all
  moreover have "sync_state i d1 = sync_state i d" unfolding d1_def by (rule sync_health) simp_all
  ultimately show ?thesis by (metis same_journal_notified sync_notified same_journal_refl)
qed

lemma lease_same: "take_lease now i d = (c, d') \<Longrightarrow> same_journal d d'"
  by (auto simp: take_lease_def intro: same_journal_accounts)

lemma clear_same: "same_journal d (clear_lease f i d)"
  by (auto simp: clear_lease_def run_attempt_def runTx_def update_account_def split: option.splits intro: same_journal_accounts)

text \<open>A committed poll: its events are known to the journal and its cursor is stored.\<close>

lemma poll_tx_Inr:
  assumes "poll_tx env ch es c d = Inr (n, d')" "fresh_ids (pl_gen env) d"
  shows "(\<exists>created rows. db_events d' = db_events d @ created \<and> db_outbox d' = db_outbox d @ rows \<and> n = length created \<and>
      (\<forall>e\<in>set es. (pa_id ch, xe_key e) \<in> event_key ` set (db_events d')) \<and>
      event_key ` set created \<subseteq> (\<lambda>e. (pa_id ch, xe_key e)) ` set es \<and>
      map oe_payload rows = map (\<lambda>e. JObj [(''providerEventId'', JStr (pe_id e))]) created) \<and>
    sync_state (pa_id ch) d' = map_option (\<lambda>(s, l, x). (c, None, x)) (sync_state (pa_id ch) d) \<and>
    (\<exists>x. sync_state (pa_id ch) d = Some x) \<and> (\<forall>j. j \<noteq> pa_id ch \<longrightarrow> sync_state j d' = sync_state j d)"
proof -
  obtain ids dup d1 where j: "journalProviderEventsInTransaction (pl_gen env) (pl_gen' env) (pl_now env) (poll_params env ch es) d = Inr ((ids, dup), d1)"
    and u: "update_account (pa_id ch) (polled_row (pl_now env) c) d1 = Inr ((), d')" and n: "n = length ids"
    using assms(1) by (auto simp: poll_tx_def bindT_Inr thenT_Inr)
  have run: "journalProviderEvents (pl_gen env) (pl_gen' env) (pl_now env) (poll_params env ch es) d = (Inr (ids, dup), d1)"
    using j by (auto simp: journalProviderEvents_def runTx_def journalProviderEventsInTransaction_def split: if_splits)
  have keys: "batch_keys (poll_params env ch es) = (\<lambda>e. (pa_id ch, xe_key e)) ` set es"
    by (simp add: batch_keys_def poll_params_def image_image)
  obtain created rows where c: "db_events d1 = db_events d @ created" "ids = map pe_id created"
      "event_key ` set created = (\<lambda>e. (pa_id ch, xe_key e)) ` set es - event_key ` set (db_events d)"
      "db_outbox d1 = db_outbox d @ rows" "map oe_payload rows = map (\<lambda>i. JObj [(''providerEventId'', JStr i)]) ids"
    using journal_facts [OF assms(2) run] unfolding keys by auto
  have accounts: "db_accounts d1 = db_accounts d" using journal_changes [OF run] by auto
  have d': "d' = d1\<lparr>db_accounts := update_where (\<lambda>a. pa_id a = pa_id ch) (polled_row (pl_now env) c) (db_accounts d1)\<rparr>"
    and row: "list_ex (\<lambda>a. pa_id a = pa_id ch) (db_accounts d)"
    using u accounts by (auto simp: update_account_def split: if_splits)
  have same: "sync_state j d1 = sync_state j d" for j by (simp add: sync_state_def accounts)
  have "(pa_id ch, xe_key e) \<in> event_key ` set (db_events d')" if "e \<in> set es" for e
  proof -
    have "(pa_id ch, xe_key e) \<in> event_key ` set created \<union> event_key ` set (db_events d)" unfolding c(3) using that by blast
    then show ?thesis unfolding d' using c(1) by (simp add: image_Un Un_commute)
  qed
  moreover have "sync_state (pa_id ch) d' = map_option (\<lambda>(s, l, x). (c, None, x)) (sync_state (pa_id ch) d)"
    unfolding d' sync_polled same ..
  moreover have "sync_state j d' = sync_state j d" if "j \<noteq> pa_id ch" for j
    unfolding d' by (subst sync_other) (use that same in \<open>auto simp: polled_row_def\<close>)
  moreover have "\<exists>x. sync_state (pa_id ch) d = Some x"
  proof -
    show ?thesis using row sync_row by fastforce
  qed
  moreover have "map oe_payload rows = map (\<lambda>e. JObj [(''providerEventId'', JStr (pe_id e))]) created" using c(2,5) by simp
  ultimately show ?thesis using c n by (auto simp: d')
qed

text \<open>How a poll runs when its database calls succeed.\<close>

lemma poll_body_Inr:
  assumes "poll_body env ch cursor d = (Inr (n, k), d')"
  obtains es c d1 where "poll_provider env ch cursor = Inr (es, c)" "k = length es" "poll_tx env ch es c (pl_race env d) = Inr (n, d1)"
    "same_journal d1 d'" "\<And>i. sync_state i d' = sync_state i d1"
proof -
  obtain es c where p: "poll_provider env ch cursor = Inr (es, c)"
    using assms by (auto simp: poll_body_def Let_def split: sum.splits)
  obtain n' d1 where t: "run_attempt (pl_faultTx env) (poll_tx env ch es c) (pl_race env d) = (Inr n', d1)"
    using assms p by (auto simp: poll_body_def Let_def split: sum.splits prod.splits)
  obtain u where s: "recordSuccess (pl_faultSuccess env) ch d1 = (Inr u, d')" "n' = n" "k = length es"
    using assms p t by (auto simp: poll_body_def Let_def split: sum.splits prod.splits)
  show ?thesis using that [OF p s(3)] run_attempt_ok [OF t] success_same [OF s(1)] s(2) by metis
qed

lemma poll_body_Inl:
  assumes "poll_body env ch cursor d = (Inl e, d')"
  shows "d' = pl_race env d \<or> (\<exists>es c n d1. poll_provider env ch cursor = Inr (es, c) \<and> poll_tx env ch es c (pl_race env d) = Inr (n, d1) \<and>
    same_journal d1 d')"
proof (cases "poll_provider env ch cursor")
  case (Inl x)
  then show ?thesis using assms by (simp add: poll_body_def)
next
  case (Inr r)
  then obtain es c where p: "poll_provider env ch cursor = Inr (es, c)" by (metis prod.collapse)
  show ?thesis
  proof (cases "run_attempt (pl_faultTx env) (poll_tx env ch es c) (pl_race env d)")
    case (Pair q d1)
    show ?thesis
    proof (cases q)
      case (Inl x)
      then show ?thesis using assms p Pair run_attempt_error by (fastforce simp: poll_body_def)
    next
      case (Inr n)
      then have "recordSuccess (pl_faultSuccess env) ch d1 = (Inl e, d')"
        using assms p Pair by (auto simp: poll_body_def split: sum.splits prod.splits)
      from success_same [OF this] have "same_journal d1 d'" ..
      moreover have "poll_tx env ch es c (pl_race env d) = Inr (n, d1)" using run_attempt_ok Pair Inr by metis
      ultimately show ?thesis using p by blast
    qed
  qed
qed

lemma poll_failed_same: "same_journal d (snd (snd (poll_failed env ch sch e d)))"
proof -
  let ?pe = "toChannelProviderError (pa_provider ch) e None"
  have "same_journal d d2" if "recordFailure f t ch ?pe (clear_lease g i d) = (r, d2)" for f t g i r d2
    using same_journal_trans [OF clear_same] failure_same [OF that] by blast
  then show ?thesis using clear_same by (auto simp: poll_failed_def Let_def split: prod.splits sum.splits)
qed

text \<open>A poll commits what it fetched and the new cursor together: afterwards either the journal, the
  outbox and all cursors are as the other workers left them, or the provider answered the leased
  cursor, every answered event is known to the journal under its channel, one outbox event is queued for
  each new row and for nothing else, the channel's cursor is the answered one and no other cursor
  changed - whatever faults occur and whatever others commit meanwhile.\<close>

theorem poll_commits_together:
  assumes "pollChannel env ch sch d = (r, sch', d')"
    and "fresh_ids (pl_gen env) (pl_race env (snd (take_lease (pl_now env) (pa_id ch) d)))"
  shows "same_journal d d' \<or> same_journal (pl_race env (snd (take_lease (pl_now env) (pa_id ch) d))) d' \<or>
    (\<exists>cursor es c created rows. fst (take_lease (pl_now env) (pa_id ch) d) = Some cursor \<and>
      poll_provider env ch cursor = Inr (es, c) \<and>
      db_events d' = db_events (pl_race env (snd (take_lease (pl_now env) (pa_id ch) d))) @ created \<and>
      (\<forall>e\<in>set es. (pa_id ch, xe_key e) \<in> event_key ` set (db_events d')) \<and>
      db_outbox d' = db_outbox (pl_race env (snd (take_lease (pl_now env) (pa_id ch) d))) @ rows \<and>
      map oe_payload rows = map (\<lambda>e. JObj [(''providerEventId'', JStr (pe_id e))]) created \<and>
      cursor_of (pa_id ch) d' = Some c \<and>
      (\<forall>j. j \<noteq> pa_id ch \<longrightarrow> cursor_of j d' = cursor_of j (pl_race env (snd (take_lease (pl_now env) (pa_id ch) d)))))"
    (is "_ \<or> same_journal ?s d' \<or> ?done")
proof -
  obtain l d1 where lease: "take_lease (pl_now env) (pa_id ch) d = (l, d1)" by force
  note leased = lease_same [OF lease]
  have committed: ?done if l: "l = Some cursor" and p: "poll_provider env ch cursor = Inr (es, c)"
    and t: "poll_tx env ch es c ?s = Inr (n, d2)" and s: "same_journal d2 d'" for cursor es c n d2
  proof -
    note tx = poll_tx_Inr [OF t assms(2)]
    have "cursor_of (pa_id ch) d2 = Some c" "\<forall>j. j \<noteq> pa_id ch \<longrightarrow> cursor_of j d2 = cursor_of j ?s"
      using tx by (auto simp: cursor_of_def)
    then show ?thesis using tx s l p lease by (auto simp: same_journal_def)
  qed
  show ?thesis
  proof (cases "pl_faultLease env = None \<and> l \<noteq> None")
    case False
    then have "d' = d \<or> d' = d1" using assms(1) lease by (auto simp: pollChannel_def split: option.splits)
    then show ?thesis using leased by auto
  next
    case True
    then obtain cursor where l: "l = Some cursor" by auto
    obtain q d2 where body: "poll_body env ch cursor d1 = (q, d2)" by force
    show ?thesis
    proof (cases q)
      case (Inl e)
      then have "d' = snd (snd (poll_failed env ch sch e d2))" using assms(1) lease l body True by (simp add: pollChannel_def)
      then have same: "same_journal d2 d'" using poll_failed_same by simp
      from poll_body_Inl [OF body [unfolded Inl]] show ?thesis
      proof (elim disjE exE conjE)
        assume "d2 = pl_race env d1"
        then show ?thesis using same lease by simp
      next
        fix es c n d3
        assume "poll_provider env ch cursor = Inr (es, c)" "poll_tx env ch es c (pl_race env d1) = Inr (n, d3)" "same_journal d3 d2"
        then show ?thesis using committed [OF l, of es c n d3] same_journal_trans [OF _ same] lease by simp
      qed
    next
      case (Inr x)
      then obtain n k where x: "q = Inr (n, k)" by (metis prod.collapse)
      then have d': "d' = d2" using assms(1) lease l body True by (simp add: pollChannel_def)
      from poll_body_Inr [OF body [unfolded x]] obtain es c d3 where
        "poll_provider env ch cursor = Inr (es, c)" "poll_tx env ch es c (pl_race env d1) = Inr (n, d3)" "same_journal d3 d2" by metis
      then show ?thesis using committed [OF l, of es c n d3] d' lease by simp
    qed
  qed
qed

section \<open>A mailbox is drained\<close>

definition fresh_outbox :: "(nat \<Rightarrow> id) \<Rightarrow> db \<Rightarrow> bool" where
  "fresh_outbox gen d = (inj gen \<and> range gen \<inter> oe_id ` set (db_outbox d) = {})"

lemma persist_outbox_ok:
  "distinct ids \<Longrightarrow> set ids \<inter> oe_id ` set (db_outbox d) = {} \<Longrightarrow> \<exists>rs d'. persist_outbox ids now ps d = Inr (rs, d')"
proof (induction ids now ps arbitrary: d rule: persist_outbox.induct)
  case (1 i ids now p ps)
  let ?d = "d\<lparr>db_outbox := db_outbox d @ [outbox_row i now p]\<rparr>"
  have "createOutboxEvent i now p d = Inr (outbox_row i now p, ?d)" using 1(3) by (simp add: createOutboxEvent_Inr)
  moreover have "oe_id (outbox_row i now p) = i" by (simp add: outbox_row_def)
  then have "set ids \<inter> oe_id ` set (db_outbox ?d) = {}" using 1(2,3) by auto
  then obtain rs d' where "persist_outbox ids now ps ?d = Inr (rs, d')" using 1(1) 1(2) by fastforce
  ultimately show ?case by (auto simp: bindT_def returnT_def)
qed (auto simp: returnT_def)

lemma poll_tx_ok:
  assumes "fresh_outbox (pl_gen' env) d" "sync_state (pa_id ch) d = Some x"
  shows "\<exists>n d'. poll_tx env ch es c d = Inr (n, d')"
proof -
  have row: "list_ex (\<lambda>a. pa_id a = pa_id ch) (db_accounts d)"
    using assms(2) sync_row by fastforce
  let ?p = "poll_params env ch es"
  have "\<exists>r d1. journalProviderEventsInTransaction (pl_gen env) (pl_gen' env) (pl_now env) ?p d = Inr (r, d1) \<and> db_accounts d1 = db_accounts d"
  proof (cases "jp_events ?p = []")
    case True
    then show ?thesis by (simp add: journalProviderEventsInTransaction_def)
  next
    case False
    obtain created d1 where cr: "create_events_skip (journal_rows (pl_gen env) (pl_now env) ?p) d = (created, d1)" by force
    note c = create_events_skip_facts [OF cr]
    have "distinct (map (pl_gen' env) [0..<length created])" using assms(1) by (simp add: fresh_outbox_def distinct_map inj_on_def inj_def)
    moreover have "set (map (pl_gen' env) [0..<length created]) \<inter> oe_id ` set (db_outbox d1) = {}"
      using assms(1) c by (auto simp: fresh_outbox_def)
    ultimately obtain rs d2 where per: "persist_outbox (map (pl_gen' env) [0..<length created]) (pl_now env) (map (received_params ?p) created) d1 = Inr (rs, d2)"
      using persist_outbox_ok by blast
    then have "db_accounts d2 = db_accounts d" using persist_outbox_Inr [OF per] c by simp
    then show ?thesis using False cr per
      by (simp add: journalProviderEventsInTransaction_def journal_rows_def Let_def bindT_def returnT_def)
  qed
  then obtain r d1 where j: "journalProviderEventsInTransaction (pl_gen env) (pl_gen' env) (pl_now env) ?p d = Inr (r, d1)"
    "db_accounts d1 = db_accounts d" by blast
  obtain ids dup where r: "r = (ids, dup)" by force
  have "update_account (pa_id ch) (polled_row (pl_now env) c) d1 =
      Inr ((), d1\<lparr>db_accounts := update_where (\<lambda>a. pa_id a = pa_id ch) (polled_row (pl_now env) c) (db_accounts d1)\<rparr>)"
    using row j(2) by (simp add: update_account_def)
  then show ?thesis using j(1) by (simp add: poll_tx_def bindT_def thenT_def returnT_def r)
qed

lemma success_ok: "\<exists>u d'. recordSuccess None ch d = (Inr u, d')"
  by (auto simp: recordSuccess_def run_attempt_def runTx_def thenT_def bindT_def notifyRealtime_def)

lemma lease_free:
  assumes "sync_state i d = Some (c, None, None)"
  shows "\<exists>d1 t. take_lease now i d = (Some c, d1) \<and> db_events d1 = db_events d \<and> db_outbox d1 = db_outbox d \<and> sync_state i d1 = Some (c, t, None)"
proof -
  have "map_option pa_syncState (List.find (leasable now i) as) = Some c \<and>
      (\<exists>t. map_of (map (\<lambda>a. (pa_id a, pa_syncState a, pa_syncLeaseExpiresAt a, pa_deletedAt a))
         (update_where (leasable now i) (\<lambda>a. a\<lparr>pa_syncLeaseExpiresAt := Some (now + LEASE_SECONDS * 1000)\<rparr>) as)) i = Some (c, t, None))"
    if "map_of (map (\<lambda>a. (pa_id a, pa_syncState a, pa_syncLeaseExpiresAt a, pa_deletedAt a)) as) i = Some (c, None, None)" for as
    using that by (induction as) (auto simp: leasable_def split: if_splits)
  from this [OF assms [unfolded sync_state_def]] show ?thesis by (auto simp: take_lease_def sync_state_def)
qed

text \<open>A poll that nothing disturbs, of an email channel whose account opens and whose server answers.\<close>

definition healthy :: "polling_env \<Rightarrow> provider_account \<Rightarrow> string \<Rightarrow> int list \<Rightarrow> bool" where
  "healthy env ch v box \<longleftrightarrow> pl_race env = id \<and> pl_faultLease env = None \<and> pl_faultTx env = None \<and> pl_faultSuccess env = None \<and>
     pa_provider ch = EMAIL_SMTP_IMAP \<and> (\<exists>a. worker_account env ch = Inr a \<and> serves (pl_imap env a) v box)"

definition mail_known :: "polling_env \<Rightarrow> provider_account \<Rightarrow> string \<Rightarrow> int \<Rightarrow> db \<Rightarrow> bool" where
  "mail_known env ch v u d \<longleftrightarrow> (\<exists>a e. worker_account env ch = Inr a \<and> event_of_mail (pl_imap env a) v u e \<and>
     (pa_id ch, xe_key e) \<in> event_key ` set (db_events d))"

lemma worker_adapter_email: "\<exists>a. worker_adapter EMAIL_SMTP_IMAP = Inr a \<and> ad_provider a = EMAIL_SMTP_IMAP"
proof -
  have "case worker_adapter EMAIL_SMTP_IMAP of Inr a \<Rightarrow> ad_provider a = EMAIL_SMTP_IMAP | Inl _ \<Rightarrow> False" by code_simp
  then show ?thesis by (auto split: sum.splits)
qed

lemma healthy_poll:
  assumes h: "healthy env ch v box" and state: "sync_state (pa_id ch) d = Some (mail_cursor v k, None, None)"
    and fresh: "fresh_ids (pl_gen env) d" "fresh_outbox (pl_gen' env) d"
  shows "\<exists>n sch' d'. pollChannel env ch sch d = (Inr n, sch', d') \<and>
    sync_state (pa_id ch) d' = Some (mail_cursor v (if picked box k = [] then k else last (picked box k)), None, None) \<and>
    set (db_events d) \<subseteq> set (db_events d') \<and> (\<forall>u\<in>set (picked box k). mail_known env ch v u d')"
proof -
  obtain d1 t where lease: "take_lease (pl_now env) (pa_id ch) d = (Some (mail_cursor v k), d1)" "db_events d1 = db_events d"
    "db_outbox d1 = db_outbox d" "sync_state (pa_id ch) d1 = Some (mail_cursor v k, t, None)" using lease_free [OF state] by blast
  obtain a where a: "worker_account env ch = Inr a" "serves (pl_imap env a) v box" using h by (auto simp: healthy_def)
  let ?k = "if picked box k = [] then k else last (picked box k)"
  obtain es where es: "poll_email (pl_imap env a) (imap_server a) (mail_cursor v k) = Inr (es, mail_cursor v ?k)"
    "\<forall>u\<in>set (picked box k). \<exists>e\<in>set es. event_of_mail (pl_imap env a) v u e" using poll_email_serves [OF a(2)] by blast
  obtain ad where "worker_adapter EMAIL_SMTP_IMAP = Inr ad" "ad_provider ad = EMAIL_SMTP_IMAP" using worker_adapter_email by blast
  then have answer: "poll_provider env ch (mail_cursor v k) = Inr (es, mail_cursor v ?k)"
    using h a es(1) by (simp add: poll_provider_def healthy_def stored_cursor_def mail_cursor_def)
  have f1: "fresh_ids (pl_gen env) d1" "fresh_outbox (pl_gen' env) d1" using fresh lease by (simp_all add: fresh_ids_def fresh_outbox_def)
  obtain n d2 where tx: "poll_tx env ch es (mail_cursor v ?k) d1 = Inr (n, d2)" using poll_tx_ok [OF f1(2) lease(4)] by blast
  note facts = poll_tx_Inr [OF tx f1(1)]
  obtain u d3 where s: "recordSuccess None ch d2 = (Inr u, d3)" using success_ok by blast
  note same = success_same [OF s]
  have "run_attempt None (poll_tx env ch es (mail_cursor v ?k)) d1 = (Inr n, d2)" using tx by (simp add: run_attempt_def runTx_def)
  then have body: "poll_body env ch (mail_cursor v k) d1 = (Inr (n, length es), d3)"
    using h answer s by (simp add: poll_body_def healthy_def)
  have events: "db_events d3 = db_events d2" using same by (simp add: same_journal_def)
  obtain sch' where "pollChannel env ch sch d = (Inr n, sch', d3)" using h lease(1) body by (simp add: pollChannel_def healthy_def)
  moreover have "sync_state (pa_id ch) d3 = Some (mail_cursor v ?k, None, None)" using facts same lease(4) by simp
  moreover have "set (db_events d) \<subseteq> set (db_events d3)" using facts events lease(2) by auto
  moreover have "mail_known env ch v u d3" if "u \<in> set (picked box k)" for u
  proof -
    obtain e where e: "e \<in> set es" "event_of_mail (pl_imap env a) v u e" using es(2) \<open>u \<in> set (picked box k)\<close> by blast
    have "(pa_id ch, xe_key e) \<in> event_key ` set (db_events d2)" using facts e(1) by auto
    then show ?thesis using a(1) e(2) unfolding mail_known_def events by blast
  qed
  ultimately show ?thesis by blast
qed

fun polls :: "polling_env list \<Rightarrow> provider_account \<Rightarrow> schedules \<Rightarrow> db \<Rightarrow> schedules \<times> db" where
  "polls [] ch sch d = (sch, d)"
| "polls (env # envs) ch sch d = (case pollChannel env ch sch d of (r, sch', d') \<Rightarrow> polls envs ch sch' d')"

text \<open>Each poll generates ids that are new in the state it finds.\<close>

fun fresh_along :: "polling_env list \<Rightarrow> provider_account \<Rightarrow> schedules \<Rightarrow> db \<Rightarrow> bool" where
  "fresh_along [] ch sch d = True"
| "fresh_along (env # envs) ch sch d = (fresh_ids (pl_gen env) d \<and> fresh_outbox (pl_gen' env) d \<and>
     (case pollChannel env ch sch d of (r, sch', d') \<Rightarrow> fresh_along envs ch sch' d'))"

lemma mail_known_later: "mail_known env ch v u d \<Longrightarrow> set (db_events d) \<subseteq> set (db_events d') \<Longrightarrow> mail_known env ch v u d'"
  unfolding mail_known_def by (meson image_mono subsetD)

lemma polls_drain:
  assumes "\<forall>env\<in>set envs. healthy env ch v box" "sync_state (pa_id ch) d = Some (mail_cursor v k, None, None)"
    and "fresh_along envs ch sch d" "polls envs ch sch d = (sch', d')" "distinct box"
  shows "set (db_events d) \<subseteq> set (db_events d') \<and>
    (\<exists>k'. sync_state (pa_id ch) d' = Some (mail_cursor v k', None, None) \<and> pending box k' = drop (10 * length envs) (pending box k)) \<and>
    (\<forall>u\<in>set (take (10 * length envs) (pending box k)). \<exists>env\<in>set envs. mail_known env ch v u d')"
  using assms
proof (induction envs arbitrary: sch d k)
  case (Cons env envs)
  let ?k = "if picked box k = [] then k else last (picked box k)"
  obtain n sch1 d1 where one: "pollChannel env ch sch d = (Inr n, sch1, d1)"
    "sync_state (pa_id ch) d1 = Some (mail_cursor v ?k, None, None)" "set (db_events d) \<subseteq> set (db_events d1)"
    "\<forall>u\<in>set (picked box k). mail_known env ch v u d1"
    using healthy_poll [of env ch v box d k sch] Cons.prems(1-3) by auto
  have rest: "set (db_events d1) \<subseteq> set (db_events d') \<and>
    (\<exists>k'. sync_state (pa_id ch) d' = Some (mail_cursor v k', None, None) \<and> pending box k' = drop (10 * length envs) (pending box ?k)) \<and>
    (\<forall>u\<in>set (take (10 * length envs) (pending box ?k)). \<exists>env\<in>set envs. mail_known env ch v u d')"
    by (rule Cons.IH) (use Cons.prems one in auto)
  have next_k: "pending box ?k = drop 10 (pending box k)" using pending_next [OF Cons.prems(5)] by (simp add: POLL_BATCH_SIZE_def)
  have split: "take (10 * length (env # envs)) (pending box k) = picked box k @ take (10 * length envs) (pending box ?k)"
    by (simp only: next_k) (simp add: picked_def POLL_BATCH_SIZE_def take_add)
  have "\<exists>e\<in>set (env # envs). mail_known e ch v u d'" if "u \<in> set (take (10 * length (env # envs)) (pending box k))" for u
    using that one(4) rest mail_known_later unfolding split set_append by (metis Un_iff list.set_intros)
  moreover have "drop (10 * length (env # envs)) (pending box k) = drop (10 * length envs) (pending box ?k)"
    unfolding next_k by (simp add: add.commute)
  ultimately show ?case using rest one(3) by auto
next
  case Nil
  then show ?case by (intro conjI exI [of _ k]) auto
qed

text \<open>C6: A mailbox is drained: however many mails wait, n undisturbed polls bring the ten n oldest of them, in
  the order of their UIDs and without a gap, into the journal and leave the cursor right behind them; so
  after enough polls every waiting mail is journaled.\<close>

theorem mailbox_drained:
  assumes "\<forall>env\<in>set envs. healthy env ch v box" "distinct box"
    and "sync_state (pa_id ch) d = Some (mail_cursor v k, None, None)" "fresh_along envs ch sch d" "polls envs ch sch d = (sch', d')"
  shows "(\<forall>u\<in>set (take (10 * length envs) (pending box k)). \<exists>env\<in>set envs. mail_known env ch v u d') \<and>
    (\<exists>k'. cursor_of (pa_id ch) d' = Some (mail_cursor v k') \<and> pending box k' = drop (10 * length envs) (pending box k)) \<and>
    (length (filter (\<lambda>u. k < u) box) \<le> 10 * length envs \<longrightarrow>
       (\<forall>u\<in>set box. k < u \<longrightarrow> (\<exists>env\<in>set envs. mail_known env ch v u d')))"
proof -
  note drained = polls_drain [OF assms(1,3,4,5,2)]
  have "length (pending box k) = length (filter (\<lambda>u. k < u) box)" "set (pending box k) = {u \<in> set box. k < u}"
    by (auto simp: pending_def)
  then show ?thesis using drained by (auto simp: cursor_of_def)
qed

text \<open>A failing poll frees the channel by its id alone: when its own lease ran out meanwhile and another
  worker took the channel, that worker's lease is gone and a third one may poll beside it.\<close>

lemma failed_poll_frees_lease:
  assumes "pl_faultLease env = None" "pl_faultClear env = None" "take_lease (pl_now env) (pa_id ch) d = (Some c, d1)"
    and "poll_provider env ch c = Inl e"
    and "sync_state (pa_id ch) (pl_race env d1) = Some (s, Some other_lease, x)"
  shows "sync_state (pa_id ch) (snd (snd (pollChannel env ch sch d))) = Some (s, None, x)"
proof -
  define d2 where "d2 = pl_race env d1"
  have row: "list_ex (\<lambda>a. pa_id a = pa_id ch) (db_accounts d2)" using sync_row assms(5) unfolding d2_def by fastforce
  have cleared: "sync_state (pa_id ch) (clear_lease None (pa_id ch) d2) = Some (s, None, x)"
  proof -
    have "sync_state (pa_id ch) (d2\<lparr>db_accounts := update_where (\<lambda>a. pa_id a = pa_id ch) (\<lambda>a. a\<lparr>pa_syncLeaseExpiresAt := None\<rparr>) (db_accounts d2)\<rparr>) =
        map_option (\<lambda>(s, l, x). (s, None, x)) (sync_state (pa_id ch) d2)"
      unfolding sync_state_def by (simp, rule map_of_update_id) simp_all
    then show ?thesis using row assms(5) by (simp add: clear_lease_def run_attempt_def runTx_def update_account_def d2_def)
  qed
  have "poll_body env ch c d1 = (Inl e, d2)" using assms(4) by (simp add: poll_body_def d2_def)
  then have run: "snd (snd (pollChannel env ch sch d)) = snd (snd (poll_failed env ch sch e d2))"
    using assms(1,3) by (simp add: pollChannel_def)
  have "sync_state (pa_id ch) (snd (snd (poll_failed env ch sch e d2))) = sync_state (pa_id ch) (clear_lease None (pa_id ch) d2)"
    using failure_same assms(2) by (auto simp: poll_failed_def Let_def split: prod.splits sum.splits)
  then show ?thesis using run cleared by simp
qed

section \<open>A mailbox of three mails\<close>

definition mail_channel :: provider_account where
  "mail_channel = hook_channel\<lparr>pa_channelType := CEMAIL, pa_provider := EMAIL_SMTP_IMAP, pa_syncState := mail_cursor ''v'' 0,
     pa_config := JObj [(''inboundMode'', JStr ''POLLING'')]\<rparr>"

definition small_mail :: parsed_mail where
  "small_mail = \<lparr>pm_messageId = None, pm_inReplyTo = None, pm_references = NoReferences, pm_subject = None, pm_date = None,
     pm_from = NoAddress, pm_to = NoAddress, pm_cc = NoAddress, pm_replyTo = NoAddress, pm_text = Some ''hi'',
     pm_autoSubmitted = NoHeader, pm_attachments = []\<rparr>"

definition small_mailbox :: imap_env where
  "small_mailbox = \<lparr>im_mailbox = Inr (Some (''v'', 4)), im_search = (\<lambda>_. Inr (Some [2, 1, 3])),
     im_fetchAll = (\<lambda>us. Inr (map (\<lambda>u. (u, None)) (remdups us))), im_envelope = (\<lambda>_. Inr None), im_source = (\<lambda>_. Inr (Some ''x'')),
     im_parse = (\<lambda>_. Inr small_mail), im_sha256hex = id\<rparr>"

definition mail_env :: polling_env where
  "mail_env = \<lparr>pl_now = 5, pl_race = id, pl_faultLease = None, pl_faultTx = None, pl_faultSuccess = None, pl_faultClear = None,
     pl_faultFailure = None, pl_emailSeconds = 30, pl_telegramSeconds = 3, pl_datetime = we_datetime hook_env, pl_open = we_open hook_env,
     pl_cipher = we_cipher hook_env, pl_imap = (\<lambda>_. small_mailbox), pl_updates = (\<lambda>_ _. Inr []), pl_gen = number_ids, pl_gen' = number_ids\<rparr>"

definition mail_db :: db where
  "mail_db = empty_db\<lparr>db_accounts := [mail_channel]\<rparr>"

lemma mail_healthy: "healthy mail_env mail_channel ''v'' [2, 1, 3]"
proof -
  have "isOk (worker_account mail_env mail_channel)" by code_simp
  moreover have "serves small_mailbox ''v'' [2, 1, 3]"
    by (auto simp: serves_def small_mailbox_def comp_def image_image)
  ultimately show ?thesis by (auto simp: healthy_def mail_env_def mail_channel_def isOk_Inr)
qed

lemma mail_state: "sync_state (pa_id mail_channel) mail_db = Some (mail_cursor ''v'' 0, None, None)"
  by (simp add: sync_state_def mail_db_def mail_channel_def hook_channel_def)

lemma mail_fresh: "fresh_ids (pl_gen mail_env) mail_db" "fresh_outbox (pl_gen' mail_env) mail_db"
  by (auto simp: mail_env_def mail_db_def empty_db_def fresh_ids_def fresh_outbox_def inj_def number_ids_def replicate_eq_replicate)

theorem mailbox_drained_witness:
  "\<exists>sch' d'. polls [mail_env] mail_channel Map.empty mail_db = (sch', d') \<and> (\<forall>u\<in>{1, 2, 3}. mail_known mail_env mail_channel ''v'' u d')"
proof -
  obtain sch' d' where run: "polls [mail_env] mail_channel Map.empty mail_db = (sch', d')" by force
  have along: "fresh_along [mail_env] mail_channel Map.empty mail_db" using mail_fresh by (simp split: prod.splits)
  have "\<forall>env\<in>set [mail_env]. healthy env mail_channel ''v'' [2, 1, 3]" using mail_healthy by simp
  from mailbox_drained [OF this _ mail_state along run] show ?thesis using run by fastforce
qed

theorem poll_commits_together_witness:
  "\<exists>r sch' d' cursor es c. pollChannel mail_env mail_channel Map.empty mail_db = (r, sch', d') \<and> \<not> same_journal mail_db d' \<and>
     poll_provider mail_env mail_channel cursor = Inr (es, c) \<and> cursor_of (pa_id mail_channel) d' = Some c \<and>
     (\<forall>e\<in>set es. (pa_id mail_channel, xe_key e) \<in> event_key ` set (db_events d'))"
proof -
  let ?l = "take_lease (pl_now mail_env) (pa_id mail_channel) mail_db"
  obtain r sch' d' where run: "pollChannel mail_env mail_channel Map.empty mail_db = (r, sch', d')" by (metis prod.collapse)
  have race: "pl_race mail_env (snd ?l) = snd ?l" by (simp add: mail_env_def)
  have none: "db_events (snd ?l) = []" "db_events mail_db = []" by (simp_all add: take_lease_def mail_db_def empty_db_def)
  then have fresh: "fresh_ids (pl_gen mail_env) (pl_race mail_env (snd ?l))" using mail_fresh(1) race by (simp add: fresh_ids_def)
  have "(1 :: int) \<in> set (picked [2, 1, 3] 0)" by (simp add: picked_def pending_def POLL_BATCH_SIZE_def)
  then have "mail_known mail_env mail_channel ''v'' 1 d'"
    using healthy_poll [OF mail_healthy mail_state mail_fresh, of Map.empty] run by auto
  then have "db_events d' \<noteq> []" by (auto simp: mail_known_def)
  then have "\<not> same_journal mail_db d'" "\<not> same_journal (pl_race mail_env (snd ?l)) d'" using none race by (auto simp: same_journal_def)
  then show ?thesis using poll_commits_together [OF run fresh] run by blast
qed

theorem polling_bounded_witness:
  "\<exists>q. tick True 6000 mail_db \<lparr>po_schedules = Map.empty, po_inFlight = [], po_channels = [], po_discoveredAt = 0, po_stopped = False\<rparr> =
     ([mail_channel], q) \<and> length (po_inFlight q) \<le> 10"
proof -
  let ?p = "\<lparr>po_schedules = Map.empty, po_inFlight = [], po_channels = [], po_discoveredAt = 0, po_stopped = False\<rparr>"
  have "fst (tick True 6000 mail_db ?p) = [mail_channel]"
    by (simp add: tick_def discover_def polled_by_discovery_def mail_db_def mail_channel_def due_def MAX_PARALLEL_POLLS_def
      DISCOVERY_INTERVAL_MS_def hook_channel_def jget_def Let_def)
  then obtain q where q: "tick True 6000 mail_db ?p = ([mail_channel], q)" by (metis prod.collapse)
  have "fresh_poller ?p" "distinct (map pa_id (db_accounts mail_db))" by (simp_all add: fresh_poller_def mail_db_def)
  then show ?thesis using polling_bounded [OF _ rtranclp.rtrancl_refl q] q by blast
qed

end
