(* ===== verification/Normalizing.thy ===== *)
theory Normalizing
  imports Inbound Mailbox
begin

text \<open>
  \<open>normalizeInbound\<close> of every adapter: WhatsApp Cloud, Messenger and Instagram
  (\<open>meta-messaging.ts\<close>), Telegram, LINE, the custom API, web chat and email with the quoted-reply
  trimmer (\<open>reply-trimmer.ts\<close>), all of \<open>packages/channel-adapters/src/providers\<close>. The clock, the date
  parser and the profile a provider answers are arguments; the recipient and the reference to the
  raw event, which the conversation core does not read, are left out. Numbers are integers, and a
  text is no property name of \<open>Object.prototype\<close>.
\<close>

section \<open>Readers\<close>

text \<open>\<open>nz_profile\<close> is the JSON a profile request answers, nothing when it fails.\<close>

record norm_env =
  nz_now :: int
  nz_date :: "string \<Rightarrow> int option"
  nz_profile :: "string \<Rightarrow> json option"

datatype time_unit = Seconds | Milliseconds

definition truncate_rat :: "rat \<Rightarrow> int" where
  "truncate_rat v = (if 0 \<le> v then \<lfloor>v\<rfloor> else \<lceil>v\<rceil>)"

text \<open>A timestamp in milliseconds; beyond the range of dates \<open>toISOString\<close> throws.\<close>

definition toIsoTimestamp :: "norm_env \<Rightarrow> json \<Rightarrow> time_unit \<Rightarrow> err + int" where
  "toIsoTimestamp env v unit = (case asNumber v of None \<Rightarrow> Inr (nz_now env)
     | Some n \<Rightarrow> (let t = (if unit = Seconds then n * 1000 else n) in
         if \<bar>t\<bar> > 8640000000000000 then Inl (OtherError ''RangeError'' ''Invalid time value'') else Inr (truncate_rat t)))"

text \<open>\<open>asString(x) ?? new Date().toISOString()\<close>, parsed.\<close>

definition given_time :: "norm_env \<Rightarrow> json \<Rightarrow> int option" where
  "given_time env v = (case asString v of Some s \<Rightarrow> nz_date env s | None \<Rightarrow> Some (nz_now env))"

fun js_String :: "json \<Rightarrow> string" where
  "js_String JUndef = ''undefined''"
| "js_String JNull = ''null''"
| "js_String (JBool b) = (if b then ''true'' else ''false'')"
| "js_String (JNum n) = show_int n"
| "js_String (JStr s) = s"
| "js_String (JObj _) = ''[object Object]''"
| "js_String (JArr xs) = join '','' (map (\<lambda>x. if x = JUndef \<or> x = JNull then [] else js_String x) xs)"

definition orText :: "string option \<Rightarrow> string \<Rightarrow> string" where
  "orText x dflt = (case x of Some s \<Rightarrow> s | None \<Rightarrow> dflt)"

definition number_or_zero :: "json \<Rightarrow> json" where
  "number_or_zero j = (case asInteger j of Some n \<Rightarrow> JNum n | None \<Rightarrow> JNum 0)"

definition opt_number :: "json \<Rightarrow> json" where
  "opt_number j = (case asInteger j of Some n \<Rightarrow> JNum n | None \<Rightarrow> JUndef)"

text \<open>\<open>Number(x ?? 0)\<close>; NaN is stored as null.\<close>

definition coordinate :: "json \<Rightarrow> json" where
  "coordinate j = (if j = JUndef \<or> j = JNull then JNum 0
     else if j = JBool True then JNum 1 else if j = JBool False then JNum 0
     else case asInteger j of Some n \<Rightarrow> JNum n | None \<Rightarrow> JNull)"

definition obj_compact :: "(string \<times> json) list \<Rightarrow> json" where
  "obj_compact kvs = JObj (json_compact kvs)"

definition last4 :: "string \<Rightarrow> string" where
  "last4 s = drop (length s - 4) s"

definition sender :: "string \<Rightarrow> string \<Rightarrow> string option \<Rightarrow> json \<Rightarrow> participant" where
  "sender i name avatar meta = \<lparr>pt_identifier = i, pt_displayName = Some name, pt_avatarUrl = avatar, pt_metadata = meta\<rparr>"

definition inbound :: "string \<Rightarrow> participant \<Rightarrow> int option \<Rightarrow> json \<Rightarrow> string option \<Rightarrow> json \<Rightarrow> normalized" where
  "inbound pmid from t content replyTo meta = NMessage \<lparr>im_providerMessageId = pmid, im_sender = from, im_timestamp = t,
     im_content = content, im_replyTarget = nonblank replyTo, im_metadata = meta\<rparr>"

definition text_content :: "string \<Rightarrow> json" where
  "text_content s = JObj [(''type'', JStr ''TEXT''), (''text'', JStr s)]"

definition media_content :: "string \<Rightarrow> string \<Rightarrow> (string \<times> json) list \<Rightarrow> json" where
  "media_content kind mime rest = JObj ([(''type'', JStr ''MEDIA''), (''mediaType'', JStr kind), (''mimeType'', JStr mime)] @ json_compact rest)"

definition location_content :: "json \<Rightarrow> json \<Rightarrow> string option \<Rightarrow> string option \<Rightarrow> json" where
  "location_content lat long name address = JObj ([(''type'', JStr ''LOCATION''), (''latitude'', lat), (''longitude'', long)] @
     json_compact [(''name'', opt_json name), (''address'', opt_json address)])"

definition interactive_content :: "string \<Rightarrow> string \<Rightarrow> string \<Rightarrow> string option \<Rightarrow> json" where
  "interactive_content kind i title description = JObj ([(''type'', JStr ''INTERACTIVE''), (''interactiveType'', JStr kind), (''id'', JStr i),
     (''title'', JStr title)] @ json_compact [(''description'', opt_json description)])"

definition reaction_content :: "string \<Rightarrow> string \<Rightarrow> bool \<Rightarrow> json" where
  "reaction_content emoji target react = JObj [(''type'', JStr ''REACTION''), (''emoji'', JStr emoji),
     (''targetProviderMessageId'', JStr target), (''action'', JStr (if react then ''react'' else ''unreact''))]"

definition unsupported_content :: "string \<Rightarrow> string \<Rightarrow> (string \<times> json) list \<Rightarrow> json" where
  "unsupported_content raw description rest = JObj ([(''type'', JStr ''UNSUPPORTED''), (''rawType'', JStr raw),
     (''description'', JStr description)] @ rest)"

section \<open>WhatsApp\<close>

text \<open>The status names WhatsApp and the custom API use.\<close>

definition STATUS_MAP :: "string \<Rightarrow> delivery_status option" where
  "STATUS_MAP s = map_of [(''sent'', DSent), (''delivered'', DDelivered), (''read'', DRead), (''failed'', DFailed)] s"

definition MEDIA_TYPES :: "string list" where
  "MEDIA_TYPES = [''image'', ''video'', ''audio'', ''document'', ''sticker'']"

text \<open>\<open>/^[^@\s]+@[^@\s]+\.[^@\s]+$/\<close>: one at sign, and a dot inside of what follows it.\<close>

definition mail_like :: "string \<Rightarrow> bool" where
  "mail_like s = (let plain = (\<lambda>c. c \<noteq> CHR ''@'' \<and> \<not> is_space c); user = takeWhile plain s; host = drop (length user + 1) s in
     user \<noteq> [] \<and> take 1 (drop (length user) s) = ''@'' \<and> list_all plain host \<and>
     (\<exists>k\<in>set [1..<length host - 1]. host ! k = CHR ''.''))"

definition whatsapp_phone :: "json \<Rightarrow> json" where
  "whatsapp_phone p = obj_compact [(''phone'', JStr (orText (orElse (field p ''phone'') (field p ''wa_id'')) [])), (''type'', opt_json (field p ''type''))]"

definition whatsapp_email :: "json \<Rightarrow> json" where
  "whatsapp_email e = obj_compact [(''email'', JStr (orText (field e ''email'') [])), (''type'', opt_json (field e ''type''))]"

definition whatsapp_contact :: "json \<Rightarrow> json" where
  "whatsapp_contact c = (let name = jget c ''name'';
       phones = filter (\<lambda>p. jstr p ''phone'' \<noteq> []) (map whatsapp_phone (asArray (jget c ''phones'')));
       emails = filter (\<lambda>e. mail_like (jstr e ''email'')) (map whatsapp_email (asArray (jget c ''emails''))) in
     JObj ([(''name'', JObj ([(''formattedName'', JStr (orText (orElse (field name ''formatted_name'') (field name ''first_name'')) ''Contact''))] @
         json_compact [(''firstName'', opt_json (field name ''first_name'')), (''lastName'', opt_json (field name ''last_name''))]))] @
       (if phones \<noteq> [] then [(''phones'', JArr phones)] else []) @ (if emails \<noteq> [] then [(''emails'', JArr emails)] else []) @
       json_compact [(''organization'', opt_json (field (jget c ''org'') ''company''))]))"

definition first_of :: "json \<Rightarrow> json" where
  "first_of j = (case asArray j of [] \<Rightarrow> JUndef | x # _ \<Rightarrow> x)"

definition whatsapp_unsupported :: "string \<Rightarrow> json \<Rightarrow> json" where
  "whatsapp_unsupported kind message = unsupported_content kind
     (case nonblank (field (first_of (jget message ''errors'')) ''title'') of
        Some t \<Rightarrow> ''Unsupported WhatsApp message ('' @ t @ '')''
      | None \<Rightarrow> ''Unsupported WhatsApp message type '' @ [CHR 0x22] @ kind @ [CHR 0x22]) []"

definition normalizeWhatsAppContent :: "json \<Rightarrow> json" where
  "normalizeWhatsAppContent message = (let kind = orText (field message ''type'') ''unknown'' in
     if kind = ''text'' then text_content (orText (field (jget message ''text'') ''body'') [])
     else if kind \<in> set MEDIA_TYPES then
       (let media = jget message kind in
        media_content (if kind = ''audio'' \<and> jget media ''voice'' = JBool True then ''voice'' else kind)
          (orText (field media ''mime_type'') ''application/octet-stream'')
          [(''providerMediaId'', opt_json (field media ''id'')), (''caption'', opt_json (field media ''caption'')),
           (''filename'', opt_json (field media ''filename'')), (''sha256'', opt_json (field media ''sha256''))])
     else if kind = ''location'' then
       (let l = jget message ''location'' in location_content (number_or_zero (jget l ''latitude'')) (number_or_zero (jget l ''longitude''))
          (field l ''name'') (field l ''address''))
     else if kind = ''contacts'' then
       (let cs = map whatsapp_contact (asArray (jget message ''contacts'')) in
        if cs \<noteq> [] then JObj [(''type'', JStr ''CONTACT''), (''contacts'', JArr cs)] else whatsapp_unsupported kind message)
     else if kind = ''interactive'' then
       (let i = jget message ''interactive''; isList = (field i ''type'' = Some ''list_reply'');
            reply = (if isList then jget i ''list_reply'' else jget i ''button_reply'') in
        interactive_content (if isList then ''list_reply'' else ''button_reply'') (orText (field reply ''id'') []) (orText (field reply ''title'') [])
          (field reply ''description''))
     else if kind = ''button'' then
       (let b = jget message ''button'' in interactive_content ''quick_reply'' (orText (field b ''payload'') []) (orText (field b ''text'') []) None)
     else if kind = ''reaction'' then
       (let r = jget message ''reaction''; emoji = orText (field r ''emoji'') [] in
        reaction_content emoji (orText (field r ''message_id'') []) (emoji \<noteq> []))
     else whatsapp_unsupported kind message)"

definition whatsapp_error :: "json \<Rightarrow> string \<times> string" where
  "whatsapp_error status = (let e = first_of (jget status ''errors'');
       parts = List.map_filter nonblank [orElse (field e ''title'') (field e ''message''), field (jget e ''error_data'') ''details''];
       message = join '': '' parts in
     (orText (field e ''code'') ''UNKNOWN'', if message = [] then ''WhatsApp could not deliver this message.'' else message))"

definition whatsapp_status :: "norm_env \<Rightarrow> json \<Rightarrow> err + normalized list" where
  "whatsapp_status env status = (case STATUS_MAP (orText (field status ''status'') []) of
     None \<Rightarrow> Inr [NIgnored (''Status '' @ [CHR 0x22] @ js_String (jget status ''status'') @ [CHR 0x22] @ '' is not tracked.'')]
   | Some mapped \<Rightarrow> bindR (toIsoTimestamp env (jget status ''timestamp'') Seconds) (\<lambda>t.
       Inr [NReceipt \<lparr>rc_providerMessageId = orText (field status ''id'') [], rc_recipient = orText (field status ''recipient_id'') [],
         rc_status = mapped, rc_timestamp = t, rc_error = (if mapped = DFailed then Some (whatsapp_error status) else None), rc_watermark = None\<rparr>]))"

definition normalize_whatsapp :: "norm_env \<Rightarrow> json \<Rightarrow> adapter_account \<Rightarrow> err + normalized list" where
  "normalize_whatsapp env payload account =
     (if truthy (jget payload ''status'') then whatsapp_status env (jget payload ''status'')
      else let message = jget payload ''message'' in
        (case (nonblank (field message ''from''), nonblank (field message ''id'')) of
           (Some from, Some i) \<Rightarrow> bindR (toIsoTimestamp env (jget message ''timestamp'') Seconds) (\<lambda>t.
             Inr [inbound i (sender from (orText (field (jget (jget payload ''contact'') ''profile'') ''name'') (CHR ''+'' # from)) None
                   (JObj [(''phone'', JStr (CHR ''+'' # from))]))
                 (Some t) (normalizeWhatsAppContent message) (field (jget message ''context'') ''id'')
                 (if truthy (jget (jget message ''context'') ''forwarded'') then JObj [(''forwarded'', JBool True)] else JUndef)])
         | _ \<Rightarrow> Inr [NIgnored ''Message without sender or ID.'']))"

section \<open>Messenger and Instagram\<close>

definition ATTACHMENT_MEDIA :: "string \<Rightarrow> (string \<times> string) option" where
  "ATTACHMENT_MEDIA kind = map_of [(''image'', ''image'', ''image/jpeg''), (''video'', ''video'', ''video/mp4''), (''audio'', ''audio'', ''audio/mpeg''),
     (''file'', ''document'', ''application/octet-stream''), (''ig_reel'', ''video'', ''video/mp4''), (''reel'', ''video'', ''video/mp4'')] kind"

definition attachment_label :: "string \<Rightarrow> string" where
  "attachment_label kind = orText (map_of [(''story_mention'', ''Mentioned you in their story''), (''share'', ''Shared a post''),
     (''fallback'', ''Shared a link''), (''template'', ''Sent a template message'')] kind) (''Unsupported attachment ('' @ kind @ '')'')"

definition attachment_caption :: "string option \<Rightarrow> nat \<Rightarrow> string option" where
  "attachment_caption txt n = (let extra = (if n > 1 then '' (+'' @ show_nat (n - 1) @ '' more attachments)'' else []) in
     case nonblank txt of Some t \<Rightarrow> Some (t @ extra) | None \<Rightarrow> if extra \<noteq> [] then Some (trim extra) else None)"

definition attachment_content :: "json \<Rightarrow> string option \<Rightarrow> nat \<Rightarrow> json" where
  "attachment_content a txt n = (let kind = orText (field a ''type'') ''unknown''; payload = jget a ''payload''; url = nonblank (field payload ''url'') in
     case (ATTACHMENT_MEDIA kind, url) of
       (Some (mediaType, mime), Some u) \<Rightarrow> JObj ([(''type'', JStr ''MEDIA''), (''mediaType'', JStr mediaType), (''mimeType'', JStr mime), (''url'', JStr u)] @
          json_compact [(''caption'', opt_json (attachment_caption txt n))])
     | _ \<Rightarrow> if kind = ''location'' then
           (let coords = jget payload ''coordinates'' in location_content (coordinate (jget coords ''lat'')) (coordinate (jget coords ''long'')) None None)
         else unsupported_content kind (attachment_label kind) (case url of Some u \<Rightarrow> [(''rawPayload'', JObj [(''url'', JStr u)])] | None \<Rightarrow> []))"

definition normalizeMessagingContent :: "json \<Rightarrow> json" where
  "normalizeMessagingContent message = (let quick = jget message ''quick_reply''; txt = field message ''text'' in
     if truthy (jget quick ''payload'') then interactive_content ''quick_reply'' (orText (field quick ''payload'') []) (orText txt []) None
     else (case asArray (jget message ''attachments'') of
        a # as \<Rightarrow> attachment_content a txt (Suc (length as))
      | [] \<Rightarrow> (case txt of Some t \<Rightarrow> text_content t | None \<Rightarrow> unsupported_content ''unknown'' ''Unsupported message'' [])))"

record contact_profile =
  kp_displayName :: "string option"
  kp_username :: "string option"
  kp_avatarUrl :: "string option"

definition text_at :: "json \<Rightarrow> string \<Rightarrow> string option" where
  "text_at j k = (case jget j k of JStr s \<Rightarrow> Some s | _ \<Rightarrow> None)"

definition messenger_profile :: "json \<Rightarrow> contact_profile" where
  "messenger_profile j = \<lparr>kp_displayName = nonblank (Some (join '' '' (List.map_filter nonblank [text_at j ''first_name'', text_at j ''last_name'']))),
     kp_username = None, kp_avatarUrl = text_at j ''profile_pic''\<rparr>"

definition instagram_profile :: "json \<Rightarrow> contact_profile" where
  "instagram_profile j = \<lparr>kp_displayName = orElse (nonblank (text_at j ''name'')) (map_option ((#) (CHR ''@'')) (nonblank (text_at j ''username''))),
     kp_username = text_at j ''username'', kp_avatarUrl = text_at j ''profile_pic''\<rparr>"

definition http_url :: "string \<Rightarrow> bool" where
  "http_url s = (startsWith s ''http://'' \<or> startsWith s ''https://'')"

definition messaging_sender :: "contact_profile option \<Rightarrow> string \<Rightarrow> string \<Rightarrow> participant" where
  "messaging_sender profile fallback senderId = (case profile of
     None \<Rightarrow> sender senderId fallback None JUndef
   | Some p \<Rightarrow> sender senderId (orText (kp_displayName p) fallback)
       (case kp_avatarUrl p of Some u \<Rightarrow> if http_url u then Some u else None | None \<Rightarrow> None)
       (case nonblank (kp_username p) of Some u \<Rightarrow> JObj [(''username'', JStr u)] | None \<Rightarrow> JUndef))"

text \<open>\<open>a ?? b\<close>.\<close>

definition nullish :: "json \<Rightarrow> json \<Rightarrow> json" where
  "nullish a b = (if a = JUndef \<or> a = JNull then b else a)"

definition messaging_receipts :: "norm_env \<Rightarrow> json \<Rightarrow> string \<Rightarrow> int \<Rightarrow> err + normalized list" where
  "messaging_receipts env e senderId t =
     (let r = nullish (jget e ''delivery'') (jget e ''read''); status = (if truthy (jget e ''read'') then DRead else DDelivered);
          mids = List.map_filter (\<lambda>m. nonblank (asString m)) (asArray (jget r ''mids'')) @ (case nonblank (field r ''mid'') of Some m \<Rightarrow> [m] | None \<Rightarrow> []);
          receipt = (\<lambda>i w. NReceipt \<lparr>rc_providerMessageId = i, rc_recipient = senderId, rc_status = status, rc_timestamp = t, rc_error = None, rc_watermark = w\<rparr>)
      in case (mids, nonblank (field r ''watermark'')) of
           ([], Some w) \<Rightarrow> bindR (toIsoTimestamp env (JStr w) Milliseconds) (\<lambda>wt. Inr [receipt (''watermark:'' @ w) (Some wt)])
         | _ \<Rightarrow> Inr (map (\<lambda>i. receipt i None) mids))"

text \<open>What a message event stands for: its provider id, its content and what it answers.\<close>

definition messaging_body :: "json \<Rightarrow> string \<Rightarrow> (string \<times> json \<times> string option) option" where
  "messaging_body e senderId = (let ts = shown (field e ''timestamp'') in
     if truthy (jget e ''postback'') then
       (let p = jget e ''postback'' in Some (orText (field p ''mid'') (''postback:'' @ senderId @ '':'' @ ts),
          interactive_content ''button_reply'' (orText (field p ''payload'') []) (orText (field p ''title'') ''Button pressed'') None, None))
     else if truthy (jget e ''reaction'') then
       (let r = jget e ''reaction''; target = orText (field r ''mid'') [] in
        Some (''reaction:'' @ target @ '':'' @ senderId @ '':'' @ ts,
          reaction_content (orText (orElse (field r ''emoji'') (field r ''reaction'')) []) target (field r ''action'' \<noteq> Some ''unreact''), None))
     else (let m = jget e ''message'' in case nonblank (field m ''mid'') of None \<Rightarrow> None
       | Some mid \<Rightarrow> Some (mid, normalizeMessagingContent m, field (jget m ''reply_to'') ''mid'')))"

definition normalizeMessagingEvent ::
  "norm_env \<Rightarrow> (json \<Rightarrow> contact_profile) \<Rightarrow> (string \<Rightarrow> string) \<Rightarrow> json \<Rightarrow> err + normalized list" where
  "normalizeMessagingEvent env toProfile fallbackName e = (case nonblank (field (jget e ''sender'') ''id'') of
     None \<Rightarrow> Inr [NIgnored ''Event without sender.'']
   | Some senderId \<Rightarrow> bindR (toIsoTimestamp env (jget e ''timestamp'') Milliseconds) (\<lambda>t.
       if truthy (jget e ''delivery'') \<or> truthy (jget e ''read'') then messaging_receipts env e senderId t
       else (case messaging_body e senderId of
          None \<Rightarrow> Inr [NIgnored ''Message without ID.'']
        | Some (pmid, content, replyTo) \<Rightarrow>
            Inr [inbound pmid (messaging_sender (map_option toProfile (nz_profile env senderId)) (fallbackName senderId) senderId)
              (Some t) content replyTo JUndef])))"

section \<open>Telegram\<close>

definition telegramSender :: "string \<Rightarrow> json \<Rightarrow> participant" where
  "telegramSender chatId from = (let username = field from ''username'';
       name = join '' '' (List.map_filter nonblank [field from ''first_name'', field from ''last_name'']) in
     sender chatId (if name \<noteq> [] then name else case nonblank username of Some u \<Rightarrow> CHR ''@'' # u | None \<Rightarrow> ''Telegram '' @ chatId) None
       (obj_compact [(''username'', opt_json username), (''languageCode'', opt_json (field from ''language_code''))]))"

definition photo_size :: "json \<Rightarrow> int" where
  "photo_size p = (case asInteger (jget p ''file_size'') of Some n \<Rightarrow> n | None \<Rightarrow> 0)"

definition largestPhoto :: "json list \<Rightarrow> json" where
  "largestPhoto photos = foldl (\<lambda>best p. if photo_size best \<le> photo_size p then p else best) (JObj []) photos"

definition fileKinds :: "(string \<times> string \<times> string) list" where
  "fileKinds = [(''document'', ''document'', ''application/octet-stream''), (''video'', ''video'', ''video/mp4''),
     (''video_note'', ''video'', ''video/mp4''), (''animation'', ''video'', ''video/mp4''), (''audio'', ''audio'', ''audio/mpeg''),
     (''voice'', ''voice'', ''audio/ogg''), (''sticker'', ''sticker'', ''image/webp'')]"

definition telegram_file :: "json \<Rightarrow> string option \<Rightarrow> string \<times> string \<times> string \<Rightarrow> json" where
  "telegram_file message caption k = (case k of (key, mediaType, mime) \<Rightarrow> let file = jget message key in
     media_content mediaType (orText (field file ''mime_type'') mime)
       [(''providerMediaId'', opt_json (field file ''file_id'')), (''filename'', opt_json (field file ''file_name'')),
        (''sizeBytes'', opt_number (jget file ''file_size'')),
        (''caption'', opt_json (orElse caption (if key = ''sticker'' then field file ''emoji'' else None)))])"

definition telegram_contact :: "json \<Rightarrow> json" where
  "telegram_contact c = (let firstName = orText (field c ''first_name'') ''Contact''; lastName = field c ''last_name'' in
     JObj [(''type'', JStr ''CONTACT''), (''contacts'', JArr [JObj
       [(''name'', JObj ([(''formattedName'', JStr (join '' '' (List.map_filter nonblank [Some firstName, lastName]))), (''firstName'', JStr firstName)] @
          json_compact [(''lastName'', opt_json lastName)])),
        (''phones'', JArr [JObj [(''phone'', JStr (orText (field c ''phone_number'') []))]])]])])"

definition normalizeTelegramContent :: "json \<Rightarrow> json" where
  "normalizeTelegramContent message = (let caption = field message ''caption'' in
     case text_at message ''text'' of
       Some t \<Rightarrow> text_content t
     | None \<Rightarrow>
        if asArray (jget message ''photo'') \<noteq> [] then
          (let p = largestPhoto (asArray (jget message ''photo'')) in media_content ''image'' ''image/jpeg''
             [(''providerMediaId'', opt_json (field p ''file_id'')), (''sizeBytes'', opt_number (jget p ''file_size'')), (''caption'', opt_json caption)])
        else (case List.find (\<lambda>k. truthy (jget message (fst k))) fileKinds of
          Some k \<Rightarrow> telegram_file message caption k
        | None \<Rightarrow>
            if truthy (jget message ''location'') \<or> truthy (jget message ''venue'') then
              (let venue = jget message ''venue''; l = nullish (jget message ''location'') (jget venue ''location'') in
               location_content (number_or_zero (jget l ''latitude'')) (number_or_zero (jget l ''longitude'')) (field venue ''title'') (field venue ''address''))
            else if truthy (jget message ''contact'') then telegram_contact (jget message ''contact'')
            else (case List.find (\<lambda>k. truthy (jget message k)) [''poll'', ''dice'', ''game'', ''story'', ''invoice''] of
               Some k \<Rightarrow> unsupported_content k (''Unsupported Telegram '' @ k) []
             | None \<Rightarrow> unsupported_content ''unknown'' ''Unsupported Telegram message'' [])))"

text \<open>Answering a button press also stops its spinner in the customer's app; that call's outcome is dropped.\<close>

definition telegram_callback :: "norm_env \<Rightarrow> json \<Rightarrow> normalized list" where
  "telegram_callback env query = (let from = jget query ''from'';
       chatId = orElse (field (jget (jget query ''message'') ''chat'') ''id'') (field from ''id'') in
     case (nonblank chatId, nonblank (field query ''id'')) of
       (Some chat, Some q) \<Rightarrow> [inbound (''callback:'' @ q) (telegramSender chat from) (Some (nz_now env))
          (interactive_content ''button_reply'' (orText (field query ''data'') []) (orText (field query ''data'') ''Button pressed'') None) None JUndef]
     | _ \<Rightarrow> [NIgnored ''Callback without chat.''])"

definition normalize_telegram :: "norm_env \<Rightarrow> json \<Rightarrow> adapter_account \<Rightarrow> err + normalized list" where
  "normalize_telegram env payload account =
     (if truthy (jget payload ''callback_query'') then Inr (telegram_callback env (jget payload ''callback_query''))
      else let message = jget payload ''message''; chat = jget message ''chat'' in
        (case (nonblank (field chat ''id''), nonblank (field message ''message_id'')) of
           (Some chatId, Some messageId) \<Rightarrow>
             if field chat ''type'' \<noteq> Some ''private'' then Inr [NIgnored ''Group and channel chats are not supported yet.'']
             else bindR (toIsoTimestamp env (jget message ''date'') Seconds) (\<lambda>t.
               Inr [inbound (chatId @ '':'' @ messageId) (telegramSender chatId (jget message ''from'')) (Some t) (normalizeTelegramContent message)
                 (map_option (\<lambda>r. chatId @ '':'' @ r) (nonblank (field (jget message ''reply_to_message'') ''message_id''))) JUndef])
         | _ \<Rightarrow> Inr [NIgnored (''Update type is not synced (edits, channel posts, '' @ [ELLIPSIS] @ '').'')]))"

section \<open>LINE\<close>

definition normalizeLineContent :: "json \<Rightarrow> json" where
  "normalizeLineContent message = (let kind = orText (field message ''type'') ''unknown'' in
     if kind = ''text'' then text_content (orText (field message ''text'') [])
     else if kind \<in> {''image'', ''video'', ''audio''} then
       media_content kind (if kind = ''image'' then ''image/jpeg'' else if kind = ''video'' then ''video/mp4'' else ''audio/m4a'')
         [(''providerMediaId'', opt_json (field message ''id''))]
     else if kind = ''file'' then media_content ''document'' ''application/octet-stream''
         [(''providerMediaId'', opt_json (field message ''id'')), (''filename'', opt_json (field message ''fileName'')),
          (''sizeBytes'', opt_number (jget message ''fileSize''))]
     else if kind = ''location'' then
       location_content (number_or_zero (jget message ''latitude'')) (number_or_zero (jget message ''longitude'')) (field message ''title'') (field message ''address'')
     else if kind = ''sticker'' then unsupported_content ''sticker'' ''Sent a LINE sticker'' []
     else unsupported_content kind ''Unsupported LINE message'' [])"

definition line_sender :: "norm_env \<Rightarrow> string \<Rightarrow> participant" where
  "line_sender env userId = (let fallback = ''LINE user '' @ last4 userId in
     case nz_profile env userId of None \<Rightarrow> sender userId fallback None JUndef
     | Some j \<Rightarrow> sender userId (orText (text_at j ''displayName'') fallback) (nonblank (text_at j ''pictureUrl'')) JUndef)"

text \<open>What a LINE event stands for, or why it is ignored.\<close>

definition line_body :: "json \<Rightarrow> string + (string \<times> json \<times> string option)" where
  "line_body e = (case field e ''type'' of
     Some k \<Rightarrow>
       if k = ''message'' then
         (let m = jget e ''message'' in case nonblank (field m ''id'') of None \<Rightarrow> Inl ''Message without ID.''
            | Some i \<Rightarrow> Inr (i, normalizeLineContent m, field m ''quotedMessageId''))
       else if k = ''postback'' then
         (let p = field (jget e ''postback'') ''data'' in
          Inr (''postback:'' @ shown (field e ''webhookEventId''), interactive_content ''button_reply'' (orText p []) (orText p ''Button pressed'') None, None))
       else Inl (''LINE '' @ [CHR 0x22] @ k @ [CHR 0x22] @ '' events are not synced.'')
   | None \<Rightarrow> Inl (''LINE '' @ [CHR 0x22] @ ''unknown'' @ [CHR 0x22] @ '' events are not synced.''))"

definition normalize_line :: "norm_env \<Rightarrow> json \<Rightarrow> adapter_account \<Rightarrow> err + normalized list" where
  "normalize_line env payload account = (let source = jget payload ''source'' in
     if field source ''type'' \<noteq> Some ''user'' then Inr [NIgnored ''Group and room chats are not supported yet.'']
     else (case nonblank (field source ''userId'') of None \<Rightarrow> Inr [NIgnored ''Event without user.'']
       | Some userId \<Rightarrow> (case line_body payload of Inl reason \<Rightarrow> Inr [NIgnored reason]
           | Inr (pmid, content, replyTo) \<Rightarrow> bindR (toIsoTimestamp env (jget payload ''timestamp'') Milliseconds) (\<lambda>t.
               Inr [inbound pmid (line_sender env userId) (Some t) content replyTo JUndef]))))"

section \<open>Custom API and web chat\<close>

definition normalize_custom :: "norm_env \<Rightarrow> json \<Rightarrow> adapter_account \<Rightarrow> err + normalized list" where
  "normalize_custom env payload account = Inr (case nonblank (field payload ''messageId'') of
     None \<Rightarrow> [NIgnored ''Event without messageId.'']
   | Some i \<Rightarrow>
       if field payload ''type'' = Some ''status'' then
         (case STATUS_MAP (orText (field payload ''status'') []) of None \<Rightarrow> [NIgnored ''Unknown status value.'']
          | Some status \<Rightarrow> let e = jget payload ''error'' in
             [NReceipt \<lparr>rc_providerMessageId = i, rc_recipient = orText (field (jget payload ''contact'') ''id'') [], rc_status = status,
               rc_timestamp = (case given_time env (jget payload ''timestamp'') of Some t \<Rightarrow> t | None \<Rightarrow> nz_now env),
               rc_error = (if status = DFailed then Some (orText (field e ''code'') ''FAILED'',
                 orText (field e ''message'') ''Your system reported a delivery failure.'') else None), rc_watermark = None\<rparr>])
       else let c = jget payload ''contact''; email = field c ''email''; phone = field c ''phone'' in
         (case (nonblank (field c ''id''), nonblank (field payload ''text'')) of
            (Some contactId, Some t) \<Rightarrow>
              [inbound i (sender contactId (orText (orElse (field c ''name'') (orElse email phone)) (''Contact '' @ contactId)) None
                  (obj_compact [(''email'', opt_json email), (''phone'', opt_json phone)]))
                (given_time env (jget payload ''timestamp'')) (text_content t) None JUndef]
          | _ \<Rightarrow> [NIgnored ''Messages need contact.id and text.'']))"

text \<open>\<open>toUpperCase\<close> of the ASCII letters a visitor id holds.\<close>

definition upper_ascii :: "char \<Rightarrow> char" where
  "upper_ascii c = (let n = of_char c :: nat in if 97 \<le> n \<and> n \<le> 122 then char_of (n - 32) else c)"

definition normalize_webchat :: "norm_env \<Rightarrow> json \<Rightarrow> adapter_account \<Rightarrow> err + normalized list" where
  "normalize_webchat env payload account = Inr
     (case (nonblank (field payload ''visitorId''), nonblank (field payload ''clientMessageId''), nonblank (field payload ''text'')) of
        (Some v, Some c, Some t) \<Rightarrow>
          (let email = field payload ''visitorEmail'' in
           [inbound (v @ '':'' @ c)
              (sender v (case nonblank (field payload ''visitorName'') of Some n \<Rightarrow> n
                 | None \<Rightarrow> (case nonblank email of Some e \<Rightarrow> e | None \<Rightarrow> ''Website visitor '' @ map upper_ascii (last4 v))) None
                (obj_compact [(''email'', opt_json email), (''pageUrl'', opt_json (field payload ''pageUrl''))]))
              (given_time env (jget payload ''sentAt'')) (text_content t) None JUndef])
      | _ \<Rightarrow> [NIgnored ''Incomplete widget message.''])"

section \<open>Email\<close>

text \<open>The text between two words of a header line, \<open>\bFIRST\b.{0,200}\bLAST:\<close>.\<close>

definition ascii_word :: "char \<Rightarrow> bool" where
  "ascii_word c = (let n = of_char c :: nat in 48 \<le> n \<and> n \<le> 57 \<or> 65 \<le> n \<and> n \<le> 90 \<or> 97 \<le> n \<and> n \<le> 122 \<or> n = 95)"

definition line_char :: "char \<Rightarrow> bool" where
  "line_char c = (c \<noteq> CHR 10 \<and> c \<noteq> CHR 13)"

definition framed_line :: "string \<Rightarrow> string \<Rightarrow> string \<Rightarrow> bool" where
  "framed_line a b l = (startsWith l a \<and> endsWith l b \<and> length a + length b < length l \<and>
     (let mid = drop (length a) (take (length l - length b) l) in
      length mid \<le> 200 \<and> list_all line_char mid \<and> \<not> ascii_word (hd mid) \<and> \<not> ascii_word (last mid)))"

definition dashed_line :: "string \<Rightarrow> string \<Rightarrow> bool" where
  "dashed_line title l = (let a = takeWhile (\<lambda>c. c = CHR ''-'') l; r = dropWhile is_space (dropWhile (\<lambda>c. c = CHR ''-'') l);
       b = dropWhile is_space (drop (length title) r) in
     2 \<le> length a \<and> startsWith r title \<and> 2 \<le> length b \<and> list_all (\<lambda>c. c = CHR ''-'') b)"

definition header_line :: "string \<Rightarrow> string \<Rightarrow> bool" where
  "header_line name l = (startsWith l name \<and> (case drop (length name) l of c # r \<Rightarrow> is_space c \<and> r \<noteq> [] \<and> list_all line_char r | [] \<Rightarrow> False))"

text \<open>The patterns, on a trimmed line in lower case.\<close>

definition REPLY_HEADER_PATTERNS :: "(string \<Rightarrow> bool) list" where
  "REPLY_HEADER_PATTERNS = [framed_line ''on'' ''wrote:'', framed_line ''pada'' ''menulis:'', dashed_line ''original message'', dashed_line ''pesan asli'',
     (\<lambda>l. 10 \<le> length l \<and> list_all (\<lambda>c. c = CHR ''_'') l), header_line ''from:'', header_line ''dari:'']"

definition starts_reply :: "string \<Rightarrow> string \<Rightarrow> bool" where
  "starts_reply line after = (let l = to_lower (trim line); n = to_lower (trim after) in
     list_ex (\<lambda>p. p l) REPLY_HEADER_PATTERNS \<and>
     (startsWith l ''from:'' \<or> startsWith l ''dari:'' \<longrightarrow>
        list_ex (startsWith n) [''sent:'', ''date:'', ''to:'', ''terkirim:'', ''tanggal:'', ''kepada:'']))"

fun kept_lines :: "string list \<Rightarrow> string list" where
  "kept_lines [] = []"
| "kept_lines (l # ls) = (if starts_reply l (case ls of [] \<Rightarrow> [] | n # _ \<Rightarrow> n) then [] else l # kept_lines ls)"

definition quoted_line :: "string \<Rightarrow> bool" where
  "quoted_line l = (case dropWhile is_space l of [] \<Rightarrow> True | c # _ \<Rightarrow> c = CHR ''>'')"

fun crlf_to_lf :: "string \<Rightarrow> string" where
  "crlf_to_lf [] = []"
| "crlf_to_lf (c # s) = (if c = CHR 13 \<and> (case s of d # _ \<Rightarrow> d = CHR 10 | [] \<Rightarrow> False) then crlf_to_lf s else c # crlf_to_lf s)"

definition stripQuotedReply :: "string \<Rightarrow> string" where
  "stripQuotedReply txt = trim (join [CHR 10] (rev (dropWhile quoted_line (rev (kept_lines (split_on (CHR 10) (crlf_to_lf txt)))))))"

definition MAX_DATE_SKEW_MS :: int where
  "MAX_DATE_SKEW_MS = 10 * 60000"

definition receivedTimestamp :: "norm_env \<Rightarrow> string option \<Rightarrow> int" where
  "receivedTimestamp env dateHeader = (case Option.bind (nonblank dateHeader) (nz_date env) of
     Some t \<Rightarrow> if \<bar>t - nz_now env\<bar> > MAX_DATE_SKEW_MS then nz_now env else t | None \<Rightarrow> nz_now env)"

definition email_text :: "string \<Rightarrow> string" where
  "email_text fullText = (let s = stripQuotedReply fullText in if s \<noteq> [] then s else if fullText \<noteq> [] then fullText else ''(no text content)'')"

definition email_metadata :: "json \<Rightarrow> string \<Rightarrow> string list \<Rightarrow> string \<Rightarrow> string \<Rightarrow> json" where
  "email_metadata payload messageId refs fullText txt = obj_compact
     [(''subject'', opt_json (field payload ''subject'')),
      (''threadId'', JStr (case refs of r # _ \<Rightarrow> r | [] \<Rightarrow> orText (field payload ''inReplyTo'') messageId)),
      (''inReplyTo'', opt_json (field payload ''inReplyTo'')), (''references'', JArr (map JStr refs)), (''cc'', jget payload ''cc''),
      (''attachments'', if asArray (jget payload ''attachments'') \<noteq> [] then jget payload ''attachments'' else JUndef),
      (''fullText'', if fullText \<noteq> txt then JStr fullText else JUndef)]"

definition normalize_email :: "norm_env \<Rightarrow> json \<Rightarrow> adapter_account \<Rightarrow> err + normalized list" where
  "normalize_email env payload account = Inr (let from = jget payload ''from'' in
     case nonblank (map_option to_lower (field from ''address'')) of
       None \<Rightarrow> [NIgnored ''Email without a sender address.'']
     | Some address \<Rightarrow>
         if address = to_lower (credential account ''emailAddress'') then [NIgnored ''Email sent by this mailbox itself.'']
         else if (case nonblank (map_option to_lower (field payload ''autoSubmitted'')) of Some a \<Rightarrow> a \<noteq> ''no'' | None \<Rightarrow> False)
         then [NIgnored ''Automatic reply (out of office or similar).'']
         else (let messageId = orText (field payload ''messageId'')
                 (''uid:'' @ shown (field payload ''uidValidity'') @ '':'' @ shown (field payload ''uid''));
               refs = List.map_filter (\<lambda>r. nonblank (asString r)) (asArray (jget payload ''references''));
               fullText = orText (field payload ''text'') []; txt = email_text fullText in
           [inbound messageId (sender address (case nonblank (field from ''name'') of Some n \<Rightarrow> n | None \<Rightarrow> address) None
               (JObj [(''email'', JStr address)]))
             (Some (receivedTimestamp env (field payload ''date''))) (text_content txt) (field payload ''inReplyTo'')
             (email_metadata payload messageId refs fullText txt)]))"

section \<open>All adapters\<close>

fun normalizeInbound :: "channel_provider \<Rightarrow> norm_env \<Rightarrow> json \<Rightarrow> adapter_account \<Rightarrow> err + normalized list" where
  "normalizeInbound WHATSAPP_CLOUD env payload account = normalize_whatsapp env payload account"
| "normalizeInbound TELEGRAM_BOT env payload account = normalize_telegram env payload account"
| "normalizeInbound EMAIL_SMTP_IMAP env payload account = normalize_email env payload account"
| "normalizeInbound META_MESSENGER env payload account =
     normalizeMessagingEvent env messenger_profile (\<lambda>i. ''Messenger user '' @ last4 i) payload"
| "normalizeInbound META_INSTAGRAM env payload account =
     normalizeMessagingEvent env instagram_profile (\<lambda>i. ''Instagram user '' @ last4 i) payload"
| "normalizeInbound LINE_MESSAGING env payload account = normalize_line env payload account"
| "normalizeInbound WEBCHAT_EMBED env payload account = normalize_webchat env payload account"
| "normalizeInbound CUSTOM_WEBHOOK env payload account = normalize_custom env payload account"

section \<open>Reading the objects the program builds\<close>

lemma jget_Cons [simp]: "jget (JObj ((k, v) # kvs)) k' = (if k' = k then v else jget (JObj kvs) k')"
  by (simp add: jget_def)

lemma jget_Nil [simp]: "jget (JObj []) k = JUndef"
  by (simp add: jget_def)

end
