(* ===== verification/InboundContract.thy ===== *)
theory InboundContract
  imports Normalizing
begin

text \<open>
  The message content contract of \<open>packages/contracts/src/channels/inbound.ts\<close> as a predicate, and the
  proof that what every adapter normalizes has it, whatever payload arrives; that an adapter fails
  on nothing but a timestamp beyond the range of dates; and how the key an event is journaled under
  and the message id it normalizes to belong together. A NaN is the stored null.
\<close>

section \<open>The content contract\<close>

fun is_text :: "json \<Rightarrow> bool" where
  "is_text (JStr _) = True"
| "is_text _ = False"

fun is_number :: "json \<Rightarrow> bool" where
  "is_number (JNum _) = True"
| "is_number JNull = True"
| "is_number _ = False"

definition optional :: "(json \<Rightarrow> bool) \<Rightarrow> json \<Rightarrow> bool" where
  "optional ok j = (j = JUndef \<or> ok j)"

definition InboundContactCardSchema :: "json \<Rightarrow> bool" where
  "InboundContactCardSchema c =
     (let texts = (\<lambda>j ks os. list_all (\<lambda>k. is_text (jget j k)) ks \<and> list_all (\<lambda>k. optional is_text (jget j k)) os) in
      texts (jget c ''name'') [''formattedName''] [''firstName'', ''lastName''] \<and>
      list_all (\<lambda>p. texts p [''phone''] [''type'']) (asArray (jget c ''phones'')) \<and>
      list_all (\<lambda>e. texts e [''email''] [''type'']) (asArray (jget c ''emails'')) \<and> optional is_text (jget c ''organization''))"

definition InboundMediaContentSchema :: "json \<Rightarrow> bool" where
  "InboundMediaContentSchema c =
     (jstr c ''mediaType'' \<in> {''image'', ''audio'', ''video'', ''document'', ''sticker'', ''voice''} \<and> is_text (jget c ''mimeType'') \<and>
      list_all (\<lambda>k. optional is_text (jget c k)) [''url'', ''providerMediaId'', ''filename'', ''caption'', ''sha256''] \<and>
      optional is_number (jget c ''sizeBytes''))"

definition InboundLocationContentSchema :: "json \<Rightarrow> bool" where
  "InboundLocationContentSchema c = (is_number (jget c ''latitude'') \<and> is_number (jget c ''longitude'') \<and>
     optional is_text (jget c ''name'') \<and> optional is_text (jget c ''address''))"

definition InboundContactContentSchema :: "json \<Rightarrow> bool" where
  "InboundContactContentSchema c = (asArray (jget c ''contacts'') \<noteq> [] \<and> list_all InboundContactCardSchema (asArray (jget c ''contacts'')))"

definition InboundInteractiveContentSchema :: "json \<Rightarrow> bool" where
  "InboundInteractiveContentSchema c = (jstr c ''interactiveType'' \<in> {''button_reply'', ''list_reply'', ''quick_reply''} \<and>
     is_text (jget c ''id'') \<and> is_text (jget c ''title'') \<and> optional is_text (jget c ''description''))"

definition InboundReactionContentSchema :: "json \<Rightarrow> bool" where
  "InboundReactionContentSchema c = (is_text (jget c ''emoji'') \<and> is_text (jget c ''targetProviderMessageId'') \<and>
     jstr c ''action'' \<in> {''react'', ''unreact''})"

definition InboundUnsupportedContentSchema :: "json \<Rightarrow> bool" where
  "InboundUnsupportedContentSchema c = (is_text (jget c ''rawType'') \<and> optional is_text (jget c ''description'') \<and>
     (case jget c ''rawPayload'' of JUndef \<Rightarrow> True | JObj _ \<Rightarrow> True | _ \<Rightarrow> False))"

text \<open>The discriminated union; the refinements \<open>url\<close>, \<open>email\<close> and \<open>nonnegative\<close>, which no adapter
  runs, are left out, so this is the type TypeScript infers from the schema.\<close>

definition InboundMessageContentSchema :: "json \<Rightarrow> bool" where
  "InboundMessageContentSchema c = (let kind = jstr c ''type'' in
     if kind = ''TEXT'' then is_text (jget c ''text'')
     else if kind = ''MEDIA'' then InboundMediaContentSchema c
     else if kind = ''LOCATION'' then InboundLocationContentSchema c
     else if kind = ''CONTACT'' then InboundContactContentSchema c
     else if kind = ''INTERACTIVE'' then InboundInteractiveContentSchema c
     else if kind = ''REACTION'' then InboundReactionContentSchema c
     else kind = ''UNSUPPORTED'' \<and> InboundUnsupportedContentSchema c)"

section \<open>The builders keep the contract\<close>

lemma json_compact_simps [simp]: "json_compact [] = []"
    "json_compact ((k, v) # kvs) = (if v = JUndef then json_compact kvs else (k, v) # json_compact kvs)"
  by (simp_all add: json_compact_def)

lemma optional_simps [simp]: "optional ok JUndef" "ok j \<Longrightarrow> optional ok j"
  by (simp_all add: optional_def)

lemma opt_json_simps [simp]: "opt_json None = JUndef" "opt_json (Some s) = JStr s"
  by (simp_all add: opt_json_def)

lemma optional_opt_json [simp]: "optional is_text (opt_json x)"
  by (cases x) simp_all

lemma is_number_simps [simp]: "is_number (number_or_zero j)" "is_number (coordinate j)" "optional is_number (opt_number j)"
  by (simp_all add: number_or_zero_def coordinate_def opt_number_def split: option.splits)

lemma jget_compact: "jget (JObj (json_compact kvs)) k = JUndef \<or> (k, jget (JObj (json_compact kvs)) k) \<in> set kvs"
  by (auto simp: jget_def json_compact_def dest: map_of_SomeD split: option.splits)

lemmas schema_defs = InboundMessageContentSchema_def InboundMediaContentSchema_def InboundLocationContentSchema_def
  InboundContactContentSchema_def InboundInteractiveContentSchema_def InboundReactionContentSchema_def
  InboundUnsupportedContentSchema_def InboundContactCardSchema_def jstr_def Let_def

lemma text_ok [simp]: "InboundMessageContentSchema (text_content s)"
  by (simp add: schema_defs text_content_def)

lemma location_ok [simp]:
  assumes "is_number lat" "is_number long"
  shows "InboundMessageContentSchema (location_content lat long name address)"
  using assms by (cases name; cases address) (simp_all add: schema_defs location_content_def)

lemma interactive_ok [simp]:
  assumes "kind \<in> {''button_reply'', ''list_reply'', ''quick_reply''}"
  shows "InboundMessageContentSchema (interactive_content kind i title description)"
  using assms by (cases description) (auto simp: schema_defs interactive_content_def)

lemma reaction_ok [simp]: "InboundMessageContentSchema (reaction_content emoji target react)"
  by (simp add: schema_defs reaction_content_def)

lemma unsupported_ok [simp]: "InboundMessageContentSchema (unsupported_content raw description [])"
    "InboundMessageContentSchema (unsupported_content raw description [(''rawPayload'', JObj kvs)])"
  by (simp_all add: schema_defs unsupported_content_def)

text \<open>Fields of a media message beside its type, kind and MIME type.\<close>

definition media_fields :: "(string \<times> json) list \<Rightarrow> bool" where
  "media_fields rest = list_all (\<lambda>(k, v). k \<noteq> ''type'' \<and> (if k = ''sizeBytes'' then optional is_number v else optional is_text v)) rest"

lemma media_ok:
  assumes "kind \<in> {''image'', ''audio'', ''video'', ''document'', ''sticker'', ''voice''}" "media_fields rest"
  shows "InboundMessageContentSchema (media_content kind mime rest)"
proof -
  have "optional is_number (jget (JObj (json_compact rest)) ''sizeBytes'')"
    using jget_compact [of rest "''sizeBytes''"] assms(2) by (auto simp: media_fields_def list_all_iff)
  moreover have "optional is_text (jget (JObj (json_compact rest)) k)" if "k \<noteq> ''sizeBytes''" for k
    using jget_compact [of rest k] assms(2) that by (auto simp: media_fields_def list_all_iff)
  ultimately show ?thesis using assms(1) by (auto simp: schema_defs media_content_def)
qed

lemma schema_if:
  "(b \<Longrightarrow> InboundMessageContentSchema x) \<Longrightarrow> InboundMessageContentSchema y \<Longrightarrow> InboundMessageContentSchema (if b then x else y)"
  by simp

lemma whatsapp_parts_ok:
  "is_text (jget (whatsapp_phone p) ''phone'')" "optional is_text (jget (whatsapp_phone p) ''type'')"
  "is_text (jget (whatsapp_email p) ''email'')" "optional is_text (jget (whatsapp_email p) ''type'')"
  by (cases "field p ''type''"; simp add: whatsapp_phone_def whatsapp_email_def obj_compact_def)+

text \<open>A contact card from its parts, as every adapter builds one.\<close>

lemma contact_card_ok:
  assumes "\<And>p. p \<in> set phones \<Longrightarrow> is_text (jget p ''phone'') \<and> optional is_text (jget p ''type'')"
    and "\<And>e. e \<in> set emails \<Longrightarrow> is_text (jget e ''email'') \<and> optional is_text (jget e ''type'')"
  shows "InboundContactCardSchema (JObj ([(''name'', JObj ([(''formattedName'', JStr n)] @
           json_compact [(''firstName'', opt_json f), (''lastName'', opt_json l)]))] @
         (if phones \<noteq> [] then [(''phones'', JArr phones)] else []) @ (if emails \<noteq> [] then [(''emails'', JArr emails)] else []) @
         json_compact [(''organization'', opt_json org)]))" (is "InboundContactCardSchema ?c")
proof -
  have "list_all (\<lambda>k. is_text (jget (jget ?c ''name'') k)) [''formattedName'']"
    "list_all (\<lambda>k. optional is_text (jget (jget ?c ''name'') k)) [''firstName'', ''lastName'']"
    by (cases f; cases l; simp)+
  moreover have "asArray (jget ?c ''phones'') = phones" "asArray (jget ?c ''emails'') = emails" "jget ?c ''organization'' = opt_json org"
    by (cases org; simp)+
  ultimately show ?thesis using assms by (simp add: InboundContactCardSchema_def list_all_iff Let_def del: jget_Cons)
qed

lemma whatsapp_contact_ok: "InboundContactCardSchema (whatsapp_contact c)"
  unfolding whatsapp_contact_def Let_def by (intro contact_card_ok) (auto simp: whatsapp_parts_ok)

lemma whatsapp_content_ok: "InboundMessageContentSchema (normalizeWhatsAppContent message)"
proof -
  have cards: "InboundMessageContentSchema (JObj [(''type'', JStr ''CONTACT''), (''contacts'', JArr (map whatsapp_contact cs))])" if "cs \<noteq> []" for cs
    using that by (simp add: InboundMessageContentSchema_def InboundContactContentSchema_def jstr_def whatsapp_contact_ok list_all_iff)
  have other: "InboundMessageContentSchema (whatsapp_unsupported kind message)" for kind
    by (simp add: whatsapp_unsupported_def)
  have kinds: "kind \<in> set MEDIA_TYPES \<Longrightarrow> (if kind = ''audio'' \<and> v then ''voice'' else kind) \<in>
      {''image'', ''audio'', ''video'', ''document'', ''sticker'', ''voice''}" for kind v
    by (auto simp: MEDIA_TYPES_def)
  show ?thesis
    unfolding normalizeWhatsAppContent_def Let_def
    by (intro schema_if media_ok kinds other; simp add: cards other media_fields_def)
qed

lemma attachment_content_ok: "InboundMessageContentSchema (attachment_content a txt n)"
proof -
  have kinds: "ATTACHMENT_MEDIA kind = Some (m, t) \<Longrightarrow> m \<in> {''image'', ''audio'', ''video'', ''document'', ''sticker'', ''voice''}" for kind m t
    by (auto simp: ATTACHMENT_MEDIA_def split: if_splits)
  have eq: "JObj ([(''type'', JStr ''MEDIA''), (''mediaType'', JStr k), (''mimeType'', JStr mime), (''url'', JStr u)] @
      json_compact [(''caption'', opt_json c)]) = media_content k mime [(''url'', JStr u), (''caption'', opt_json c)]" for k mime u c
    by (simp add: media_content_def)
  have "InboundMessageContentSchema (media_content k mime [(''url'', JStr u), (''caption'', opt_json c)])"
    if "ATTACHMENT_MEDIA kind = Some (k, mime)" for kind k mime u c
    using kinds [OF that] by (intro media_ok) (auto simp: media_fields_def)
  then show ?thesis
    unfolding attachment_content_def Let_def eq by (auto split: option.splits intro!: schema_if)
qed

lemma messaging_content_ok: "InboundMessageContentSchema (normalizeMessagingContent message)"
  by (auto simp: normalizeMessagingContent_def Let_def attachment_content_ok split: list.splits option.splits)

lemma telegram_contact_ok: "InboundMessageContentSchema (telegram_contact c)"
  by (cases "field c ''last_name''") (simp_all add: telegram_contact_def schema_defs)

lemma telegram_content_ok: "InboundMessageContentSchema (normalizeTelegramContent message)"
proof -
  have all: "\<forall>k\<in>set fileKinds. fst (snd k) \<in> {''image'', ''audio'', ''video'', ''document'', ''sticker'', ''voice''}"
    by (simp add: fileKinds_def)
  have kinds: "fst (snd k) \<in> {''image'', ''audio'', ''video'', ''document'', ''sticker'', ''voice''}"
    if "List.find P fileKinds = Some k" for P k
  proof -
    have "k \<in> set fileKinds" using that by (auto simp: find_Some_iff)
    then show ?thesis using all by blast
  qed
  have "InboundMessageContentSchema (telegram_file message c k)" if "List.find P fileKinds = Some k" for P k c
    using kinds [OF that] unfolding telegram_file_def Let_def prod.case_eq_if
    by (intro media_ok) (auto simp: media_fields_def)
  then show ?thesis
    unfolding normalizeTelegramContent_def Let_def
    by (auto simp: telegram_contact_ok media_fields_def split: option.splits intro!: schema_if media_ok)
qed

lemma line_content_ok: "InboundMessageContentSchema (normalizeLineContent message)"
  unfolding normalizeLineContent_def Let_def by (intro schema_if media_ok) (auto simp: media_fields_def)

section \<open>Every adapter keeps the contract\<close>

text \<open>The message is the only result, has content of the contract and a sender to answer.\<close>

definition message_ok :: "normalized list \<Rightarrow> inbound_message \<Rightarrow> bool" where
  "message_ok rs m = (rs = [NMessage m] \<and> InboundMessageContentSchema (im_content m) \<and> pt_identifier (im_sender m) \<noteq> [] \<and>
     pt_displayName (im_sender m) \<noteq> None \<and> im_replyTarget m \<noteq> Some [])"

definition well_normalized :: "err + normalized list \<Rightarrow> bool" where
  "well_normalized x = (case x of Inl e \<Rightarrow> e = OtherError ''RangeError'' ''Invalid time value''
     | Inr rs \<Rightarrow> \<forall>m. NMessage m \<in> set rs \<longrightarrow> message_ok rs m)"

lemma well_inbound:
  assumes "InboundMessageContentSchema c" "i \<noteq> []"
  shows "well_normalized (Inr [inbound pmid \<lparr>pt_identifier = i, pt_displayName = Some n, pt_avatarUrl = a, pt_metadata = meta\<rparr> t c r j])"
  using assms by (simp add: well_normalized_def message_ok_def inbound_def nonblank_def split: option.splits)

lemma well_ignored [simp]: "well_normalized (Inr [NIgnored s])"
  by (simp add: well_normalized_def)

lemma well_time: "(\<And>t. well_normalized (f t)) \<Longrightarrow> well_normalized (bindR (toIsoTimestamp env v u) f)"
  by (auto simp: toIsoTimestamp_def well_normalized_def Let_def split: option.splits)

lemma well_receipt [simp]: "well_normalized (Inr [NReceipt r])"
  by (simp add: well_normalized_def)

lemma well_receipts: "list_all (\<lambda>x. \<exists>r. x = NReceipt r) rs \<Longrightarrow> well_normalized (Inr rs)"
  by (auto simp: well_normalized_def list_all_iff)

lemma whatsapp_well: "well_normalized (normalize_whatsapp env payload account)"
proof -
  have "well_normalized (whatsapp_status env s)" for s
    unfolding whatsapp_status_def by (auto split: option.split intro!: well_time)
  then show ?thesis
    by (auto simp: normalize_whatsapp_def Let_def sender_def nonblank_Some split: option.split
        intro!: well_time well_inbound whatsapp_content_ok)
qed

lemma messaging_body_ok: "messaging_body e s = Some (pmid, c, r) \<Longrightarrow> InboundMessageContentSchema c"
  by (auto simp: messaging_body_def Let_def messaging_content_ok split: if_splits option.splits)

lemma messaging_well: "well_normalized (normalizeMessagingEvent env toProfile fallbackName e)"
proof -
  have receipts: "well_normalized (messaging_receipts env e s t)" for s t
    unfolding messaging_receipts_def Let_def
    by (auto split: list.splits option.splits intro!: well_time well_receipts simp: list_all_iff)
  have body: "well_normalized (Inr [inbound pmid (messaging_sender p n s) t c r j])"
    if "messaging_body e s' = Some (pmid, c, r)" "s \<noteq> []" for pmid p n s t c r j s'
    using that messaging_body_ok [OF that(1)]
    by (auto simp: messaging_sender_def sender_def split: option.split intro!: well_inbound)
  show ?thesis
    unfolding normalizeMessagingEvent_def
    by (auto simp: receipts body nonblank_Some split: option.split intro!: well_time)
qed

lemma telegram_well: "well_normalized (normalize_telegram env payload account)"
proof -
  have "well_normalized (Inr (telegram_callback env q))" for q
    unfolding telegram_callback_def Let_def
    by (auto simp: telegramSender_def sender_def nonblank_Some Let_def split: option.split intro!: well_inbound)
  then show ?thesis
    unfolding normalize_telegram_def Let_def
    by (auto simp: telegramSender_def sender_def nonblank_Some Let_def split: option.split
        intro!: well_time well_inbound telegram_content_ok)
qed

lemma line_body_ok: "line_body e = Inr (pmid, c, r) \<Longrightarrow> InboundMessageContentSchema c"
  by (auto simp: line_body_def Let_def line_content_ok split: option.splits if_splits)

lemma line_well: "well_normalized (normalize_line env payload account)"
proof -
  have "well_normalized (Inr [inbound pmid (line_sender env u) t c r j])"
    if "line_body payload = Inr (pmid, c, r)" "u \<noteq> []" for pmid u t c r j
    using that line_body_ok [OF that(1)]
    by (auto simp: line_sender_def sender_def Let_def split: option.split intro!: well_inbound)
  then show ?thesis
    unfolding normalize_line_def Let_def
    by (auto simp: nonblank_Some split: option.split sum.split intro!: well_time)
qed

lemma custom_well: "well_normalized (normalize_custom env payload account)"
  unfolding normalize_custom_def Let_def
  by (auto simp: sender_def nonblank_Some split: option.split intro!: well_inbound)

lemma webchat_well: "well_normalized (normalize_webchat env payload account)"
  unfolding normalize_webchat_def Let_def
  by (auto simp: sender_def nonblank_Some split: option.split intro!: well_inbound)

lemma email_well: "well_normalized (normalize_email env payload account)"
  unfolding normalize_email_def Let_def
  by (auto simp: sender_def nonblank_Some split: option.split intro!: well_inbound)


text \<open>A message of the widget and the account it arrives on.\<close>

definition widget_env :: norm_env where
  "widget_env = \<lparr>nz_now = 1000, nz_date = (\<lambda>_. Some 900), nz_profile = (\<lambda>_. None)\<rparr>"

definition widget_payload :: json where
  "widget_payload = JObj [(''visitorId'', JStr ''v-1'') , (''clientMessageId'', JStr ''c1''), (''text'', JStr ''Hello''), (''sentAt'', JStr ''t'')]"

lemma widget_normalized: "\<exists>m. normalizeInbound WEBCHAT_EMBED widget_env widget_payload account = Inr [NMessage m]"
  by (simp add: widget_payload_def widget_env_def normalize_webchat_def field_def nonblank_def inbound_def Let_def)


section \<open>Journal keys and message ids\<close>

lemma inbound_result: "NMessage m \<in> set [inbound pmid from t c r j] \<Longrightarrow> im_providerMessageId m = pmid"
  by (auto simp: inbound_def)

lemma whatsapp_event_cases:
  assumes "e \<in> set (extract_whatsapp payload)"
  obtains metadata phone contacts message where "e \<in> set (whatsapp_message_event metadata phone contacts (record_of message))"
  | metadata phone s where "e \<in> set (whatsapp_status_event metadata phone (record_of s))"
  using assms by (auto simp: extract_whatsapp_def whatsapp_change_def Let_def split: if_splits)

lemma whatsapp_key:
  assumes "e \<in> set (extract_whatsapp payload)" "normalize_whatsapp env (xe_payload e) account = Inr rs" "NMessage m \<in> set rs"
  shows "xe_key e = ''msg:'' @ im_providerMessageId m"
  using assms(1)
proof (cases rule: whatsapp_event_cases)
  case (1 metadata phone contacts message)
  then show ?thesis using assms(2,3)
    by (auto simp: whatsapp_message_event_def normalize_whatsapp_def Let_def bindR_Inr_iff inbound_def split: option.splits)
next
  case (2 metadata phone s)
  then have "truthy (jget (xe_payload e) ''status'')"
    by (auto simp: whatsapp_status_event_def record_of_def split: option.splits)
  then show ?thesis using assms(2,3)
    by (auto simp: normalize_whatsapp_def whatsapp_status_def bindR_Inr_iff split: option.splits)
qed

lemma custom_key:
  assumes "e \<in> set (extract_custom payload)" "normalize_custom env (xe_payload e) account = Inr rs" "NMessage m \<in> set rs"
  shows "xe_key e = take 255 (''msg:'' @ im_providerMessageId m)"
proof -
  obtain item where e: "e \<in> set (custom_event item)" using assms(1) by (auto simp: extract_custom_def)
  show ?thesis
  proof (cases "nonblank (field item ''messageId'')")
    case None
    then show ?thesis using e by (simp add: custom_event_def)
  next
    case (Some i)
    have p: "xe_payload e = item" using e Some by (simp add: custom_event_def split: if_splits)
    show ?thesis
    proof (cases "field item ''type'' = Some ''status''")
      case True
      then show ?thesis using assms(2,3) Some p
        by (cases "STATUS_MAP (orText (field item ''status'') [])") (auto simp: normalize_custom_def Let_def)
    next
      case False
      then have "xe_key e = take 255 (''msg:'' @ i)" using e Some by (simp add: custom_event_def)
      moreover have "im_providerMessageId m = i" using assms(2,3) Some p False
        by (auto simp: normalize_custom_def Let_def inbound_def split: option.splits)
      ultimately show ?thesis by simp
    qed
  qed
qed

definition plain_message :: "json \<Rightarrow> bool" where
  "plain_message e = (list_all (\<lambda>k. \<not> truthy (jget e k)) [''delivery'', ''read'', ''postback'', ''reaction''])"

lemma meta_key:
  assumes "e \<in> set (extractMessagingEvents obj payload)" "plain_message (xe_payload e)"
    "normalizeMessagingEvent env toProfile fallback (xe_payload e) = Inr rs" "NMessage m \<in> set rs"
  shows "xe_key e = take 255 (''mid:'' @ im_providerMessageId m)"
proof -
  obtain a x where e: "e \<in> set (messaging_event a (record_of x))"
    using assms(1) by (auto simp: extractMessagingEvents_def split: if_splits)
  have quiet: "\<not> truthy (jget x ''delivery'')" "\<not> truthy (jget x ''read'')" "\<not> truthy (jget x ''postback'')" "\<not> truthy (jget x ''reaction'')"
    using e assms(2) by (auto simp: messaging_event_def plain_message_def split: option.splits)
  then obtain i where i: "nonblank (field (jget x ''message'') ''mid'') = Some i"
    and k: "xe_key e = take 255 (''mid:'' @ i)" "xe_payload e = record_of x"
    using e by (cases "nonblank (field (jget x ''message'') ''mid'')")
      (auto simp: messaging_event_def messaging_key_def Let_def split: option.splits if_splits)
  have "im_providerMessageId m = i" using assms(3,4) quiet i k(2)
    by (auto simp: normalizeMessagingEvent_def messaging_body_def Let_def bindR_Inr_iff inbound_def split: option.splits)
  then show ?thesis using k(1) by simp
qed


definition pushed :: "string \<Rightarrow> json" where
  "pushed i = JObj [(''messageId'', JStr i), (''contact'', JObj [(''id'', JStr ''c'')]), (''text'', JStr ''Hi'')]"

lemma pushed_event: "custom_event (record_of (pushed (c # i))) = [event (take 255 (''msg:'' @ c # i)) (pushed (c # i)) None]"
  by (simp add: custom_event_def pushed_def record_of_def field_def nonblank_def)

lemma pushed_normalized: "\<exists>m. normalize_custom env (pushed (c # i)) account = Inr [NMessage m] \<and> im_providerMessageId m = c # i"
  by (simp add: normalize_custom_def pushed_def field_def nonblank_def Let_def inbound_def)


text \<open>Two mails without a message id are two journal rows, but an id that is present and empty is not
  replaced when they are normalized, so that the second mail is taken for the first.\<close>

definition unnamed_mail :: "int \<Rightarrow> json" where
  "unnamed_mail u = JObj [(''uid'', JNum u), (''uidValidity'', JStr ''1''), (''messageId'', JStr []),
     (''from'', JObj [(''address'', JStr ''a@b.c'')]), (''text'', JStr ''Hi'')]"

lemma unnamed_normalized:
  assumes "to_lower (credential account ''emailAddress'') \<noteq> ''a@b.c''"
  shows "\<exists>m. normalize_email env (unnamed_mail u) account = Inr [NMessage m] \<and> im_providerMessageId m = []"
proof -
  have "to_lower ''a@b.c'' = ''a@b.c''" by code_simp
  then show ?thesis using assms
    by (simp add: normalize_email_def unnamed_mail_def field_def nonblank_def Let_def inbound_def orText_def)
qed

lemma empty_message_ids_collide:
  assumes "to_lower (credential account ''emailAddress'') \<noteq> ''a@b.c''"
  shows "eventKeyFor h (Some []) ''1'' 1 \<noteq> eventKeyFor h (Some []) ''1'' 2"
    "\<exists>m1 m2. normalize_email env (unnamed_mail 1) account = Inr [NMessage m1] \<and> normalize_email env (unnamed_mail 2) account = Inr [NMessage m2] \<and>
       im_providerMessageId m1 = im_providerMessageId m2"
proof -
  have "show_int 1 \<noteq> show_int 2" by code_simp
  then show "eventKeyFor h (Some []) ''1'' 1 \<noteq> eventKeyFor h (Some []) ''1'' 2" by (simp add: eventKeyFor_def blank_def)
  show "\<exists>m1 m2. normalize_email env (unnamed_mail 1) account = Inr [NMessage m1] \<and> normalize_email env (unnamed_mail 2) account = Inr [NMessage m2] \<and>
       im_providerMessageId m1 = im_providerMessageId m2"
    using unnamed_normalized [OF assms, of env 1] unnamed_normalized [OF assms, of env 2] by fastforce
qed

end
