(* ===== verification/ProviderHttp.thy ===== *)
theory ProviderHttp
  imports Media Normalizing
begin

text \<open>
  The HTTP client of the adapters, \<open>packages/channel-adapters/src/http/http-client.ts\<close>
  (\<open>request\<close>, \<open>send\<close>, \<open>parseBody\<close>), the runtime configuration \<open>runtime/runtime-config.ts\<close>, and the
  error mappers: Graph API (\<open>meta-common.ts\<close>), Telegram, LINE and the custom endpoint. What the network
  answers to a request is an argument. URLs are in normal form and without a query of their own;
  numbers are integers; error codes have the documented types. The informational details of an error are left
  out, and the em dash of messages is the code unit 0x97 (its place in Windows-1252).
\<close>

section \<open>Configuration\<close>

record adapter_runtime =
  rt_metaGraphApiVersion :: string
  rt_metaGraphApiBaseUrl :: string
  rt_instagramGraphApiBaseUrl :: string
  rt_telegramApiBaseUrl :: string
  rt_lineApiBaseUrl :: string
  rt_lineDataApiBaseUrl :: string
  rt_httpTimeoutMs :: int

definition DEFAULT_ADAPTER_RUNTIME :: adapter_runtime where
  "DEFAULT_ADAPTER_RUNTIME = \<lparr>rt_metaGraphApiVersion = ''v26.0'', rt_metaGraphApiBaseUrl = ''https://graph.facebook.com'',
     rt_instagramGraphApiBaseUrl = ''https://graph.instagram.com'', rt_telegramApiBaseUrl = ''https://api.telegram.org'',
     rt_lineApiBaseUrl = ''https://api.line.me'', rt_lineDataApiBaseUrl = ''https://api-data.line.me'', rt_httpTimeoutMs = 15000\<rparr>"

record runtime_env =
  META_GRAPH_API_VERSION :: "string option"
  META_GRAPH_API_BASE_URL :: "string option"
  INSTAGRAM_GRAPH_API_BASE_URL :: "string option"
  TELEGRAM_API_BASE_URL :: "string option"
  LINE_API_BASE_URL :: "string option"
  LINE_DATA_API_BASE_URL :: "string option"
  CHANNEL_HTTP_TIMEOUT_MS :: "int option"

definition trim_slashes :: "string \<Rightarrow> string" where
  "trim_slashes url = rev (dropWhile (\<lambda>c. c = CHR ''/'') (rev url))"

definition adapterRuntimeFromEnv :: "runtime_env \<Rightarrow> adapter_runtime" where
  "adapterRuntimeFromEnv env = (let d = DEFAULT_ADAPTER_RUNTIME; url = (\<lambda>x f. trim_slashes (case x env of Some u \<Rightarrow> u | None \<Rightarrow> f d)) in
     \<lparr>rt_metaGraphApiVersion = (case META_GRAPH_API_VERSION env of Some v \<Rightarrow> v | None \<Rightarrow> rt_metaGraphApiVersion d),
      rt_metaGraphApiBaseUrl = url META_GRAPH_API_BASE_URL rt_metaGraphApiBaseUrl,
      rt_instagramGraphApiBaseUrl = url INSTAGRAM_GRAPH_API_BASE_URL rt_instagramGraphApiBaseUrl,
      rt_telegramApiBaseUrl = url TELEGRAM_API_BASE_URL rt_telegramApiBaseUrl,
      rt_lineApiBaseUrl = url LINE_API_BASE_URL rt_lineApiBaseUrl,
      rt_lineDataApiBaseUrl = url LINE_DATA_API_BASE_URL rt_lineDataApiBaseUrl,
      rt_httpTimeoutMs = (case CHANNEL_HTTP_TIMEOUT_MS env of Some n \<Rightarrow> n | None \<Rightarrow> rt_httpTimeoutMs d)\<rparr>)"

section \<open>Requests and answers\<close>

record provider_http_request =
  hq_method :: string
  hq_url :: string
  hq_headers :: "(string \<times> string) list"
  hq_query :: "(string \<times> string) list"
  hq_json :: "json option"
  hq_body :: "string option"
  hq_followRedirects :: bool

definition http_get :: "string \<Rightarrow> (string \<times> string) list \<Rightarrow> provider_http_request" where
  "http_get url headers = \<lparr>hq_method = ''GET'', hq_url = url, hq_headers = headers, hq_query = [], hq_json = None, hq_body = None,
     hq_followRedirects = True\<rparr>"

definition http_post :: "string \<Rightarrow> (string \<times> string) list \<Rightarrow> json \<Rightarrow> provider_http_request" where
  "http_post url headers j = (http_get url headers)\<lparr>hq_method := ''POST'', hq_json := Some j\<rparr>"

text \<open>What goes over the wire, and what comes back: status, \<open>Retry-After\<close>, content type and text.\<close>

record wire_request =
  wq_method :: string
  wq_url :: string
  wq_headers :: "(string \<times> string) list"
  wq_body :: "string option"
  wq_redirect :: string

datatype wire_answer = Answered nat retry_after string string | TimedOut | Unreachable

type_synonym wire = "wire_request \<Rightarrow> wire_answer"

definition with_header :: "string \<Rightarrow> string \<Rightarrow> (string \<times> string) list \<Rightarrow> (string \<times> string) list" where
  "with_header k v hs = (if k \<in> set (map fst hs) then map (\<lambda>h. if fst h = k then (k, v) else h) hs else hs @ [(k, v)])"

definition wire_of :: "provider_http_request \<Rightarrow> wire_request" where
  "wire_of q = (let headers = foldl (\<lambda>hs (k, v). with_header k v hs) [(''Accept'', ''application/json'')] (hq_headers q) in
     \<lparr>wq_method = hq_method q, wq_url = hq_url q @ (if hq_query q = [] then [] else CHR ''?'' # search_params (hq_query q)),
      wq_headers = (if hq_json q = None then headers else with_header ''Content-Type'' ''application/json'' headers),
      wq_body = (case hq_json q of Some j \<Rightarrow> Some (stringify j) | None \<Rightarrow> hq_body q),
      wq_redirect = (if hq_followRedirects q then ''follow'' else ''manual'')\<rparr>)"

definition parseBody :: "string \<Rightarrow> string \<Rightarrow> json" where
  "parseBody contentType body = (if body = [] then JNull
     else if str_includes contentType ''json'' \<or> take 1 (trim body) \<in> {''['', ''{''}
     then (case parse_json body of Some j \<Rightarrow> j | None \<Rightarrow> JStr body) else JStr body)"

definition unanswered :: "channel_provider \<Rightarrow> bool \<Rightarrow> err" where
  "unanswered p timedOut = ProviderFailure (ChannelProviderError p PTRANSIENT
     (if timedOut then ''PROVIDER_TIMEOUT'' else ''PROVIDER_UNREACHABLE'')
     (if timedOut then ''The '' @ providerLabel p @ '' API did not respond in time.'' else ''Could not reach the '' @ providerLabel p @ '' API.''))"

record http_response =
  hr_status :: nat
  hr_retryAfter :: retry_after
  hr_data :: json

type_synonym error_mapper = "nat \<Rightarrow> json \<Rightarrow> retry_after \<Rightarrow> provider_error"

definition request :: "channel_provider \<Rightarrow> error_mapper \<Rightarrow> wire \<Rightarrow> provider_http_request \<Rightarrow> err + http_response" where
  "request p mapError wire q = (case wire (wire_of q) of
     TimedOut \<Rightarrow> Inl (unanswered p True)
   | Unreachable \<Rightarrow> Inl (unanswered p False)
   | Answered status ra contentType body \<Rightarrow>
       (let j = parseBody contentType body in
        if 200 \<le> status \<and> status < 300 then Inr \<lparr>hr_status = status, hr_retryAfter = ra, hr_data = j\<rparr>
        else Inl (ProviderFailure (mapError status j ra))))"

text \<open>\<open>data.key\<close>, which throws on null.\<close>

definition read_member :: "json \<Rightarrow> string \<Rightarrow> err + json" where
  "read_member j k = (if j = JNull \<or> j = JUndef
     then Inl (OtherError ''TypeError'' (''Cannot read properties of null (reading '' @ [CHR 0x27] @ k @ [CHR 0x27] @ '')''))
     else Inr (jget j k))"

section \<open>Graph API errors\<close>

definition RATE_LIMIT_CODES :: "int list" where
  "RATE_LIMIT_CODES = [4, 17, 32, 613, 80007, 130429, 131048, 131056]"

definition TRANSIENT_CODES :: "int list" where
  "TRANSIENT_CODES = [1, 2, 131000, 131016, 133004]"

definition RECIPIENT_CODES :: "int list" where
  "RECIPIENT_CODES = [131026, 131021, 551, 2018001, 131045]"

definition categorizeGraphError :: "int option \<Rightarrow> int option \<Rightarrow> nat \<Rightarrow> error_category" where
  "categorizeGraphError code subcode status = (case code of
     None \<Rightarrow> if status = 401 then PAUTHENTICATION else if status = 429 then PRATE_LIMITED
             else if status \<ge> 500 then PTRANSIENT else PINVALID_REQUEST
   | Some c \<Rightarrow>
       if c = 190 \<or> c = 102 \<or> c = 463 \<or> c = 467 then PAUTHENTICATION
       else if c \<in> set RATE_LIMIT_CODES then PRATE_LIMITED
       else if c = 131047 \<or> subcode = Some 2018278 \<or> subcode = Some 2534022 then PREPLY_WINDOW_CLOSED
       else if c \<in> set RECIPIENT_CODES then PRECIPIENT_UNAVAILABLE
       else if c \<in> set TRANSIENT_CODES then PTRANSIENT
       else if c = 133010 \<or> c = 131030 then PCONFIGURATION
       else if c = 10 \<or> c = 3 \<or> c = 368 \<or> 200 \<le> c \<and> c \<le> 299 then PPERMISSION
       else if c = 803 \<or> c = 100 then (if subcode = Some 33 then PNOT_FOUND else PINVALID_REQUEST)
       else if status \<ge> 500 then PTRANSIENT else PINVALID_REQUEST)"

definition int_member :: "json \<Rightarrow> string \<Rightarrow> int option" where
  "int_member j k = (case jget j k of JNum n \<Rightarrow> Some n | _ \<Rightarrow> None)"

text \<open>The em dash is the code unit 0x97.\<close>

definition EM_DASH :: char where "EM_DASH = CHR 0x97"

definition api_returned :: "channel_provider \<Rightarrow> nat \<Rightarrow> string" where
  "api_returned p status = ''The '' @ providerLabel p @ '' API returned HTTP '' @ show_nat status @ ''.''"

definition graph_message :: "json \<Rightarrow> json" where
  "graph_message e = (let errorData = jget e ''error_data'';
       details = (case errorData of JStr s \<Rightarrow> JStr s | _ \<Rightarrow> jget errorData ''details'') in
     nullish (jget e ''error_user_msg'')
       (JStr (join ([CHR 0x20, EM_DASH, CHR 0x20]) (map js_String (filter truthy [jget e ''message'', details])))))"

definition mapGraphError :: "int \<Rightarrow> channel_provider \<Rightarrow> error_mapper" where
  "mapGraphError now p status j ra = (let e = jget j ''error'' in
     if \<not> truthy e then mapHttpStatus now p status ra (api_returned p status) None
     else (let readable = graph_message e in
       (ChannelProviderError p (categorizeGraphError (int_member e ''code'') (int_member e ''error_subcode'') status)
          (case int_member e ''code'' of Some c \<Rightarrow> show_int c | None \<Rightarrow> ''HTTP_'' @ show_nat status)
          (if truthy readable then js_String readable else api_returned p status))
         \<lparr>pv_httpStatus := Some status, pv_retryAfterSeconds := parseRetryAfter now ra\<rparr>))"

section \<open>Telegram, LINE and custom endpoints\<close>

definition telegram_category :: "int \<Rightarrow> string \<Rightarrow> error_category" where
  "telegram_category code lower =
     (if code = 401 \<or> code = 404 then PAUTHENTICATION
      else if code = 429 then PRATE_LIMITED
      else if code = 409 then PCONFIGURATION
      else if code = 403 \<or> str_includes lower ''chat not found'' \<or> str_includes lower ''user is deactivated'' then PRECIPIENT_UNAVAILABLE
      else if code \<ge> 500 then PTRANSIENT else PINVALID_REQUEST)"

definition mapTelegramError :: error_mapper where
  "mapTelegramError status j ra =
     (let description = (case jget j ''description'' of JStr s \<Rightarrow> s | _ \<Rightarrow> ''Telegram returned HTTP '' @ show_nat status @ ''.'');
          code = (case int_member j ''error_code'' of Some c \<Rightarrow> c | None \<Rightarrow> int status);
          lower = to_lower description; category = telegram_category code lower;
          friendly = (if category = PAUTHENTICATION then ''Telegram rejected the bot token. Copy a fresh token from @BotFather.''
            else if str_includes lower ''bot was blocked'' then ''The customer blocked this bot, so Telegram will not deliver messages.'' else description)
      in (ChannelProviderError TELEGRAM_BOT category (show_int code) friendly)
           \<lparr>pv_httpStatus := Some status, pv_retryAfterSeconds := int_member (jget j ''parameters'') ''retry_after''\<rparr>)"

definition mapLineError :: "int \<Rightarrow> error_mapper" where
  "mapLineError now status j ra =
     (let message = orText (field j ''message'') (''LINE returned HTTP '' @ show_nat status @ ''.'');
          details = join ''; '' (List.map_filter (\<lambda>d. nonblank (field d ''message'')) (asArray (jget j ''details'')));
          readable = (if details \<noteq> [] then message @ '' ('' @ details @ '')'' else message)
      in if status = 429 \<and> str_includes (to_lower message) ''monthly limit''
         then (ChannelProviderError LINE_MESSAGING PCONFIGURATION ''MONTHLY_LIMIT_REACHED''
                 ''This LINE Official Account has used its monthly message quota.'')\<lparr>pv_httpStatus := Some status\<rparr>
         else mapHttpStatus now LINE_MESSAGING status ra
                (if status = 401 then ''LINE rejected the channel access token. Issue a new long-lived token.'' else readable) None)"

definition mapCustomError :: "int \<Rightarrow> error_mapper" where
  "mapCustomError now status j ra = mapHttpStatus now CUSTOM_WEBHOOK status ra
     (''Your endpoint returned HTTP '' @ show_nat status @ (case nonblank (orElse (field j ''message'') (field j ''error'')) of
        Some m \<Rightarrow> '': '' @ m | None \<Rightarrow> ''.'')) None"

end
