(* ===== verification/Sending.thy ===== *)
theory Sending
  imports ProviderHttp Outbound
begin

text \<open>
  \<open>sendMessage\<close> of the eight adapters with the request bodies they build
  (\<open>packages/channel-adapters/src/providers\<close>). The content is one of the outbound contract's; what
  the network and the mail server answer, the clock and a random retry key are arguments.
\<close>

section \<open>The environment\<close>

record mail_message =
  mm_fromName :: string
  mm_fromAddress :: string
  mm_to :: string
  mm_subject :: string
  mm_text :: string
  mm_messageId :: string
  mm_inReplyTo :: "string option"
  mm_references :: "string list"

text \<open>\<open>sn_smtp\<close> is the transport: it throws, or answers the message id and the rejected addresses.\<close>

record send_env =
  sn_runtime :: adapter_runtime
  sn_wire :: wire
  sn_smtp :: "mail_server \<Rightarrow> mail_message \<Rightarrow> mail_thrown + json \<times> json list"
  sn_norm :: norm_env
  sn_iso :: string
  sn_uuid :: string
  sn_hmac :: hmac

definition sn_now :: "send_env \<Rightarrow> int" where
  "sn_now env = nz_now (sn_norm env)"

definition bearer :: "string \<Rightarrow> (string \<times> string) list" where
  "bearer token = [(''Authorization'', ''Bearer '' @ token)]"

definition accepted_as :: "send_env \<Rightarrow> string \<Rightarrow> send_result" where
  "accepted_as env i = \<lparr>sr_providerMessageId = Some i, sr_providerTimestamp = Some (sn_now env)\<rparr>"

definition refuse :: "channel_provider \<Rightarrow> string \<Rightarrow> string \<Rightarrow> err" where
  "refuse p code message = ProviderFailure (ChannelProviderError p PINVALID_REQUEST code message)"

definition missing_message_id :: "channel_provider \<Rightarrow> string \<Rightarrow> err" where
  "missing_message_id p name = ProviderFailure (ChannelProviderError p PTRANSIENT ''MISSING_MESSAGE_ID''
     (name @ '' accepted the request but returned no message ID.''))"

section \<open>Content\<close>

definition content_type :: "json \<Rightarrow> string" where
  "content_type c = jstr c ''type''"

definition action_buttons :: "json \<Rightarrow> json list" where
  "action_buttons c = asArray (jget (jget c ''action'') ''buttons'')"

definition has_buttons :: "json \<Rightarrow> bool" where
  "has_buttons c = (jstr (jget c ''action'') ''actionType'' = ''buttons'')"

definition section_rows :: "json \<Rightarrow> json list" where
  "section_rows c = concat (map (\<lambda>s. asArray (jget s ''rows'')) (asArray (jget (jget c ''action'') ''sections'')))"

definition action_items :: "json \<Rightarrow> json list" where
  "action_items c = (if has_buttons c then action_buttons c else section_rows c)"

definition lower_type :: "json \<Rightarrow> string" where
  "lower_type c = to_lower (content_type c)"

section \<open>WhatsApp\<close>

definition whatsapp_media :: "json \<Rightarrow> (string \<times> json) list" where
  "whatsapp_media c = (let kind = (if jstr c ''mediaType'' = ''voice'' then ''audio'' else jstr c ''mediaType'') in
     [(''type'', JStr kind),
      (kind, JObj ((if truthy (jget c ''providerMediaId'') then [(''id'', jget c ''providerMediaId'')] else [(''link'', jget c ''url'')]) @
         (if truthy (jget c ''caption'') \<and> kind \<noteq> ''audio'' \<and> kind \<noteq> ''sticker'' then [(''caption'', jget c ''caption'')] else []) @
         (if truthy (jget c ''filename'') \<and> kind = ''document'' then [(''filename'', jget c ''filename'')] else [])))])"

definition whatsapp_interactive :: "json \<Rightarrow> json" where
  "whatsapp_interactive c =
     (let action = (if has_buttons c
          then JObj [(''buttons'', JArr (map (\<lambda>b. JObj [(''type'', JStr ''reply''),
                 (''reply'', JObj [(''id'', jget b ''id''), (''title'', jget b ''title'')])]) (action_buttons c)))]
          else JObj [(''button'', jget (jget c ''action'') ''buttonTitle''), (''sections'', jget (jget c ''action'') ''sections'')])
      in JObj ([(''type'', JStr (if has_buttons c then ''button'' else ''list'')), (''body'', JObj [(''text'', jget c ''bodyText'')])] @
           (if truthy (jget c ''headerText'') then [(''header'', JObj [(''type'', JStr ''text''), (''text'', jget c ''headerText'')])] else []) @
           (if truthy (jget c ''footerText'') then [(''footer'', JObj [(''text'', jget c ''footerText'')])] else []) @
           [(''action'', action)]))"

definition buildWhatsAppContent :: "json \<Rightarrow> (string \<times> json) list" where
  "buildWhatsAppContent c =
     (if content_type c = ''TEXT'' then [(''type'', JStr ''text''), (''text'', JObj [(''body'', jget c ''text''), (''preview_url'', JBool True)])]
      else if content_type c = ''MEDIA'' then whatsapp_media c
      else if content_type c = ''TEMPLATE'' then [(''type'', JStr ''template''), (''template'', JObj [(''name'', jget c ''templateName''),
        (''language'', JObj [(''code'', jget c ''language'')]), (''components'', jget c ''components'')])]
      else if content_type c = ''LOCATION'' then [(''type'', JStr ''location''), (''location'', obj_compact
        [(''latitude'', jget c ''latitude''), (''longitude'', jget c ''longitude''), (''name'', jget c ''name''), (''address'', jget c ''address'')])]
      else [(''type'', JStr ''interactive''), (''interactive'', whatsapp_interactive c)])"

definition graph_url :: "send_env \<Rightarrow> string \<Rightarrow> string" where
  "graph_url env path = rt_metaGraphApiBaseUrl (sn_runtime env) @ ''/'' @ rt_metaGraphApiVersion (sn_runtime env) @ ''/'' @ path"

definition whatsapp_request :: "send_env \<Rightarrow> outbound_intent \<Rightarrow> adapter_account \<Rightarrow> provider_http_request" where
  "whatsapp_request env i a = http_post (graph_url env (credential a ''phoneNumberId'' @ ''/messages'')) (bearer (credential a ''accessToken''))
     (JObj ([(''messaging_product'', JStr ''whatsapp''), (''recipient_type'', JStr ''individual''), (''to'', JStr (in_destination i))] @
        buildWhatsAppContent (in_content i) @
        (case in_replyTo i of Some r \<Rightarrow> [(''context'', JObj [(''message_id'', JStr r)])] | None \<Rightarrow> [])))"

definition send_whatsapp :: "send_env \<Rightarrow> outbound_intent \<Rightarrow> adapter_account \<Rightarrow> err + send_result" where
  "send_whatsapp env i a =
     bindR (request WHATSAPP_CLOUD (mapGraphError (sn_now env) WHATSAPP_CLOUD) (sn_wire env) (whatsapp_request env i a)) (\<lambda>r.
     bindR (read_member (hr_data r) ''messages'') (\<lambda>ms.
       let m = jget (first_of ms) ''id'' in
       if \<not> truthy m then Inl (missing_message_id WHATSAPP_CLOUD ''WhatsApp'') else Inr (accepted_as env (js_String m))))"

section \<open>Telegram\<close>

text \<open>A JavaScript number in a JSON text: NaN becomes null. Message ids are integers.\<close>

definition number_json :: "rat option \<Rightarrow> json" where
  "number_json v = (case v of Some x \<Rightarrow> JNum \<lfloor>x\<rfloor> | None \<Rightarrow> JNull)"

definition telegram_media_method :: "string \<Rightarrow> string \<times> string" where
  "telegram_media_method kind = (case map_of [(''image'', ''sendPhoto'', ''photo''), (''video'', ''sendVideo'', ''video''), (''audio'', ''sendAudio'', ''audio''),
     (''voice'', ''sendVoice'', ''voice''), (''document'', ''sendDocument'', ''document''), (''sticker'', ''sendSticker'', ''sticker'')] kind of
     Some m \<Rightarrow> m | None \<Rightarrow> ([], []))"

definition telegram_keyboard :: "json \<Rightarrow> json" where
  "telegram_keyboard c = JArr (map (\<lambda>b. JArr [JObj [(''text'', jget b ''title''), (''callback_data'', JStr (take 64 (jstr b ''id'')))]]) (action_items c))"

definition buildTelegramRequest :: "json \<Rightarrow> err + string \<times> (string \<times> json) list" where
  "buildTelegramRequest c =
     (if content_type c = ''TEXT'' then Inr (''sendMessage'', [(''text'', jget c ''text'')])
      else if content_type c = ''MEDIA'' then
        (case telegram_media_method (jstr c ''mediaType'') of (method, key) \<Rightarrow>
           Inr (method, (key, nullish (jget c ''providerMediaId'') (jget c ''url'')) # json_compact [(''caption'', jget c ''caption'')]))
      else if content_type c = ''LOCATION'' then Inr (''sendLocation'', [(''latitude'', jget c ''latitude''), (''longitude'', jget c ''longitude'')])
      else if content_type c = ''INTERACTIVE'' then
        Inr (''sendMessage'', [(''text'', jget c ''bodyText''), (''reply_markup'', JObj [(''inline_keyboard'', telegram_keyboard c)])])
      else Inl (refuse TELEGRAM_BOT ''TEMPLATES_UNSUPPORTED'' ''Telegram does not support message templates.''))"

definition telegram_call :: "send_env \<Rightarrow> string \<Rightarrow> string \<Rightarrow> json \<Rightarrow> err + json" where
  "telegram_call env token method params =
     bindR (request TELEGRAM_BOT mapTelegramError (sn_wire env)
       (http_post (rt_telegramApiBaseUrl (sn_runtime env) @ ''/bot'' @ token @ ''/'' @ method) [] params)) (\<lambda>r.
     bindR (read_member (hr_data r) ''ok'') (\<lambda>ok.
       if \<not> truthy ok \<or> jget (hr_data r) ''result'' = JUndef
       then Inl (ProviderFailure (mapTelegramError (hr_status r) (hr_data r) (hr_retryAfter r)))
       else Inr (jget (hr_data r) ''result'')))"

definition telegram_reply :: "outbound_intent \<Rightarrow> (string \<times> json) list" where
  "telegram_reply i = (case Option.bind (in_replyTo i) (\<lambda>r. nonblank (Some (last (split_on (CHR '':'') r)))) of
     Some k \<Rightarrow> [(''reply_parameters'', JObj [(''message_id'', number_json (js_Number k)), (''allow_sending_without_reply'', JBool True)])]
   | None \<Rightarrow> [])"

definition send_telegram :: "send_env \<Rightarrow> outbound_intent \<Rightarrow> adapter_account \<Rightarrow> err + send_result" where
  "send_telegram env i a =
     bindR (buildTelegramRequest (in_content i)) (\<lambda>(method, params).
     bindR (telegram_call env (credential a ''botToken'') method (JObj ((''chat_id'', JStr (in_destination i)) # params @ telegram_reply i))) (\<lambda>result.
     bindR (read_member result ''message_id'') (\<lambda>mid.
     bindR (toIsoTimestamp (sn_norm env) (jget result ''date'') Seconds) (\<lambda>t.
       Inr \<lparr>sr_providerMessageId = Some (in_destination i @ '':'' @ js_String mid), sr_providerTimestamp = Some t\<rparr>))))"

section \<open>LINE\<close>

text \<open>\<open>/^[0-9a-f-]{36}$/i\<close>.\<close>

definition uuid_like :: "string \<Rightarrow> bool" where
  "uuid_like s = (length s = 36 \<and> list_all (\<lambda>c. is_digit c \<or> c \<in> set ''abcdefABCDEF-'') s)"

definition line_item :: "json \<Rightarrow> json" where
  "line_item b = JObj [(''type'', JStr ''action''), (''action'', JObj [(''type'', JStr ''postback''), (''label'', JStr (take 20 (jstr b ''title''))),
     (''data'', jget b ''id''), (''displayText'', jget b ''title'')])]"

definition buildLineMessage :: "json \<Rightarrow> err + json" where
  "buildLineMessage c = (let url = jget c ''url''; unsupported = Inl (refuse LINE_MESSAGING ''CONTENT_UNSUPPORTED''
         (''LINE cannot send this '' @ lower_type c @ '' message.'')) in
     if content_type c = ''TEXT'' then Inr (JObj [(''type'', JStr ''text''), (''text'', jget c ''text'')])
     else if content_type c = ''MEDIA'' then
       (if truthy url \<and> jstr c ''mediaType'' \<in> {''image'', ''video''}
        then Inr (JObj [(''type'', JStr (jstr c ''mediaType'')), (''originalContentUrl'', url), (''previewImageUrl'', url)]) else unsupported)
     else if content_type c = ''LOCATION'' then
       Inr (JObj [(''type'', JStr ''location''), (''title'', nullish (jget c ''name'') (JStr ''Location'')),
         (''address'', nullish (jget c ''address'') (JStr (js_String (jget c ''latitude'') @ '', '' @ js_String (jget c ''longitude'')))),
         (''latitude'', jget c ''latitude''), (''longitude'', jget c ''longitude'')])
     else if content_type c = ''INTERACTIVE'' then
       Inr (JObj [(''type'', JStr ''text''), (''text'', jget c ''bodyText''),
         (''quickReply'', JObj [(''items'', JArr (map line_item (take 13 (action_items c))))])])
     else unsupported)"

definition line_retry_key :: "send_env \<Rightarrow> outbound_intent \<Rightarrow> string" where
  "line_retry_key env i = (if uuid_like (in_intentId i) then in_intentId i else sn_uuid env)"

definition line_request :: "send_env \<Rightarrow> json \<Rightarrow> outbound_intent \<Rightarrow> adapter_account \<Rightarrow> provider_http_request" where
  "line_request env message i a = http_post (rt_lineApiBaseUrl (sn_runtime env) @ ''/v2/bot/message/push'')
     (bearer (credential a ''channelAccessToken'') @ [(''X-Line-Retry-Key'', line_retry_key env i)])
     (JObj [(''to'', JStr (in_destination i)), (''messages'', JArr [message])])"

definition http_status_of :: "err \<Rightarrow> nat option" where
  "http_status_of e = (case e of ProviderFailure pe \<Rightarrow> pv_httpStatus pe | _ \<Rightarrow> None)"

text \<open>A 409 means that an earlier attempt with this retry key was accepted.\<close>

definition send_line :: "send_env \<Rightarrow> outbound_intent \<Rightarrow> adapter_account \<Rightarrow> err + send_result" where
  "send_line env i a = bindR (buildLineMessage (in_content i)) (\<lambda>message.
     case bindR (request LINE_MESSAGING (mapLineError (sn_now env)) (sn_wire env) (line_request env message i a)) (\<lambda>r.
            bindR (read_member (hr_data r) ''sentMessages'') (\<lambda>ms.
              let m = jget (first_of ms) ''id'' in
              Inr (accepted_as env (if m = JUndef \<or> m = JNull then ''line:'' @ line_retry_key env i else js_String m)))) of
       Inr r \<Rightarrow> Inr r
     | Inl e \<Rightarrow> if http_status_of e = Some 409
         then Inr \<lparr>sr_providerMessageId = Some (''line:'' @ line_retry_key env i), sr_providerTimestamp = None\<rparr> else Inl e)"

section \<open>Messenger and Instagram\<close>

definition meta_attachment_type :: "string \<Rightarrow> string" where
  "meta_attachment_type kind = (if kind = ''image'' \<or> kind = ''sticker'' then ''image'' else if kind = ''video'' then ''video''
     else if kind = ''document'' then ''file'' else ''audio'')"

definition quick_reply_option :: "json \<Rightarrow> json" where
  "quick_reply_option b = JObj [(''content_type'', JStr ''text''), (''title'', JStr (take 20 (jstr b ''title''))), (''payload'', jget b ''id'')]"

definition buildMessagingSendBody :: "string \<Rightarrow> json \<Rightarrow> (string \<times> json) list option" where
  "buildMessagingSendBody recipientId c = (let recipient = (''recipient'', JObj [(''id'', JStr recipientId)]) in
     if content_type c = ''TEXT'' then Some [recipient, (''message'', JObj [(''text'', jget c ''text'')])]
     else if content_type c = ''MEDIA'' then
       (if \<not> truthy (jget c ''url'') then None
        else Some [recipient, (''message'', JObj [(''attachment'', JObj [(''type'', JStr (meta_attachment_type (jstr c ''mediaType''))),
          (''payload'', JObj [(''url'', jget c ''url''), (''is_reusable'', JBool False)])])])])
     else if content_type c = ''INTERACTIVE'' then
       Some [recipient, (''message'', JObj [(''text'', jget c ''bodyText''),
         (''quick_replies'', JArr (take 13 (map quick_reply_option (action_items c))))])]
     else None)"

text \<open>\<open>p\<close> is Messenger or Instagram; the Send API of a Page and of an Instagram account.\<close>

definition meta_request :: "channel_provider \<Rightarrow> send_env \<Rightarrow> (string \<times> json) list \<Rightarrow> adapter_account \<Rightarrow> provider_http_request" where
  "meta_request p env body a =
     (if p = META_MESSENGER
      then http_post (graph_url env (credential a ''pageId'' @ ''/messages'')) (bearer (credential a ''pageAccessToken''))
             (JObj (body @ [(''messaging_type'', JStr ''RESPONSE'')]))
      else http_post (rt_instagramGraphApiBaseUrl (sn_runtime env) @ ''/'' @ rt_metaGraphApiVersion (sn_runtime env) @ ''/me/messages'')
             (bearer (credential a ''accessToken'')) (JObj body))"

definition meta_name :: "channel_provider \<Rightarrow> string" where
  "meta_name p = (if p = META_MESSENGER then ''Messenger'' else ''Instagram'')"

definition send_meta :: "channel_provider \<Rightarrow> send_env \<Rightarrow> outbound_intent \<Rightarrow> adapter_account \<Rightarrow> err + send_result" where
  "send_meta p env i a = (case buildMessagingSendBody (in_destination i) (in_content i) of
     None \<Rightarrow> Inl (refuse p ''CONTENT_UNSUPPORTED'' (meta_name p @ '' cannot send '' @ lower_type (in_content i) @ '' messages.''))
   | Some body \<Rightarrow>
       bindR (request p (mapGraphError (sn_now env) p) (sn_wire env) (meta_request p env body a)) (\<lambda>r.
       bindR (read_member (hr_data r) ''message_id'') (\<lambda>m.
         if \<not> truthy m then Inl (missing_message_id p (meta_name p)) else Inr (accepted_as env (js_String m)))))"

section \<open>Email\<close>

definition reply_subject :: "adapter_account \<Rightarrow> string option \<Rightarrow> string" where
  "reply_subject a subject = (case nonblank subject of
     Some s \<Rightarrow> if startsWith (to_lower s) ''re:'' then s else ''Re: '' @ s
   | None \<Rightarrow> ''Message from '' @ aa_name a)"

definition own_message_id :: "outbound_intent \<Rightarrow> adapter_account \<Rightarrow> string" where
  "own_message_id i a = ''<'' @ in_intentId i @ ''@'' @
     (case split_on (CHR ''@'') (credential a ''emailAddress'') of _ # host # _ \<Rightarrow> host | _ \<Rightarrow> ''vynor.local'') @ ''>''"

definition mail_for :: "outbound_intent \<Rightarrow> adapter_account \<Rightarrow> mail_message" where
  "mail_for i a = \<lparr>mm_fromName = (if credential a ''senderName'' \<noteq> [] then credential a ''senderName'' else aa_name a),
     mm_fromAddress = credential a ''emailAddress'', mm_to = in_destination i, mm_subject = reply_subject a (in_subject i),
     mm_text = jstr (in_content i) ''text'', mm_messageId = own_message_id i a, mm_inReplyTo = nonblank (in_inReplyTo i),
     mm_references = filter (\<lambda>r. r \<noteq> []) (in_references i)\<rparr>"

definition smtp_server :: "adapter_account \<Rightarrow> mail_server" where
  "smtp_server a = (let s = jget (aa_credentials a) ''smtp'' in
     \<lparr>sv_host = jstr s ''host'', sv_port = (case jget s ''port'' of JNum n \<Rightarrow> nat n | _ \<Rightarrow> 0)\<rparr>)"

definition rejected_address :: "json \<Rightarrow> string option" where
  "rejected_address r = (case r of JStr s \<Rightarrow> Some s | _ \<Rightarrow> field r ''address'')"

definition mail_refused :: "string \<Rightarrow> mail_thrown" where
  "mail_refused address = Categorised (ChannelProviderError EMAIL_SMTP_IMAP PRECIPIENT_UNAVAILABLE ''RECIPIENT_REJECTED''
     (''The mail server rejected '' @ address @ ''.''))"

definition send_email :: "send_env \<Rightarrow> outbound_intent \<Rightarrow> adapter_account \<Rightarrow> err + send_result" where
  "send_email env i a =
     (if content_type (in_content i) \<noteq> ''TEXT''
      then Inl (refuse EMAIL_SMTP_IMAP ''EMAIL_CONTENT_UNSUPPORTED'' ''Only text replies can be sent by email for now.'')
      else (case bindR (sn_smtp env (smtp_server a) (mail_for i a)) (\<lambda>(mid, rejected).
                   if Some (in_destination i) \<in> set (map rejected_address rejected) then Inl (mail_refused (in_destination i))
                   else Inr (accepted_as env (orText (asString mid) (own_message_id i a)))) of
         Inr r \<Rightarrow> Inr r
       | Inl e \<Rightarrow> Inl (ProviderFailure (mapMailError e SMTP (smtp_server a) Runtime))))"

section \<open>Custom API and web chat\<close>

definition custom_post :: "send_env \<Rightarrow> adapter_account \<Rightarrow> (string \<times> json) list \<Rightarrow> err + http_response" where
  "custom_post env a body = (case nonblank (secret a ''webhookSecret'') of
     None \<Rightarrow> Inl (ProviderFailure (ChannelProviderError CUSTOM_WEBHOOK PCONFIGURATION ''SIGNING_SECRET_MISSING''
       ''This channel has no signing secret. Reconnect it to generate one.''))
   | Some s \<Rightarrow> (let j = stringify (JObj body); timestamp = show_int (sn_now env div 1000) in
       request CUSTOM_WEBHOOK (mapCustomError (sn_now env)) (sn_wire env)
         \<lparr>hq_method = ''POST'', hq_url = credential a ''outboundUrl'',
          hq_headers = [(''Content-Type'', ''application/json''), (''X-Vynor-Timestamp'', timestamp),
            (''X-Vynor-Signature'', signCustomApiPayload (sn_hmac env) s timestamp (utf8 j)), (''X-Vynor-Channel'', aa_id a)],
          hq_query = [], hq_json = None, hq_body = Some j, hq_followRedirects = False\<rparr>))"

definition send_custom :: "send_env \<Rightarrow> outbound_intent \<Rightarrow> adapter_account \<Rightarrow> err + send_result" where
  "send_custom env i a =
     (if content_type (in_content i) \<noteq> ''TEXT''
      then Inl (refuse CUSTOM_WEBHOOK ''CONTENT_UNSUPPORTED'' ''The Custom API channel only sends text messages for now.'')
      else bindR (custom_post env a [(''type'', JStr ''message''), (''id'', JStr (in_intentId i)), (''channelId'', JStr (aa_id a)),
                 (''contact'', JObj [(''id'', JStr (in_destination i))]), (''text'', jget (in_content i) ''text''),
                 (''createdAt'', JStr (sn_iso env)), (''conversationId'', JStr (in_conversationId i))]) (\<lambda>r.
           Inr (accepted_as env (orText (field (hr_data r) ''messageId'') (in_intentId i)))))"

text \<open>A reply on web chat is stored; the widget fetches it.\<close>

definition send_webchat :: "send_env \<Rightarrow> outbound_intent \<Rightarrow> adapter_account \<Rightarrow> err + send_result" where
  "send_webchat env i a =
     (if content_type (in_content i) \<noteq> ''TEXT''
      then Inl (refuse WEBCHAT_EMBED ''CONTENT_UNSUPPORTED'' ''The web chat widget only shows text messages for now.'')
      else Inr (accepted_as env (''webchat:'' @ in_intentId i)))"

fun adapter_sendMessage :: "channel_provider \<Rightarrow> send_env \<Rightarrow> outbound_intent \<Rightarrow> adapter_account \<Rightarrow> err + send_result" where
  "adapter_sendMessage WHATSAPP_CLOUD env i a = send_whatsapp env i a"
| "adapter_sendMessage TELEGRAM_BOT env i a = send_telegram env i a"
| "adapter_sendMessage EMAIL_SMTP_IMAP env i a = send_email env i a"
| "adapter_sendMessage META_MESSENGER env i a = send_meta META_MESSENGER env i a"
| "adapter_sendMessage META_INSTAGRAM env i a = send_meta META_INSTAGRAM env i a"
| "adapter_sendMessage LINE_MESSAGING env i a = send_line env i a"
| "adapter_sendMessage WEBCHAT_EMBED env i a = send_webchat env i a"
| "adapter_sendMessage CUSTOM_WEBHOOK env i a = send_custom env i a"

end
