(* ===== verification/SendContract.thy ===== *)
theory SendContract
  imports Sending
begin

text \<open>
  What an accepted send means: the one request a send makes, what it carries and to whom; which
  content each provider takes; and which failures are retried.
\<close>

section \<open>One request\<close>

text \<open>A computation that depends on the network only through its answer to one request.\<close>

definition asks_only :: "wire_request \<Rightarrow> (wire \<Rightarrow> 'a) \<Rightarrow> bool" where
  "asks_only q f = (\<forall>w w'. w q = w' q \<longrightarrow> f w = f w')"

lemma asks_only_request: "asks_only (wire_of q) (\<lambda>w. request p m w q)"
  by (simp add: asks_only_def request_def)

lemma asks_only_map: "asks_only q f \<Longrightarrow> asks_only q (\<lambda>w. g (f w))"
  unfolding asks_only_def by metis

lemma request_Inr:
  assumes "request p m w q = Inr r"
  obtains status ra ct body where "w (wire_of q) = Answered status ra ct body" "200 \<le> status" "status < 300"
    "hr_data r = parseBody ct body" "hr_status r = status"
  using assms by (auto simp: request_def Let_def split: wire_answer.splits if_splits)

text \<open>The answer counts as an acceptance of the request; 409 is LINE's word for a repeated retry key.\<close>

definition accepts :: "channel_provider \<Rightarrow> wire_answer \<Rightarrow> bool" where
  "accepts p x = (case x of Answered status _ _ _ \<Rightarrow> 200 \<le> status \<and> status < 300 \<or> p = LINE_MESSAGING \<and> status = 409 | _ \<Rightarrow> False)"

lemma request_accepts: "request p m w q = Inr r \<Longrightarrow> accepts p (w (wire_of q))"
  by (erule request_Inr) (simp add: accepts_def)

lemma line_repeated:
  assumes "request LINE_MESSAGING (mapLineError now) w q = Inl e" "http_status_of e = Some 409"
  shows "accepts LINE_MESSAGING (w (wire_of q))"
  using assms by (auto simp: request_def Let_def http_status_of_def unanswered_def ChannelProviderError_def mapLineError_def mapHttpStatus_def
      accepts_def split: wire_answer.splits if_splits)

text \<open>Whom a request body addresses, and the text in it.\<close>

fun addressed_text :: "channel_provider \<Rightarrow> json \<Rightarrow> string \<times> string" where
  "addressed_text WHATSAPP_CLOUD j = (jstr j ''to'', jstr (jget j ''text'') ''body'')"
| "addressed_text TELEGRAM_BOT j = (jstr j ''chat_id'', jstr j ''text'')"
| "addressed_text LINE_MESSAGING j = (jstr j ''to'', jstr (first_of (jget j ''messages'')) ''text'')"
| "addressed_text CUSTOM_WEBHOOK j = (jstr (jget j ''contact'') ''id'', jstr j ''text'')"
| "addressed_text _ j = (jstr (jget j ''recipient'') ''id'', jstr (jget j ''message'') ''text'')"

lemma jget_append_text: "jget (JObj (xs @ ys)) k = (if k \<in> fst ` set xs then jget (JObj xs) k else jget (JObj ys) k)"
proof (cases "map_of xs k")
  case None
  then have "k \<notin> fst ` set xs" by (simp add: map_of_eq_None_iff)
  then show ?thesis using None by (simp add: jget_def map_add_def)
next
  case (Some v)
  then have "k \<in> fst ` set xs" by (metis map_of_SomeD fst_conv image_eqI)
  then show ?thesis using Some by (simp add: jget_def map_add_def split: option.splits)
qed

lemma posted_body [simp]: "wq_body (wire_of (http_post url hs j)) = Some (stringify j)"
  by (simp add: wire_of_def http_post_def http_get_def Let_def)

lemma env_wire_simps [simp]: "sn_now (env\<lparr>sn_wire := w\<rparr>) = sn_now env" "accepted_as (env\<lparr>sn_wire := w\<rparr>) x = accepted_as env x"
  by (simp_all add: sn_now_def accepted_as_def)

text \<open>A send that makes the request \<open>q\<close>, and no other, for a text and its customer.\<close>

definition sends_text :: "channel_provider \<Rightarrow> send_env \<Rightarrow> outbound_intent \<Rightarrow> adapter_account \<Rightarrow> provider_http_request \<Rightarrow> bool" where
  "sends_text p env i a q = (asks_only (wire_of q) (\<lambda>w. adapter_sendMessage p (env\<lparr>sn_wire := w\<rparr>) i a) \<and>
     (isOk (adapter_sendMessage p env i a) \<longrightarrow> accepts p (sn_wire env (wire_of q))) \<and>
     (\<exists>j. wq_body (wire_of q) = Some (stringify j) \<and> addressed_text p j = (in_destination i, jstr (in_content i) ''text'')))"

lemma asks_bind: "asks_only q f \<Longrightarrow> asks_only q (\<lambda>w. bindR (f w) g)"
  by (rule asks_only_map)

lemma ok_bind: "isOk (bindR x f) \<Longrightarrow> isOk x"
  by (cases x) simp_all

lemma ok_request: "isOk (request p m w q) \<Longrightarrow> accepts p (w (wire_of q))"
  by (cases "request p m w q") (auto dest: request_accepts)

lemma jstr_simps [simp]: "jstr (JObj ((k, v) # kvs)) k' = (if k' = k then text_of v else jstr (JObj kvs) k')" "jstr (JObj []) k = []"
  by (simp_all add: jstr_def text_of_def)

lemma text_of_jget [simp]: "text_of (jget j k) = jstr j k" "text_of (JStr s) = s"
  by (simp_all add: jstr_def text_of_def)

lemma sends_textI:
  assumes "asks_only (wire_of q) (\<lambda>w. adapter_sendMessage p (env\<lparr>sn_wire := w\<rparr>) i a)"
    and "isOk (adapter_sendMessage p env i a) \<Longrightarrow> accepts p (sn_wire env (wire_of q))"
    and "wq_body (wire_of q) = Some (stringify j)" "addressed_text p j = (in_destination i, jstr (in_content i) ''text'')"
  shows "\<exists>q. sends_text p env i a q"
  using assms unfolding sends_text_def by blast

lemma whatsapp_sends:
  assumes "content_type (in_content i) = ''TEXT''"
  shows "\<exists>q. sends_text WHATSAPP_CLOUD env i a q"
proof (rule sends_textI)
  have q: "whatsapp_request (env\<lparr>sn_wire := w\<rparr>) i a = whatsapp_request env i a" "sn_wire (env\<lparr>sn_wire := w\<rparr>) = w" for w
    by (simp_all add: whatsapp_request_def graph_url_def)
  show "asks_only (wire_of (whatsapp_request env i a)) (\<lambda>w. adapter_sendMessage WHATSAPP_CLOUD (env\<lparr>sn_wire := w\<rparr>) i a)"
    unfolding adapter_sendMessage.simps send_whatsapp_def q env_wire_simps by (intro asks_bind asks_only_request)
  show "accepts WHATSAPP_CLOUD (sn_wire env (wire_of (whatsapp_request env i a)))" if "isOk (adapter_sendMessage WHATSAPP_CLOUD env i a)"
    using that by (auto simp: send_whatsapp_def dest!: ok_bind ok_request)
  show "wq_body (wire_of (whatsapp_request env i a)) = Some (stringify (JObj ([(''messaging_product'', JStr ''whatsapp''),
      (''recipient_type'', JStr ''individual''), (''to'', JStr (in_destination i))] @ buildWhatsAppContent (in_content i) @
      (case in_replyTo i of Some r \<Rightarrow> [(''context'', JObj [(''message_id'', JStr r)])] | None \<Rightarrow> []))))"
    by (simp only: whatsapp_request_def posted_body)
qed (simp add: buildWhatsAppContent_def assms)

lemma telegram_sends:
  assumes "content_type (in_content i) = ''TEXT''"
  shows "\<exists>q. sends_text TELEGRAM_BOT env i a q"
proof (rule sends_textI)
  let ?j = "JObj ((''chat_id'', JStr (in_destination i)) # [(''text'', jget (in_content i) ''text'')] @ telegram_reply i)"
  let ?q = "http_post (rt_telegramApiBaseUrl (sn_runtime env) @ ''/bot'' @ credential a ''botToken'' @ ''/'' @ ''sendMessage'') [] ?j"
  show "asks_only (wire_of ?q) (\<lambda>w. adapter_sendMessage TELEGRAM_BOT (env\<lparr>sn_wire := w\<rparr>) i a)"
    using assms by (auto simp: send_telegram_def buildTelegramRequest_def telegram_call_def intro!: asks_bind asks_only_request)
  show "accepts TELEGRAM_BOT (sn_wire env (wire_of ?q))" if "isOk (adapter_sendMessage TELEGRAM_BOT env i a)"
    using that assms by (auto simp: send_telegram_def buildTelegramRequest_def telegram_call_def dest!: ok_bind ok_request)
  show "wq_body (wire_of ?q) = Some (stringify ?j)" by (rule posted_body)
qed simp

lemma line_sends:
  assumes "content_type (in_content i) = ''TEXT''"
  shows "\<exists>q. sends_text LINE_MESSAGING env i a q"
proof (rule sends_textI)
  let ?m = "JObj [(''type'', JStr ''text''), (''text'', jget (in_content i) ''text'')]"
  let ?q = "line_request env ?m i a"
  have q: "line_request (env\<lparr>sn_wire := w\<rparr>) m i a = line_request env m i a" "line_retry_key (env\<lparr>sn_wire := w\<rparr>) i = line_retry_key env i"
    "sn_wire (env\<lparr>sn_wire := w\<rparr>) = w" for w m
    by (simp_all add: line_request_def line_retry_key_def)
  have m: "buildLineMessage (in_content i) = Inr ?m" using assms by (simp add: buildLineMessage_def)
  show "asks_only (wire_of ?q) (\<lambda>w. adapter_sendMessage LINE_MESSAGING (env\<lparr>sn_wire := w\<rparr>) i a)"
    unfolding adapter_sendMessage.simps send_line_def m q env_wire_simps bindR.simps by (intro asks_only_map [OF asks_only_request])
  show "accepts LINE_MESSAGING (sn_wire env (wire_of ?q))" if ok: "isOk (adapter_sendMessage LINE_MESSAGING env i a)"
  proof (cases "request LINE_MESSAGING (mapLineError (sn_now env)) (sn_wire env) ?q")
    case (Inl e)
    then show ?thesis using ok line_repeated [OF Inl] by (auto simp: send_line_def m split: if_splits)
  qed (rule request_accepts)
  show "wq_body (wire_of ?q) = Some (stringify (JObj [(''to'', JStr (in_destination i)), (''messages'', JArr [?m])]))"
    by (simp only: line_request_def posted_body)
qed (simp add: first_of_def)

lemma meta_sends:
  assumes "content_type (in_content i) = ''TEXT''" "p \<in> {META_MESSENGER, META_INSTAGRAM}"
  shows "\<exists>q. sends_text p env i a q"
proof (rule sends_textI)
  let ?b = "[(''recipient'', JObj [(''id'', JStr (in_destination i))]), (''message'', JObj [(''text'', jget (in_content i) ''text'')])]"
  let ?q = "meta_request p env ?b a"
  have q: "meta_request p (env\<lparr>sn_wire := w\<rparr>) b a = meta_request p env b a" "sn_wire (env\<lparr>sn_wire := w\<rparr>) = w" for w b
    by (simp_all add: meta_request_def graph_url_def)
  have b: "buildMessagingSendBody (in_destination i) (in_content i) = Some ?b" using assms(1) by (simp add: buildMessagingSendBody_def)
  have send: "adapter_sendMessage p e i a = send_meta p e i a" for e using assms(2) by auto
  show "asks_only (wire_of ?q) (\<lambda>w. adapter_sendMessage p (env\<lparr>sn_wire := w\<rparr>) i a)"
    unfolding send send_meta_def b option.case q env_wire_simps by (intro asks_bind asks_only_request)
  show "accepts p (sn_wire env (wire_of ?q))" if "isOk (adapter_sendMessage p env i a)"
    using that unfolding send send_meta_def b option.case by (auto dest!: ok_bind ok_request)
  show "wq_body (wire_of ?q) = Some (stringify (JObj (if p = META_MESSENGER then ?b @ [(''messaging_type'', JStr ''RESPONSE'')] else ?b)))"
    by (simp only: meta_request_def posted_body if_distrib [of wire_of] if_distrib [of wq_body] split: if_split) simp
qed (use assms(2) in auto)

lemma custom_sends:
  assumes "content_type (in_content i) = ''TEXT''"
  shows "\<exists>q. sends_text CUSTOM_WEBHOOK env i a q"
proof -
  define body where "body = [(''type'', JStr ''message''), (''id'', JStr (in_intentId i)), (''channelId'', JStr (aa_id a)),
    (''contact'', JObj [(''id'', JStr (in_destination i))]), (''text'', jget (in_content i) ''text''),
    (''createdAt'', JStr (sn_iso env)), (''conversationId'', JStr (in_conversationId i))]"
  let ?send = "\<lambda>e. bindR (custom_post e a body) (\<lambda>r. Inr (accepted_as env (orText (field (hr_data r) ''messageId'') (in_intentId i))))"
  have send: "adapter_sendMessage CUSTOM_WEBHOOK (env\<lparr>sn_wire := w\<rparr>) i a = ?send (env\<lparr>sn_wire := w\<rparr>)" for w
    using assms by (simp add: send_custom_def body_def)
  have own: "adapter_sendMessage CUSTOM_WEBHOOK env i a = ?send env" using assms by (simp add: send_custom_def body_def)
  have to: "addressed_text CUSTOM_WEBHOOK (JObj body) = (in_destination i, jstr (in_content i) ''text'')" by (simp add: body_def)
  show ?thesis
  proof (cases "nonblank (secret a ''webhookSecret'')")
    case None
    then have none: "custom_post e a body = custom_post env a body" "\<not> isOk (custom_post e a body)" for e by (simp_all add: custom_post_def)
    show ?thesis
    proof (rule sends_textI [OF _ _ posted_body to])
      show "asks_only (wire_of (http_post [] [] (JObj body))) (\<lambda>w. adapter_sendMessage CUSTOM_WEBHOOK (env\<lparr>sn_wire := w\<rparr>) i a)"
        unfolding send none(1) [of "env\<lparr>sn_wire := _\<rparr>"] by (simp add: asks_only_def)
      show "accepts CUSTOM_WEBHOOK (sn_wire env (wire_of (http_post [] [] (JObj body))))" if "isOk (adapter_sendMessage CUSTOM_WEBHOOK env i a)"
        using that none(2) ok_bind unfolding own by blast
    qed
  next
    case (Some k)
    obtain q where q: "\<And>e. sn_now e = sn_now env \<Longrightarrow> sn_hmac e = sn_hmac env \<Longrightarrow>
        custom_post e a body = request CUSTOM_WEBHOOK (mapCustomError (sn_now env)) (sn_wire e) q"
      "hq_body q = Some (stringify (JObj body))" "hq_json q = None"
      using Some by (auto simp: custom_post_def Let_def)
    show ?thesis
    proof (rule sends_textI [OF _ _ _ to])
      show "asks_only (wire_of q) (\<lambda>w. adapter_sendMessage CUSTOM_WEBHOOK (env\<lparr>sn_wire := w\<rparr>) i a)"
        unfolding send by (intro asks_bind) (simp add: q(1) asks_only_request)
      show "accepts CUSTOM_WEBHOOK (sn_wire env (wire_of q))" if "isOk (adapter_sendMessage CUSTOM_WEBHOOK env i a)"
        using ok_request ok_bind [OF that [unfolded own]] q(1) [of env] by simp
      show "wq_body (wire_of q) = Some (stringify (JObj body))" by (simp add: wire_of_def q Let_def)
    qed
  qed
qed

lemma email_sends:
  assumes "isOk (adapter_sendMessage EMAIL_SMTP_IMAP env i a)"
  shows "\<exists>mid rejected. sn_smtp env (smtp_server a) (mail_for i a) = Inr (mid, rejected) \<and> Some (in_destination i) \<notin> rejected_address ` set rejected"
  using assms by (auto simp: send_email_def split: if_splits sum.splits elim!: bindR.elims)

section \<open>A network to try it on\<close>

text \<open>Every request is answered with one JSON body; the mail server takes everything.\<close>

definition demo_wire :: "json \<Rightarrow> send_env" where
  "demo_wire j = \<lparr>sn_runtime = DEFAULT_ADAPTER_RUNTIME, sn_wire = (\<lambda>q. Answered 200 NoRetryAfter ''application/json'' (stringify j)),
     sn_smtp = (\<lambda>s m. Inr (JStr (mm_messageId m), [])), sn_norm = \<lparr>nz_now = 0, nz_date = (\<lambda>_. None), nz_profile = (\<lambda>_. None)\<rparr>,
     sn_iso = ''2024-01-01T00:00:00.000Z'', sn_uuid = ''u'', sn_hmac = (\<lambda>_ _. [])\<rparr>"

definition demo_account :: adapter_account where
  "demo_account = \<lparr>aa_id = ''c'', aa_workspaceId = ''w'', aa_name = ''n'', aa_accountIdentifier = ''i'', aa_displayIdentifier = ''d'',
     aa_credentials = JObj [], aa_secrets = JObj [], aa_inboundMode = WEBHOOK\<rparr>"

definition demo_text :: "string \<Rightarrow> outbound_intent" where
  "demo_text kind = \<lparr>in_intentId = ''m'', in_workspaceId = ''w'', in_channelType = CWHATSAPP, in_providerAccountId = ''c'', in_destination = ''49170'',
     in_contactId = ''k'', in_content = JObj [(''type'', JStr kind), (''text'', JStr ''hi'')], in_replyTo = None, in_conversationId = ''t'',
     in_subject = None, in_references = [], in_inReplyTo = None\<rparr>"

definition demo_reply :: json where
  "demo_reply = JObj [(''messages'', JArr [JObj [(''id'', JStr ''wamid'')]])]"

lemma demo_type: "content_type (in_content (demo_text k)) = k"
  by (simp add: demo_text_def content_type_def)

lemma demo_wire_sn [simp]: "sn_wire (demo_wire j) q = Answered 200 NoRetryAfter ''application/json'' (stringify j)"
  by (simp add: demo_wire_def)

section \<open>The properties\<close>



section \<open>Which content a provider takes\<close>

fun takes :: "channel_provider \<Rightarrow> json \<Rightarrow> bool" where
  "takes WHATSAPP_CLOUD c = True"
| "takes TELEGRAM_BOT c = (content_type c \<in> {''TEXT'', ''MEDIA'', ''LOCATION'', ''INTERACTIVE''})"
| "takes LINE_MESSAGING c = (content_type c \<in> {''TEXT'', ''LOCATION'', ''INTERACTIVE''} \<or>
     content_type c = ''MEDIA'' \<and> truthy (jget c ''url'') \<and> jstr c ''mediaType'' \<in> {''image'', ''video''})"
| "takes META_MESSENGER c = (content_type c \<in> {''TEXT'', ''INTERACTIVE''} \<or> content_type c = ''MEDIA'' \<and> truthy (jget c ''url''))"
| "takes META_INSTAGRAM c = (content_type c \<in> {''TEXT'', ''INTERACTIVE''} \<or> content_type c = ''MEDIA'' \<and> truthy (jget c ''url''))"
| "takes _ c = (content_type c = ''TEXT'')"

text \<open>The documented answers: a message id, Telegram's result with a date a calendar has.\<close>

fun documented :: "channel_provider \<Rightarrow> json \<Rightarrow> bool" where
  "documented WHATSAPP_CLOUD j = truthy (jget (first_of (jget j ''messages'')) ''id'')"
| "documented TELEGRAM_BOT j = (truthy (jget j ''ok'') \<and> jget j ''result'' \<notin> {JUndef, JNull} \<and>
     (\<exists>t. jget (jget j ''result'') ''date'' = JNum t \<and> \<bar>t\<bar> \<le> 8640000000000))"
| "documented LINE_MESSAGING j = (j \<noteq> JNull)"
| "documented META_MESSENGER j = truthy (jget j ''message_id'')"
| "documented META_INSTAGRAM j = truthy (jget j ''message_id'')"
| "documented _ j = True"

lemma request_answered:
  assumes "w (wire_of q) = Answered 200 NoRetryAfter ''application/json'' (stringify j)" "plain j" "j = JObj kvs"
  shows "request p m w q = Inr \<lparr>hr_status = 200, hr_retryAfter = NoRetryAfter, hr_data = j\<rparr>"
proof -
  have "str_includes ''application/json'' ''json''" by code_simp
  then have "parseBody ''application/json'' (stringify j) = j"
    using plain_text_parsed [OF assms(2)] stringify_nonempty [of kvs] assms(3) by (simp add: parseBody_def)
  then show ?thesis by (simp add: request_def assms(1))
qed

lemma read_member_truthy: "truthy (jget j k) \<Longrightarrow> read_member j k = Inr (jget j k)"
  by (cases j) (auto simp: read_member_def jget_def)

lemma first_of_truthy: "truthy (jget (first_of j) k) \<Longrightarrow> j \<noteq> JUndef \<and> j \<noteq> JNull"
  by (auto simp: first_of_def jget_def)

definition willing :: "channel_provider \<Rightarrow> send_env \<Rightarrow> adapter_account \<Rightarrow> bool" where
  "willing p env a = ((\<exists>j kvs. j = JObj kvs \<and> plain j \<and> documented p j \<and> (\<forall>q. sn_wire env q = Answered 200 NoRetryAfter ''application/json'' (stringify j))) \<and>
     (p = CUSTOM_WEBHOOK \<longrightarrow> nonblank (secret a ''webhookSecret'') \<noteq> None) \<and>
     (\<forall>s m. \<exists>mid. sn_smtp env s m = Inr (mid, [])))"

lemma telegram_time: "\<bar>t\<bar> \<le> 8640000000000 \<Longrightarrow> isOk (toIsoTimestamp env (JNum t) Seconds)"
  by (auto simp: toIsoTimestamp_def Let_def asNumber_def abs_le_iff)

lemma willing_takes:
  assumes "willing p env a" "takes p (in_content i)"
  shows "isOk (adapter_sendMessage p env i a)"
proof -
  obtain j kvs where j: "plain j" "documented p j" "\<And>q. sn_wire env q = Answered 200 NoRetryAfter ''application/json'' (stringify j)"
    "j = JObj kvs"
    using assms(1) unfolding willing_def by blast
  note req = request_answered [OF j(3,1,4)]
  show ?thesis
  proof (cases p)
    case WHATSAPP_CLOUD
    then show ?thesis using j(2) first_of_truthy [of "jget j ''messages''" "''id''"]
      by (auto simp: send_whatsapp_def req read_member_def Let_def jget_def)
  next
    case TELEGRAM_BOT
    then obtain m ps where "buildTelegramRequest (in_content i) = Inr (m, ps)"
      using assms(2) by (cases "telegram_media_method (jstr (in_content i) ''mediaType'')") (auto simp: buildTelegramRequest_def)
    moreover obtain t where "jget (jget j ''result'') ''date'' = JNum t" "\<bar>t\<bar> \<le> 8640000000000" using j(2) TELEGRAM_BOT by auto
    ultimately show ?thesis using j(2) TELEGRAM_BOT telegram_time [of t "sn_norm env"]
      by (cases "toIsoTimestamp (sn_norm env) (JNum t) Seconds") (auto simp: send_telegram_def telegram_call_def req read_member_truthy, auto simp: read_member_def)
  next
    case LINE_MESSAGING
    then obtain m where "buildLineMessage (in_content i) = Inr m" using assms(2) by (auto simp: buildLineMessage_def Let_def)
    then show ?thesis using j LINE_MESSAGING by (cases j) (auto simp: send_line_def req read_member_def Let_def)
  next
    case META_MESSENGER
    then obtain b where "buildMessagingSendBody (in_destination i) (in_content i) = Some b" using assms(2) by (auto simp: buildMessagingSendBody_def Let_def)
    then show ?thesis using j(2) META_MESSENGER by (simp add: send_meta_def req read_member_truthy)
  next
    case META_INSTAGRAM
    then obtain b where "buildMessagingSendBody (in_destination i) (in_content i) = Some b" using assms(2) by (auto simp: buildMessagingSendBody_def Let_def)
    then show ?thesis using j(2) META_INSTAGRAM by (simp add: send_meta_def req read_member_truthy)
  next
    case EMAIL_SMTP_IMAP
    obtain mid where "sn_smtp env (smtp_server a) (mail_for i a) = Inr (mid, [])" using assms(1) unfolding willing_def by blast
    then show ?thesis using EMAIL_SMTP_IMAP assms(2) by (simp add: send_email_def)
  next
    case WEBCHAT_EMBED
    then show ?thesis using assms(2) by (simp add: send_webchat_def)
  next
    case CUSTOM_WEBHOOK
    then obtain k where "nonblank (secret a ''webhookSecret'') = Some k" using assms(1) unfolding willing_def by auto
    then show ?thesis using CUSTOM_WEBHOOK assms(2) by (simp add: send_custom_def custom_post_def req Let_def)
  qed
qed

lemma refused_content:
  assumes "\<not> takes p (in_content i)" "content_type (in_content i) \<in> {''TEXT'', ''MEDIA'', ''TEMPLATE'', ''LOCATION'', ''INTERACTIVE''}"
  shows "\<exists>code message. \<forall>env. adapter_sendMessage p env i a = Inl (refuse p code message)"
  using assms by (cases p) (auto simp: send_telegram_def buildTelegramRequest_def send_line_def buildLineMessage_def send_meta_def
      buildMessagingSendBody_def send_email_def send_custom_def send_webchat_def Let_def refuse_def http_status_of_def ChannelProviderError_def)

text \<open>A provider that answers as it documents accepts a reply exactly when its adapter takes the
  content; content it does not take is refused whatever the network does, before any request, with an
  error that is not retried and does not ask for new credentials.\<close>
theorem content_support:
  assumes "content_type (in_content i) \<in> {''TEXT'', ''MEDIA'', ''TEMPLATE'', ''LOCATION'', ''INTERACTIVE''}"
  shows "(willing p env a \<longrightarrow> isOk (adapter_sendMessage p env i a) = takes p (in_content i)) \<and>
    (\<not> takes p (in_content i) \<longrightarrow> (\<exists>e. (\<forall>env'. adapter_sendMessage p env' i a = Inl (ProviderFailure e)) \<and> \<not> retryable e \<and> \<not> requiresReconnect e))"
proof -
  have "\<exists>e. (\<forall>env'. adapter_sendMessage p env' i a = Inl (ProviderFailure e)) \<and> \<not> retryable e \<and> \<not> requiresReconnect e" if un: "\<not> takes p (in_content i)"
  proof -
    obtain code message where "\<forall>env'. adapter_sendMessage p env' i a = Inl (refuse p code message)" using refused_content [OF un assms] by blast
    then show ?thesis
      by (intro exI [of _ "ChannelProviderError p PINVALID_REQUEST code message"])
        (simp add: refuse_def retryable_def requiresReconnect_def ChannelProviderError_def)
  qed
  then show ?thesis using willing_takes by fastforce
qed

theorem content_support_witness:
  "isOk (adapter_sendMessage WHATSAPP_CLOUD (demo_wire demo_reply) (demo_text ''TEXT'') demo_account) \<and>
   \<not> isOk (adapter_sendMessage EMAIL_SMTP_IMAP (demo_wire demo_reply) (demo_text ''MEDIA'') demo_account)"
proof -
  have "willing WHATSAPP_CLOUD (demo_wire demo_reply) demo_account"
    unfolding willing_def
  proof (intro conjI)
    show "\<exists>j kvs. j = JObj kvs \<and> plain j \<and> documented WHATSAPP_CLOUD j \<and>
        (\<forall>q. sn_wire (demo_wire demo_reply) q = Answered 200 NoRetryAfter ''application/json'' (stringify j))"
      by (rule exI [of _ demo_reply]) (auto simp: demo_wire_def demo_reply_def first_of_def js_object_def)
  qed (auto simp: demo_wire_def)
  then have "isOk (adapter_sendMessage WHATSAPP_CLOUD (demo_wire demo_reply) (demo_text ''TEXT'') demo_account)"
    using content_support [of "demo_text ''TEXT''" WHATSAPP_CLOUD "demo_wire demo_reply" demo_account] by (simp only: demo_type) simp
  moreover have "\<not> isOk (adapter_sendMessage EMAIL_SMTP_IMAP (demo_wire demo_reply) (demo_text ''MEDIA'') demo_account)"
    using content_support [of "demo_text ''MEDIA''" EMAIL_SMTP_IMAP "demo_wire demo_reply" demo_account]
    by (simp only: demo_type takes.simps) (auto simp del: adapter_sendMessage.simps)
  ultimately show ?thesis ..
qed

end
