(* ===== verification/EndpointPolicy.thy ===== *)
theory EndpointPolicy
  imports JsonText Providers "HOL-Library.Word"
begin

text \<open>
  Which hosts an administrator may have the server connect to
  (\<open>apps/api/src/channels/endpoint-policy.ts\<close>), with Node's \<open>isIP\<close>. The DNS lookup (which may
  fail) and the URL parser are arguments. Addresses are 32-bit words, as \<open>>>> 0\<close> makes them.
\<close>

unbundle bit_operations_syntax

section \<open>Node's \<open>isIP\<close>\<close>

definition v4_segment :: "string \<Rightarrow> bool" where
  "v4_segment s = (s \<noteq> [] \<and> list_all is_digit s \<and> (s = ''0'' \<or> hd s \<noteq> CHR ''0'') \<and> length s \<le> 3 \<and> read_nat s \<le> 255)"

definition is_ipv4 :: "string \<Rightarrow> bool" where
  "is_ipv4 s = (length (split_on (CHR ''.'') s) = 4 \<and> list_all v4_segment (split_on (CHR ''.'') s))"

definition hex_char :: "char \<Rightarrow> bool" where
  "hex_char c = (is_digit c \<or> lower_char c \<in> {CHR ''a'', CHR ''b'', CHR ''c'', CHR ''d'', CHR ''e'', CHR ''f''})"

definition v6_segment :: "string \<Rightarrow> bool" where
  "v6_segment s = (s \<noteq> [] \<and> length s \<le> 4 \<and> list_all hex_char s)"

text \<open>The number of 16-bit groups of a sequence of segments, the last of which may be an IPv4 address.\<close>

fun v6_weight :: "bool \<Rightarrow> string list \<Rightarrow> nat option" where
  "v6_weight v4 [] = Some 0"
| "v6_weight v4 [s] = (if v6_segment s then Some 1 else if v4 \<and> is_ipv4 s then Some 2 else None)"
| "v6_weight v4 (s # t # ss) = (if v6_segment s then map_option Suc (v6_weight v4 (t # ss)) else None)"

fun at_double_colon :: "string \<Rightarrow> (string \<times> string) option" where
  "at_double_colon (a # b # s) = (if a = CHR '':'' \<and> b = CHR '':'' then Some ([], s)
     else map_option (\<lambda>(l, r). (a # l, r)) (at_double_colon (b # s)))"
| "at_double_colon _ = None"

definition segments_of :: "string \<Rightarrow> string list" where
  "segments_of s = (if s = [] then [] else split_on (CHR '':'') s)"

definition zone_char :: "char \<Rightarrow> bool" where
  "zone_char c = (is_digit c \<or> (let l = of_char (lower_char c) :: nat in 97 \<le> l \<and> l \<le> 122) \<or> c \<in> {CHR ''-'', CHR ''.'', CHR '':''})"

definition is_ipv6 :: "string \<Rightarrow> bool" where
  "is_ipv6 s = (let a = takeWhile (\<lambda>c. c \<noteq> CHR ''%'') s; z = dropWhile (\<lambda>c. c \<noteq> CHR ''%'') s in
     (z = [] \<or> tl z \<noteq> [] \<and> list_all zone_char (tl z)) \<and>
     (case at_double_colon a of
        None \<Rightarrow> v6_weight True (segments_of a) = Some 8
      | Some (l, r) \<Rightarrow> (case (v6_weight False (segments_of l), v6_weight True (segments_of r)) of
          (Some m, Some n) \<Rightarrow> m + n \<le> 7 | _ \<Rightarrow> False)))"

definition isIP :: "string \<Rightarrow> nat" where
  "isIP s = (if is_ipv4 s then 4 else if is_ipv6 s then 6 else 0)"

section \<open>Private addresses and names\<close>

definition ipv4ToInt :: "string \<Rightarrow> 32 word" where
  "ipv4ToInt ip = foldl (\<lambda>acc octet. push_bit 8 acc + of_nat (read_nat octet)) 0 (split_on (CHR ''.'') ip)"

definition PRIVATE_V4_RANGES :: "(string \<times> nat) list" where
  "PRIVATE_V4_RANGES = [(''0.0.0.0'', 8), (''10.0.0.0'', 8), (''100.64.0.0'', 10), (''127.0.0.0'', 8), (''169.254.0.0'', 16),
     (''172.16.0.0'', 12), (''192.168.0.0'', 16), (''198.18.0.0'', 15), (''224.0.0.0'', 4)]"

definition in_v4_range :: "32 word \<Rightarrow> string \<times> nat \<Rightarrow> bool" where
  "in_v4_range v r = (let mask = (if snd r = 0 then 0 else push_bit (32 - snd r) (NOT 0)) in (v AND mask) = (ipv4ToInt (fst r) AND mask))"

function isPrivateAddress :: "string \<Rightarrow> bool" where
  "isPrivateAddress ip =
     (if isIP ip = 4 then list_ex (in_v4_range (ipv4ToInt ip)) PRIVATE_V4_RANGES
      else if isIP ip = 6
      then (if to_lower ip = ''::1'' \<or> to_lower ip = ''::'' then True
            else if startsWith (to_lower ip) ''::ffff:'' then isPrivateAddress (drop 7 (to_lower ip))
            else startsWith (to_lower ip) ''fc'' \<or> startsWith (to_lower ip) ''fd'' \<or>
              list_ex (\<lambda>c. startsWith (to_lower ip) (''fe'' @ [c])) ''89ab'')
      else False)"

  by pat_completeness auto
termination
  by (relation "measure length") (auto simp: startsWith_def to_lower_def dest: prefix_length_le)

declare isPrivateAddress.simps [simp del]

text \<open>\<open>/^\[|\]$/g\<close> drops an opening bracket at the start and a closing one at the end.\<close>

definition unbracket :: "string \<Rightarrow> string" where
  "unbracket s = (let t = (if startsWith s ''['' then tl s else s) in if endsWith t '']'' then butlast t else t)"

definition isPrivateHostname :: "string \<Rightarrow> bool" where
  "isPrivateHostname host = (let name = unbracket (to_lower host) in
     if isIP name \<noteq> 0 then isPrivateAddress name
     else name = ''localhost'' \<or> endsWith name ''.localhost'' \<or> endsWith name ''.local'' \<or> endsWith name ''.internal'' \<or>
       CHR ''.'' \<notin> set name)"

section \<open>The check\<close>

type_synonym dns = "string \<Rightarrow> string list option"

definition not_allowed :: "string \<Rightarrow> err" where
  "not_allowed message = ApiFailure 422 ''CHANNEL_ENDPOINT_NOT_ALLOWED'' message"

definition assertPublicHost :: "dns \<Rightarrow> string \<Rightarrow> string \<Rightarrow> err + unit" where
  "assertPublicHost lookup host label =
     (let reject = Inl (not_allowed (label @ '' '' @ [CHR 0x22] @ host @ [CHR 0x22] @ '' points to a private network address, which is not allowed.'')) in
      if isPrivateHostname host then reject
      else if isIP host \<noteq> 0 then Inr ()
      else if list_ex isPrivateAddress (case lookup host of Some as \<Rightarrow> as | None \<Rightarrow> []) then reject
      else Inr ())"

text \<open>The parts of a connection input the policy reads. A parsed URL is its protocol and host name.\<close>

datatype connection_endpoints = EmailServers string string | OutboundUrl string | NoEndpoints

definition assertConnectionEndpointsAllowed ::
  "dns \<Rightarrow> (string \<Rightarrow> err + string \<times> string) \<Rightarrow> connection_endpoints \<Rightarrow> bool \<Rightarrow> err + unit" where
  "assertConnectionEndpointsAllowed lookup parse_url connection enforce =
     (if \<not> enforce then Inr ()
      else (case connection of
        EmailServers imap smtp \<Rightarrow> bindR (assertPublicHost lookup imap ''IMAP server'') (\<lambda>_. assertPublicHost lookup smtp ''SMTP server'')
      | OutboundUrl u \<Rightarrow> bindR (parse_url u) (\<lambda>(protocol, hostname).
          if protocol \<noteq> ''https:'' then Inl (not_allowed ''The reply endpoint must use https://.'')
          else assertPublicHost lookup hostname ''Reply endpoint'')
      | NoEndpoints \<Rightarrow> Inr ()))"

section \<open>Dotted addresses\<close>

definition dotted :: "nat \<Rightarrow> nat \<Rightarrow> nat \<Rightarrow> nat \<Rightarrow> string" where
  "dotted a b c d = join ''.'' (map show_nat [a, b, c, d])"

lemma octet_length:
  assumes "n < 256"
  shows "length (show_nat n) \<le> 3"
proof -
  have "show_nat n = (if n < 10 then [digit_char n] else if n < 100 then [digit_char (n div 10), digit_char (n mod 10)]
      else [digit_char (n div 100), digit_char (n div 10 mod 10), digit_char (n mod 10)])"
    using assms by (auto simp: show_nat.simps [of n] show_nat.simps [of "n div 10"] show_nat.simps [of "n div 100"] div_mult2_eq [symmetric])
  then show ?thesis by simp
qed

lemma octet_segment:
  assumes "n < 256"
  shows "v4_segment (show_nat n)"
proof -
  have "list_all is_digit (show_nat n)" by (simp add: list_all_iff show_nat_digits)
  moreover have "show_nat n = ''0'' \<or> hd (show_nat n) \<noteq> CHR ''0''"
    using show_nat_head [of n] by (auto simp: show_nat.simps [of 0] digit_char_def)
  ultimately show ?thesis using assms octet_length [OF assms] by (simp add: v4_segment_def)
qed

lemma dot_not_digit: "CHR ''.'' \<notin> set (show_nat n)"
  using show_nat_digits [of "CHR ''.''" n] by (auto simp: is_digit_def)

lemma split_dotted [simp]: "split_on (CHR ''.'') (dotted a b c d) = map show_nat [a, b, c, d]"
  unfolding dotted_def by (rule split_on_join) (auto simp: dot_not_digit)

lemma dotted_is_ipv4: "a < 256 \<Longrightarrow> b < 256 \<Longrightarrow> c < 256 \<Longrightarrow> d < 256 \<Longrightarrow> is_ipv4 (dotted a b c d)"
  by (simp add: is_ipv4_def octet_segment)

lemma dotted_value: "ipv4ToInt (dotted a b c d) = of_nat (((a * 256 + b) * 256 + c) * 256 + d)"
  by (simp add: ipv4ToInt_def push_bit_eq_mult algebra_simps)

lemma dotted_unat:
  assumes "a < 256" "b < 256" "c < 256" "d < 256"
  shows "unat (ipv4ToInt (dotted a b c d)) = ((a * 256 + b) * 256 + c) * 256 + d"
proof -
  have "((a * 256 + b) * 256 + c) * 256 + d < 2 ^ 32" using assms by simp
  then show ?thesis unfolding dotted_value by (simp only: unat_of_nat) (simp add: mod_less)
qed

lemma masked_eq:
  fixes v b :: "32 word"
  shows "(v AND push_bit k (NOT 0)) = (b AND push_bit k (NOT 0)) \<longleftrightarrow> drop_bit k v = drop_bit k b" (is "?l \<longleftrightarrow> ?r")
proof
  assume l: ?l
  show ?r
  proof (rule bit_eqI)
    fix n
    have "bit (v AND push_bit k (NOT 0)) (k + n) = bit (b AND push_bit k (NOT 0)) (k + n)" by (simp only: l)
    then show "bit (drop_bit k v) n = bit (drop_bit k b) n"
      by (cases "k + n < 32") (auto simp: bit_simps dest: bit_imp_le_length)
  qed
next
  assume r: ?r
  show ?l
  proof (rule bit_eqI)
    fix n
    have "bit (drop_bit k v) (n - k) = bit (drop_bit k b) (n - k)" by (simp only: r)
    then show "bit (v AND push_bit k (NOT 0)) n = bit (b AND push_bit k (NOT 0)) n"
      by (cases "k \<le> n") (auto simp: bit_simps)
  qed
qed

text \<open>A range of at most 16 bits reads the first two octets.\<close>

lemma in_range_dotted:
  assumes "a < 256" "b < 256" "c < 256" "d < 256" "a' < 256" "b' < 256" "0 < bits" "bits \<le> 16"
  shows "in_v4_range (ipv4ToInt (dotted a b c d)) (dotted a' b' 0 0, bits) \<longleftrightarrow>
    (a * 256 + b) div 2 ^ (16 - bits) = (a' * 256 + b') div 2 ^ (16 - bits)"
proof -
  have half: "unat (ipv4ToInt (dotted x y z w)) div 2 ^ (32 - bits) = (x * 256 + y) div 2 ^ (16 - bits)"
    if "x < 256" "y < 256" "z < 256" "w < 256" for x y z w
  proof -
    have "32 - bits = 16 + (16 - bits)" using assms by simp
    then have "unat (ipv4ToInt (dotted x y z w)) div 2 ^ (32 - bits) = unat (ipv4ToInt (dotted x y z w)) div 2 ^ 16 div 2 ^ (16 - bits)"
      by (simp only: power_add div_mult2_eq)
    moreover have "unat (ipv4ToInt (dotted x y z w)) div 2 ^ 16 = x * 256 + y" using that by (simp add: dotted_unat)
    ultimately show ?thesis by simp
  qed
  have nz: "(bits = 0) = False" using assms by simp
  have "in_v4_range v (r, bits) \<longleftrightarrow> unat v div 2 ^ (32 - bits) = unat (ipv4ToInt r) div 2 ^ (32 - bits)" for v r
    using nz by (simp only: in_v4_range_def Let_def fst_conv snd_conv if_False masked_eq) (simp only: word_unat_eq_iff unat_drop_bit_eq, simp only: drop_bit_eq_div)
  then show ?thesis using assms by (simp add: half)
qed

text \<open>The ranges in plain arithmetic.\<close>

definition reserved :: "nat \<Rightarrow> nat \<Rightarrow> bool" where
  "reserved a b = (a \<in> {0, 10, 127} \<or> a = 100 \<and> 64 \<le> b \<and> b < 128 \<or> a = 169 \<and> b = 254 \<or> a = 172 \<and> 16 \<le> b \<and> b < 32 \<or>
     a = 192 \<and> b = 168 \<or> a = 198 \<and> (b = 18 \<or> b = 19) \<or> 224 \<le> a \<and> a < 240)"

lemma ranges_dotted: "PRIVATE_V4_RANGES = [(dotted 0 0 0 0, 8), (dotted 10 0 0 0, 8), (dotted 100 64 0 0, 10), (dotted 127 0 0 0, 8),
    (dotted 169 254 0 0, 16), (dotted 172 16 0 0, 12), (dotted 192 168 0 0, 16), (dotted 198 18 0 0, 15), (dotted 224 0 0 0, 4)]"
  by code_simp

lemma div_is: "0 < m \<Longrightarrow> (x div m = q) = (q * m \<le> x \<and> x < q * m + m)" for x :: nat
  by (metis div_mult_mod_eq div_nat_eqI le_add1 mod_less_divisor mult.commute mult_Suc_right nat_add_left_cancel_less add.commute)

lemma octets_between:
  "b < 256 \<Longrightarrow> hi \<le> 256 \<Longrightarrow> (k * 256 + lo \<le> a * 256 + b \<and> a * 256 + b < k * 256 + hi) = (a = k \<and> lo \<le> b \<and> b < hi)" for a :: nat
  by (cases a k rule: linorder_cases) auto

lemma reserved_in_range:
  assumes "a < 256" "b < 256" "c < 256" "d < 256"
  shows "list_ex (in_v4_range (ipv4ToInt (dotted a b c d))) PRIVATE_V4_RANGES \<longleftrightarrow> reserved a b"
proof -
  note here = octets_between [OF assms(2)]
  have one: "(x = k) = (k \<le> x \<and> x < k + 1)" for x k :: nat by auto
  have e1: "(a * 256 + b) div 256 = a" using assms(2) by simp
  have e2: "((a * 256 + b) div 64 = 401) = (a = 100 \<and> 64 \<le> b \<and> b < 128)" using here [of 128 100 64 a] by (simp add: div_is)
  have e3: "(a * 256 + b = 43518) = (a = 169 \<and> 254 \<le> b \<and> b < 255)"
    using here [of 255 169 254 a] unfolding one [of "a * 256 + b"] by simp
  have e4: "((a * 256 + b) div 16 = 2753) = (a = 172 \<and> 16 \<le> b \<and> b < 32)" using here [of 32 172 16 a] by (simp add: div_is)
  have e5: "(a * 256 + b = 49320) = (a = 192 \<and> 168 \<le> b \<and> b < 169)"
    using here [of 169 192 168 a] unfolding one [of "a * 256 + b"] by simp
  have e6: "((a * 256 + b) div 2 = 25353) = (a = 198 \<and> 18 \<le> b \<and> b < 20)" using here [of 20 198 18 a] by (simp add: div_is)
  have e7: "((a * 256 + b) div 4096 = 14) = (224 \<le> a \<and> a < 240)" using assms(2) by (simp add: div_is) linarith
  have only_octet: "(254 \<le> b \<and> b < 255) = (b = 254)" "(168 \<le> b \<and> b < 169) = (b = 168)" "(18 \<le> b \<and> b < 20) = (b = 18 \<or> b = 19)"
    by linarith+
  note e = e1 e2 e3 e4 e5 e6 e7
  have p: "(2 :: nat) ^ (16 - 8) = 256" "(2 :: nat) ^ (16 - 10) = 64" "(2 :: nat) ^ (16 - 16) = 1" "(2 :: nat) ^ (16 - 12) = 16"
    "(2 :: nat) ^ (16 - 15) = 2" "(2 :: nat) ^ (16 - 4) = 4096"
    by simp_all
  have r: "in_v4_range (ipv4ToInt (dotted a b c d)) (dotted a' b' 0 0, bits) = ((a * 256 + b) div m = (a' * 256 + b') div m)"
    if "a' < 256" "b' < 256" "0 < bits \<and> bits \<le> 16" "(2 :: nat) ^ (16 - bits) = m" for a' b' bits m
    using in_range_dotted [OF assms, of a' b' bits] that by simp
  show ?thesis
    unfolding ranges_dotted list_ex_iff list.set ball_simps bex_simps
      r [of 0 0 8, OF _ _ _ p(1), simplified] r [of 10 0 8, OF _ _ _ p(1), simplified] r [of 127 0 8, OF _ _ _ p(1), simplified]
      r [of 100 64 10, OF _ _ _ p(2), simplified] r [of 169 254 16, OF _ _ _ p(3), simplified] r [of 172 16 12, OF _ _ _ p(4), simplified]
      r [of 192 168 16, OF _ _ _ p(3), simplified] r [of 198 18 15, OF _ _ _ p(5), simplified] r [of 224 0 4, OF _ _ _ p(6), simplified]
      div_by_1 e reserved_def
    by (simp add: assms(2) only_octet disj_ac)
qed

lemma private_dotted:
  assumes "a < 256" "b < 256" "c < 256" "d < 256"
  shows "isPrivateAddress (dotted a b c d) = reserved a b"
  using assms by (subst isPrivateAddress.simps) (simp add: isIP_def dotted_is_ipv4 reserved_in_range)

lemma dotted_chars: "x \<in> set (dotted a b c d) \<Longrightarrow> is_digit x \<or> x = CHR ''.''"
  by (auto simp: dotted_def dest: show_nat_digits)

lemma lower_id: "list_all (\<lambda>x. is_digit x \<or> x = CHR ''.'') s \<Longrightarrow> to_lower s = s"
  by (induction s) (auto simp: to_lower_def lower_char_def is_digit_def)

lemma lower_dotted [simp]: "to_lower (dotted a b c d) = dotted a b c d"
  using dotted_chars by (intro lower_id) (auto simp: list_all_iff)

lemma unbracket_dotted [simp]: "unbracket (dotted a b c d) = dotted a b c d"
proof -
  have no: "CHR ''['' \<notin> set (dotted a b c d)" "CHR '']'' \<notin> set (dotted a b c d)" by (auto dest: dotted_chars simp: is_digit_def)
  have "\<not> startsWith (dotted a b c d) ''[''" using no(1) by (auto simp: startsWith_def prefix_def)
  moreover have "\<not> endsWith (dotted a b c d) '']''" using no(2) by (auto simp: endsWith_def suffix_def)
  ultimately show ?thesis by (simp add: unbracket_def)
qed

lemma mapped_is_ipv6:
  assumes "a < 256" "b < 256" "c < 256" "d < 256"
  shows "isIP (''::ffff:'' @ dotted a b c d) = 6"
proof -
  let ?d = "dotted a b c d"
  have no: "CHR '':'' \<notin> set ?d" "CHR ''%'' \<notin> set ?d" by (auto dest: dotted_chars simp: is_digit_def)
  have plain: "takeWhile (\<lambda>c. c \<noteq> CHR ''%'') ?d = ?d" using no(2) by (auto simp: takeWhile_eq_all_conv)
  have whole: "takeWhile (\<lambda>c. c \<noteq> CHR ''%'') (''::ffff:'' @ ?d) = ''::ffff:'' @ ?d" "dropWhile (\<lambda>c. c \<noteq> CHR ''%'') (''::ffff:'' @ ?d) = []"
    using no(2) by (auto simp: takeWhile_eq_all_conv dropWhile_eq_Nil_conv)
  have "split_on (CHR '':'') (''ffff'' @ CHR '':'' # ?d) = [''ffff'', ?d]" using no(1) by (subst split_on_append) (auto simp: split_on_no_sep)
  moreover have "v6_segment ''ffff''" by code_simp
  moreover have "\<not> v6_segment ?d"
  proof -
    have "CHR ''.'' \<in> set ?d" by (simp add: dotted_def)
    moreover have "\<not> hex_char (CHR ''.'')" by code_simp
    ultimately show ?thesis by (auto simp: v6_segment_def list_all_iff)
  qed
  ultimately have "is_ipv6 (''::ffff:'' @ ?d)"
    using assms by (simp add: is_ipv6_def plain whole [simplified] segments_of_def dotted_is_ipv4 Let_def)
  moreover have "\<not> is_ipv4 (''::ffff:'' @ ?d)"
  proof
    assume v4: "is_ipv4 (''::ffff:'' @ ?d)"
    define p where "p = ''::ffff:''"
    have p: "CHR ''.'' \<notin> set p" "CHR '':'' \<in> set p" "p @ ?d = (p @ show_nat a) @ CHR ''.'' # join ''.'' (map show_nat [b, c, d])"
      by (simp_all add: p_def dotted_def)
    have "split_on (CHR ''.'') (p @ ?d) = (p @ show_nat a) # split_on (CHR ''.'') (join ''.'' (map show_nat [b, c, d]))"
      unfolding p(3) by (rule split_on_append) (simp add: p(1) dot_not_digit)
    then have "v4_segment (p @ show_nat a)" using v4 unfolding is_ipv4_def p_def [symmetric] by simp
    then have "is_digit (CHR '':'')" using p(2) by (auto simp: v4_segment_def list_all_iff)
    then show False by (simp add: is_digit_def)
  qed
  ultimately show ?thesis by (simp add: isIP_def)
qed

section \<open>The properties\<close>

text \<open>An IPv4 address is taken as private exactly when it lies in one of the reserved ranges: this
  network, loopback, 10/8, 172.16/12, 192.168/16, carrier-grade NAT, link local, benchmarking and
  multicast - the 32-bit masks compute these intervals. So is its IPv6-mapped form with dotted ending.\<close>
theorem private_v4_exact:
  assumes "a < 256" "b < 256" "c < 256" "d < 256"
  shows "isPrivateAddress (dotted a b c d) = reserved a b \<and> isPrivateAddress (''::ffff:'' @ dotted a b c d) = reserved a b"
proof
  show "isPrivateAddress (dotted a b c d) = reserved a b" by (rule private_dotted [OF assms])
  have "to_lower (''::ffff:'' @ dotted a b c d) = ''::ffff:'' @ dotted a b c d"
    using lower_dotted [of a b c d] by (simp add: to_lower_def lower_char_def)
  then show "isPrivateAddress (''::ffff:'' @ dotted a b c d) = reserved a b"
    using assms mapped_is_ipv6 [OF assms] private_dotted [OF assms] by (subst isPrivateAddress.simps) (simp add: startsWith_def)
qed

theorem private_v4_exact_witness: "isPrivateAddress (dotted 172 31 0 1) \<and> \<not> isPrivateAddress (dotted 172 32 0 1)"
  using private_v4_exact [of 172 31 0 1] private_v4_exact [of 172 32 0 1] by (simp add: reserved_def)

text \<open>The hosts a connection makes the server call.\<close>

fun connects_to :: "(string \<Rightarrow> err + string \<times> string) \<Rightarrow> connection_endpoints \<Rightarrow> string \<Rightarrow> bool" where
  "connects_to parse_url (EmailServers imap smtp) host = (host = imap \<or> host = smtp)"
| "connects_to parse_url (OutboundUrl u) host = (\<exists>protocol. parse_url u = Inr (protocol, host))"
| "connects_to parse_url NoEndpoints host = False"

lemma gate_host:
  assumes "assertConnectionEndpointsAllowed lookup parse_url conn True = Inr ()" "connects_to parse_url conn host"
  shows "\<exists>label. assertPublicHost lookup host label = Inr ()"
proof (cases conn)
  case (EmailServers imap smtp)
  then show ?thesis using assms by (auto simp: assertConnectionEndpointsAllowed_def bindR_Inr_iff)
qed (use assms in \<open>auto simp: assertConnectionEndpointsAllowed_def bindR_Inr_iff split: if_splits\<close>)

lemma public_host_facts:
  assumes "assertPublicHost lookup host label = Inr ()"
  shows "\<not> isPrivateHostname host" "isIP host = 0 \<Longrightarrow> lookup host = Some as \<Longrightarrow> x \<in> set as \<Longrightarrow> \<not> isPrivateAddress x"
  using assms by (auto simp: assertPublicHost_def Let_def list_ex_iff split: if_splits)



section \<open>A gap\<close>

text \<open>The mapped form with hexadecimal groups - the one a URL parser writes - is not recognised: the
  rest after \<open>::ffff:\<close> is no address by itself. With its brackets the host is not looked up
  successfully either, and a failed lookup is an acceptance.\<close>

lemma mapped_hex_accepted:
  "isPrivateAddress ''::ffff:7f00:1'' = False \<and>
   assertConnectionEndpointsAllowed (\<lambda>_. None) (\<lambda>_. Inr (''https:'', ''[::ffff:7f00:1]'')) (OutboundUrl u) True = Inr ()"
proof -
  have "isPrivateAddress ''::ffff:7f00:1'' = False" "isPrivateHostname ''[::ffff:7f00:1]'' = False" "isIP ''[::ffff:7f00:1]'' = 0"
    by code_simp+
  then show ?thesis by (simp add: assertConnectionEndpointsAllowed_def assertPublicHost_def Let_def)
qed

end
