(* ===== verification/Channels.thy ===== *)
theory Channels
  imports Media Conversations EndpointPolicy
begin

text \<open>
  Connecting and configuring channels: \<open>apps/api/src/channels/channels.service.ts\<close> with
  \<open>channel-presenter.ts\<close>, the rest of \<open>channel-runtime.service.ts\<close> and the permissions of
  \<open>channels.controller.ts\<close>. The provider calls are the argument \<open>ch_ops\<close>; before transaction \<open>k\<close> of
  an operation other sessions do \<open>ch_race k\<close>, and it may be aborted by \<open>ch_fault k\<close>. The columns
  \<open>capabilities\<close>, \<open>createdAt\<close> and \<open>updatedAt\<close>, and the columns of a member's profile that are only
  shown, are left out.
\<close>

section \<open>What an adapter declares\<close>

datatype inbound_kind = IWebhook | IPolling | IWebhookOrPolling | IWidget

fun adapter_inbound :: "channel_provider \<Rightarrow> inbound_kind" where
  "adapter_inbound EMAIL_SMTP_IMAP = IPolling"
| "adapter_inbound WEBCHAT_EMBED = IWidget"
| "adapter_inbound TELEGRAM_BOT = IWebhookOrPolling"
| "adapter_inbound _ = IWebhook"

fun generatedSecrets :: "channel_provider \<Rightarrow> string list" where
  "generatedSecrets WHATSAPP_CLOUD = [''verifyToken'']"
| "generatedSecrets META_MESSENGER = [''verifyToken'']"
| "generatedSecrets META_INSTAGRAM = [''verifyToken'']"
| "generatedSecrets TELEGRAM_BOT = [''webhookSecret'']"
| "generatedSecrets CUSTOM_WEBHOOK = [''webhookSecret'']"
| "generatedSecrets _ = []"

definition registers_webhook :: "channel_provider \<Rightarrow> bool" where
  "registers_webhook p = (p \<in> {WHATSAPP_CLOUD, TELEGRAM_BOT, LINE_MESSAGING, META_MESSENGER, META_INSTAGRAM})"

definition unregisters_webhook :: "channel_provider \<Rightarrow> bool" where
  "unregisters_webhook p = (p \<in> {WHATSAPP_CLOUD, TELEGRAM_BOT, META_MESSENGER})"

record verified_account =
  va_accountIdentifier :: "string option"
  va_displayIdentifier :: string
  va_displayName :: "string option"
  va_metadata :: "(string \<times> json) list"
  va_initialCursor :: "json option"

record channel_health =
  hl_isHealthy :: bool
  hl_message :: string
  hl_latencyMs :: "nat option"

text \<open>The calls of the adapters; a registration answers whether it registered and a note.\<close>

record adapter_ops =
  ao_verifyCredentials :: "channel_provider \<Rightarrow> (string \<times> json) list \<Rightarrow> err + verified_account"
  ao_registerWebhook :: "channel_provider \<Rightarrow> adapter_account \<Rightarrow> string \<Rightarrow> json \<Rightarrow> err + bool \<times> string option"
  ao_unregisterWebhook :: "channel_provider \<Rightarrow> adapter_account \<Rightarrow> err + unit"
  ao_healthCheck :: "channel_provider \<Rightarrow> adapter_account \<Rightarrow> err + channel_health"

section \<open>The environment\<close>

record channel_env =
  ch_now :: int
  ch_iso :: "int \<Rightarrow> string"
  ch_ids :: "nat \<Rightarrow> id"
  ch_token :: "nat \<Rightarrow> string"
  ch_cipher :: "cipher option"
  ch_seal :: gcm_seal
  ch_open :: gcm_open
  ch_iv :: bytes
  ch_datetime :: "string \<Rightarrow> bool"
  ch_enforce :: bool
  ch_lookup :: dns
  ch_parse_url :: "string \<Rightarrow> err + string \<times> string"
  ch_publicBaseUrl :: string
  ch_ops :: adapter_ops
  ch_race :: "nat \<Rightarrow> db \<Rightarrow> db"
  ch_fault :: "nat \<Rightarrow> err option"

definition hasPublicHttpsUrl :: "channel_env \<Rightarrow> bool" where
  "hasPublicHttpsUrl env = startsWith (ch_publicBaseUrl env) ''https://''"

definition webhookUrl :: "channel_env \<Rightarrow> channel_provider \<Rightarrow> string option \<Rightarrow> string option" where
  "webhookUrl env p key = (case webhookPath p of None \<Rightarrow> None
     | Some path \<Rightarrow> (case nonblank key of None \<Rightarrow> None
         | Some k \<Rightarrow> Some (ch_publicBaseUrl env @ ''/api/v1/webhooks/'' @ path @ ''/'' @ k)))"

definition inboundModeFor :: "channel_env \<Rightarrow> channel_provider \<Rightarrow> inbound_mode" where
  "inboundModeFor env p = (case adapter_inbound p of
     IPolling \<Rightarrow> POLLING
   | IWidget \<Rightarrow> WIDGET
   | IWebhookOrPolling \<Rightarrow> if hasPublicHttpsUrl env then WEBHOOK else POLLING
   | IWebhook \<Rightarrow> WEBHOOK)"

definition channel_account :: "channel_env \<Rightarrow> provider_account \<Rightarrow> err + adapter_account" where
  "channel_account env row = runtime_account (ch_datetime env) (ch_open env) (ch_cipher env) row"

section \<open>Stored documents\<close>

fun mode_name :: "inbound_mode \<Rightarrow> string" where
  "mode_name WEBHOOK = ''WEBHOOK''"
| "mode_name POLLING = ''POLLING''"
| "mode_name WIDGET = ''WIDGET''"

definition nullable :: "string option \<Rightarrow> json" where
  "nullable x = (case x of None \<Rightarrow> JNull | Some s \<Rightarrow> JStr s)"

definition config_json :: "connection_config \<Rightarrow> json" where
  "config_json c = JObj [(''inboundMode'', JStr (mode_name (cf_inboundMode c))), (''webhookRegistered'', JBool (cf_webhookRegistered c)),
     (''setupNote'', nullable (cf_setupNote c)), (''displayName'', nullable (cf_displayName c)),
     (''providerMetadata'', JObj (cf_providerMetadata c)),
     (''presentation'', JObj [(''details'', JObj (cf_details c)), (''hints'', JObj (cf_hints c))])]"

fun method_name :: "distribution_method \<Rightarrow> string" where
  "method_name LEAST_ASSIGNED = ''LEAST_ASSIGNED''"
| "method_name ROUND_ROBIN = ''ROUND_ROBIN''"
| "method_name MANUAL = ''MANUAL''"

definition settings_entries :: "inbox_settings \<Rightarrow> (string \<times> json) list" where
  "settings_entries s = [(''aiAgentId'', nullable (is_aiAgentId s)), (''distributionMethod'', JStr (method_name (is_distributionMethod s))),
     (''maxConversationsEnabled'', JBool (is_maxConversationsEnabled s)), (''maxConversationsPerAgent'', JNum (int (is_maxConversationsPerAgent s))),
     (''preferredAgent'', JBool (is_preferredAgent s)), (''csatEnabled'', JBool (is_csatEnabled s)),
     (''reassignWhenOffline'', JBool (is_reassignWhenOffline s))]"

text \<open>\<open>{...a, ...b}\<close>, read by key: an entry of \<open>b\<close> hides the one of \<open>a\<close>.\<close>

definition spread :: "(string \<times> json) list \<Rightarrow> (string \<times> json) list \<Rightarrow> (string \<times> json) list" where
  "spread a b = b @ filter (\<lambda>kv. fst kv \<notin> fst ` set b) a"

text \<open>A bullet of a masked secret is the code unit 0x95.\<close>

definition hint_text :: "hint \<Rightarrow> string" where
  "hint_text h = map (\<lambda>c. case c of None \<Rightarrow> CHR 0x95 | Some x \<Rightarrow> x) h"

section \<open>Reads\<close>

definition channel_agents :: "id \<Rightarrow> db \<Rightarrow> id list" where
  "channel_agents i d = map am_membershipId (filter (\<lambda>m. am_providerAccountId m = i) (db_account_members d))"

definition findRow :: "actor \<Rightarrow> id \<Rightarrow> db \<Rightarrow> err + provider_account" where
  "findRow a i d = (case List.find (\<lambda>r. pa_id r = i \<and> pa_workspaceId r = ac_workspaceId a \<and> pa_deletedAt r = None) (db_accounts d) of
     Some r \<Rightarrow> Inr r
   | None \<Rightarrow> Inl (ApiFailure 404 ''CHANNEL_NOT_FOUND'' ''This channel does not exist or was deleted.''))"

record webchat_view =
  wv_widgetKey :: string
  wv_scriptUrl :: string
  wv_embedSnippet :: string

record channel_view =
  chv_id :: id
  chv_channelType :: channel_type
  chv_provider :: channel_provider
  chv_name :: string
  chv_description :: string
  chv_identifier :: string
  chv_accountIdentifier :: string
  chv_status :: account_status
  chv_needsReconnect :: bool
  chv_statusReason :: "string option"
  chv_lastErrorAt :: "int option"
  chv_lastHealthCheckAt :: "int option"
  chv_connectedAt :: "int option"
  chv_mode :: inbound_mode
  chv_webhookUrl :: "string option"
  chv_verifyToken :: "string option"
  chv_signingSecret :: "string option"
  chv_webhookRegistered :: bool
  chv_setupNote :: "string option"
  chv_connectionDetails :: "(string \<times> json) list"
  chv_secretHints :: "(string \<times> json) list"
  chv_settings :: inbox_settings
  chv_humanAgentIds :: "id list"
  chv_webchat :: "webchat_view option"

definition webchatScriptUrl :: "channel_env \<Rightarrow> string \<Rightarrow> string" where
  "webchatScriptUrl env key = ch_publicBaseUrl env @ ''/api/v1/webchat/'' @ key @ ''/widget.js''"

definition presentWebchat :: "channel_env \<Rightarrow> provider_account \<Rightarrow> webchat_view option" where
  "presentWebchat env row = (if pa_provider row \<noteq> WEBCHAT_EMBED then None else (case nonblank (pa_webhookKey row) of None \<Rightarrow> None
     | Some k \<Rightarrow> (let scriptUrl = webchatScriptUrl env k in
         Some \<lparr>wv_widgetKey = k, wv_scriptUrl = scriptUrl,
           wv_embedSnippet = ''<script src='' @ [CHR 0x22] @ scriptUrl @ [CHR 0x22] @ '' async></script>''\<rparr>)))"

definition presentChannel :: "channel_env \<Rightarrow> id list \<Rightarrow> provider_account \<Rightarrow> json option \<Rightarrow> channel_view" where
  "presentChannel env members row secrets =
     (let config = readConnectionConfig (pa_config row); isWebhook = (cf_inboundMode config = WEBHOOK);
          shown = (\<lambda>k. case secrets of Some g \<Rightarrow> optional_string (jget g k) | None \<Rightarrow> None) in
      \<lparr>chv_id = pa_id row, chv_channelType = pa_channelType row, chv_provider = pa_provider row, chv_name = pa_name row,
       chv_description = (case pa_description row of Some x \<Rightarrow> x | None \<Rightarrow> []),
       chv_identifier = (case pa_displayIdentifier row of Some x \<Rightarrow> x | None \<Rightarrow> pa_accountIdentifier row),
       chv_accountIdentifier = pa_accountIdentifier row, chv_status = pa_status row,
       chv_needsReconnect = (pa_status row = ADISCONNECTED), chv_statusReason = pa_statusReason row,
       chv_lastErrorAt = pa_lastErrorAt row, chv_lastHealthCheckAt = pa_lastHealthCheckAt row, chv_connectedAt = pa_connectedAt row,
       chv_mode = cf_inboundMode config,
       chv_webhookUrl = (if isWebhook then webhookUrl env (pa_provider row) (pa_webhookKey row) else None),
       chv_verifyToken = (if isWebhook then shown ''verifyToken'' else None),
       chv_signingSecret = (if pa_provider row = CUSTOM_WEBHOOK then shown ''webhookSecret'' else None),
       chv_webhookRegistered = cf_webhookRegistered config, chv_setupNote = cf_setupNote config,
       chv_connectionDetails = cf_details config, chv_secretHints = cf_hints config,
       chv_settings = readInboxSettings (pa_settings row), chv_humanAgentIds = members, chv_webchat = presentWebchat env row\<rparr>)"

definition generated_of :: "json \<Rightarrow> json" where
  "generated_of secrets = (case jget secrets ''generated'' of JUndef \<Rightarrow> JObj [] | JNull \<Rightarrow> JObj [] | g \<Rightarrow> g)"

definition presented_row :: "channel_env \<Rightarrow> actor \<Rightarrow> db \<Rightarrow> provider_account \<Rightarrow> channel_view" where
  "presented_row env a d row = presentChannel env (channel_agents (pa_id row) d) row
     (if hasPermission (ac_permissions a) ''integration:manage''
      then (case ch_cipher env of None \<Rightarrow> None
        | Some c \<Rightarrow> (case openChannelSecrets (ch_datetime env) (ch_open env) c (pa_credentials row) (pa_id row) of
            Inr s \<Rightarrow> Some (generated_of s) | Inl _ \<Rightarrow> None))
      else None)"

definition listChannels :: "channel_env \<Rightarrow> actor \<Rightarrow> db \<Rightarrow> channel_view list" where
  "listChannels env a d = map (presented_row env a d)
     (filter (\<lambda>r. pa_workspaceId r = ac_workspaceId a \<and> pa_deletedAt r = None) (db_accounts d))"

definition getChannel :: "channel_env \<Rightarrow> actor \<Rightarrow> id \<Rightarrow> db \<Rightarrow> err + channel_view" where
  "getChannel env a i d = bindR (findRow a i d) (\<lambda>row. Inr (presented_row env a d row))"

definition listMembers :: "actor \<Rightarrow> db \<Rightarrow> (id \<times> string) list" where
  "listMembers a d = map (\<lambda>m. (mb_id m, mb_displayName m))
     (filter (\<lambda>m. mb_userActive m \<and> mb_userDeletedAt m = None)
       (filter (\<lambda>m. mb_workspaceId m = ac_workspaceId a \<and> mb_deletedAt m = None \<and> mb_status m = MActive) (db_members d)))"

section \<open>Connecting\<close>

record channel_connection =
  cn_provider :: channel_provider
  cn_credentials :: "(string \<times> json) list"

definition endpoints_of :: "channel_connection \<Rightarrow> connection_endpoints" where
  "endpoints_of cn = (let c = JObj (cn_credentials cn) in
     if cn_provider cn = EMAIL_SMTP_IMAP then EmailServers (jstr (jget c ''imap'') ''host'') (jstr (jget c ''smtp'') ''host'')
     else if cn_provider cn = CUSTOM_WEBHOOK then OutboundUrl (jstr c ''outboundUrl'') else NoEndpoints)"

definition verifyConnection :: "channel_env \<Rightarrow> channel_connection \<Rightarrow> err + verified_account" where
  "verifyConnection env cn = (case ao_verifyCredentials (ch_ops env) (cn_provider cn) (cn_credentials cn) of
     Inr v \<Rightarrow> Inr v
   | Inl (ProviderFailure e) \<Rightarrow> Inl (if pv_category e = PTRANSIENT then ApiFailure 502 ''CHANNEL_PROVIDER_UNREACHABLE'' (pv_message e)
       else ApiFailure 422 ''CHANNEL_VERIFICATION_FAILED'' (pv_message e))
   | Inl e \<Rightarrow> Inl e)"

text \<open>Token 0 is the account identifier's, token 1 the webhook key, the others generated secrets.\<close>

definition generateSecrets :: "channel_env \<Rightarrow> channel_provider \<Rightarrow> (string \<times> json) list" where
  "generateSecrets env p = map (\<lambda>(k, name). (name, JStr (ch_token env (k + 2)))) (enumerate 0 (generatedSecrets p))"

definition buildConfig :: "channel_connection \<Rightarrow> verified_account \<Rightarrow> inbound_mode \<Rightarrow> connection_config" where
  "buildConfig cn v mode = (let (details, hints) = presentCredentials (cn_provider cn) (cn_credentials cn) in
     \<lparr>cf_inboundMode = mode, cf_webhookRegistered = False, cf_setupNote = None, cf_displayName = va_displayName v,
      cf_providerMetadata = va_metadata v, cf_details = details, cf_hints = map (\<lambda>(k, h). (k, JStr (hint_text h))) hints\<rparr>)"

definition channel_audit :: "channel_env \<Rightarrow> actor \<Rightarrow> string \<Rightarrow> id \<Rightarrow> string \<Rightarrow> json option \<Rightarrow> json option \<Rightarrow> unit tx" where
  "channel_audit env a action rid corr before after = create_audit
     \<lparr>au_id = ch_ids env 1, au_workspaceId = ac_workspaceId a, au_actorId = ac_userId a, au_actorType = ''USER'', au_action = action,
      au_resourceType = ''channel'', au_resourceId = rid, au_correlationId = corr, au_beforeState = before,
      au_afterState = after, au_metadata = None\<rparr>"

definition channel_notice :: "provider_account \<Rightarrow> unit tx" where
  "channel_notice row = notifyRealtime (notice ''channel.updated'' (pa_workspaceId row) None None (Some (pa_id row)))"

text \<open>The unique columns: the webhook key, and the account identifier of a channel type in a workspace.\<close>

definition key_taken :: "provider_account \<Rightarrow> provider_account \<Rightarrow> bool" where
  "key_taken x r = (pa_webhookKey x \<noteq> None \<and> pa_webhookKey x = pa_webhookKey r)"

definition same_account :: "provider_account \<Rightarrow> provider_account \<Rightarrow> bool" where
  "same_account x r = (pa_workspaceId x = pa_workspaceId r \<and> pa_channelType x = pa_channelType r \<and>
     pa_accountIdentifier x = pa_accountIdentifier r)"

definition create_account :: "provider_account \<Rightarrow> unit tx" where
  "create_account r d = (if list_ex (\<lambda>x. pa_id x = pa_id r \<or> key_taken x r \<or> same_account x r) (db_accounts d)
     then Inl (uniqueViolation ''provider_accounts'') else Inr ((), d\<lparr>db_accounts := db_accounts d @ [r]\<rparr>))"

text \<open>\<open>update\<close> of one row, which returns it.\<close>

definition update_row :: "id \<Rightarrow> (provider_account \<Rightarrow> provider_account) \<Rightarrow> provider_account tx" where
  "update_row i f d = (case find_account i d of
     None \<Rightarrow> Inl recordNotFound
   | Some x \<Rightarrow> (if list_ex (\<lambda>y. pa_id y \<noteq> i \<and> key_taken y (f x)) (db_accounts d) then Inl (uniqueViolation ''provider_accounts'')
       else Inr (f x, d\<lparr>db_accounts := update_where (\<lambda>y. pa_id y = i) f (db_accounts d)\<rparr>)))"

record create_request =
  cq_name :: string
  cq_description :: "string option"
  cq_connection :: channel_connection

definition same_connection :: "actor \<Rightarrow> channel_type \<Rightarrow> string \<Rightarrow> db \<Rightarrow> provider_account option" where
  "same_connection a ty ident d = List.find (\<lambda>r. pa_workspaceId r = ac_workspaceId a \<and> pa_channelType r = ty \<and> pa_accountIdentifier r = ident)
     (db_accounts d)"

definition account_identifier :: "channel_env \<Rightarrow> channel_provider \<Rightarrow> verified_account \<Rightarrow> string" where
  "account_identifier env p v = (case va_accountIdentifier v of Some x \<Rightarrow> x
     | None \<Rightarrow> to_lower (channel_name (PROVIDER_CHANNEL_TYPES p)) @ ''_'' @ ch_token env 0)"

definition connected_row :: "channel_env \<Rightarrow> create_request \<Rightarrow> verified_account \<Rightarrow> json \<Rightarrow> provider_account \<Rightarrow> provider_account" where
  "connected_row env q v envelope r = (let cn = cq_connection q in r\<lparr>
     pa_name := cq_name q, pa_description := cq_description q, pa_provider := cn_provider cn,
     pa_displayIdentifier := Some (va_displayIdentifier v), pa_status := AACTIVE, pa_credentials := envelope,
     pa_config := config_json (buildConfig cn v (inboundModeFor env (cn_provider cn))),
     pa_webhookKey := Some (ch_token env 1), pa_statusReason := None, pa_lastErrorAt := None,
     pa_lastHealthCheckAt := Some (ch_now env), pa_connectedAt := Some (ch_now env),
     pa_syncState := (case va_initialCursor v of Some c \<Rightarrow> c | None \<Rightarrow> JNull), pa_deletedAt := None,
     pa_settings := JObj (settings_entries (readInboxSettings JNull))\<rparr>)"

definition blank_row :: "actor \<Rightarrow> id \<Rightarrow> channel_provider \<Rightarrow> string \<Rightarrow> provider_account" where
  "blank_row a i p ident = \<lparr>pa_id = i, pa_workspaceId = ac_workspaceId a, pa_channelType = PROVIDER_CHANNEL_TYPES p, pa_provider = p,
     pa_name = [], pa_accountIdentifier = ident, pa_status = AACTIVE, pa_credentials = JNull, pa_config = JNull, pa_description = None,
     pa_displayIdentifier = None, pa_webhookKey = None, pa_statusReason = None, pa_lastErrorAt = None, pa_lastHealthCheckAt = None,
     pa_connectedAt = None, pa_settings = JNull, pa_syncState = JNull, pa_syncLeaseExpiresAt = None, pa_deletedAt = None\<rparr>"

definition connect_tx ::
  "channel_env \<Rightarrow> actor \<Rightarrow> create_request \<Rightarrow> string \<Rightarrow> verified_account \<Rightarrow> json \<Rightarrow> provider_account option \<Rightarrow> provider_account tx" where
  "connect_tx env a q corr v envelope existing =
     bindT (case existing of
         Some x \<Rightarrow> update_row (pa_id x) (connected_row env q v envelope)
       | None \<Rightarrow> (let p = cn_provider (cq_connection q); row = connected_row env q v envelope (blank_row a (ch_ids env 0) p (account_identifier env p v)) in
           bindT (create_account row) (\<lambda>_. returnT row)))
     (\<lambda>saved. bindT (channel_audit env a ''channel.connected'' (pa_id saved) corr None
         (Some (JObj [(''provider'', JStr (provider_name (cn_provider (cq_connection q)))), (''name'', JStr (pa_name saved)),
           (''identifier'', JStr (va_displayIdentifier v))])))
       (\<lambda>_. returnT saved))"

definition inbound_setup :: "channel_env \<Rightarrow> provider_account \<Rightarrow> channel_provider \<Rightarrow> json \<Rightarrow> bool \<times> string option" where
  "inbound_setup env row p generated =
     (let mode = cf_inboundMode (readConnectionConfig (pa_config row)) in
      if registers_webhook p \<and> (mode = WEBHOOK \<or> adapter_inbound p = IWebhookOrPolling)
      then (let url = (case webhookUrl env p (pa_webhookKey row) of Some u \<Rightarrow> u | None \<Rightarrow> []) in
        (case bindR (channel_account env row) (\<lambda>acc. ao_registerWebhook (ch_ops env) p acc url generated) of
           Inr r \<Rightarrow> r
         | Inl e \<Rightarrow> (False, Some (''VYNOR could not register the webhook automatically: '' @ err_message e))))
      else if mode = WEBHOOK \<and> webhookPath p \<noteq> None then (False, Some ''Send signed requests to the webhook URL below.'')
      else (False, None))"

definition registerInbound :: "channel_env \<Rightarrow> provider_account \<Rightarrow> channel_provider \<Rightarrow> json \<Rightarrow> db \<Rightarrow> (err + provider_account) \<times> db" where
  "registerInbound env row p generated d =
     (let (registered, note) = inbound_setup env row p generated; config = readConnectionConfig (pa_config row) in
      run_attempt (ch_fault env 1)
        (bindT (update_row (pa_id row) (\<lambda>r. r\<lparr>pa_config := config_json (config\<lparr>cf_webhookRegistered := registered, cf_setupNote := note\<rparr>)\<rparr>))
          (\<lambda>saved. bindT (channel_notice row) (\<lambda>_. returnT saved)))
        (ch_race env 1 d))"

text \<open>The operation after its transaction: the provider is pointed at the channel.\<close>

definition then_register ::
  "channel_env \<Rightarrow> actor \<Rightarrow> channel_provider \<Rightarrow> json \<Rightarrow> (err + provider_account) \<times> db \<Rightarrow> (err + channel_view) \<times> db" where
  "then_register env a p generated r = (case r of
     (Inl e, d) \<Rightarrow> (Inl e, d)
   | (Inr row, d) \<Rightarrow> (case registerInbound env row p generated d of
       (Inl e, d') \<Rightarrow> (Inl e, d')
     | (Inr row', d') \<Rightarrow> (Inr (presented_row env a d' row'), d')))"

definition seal_secrets :: "channel_env \<Rightarrow> cipher \<Rightarrow> channel_connection \<Rightarrow> id \<Rightarrow> (string \<times> json) list \<Rightarrow> bool \<Rightarrow> err + json" where
  "seal_secrets env c cn i generated rotated =
     (case sealChannelSecrets (ch_seal env) (ch_iv env) c (cn_provider cn) i (channel_secrets (JObj (cn_credentials cn)) (JObj generated))
         (ch_iso env (ch_now env)) (if rotated then Some (ch_iso env (ch_now env)) else None) of
       Inl e \<Rightarrow> Inl (cipher_thrown e) | Inr j \<Rightarrow> Inr j)"

text \<open>The steps shared by connecting and reconnecting: cipher, endpoint policy, verification.\<close>

definition checked_connection :: "channel_env \<Rightarrow> channel_connection \<Rightarrow> err + cipher \<times> verified_account" where
  "checked_connection env cn = bindR (requireCipher (ch_cipher env)) (\<lambda>c.
     bindR (assertConnectionEndpointsAllowed (ch_lookup env) (ch_parse_url env) (endpoints_of cn) (ch_enforce env)) (\<lambda>_.
     bindR (verifyConnection env cn) (\<lambda>v. Inr (c, v))))"

definition already_connected :: "verified_account \<Rightarrow> provider_account \<Rightarrow> err" where
  "already_connected v x = ApiFailure 409 ''CHANNEL_ALREADY_CONNECTED''
     (va_displayIdentifier v @ '' is already connected as '' @ [CHR 0x22] @ pa_name x @ [CHR 0x22] @ ''.'')"

definition createChannel :: "channel_env \<Rightarrow> actor \<Rightarrow> create_request \<Rightarrow> string \<Rightarrow> db \<Rightarrow> (err + channel_view) \<times> db" where
  "createChannel env a q corr d = (let cn = cq_connection q; p = cn_provider cn in
     case checked_connection env cn of
       Inl e \<Rightarrow> (Inl e, d)
     | Inr (c, v) \<Rightarrow>
        (let existing = same_connection a (PROVIDER_CHANNEL_TYPES p) (account_identifier env p v) d in
         case existing of
           Some x \<Rightarrow> if pa_deletedAt x = None then (Inl (already_connected v x), d)
             else (case seal_secrets env c cn (pa_id x) (generateSecrets env p) False of
               Inl e \<Rightarrow> (Inl e, d)
             | Inr envelope \<Rightarrow> then_register env a p (JObj (generateSecrets env p))
                 (run_attempt (ch_fault env 0) (connect_tx env a q corr v envelope existing) (ch_race env 0 d)))
         | None \<Rightarrow> (case seal_secrets env c cn (ch_ids env 0) (generateSecrets env p) False of
               Inl e \<Rightarrow> (Inl e, d)
             | Inr envelope \<Rightarrow> then_register env a p (JObj (generateSecrets env p))
                 (run_attempt (ch_fault env 0) (connect_tx env a q corr v envelope existing) (ch_race env 0 d)))))"

definition kept_secrets :: "channel_env \<Rightarrow> cipher \<Rightarrow> provider_account \<Rightarrow> (string \<times> json) list" where
  "kept_secrets env c row = (case openChannelSecrets (ch_datetime env) (ch_open env) c (pa_credentials row) (pa_id row) of
     Inr s \<Rightarrow> asRecord (generated_of s) | Inl _ \<Rightarrow> [])"

definition reconnected_row :: "channel_env \<Rightarrow> channel_connection \<Rightarrow> verified_account \<Rightarrow> json \<Rightarrow> provider_account \<Rightarrow> provider_account \<Rightarrow> provider_account" where
  "reconnected_row env cn v envelope row r = r\<lparr>
     pa_displayIdentifier := Some (va_displayIdentifier v), pa_status := AACTIVE, pa_statusReason := None, pa_lastErrorAt := None,
     pa_lastHealthCheckAt := Some (ch_now env),
     pa_connectedAt := Some (case pa_connectedAt row of Some t \<Rightarrow> t | None \<Rightarrow> ch_now env), pa_credentials := envelope,
     pa_config := config_json (buildConfig cn v (inboundModeFor env (cn_provider cn))),
     pa_webhookKey := Some (case pa_webhookKey row of Some k \<Rightarrow> k | None \<Rightarrow> ch_token env 1),
     pa_syncState := (case va_initialCursor v of Some c \<Rightarrow> if pa_syncState row = JNull then c else pa_syncState r | None \<Rightarrow> pa_syncState r)\<rparr>"

definition reconnect_tx :: "channel_env \<Rightarrow> actor \<Rightarrow> channel_connection \<Rightarrow> string \<Rightarrow> verified_account \<Rightarrow> json \<Rightarrow> provider_account \<Rightarrow> provider_account tx" where
  "reconnect_tx env a cn corr v envelope row =
     bindT (update_row (pa_id row) (reconnected_row env cn v envelope row))
     (\<lambda>saved. bindT (channel_audit env a ''channel.reconnected'' (pa_id saved) corr None
         (Some (JObj [(''provider'', JStr (provider_name (pa_provider saved))), (''identifier'', JStr (va_displayIdentifier v))])))
     (\<lambda>_. bindT (channel_notice saved) (\<lambda>_. returnT saved)))"

definition account_mismatch :: "verified_account \<Rightarrow> provider_account \<Rightarrow> err" where
  "account_mismatch v row = ApiFailure 409 ''CHANNEL_ACCOUNT_MISMATCH'' (''These credentials belong to '' @ va_displayIdentifier v @ '', not to '' @
     (case pa_displayIdentifier row of Some x \<Rightarrow> x | None \<Rightarrow> pa_accountIdentifier row) @ ''. Connect it as a new channel instead.'')"

definition reconnectChannel :: "channel_env \<Rightarrow> actor \<Rightarrow> id \<Rightarrow> channel_connection \<Rightarrow> string \<Rightarrow> db \<Rightarrow> (err + channel_view) \<times> db" where
  "reconnectChannel env a i cn corr d = (case findRow a i d of
     Inl e \<Rightarrow> (Inl e, d)
   | Inr row \<Rightarrow>
       if cn_provider cn \<noteq> pa_provider row
       then (Inl (ApiFailure 422 ''CHANNEL_PROVIDER_MISMATCH'' ''Credentials must be for the same platform as this channel.''), d)
       else (case checked_connection env cn of
         Inl e \<Rightarrow> (Inl e, d)
       | Inr (c, v) \<Rightarrow>
           if nonblank (va_accountIdentifier v) \<noteq> None \<and> va_accountIdentifier v \<noteq> Some (pa_accountIdentifier row)
           then (Inl (account_mismatch v row), d)
           else (let generated = spread (generateSecrets env (pa_provider row)) (kept_secrets env c row) in
             (case seal_secrets env c cn (pa_id row) generated True of
                Inl e \<Rightarrow> (Inl e, d)
              | Inr envelope \<Rightarrow> then_register env a (pa_provider row) (JObj generated)
                  (run_attempt (ch_fault env 0) (reconnect_tx env a cn corr v envelope row) (ch_race env 0 d))))))"

section \<open>Settings, tests, removal\<close>

record channel_update =
  cu_name :: "string option"
  cu_description :: "string option"
  cu_settings :: "(string \<times> json) list option"
  cu_humanAgentIds :: "id list option"

definition active_members :: "actor \<Rightarrow> id list \<Rightarrow> db \<Rightarrow> nat" where
  "active_members a is d = count_where (\<lambda>m. mb_id m \<in> set is \<and> mb_workspaceId m = ac_workspaceId a \<and> mb_deletedAt m = None \<and> mb_status m = MActive)
     (db_members d)"

definition updated_row :: "channel_update \<Rightarrow> provider_account \<Rightarrow> provider_account \<Rightarrow> provider_account" where
  "updated_row q row r = r\<lparr>
     pa_name := (case cu_name q of Some n \<Rightarrow> n | None \<Rightarrow> pa_name r),
     pa_description := (case cu_description q of Some t \<Rightarrow> Some t | None \<Rightarrow> pa_description r),
     pa_settings := (case cu_settings q of None \<Rightarrow> pa_settings r
       | Some s \<Rightarrow> JObj (settings_entries (readInboxSettings
           (JObj (spread (settings_entries (readInboxSettings (pa_settings row))) s)))))\<rparr>"

definition replace_members :: "id \<Rightarrow> id list \<Rightarrow> unit tx" where
  "replace_members i is d = Inr ((), d\<lparr>db_account_members :=
     filter (\<lambda>m. am_providerAccountId m \<noteq> i) (db_account_members d) @
     map (\<lambda>m. \<lparr>am_providerAccountId = i, am_membershipId = m\<rparr>) (foldl set_add [] is)\<rparr>)"

definition channel_state :: "provider_account \<Rightarrow> id list \<Rightarrow> json" where
  "channel_state row members = JObj [(''name'', JStr (pa_name row)), (''settings'', JObj (settings_entries (readInboxSettings (pa_settings row)))),
     (''humanAgentIds'', JArr (map JStr members))]"

definition update_tx_channel :: "channel_env \<Rightarrow> actor \<Rightarrow> channel_update \<Rightarrow> string \<Rightarrow> provider_account \<Rightarrow> id list \<Rightarrow> provider_account tx" where
  "update_tx_channel env a q corr row before =
     bindT (case cu_humanAgentIds q of Some is \<Rightarrow> replace_members (pa_id row) is | None \<Rightarrow> returnT ())
     (\<lambda>_. bindT (update_row (pa_id row) (updated_row q row))
     (\<lambda>saved. bindT (\<lambda>s. channel_audit env a ''channel.updated'' (pa_id row) corr (Some (channel_state row before))
         (Some (channel_state saved (channel_agents (pa_id row) s))) s)
     (\<lambda>_. bindT (channel_notice row) (\<lambda>_. returnT saved))))"

definition updateChannel :: "channel_env \<Rightarrow> actor \<Rightarrow> id \<Rightarrow> channel_update \<Rightarrow> string \<Rightarrow> db \<Rightarrow> (err + channel_view) \<times> db" where
  "updateChannel env a i q corr d = (case findRow a i d of
     Inl e \<Rightarrow> (Inl e, d)
   | Inr row \<Rightarrow>
       if (case cu_humanAgentIds q of Some is \<Rightarrow> active_members a is d \<noteq> length (foldl set_add [] is) | None \<Rightarrow> False)
       then (Inl (ApiFailure 422 ''INVALID_HUMAN_AGENTS'' ''One or more selected agents are not active members of this workspace.''), d)
       else (case run_attempt (ch_fault env 0) (update_tx_channel env a q corr row (channel_agents i d)) (ch_race env 0 d) of
           (Inl e, d') \<Rightarrow> (Inl e, d')
         | (Inr saved, d') \<Rightarrow> (Inr (presented_row env a d' saved), d')))"

record test_result =
  tr_ok :: bool
  tr_status :: account_status
  tr_message :: string
  tr_checkedAt :: int
  tr_latencyMs :: "nat option"

text \<open>What a probe says of the channel; \<open>Inl\<close> for an error that is none of the channel's.\<close>

definition probe :: "channel_env \<Rightarrow> provider_account \<Rightarrow> err + test_result" where
  "probe env row = (let result = (\<lambda>ok st m l. \<lparr>tr_ok = ok, tr_status = st, tr_message = m, tr_checkedAt = ch_now env, tr_latencyMs = l\<rparr>) in
     case bindR (channel_account env row) (ao_healthCheck (ch_ops env) (pa_provider row)) of
       Inr h \<Rightarrow> Inr (result (hl_isHealthy h) (if hl_isHealthy h then AACTIVE else AERROR) (hl_message h) (hl_latencyMs h))
     | Inl (ProviderFailure e) \<Rightarrow> Inr (result False (if requiresReconnect e then ADISCONNECTED else AERROR) (pv_message e) None)
     | Inl (OtherError name m) \<Rightarrow> if name = ''CredentialCipherError''
         then Inr (result False ADISCONNECTED ''Stored credentials could not be read. Reconnect the channel.'' None) else Inl (OtherError name m)
     | Inl e \<Rightarrow> Inl e)"

definition tested_row :: "test_result \<Rightarrow> provider_account \<Rightarrow> provider_account" where
  "tested_row t r = r\<lparr>pa_status := tr_status t, pa_lastHealthCheckAt := Some (tr_checkedAt t),
     pa_statusReason := (if tr_ok t then None else Some (tr_message t)),
     pa_lastErrorAt := (if tr_ok t then pa_lastErrorAt r else Some (tr_checkedAt t))\<rparr>"

definition testChannel :: "channel_env \<Rightarrow> actor \<Rightarrow> id \<Rightarrow> db \<Rightarrow> (err + test_result) \<times> db" where
  "testChannel env a i d = (case findRow a i d of
     Inl e \<Rightarrow> (Inl e, d)
   | Inr row \<Rightarrow> (case probe env row of
       Inl e \<Rightarrow> (Inl e, d)
     | Inr t \<Rightarrow> (case run_attempt (ch_fault env 0) (bindT (update_row (pa_id row) (tested_row t)) (\<lambda>_. channel_notice row)) (ch_race env 0 d) of
           (Inl e, d') \<Rightarrow> (Inl e, d')
         | (Inr _, d') \<Rightarrow> (Inr t, d'))))"

definition removed_row :: "channel_env \<Rightarrow> provider_account \<Rightarrow> provider_account" where
  "removed_row env r = r\<lparr>pa_deletedAt := Some (ch_now env), pa_status := AINACTIVE, pa_webhookKey := None, pa_syncLeaseExpiresAt := None\<rparr>"

text \<open>The webhook is unregistered at the provider if that works; the channel is removed either way.\<close>

definition removeChannel :: "channel_env \<Rightarrow> actor \<Rightarrow> id \<Rightarrow> string \<Rightarrow> db \<Rightarrow> (err + unit) \<times> db" where
  "removeChannel env a i corr d = (case findRow a i d of
     Inl e \<Rightarrow> (Inl e, d)
   | Inr row \<Rightarrow> run_attempt (ch_fault env 0)
       (bindT (update_row (pa_id row) (removed_row env)) (\<lambda>_.
        bindT (channel_audit env a ''channel.deleted'' (pa_id row) corr
          (Some (JObj [(''provider'', JStr (provider_name (pa_provider row))), (''name'', JStr (pa_name row)), (''identifier'', nullable (pa_displayIdentifier row))])) None)
        (\<lambda>_. channel_notice row))) (ch_race env 0 d))"

definition unregistered :: "channel_env \<Rightarrow> provider_account \<Rightarrow> (err + unit) option" where
  "unregistered env row = (if unregisters_webhook (pa_provider row)
     then Some (bindR (channel_account env row) (ao_unregisterWebhook (ch_ops env) (pa_provider row))) else None)"

section \<open>Requests\<close>

datatype channel_request =
    ListChannels
  | GetChannel id
  | CreateChannel create_request
  | UpdateChannel id channel_update
  | ReconnectChannel id channel_connection
  | TestChannel id
  | RemoveChannel id

fun channel_permission :: "channel_request \<Rightarrow> string" where
  "channel_permission ListChannels = ''integration:read''"
| "channel_permission (GetChannel i) = ''integration:read''"
| "channel_permission _ = ''integration:manage''"

datatype channel_reply = Channels "channel_view list" | Channel channel_view | Tested test_result | NoContent

definition reply_as :: "('a \<Rightarrow> channel_reply) \<Rightarrow> (err + 'a) \<times> db \<Rightarrow> (err + channel_reply) \<times> db" where
  "reply_as f r = (case r of (Inl e, d) \<Rightarrow> (Inl e, d) | (Inr x, d) \<Rightarrow> (Inr (f x), d))"

fun channel_action :: "channel_env \<Rightarrow> actor \<Rightarrow> string \<Rightarrow> channel_request \<Rightarrow> db \<Rightarrow> (err + channel_reply) \<times> db" where
  "channel_action env a corr ListChannels d = (Inr (Channels (listChannels env a d)), d)"
| "channel_action env a corr (GetChannel i) d = reply_as Channel (getChannel env a i d, d)"
| "channel_action env a corr (CreateChannel q) d = reply_as Channel (createChannel env a q corr d)"
| "channel_action env a corr (UpdateChannel i q) d = reply_as Channel (updateChannel env a i q corr d)"
| "channel_action env a corr (ReconnectChannel i cn) d = reply_as Channel (reconnectChannel env a i cn corr d)"
| "channel_action env a corr (TestChannel i) d = reply_as Tested (testChannel env a i d)"
| "channel_action env a corr (RemoveChannel i) d = reply_as (\<lambda>_. NoContent) (removeChannel env a i corr d)"

end
