(* ===== verification/ChannelSafety.thy ===== *)
theory ChannelSafety
  imports Channels
begin

text \<open>
  What holds of the channel operations: the unique columns, the separation of workspaces, the
  lemmas on single transactions that the contract of the channel operations rests on.
\<close>

section \<open>One row\<close>

text \<open>Ids are unique, no two channels share a webhook key or an account.\<close>

definition channels_ok :: "db \<Rightarrow> bool" where
  "channels_ok d = (distinct (map pa_id (db_accounts d)) \<and>
     (\<forall>x\<in>set (db_accounts d). \<forall>y\<in>set (db_accounts d). pa_id x \<noteq> pa_id y \<longrightarrow> \<not> key_taken x y \<and> \<not> same_account x y))"

definition keeps_account :: "(provider_account \<Rightarrow> provider_account) \<Rightarrow> bool" where
  "keeps_account f = (\<forall>r. pa_id (f r) = pa_id r \<and> pa_workspaceId (f r) = pa_workspaceId r \<and> pa_channelType (f r) = pa_channelType r \<and>
     pa_accountIdentifier (f r) = pa_accountIdentifier r)"

lemma row_updates_keep [simp]:
  "keeps_account (connected_row env q v envelope)" "keeps_account (reconnected_row env cn v envelope row)"
  "keeps_account (updated_row u row)" "keeps_account (tested_row t)" "keeps_account (removed_row env)"
  "keeps_account (\<lambda>r. r\<lparr>pa_config := c\<rparr>)"
  by (simp_all add: keeps_account_def connected_row_def reconnected_row_def updated_row_def tested_row_def removed_row_def Let_def)

lemma keeps_accountD: "keeps_account f \<Longrightarrow> pa_id (f r) = pa_id r \<and> pa_workspaceId (f r) = pa_workspaceId r \<and>
    pa_channelType (f r) = pa_channelType r \<and> pa_accountIdentifier (f r) = pa_accountIdentifier r"
  by (simp add: keeps_account_def)

lemma update_row_Inr: "update_row i f d = Inr (r, d') \<longleftrightarrow> (\<exists>x. find_account i d = Some x \<and> r = f x \<and>
    \<not> list_ex (\<lambda>y. pa_id y \<noteq> i \<and> key_taken y (f x)) (db_accounts d) \<and>
    d' = d\<lparr>db_accounts := update_where (\<lambda>y. pa_id y = i) f (db_accounts d)\<rparr>)"
  by (auto simp: update_row_def split: option.splits)

lemma find_account_in: "find_account i d = Some x \<Longrightarrow> x \<in> set (db_accounts d) \<and> pa_id x = i"
  by (auto simp: find_account_def dest: find_SomeD)

lemma one_row: "channels_ok d \<Longrightarrow> find_account i d = Some x \<Longrightarrow> y \<in> set (db_accounts d) \<Longrightarrow> pa_id y = i \<Longrightarrow> y = x"
  unfolding channels_ok_def using find_account_in [of i d x] by (metis distinct_map inj_onD)

lemma same_account_keeps: "keeps_account f \<Longrightarrow> same_account (f x) y = same_account x y" "keeps_account f \<Longrightarrow> same_account x (f y) = same_account x y"
  by (simp_all add: same_account_def keeps_account_def)

lemma key_taken_sym: "key_taken x y \<longleftrightarrow> key_taken y x"
  unfolding key_taken_def by metis

text \<open>A transaction that keeps the unique columns.\<close>

definition keeps_ok :: "'a tx \<Rightarrow> bool" where
  "keeps_ok m = (\<forall>d a d'. channels_ok d \<longrightarrow> m d = Inr (a, d') \<longrightarrow> channels_ok d')"

lemma keeps_ok_bind: "keeps_ok m \<Longrightarrow> (\<And>a. keeps_ok (f a)) \<Longrightarrow> keeps_ok (bindT m f)"
  unfolding keeps_ok_def by (metis bindT_Inr)

lemma keeps_ok_return: "keeps_ok (returnT a)"
  by (simp add: keeps_ok_def)

lemma update_row_ok:
  assumes "keeps_account f"
  shows "keeps_ok (update_row i f)"
  unfolding keeps_ok_def
proof (intro allI impI)
  fix d a d'
  assume ok: "channels_ok d" and up: "update_row i f d = Inr (a, d')"
  obtain x where x: "find_account i d = Some x" "\<not> list_ex (\<lambda>y. pa_id y \<noteq> i \<and> key_taken y (f x)) (db_accounts d)"
    "d' = d\<lparr>db_accounts := update_where (\<lambda>y. pa_id y = i) f (db_accounts d)\<rparr>"
    using up unfolding update_row_Inr by blast
  note k = keeps_accountD [OF assms]
  have rows: "y \<in> set (db_accounts d') \<Longrightarrow> (y = f x \<and> pa_id y = i) \<or> (y \<in> set (db_accounts d) \<and> pa_id y \<noteq> i)" for y
    using one_row [OF ok x(1)] k unfolding x(3) by (auto simp: set_update_where)
  have clash: "\<not> key_taken y (f x) \<and> \<not> same_account y (f x)" if "y \<in> set (db_accounts d)" "pa_id y \<noteq> i" for y
    using that x(2) ok find_account_in [OF x(1)] same_account_keeps [OF assms] unfolding channels_ok_def by (auto simp: list_ex_iff)
  have "distinct (map pa_id (db_accounts d'))" using ok k unfolding x(3) channels_ok_def by (simp add: map_update_where)
  moreover have "\<not> key_taken y z \<and> \<not> same_account y z"
    if "y \<in> set (db_accounts d')" "z \<in> set (db_accounts d')" "pa_id y \<noteq> pa_id z" for y z
  proof -
    have sym: "same_account y z = same_account z y" by (auto simp: same_account_def)
    show ?thesis using rows [OF that(1)] rows [OF that(2)] that(3) clash ok key_taken_sym [of y z] sym unfolding channels_ok_def by blast
  qed
  ultimately show "channels_ok d'" unfolding channels_ok_def by blast
qed

lemma create_account_ok: "keeps_ok (create_account r)"
  unfolding keeps_ok_def
proof (intro allI impI)
  fix d a d'
  assume ok: "channels_ok d" and up: "create_account r d = Inr (a, d')"
  have new: "\<forall>x\<in>set (db_accounts d). pa_id x \<noteq> pa_id r \<and> \<not> key_taken x r \<and> \<not> same_account x r"
    and d': "db_accounts d' = db_accounts d @ [r]"
    using up by (auto simp: create_account_def list_ex_iff split: if_splits)
  have sym: "\<not> key_taken r x \<and> \<not> same_account r x" if "x \<in> set (db_accounts d)" for x
    using new that key_taken_sym [of x r] by (auto simp: same_account_def)
  show "channels_ok d'" unfolding channels_ok_def
  proof (intro conjI ballI impI)
    show "distinct (map pa_id (db_accounts d'))" using ok new unfolding channels_ok_def d' by auto
    fix x y
    assume "x \<in> set (db_accounts d')" "y \<in> set (db_accounts d')" and ne: "pa_id x \<noteq> pa_id y"
    then consider "x = r" "y \<in> set (db_accounts d)" | "y = r" "x \<in> set (db_accounts d)" | "x \<in> set (db_accounts d)" "y \<in> set (db_accounts d)"
      unfolding d' by auto
    then show "\<not> key_taken x y" "\<not> same_account x y"
      using new sym ok ne unfolding channels_ok_def by (cases; blast)+
  qed
qed

lemma other_tables_ok: "keeps_ok (channel_audit env a action rid corr before after)" "keeps_ok (channel_notice row)" "keeps_ok (replace_members i is)"
  by (auto simp: keeps_ok_def channel_audit_def create_audit_def channel_notice_def notifyRealtime_def replace_members_def channels_ok_def split: if_splits)

lemma run_attempt_ok_state:
  assumes "keeps_ok m" "channels_ok d"
  shows "channels_ok (snd (run_attempt fault m d))"
  using assms by (auto simp: run_attempt_def runTx_def keeps_ok_def split: sum.splits option.splits)

lemmas ok_rules = keeps_ok_bind keeps_ok_return update_row_ok create_account_ok other_tables_ok row_updates_keep

section \<open>The operations\<close>

lemma connect_ok: "keeps_ok (connect_tx env a q corr v envelope existing)"
  unfolding connect_tx_def by (cases existing) (auto simp: Let_def intro!: ok_rules)

lemma reconnect_ok: "keeps_ok (reconnect_tx env a cn corr v envelope row)"
  unfolding reconnect_tx_def by (intro ok_rules)

lemma audit_state_ok: "keeps_ok (\<lambda>s. channel_audit env a action rid corr before (f s) s)"
  using other_tables_ok(1) unfolding keeps_ok_def by blast

lemma update_ok: "keeps_ok (update_tx_channel env a q corr row before)"
  unfolding update_tx_channel_def by (cases "cu_humanAgentIds q") (simp_all, (intro ok_rules audit_state_ok)+)

text \<open>Other sessions keep the unique columns, as the database does.\<close>

definition races_ok :: "channel_env \<Rightarrow> bool" where
  "races_ok env = (\<forall>k d. channels_ok d \<longrightarrow> channels_ok (ch_race env k d))"

lemma registered_ok: "races_ok env \<Longrightarrow> channels_ok d \<Longrightarrow> channels_ok (snd (registerInbound env row p generated d))"
  unfolding registerInbound_def races_ok_def
  by (auto simp: Let_def split: prod.splits intro!: run_attempt_ok_state ok_rules)

lemma then_register_ok:
  assumes "races_ok env" "channels_ok (snd r)"
  shows "channels_ok (snd (then_register env a p generated r))"
proof (cases r)
  case (Pair x d)
  then show ?thesis using assms registered_ok [of env d]
    by (cases x) (auto simp: then_register_def split: prod.splits sum.splits, (metis snd_conv)+)
qed


lemma run_ok: "races_ok env \<Longrightarrow> channels_ok d \<Longrightarrow> keeps_ok m \<Longrightarrow> channels_ok (snd (run_attempt fault m (ch_race env k d)))"
  by (intro run_attempt_ok_state) (auto simp: races_ok_def)

lemma reply_state [simp]: "snd (reply_as f r) = snd r"
  by (cases r; cases "fst r") (auto simp: reply_as_def)

lemma action_ok:
  assumes "races_ok env" "channels_ok d"
  shows "channels_ok (snd (channel_action env a corr q d))"
proof (cases q)
  case (CreateChannel x)
  then show ?thesis using assms unfolding createChannel_def
    by (auto simp: createChannel_def Let_def split: sum.splits option.splits intro!: then_register_ok run_ok connect_ok)
next
  case (UpdateChannel i x)
  have run: "channels_ok (snd (run_attempt (ch_fault env 0) (update_tx_channel env a x corr row bf) (ch_race env 0 d)))" for row bf
    by (rule run_ok [OF assms update_ok])
  show ?thesis
  proof (cases "findRow a i d")
    case (Inr row)
    then show ?thesis using assms run [of row "channel_agents i d"] UpdateChannel
      by (auto simp: updateChannel_def split: sum.splits prod.splits)
  qed (simp add: UpdateChannel updateChannel_def assms)
next
  case (ReconnectChannel i x)
  then show ?thesis using assms
    by (auto simp: reconnectChannel_def Let_def split: sum.splits intro!: then_register_ok run_ok reconnect_ok)
next
  case (TestChannel i)
  have "keeps_ok (bindT (update_row j (tested_row t)) (\<lambda>_. channel_notice row))" for j t row by (intro ok_rules)
  then have run: "channels_ok (snd (run_attempt (ch_fault env 0) (bindT (update_row j (tested_row t)) (\<lambda>_. channel_notice row)) (ch_race env 0 d)))"
    for j t row by (intro run_ok [OF assms])
  show ?thesis
  proof (cases "findRow a i d")
    case (Inr row)
    show ?thesis
    proof (cases "probe env row")
      case t: (Inr t)
      then show ?thesis using assms run [of "pa_id row" t row] Inr TestChannel
        by (auto simp: testChannel_def split: sum.splits prod.splits)
    qed (simp add: TestChannel testChannel_def assms Inr)
  qed (simp add: TestChannel testChannel_def assms)
next
  case (RemoveChannel i)
  then show ?thesis using assms by (auto simp: removeChannel_def split: sum.splits intro!: run_ok ok_rules)
qed (simp_all add: assms)

section \<open>Workspaces\<close>

definition own_channels :: "id \<Rightarrow> db \<Rightarrow> id set" where
  "own_channels ws d = pa_id ` {r \<in> set (db_accounts d). pa_workspaceId r = ws}"

definition foreign_channels :: "id \<Rightarrow> db \<Rightarrow> provider_account list" where
  "foreign_channels ws d = filter (\<lambda>r. pa_workspaceId r \<noteq> ws) (db_accounts d)"

definition members_outside :: "id set \<Rightarrow> db \<Rightarrow> account_member list" where
  "members_outside I d = filter (\<lambda>m. am_providerAccountId m \<notin> I) (db_account_members d)"

text \<open>A log that only grows, by entries of a kind.\<close>

definition extends :: "('a \<Rightarrow> bool) \<Rightarrow> 'a list \<Rightarrow> 'a list \<Rightarrow> bool" where
  "extends P xs ys = (\<exists>zs. ys = xs @ zs \<and> list_all P zs)"

lemma extends_refl [simp]: "extends P xs xs"
  by (simp add: extends_def)

lemma extends_append [simp]: "extends P xs (xs @ zs) = list_all P zs"
  by (simp add: extends_def)

lemma extends_trans: "extends P xs ys \<Longrightarrow> extends P ys zs \<Longrightarrow> extends P xs zs"
  unfolding extends_def by (metis append.assoc list_all_append)

definition other_tables :: "db \<Rightarrow> db" where
  "other_tables d = d\<lparr>db_accounts := [], db_account_members := [], db_audit := [], db_notified := []\<rparr>"

text \<open>All that changes: rows of the workspace, members of its channels, its audit log and its notifications.\<close>

definition confined :: "id \<Rightarrow> db \<Rightarrow> db \<Rightarrow> bool" where
  "confined ws d d' = (foreign_channels ws d' = foreign_channels ws d \<and> own_channels ws d \<subseteq> own_channels ws d' \<and>
     members_outside (own_channels ws d') d' = members_outside (own_channels ws d') d \<and>
     extends (\<lambda>x. au_workspaceId x = ws) (db_audit d) (db_audit d') \<and>
     extends (\<lambda>n. nt_workspaceId n = ws) (db_notified d) (db_notified d') \<and> other_tables d' = other_tables d)"

lemma confined_refl: "confined ws d d"
  by (simp add: confined_def)

lemma members_outside_mono: "members_outside I d = members_outside I d' \<Longrightarrow> I \<subseteq> J \<Longrightarrow> members_outside J d = members_outside J d'"
proof -
  assume eq: "members_outside I d = members_outside I d'" and sub: "I \<subseteq> J"
  have "members_outside J x = filter (\<lambda>m. am_providerAccountId m \<notin> J) (members_outside I x)" for x
    using sub unfolding members_outside_def by (auto simp: filter_filter intro!: filter_cong)
  then show ?thesis by (simp add: eq)
qed

lemma confined_trans:
  assumes "confined ws d d1" "confined ws d1 d2"
  shows "confined ws d d2"
proof -
  have "members_outside (own_channels ws d2) d1 = members_outside (own_channels ws d2) d"
    using assms members_outside_mono unfolding confined_def by blast
  then show ?thesis using assms unfolding confined_def by (auto intro: extends_trans)
qed

text \<open>A transaction that stays in the workspace, once the channels \<open>I\<close> are in it.\<close>

definition confines :: "id \<Rightarrow> id set \<Rightarrow> 'a tx \<Rightarrow> bool" where
  "confines ws I m = (\<forall>d a d'. channels_ok d \<longrightarrow> I \<subseteq> own_channels ws d \<longrightarrow> m d = Inr (a, d') \<longrightarrow> confined ws d d')"

lemma confines_bind:
  assumes "keeps_ok m" "confines ws I m" "\<And>a. confines ws I (f a)"
  shows "confines ws I (bindT m f)"
  unfolding confines_def
proof (intro allI impI)
  fix d b d2
  assume d: "channels_ok d" "I \<subseteq> own_channels ws d" "bindT m f d = Inr (b, d2)"
  then obtain a d1 where s: "m d = Inr (a, d1)" "f a d1 = Inr (b, d2)" by (auto simp: bindT_Inr)
  have c: "confined ws d d1" using assms(2) d s unfolding confines_def by blast
  moreover have "channels_ok d1" using assms(1) d s unfolding keeps_ok_def by blast
  moreover have "I \<subseteq> own_channels ws d1" using c d unfolding confined_def by blast
  ultimately show "confined ws d d2" using assms(3) s confined_trans unfolding confines_def by blast
qed

lemma confines_return: "confines ws I (returnT a)"
  unfolding confines_def by (auto intro: confined_refl)

lemmas table_defs = foreign_channels_def own_channels_def members_outside_def other_tables_def

lemma confines_audit: "confines (ac_workspaceId a) I (channel_audit env a action rid corr before after)"
  by (auto simp: confines_def channel_audit_def create_audit_def confined_def table_defs split: if_splits)

lemma confines_notice: "pa_workspaceId row = ws \<Longrightarrow> confines ws I (channel_notice row)"
  by (auto simp: confines_def channel_notice_def notifyRealtime_def notice_def confined_def table_defs)

lemma confines_members: "confines ws {i} (replace_members i is)"
  unfolding confines_def replace_members_def by (auto simp: confined_def table_defs filter_empty_conv intro!: filter_cong)

lemma confines_create: "pa_workspaceId r = ws \<Longrightarrow> confines ws I (create_account r)"
  by (auto simp: confines_def create_account_def confined_def table_defs split: if_splits)

lemma foreign_update:
  assumes "channels_ok d" "i \<in> own_channels ws d" "keeps_account f"
  shows "filter (\<lambda>r. pa_workspaceId r \<noteq> ws) (update_where (\<lambda>y. pa_id y = i) f (db_accounts d)) = filter (\<lambda>r. pa_workspaceId r \<noteq> ws) (db_accounts d)"
proof -
  obtain x where x: "x \<in> set (db_accounts d)" "pa_id x = i" "pa_workspaceId x = ws" using assms(2) by (auto simp: own_channels_def)
  have "filter (\<lambda>r. pa_workspaceId r \<noteq> ws) (update_where (\<lambda>y. pa_id y = i) f (db_accounts d)) =
      update_where (\<lambda>y. pa_id y = i) f (filter (\<lambda>r. pa_workspaceId r \<noteq> ws) (db_accounts d))"
    using keeps_accountD [OF assms(3)] by (intro filter_update_where) auto
  also have "\<dots> = filter (\<lambda>r. pa_workspaceId r \<noteq> ws) (db_accounts d)"
    using assms(1) x unfolding channels_ok_def by (intro update_where_none) (auto simp: distinct_map inj_on_def)
  finally show ?thesis .
qed

lemma own_update:
  assumes "keeps_account f"
  shows "own_channels ws (d\<lparr>db_accounts := update_where P f (db_accounts d)\<rparr>) = own_channels ws d"
proof -
  have own: "own_channels ws s = fst ` {p \<in> set (map (\<lambda>r. (pa_id r, pa_workspaceId r)) (db_accounts s)). snd p = ws}" for s
    unfolding own_channels_def by force
  show ?thesis unfolding own using keeps_accountD [OF assms] by (simp add: map_update_where del: set_map)
qed

lemma confines_update: "keeps_account f \<Longrightarrow> confines ws {i} (update_row i f)"
  unfolding confines_def update_row_Inr
  by (auto simp: confined_def own_update foreign_channels_def foreign_update) (auto simp: members_outside_def other_tables_def)

text \<open>The row an update returns is stored and of the workspace.\<close>

lemma confines_update_then:
  assumes "keeps_account f" "\<And>s. pa_workspaceId s = ws \<Longrightarrow> confines ws {i} (g s)"
  shows "confines ws {i} (bindT (update_row i f) g)"
  unfolding confines_def
proof (intro allI impI)
  fix d b d2
  assume d: "channels_ok d" "{i} \<subseteq> own_channels ws d" "bindT (update_row i f) g d = Inr (b, d2)"
  then obtain s d1 where s: "update_row i f d = Inr (s, d1)" "g s d1 = Inr (b, d2)" by (auto simp: bindT_Inr)
  obtain x where x: "find_account i d = Some x" "s = f x" using s(1) unfolding update_row_Inr by blast
  have "pa_workspaceId x = ws"
    using d(2) one_row [OF d(1) x(1)] unfolding own_channels_def by auto
  then have g: "confines ws {i} (g s)" using assms x keeps_accountD by simp
  have c: "confined ws d d1" using confines_update [OF assms(1)] d s unfolding confines_def by blast
  have "channels_ok d1" using update_row_ok [OF assms(1)] d(1) s(1) unfolding keeps_ok_def by blast
  moreover have "{i} \<subseteq> own_channels ws d1" using c d(2) unfolding confined_def by blast
  ultimately have "confined ws d1 d2" using g s(2) unfolding confines_def by blast
  then show "confined ws d d2" by (rule confined_trans [OF c])
qed

lemma confines_audit_state: "confines (ac_workspaceId a) I (\<lambda>s. channel_audit env a action rid corr before (h s) s)"
  using confines_audit unfolding confines_def by blast

lemmas confine_rules = confines_bind confines_return confines_audit confines_notice confines_update confines_update_then

lemma connect_confined:
  "confines (ac_workspaceId a) (case existing of Some x \<Rightarrow> {pa_id x} | None \<Rightarrow> {}) (connect_tx env a q corr v envelope existing)"
proof (cases existing)
  case None
  then show ?thesis unfolding connect_tx_def
    by (auto simp: Let_def connected_row_def blank_row_def intro!: confines_bind confines_return confines_audit confines_create ok_rules)
next
  case (Some x)
  then show ?thesis unfolding connect_tx_def by (auto intro!: confine_rules ok_rules)
qed

lemma reconnect_confined: "confines (ac_workspaceId a) {pa_id row} (reconnect_tx env a cn corr v envelope row)"
  unfolding reconnect_tx_def by (intro confines_update_then confines_bind confines_audit confines_notice confines_return ok_rules)

lemma update_confined:
  assumes "pa_workspaceId row = ac_workspaceId a"
  shows "confines (ac_workspaceId a) {pa_id row} (update_tx_channel env a q corr row before)"
proof -
  have "confines (ac_workspaceId a) {pa_id row} (case cu_humanAgentIds q of Some is \<Rightarrow> replace_members (pa_id row) is | None \<Rightarrow> returnT ())"
    "keeps_ok (case cu_humanAgentIds q of Some is \<Rightarrow> replace_members (pa_id row) is | None \<Rightarrow> returnT ())"
    by (auto split: option.splits intro: confines_members confines_return ok_rules)
  then show ?thesis unfolding update_tx_channel_def using assms
    by (intro confines_bind confines_update confines_audit_state confines_notice confines_return audit_state_ok update_row_ok other_tables_ok row_updates_keep)
qed

text \<open>The row a transaction returns.\<close>

definition stored_in :: "id \<Rightarrow> provider_account \<Rightarrow> db \<Rightarrow> bool" where
  "stored_in ws row d = (row \<in> set (db_accounts d) \<and> pa_workspaceId row = ws)"

lemma updated_stored:
  assumes "update_row i f d = Inr (row, d1)" "channels_ok d" "i \<in> own_channels ws d" "keeps_account f"
  shows "stored_in ws row d1 \<and> pa_id row = i"
proof -
  obtain x where x: "find_account i d = Some x" "row = f x" "d1 = d\<lparr>db_accounts := update_where (\<lambda>y. pa_id y = i) f (db_accounts d)\<rparr>"
    using assms(1) unfolding update_row_Inr by blast
  then have "pa_workspaceId x = ws" using assms(3) one_row [OF assms(2) x(1)] unfolding own_channels_def by auto
  then show ?thesis using x find_account_in [OF x(1)] keeps_accountD [OF assms(4)] by (auto simp: stored_in_def set_update_where)
qed

lemma later_tables_keep:
  "channel_audit env a action rid corr before after d = Inr (u, d') \<Longrightarrow> db_accounts d' = db_accounts d"
  "channel_notice row d = Inr (u, d') \<Longrightarrow> db_accounts d' = db_accounts d"
  by (auto simp: channel_audit_def create_audit_def channel_notice_def notifyRealtime_def split: if_splits)

lemma stored_keep: "db_accounts d' = db_accounts d \<Longrightarrow> stored_in ws row d' = stored_in ws row d"
  by (simp add: stored_in_def)

lemma connect_stored:
  assumes "connect_tx env a q corr v envelope existing d = Inr (row, d1)" "channels_ok d"
    "\<forall>x. existing = Some x \<longrightarrow> pa_id x \<in> own_channels (ac_workspaceId a) d"
  shows "stored_in (ac_workspaceId a) row d1"
proof (cases existing)
  case None
  then obtain d0 where d0: "create_account row d = Inr ((), d0)" "pa_workspaceId row = ac_workspaceId a" "db_accounts d1 = db_accounts d0"
    using assms(1) unfolding connect_tx_def by (auto simp: Let_def bindT_Inr connected_row_def blank_row_def dest!: later_tables_keep)
  then show ?thesis by (auto simp: create_account_def stored_in_def split: if_splits)
next
  case (Some x)
  then obtain d0 where d0: "update_row (pa_id x) (connected_row env q v envelope) d = Inr (row, d0)" "db_accounts d1 = db_accounts d0"
    using assms(1) unfolding connect_tx_def by (auto simp: bindT_Inr dest!: later_tables_keep)
  then show ?thesis using updated_stored [OF d0(1) assms(2)] assms(3) Some stored_keep [OF d0(2)] by simp
qed

lemma reconnect_stored:
  assumes "reconnect_tx env a cn corr v envelope r d = Inr (row, d1)" "channels_ok d" "pa_id r \<in> own_channels ws d"
  shows "stored_in ws row d1"
proof -
  obtain d0 where d0: "update_row (pa_id r) (reconnected_row env cn v envelope r) d = Inr (row, d0)" "db_accounts d1 = db_accounts d0"
    using assms(1) unfolding reconnect_tx_def by (auto simp: bindT_Inr dest!: later_tables_keep)
  then show ?thesis using updated_stored [OF d0(1) assms(2,3)] stored_keep [OF d0(2)] by simp
qed

lemma run_attempt_cases:
  "run_attempt fault m d = (Inr a, d') \<Longrightarrow> m d = Inr (a, d')" "run_attempt fault m d = (Inl e, d') \<Longrightarrow> d' = d"
  by (auto simp: run_attempt_def runTx_def split: sum.splits option.splits)

lemma run_confined:
  assumes "confines ws I m" "channels_ok d" "I \<subseteq> own_channels ws d"
  shows "confined ws d (snd (run_attempt fault m d))"
proof (cases "run_attempt fault m d")
  case (Pair r d')
  then show ?thesis using assms run_attempt_cases [of fault m d] confined_refl unfolding confines_def by (cases r) fastforce+
qed

definition calm :: "channel_env \<Rightarrow> bool" where
  "calm env = (\<forall>k d. ch_race env k d = d)"

lemma calm_races: "calm env \<Longrightarrow> races_ok env"
  by (simp add: calm_def races_ok_def)

lemma registered_confined:
  assumes "calm env" "channels_ok d" "stored_in ws row d"
  shows "confined ws d (snd (registerInbound env row p generated d))"
proof -
  have row: "pa_workspaceId row = ws" "{pa_id row} \<subseteq> own_channels ws d" using assms(3) by (auto simp: stored_in_def own_channels_def)
  have "confines ws {pa_id row} (bindT (update_row (pa_id row) (\<lambda>r. r\<lparr>pa_config := c\<rparr>)) (\<lambda>saved. bindT (channel_notice row) (\<lambda>_. returnT saved)))" for c
    using row(1) by (intro confines_bind confines_update confines_notice confines_return update_row_ok other_tables_ok row_updates_keep)
  then show ?thesis using assms(1,2) row(2)
    by (auto simp: registerInbound_def Let_def calm_def split: prod.splits intro!: run_confined)
qed

lemma then_register_confined:
  assumes "calm env" "channels_ok d" "confines ws I m" "keeps_ok m" "I \<subseteq> own_channels ws d"
    "\<And>row d1. m d = Inr (row, d1) \<Longrightarrow> stored_in ws row d1"
  shows "confined ws d (snd (then_register env a p generated (run_attempt fault m d)))"
proof (cases "run_attempt fault m d")
  case (Pair r d1)
  have one: "confined ws d d1" using run_confined [OF assms(3,2,5), of fault] Pair by simp
  show ?thesis
  proof (cases r)
    case (Inr row)
    have m: "m d = Inr (row, d1)" using run_attempt_cases(1) [of fault m d row d1] Pair Inr by simp
    have ok: "channels_ok d1" using m assms(2,4) unfolding keeps_ok_def by blast
    have "confined ws d1 (snd (registerInbound env row p generated d1))"
      using registered_confined [OF assms(1) ok] assms(6) [OF m] by blast
    then have "confined ws d (snd (registerInbound env row p generated d1))" by (rule confined_trans [OF one])
    then show ?thesis by (auto simp: then_register_def Pair Inr split: sum.splits prod.splits)
  qed (simp add: then_register_def Pair one)
qed

lemma findRow_facts: "findRow a i d = Inr row \<Longrightarrow> row \<in> set (db_accounts d) \<and> pa_id row = i \<and> pa_workspaceId row = ac_workspaceId a \<and> pa_deletedAt row = None"
  by (auto simp: findRow_def split: option.splits dest!: find_SomeD)

lemma found_own: "findRow a i d = Inr row \<Longrightarrow> {pa_id row} \<subseteq> own_channels (ac_workspaceId a) d"
  using findRow_facts by (force simp: own_channels_def)

lemma same_connection_facts: "same_connection a ty ident d = Some x \<Longrightarrow>
    x \<in> set (db_accounts d) \<and> pa_workspaceId x = ac_workspaceId a \<and> pa_channelType x = ty \<and> pa_accountIdentifier x = ident"
  by (auto simp: same_connection_def dest!: find_SomeD)

lemma create_confined:
  assumes "calm env" "channels_ok d"
  shows "confined (ac_workspaceId a) d (snd (createChannel env a q corr d))"
proof -
  let ?ws = "ac_workspaceId a"
  have go: "confined ?ws d (snd (then_register env a p g (run_attempt (ch_fault env 0) (connect_tx env a q corr v envelope existing) (ch_race env 0 d))))"
    if "\<forall>x. existing = Some x \<longrightarrow> pa_id x \<in> own_channels ?ws d" for p g v envelope existing
    using assms(1) that then_register_confined [OF assms connect_confined connect_ok _ connect_stored [OF _ assms(2)], of existing a env q corr v envelope]
    by (auto simp: calm_def split: option.splits)
  have own: "pa_id x \<in> own_channels ?ws d" if "same_connection a ty ident d = Some x" for ty ident x
    using same_connection_facts [OF that] by (auto simp: own_channels_def)
  show ?thesis unfolding createChannel_def Let_def
    by (auto simp: confined_refl own split: sum.splits option.splits intro!: go)
qed

end
