(* ===== verification/ChannelContract.thy ===== *)
theory ChannelContract
  imports ChannelSafety Polling Normalizing
begin

text \<open>
  What connecting, updating and removing a channel achieve, and who sees its generated secrets.
\<close>

section \<open>Stored documents read back\<close>

definition valid_settings :: "inbox_settings \<Rightarrow> bool" where
  "valid_settings s = (1 \<le> is_maxConversationsPerAgent s \<and> is_maxConversationsPerAgent s \<le> 100 \<and>
     (\<forall>x. is_aiAgentId s = Some x \<longrightarrow> 1 \<le> length x \<and> length x \<le> 64))"

lemma settings_read: "valid_settings s \<Longrightarrow> readInboxSettings (JObj (settings_entries s)) = s"
  by (cases s; cases "is_distributionMethod s"; cases "is_aiAgentId s")
    (auto simp: valid_settings_def readInboxSettings_def parse_inbox_settings_def settings_entries_def agent_field_def method_field_def
      bool_field_def cap_field_def nullable_def)

lemma agent_valid: "agent_field j = Some (Some x) \<Longrightarrow> 1 \<le> length x \<and> length x \<le> 64"
  by (auto simp: agent_field_def split: option.splits json.splits if_splits)

lemma cap_valid: "cap_field j = Some n \<Longrightarrow> 1 \<le> n \<and> n \<le> 100"
  by (auto simp: cap_field_def split: option.splits json.splits if_splits)

lemma read_settings_valid: "valid_settings (readInboxSettings j)"
proof (cases "parse_inbox_settings j")
  case None
  then show ?thesis by (simp add: readInboxSettings_def valid_settings_def DEFAULT_INBOX_SETTINGS_def)
next
  case (Some s)
  then obtain a n where "agent_field j = Some a" "cap_field j = Some n" "is_aiAgentId s = a" "is_maxConversationsPerAgent s = n"
    by (auto simp: parse_inbox_settings_def split: option.splits)
  then show ?thesis using Some agent_valid [of j] cap_valid [of j n] by (auto simp: readInboxSettings_def valid_settings_def)
qed

lemma config_mode: "cf_inboundMode (readConnectionConfig (config_json c)) = cf_inboundMode c"
  by (cases "cf_inboundMode c") (simp_all add: readConnectionConfig_def config_json_def Let_def jget_Cons read_mode_def)

lemma config_details: "cf_details (readConnectionConfig (config_json c)) = cf_details c"
  by (simp add: readConnectionConfig_def config_json_def Let_def jget_Cons)

section \<open>Connecting\<close>

lemma create_parts:
  assumes "createChannel env a q corr d = (Inr view, d')" "calm env"
  obtains c v envelope existing i d1 row1 row2 where
    "checked_connection env (cq_connection q) = Inr (c, v)"
    "existing = same_connection a (PROVIDER_CHANNEL_TYPES (cn_provider (cq_connection q))) (account_identifier env (cn_provider (cq_connection q)) v) d"
    "i = (case existing of Some x \<Rightarrow> pa_id x | None \<Rightarrow> ch_ids env 0)" "\<forall>x. existing = Some x \<longrightarrow> pa_deletedAt x \<noteq> None"
    "seal_secrets env c (cq_connection q) i (generateSecrets env (cn_provider (cq_connection q))) False = Inr envelope"
    "connect_tx env a q corr v envelope existing d = Inr (row1, d1)"
    "registerInbound env row1 (cn_provider (cq_connection q)) (JObj (generateSecrets env (cn_provider (cq_connection q)))) d1 = (Inr row2, d')"
    "view = presented_row env a d' row2"
proof -
  let ?p = "cn_provider (cq_connection q)"
  obtain c v where cv: "checked_connection env (cq_connection q) = Inr (c, v)"
    using assms(1) by (cases "checked_connection env (cq_connection q)") (auto simp: createChannel_def Let_def)
  define existing where "existing = same_connection a (PROVIDER_CHANNEL_TYPES ?p) (account_identifier env ?p v) d"
  define i where "i = (case existing of Some x \<Rightarrow> pa_id x | None \<Rightarrow> ch_ids env 0)"
  have live: "\<forall>x. existing = Some x \<longrightarrow> pa_deletedAt x \<noteq> None"
    using assms(1) cv by (auto simp: createChannel_def Let_def existing_def split: if_splits)
  obtain envelope where seal: "seal_secrets env c (cq_connection q) i (generateSecrets env ?p) False = Inr envelope"
    and run: "then_register env a ?p (JObj (generateSecrets env ?p))
      (run_attempt (ch_fault env 0) (connect_tx env a q corr v envelope existing) d) = (Inr view, d')"
    using assms cv live unfolding createChannel_def Let_def existing_def [symmetric] i_def calm_def
    by (cases existing) (auto simp: existing_def [symmetric] split: sum.splits)
  then obtain row1 d1 row2 where tx: "run_attempt (ch_fault env 0) (connect_tx env a q corr v envelope existing) d = (Inr row1, d1)"
    and reg: "registerInbound env row1 ?p (JObj (generateSecrets env ?p)) d1 = (Inr row2, d')" and vw: "view = presented_row env a d' row2"
    by (auto simp: then_register_def split: prod.splits sum.splits)
  show ?thesis by (rule that [OF cv existing_def i_def live seal run_attempt_cases(1) [OF tx] reg vw])
qed

text \<open>The row after the first transaction, and after the registration.\<close>

lemma connect_row:
  assumes "connect_tx env a q corr v envelope existing d = Inr (row, d1)" "channels_ok d"
    "existing = same_connection a (PROVIDER_CHANNEL_TYPES (cn_provider (cq_connection q))) (account_identifier env (cn_provider (cq_connection q)) v) d"
  shows "channels_ok d1 \<and> row \<in> set (db_accounts d1) \<and> pa_id row = (case existing of Some x \<Rightarrow> pa_id x | None \<Rightarrow> ch_ids env 0) \<and>
    pa_workspaceId row = ac_workspaceId a \<and> (\<exists>r. row = connected_row env q v envelope r)"
proof -
  have own: "\<forall>x. existing = Some x \<longrightarrow> pa_id x \<in> own_channels (ac_workspaceId a) d"
    using assms(3) same_connection_facts by (fastforce simp: own_channels_def)
  have ok: "channels_ok d1" using connect_ok assms(1,2) unfolding keeps_ok_def by blast
  have stored: "row \<in> set (db_accounts d1) \<and> pa_workspaceId row = ac_workspaceId a"
    using connect_stored [OF assms(1,2) own] by (simp add: stored_in_def)
  show ?thesis
  proof (cases existing)
    case None
    then have new: "row = connected_row env q v envelope (blank_row a (ch_ids env 0) (cn_provider (cq_connection q)) (account_identifier env (cn_provider (cq_connection q)) v))"
      using assms(1) unfolding connect_tx_def by (auto simp: Let_def bindT_Inr)
    moreover have "pa_id row = ch_ids env 0" by (simp add: new connected_row_def blank_row_def Let_def)
    ultimately show ?thesis using ok stored None by auto
  next
    case (Some x)
    then obtain d0 where "update_row (pa_id x) (connected_row env q v envelope) d = Inr (row, d0)"
      using assms(1) unfolding connect_tx_def by (auto simp: bindT_Inr)
    then obtain r where "find_account (pa_id x) d = Some r" "row = connected_row env q v envelope r" unfolding update_row_Inr by blast
    then show ?thesis using ok stored Some find_account_in [of "pa_id x" d r] keeps_accountD [OF row_updates_keep(1)] by auto
  qed
qed

lemma member_found: "channels_ok d \<Longrightarrow> row \<in> set (db_accounts d) \<Longrightarrow> find_account (pa_id row) d = Some row"
  by (rule find_account_member) (simp_all add: channels_ok_def)

lemma registered_row:
  assumes "registerInbound env row p generated d = (Inr row2, d')" "calm env" "channels_ok d" "row \<in> set (db_accounts d)"
  shows "channels_ok d' \<and> row2 \<in> set (db_accounts d') \<and>
    (\<exists>registered nt. inbound_setup env row p generated = (registered, nt) \<and>
       row2 = row\<lparr>pa_config := config_json ((readConnectionConfig (pa_config row))\<lparr>cf_webhookRegistered := registered, cf_setupNote := nt\<rparr>)\<rparr>)"
proof -
  obtain registered nt where st: "inbound_setup env row p generated = (registered, nt)" by force
  let ?f = "\<lambda>r. r\<lparr>pa_config := config_json ((readConnectionConfig (pa_config row))\<lparr>cf_webhookRegistered := registered, cf_setupNote := nt\<rparr>)\<rparr>"
  have "bindT (update_row (pa_id row) ?f) (\<lambda>saved. bindT (channel_notice row) (\<lambda>_. returnT saved)) d = Inr (row2, d')"
    using assms(1,2) by (auto simp: registerInbound_def st Let_def calm_def dest!: run_attempt_cases(1))
  then obtain d0 where d0: "update_row (pa_id row) ?f d = Inr (row2, d0)" "db_accounts d' = db_accounts d0"
    by (auto simp: bindT_Inr dest!: later_tables_keep)
  have "row2 = ?f row" using d0(1) member_found [OF assms(3,4)] unfolding update_row_Inr by auto
  moreover have "stored_in (pa_workspaceId row) row2 d0"
    using updated_stored [OF d0(1) assms(3), of "pa_workspaceId row"] assms(4) by (auto simp: own_channels_def)
  moreover have "channels_ok d0" using update_row_ok [of ?f "pa_id row"] d0(1) assms(3) unfolding keeps_ok_def by simp
  ultimately show ?thesis using d0(2) st by (auto simp: stored_in_def channels_ok_def)
qed

lemma webhook_row:
  assumes "channels_ok d" "row \<in> set (db_accounts d)" "pa_webhookKey row = Some k" "pa_deletedAt row = None"
  shows "find_webhook_channel k (pa_provider row) d = Some row"
proof -
  obtain x where x: "find_webhook_channel k (pa_provider row) d = Some x"
    using assms by (cases "find_webhook_channel k (pa_provider row) d") (auto simp: find_webhook_channel_def find_None_iff_all)
  then have "x \<in> set (db_accounts d)" "pa_webhookKey x = Some k" using webhook_channel_facts by blast+
  then have "pa_id x = pa_id row" using assms unfolding channels_ok_def key_taken_def by (metis option.distinct(1))
  then have "x = row" using assms(1,2) \<open>x \<in> set (db_accounts d)\<close> unfolding channels_ok_def by (metis distinct_map inj_onD)
  then show ?thesis using x by simp
qed

lemma sealed_secrets:
  assumes "seal_secrets env c cn i generated rotated = Inr envelope" "gcm_laws (ch_seal env) (ch_open env)" "length (ch_iv env) = 12"
    and "fromEnv cenv = Inr (Some c)" "plain (channel_secrets (JObj (cn_credentials cn)) (JObj generated))" "i \<noteq> []"
    and "ch_datetime env (ch_iso env (ch_now env))"
  shows "openChannelSecrets (ch_datetime env) (ch_open env) c envelope i = Inr (channel_secrets (JObj (cn_credentials cn)) (JObj generated))"
proof -
  obtain key where key: "requireKey c (cc_activeKeyId c) = Inr key" "length key = KEY_BYTES"
    using fromEnv_facts [OF assms(4)] requireKey_length by blast
  have kid: "cc_activeKeyId c \<noteq> []"
    using assms(4) by (auto simp: fromEnv_def bindR_Inr_iff new_cipher_def split: option.splits if_splits)
  show ?thesis
    using seal_open [where datetime = "ch_datetime env" and created = "ch_iso env (ch_now env)" and provider = "cn_provider cn" and c' = c and
        rotated = "if rotated then Some (ch_iso env (ch_now env)) else None",
        OF assms(2,3) key key(1) assms(5) [unfolded channel_secrets_def] assms(6) kid assms(7)]
      assms(1,7) by (auto simp: seal_secrets_def channel_secrets_def split: sum.splits)
qed

text \<open>All of a channel that was just connected.\<close>

lemma connected_facts:
  assumes "createChannel env a q corr d = (Inr view, d')" "calm env" "channels_ok d"
    and crypto: "gcm_laws (ch_seal env) (ch_open env)" "length (ch_iv env) = 12" "fromEnv cenv = Inr (ch_cipher env)"
    and inputs: "plain (channel_secrets (JObj (cn_credentials (cq_connection q))) (JObj (generateSecrets env (cn_provider (cq_connection q)))))"
      "ch_ids env 0 \<noteq> []" "\<forall>x\<in>set (db_accounts d). pa_id x \<noteq> []" "ch_datetime env (ch_iso env (ch_now env))"
  obtains c v row1 row2 registered nt where
    "ch_cipher env = Some c" "verifyConnection env (cq_connection q) = Inr v" "view = presented_row env a d' row2"
    "channels_ok d'" "row2 \<in> set (db_accounts d')"
    "pa_workspaceId row1 = ac_workspaceId a" "pa_provider row1 = cn_provider (cq_connection q)" "pa_deletedAt row1 = None"
    "pa_webhookKey row1 = Some (ch_token env 1)"
    "pa_config row1 = config_json (buildConfig (cq_connection q) v (inboundModeFor env (cn_provider (cq_connection q))))"
    "pa_settings row1 = JObj (settings_entries (readInboxSettings JNull))"
    "pa_syncState row1 = (case va_initialCursor v of Some cur \<Rightarrow> cur | None \<Rightarrow> JNull)"
    "openChannelSecrets (ch_datetime env) (ch_open env) c (pa_credentials row1) (pa_id row1) =
       Inr (channel_secrets (JObj (cn_credentials (cq_connection q))) (JObj (generateSecrets env (cn_provider (cq_connection q)))))"
    "inbound_setup env row1 (cn_provider (cq_connection q)) (JObj (generateSecrets env (cn_provider (cq_connection q)))) = (registered, nt)"
    "row2 = row1\<lparr>pa_config := config_json ((readConnectionConfig (pa_config row1))\<lparr>cf_webhookRegistered := registered, cf_setupNote := nt\<rparr>)\<rparr>"
proof -
  let ?cn = "cq_connection q"
  obtain c v envelope existing i d1 row1 row2 where p: "checked_connection env ?cn = Inr (c, v)"
    "existing = same_connection a (PROVIDER_CHANNEL_TYPES (cn_provider ?cn)) (account_identifier env (cn_provider ?cn) v) d"
    "i = (case existing of Some x \<Rightarrow> pa_id x | None \<Rightarrow> ch_ids env 0)" "\<forall>x. existing = Some x \<longrightarrow> pa_deletedAt x \<noteq> None"
    "seal_secrets env c ?cn i (generateSecrets env (cn_provider ?cn)) False = Inr envelope"
    "connect_tx env a q corr v envelope existing d = Inr (row1, d1)"
    "registerInbound env row1 (cn_provider ?cn) (JObj (generateSecrets env (cn_provider ?cn))) d1 = (Inr row2, d')" "view = presented_row env a d' row2"
    by (rule create_parts [OF assms(1,2)])
  obtain r where r: "row1 = connected_row env q v envelope r" "channels_ok d1" "row1 \<in> set (db_accounts d1)" "pa_id row1 = i" "pa_workspaceId row1 = ac_workspaceId a"
    using connect_row [OF p(6) assms(3) p(2)] p(3) by blast
  obtain registered nt where row2: "channels_ok d'" "row2 \<in> set (db_accounts d')"
    "inbound_setup env row1 (cn_provider ?cn) (JObj (generateSecrets env (cn_provider ?cn))) = (registered, nt)"
    "row2 = row1\<lparr>pa_config := config_json ((readConnectionConfig (pa_config row1))\<lparr>cf_webhookRegistered := registered, cf_setupNote := nt\<rparr>)\<rparr>"
    using registered_row [OF p(7) assms(2) r(2,3)] by blast
  have c: "ch_cipher env = Some c" "verifyConnection env ?cn = Inr v"
    using p(1) by (auto simp: checked_connection_def requireCipher_def bindR_Inr_iff split: option.splits)
  have i: "i \<noteq> []" using p(2,3) inputs(2,3) same_connection_facts by (auto split: option.splits)
  have opened: "openChannelSecrets (ch_datetime env) (ch_open env) c envelope i = Inr (channel_secrets (JObj (cn_credentials ?cn)) (JObj (generateSecrets env (cn_provider ?cn))))"
    using sealed_secrets [OF p(5) crypto(1,2) _ inputs(1) i inputs(4), of cenv] crypto(3) c by simp
  have shape: "pa_provider row1 = cn_provider ?cn" "pa_deletedAt row1 = None" "pa_webhookKey row1 = Some (ch_token env 1)" "pa_credentials row1 = envelope"
    "pa_config row1 = config_json (buildConfig ?cn v (inboundModeFor env (cn_provider ?cn)))"
    "pa_settings row1 = JObj (settings_entries (readInboxSettings JNull))" "pa_syncState row1 = (case va_initialCursor v of Some cur \<Rightarrow> cur | None \<Rightarrow> JNull)"
    by (simp_all add: r(1) connected_row_def Let_def)
  show ?thesis
    using that [OF c p(8) row2(1,2) r(5) shape(1,2,3,5,6,7) _ row2(3,4)] opened by (simp add: shape(4) r(4))
qed

lemma config_registered: "cf_webhookRegistered (readConnectionConfig (config_json c)) = cf_webhookRegistered c"
  by (simp add: readConnectionConfig_def config_json_def Let_def jget_Cons)

text \<open>Into an empty database a channel is connected, unless the provider or the policy refuses it.\<close>

lemma first_connection:
  assumes "checked_connection env (cq_connection q) = Inr (c, v)" "calm env" "\<forall>k. ch_fault env k = None"
    "seal_secrets env c (cq_connection q) (ch_ids env 0) (generateSecrets env (cn_provider (cq_connection q))) False = Inr e"
  shows "\<exists>view d'. createChannel env a q corr empty_db = (Inr view, d') \<and>
    chv_webhookRegistered view = fst (inbound_setup env
      (connected_row env q v e (blank_row a (ch_ids env 0) (cn_provider (cq_connection q)) (account_identifier env (cn_provider (cq_connection q)) v)))
      (cn_provider (cq_connection q)) (JObj (generateSecrets env (cn_provider (cq_connection q)))))"
proof -
  let ?p = "cn_provider (cq_connection q)"
  let ?row = "connected_row env q v e (blank_row a (ch_ids env 0) ?p (account_identifier env ?p v))"
  have none: "same_connection a ty ident empty_db = None" for ty ident by (simp add: same_connection_def empty_db_def)
  have i: "pa_id ?row = ch_ids env 0" by (simp add: connected_row_def blank_row_def Let_def)
  have tx: "\<exists>d1. connect_tx env a q corr v e None empty_db = Inr (?row, d1) \<and> db_accounts d1 = [?row]"
    by (simp add: connect_tx_def Let_def tx_defs create_account_def channel_audit_def create_audit_def empty_db_def)
  then obtain d1 where d1: "connect_tx env a q corr v e None empty_db = Inr (?row, d1)" "db_accounts d1 = [?row]" by blast
  have found: "find_account (ch_ids env 0) d1 = Some ?row" by (simp add: find_account_def d1(2) i)
  obtain reg nt where st: "inbound_setup env ?row ?p (JObj (generateSecrets env ?p)) = (reg, nt)" by force
  have reg: "\<exists>d'. registerInbound env ?row ?p (JObj (generateSecrets env ?p)) d1 =
      (Inr (?row\<lparr>pa_config := config_json ((readConnectionConfig (pa_config ?row))\<lparr>cf_webhookRegistered := reg, cf_setupNote := nt\<rparr>)\<rparr>), d')"
    using assms(2,3) found
    by (simp add: registerInbound_def st Let_def run_attempt_def runTx_def tx_defs update_row_def i channel_notice_def notifyRealtime_def
        d1(2) calm_def)
  then obtain d' where "registerInbound env ?row ?p (JObj (generateSecrets env ?p)) d1 =
      (Inr (?row\<lparr>pa_config := config_json ((readConnectionConfig (pa_config ?row))\<lparr>cf_webhookRegistered := reg, cf_setupNote := nt\<rparr>)\<rparr>), d')" by blast
  then have "createChannel env a q corr empty_db = (Inr (presented_row env a d'
      (?row\<lparr>pa_config := config_json ((readConnectionConfig (pa_config ?row))\<lparr>cf_webhookRegistered := reg, cf_setupNote := nt\<rparr>)\<rparr>)), d')"
    using assms d1(1) by (simp add: createChannel_def none Let_def then_register_def run_attempt_def runTx_def calm_def)
  then show ?thesis
    by (intro exI conjI, assumption) (simp add: presented_row_def presentChannel_def Let_def config_registered st)
qed

section \<open>Updates and removal\<close>

lemma present_id: "chv_id (presented_row env a d row) = pa_id row"
  by (simp add: presented_row_def presentChannel_def Let_def)

lemma filter_not_updated: "(\<And>x. pa_id (f x) = pa_id x) \<Longrightarrow>
    filter (\<lambda>x. pa_id x \<noteq> i) (update_where (\<lambda>y. pa_id y = i) f xs) = filter (\<lambda>x. pa_id x \<noteq> i) xs"
  by (induction xs) auto

lemma chosen_agents:
  assumes "active_members a is d = length (foldl set_add [] is)" "distinct (map mb_id (db_members d))" "m \<in> set is"
  shows "\<exists>x\<in>set (db_members d). mb_id x = m \<and> mb_workspaceId x = ac_workspaceId a \<and> mb_status x = MActive \<and> mb_deletedAt x = None"
proof -
  let ?P = "\<lambda>m. mb_id m \<in> set is \<and> mb_workspaceId m = ac_workspaceId a \<and> mb_deletedAt m = None \<and> mb_status m = MActive"
  let ?ids = "map mb_id (filter ?P (db_members d))"
  have unique: "set (foldl set_add [] is) = set is" "distinct (foldl set_add [] is)" using set_add_fold [of "[]" "is"] by auto
  have "distinct ?ids" using assms(2) by (simp add: distinct_map_filter)
  then have "card (set ?ids) = length ?ids" by (rule distinct_card)
  moreover have "length ?ids = active_members a is d" by (simp add: active_members_def count_where_def)
  moreover have "card (set is) = length (foldl set_add [] is)" using distinct_card [OF unique(2)] unique(1) by simp
  ultimately have "card (set ?ids) = card (set is)" using assms(1) by simp
  moreover have "set ?ids \<subseteq> set is" by auto
  ultimately have "set ?ids = set is" by (simp add: card_subset_eq)
  then have "m \<in> set ?ids" using assms(3) by blast
  then show ?thesis by auto
qed

lemma members_after:
  assumes "replace_members i is d = Inr (u, d')"
  shows "channel_agents j d' = (if j = i then foldl set_add [] is else channel_agents j d)"
proof -
  have "filter (\<lambda>m. am_providerAccountId m = j) (filter (\<lambda>m. am_providerAccountId m \<noteq> i) ms) =
      (if j = i then [] else filter (\<lambda>m. am_providerAccountId m = j) ms)" for ms :: "account_member list"
    by (induction ms) auto
  then show ?thesis using assms by (auto simp: replace_members_def channel_agents_def filter_map o_def simp del: filter_filter)
qed

lemma member_tables:
  "update_row i f d = Inr (r, d') \<Longrightarrow> channel_agents j d' = channel_agents j d"
  "channel_audit env a action rid corr before after d = Inr (u, d') \<Longrightarrow> channel_agents j d' = channel_agents j d"
  "channel_notice row d = Inr (u, d') \<Longrightarrow> channel_agents j d' = channel_agents j d"
  by (auto simp: update_row_Inr channel_audit_def create_audit_def channel_notice_def notifyRealtime_def channel_agents_def split: if_splits)

lemma update_effect:
  assumes "update_tx_channel env a q corr row before d = Inr (saved, d')"
  shows "db_accounts d' = update_where (\<lambda>y. pa_id y = pa_id row) (updated_row q row) (db_accounts d) \<and>
    channel_agents j d' = (case cu_humanAgentIds q of Some is \<Rightarrow> if j = pa_id row then foldl set_add [] is else channel_agents j d | None \<Rightarrow> channel_agents j d)"
proof -
  obtain d0 d1 d2 u w where s: "(case cu_humanAgentIds q of Some is \<Rightarrow> replace_members (pa_id row) is | None \<Rightarrow> returnT ()) d = Inr ((), d0)"
    "update_row (pa_id row) (updated_row q row) d0 = Inr (saved, d1)"
    "channel_audit env a ''channel.updated'' (pa_id row) corr (Some (channel_state row before))
       (Some (channel_state saved (channel_agents (pa_id row) d1))) d1 = Inr (u, d2)" "channel_notice row d2 = Inr (w, d')"
    using assms unfolding update_tx_channel_def bindT_Inr by auto
  have same: "db_accounts d' = db_accounts d1" "channel_agents j d' = channel_agents j d1"
    using later_tables_keep(1) [OF s(3)] later_tables_keep(2) [OF s(4)] member_tables(2) [OF s(3)] member_tables(3) [OF s(4)] by simp_all
  have "db_accounts d0 = db_accounts d" using s(1) by (auto simp: replace_members_def split: option.splits)
  moreover have "channel_agents j d0 = (case cu_humanAgentIds q of Some is \<Rightarrow> if j = pa_id row then foldl set_add [] is else channel_agents j d | None \<Rightarrow> channel_agents j d)"
    using s(1) members_after [of "pa_id row" _ d "()" d0 j] by (auto split: option.splits)
  ultimately show ?thesis using same s(2) member_tables(1) [OF s(2)] by (auto simp: update_row_Inr)
qed

text \<open>The settings after an update: the entries of the request replace those of the channel.\<close>

definition merged_settings :: "provider_account \<Rightarrow> channel_update \<Rightarrow> inbox_settings" where
  "merged_settings row q = (case cu_settings q of None \<Rightarrow> readInboxSettings (pa_settings row)
     | Some s \<Rightarrow> readInboxSettings (JObj (spread (settings_entries (readInboxSettings (pa_settings row))) s)))"

lemma updated_settings: "readInboxSettings (pa_settings (updated_row q row row)) = merged_settings row q"
  using settings_read [OF read_settings_valid] by (simp add: updated_row_def merged_settings_def split: option.splits)

section \<open>A workspace to try it on\<close>

definition demo_cipher_env :: cipher_env where
  "demo_cipher_env = \<lparr>ENCRYPTION_MASTER_KEY = Some (replicate 64 (CHR ''a'')), ENCRYPTION_KEY_ID = Some ''v1'', ENCRYPTION_PREVIOUS_KEYS = None\<rparr>"

definition demo_verified :: verified_account where
  "demo_verified = \<lparr>va_accountIdentifier = Some ''acc'', va_displayIdentifier = ''x.com'', va_displayName = None, va_metadata = [], va_initialCursor = None\<rparr>"

definition demo_ops :: adapter_ops where
  "demo_ops = \<lparr>ao_verifyCredentials = (\<lambda>p c. Inr demo_verified),
     ao_registerWebhook = (\<lambda>p a url g. Inr (True, None)), ao_unregisterWebhook = (\<lambda>p a. Inr ()),
     ao_healthCheck = (\<lambda>p a. Inr \<lparr>hl_isHealthy = True, hl_message = ''fine'', hl_latencyMs = None\<rparr>)\<rparr>"

definition demo_channel_env :: channel_env where
  "demo_channel_env = \<lparr>ch_now = 1000, ch_iso = (\<lambda>_. ''now''), ch_ids = (\<lambda>k. if k = 0 then ''ch1'' else ''au1''), ch_token = (\<lambda>k. ''token'' @ show_nat k),
     ch_cipher = (case fromEnv demo_cipher_env of Inr c \<Rightarrow> c | Inl _ \<Rightarrow> None), ch_seal = plain_seal, ch_open = plain_open,
     ch_iv = replicate 12 (CHR ''i''), ch_datetime = (\<lambda>_. True), ch_enforce = False, ch_lookup = (\<lambda>_. None),
     ch_parse_url = (\<lambda>_. Inr (''https:'', ''x.com'')), ch_publicBaseUrl = ''https://crm'', ch_ops = demo_ops, ch_race = (\<lambda>_ d. d), ch_fault = (\<lambda>_. None)\<rparr>"

definition demo_request :: create_request where
  "demo_request = \<lparr>cq_name = ''Site'', cq_description = None,
     cq_connection = \<lparr>cn_provider = WEBCHAT_EMBED, cn_credentials = []\<rparr>\<rparr>"

definition demo_actor :: actor where
  "demo_actor = \<lparr>ac_userId = ''u'', ac_supabaseAuthId = ''s'', ac_email = ''e'', ac_displayName = ''A'', ac_avatarUrl = None,
     ac_workspaceId = ''w1'', ac_workspaceName = ''W'', ac_workspaceSlug = ''w'', ac_timezone = ''UTC'', ac_membershipId = ''m1'',
     ac_membershipStatus = MActive, ac_roles = [], ac_teams = [], ac_permissions = [], ac_correlationId = ''c'', ac_ipAddress = None,
     ac_userAgent = None\<rparr>"

lemma demo_seals:
  assumes "plain (channel_secrets (JObj creds) (JObj generated))" "i \<noteq> []"
  shows "\<exists>c e. fromEnv demo_cipher_env = Inr (Some c) \<and>
    sealChannelSecrets plain_seal (replicate 12 (CHR ''i'')) c p i (channel_secrets (JObj creds) (JObj generated)) ''now'' None = Inr e \<and>
    openChannelSecrets (\<lambda>_. True) plain_open c e i = Inr (channel_secrets (JObj creds) (JObj generated))"
proof -
  have "isOk (parseEncryptionKey (replicate 64 (CHR ''a'')))" by code_simp
  then obtain key where key: "parseEncryptionKey (replicate 64 (CHR ''a'')) = Inr key" by (auto elim: isOk.elims)
  then obtain c where c: "fromEnv demo_cipher_env = Inr (Some c)" "requireKey c (cc_activeKeyId c) = Inr key" "cc_activeKeyId c = ''v1''"
    using parse_key_length [OF key] by (auto simp: fromEnv_def demo_cipher_env_def parsePreviousKeys_def new_cipher_def requireKey_def)
  show ?thesis
    using seal_open [where datetime = "\<lambda>_. True" and c' = c and rotated = None and created = "''now''" and account = i and
      iv = "replicate 12 (CHR ''i'')" and provider = p, OF plain_gcm_laws _ c(2) parse_key_length [OF key] c(2) assms(1) [unfolded channel_secrets_def] assms(2)]
      c by (auto simp: channel_secrets_def)
qed

lemma demo_secrets_plain: "plain (JObj [(''credentials'', JObj []), (''generated'', JObj [])])"
  by code_simp

lemma demo_sealed: "\<exists>c e. fromEnv demo_cipher_env = Inr (Some c) \<and>
    seal_secrets demo_channel_env c (cq_connection demo_request) ''ch1'' [] False = Inr e"
  using demo_seals [of "[]" "[]" "''ch1''" WEBCHAT_EMBED] demo_secrets_plain
  by (auto simp: seal_secrets_def demo_channel_env_def demo_request_def channel_secrets_def)

lemma demo_checked:
  "\<exists>c. fromEnv demo_cipher_env = Inr (Some c) \<and> checked_connection demo_channel_env (cq_connection demo_request) = Inr (c, demo_verified)"
  using demo_sealed by (auto simp: checked_connection_def demo_channel_env_def requireCipher_def assertConnectionEndpointsAllowed_def
      verifyConnection_def demo_ops_def demo_verified_def)

lemma demo_connected: "\<exists>view d'. createChannel demo_channel_env demo_actor demo_request ''c'' empty_db = (Inr view, d')"
proof -
  obtain c e where ce: "fromEnv demo_cipher_env = Inr (Some c)" "seal_secrets demo_channel_env c (cq_connection demo_request) ''ch1'' [] False = Inr e"
    using demo_sealed by blast
  have "generateSecrets demo_channel_env (cn_provider (cq_connection demo_request)) = []" "ch_ids demo_channel_env 0 = ''ch1''"
    "calm demo_channel_env" "\<forall>k. ch_fault demo_channel_env k = None"
    by (simp_all add: generateSecrets_def demo_request_def demo_channel_env_def calm_def)
  moreover have "checked_connection demo_channel_env (cq_connection demo_request) = Inr (c, demo_verified)" using demo_checked ce(1) by auto
  ultimately show ?thesis using first_connection [of demo_channel_env demo_request c demo_verified e demo_actor "''c''"] ce(2) by auto
qed

definition demo_row :: "id \<Rightarrow> string \<Rightarrow> provider_account" where
  "demo_row i name = (blank_row demo_actor i WEBCHAT_EMBED (''acc'' @ i))\<lparr>pa_name := name, pa_webhookKey := Some (''key'' @ drop 2 i)\<rparr>"

definition demo_channels :: db where
  "demo_channels = empty_db\<lparr>db_accounts := [demo_row ''ch9'' ''Old'', demo_row ''ch8'' ''Other''],
     db_members := [\<lparr>mb_id = ''m1'', mb_workspaceId = ''w1'', mb_status = MActive, mb_deletedAt = None, mb_displayName = ''A'', mb_userActive = True, mb_userDeletedAt = None\<rparr>]\<rparr>"

definition demo_rename :: channel_update where
  "demo_rename = \<lparr>cu_name = Some ''New'', cu_description = None, cu_settings = None, cu_humanAgentIds = Some [''m1'', ''m1'']\<rparr>"

lemma demo_channels_ok: "channels_ok demo_channels"
  by (simp add: channels_ok_def demo_channels_def demo_row_def blank_row_def key_taken_def same_account_def)

lemma demo_row_fields [simp]:
  "pa_id (demo_row i n) = i" "pa_workspaceId (demo_row i n) = ''w1''" "pa_deletedAt (demo_row i n) = None"
  "pa_webhookKey (demo_row i n) = Some (''key'' @ drop 2 i)" "pa_name (demo_row i n) = n" "pa_provider (demo_row i n) = WEBCHAT_EMBED"
  "pa_description (demo_row i n) = None" "pa_settings (demo_row i n) = JNull"
  by (simp_all add: demo_row_def blank_row_def demo_actor_def)

lemmas demo_defs = demo_channels_def demo_actor_def demo_channel_env_def empty_db_def

lemmas operation_defs = run_attempt_def runTx_def tx_defs update_row_def find_account_def findRow_def channel_audit_def create_audit_def
  channel_notice_def notifyRealtime_def

lemma demo_updated: "\<exists>view d'. updateChannel demo_channel_env demo_actor ''ch9'' demo_rename ''c'' demo_channels = (Inr view, d')"
  by (simp add: updateChannel_def update_tx_channel_def operation_defs demo_defs demo_rename_def active_members_def count_where_def set_add_def
      replace_members_def updated_row_def key_taken_def)

lemma demo_removed: "\<exists>d'. removeChannel demo_channel_env demo_actor ''ch9'' ''c'' demo_channels = (Inr (), d')"
  by (simp add: removeChannel_def operation_defs demo_defs removed_row_def key_taken_def)

lemma demo_removed_by_manager:
  "\<exists>r d'. channel_action demo_channel_env (demo_actor\<lparr>ac_permissions := ps\<rparr>) ''c'' (RemoveChannel ''ch9'') demo_channels = (r, d') \<and> d' \<noteq> demo_channels"
  by (simp add: removeChannel_def operation_defs demo_defs removed_row_def key_taken_def reply_as_def)

section \<open>The properties\<close>



text \<open>An accepted update changes exactly its channel, and of it exactly the given name and description
  and the settings the request names; its agents become exactly the given ones, all of them active
  members of the workspace, and no other channel's agents change.\<close>
theorem channel_update_exact:
  assumes "updateChannel env a i q corr d = (Inr view, d')" "calm env" "channels_ok d" "distinct (map mb_id (db_members d))"
  shows "\<exists>row. findRow a i d = Inr row \<and> db_accounts d' = update_where (\<lambda>y. pa_id y = i) (\<lambda>y. updated_row q row row) (db_accounts d) \<and>
    updated_row q row row = row\<lparr>pa_name := (case cu_name q of Some n \<Rightarrow> n | None \<Rightarrow> pa_name row),
      pa_description := (case cu_description q of Some t \<Rightarrow> Some t | None \<Rightarrow> pa_description row),
      pa_settings := pa_settings (updated_row q row row)\<rparr> \<and>
    readInboxSettings (pa_settings (updated_row q row row)) = merged_settings row q \<and>
    (\<forall>j. channel_agents j d' = (case cu_humanAgentIds q of Some is \<Rightarrow> if j = i then foldl set_add [] is else channel_agents j d
       | None \<Rightarrow> channel_agents j d)) \<and>
    (\<forall>is. cu_humanAgentIds q = Some is \<longrightarrow> (\<forall>m\<in>set is. \<exists>x\<in>set (db_members d). mb_id x = m \<and> mb_workspaceId x = ac_workspaceId a \<and>
       mb_status x = MActive \<and> mb_deletedAt x = None))"
proof -
  obtain row where row: "findRow a i d = Inr row" using assms(1) by (cases "findRow a i d") (auto simp: updateChannel_def)
  have chosen: "\<forall>is. cu_humanAgentIds q = Some is \<longrightarrow> active_members a is d = length (foldl set_add [] is)"
    using assms(1) by (auto simp: updateChannel_def row split: if_splits)
  obtain saved where "run_attempt (ch_fault env 0) (update_tx_channel env a q corr row (channel_agents i d)) d = (Inr saved, d')"
    using assms(1,2) by (auto simp: updateChannel_def row calm_def split: if_splits prod.splits sum.splits)
  note effect = update_effect [OF run_attempt_cases(1) [OF this]]
  note facts = findRow_facts [OF row]
  have "update_where (\<lambda>y. pa_id y = i) (updated_row q row) (db_accounts d) = update_where (\<lambda>y. pa_id y = i) (\<lambda>y. updated_row q row row) (db_accounts d)"
    using one_row [OF assms(3) member_found [OF assms(3)], of row] facts by (auto simp: update_where_def)
  then show ?thesis
    using effect facts row updated_settings chosen_agents [OF _ assms(4)] chosen by (intro exI [of _ row]) (auto simp: updated_row_def)
qed

theorem channel_update_exact_witness:
  "\<exists>view d'. updateChannel demo_channel_env demo_actor ''ch9'' demo_rename ''c'' demo_channels = (Inr view, d') \<and>
    map pa_name (db_accounts d') = [''New'', ''Other''] \<and> channel_agents ''ch9'' d' = [''m1'']"
proof -
  obtain view d' where up: "updateChannel demo_channel_env demo_actor ''ch9'' demo_rename ''c'' demo_channels = (Inr view, d')"
    using demo_updated by blast
  have "calm demo_channel_env" "channels_ok demo_channels" "distinct (map mb_id (db_members demo_channels))"
    by (simp_all add: demo_channel_env_def calm_def demo_channels_ok) (simp add: demo_channels_def)
  then show ?thesis using channel_update_exact [OF up] up
    by (auto simp: demo_channels_def demo_rename_def update_where_def updated_row_def set_add_def empty_db_def)
qed

text \<open>C30: A removed channel is silent: whatever the provider answered to the unregistration, no webhook key
  leads to it - its old key leads nowhere -, it is no longer polled, listed or found, and everything
  else stays.\<close>
theorem removed_channel_silent:
  assumes "removeChannel env a i corr d = (Inr (), d')" "calm env" "channels_ok d"
  shows "\<exists>row. findRow a i d = Inr row \<and> (\<forall>k p ch. find_webhook_channel k p d' = Some ch \<longrightarrow> pa_id ch \<noteq> i \<and> pa_webhookKey row \<noteq> Some k) \<and>
    (\<forall>x\<in>set (db_accounts d'). pa_id x = i \<longrightarrow> \<not> polled_by_discovery x) \<and>
    (\<forall>b. \<not> isOk (findRow b i d')) \<and> (\<forall>b view. view \<in> set (listChannels env b d') \<longrightarrow> chv_id view \<noteq> i) \<and>
    filter (\<lambda>x. pa_id x \<noteq> i) (db_accounts d') = filter (\<lambda>x. pa_id x \<noteq> i) (db_accounts d)"
proof -
  obtain row where row: "findRow a i d = Inr row" using assms(1) by (cases "findRow a i d") (auto simp: removeChannel_def)
  have acc: "db_accounts d' = update_where (\<lambda>y. pa_id y = i) (removed_row env) (db_accounts d)"
    using assms(1,2) findRow_facts [OF row]
    by (auto simp: removeChannel_def row calm_def bindT_Inr update_row_Inr dest!: run_attempt_cases(1) later_tables_keep)
  have gone: "pa_deletedAt x \<noteq> None \<and> pa_webhookKey x = None" if "x \<in> set (db_accounts d')" "pa_id x = i" for x
  proof -
    have "x \<in> (\<lambda>y. if pa_id y = i then removed_row env y else y) ` set (db_accounts d)" using that(1) by (simp add: acc update_where_def)
    then obtain y where "x = (if pa_id y = i then removed_row env y else y)" by (rule imageE)
    then show ?thesis using that(2) by (simp add: removed_row_def split: if_splits)
  qed
  have key: "pa_webhookKey row \<noteq> Some k" if "find_webhook_channel k p d' = Some ch" for k p ch
  proof
    assume k: "pa_webhookKey row = Some k"
    have ch: "ch \<in> set (db_accounts d')" "pa_webhookKey ch = Some k" "pa_deletedAt ch = None" using webhook_channel_facts [OF that] by auto
    then have "pa_id ch \<noteq> i" using gone by blast
    then have "ch \<in> set (db_accounts d)" using ch(1) unfolding acc by (auto simp: set_update_where removed_row_def)
    then show False using assms(3) findRow_facts [OF row] k ch(2) \<open>pa_id ch \<noteq> i\<close> unfolding channels_ok_def key_taken_def by fastforce
  qed
  have "\<not> isOk (findRow b i d')" for b
  proof (cases "findRow b i d'")
    case (Inr x)
    then show ?thesis using findRow_facts [OF Inr] gone [of x] by simp
  qed simp
  moreover have "filter (\<lambda>x. pa_id x \<noteq> i) (db_accounts d') = filter (\<lambda>x. pa_id x \<noteq> i) (db_accounts d)"
    unfolding acc by (rule filter_not_updated) (simp add: removed_row_def)
  moreover have "chv_id view \<noteq> i" if "view \<in> set (listChannels env b d')" for b view
  proof -
    have "view \<in> presented_row env b d' ` {x \<in> set (db_accounts d'). pa_deletedAt x = None}" using that unfolding listChannels_def by auto
    then obtain x where "x \<in> set (db_accounts d')" "pa_deletedAt x = None" "view = presented_row env b d' x" by blast
    then show ?thesis using gone [of x] by (auto simp: present_id)
  qed
  moreover have "pa_id ch \<noteq> i" if "find_webhook_channel k p d' = Some ch" for k p ch
    using gone [of ch] webhook_channel_facts [OF that] by auto
  moreover have "\<not> polled_by_discovery x" if "x \<in> set (db_accounts d')" "pa_id x = i" for x
    using gone [OF that] by (simp add: polled_by_discovery_def)
  ultimately show ?thesis using row key by blast
qed

theorem removed_channel_silent_witness:
  "\<exists>d'. removeChannel demo_channel_env demo_actor ''ch9'' ''c'' demo_channels = (Inr (), d') \<and>
    find_webhook_channel ''key9'' WEBCHAT_EMBED demo_channels \<noteq> None \<and> find_webhook_channel ''key9'' WEBCHAT_EMBED d' = None"
proof -
  obtain d' where rm: "removeChannel demo_channel_env demo_actor ''ch9'' ''c'' demo_channels = (Inr (), d')" using demo_removed by blast
  have "calm demo_channel_env" by (simp add: demo_channel_env_def calm_def)
  then obtain row where row: "findRow demo_actor ''ch9'' demo_channels = Inr row"
      "\<forall>k p ch. find_webhook_channel k p d' = Some ch \<longrightarrow> pa_id ch \<noteq> ''ch9'' \<and> pa_webhookKey row \<noteq> Some k"
    using removed_channel_silent [OF rm _ demo_channels_ok] by blast
  have "pa_webhookKey row = Some ''key9''" "find_webhook_channel ''key9'' WEBCHAT_EMBED demo_channels \<noteq> None"
    using row(1) by (auto simp: findRow_def demo_channels_def demo_actor_def find_webhook_channel_def empty_db_def)
  then show ?thesis using rm row(2) by (metis option.exhaust)
qed

text \<open>The channels a reply shows.\<close>

fun shown_channels :: "channel_reply \<Rightarrow> channel_view list" where
  "shown_channels (Channels vs) = vs"
| "shown_channels (Channel v) = [v]"
| "shown_channels _ = []"

lemma present_secret:
  "chv_verifyToken (presented_row env a d row) \<noteq> None \<or> chv_signingSecret (presented_row env a d row) \<noteq> None \<Longrightarrow>
     hasPermission (ac_permissions a) ''integration:manage''"
  by (auto simp: presented_row_def presentChannel_def Let_def split: if_splits)

definition presented :: "channel_env \<Rightarrow> actor \<Rightarrow> channel_view \<Rightarrow> bool" where
  "presented env a view = (\<exists>s row. view = presented_row env a s row)"

lemma presentedI [simp]: "presented env a (presented_row env a s row)"
  unfolding presented_def by blast

lemma shown_presented:
  assumes "channel_action env a corr q d = (Inr r, d')" "view \<in> set (shown_channels r)"
  shows "presented env a view"
proof (cases q)
  case ListChannels
  then show ?thesis using assms by (auto simp: listChannels_def)
next
  case (GetChannel i)
  then show ?thesis using assms by (cases "findRow a i d") (auto simp: getChannel_def reply_as_def)
next
  case (CreateChannel x)
  then show ?thesis using assms
    by (auto simp: reply_as_def createChannel_def then_register_def Let_def split: prod.splits sum.splits option.splits if_splits)
next
  case (UpdateChannel i x)
  then show ?thesis using assms by (auto simp: reply_as_def updateChannel_def split: prod.splits sum.splits if_splits)
next
  case (ReconnectChannel i x)
  then show ?thesis using assms
    by (auto simp: reply_as_def reconnectChannel_def then_register_def Let_def split: prod.splits sum.splits if_splits)
qed (use assms in \<open>auto simp: reply_as_def split: prod.splits sum.splits\<close>)

text \<open>Only who may manage integrations sees a generated secret or changes a channel: a request that
  passed the permission guard of its endpoint and changes the database, or whose reply shows a verify
  token or a signing secret, came from an actor with that permission.\<close>
theorem channel_secrets_guarded:
  assumes "hasAllPermissions (ac_permissions a) [channel_permission q]" "channel_action env a corr q d = (r, d')"
    and "d' \<noteq> d \<or> (\<exists>reply view. r = Inr reply \<and> view \<in> set (shown_channels reply) \<and> (chv_verifyToken view \<noteq> None \<or> chv_signingSecret view \<noteq> None))"
  shows "hasPermission (ac_permissions a) ''integration:manage''"
proof (cases "channel_permission q = ''integration:manage''")
  case True
  then show ?thesis using assms(1) by (auto simp: hasAllPermissions_def hasPermission_def)
next
  case False
  then have "d' = d" using assms(2) by (cases q) (auto simp: reply_as_def split: sum.splits)
  then obtain reply view where v: "r = Inr reply" "view \<in> set (shown_channels reply)" "chv_verifyToken view \<noteq> None \<or> chv_signingSecret view \<noteq> None"
    using assms(3) by blast
  then obtain s row where "view = presented_row env a s row" using shown_presented assms(2) unfolding presented_def by blast
  then show ?thesis using v(3) present_secret by blast
qed

theorem channel_secrets_guarded_witness:
  "hasPermission [''integration:manage''] ''integration:manage'' \<and>
   (\<exists>r d'. channel_action demo_channel_env (demo_actor\<lparr>ac_permissions := [''integration:manage'']\<rparr>) ''c'' (RemoveChannel ''ch9'') demo_channels = (r, d') \<and> d' \<noteq> demo_channels)"
proof -
  let ?a = "demo_actor\<lparr>ac_permissions := [''integration:manage'']\<rparr>"
  obtain r d' where rm: "channel_action demo_channel_env ?a ''c'' (RemoveChannel ''ch9'') demo_channels = (r, d')" "d' \<noteq> demo_channels"
    using demo_removed_by_manager by blast
  have "hasPermission (ac_permissions ?a) ''integration:manage''"
    using channel_secrets_guarded [OF _ rm(1)] rm(2) by (simp add: hasAllPermissions_def)
  then show ?thesis using rm by auto
qed

text \<open>C17: Whatever an actor asks of the channel endpoints stays in the workspace acted on: no channel of
  another workspace changes, no member of such a channel, no other table; the audit log and the
  notifications only grow, by entries of this workspace.\<close>
theorem channels_isolated:
  assumes "channels_ok d" "calm env"
  shows "confined (ac_workspaceId a) d (snd (channel_action env a corr q d))"
proof -
  have run: "confined (ac_workspaceId a) d (snd (run_attempt fault m (ch_race env k d)))"
    if "findRow a i d = Inr row" "confines (ac_workspaceId a) {pa_id row} m" for i row k fault and m :: "provider_account tx"
    using run_confined [OF that(2) assms(1) found_own [OF that(1)]] assms(2) by (simp add: calm_def)
  have run': "confined (ac_workspaceId a) d (snd (run_attempt fault m (ch_race env k d)))"
    if "findRow a i d = Inr row" "confines (ac_workspaceId a) {pa_id row} m" for i row k fault and m :: "unit tx"
    using run_confined [OF that(2) assms(1) found_own [OF that(1)]] assms(2) by (simp add: calm_def)
  show ?thesis
  proof (cases q)
    case (CreateChannel x)
    then show ?thesis using create_confined [OF assms(2,1)] by simp
  next
    case (UpdateChannel i x)
    show ?thesis
    proof (cases "findRow a i d")
      case (Inr row)
      have "confined (ac_workspaceId a) d (snd (run_attempt (ch_fault env 0) (update_tx_channel env a x corr row bf) (ch_race env 0 d)))" for bf
        using findRow_facts [OF Inr] by (intro run [OF Inr] update_confined) blast
      then show ?thesis using Inr
        by (auto simp: UpdateChannel updateChannel_def confined_refl split: sum.splits prod.splits) (metis snd_conv)+
    qed (simp add: UpdateChannel updateChannel_def confined_refl)
  next
    case (ReconnectChannel i x)
    show ?thesis
    proof (cases "findRow a i d")
      case (Inr row)
      have "confined (ac_workspaceId a) d (snd (then_register env a p g (run_attempt (ch_fault env 0) (reconnect_tx env a x corr v envelope row) (ch_race env 0 d))))"
        for p g v envelope
        using then_register_confined [OF assms(2,1) reconnect_confined reconnect_ok found_own [OF Inr] reconnect_stored [OF _ assms(1)]] found_own [OF Inr] assms(2)
        by (simp add: calm_def)
      then show ?thesis by (auto simp: ReconnectChannel reconnectChannel_def Inr Let_def confined_refl split: sum.splits)
    qed (simp add: ReconnectChannel reconnectChannel_def confined_refl)
  next
    case (TestChannel i)
    show ?thesis
    proof (cases "findRow a i d")
      case (Inr row)
      have "confines (ac_workspaceId a) {pa_id row} (bindT (update_row (pa_id row) (tested_row t)) (\<lambda>_. channel_notice row))" for t
        using findRow_facts [OF Inr] by (intro confines_bind confines_update confines_notice update_row_ok row_updates_keep) auto
      then have "confined (ac_workspaceId a) d (snd (run_attempt (ch_fault env 0) (bindT (update_row (pa_id row) (tested_row t)) (\<lambda>_. channel_notice row)) (ch_race env 0 d)))" for t
        by (rule run' [OF Inr])
      then show ?thesis
        by (auto simp: TestChannel testChannel_def Inr confined_refl split: sum.splits prod.splits) (metis snd_conv)+
    qed (simp add: TestChannel testChannel_def confined_refl)
  next
    case (RemoveChannel i)
    show ?thesis
    proof (cases "findRow a i d")
      case (Inr row)
      then show ?thesis using findRow_facts [OF Inr]
        by (auto simp: RemoveChannel removeChannel_def
            intro!: run' [OF Inr] confines_bind confines_update confines_audit confines_notice update_row_ok other_tables_ok row_updates_keep)
    qed (simp add: RemoveChannel removeChannel_def confined_refl)
  qed (simp_all add: confined_refl)
qed

theorem channels_isolated_witness:
  "confined ''w1'' demo_channels (snd (channel_action demo_channel_env demo_actor ''c'' (RemoveChannel ''ch9'') demo_channels)) \<and>
   snd (channel_action demo_channel_env demo_actor ''c'' (RemoveChannel ''ch9'') demo_channels) \<noteq> demo_channels"
proof -
  have same: "demo_actor\<lparr>ac_permissions := []\<rparr> = demo_actor" by (simp add: demo_actor_def)
  obtain r d' where "channel_action demo_channel_env demo_actor ''c'' (RemoveChannel ''ch9'') demo_channels = (r, d')" "d' \<noteq> demo_channels"
    using demo_removed_by_manager [of "[]"] unfolding same by blast
  moreover have "ac_workspaceId demo_actor = ''w1''" "calm demo_channel_env" by (simp_all add: demo_actor_def demo_channel_env_def calm_def)
  ultimately show ?thesis
    using channels_isolated [OF demo_channels_ok, of demo_channel_env demo_actor "''c''" "RemoveChannel ''ch9''"] by (metis snd_conv)
qed

text \<open>However channel requests race with each other and other sessions, ids, webhook keys and accounts
  stay unique: a workspace never has two channels of one provider account, and a webhook key never
  leads to two channels. Connecting an account that is already connected is refused with 409 and
  writes nothing.\<close>
theorem one_channel_per_account:
  assumes "channels_ok d" "races_ok env"
  shows "channels_ok (snd (channel_action env a corr q d)) \<and>
    (\<forall>r x c v. q = CreateChannel r \<and> checked_connection env (cq_connection r) = Inr (c, v) \<and>
       x \<in> set (db_accounts d) \<and> pa_deletedAt x = None \<and> pa_workspaceId x = ac_workspaceId a \<and>
       pa_channelType x = PROVIDER_CHANNEL_TYPES (cn_provider (cq_connection r)) \<and> va_accountIdentifier v = Some (pa_accountIdentifier x) \<longrightarrow>
       channel_action env a corr q d = (Inl (already_connected v x), d))"
proof (intro conjI allI impI)
  show "channels_ok (snd (channel_action env a corr q d))" by (rule action_ok [OF assms(2,1)])
  fix r x c v
  assume h: "q = CreateChannel r \<and> checked_connection env (cq_connection r) = Inr (c, v) \<and>
       x \<in> set (db_accounts d) \<and> pa_deletedAt x = None \<and> pa_workspaceId x = ac_workspaceId a \<and>
       pa_channelType x = PROVIDER_CHANNEL_TYPES (cn_provider (cq_connection r)) \<and> va_accountIdentifier v = Some (pa_accountIdentifier x)"
  obtain y where y: "same_connection a (pa_channelType x) (pa_accountIdentifier x) d = Some y"
    using h unfolding same_connection_def by (cases "List.find (\<lambda>r. pa_workspaceId r = ac_workspaceId a \<and> pa_channelType r = pa_channelType x \<and>
        pa_accountIdentifier r = pa_accountIdentifier x) (db_accounts d)") (auto simp: find_None_iff_all)
  have "pa_id y = pa_id x"
    using same_connection_facts [OF y] h assms(1) unfolding channels_ok_def same_account_def by metis
  then have "y = x" using same_connection_facts [OF y] h assms(1) unfolding channels_ok_def by (metis distinct_map inj_onD)
  then show "channel_action env a corr q d = (Inl (already_connected v x), d)"
    using h y by (simp add: createChannel_def account_identifier_def Let_def reply_as_def)
qed

theorem one_channel_per_account_witness:
  "\<exists>v. channel_action demo_channel_env demo_actor ''c'' (CreateChannel demo_request) (empty_db\<lparr>db_accounts := [demo_row [] ''Same'']\<rparr>) =
    (Inl (already_connected v (demo_row [] ''Same'')), empty_db\<lparr>db_accounts := [demo_row [] ''Same'']\<rparr>)"
proof -
  let ?d = "empty_db\<lparr>db_accounts := [demo_row [] ''Same'']\<rparr>"
  obtain c where c: "checked_connection demo_channel_env (cq_connection demo_request) = Inr (c, demo_verified)" using demo_checked by blast
  have "channels_ok ?d" "races_ok demo_channel_env" by (simp_all add: channels_ok_def races_ok_def demo_channel_env_def)
  note exact = conjunct2 [OF one_channel_per_account [OF this, of demo_actor "''c''" "CreateChannel demo_request"]]
  have "channel_action demo_channel_env demo_actor ''c'' (CreateChannel demo_request) ?d = (Inl (already_connected demo_verified (demo_row [] ''Same'')), ?d)"
    by (rule exact [rule_format, where r = demo_request and c = c])
      (use c in \<open>simp add: demo_row_def blank_row_def demo_actor_def demo_request_def demo_verified_def\<close>)
  then show ?thesis by blast
qed

end
