(* ===== verification/AdapterSetup.thy ===== *)
theory AdapterSetup
  imports Sending Channels
begin

text \<open>
  What the adapters do when a channel is set up (\<open>packages/channel-adapters/src/providers\<close>):
  \<open>verifyCredentials\<close>, \<open>registerWebhook\<close>, \<open>unregisterWebhook\<close> and \<open>healthCheck\<close> of the eight
  adapters, and with them the provider calls of the channels service. What the network, the mail servers
  and the URL parser answer and how long a call takes are arguments. Members of an answer have their
  documented types; the members \<open>details\<close> of a health result are left out. The right arrow of the notes
  is the code unit 0x1A.
\<close>

section \<open>The environment\<close>

text \<open>The answer of the IMAP command STATUS.\<close>

record mailbox_status =
  mx_messages :: "int option"
  mx_uidNext :: "int option"
  mx_uidValidity :: "int option"

record setup_env =
  su_send :: send_env
  su_status :: "mail_server \<Rightarrow> mail_thrown + mailbox_status"
  su_smtpVerify :: "mail_server \<Rightarrow> mail_thrown + unit"
  su_host :: "string \<Rightarrow> err + string"
  su_latency :: nat

definition cred :: "json \<Rightarrow> string \<Rightarrow> string" where
  "cred c k = text_of (jget c k)"

definition configuration_error :: "channel_provider \<Rightarrow> string \<Rightarrow> string \<Rightarrow> err" where
  "configuration_error p code message = ProviderFailure (ChannelProviderError p PCONFIGURATION code message)"

definition named :: "string \<Rightarrow> string" where
  "named s = [CHR 0x22] @ s @ [CHR 0x22]"

definition ARROW :: string where
  "ARROW = '' '' @ [CHR 0x1A] @ '' ''"

definition graph_call :: "channel_provider \<Rightarrow> setup_env \<Rightarrow> provider_http_request \<Rightarrow> err + http_response" where
  "graph_call p env q = request p (mapGraphError (sn_now (su_send env)) p) (sn_wire (su_send env)) q"

definition health_result :: "setup_env \<Rightarrow> bool \<Rightarrow> string \<Rightarrow> channel_health" where
  "health_result env ok message = \<lparr>hl_isHealthy = ok, hl_message = message, hl_latencyMs = Some (su_latency env)\<rparr>"

text \<open>A member of an answer that may be missing, and its text.\<close>

definition text_member :: "json \<Rightarrow> string \<Rightarrow> string option" where
  "text_member j k = nonblank (field j k)"

section \<open>WhatsApp\<close>

definition formatPhoneForDisplay :: "string \<Rightarrow> string" where
  "formatPhoneForDisplay v = (let t = trim v in if startsWith t ''+'' then t else ''+'' @ t)"

definition fetchPhoneNumber :: "setup_env \<Rightarrow> json \<Rightarrow> err + json" where
  "fetchPhoneNumber env c = bindR (graph_call WHATSAPP_CLOUD env
     ((http_get (graph_url (su_send env) (cred c ''phoneNumberId'')) (bearer (cred c ''accessToken'')))
        \<lparr>hq_query := [(''fields'', ''display_phone_number,verified_name,quality_rating,code_verification_status,platform_type'')]\<rparr>))
     (\<lambda>r. Inr (hr_data r))"

definition verify_whatsapp :: "setup_env \<Rightarrow> json \<Rightarrow> err + verified_account" where
  "verify_whatsapp env c =
     bindR (fetchPhoneNumber env c) (\<lambda>phone.
     bindR (graph_call WHATSAPP_CLOUD env
       ((http_get (graph_url (su_send env) (cred c ''businessAccountId'' @ ''/phone_numbers'')) (bearer (cred c ''accessToken'')))
          \<lparr>hq_query := [(''fields'', ''id''), (''limit'', ''100'')]\<rparr>)) (\<lambda>r.
     bindR (read_member (hr_data r) ''data'') (\<lambda>numbers.
       if \<not> list_ex (\<lambda>n. jget n ''id'' = JStr (cred c ''phoneNumberId'')) (asArray numbers)
       then Inl (configuration_error WHATSAPP_CLOUD ''PHONE_NUMBER_NOT_IN_WABA''
              ''This phone number ID does not belong to the WhatsApp Business Account ID you entered.'')
       else bindR (read_member phone ''display_phone_number'') (\<lambda>_. Inr
         \<lparr>va_accountIdentifier = Some (cred c ''phoneNumberId''),
          va_displayIdentifier = (case text_member phone ''display_phone_number'' of Some n \<Rightarrow> formatPhoneForDisplay n
            | None \<Rightarrow> cred c ''phoneNumberId''),
          va_displayName = text_member phone ''verified_name'',
          va_metadata = json_compact [(''businessAccountId'', JStr (cred c ''businessAccountId'')), (''qualityRating'', jget phone ''quality_rating''),
            (''codeVerificationStatus'', jget phone ''code_verification_status''), (''platformType'', jget phone ''platform_type'')],
          va_initialCursor = None\<rparr>))))"

definition override_callback :: "setup_env \<Rightarrow> json \<Rightarrow> (string \<times> json) list \<Rightarrow> provider_http_request" where
  "override_callback env c configuration = http_post (graph_url (su_send env) (cred c ''phoneNumberId'')) (bearer (cred c ''accessToken''))
     (JObj [(''webhook_configuration'', JObj configuration)])"

text \<open>A registration answers whether the provider calls the URL now, and a note for the administrator.\<close>

definition register_whatsapp :: "setup_env \<Rightarrow> adapter_account \<Rightarrow> string \<Rightarrow> json \<Rightarrow> err + bool \<times> string option" where
  "register_whatsapp env a url secrets = (let c = aa_credentials a in
     bindR (graph_call WHATSAPP_CLOUD env
       ((http_get (graph_url (su_send env) (cred c ''businessAccountId'' @ ''/subscribed_apps'')) (bearer (cred c ''accessToken'')))
          \<lparr>hq_method := ''POST''\<rparr>)) (\<lambda>_.
     if \<not> startsWith url ''https://'' \<or> \<not> truthy (jget secrets ''verifyToken'')
     then Inr (False, Some (''Set the callback URL and verify token in your Meta app (WhatsApp'' @ ARROW @
            ''Configuration), subscribe to the '' @ named ''messages'' @ '' field, then press Test connection.''))
     else (case graph_call WHATSAPP_CLOUD env (override_callback env c
              [(''override_callback_uri'', JStr url), (''verify_token'', jget secrets ''verifyToken'')]) of
        Inr _ \<Rightarrow> Inr (True, None)
      | Inl e \<Rightarrow> Inr (False, Some (''Meta could not verify the callback URL automatically ('' @ err_message e @
          ''). Set it manually in your Meta app (WhatsApp'' @ ARROW @ ''Configuration) with the verify token below.'')))))"

definition unregister_whatsapp :: "setup_env \<Rightarrow> adapter_account \<Rightarrow> err + unit" where
  "unregister_whatsapp env a = bindR (graph_call WHATSAPP_CLOUD env (override_callback env (aa_credentials a) [(''override_callback_uri'', JStr [])]))
     (\<lambda>_. Inr ())"

definition health_whatsapp :: "setup_env \<Rightarrow> adapter_account \<Rightarrow> err + channel_health" where
  "health_whatsapp env a =
     bindR (fetchPhoneNumber env (aa_credentials a)) (\<lambda>phone.
     bindR (read_member phone ''quality_rating'') (\<lambda>_.
       Inr (health_result env True (''Connected to '' @ orText (field phone ''verified_name'') ''WhatsApp'' @ '' ('' @
         orText (field phone ''display_phone_number'') (aa_displayIdentifier a) @ '').'' @
         (case text_member phone ''quality_rating'' of Some q \<Rightarrow> '' Quality rating: '' @ q @ ''.'' | None \<Rightarrow> [])))))"

section \<open>Messenger\<close>

definition fetchPage :: "setup_env \<Rightarrow> json \<Rightarrow> err + json" where
  "fetchPage env c = bindR (graph_call META_MESSENGER env
     ((http_get (graph_url (su_send env) ''me'') (bearer (cred c ''pageAccessToken'')))\<lparr>hq_query := [(''fields'', ''id,name,username'')]\<rparr>))
     (\<lambda>r. Inr (hr_data r))"

definition page_name :: "json \<Rightarrow> string" where
  "page_name page = js_String (nullish (jget page ''name'') (jget page ''id''))"

definition verify_messenger :: "setup_env \<Rightarrow> json \<Rightarrow> err + verified_account" where
  "verify_messenger env c =
     bindR (fetchPage env c) (\<lambda>page.
     bindR (read_member page ''id'') (\<lambda>i.
       if i \<noteq> JStr (cred c ''pageId'')
       then Inl (configuration_error META_MESSENGER ''NOT_A_PAGE_TOKEN'' (''This token belongs to '' @ named (page_name page) @
              '', not to Page '' @ cred c ''pageId'' @ ''. Generate a Page access token for the right Page.''))
       else Inr \<lparr>va_accountIdentifier = Some (cred c ''pageId''), va_displayIdentifier = page_name page, va_displayName = text_member page ''name'',
              va_metadata = json_compact [(''username'', jget page ''username'')], va_initialCursor = None\<rparr>))"

definition messenger_subscription :: "setup_env \<Rightarrow> json \<Rightarrow> provider_http_request" where
  "messenger_subscription env c = http_get (graph_url (su_send env) (cred c ''pageId'' @ ''/subscribed_apps'')) (bearer (cred c ''pageAccessToken''))"

definition register_messenger :: "setup_env \<Rightarrow> adapter_account \<Rightarrow> err + bool \<times> string option" where
  "register_messenger env a = bindR (graph_call META_MESSENGER env ((messenger_subscription env (aa_credentials a))
       \<lparr>hq_method := ''POST'', hq_query := [(''subscribed_fields'', ''messages,messaging_postbacks,message_deliveries,message_reads,message_reactions'')]\<rparr>))
     (\<lambda>_. Inr (False, Some (''The Page is subscribed to your app. In your Meta app, open Messenger'' @ ARROW @ ''Settings'' @ ARROW @
       ''Webhooks and set the callback URL and verify token below, subscribing to messages, messaging_postbacks, message_deliveries and message_reads.'')))"

definition unregister_messenger :: "setup_env \<Rightarrow> adapter_account \<Rightarrow> err + unit" where
  "unregister_messenger env a = bindR (graph_call META_MESSENGER env ((messenger_subscription env (aa_credentials a))\<lparr>hq_method := ''DELETE''\<rparr>)) (\<lambda>_. Inr ())"

definition health_messenger :: "setup_env \<Rightarrow> adapter_account \<Rightarrow> err + channel_health" where
  "health_messenger env a =
     bindR (fetchPage env (aa_credentials a)) (\<lambda>page.
     bindR (read_member page ''id'') (\<lambda>i.
       if i = JStr (credential a ''pageId'') then Inr (health_result env True (''Connected to the Facebook Page '' @ named (page_name page) @ ''.''))
       else Inr (health_result env False ''The token no longer belongs to this Page. Reconnect with a new Page access token.'')))"

section \<open>Instagram\<close>

definition instagram_url :: "setup_env \<Rightarrow> string \<Rightarrow> string" where
  "instagram_url env path = rt_instagramGraphApiBaseUrl (sn_runtime (su_send env)) @ ''/'' @ rt_metaGraphApiVersion (sn_runtime (su_send env)) @ ''/'' @ path"

definition fetchProfile :: "setup_env \<Rightarrow> json \<Rightarrow> err + json" where
  "fetchProfile env c = bindR (graph_call META_INSTAGRAM env
     ((http_get (instagram_url env ''me'') (bearer (cred c ''accessToken'')))\<lparr>hq_query := [(''fields'', ''id,user_id,username,name'')]\<rparr>))
     (\<lambda>r. Inr (hr_data r))"

definition verify_instagram :: "setup_env \<Rightarrow> json \<Rightarrow> err + verified_account" where
  "verify_instagram env c =
     bindR (fetchProfile env c) (\<lambda>profile.
     bindR (read_member profile ''user_id'') (\<lambda>u.
       let accountId = js_String (nullish u (jget profile ''id'')) in
       Inr \<lparr>va_accountIdentifier = Some accountId,
            va_displayIdentifier = (case text_member profile ''username'' of Some n \<Rightarrow> ''@'' @ n | None \<Rightarrow> accountId),
            va_displayName = text_member profile ''name'',
            va_metadata = json_compact [(''username'', jget profile ''username''), (''appScopedId'', jget profile ''id'')], va_initialCursor = None\<rparr>))"

definition register_instagram :: "setup_env \<Rightarrow> adapter_account \<Rightarrow> err + bool \<times> string option" where
  "register_instagram env a = bindR (graph_call META_INSTAGRAM env
       ((http_get (instagram_url env ''me/subscribed_apps'') (bearer (credential a ''accessToken'')))
          \<lparr>hq_method := ''POST'', hq_query := [(''subscribed_fields'', ''messages,messaging_seen,messaging_postbacks,messaging_reactions'')]\<rparr>))
     (\<lambda>_. Inr (False, Some (''The Instagram account is subscribed to your app. In your Meta app, open Instagram'' @ ARROW @
       ''API setup with Instagram login'' @ ARROW @
       ''Configure webhooks, and set the callback URL and verify token below, subscribing to messages and messaging_seen.'')))"

definition health_instagram :: "setup_env \<Rightarrow> adapter_account \<Rightarrow> err + channel_health" where
  "health_instagram env a =
     bindR (fetchProfile env (aa_credentials a)) (\<lambda>profile.
     bindR (read_member profile ''username'') (\<lambda>_.
       Inr (health_result env True (''Connected to Instagram '' @
         (case text_member profile ''username'' of Some n \<Rightarrow> ''@'' @ n | None \<Rightarrow> aa_displayIdentifier a) @ ''.''))))"

section \<open>Telegram\<close>

definition bot_name :: "json \<Rightarrow> string" where
  "bot_name me = (case text_member me ''username'' of Some n \<Rightarrow> ''@'' @ n | None \<Rightarrow> js_String (jget me ''first_name''))"

definition verify_telegram :: "setup_env \<Rightarrow> json \<Rightarrow> err + verified_account" where
  "verify_telegram env c =
     bindR (telegram_call (su_send env) (cred c ''botToken'') ''getMe'' (JObj [])) (\<lambda>me.
     bindR (read_member me ''id'') (\<lambda>i. Inr
       \<lparr>va_accountIdentifier = Some (js_String i), va_displayIdentifier = bot_name me, va_displayName = field me ''first_name'',
        va_metadata = json_compact [(''username'', jget me ''username'')], va_initialCursor = None\<rparr>))"

definition deleteWebhook :: "setup_env \<Rightarrow> adapter_account \<Rightarrow> err + unit" where
  "deleteWebhook env a = bindR (telegram_call (su_send env) (credential a ''botToken'') ''deleteWebhook''
     (JObj [(''drop_pending_updates'', JBool False)])) (\<lambda>_. Inr ())"

definition register_telegram :: "setup_env \<Rightarrow> adapter_account \<Rightarrow> string \<Rightarrow> json \<Rightarrow> err + bool \<times> string option" where
  "register_telegram env a url secrets =
     (if \<not> startsWith url ''https://''
      then bindR (deleteWebhook env a)
        (\<lambda>_. Inr (False, Some ''No public HTTPS URL is configured, so VYNOR fetches new messages by polling instead.''))
      else bindR (telegram_call (su_send env) (credential a ''botToken'') ''setWebhook''
          (JObj ([(''url'', JStr url)] @
             (if truthy (jget secrets ''webhookSecret'') then [(''secret_token'', jget secrets ''webhookSecret'')] else []) @
             [(''allowed_updates'', ALLOWED_UPDATES), (''max_connections'', JNum 40)])))
        (\<lambda>_. Inr (True, None)))"

definition recent_webhook_error :: "int \<Rightarrow> json \<Rightarrow> string option" where
  "recent_webhook_error now info = (case text_member info ''last_error_message'' of
     None \<Rightarrow> None
   | Some m \<Rightarrow> (case asInteger (jget info ''last_error_date'') of
       Some d \<Rightarrow> if d \<noteq> 0 \<and> now - 1000 * d < 600 * 1000 then Some m else None
     | None \<Rightarrow> None))"

definition health_telegram :: "setup_env \<Rightarrow> adapter_account \<Rightarrow> err + channel_health" where
  "health_telegram env a =
     bindR (telegram_call (su_send env) (credential a ''botToken'') ''getMe'' (JObj [])) (\<lambda>me.
     bindR (telegram_call (su_send env) (credential a ''botToken'') ''getWebhookInfo'' (JObj [])) (\<lambda>info.
     bindR (read_member me ''username'') (\<lambda>_.
     bindR (if aa_inboundMode a = WEBHOOK then read_member info ''url'' else read_member info ''last_error_message'') (\<lambda>_.
       if aa_inboundMode a = WEBHOOK \<and> \<not> truthy (jget info ''url'')
       then Inr (health_result env False (bot_name me @ '' has no webhook registered. Reconnect the channel to register it again.''))
       else (case recent_webhook_error (sn_now (su_send env)) info of
           Some m \<Rightarrow> Inr (health_result env False (''Telegram reports a webhook delivery error: '' @ m))
         | None \<Rightarrow> Inr (health_result env True (''Connected to '' @ bot_name me @ ''.'')))))))"

section \<open>LINE\<close>

definition line_request_to :: "setup_env \<Rightarrow> string \<Rightarrow> json \<Rightarrow> provider_http_request" where
  "line_request_to env path c = http_get (rt_lineApiBaseUrl (sn_runtime (su_send env)) @ ''/'' @ path) (bearer (cred c ''channelAccessToken''))"

definition line_call :: "setup_env \<Rightarrow> provider_http_request \<Rightarrow> err + http_response" where
  "line_call env q = request LINE_MESSAGING (mapLineError (sn_now (su_send env))) (sn_wire (su_send env)) q"

definition fetchBotInfo :: "setup_env \<Rightarrow> json \<Rightarrow> err + json" where
  "fetchBotInfo env c = bindR (line_call env (line_request_to env ''v2/bot/info'' c)) (\<lambda>r. Inr (hr_data r))"

definition verify_line :: "setup_env \<Rightarrow> json \<Rightarrow> err + verified_account" where
  "verify_line env c =
     bindR (fetchBotInfo env c) (\<lambda>bot.
     bindR (read_member bot ''userId'') (\<lambda>u. Inr
       \<lparr>va_accountIdentifier = asString u,
        va_displayIdentifier = js_String (nullish (jget bot ''premiumId'') (nullish (jget bot ''basicId'') (nullish (jget bot ''displayName'') u))),
        va_displayName = text_member bot ''displayName'',
        va_metadata = json_compact [(''basicId'', jget bot ''basicId''), (''pictureUrl'', jget bot ''pictureUrl'')], va_initialCursor = None\<rparr>))"

definition line_endpoint :: "setup_env \<Rightarrow> json \<Rightarrow> err + json" where
  "line_endpoint env c = bindR (line_call env (line_request_to env ''v2/bot/channel/webhook/endpoint'' c)) (\<lambda>r. Inr (hr_data r))"

definition register_line :: "setup_env \<Rightarrow> adapter_account \<Rightarrow> string \<Rightarrow> err + bool \<times> string option" where
  "register_line env a url = (let c = aa_credentials a in
     if \<not> startsWith url ''https://''
     then Inr (False, Some ''LINE only calls HTTPS webhooks. Set PUBLIC_WEBHOOK_BASE_URL to a public HTTPS address, then reconnect.'')
     else bindR (line_call env ((line_request_to env ''v2/bot/channel/webhook/endpoint'' c)
            \<lparr>hq_method := ''PUT'', hq_json := Some (JObj [(''endpoint'', JStr url)])\<rparr>)) (\<lambda>_.
       bindR (line_endpoint env c) (\<lambda>endpoint.
       bindR (read_member endpoint ''active'') (\<lambda>active.
         if \<not> truthy active
         then Inr (False, Some (''The webhook URL is set. Turn on '' @ named ''Use webhook'' @
                '' in the LINE Developers console (Messaging API tab) so LINE starts sending messages.''))
         else Inr (True, None)))))"

definition health_line :: "setup_env \<Rightarrow> adapter_account \<Rightarrow> err + channel_health" where
  "health_line env a =
     bindR (fetchBotInfo env (aa_credentials a)) (\<lambda>bot.
     bindR (line_endpoint env (aa_credentials a)) (\<lambda>endpoint.
     bindR (read_member endpoint ''active'') (\<lambda>active.
       if truthy active \<and> truthy (jget endpoint ''endpoint'')
       then bindR (read_member bot ''displayName'') (\<lambda>n. Inr (health_result env True (''Connected to '' @ js_String (nullish n (JStr ''LINE'')) @ '' ('' @
              js_String (nullish (jget bot ''basicId'') (jget bot ''userId'')) @ '').'')))
       else Inr (health_result env False (''LINE is not sending webhooks. Turn on '' @ named ''Use webhook'' @ '' in the LINE Developers console.'')))))"

section \<open>Email, custom API, web chat\<close>

definition mail_server_of :: "json \<Rightarrow> string \<Rightarrow> mail_server" where
  "mail_server_of c k = (let s = jget c k in
     \<lparr>sv_host = text_of (jget s ''host''), sv_port = (case asInteger (jget s ''port'') of Some n \<Rightarrow> nat n | None \<Rightarrow> 0)\<rparr>)"

definition mail_failure :: "mail_protocol \<Rightarrow> mail_server \<Rightarrow> mail_thrown + 'a \<Rightarrow> err + 'a" where
  "mail_failure protocol server r = (case r of Inr x \<Rightarrow> Inr x | Inl e \<Rightarrow> Inl (ProviderFailure (mapMailError e protocol server Verify)))"

definition signed_in :: "setup_env \<Rightarrow> json \<Rightarrow> err + mailbox_status" where
  "signed_in env c =
     bindR (mail_failure IMAP (mail_server_of c ''imap'') (su_status env (mail_server_of c ''imap''))) (\<lambda>status.
     bindR (mail_failure SMTP (mail_server_of c ''smtp'') (su_smtpVerify env (mail_server_of c ''smtp''))) (\<lambda>_. Inr status))"

definition cursor_after :: "mailbox_status \<Rightarrow> json" where
  "cursor_after status = JObj [(''uidValidity'', JStr (case mx_uidValidity status of Some v \<Rightarrow> show_int v | None \<Rightarrow> [])),
     (''lastUid'', JNum (max 0 ((case mx_uidNext status of Some n \<Rightarrow> n | None \<Rightarrow> 1) - 1)))]"

definition verify_email :: "setup_env \<Rightarrow> json \<Rightarrow> err + verified_account" where
  "verify_email env c = bindR (signed_in env c) (\<lambda>status. Inr
     \<lparr>va_accountIdentifier = Some (cred c ''emailAddress''), va_displayIdentifier = cred c ''emailAddress'',
      va_displayName = text_member c ''senderName'',
      va_metadata = [(''mailboxMessages'', JNum (case mx_messages status of Some n \<Rightarrow> n | None \<Rightarrow> 0))],
      va_initialCursor = Some (cursor_after status)\<rparr>)"

definition health_email :: "setup_env \<Rightarrow> adapter_account \<Rightarrow> err + channel_health" where
  "health_email env a = bindR (signed_in env (aa_credentials a))
     (\<lambda>_. Inr (health_result env True (''Signed in to '' @ credential a ''emailAddress'' @ '' (IMAP and SMTP).'')))"

definition displayed_as :: "string \<Rightarrow> verified_account" where
  "displayed_as host = \<lparr>va_accountIdentifier = None, va_displayIdentifier = host, va_displayName = None, va_metadata = [], va_initialCursor = None\<rparr>"

definition verify_custom :: "setup_env \<Rightarrow> json \<Rightarrow> err + verified_account" where
  "verify_custom env c = bindR (su_host env (cred c ''outboundUrl'')) (\<lambda>host. Inr (displayed_as host))"

definition health_custom :: "setup_env \<Rightarrow> adapter_account \<Rightarrow> err + channel_health" where
  "health_custom env a = bindR (custom_post (su_send env) a
       [(''type'', JStr ''ping''), (''channelId'', JStr (aa_id a)), (''sentAt'', JStr (sn_iso (su_send env)))])
     (\<lambda>_. Inr (health_result env True (''Your endpoint '' @ aa_displayIdentifier a @ '' accepted a signed test request.'')))"

definition verify_webchat :: "setup_env \<Rightarrow> json \<Rightarrow> err + verified_account" where
  "verify_webchat env c = (if cred c ''websiteUrl'' = [] then Inr (displayed_as ''Website'')
     else bindR (su_host env (cred c ''websiteUrl'')) (\<lambda>host. Inr (displayed_as host)))"

definition health_webchat :: "setup_env \<Rightarrow> adapter_account \<Rightarrow> err + channel_health" where
  "health_webchat env a = Inr \<lparr>hl_isHealthy = True, hl_message = ''The chat widget for '' @ aa_displayIdentifier a @
     '' is ready. Paste the embed snippet on your site.'', hl_latencyMs = Some 0\<rparr>"

section \<open>All adapters\<close>

fun adapter_verify :: "setup_env \<Rightarrow> channel_provider \<Rightarrow> (string \<times> json) list \<Rightarrow> err + verified_account" where
  "adapter_verify env WHATSAPP_CLOUD c = verify_whatsapp env (JObj c)"
| "adapter_verify env TELEGRAM_BOT c = verify_telegram env (JObj c)"
| "adapter_verify env EMAIL_SMTP_IMAP c = verify_email env (JObj c)"
| "adapter_verify env META_MESSENGER c = verify_messenger env (JObj c)"
| "adapter_verify env META_INSTAGRAM c = verify_instagram env (JObj c)"
| "adapter_verify env LINE_MESSAGING c = verify_line env (JObj c)"
| "adapter_verify env WEBCHAT_EMBED c = verify_webchat env (JObj c)"
| "adapter_verify env CUSTOM_WEBHOOK c = verify_custom env (JObj c)"

text \<open>The last three adapters have no \<open>registerWebhook\<close>; the service does not call it for them.\<close>

fun adapter_register :: "setup_env \<Rightarrow> channel_provider \<Rightarrow> adapter_account \<Rightarrow> string \<Rightarrow> json \<Rightarrow> err + bool \<times> string option" where
  "adapter_register env WHATSAPP_CLOUD a url secrets = register_whatsapp env a url secrets"
| "adapter_register env TELEGRAM_BOT a url secrets = register_telegram env a url secrets"
| "adapter_register env LINE_MESSAGING a url secrets = register_line env a url"
| "adapter_register env META_MESSENGER a url secrets = register_messenger env a"
| "adapter_register env META_INSTAGRAM a url secrets = register_instagram env a"
| "adapter_register env _ a url secrets = Inr (False, None)"

fun adapter_unregister :: "setup_env \<Rightarrow> channel_provider \<Rightarrow> adapter_account \<Rightarrow> err + unit" where
  "adapter_unregister env WHATSAPP_CLOUD a = unregister_whatsapp env a"
| "adapter_unregister env TELEGRAM_BOT a = deleteWebhook env a"
| "adapter_unregister env META_MESSENGER a = unregister_messenger env a"
| "adapter_unregister env _ a = Inr ()"

fun adapter_health :: "setup_env \<Rightarrow> channel_provider \<Rightarrow> adapter_account \<Rightarrow> err + channel_health" where
  "adapter_health env WHATSAPP_CLOUD a = health_whatsapp env a"
| "adapter_health env TELEGRAM_BOT a = health_telegram env a"
| "adapter_health env EMAIL_SMTP_IMAP a = health_email env a"
| "adapter_health env META_MESSENGER a = health_messenger env a"
| "adapter_health env META_INSTAGRAM a = health_instagram env a"
| "adapter_health env LINE_MESSAGING a = health_line env a"
| "adapter_health env WEBCHAT_EMBED a = health_webchat env a"
| "adapter_health env CUSTOM_WEBHOOK a = health_custom env a"

definition provider_ops :: "setup_env \<Rightarrow> adapter_ops" where
  "provider_ops env = \<lparr>ao_verifyCredentials = adapter_verify env, ao_registerWebhook = adapter_register env,
     ao_unregisterWebhook = adapter_unregister env, ao_healthCheck = adapter_health env\<rparr>"

end
