(* ===== verification/SetupContract.thy ===== *)
theory SetupContract
  imports AdapterSetup ChannelContract SendContract
begin

text \<open>
  The channels service with the adapters' own set-up calls: what a registration leaves at the provider is
  what the webhook endpoint accepts, a new mailbox imports no old mail, and a test tells a revoked token
  from an outage.
\<close>

section \<open>Registered webhooks\<close>

text \<open>The URL and the secret in the body of a registration.\<close>

fun registered_callback :: "channel_provider \<Rightarrow> json \<Rightarrow> string \<times> string" where
  "registered_callback TELEGRAM_BOT j = (jstr j ''url'', jstr j ''secret_token'')"
| "registered_callback _ j = (let c = jget j ''webhook_configuration'' in (jstr c ''override_callback_uri'', jstr c ''verify_token''))"

text \<open>The provider accepted a request that registers this URL with this secret.\<close>

definition confirmed :: "wire \<Rightarrow> channel_provider \<Rightarrow> string \<Rightarrow> string \<Rightarrow> bool" where
  "confirmed w p url s = (\<exists>q j. wq_body q = Some (stringify j) \<and> registered_callback p j = (url, s) \<and> accepts p (w q))"

text \<open>A call the provider makes to prove itself with the secret: the handshake of Meta, an update of Telegram.\<close>

fun proves_itself :: "channel_provider \<Rightarrow> string \<Rightarrow> webhook_request \<Rightarrow> bool" where
  "proves_itself TELEGRAM_BOT s r = (wr_method r = POST \<and> readHeader (wr_headers r) ''x-telegram-bot-api-secret-token'' = Some s)"
| "proves_itself _ s r = (wr_method r = GET \<and> query_value r ''hub.mode'' = Some ''subscribe'' \<and>
     query_value r ''hub.verify_token'' = Some s \<and> \<not> blank (query_value r ''hub.challenge''))"

fun secret_name :: "channel_provider \<Rightarrow> string" where
  "secret_name TELEGRAM_BOT = ''webhookSecret''"
| "secret_name _ = ''verifyToken''"

definition self_registering :: "channel_provider \<Rightarrow> bool" where
  "self_registering p = (p = WHATSAPP_CLOUD \<or> p = TELEGRAM_BOT)"

lemma telegram_registers:
  assumes "register_telegram env a url secrets = Inr (True, nt)" "jget secrets ''webhookSecret'' = JStr s" "s \<noteq> []"
  shows "startsWith url ''https://'' \<and> confirmed (sn_wire (su_send env)) TELEGRAM_BOT url s"
proof -
  let ?j = "JObj ([(''url'', JStr url)] @ [(''secret_token'', JStr s)] @ [(''allowed_updates'', ALLOWED_UPDATES), (''max_connections'', JNum 40)])"
  let ?q = "http_post (rt_telegramApiBaseUrl (sn_runtime (su_send env)) @ ''/bot'' @ credential a ''botToken'' @ ''/'' @ ''setWebhook'') [] ?j"
  have url: "startsWith url ''https://''" using assms(1) by (auto simp: register_telegram_def bindR_Inr_iff split: if_splits)
  then obtain x where "telegram_call (su_send env) (credential a ''botToken'') ''setWebhook'' ?j = Inr x"
    using assms by (auto simp: register_telegram_def bindR_Inr_iff)
  then obtain r where "request TELEGRAM_BOT mapTelegramError (sn_wire (su_send env)) ?q = Inr r"
    by (auto simp: telegram_call_def bindR_Inr_iff)
  then have "accepts TELEGRAM_BOT (sn_wire (su_send env) (wire_of ?q))" by (rule request_accepts)
  moreover have "registered_callback TELEGRAM_BOT ?j = (url, s)" by simp
  ultimately show ?thesis using url posted_body unfolding confirmed_def by blast
qed

lemma whatsapp_registers:
  assumes "register_whatsapp env a url secrets = Inr (True, nt)" "jget secrets ''verifyToken'' = JStr s" "s \<noteq> []"
  shows "startsWith url ''https://'' \<and> confirmed (sn_wire (su_send env)) WHATSAPP_CLOUD url s"
proof -
  let ?kvs = "[(''override_callback_uri'', JStr url), (''verify_token'', JStr s)]"
  let ?q = "override_callback env (aa_credentials a) ?kvs"
  have url: "startsWith url ''https://''"
    using assms(1) by (auto simp: register_whatsapp_def Let_def bindR_Inr_iff split: if_splits)
  then obtain r where "graph_call WHATSAPP_CLOUD env ?q = Inr r"
    using assms by (auto simp: register_whatsapp_def Let_def bindR_Inr_iff split: sum.splits)
  then have "accepts WHATSAPP_CLOUD (sn_wire (su_send env) (wire_of ?q))" unfolding graph_call_def by (rule request_accepts)
  moreover have "wq_body (wire_of ?q) = Some (stringify (JObj [(''webhook_configuration'', JObj ?kvs)]))"
    unfolding override_callback_def by (rule posted_body)
  moreover have "registered_callback WHATSAPP_CLOUD (JObj [(''webhook_configuration'', JObj ?kvs)]) = (url, s)"
    by (simp add: jget_Cons Let_def)
  ultimately show ?thesis using url unfolding confirmed_def by blast
qed

lemma adapter_registers:
  assumes "adapter_register env p a url secrets = Inr (True, nt)" "self_registering p" "jget secrets (secret_name p) = JStr s" "s \<noteq> []"
  shows "startsWith url ''https://'' \<and> confirmed (sn_wire (su_send env)) p url s"
  using assms telegram_registers whatsapp_registers by (auto simp: self_registering_def)

lemma proven_valid:
  assumes "self_registering p" "validateWebhook hmac now p = Some v" "proves_itself p s r" "secret a (secret_name p) = Some s" "s \<noteq> []"
  shows "wv_isValid (v r a) \<and> (p = WHATSAPP_CLOUD \<longrightarrow> wv_challengeResponse (v r a) = query_value r ''hub.challenge'')"
proof (cases "p = WHATSAPP_CLOUD")
  case True
  then show ?thesis using assms
    by (auto simp: validateMetaWebhook_def answerMetaVerificationChallenge_def blank_def Let_def accepted_def)
next
  case False
  then have "p = TELEGRAM_BOT" using assms(1) by (simp add: self_registering_def)
  then show ?thesis using assms by (auto simp: telegram_authentic)
qed

lemma generated_secret: "self_registering p \<Longrightarrow> jget (JObj (generateSecrets env p)) (secret_name p) = JStr (ch_token env 2)"
  by (auto simp: self_registering_def generateSecrets_def jget_Cons numeral_2_eq_2)


section \<open>A bot to try it on\<close>

definition demo_bot :: json where
  "demo_bot = JObj [(''ok'', JBool True), (''result'', JObj [(''id'', JNum 7), (''first_name'', JStr ''Bot'')])]"

definition demo_setup :: setup_env where
  "demo_setup = \<lparr>su_send = demo_wire demo_bot, su_status = (\<lambda>_. Inr \<lparr>mx_messages = Some 2, mx_uidNext = Some 3, mx_uidValidity = Some 5\<rparr>),
     su_smtpVerify = (\<lambda>_. Inr ()), su_host = (\<lambda>u. Inr u), su_latency = 1\<rparr>"

definition demo_setup_env :: channel_env where
  "demo_setup_env = demo_channel_env\<lparr>ch_ops := provider_ops demo_setup\<rparr>"

definition demo_bot_request :: create_request where
  "demo_bot_request = \<lparr>cq_name = ''Bot'', cq_description = None,
     cq_connection = \<lparr>cn_provider = TELEGRAM_BOT, cn_credentials = [(''botToken'', JStr ''t'')]\<rparr>\<rparr>"

lemma parsed_answer: "plain (JObj kvs) \<Longrightarrow> parseBody ''application/json'' (stringify (JObj kvs)) = JObj kvs"
  using plain_text_parsed [of "JObj kvs"] stringify_nonempty [of kvs]
  by (simp add: parseBody_def)

lemma demo_bot_answers: "telegram_call (su_send demo_setup) token method params = Inr (JObj [(''id'', JNum 7), (''first_name'', JStr ''Bot'')])"
proof -
  have "plain demo_bot" by code_simp
  then have "parseBody ''application/json'' (stringify demo_bot) = demo_bot" unfolding demo_bot_def by (rule parsed_answer)
  then show ?thesis
    by (simp add: telegram_call_def request_def demo_setup_def Let_def demo_bot_def read_member_def)
qed

lemma demo_bot_connected: "\<exists>view d'. createChannel demo_setup_env demo_actor demo_bot_request ''c'' empty_db = (Inr view, d') \<and> chv_webhookRegistered view"
proof -
  let ?secrets = "channel_secrets (JObj [(''botToken'', JStr ''t'')]) (JObj [(''webhookSecret'', JStr ''token2'')])"
  have "plain ?secrets" unfolding channel_secrets_def by code_simp
  then obtain c e where ce: "fromEnv demo_cipher_env = Inr (Some c)"
    "sealChannelSecrets plain_seal (replicate 12 (CHR ''i'')) c TELEGRAM_BOT ''ch1'' ?secrets ''now'' None = Inr e"
    "openChannelSecrets (\<lambda>_. True) plain_open c e ''ch1'' = Inr ?secrets"
    using demo_seals [of "[(''botToken'', JStr ''t'')]" _ "''ch1''"] by blast
  have env: "calm demo_setup_env" "\<forall>k. ch_fault demo_setup_env k = None" "ch_ids demo_setup_env 0 = ''ch1''" "ch_cipher demo_setup_env = Some c"
    using ce(1) by (simp_all add: demo_setup_env_def demo_channel_env_def calm_def)
  have token: "ch_token demo_setup_env 1 = ''token1''" "ch_token demo_setup_env 2 = ''token2''"
    by (simp_all add: demo_setup_env_def demo_channel_env_def) code_simp+
  have gen: "generateSecrets demo_setup_env TELEGRAM_BOT = [(''webhookSecret'', JStr ''token2'')]"
    using token(2) by (simp add: generateSecrets_def numeral_2_eq_2)
  obtain v where v: "verifyConnection demo_setup_env (cq_connection demo_bot_request) = Inr v"
    by (simp add: verifyConnection_def demo_setup_env_def provider_ops_def demo_bot_request_def verify_telegram_def demo_bot_answers read_member_def)
  have checked: "checked_connection demo_setup_env (cq_connection demo_bot_request) = Inr (c, v)"
    using v env(4) by (simp add: checked_connection_def requireCipher_def assertConnectionEndpointsAllowed_def demo_setup_env_def demo_channel_env_def)
  have seal: "seal_secrets demo_setup_env c (cq_connection demo_bot_request) (ch_ids demo_setup_env 0)
      (generateSecrets demo_setup_env (cn_provider (cq_connection demo_bot_request))) False = Inr e"
    using ce(2) gen env(3) by (simp add: seal_secrets_def demo_bot_request_def) (simp add: demo_setup_env_def demo_channel_env_def)
  let ?row = "connected_row demo_setup_env demo_bot_request v e (blank_row demo_actor ''ch1'' TELEGRAM_BOT (account_identifier demo_setup_env TELEGRAM_BOT v))"
  obtain acc where acc: "channel_account demo_setup_env ?row = Inr acc"
    using ce(3) env(4) by (simp add: channel_account_def runtime_account_def requireCipher_def buildAdapterAccount_def connected_row_def
        blank_row_def Let_def) (simp add: demo_setup_env_def demo_channel_env_def)
  have mode: "cf_inboundMode (readConnectionConfig (pa_config ?row)) = WEBHOOK"
    by (simp add: connected_row_def Let_def config_mode buildConfig_def split: prod.splits)
      (simp add: inboundModeFor_def demo_bot_request_def hasPublicHttpsUrl_def demo_setup_env_def demo_channel_env_def startsWith_def)
  have url: "webhookUrl demo_setup_env TELEGRAM_BOT (pa_webhookKey ?row) = Some ''https://crm/api/v1/webhooks/telegram/token1''"
    using token(1) by (simp add: connected_row_def Let_def webhookUrl_def nonblank_def) (simp add: demo_setup_env_def demo_channel_env_def)
  have "fst (inbound_setup demo_setup_env ?row TELEGRAM_BOT (JObj (generateSecrets demo_setup_env TELEGRAM_BOT)))"
    using acc url by (simp add: inbound_setup_def Let_def registers_webhook_def mode)
      (simp add: demo_setup_env_def provider_ops_def register_telegram_def demo_bot_answers startsWith_def)
  then show ?thesis
    using first_connection [OF checked env(1,2) seal, of demo_actor "''c''"] env(3) by (simp add: demo_bot_request_def)
qed

definition demo_update :: webhook_request where
  "demo_update = \<lparr>wr_method = POST, wr_rawBody = [], wr_headers = [(''x-telegram-bot-api-secret-token'', One ''token2'')], wr_query = []\<rparr>"

lemma demo_setup_facts:
  "calm demo_setup_env" "channels_ok empty_db" "gcm_laws (ch_seal demo_setup_env) (ch_open demo_setup_env)" "length (ch_iv demo_setup_env) = 12"
  "fromEnv demo_cipher_env = Inr (ch_cipher demo_setup_env)" "ch_ids demo_setup_env 0 \<noteq> []" "\<forall>x\<in>set (db_accounts empty_db). pa_id x \<noteq> []"
  "ch_datetime demo_setup_env (ch_iso demo_setup_env (ch_now demo_setup_env))" "ch_ops demo_setup_env = provider_ops demo_setup"
  "ch_token demo_setup_env 1 = ''token1''" "ch_token demo_setup_env 2 = ''token2''"
proof -
  show "fromEnv demo_cipher_env = Inr (ch_cipher demo_setup_env)" using demo_sealed by (auto simp: demo_setup_env_def demo_channel_env_def)
  show "ch_token demo_setup_env 1 = ''token1''" "ch_token demo_setup_env 2 = ''token2''"
    by (simp_all add: demo_setup_env_def demo_channel_env_def) code_simp+
qed (simp_all add: demo_setup_env_def demo_channel_env_def calm_def channels_ok_def empty_db_def plain_gcm_laws)


section \<open>Old mail\<close>

text \<open>A mail server that fetches no mail it was not asked for.\<close>

definition fetches_asked :: "imap_env \<Rightarrow> bool" where
  "fetches_asked ie = (\<forall>uids ss. im_fetchAll ie uids = Inr ss \<longrightarrow> fst ` set ss \<subseteq> set uids)"

lemma fetched_uids: "fetch_mails ie ss = Inr ms \<Longrightarrow> map fm_uid ms = map fst ss"
proof (induction ss arbitrary: ms)
  case (Cons s ss)
  then show ?case by (auto simp: bindR_Inr_iff fetch_mail_def split: if_splits)
qed simp

lemma mail_event_uid: "mail_event ie v m = Inr e \<Longrightarrow> jget (xe_payload e) ''uid'' = JNum (fm_uid m)"
  by (auto simp: mail_event_def envelope_event_def emailToJournalPayload_def event_def json_compact_def jget_Cons bindR_Inr_iff Let_def
      split: option.splits)

lemma mail_events_uids: "mail_events ie v k ms = Inr (es, u) \<Longrightarrow> map (\<lambda>e. jget (xe_payload e) ''uid'') es = map (\<lambda>m. JNum (fm_uid m)) ms"
proof (induction ms arbitrary: k es)
  case (Cons m ms)
  then show ?case using mail_event_uid [of ie v m] by (force simp: bindR_Inr_iff)
qed simp

lemma polled_above:
  assumes "poll_email ie server cursor = Inr (es, cursor')" "im_mailbox ie = Inr (Some (v, uidNext))" "fetches_asked ie" "e \<in> set es"
  shows "\<exists>u > cursor_uid cursor v uidNext. jget (xe_payload e) ''uid'' = JNum u"
proof -
  obtain v' k ms u where f: "imap_fetch ie cursor = Inr (v', k, ms)" "mail_events ie v' k ms = Inr (es, u)"
    using assms(1) by (auto simp: poll_email_def bindR_Inr_iff split: sum.splits)
  let ?k = "cursor_uid cursor v uidNext"
  have "fm_uid m > ?k" if m: "m \<in> set ms" for m
  proof -
    obtain found ss where s: "im_fetchAll ie (pick_uids ?k found) = Inr ss" "fetch_mails ie (sort_key fst ss) = Inr ms"
      using f(1) assms(2) m by (auto simp: imap_fetch_def Let_def bindR_Inr_iff split: if_splits)
    have "fm_uid m \<in> fst ` set ss" using fetched_uids [OF s(2)] m by (metis image_set set_sort list.set_map image_eqI)
    then have "fm_uid m \<in> set (pick_uids ?k found)" using assms(3) s(1) unfolding fetches_asked_def by blast
    then show ?thesis by (auto simp: pick_uids_def dest!: in_set_takeD)
  qed
  moreover have "jget (xe_payload e) ''uid'' \<in> (\<lambda>m. JNum (fm_uid m)) ` set ms"
    using arg_cong [OF mail_events_uids [OF f(2)], of set] assms(4) by auto
  ultimately show ?thesis by auto
qed

text \<open>Connecting a mailbox imports no mail that was already there: the stored cursor makes every poll of
  the same mailbox bring only mails with a UID of at least the next UID the server announced when the
  channel was connected, which no older mail has.\<close>
theorem old_mail_stays:
  assumes "createChannel env a q corr d = (Inr view, d')" "calm env" "channels_ok d"
    and crypto: "gcm_laws (ch_seal env) (ch_open env)" "length (ch_iv env) = 12" "fromEnv cenv = Inr (ch_cipher env)"
    and inputs: "plain (channel_secrets (JObj (cn_credentials (cq_connection q))) (JObj (generateSecrets env (cn_provider (cq_connection q)))))"
      "ch_ids env 0 \<noteq> []" "\<forall>x\<in>set (db_accounts d). pa_id x \<noteq> []" "ch_datetime env (ch_iso env (ch_now env))"
    and "ch_ops env = provider_ops su" "cn_provider (cq_connection q) = EMAIL_SMTP_IMAP"
      "su_status su (mail_server_of (JObj (cn_credentials (cq_connection q))) ''imap'') = Inr status"
      "mx_uidValidity status = Some v" "mx_uidNext status = Some n" "1 \<le> n"
  shows "\<exists>row. find_account (chv_id view) d' = Some row \<and> pa_syncState row = mail_cursor (show_int v) (n - 1) \<and>
    (\<forall>ie server uidNext es cursor' e. poll_email ie server (pa_syncState row) = Inr (es, cursor') \<and>
       im_mailbox ie = Inr (Some (show_int v, uidNext)) \<and> fetches_asked ie \<and> e \<in> set es \<longrightarrow>
       (\<exists>u \<ge> n. jget (xe_payload e) ''uid'' = JNum u))"
proof -
  obtain va row1 row2 registered nt where f: "verifyConnection env (cq_connection q) = Inr va" "view = presented_row env a d' row2"
    "channels_ok d'" "row2 \<in> set (db_accounts d')"
    "pa_syncState row1 = (case va_initialCursor va of Some cur \<Rightarrow> cur | None \<Rightarrow> JNull)"
    "row2 = row1\<lparr>pa_config := config_json ((readConnectionConfig (pa_config row1))\<lparr>cf_webhookRegistered := registered, cf_setupNote := nt\<rparr>)\<rparr>"
    by (rule connected_facts [OF assms(1-10)]) blast
  have "va_initialCursor va = Some (cursor_after status)"
    using f(1) assms(11-13) by (auto simp: verifyConnection_def provider_ops_def verify_email_def signed_in_def mail_failure_def bindR_Inr_iff
        split: sum.splits err.splits if_splits)
  then have sync: "pa_syncState row2 = mail_cursor (show_int v) (n - 1)"
    using f(5,6) assms(14-16) by (simp add: cursor_after_def mail_cursor_def)
  have "find_account (chv_id view) d' = Some row2" using member_found [OF f(3,4)] by (simp add: f(2) present_id)
  moreover have "\<exists>u \<ge> n. jget (xe_payload e) ''uid'' = JNum u"
    if "poll_email ie server (pa_syncState row2) = Inr (es, cursor')" "im_mailbox ie = Inr (Some (show_int v, uidNext))" "fetches_asked ie" "e \<in> set es"
    for ie server uidNext es cursor' e
    using polled_above [OF that] by (force simp: sync cursor_uid_mail)
  ultimately show ?thesis using sync by blast
qed

definition demo_mailbox :: create_request where
  "demo_mailbox = \<lparr>cq_name = ''Mail'', cq_description = None,
     cq_connection = \<lparr>cn_provider = EMAIL_SMTP_IMAP, cn_credentials = [(''emailAddress'', JStr ''a@x.com'')]\<rparr>\<rparr>"

lemma demo_mailbox_connected: "\<exists>view d'. createChannel demo_setup_env demo_actor demo_mailbox ''c'' empty_db = (Inr view, d')"
proof -
  let ?secrets = "channel_secrets (JObj [(''emailAddress'', JStr ''a@x.com'')]) (JObj [])"
  have "plain ?secrets" unfolding channel_secrets_def by code_simp
  then obtain c e where ce: "fromEnv demo_cipher_env = Inr (Some c)"
    "sealChannelSecrets plain_seal (replicate 12 (CHR ''i'')) c EMAIL_SMTP_IMAP ''ch1'' ?secrets ''now'' None = Inr e"
    using demo_seals [of "[(''emailAddress'', JStr ''a@x.com'')]" _ "''ch1''"] by blast
  have env: "calm demo_setup_env" "\<forall>k. ch_fault demo_setup_env k = None" "ch_ids demo_setup_env 0 = ''ch1''" "ch_cipher demo_setup_env = Some c"
    "generateSecrets demo_setup_env EMAIL_SMTP_IMAP = []"
    using ce(1) by (simp_all add: demo_setup_env_def demo_channel_env_def calm_def generateSecrets_def)
  obtain v where v: "verifyConnection demo_setup_env (cq_connection demo_mailbox) = Inr v"
    by (simp add: verifyConnection_def demo_setup_env_def provider_ops_def demo_mailbox_def verify_email_def signed_in_def mail_failure_def demo_setup_def)
  have checked: "checked_connection demo_setup_env (cq_connection demo_mailbox) = Inr (c, v)"
    using v env(4) by (simp add: checked_connection_def requireCipher_def assertConnectionEndpointsAllowed_def demo_setup_env_def demo_channel_env_def)
  have "seal_secrets demo_setup_env c (cq_connection demo_mailbox) (ch_ids demo_setup_env 0)
      (generateSecrets demo_setup_env (cn_provider (cq_connection demo_mailbox))) False = Inr e"
    using ce(2) env(3,5) by (simp add: seal_secrets_def demo_mailbox_def) (simp add: demo_setup_env_def demo_channel_env_def)
  then show ?thesis using first_connection [OF checked env(1,2), of e demo_actor "''c''"] by blast
qed

theorem old_mail_stays_witness:
  "\<exists>view d' row. createChannel demo_setup_env demo_actor demo_mailbox ''c'' empty_db = (Inr view, d') \<and>
    find_account (chv_id view) d' = Some row \<and> pa_syncState row = mail_cursor (show_int 5) 2"
proof -
  obtain view d' where made: "createChannel demo_setup_env demo_actor demo_mailbox ''c'' empty_db = (Inr view, d')"
    using demo_mailbox_connected by blast
  have q: "cn_provider (cq_connection demo_mailbox) = EMAIL_SMTP_IMAP" by (simp add: demo_mailbox_def)
  have plain: "plain (channel_secrets (JObj (cn_credentials (cq_connection demo_mailbox)))
      (JObj (generateSecrets demo_setup_env (cn_provider (cq_connection demo_mailbox)))))"
    unfolding q generateSecrets_def by (simp add: demo_mailbox_def channel_secrets_def) code_simp
  obtain row where "find_account (chv_id view) d' = Some row" "pa_syncState row = mail_cursor (show_int 5) (3 - 1)"
    using old_mail_stays [OF made demo_setup_facts(1-5) plain demo_setup_facts(6-9) q, of "\<lparr>mx_messages = Some 2, mx_uidNext = Some 3, mx_uidValidity = Some 5\<rparr>" 5 3]
    by (auto simp: demo_setup_def)
  then show ?thesis using made by auto
qed

section \<open>Testing a channel\<close>

text \<open>Every request is answered with 401 and no body; no request is answered.\<close>

definition rejects_token :: "wire \<Rightarrow> bool" where
  "rejects_token w = (\<forall>q. \<exists>ra ct. w q = Answered 401 ra ct [])"

definition outage :: "wire \<Rightarrow> bool" where
  "outage w = (\<forall>q. w q = TimedOut \<or> w q = Unreachable)"

lemma rejected_mapped:
  "requiresReconnect (mapGraphError now p 401 JNull ra)" "requiresReconnect (mapTelegramError 401 JNull ra)"
  "requiresReconnect (mapLineError now 401 JNull ra)" "requiresReconnect (mapCustomError now 401 JNull ra)"
proof -
  show "requiresReconnect (mapGraphError now p 401 JNull ra)" by (simp add: mapGraphError_def http_reconnect jget_def)
  show "requiresReconnect (mapTelegramError 401 JNull ra)"
    by (simp add: mapTelegramError_def Let_def int_member_def jget_def telegram_category_def requiresReconnect_def ChannelProviderError_def)
qed (simp_all add: http_reconnect mapLineError_def mapCustomError_def)

lemma rejected_request:
  assumes "rejects_token w"
  shows "\<exists>ra. request p m w q = Inl (ProviderFailure (m 401 JNull ra))"
proof -
  obtain ra ct where "w (wire_of q) = Answered 401 ra ct []" using assms unfolding rejects_token_def by blast
  then show ?thesis by (auto simp: request_def parseBody_def)
qed

lemma outage_request:
  assumes "outage w"
  shows "\<exists>e. request p m w q = Inl (ProviderFailure e) \<and> \<not> requiresReconnect e"
proof -
  have "w (wire_of q) = TimedOut \<or> w (wire_of q) = Unreachable" using assms unfolding outage_def by blast
  then show ?thesis by (auto simp: request_def unanswered_def requiresReconnect_def ChannelProviderError_def)
qed

text \<open>The first request of a probe decides when it fails.\<close>

definition http_probed :: "channel_provider \<Rightarrow> adapter_account \<Rightarrow> bool" where
  "http_probed p a = (p \<noteq> EMAIL_SMTP_IMAP \<and> p \<noteq> WEBCHAT_EMBED \<and> (p = CUSTOM_WEBHOOK \<longrightarrow> \<not> blank (secret a ''webhookSecret'')))"

fun probe_error :: "channel_provider \<Rightarrow> int \<Rightarrow> error_mapper" where
  "probe_error TELEGRAM_BOT now = mapTelegramError"
| "probe_error LINE_MESSAGING now = mapLineError now"
| "probe_error CUSTOM_WEBHOOK now = mapCustomError now"
| "probe_error p now = mapGraphError now p"

lemma probe_fails:
  assumes "http_probed p a"
  shows "\<exists>q. \<forall>e. request p (probe_error p (sn_now (su_send su))) (sn_wire (su_send su)) q = Inl e \<longrightarrow> adapter_health su p a = Inl e"
proof (cases p)
  case CUSTOM_WEBHOOK
  then obtain s where "secret a ''webhookSecret'' = Some s" "s \<noteq> []" using assms by (auto simp: http_probed_def blank_def)
  then show ?thesis by (simp add: CUSTOM_WEBHOOK health_custom_def custom_post_def nonblank_def Let_def) (metis bindR.simps(1))
qed (use assms in \<open>auto simp: http_probed_def health_whatsapp_def fetchPhoneNumber_def graph_call_def health_messenger_def fetchPage_def
    health_instagram_def fetchProfile_def health_telegram_def telegram_call_def health_line_def fetchBotInfo_def line_call_def, (metis bindR.simps(1))+\<close>)

lemma probe_error_reconnect: "requiresReconnect (probe_error p now 401 JNull ra)"
  by (cases p) (simp_all add: rejected_mapped)

lemma probe_rejected:
  assumes "http_probed p a" "rejects_token (sn_wire (su_send su))"
  shows "\<exists>e. adapter_health su p a = Inl (ProviderFailure e) \<and> requiresReconnect e"
  using probe_fails [OF assms(1), of su] rejected_request [OF assms(2)] probe_error_reconnect by metis

lemma probe_outage:
  assumes "http_probed p a" "outage (sn_wire (su_send su))"
  shows "\<exists>e. adapter_health su p a = Inl (ProviderFailure e) \<and> \<not> requiresReconnect e"
  using probe_fails [OF assms(1), of su] outage_request [OF assms(2)] by metis

lemma findRow_member:
  assumes "channels_ok d" "row \<in> set (db_accounts d)" "pa_workspaceId row = ac_workspaceId a" "pa_deletedAt row = None"
  shows "findRow a (pa_id row) d = Inr row"
proof (cases "findRow a (pa_id row) d")
  case (Inl e)
  then show ?thesis using assms(2-4) by (auto simp: findRow_def find_None_iff_all split: option.splits)
next
  case (Inr x)
  then show ?thesis using findRow_facts [OF Inr] one_row [OF assms(1) member_found [OF assms(1,2)]] by simp
qed

lemma tested_stored:
  assumes "findRow a i d = Inr row" "probe env row = Inr t" "channels_ok d" "calm env" "ch_fault env 0 = None"
  shows "\<exists>d'. testChannel env a i d = (Inr t, d') \<and> findRow a i d' = Inr (tested_row t row)"
proof -
  note row = findRow_facts [OF assms(1)]
  have found: "find_account (pa_id row) d = Some row" using row by (auto intro: member_found [OF assms(3)])
  have free: "\<not> list_ex (\<lambda>y. pa_id y \<noteq> pa_id row \<and> key_taken y (tested_row t row)) (db_accounts d)"
  proof -
    have "key_taken y (tested_row t row) = key_taken y row" for y by (simp add: key_taken_def tested_row_def)
    then show ?thesis using assms(3) row unfolding channels_ok_def list_ex_iff by metis
  qed
  let ?d = "d\<lparr>db_accounts := update_where (\<lambda>y. pa_id y = pa_id row) (tested_row t) (db_accounts d)\<rparr>"
  obtain d' where d': "testChannel env a i d = (Inr t, d')" "db_accounts d' = db_accounts ?d"
    using assms found free
    by (auto simp: testChannel_def run_attempt_def runTx_def calm_def update_row_def tx_defs channel_notice_def notifyRealtime_def)
  have stored: "tested_row t row \<in> set (db_accounts d')" using row by (auto simp: d'(2) set_update_where)
  have ok: "channels_ok d'" using action_ok [OF calm_races [OF assms(4)] assms(3), of a "[]" "TestChannel i"] d'(1) by simp
  have same: "pa_id (tested_row t row) = i \<and> pa_workspaceId (tested_row t row) = ac_workspaceId a \<and> pa_deletedAt (tested_row t row) = None"
    using row by (simp add: tested_row_def)
  then show ?thesis using findRow_member [OF ok stored] d'(1) by auto
qed


definition demo_revoked :: channel_env where
  "demo_revoked = demo_setup_env\<lparr>ch_ops := provider_ops (demo_setup
     \<lparr>su_send := (demo_wire demo_bot)\<lparr>sn_wire := (\<lambda>q. Answered 401 NoRetryAfter [] [])\<rparr>\<rparr>)\<rparr>"


end
