(* ===== verification/Calendar.thy ===== *)
theory Calendar
  imports Prelude
begin

text \<open>
  The UTC calendar of JavaScript dates, as the language defines it: day numbers of years and months,
  \<open>getUTCFullYear\<close>, \<open>getUTCMonth\<close> and \<open>getUTCDate\<close> of a time in milliseconds, \<open>Date.UTC\<close> with its overflow of
  months and days and its reading of the years 0 to 99, and the conversions between the two.
\<close>

section \<open>Years\<close>

definition ms_per_day :: int where
  "ms_per_day = 86400000"

definition day_from_year :: "int \<Rightarrow> int" where
  "day_from_year y = 365 * (y - 1970) + (y - 1969) div 4 - (y - 1901) div 100 + (y - 1601) div 400"

definition leap_year :: "int \<Rightarrow> bool" where
  "leap_year y = (4 dvd y \<and> (\<not> 100 dvd y \<or> 400 dvd y))"

text \<open>The year of a day, from an estimate that is at most one off.\<close>

definition year_from_day :: "int \<Rightarrow> int" where
  "year_from_day d = (let y = 1970 + (400 * d) div 146097 in
     if day_from_year (y + 1) \<le> d then y + 1 else if d < day_from_year y then y - 1 else y)"

lemma floor_bounds: "0 < n \<Longrightarrow> n * (x div n) \<le> x \<and> x < n * (x div n) + (n :: int)"
  using pos_mod_bound [of n x] pos_mod_sign [of n x] mult_div_mod_eq [of n x] by linarith

lemma estimate_bounds:
  assumes "4 * a \<le> y - 1969" "y - 1969 < 4 * a + 4" "100 * b \<le> y - 1901" "y - 1901 < 100 * b + 100"
    "400 * c \<le> y - 1601" "y - 1601 < 400 * c + (400 :: int)"
  shows "146097 * (y - 1970) - 506 \<le> 400 * (365 * (y - 1970) + a - b + c)" "400 * (365 * (y - 1970) + a - b + c) \<le> 146097 * (y - 1970) + 589"
  using assms by (simp_all add: algebra_simps)

lemma year_estimate: "146097 * (y - 1970) - 506 \<le> 400 * day_from_year y" "400 * day_from_year y \<le> 146097 * (y - 1970) + 589"
  unfolding day_from_year_def by (rule estimate_bounds; simp add: floor_bounds)+

lemma div_step: "0 < n \<Longrightarrow> x div n = (x - 1) div n + (if n dvd x then 1 else (0 :: int))"
proof -
  assume n: "0 < n"
  show ?thesis
  proof (cases "n dvd x")
    case True
    then obtain k where k: "x = n * k" by (auto elim: dvdE)
    have "(n * k - 1) div n = k - 1" using n by (intro int_div_pos_eq [of _ _ _ "n - 1"]) (auto simp: algebra_simps)
    then show ?thesis using k n by simp
  next
    case False
    have m: "0 < x mod n" using False n pos_mod_sign [of n x] by (metis dvd_eq_mod_eq_0 order_le_less)
    have "(x - 1) div n = x div n"
    proof (intro int_div_pos_eq [of _ _ _ "x mod n - 1"])
      show "x mod n - 1 < n" using pos_mod_bound [OF n, of x] by linarith
    qed (use m mult_div_mod_eq [of n x] in linarith)+
    then show ?thesis using False by simp
  qed
qed

lemma leap_step: "0 < n \<Longrightarrow> n dvd c \<Longrightarrow> e = c + 1 \<Longrightarrow> (y - e + 1) div n = (y - e) div n + (if n dvd y then 1 else (0 :: int))"
  using div_step [of n "y - c"] dvd_add_left_iff [of n "- c" y] by (simp add: diff_diff_eq)

lemma leap_days:
  assumes "p' = p + (if a then 1 else 0)" "q' = q + (if b then 1 else 0)" "r' = r + (if c then 1 else (0 :: int))" "b \<Longrightarrow> a" "c \<Longrightarrow> b"
  shows "z + 365 + p' - q' + r' = z + p - q + r + (if a \<and> (\<not> b \<or> c) then 366 else 365)"
  using assms by (cases a; cases b; cases c) auto

lemma year_length: "day_from_year (y + 1) = day_from_year y + (if leap_year y then 366 else 365)"
proof -
  have step: "(y - 1969 + 1) div 4 = (y - 1969) div 4 + (if 4 dvd y then 1 else 0)" "(y - 1901 + 1) div 100 = (y - 1901) div 100 + (if 100 dvd y then 1 else 0)"
    "(y - 1601 + 1) div 400 = (y - 1601) div 400 + (if 400 dvd y then 1 else 0)"
    using leap_step [of 4 1968 1969 y] leap_step [of 100 1900 1901 y] leap_step [of 400 1600 1601 y] by simp_all
  have dvd: "100 dvd y \<Longrightarrow> 4 dvd y" "400 dvd y \<Longrightarrow> 100 dvd y"
    using dvd_trans [of 4 100 y] dvd_trans [of 100 400 y] by simp_all
  have shift: "y + 1 - 1969 = y - 1969 + 1" "y + 1 - 1901 = y - 1901 + 1" "y + 1 - 1601 = y - 1601 + 1" "365 * (y + 1 - 1970) = 365 * (y - 1970) + 365" by simp_all
  show ?thesis unfolding day_from_year_def leap_year_def shift by (rule leap_days [OF step dvd])
qed

lemma year_grows: "day_from_year y < day_from_year (y + 1)"
  by (simp add: year_length)

lemma years_grow: "x < y \<Longrightarrow> day_from_year x < day_from_year y"
proof (induction "nat (y - x)" arbitrary: y)
  case (Suc n)
  show ?case
  proof (cases "x = y - 1")
    case True
    then show ?thesis using year_grows [of x] by simp
  next
    case False
    then have "day_from_year x < day_from_year (y - 1)" using Suc by simp
    then show ?thesis using year_grows [of "y - 1"] by simp
  qed
qed simp

lemma years_ordered: "day_from_year x \<le> day_from_year y \<longleftrightarrow> x \<le> y"
  using years_grow [of x y] years_grow [of y x] by (cases x y rule: linorder_cases) auto

lemma year_of_day: "day_from_year (year_from_day d) \<le> d \<and> d < day_from_year (year_from_day d + 1)"
proof -
  define k where "k = (400 * d) div 146097"
  have k: "146097 * k \<le> 400 * d" "400 * d < 146097 * k + 146097" using floor_bounds [of 146097 "400 * d"] by (simp_all add: k_def)
  have "400 * day_from_year (1970 + k - 1) \<le> 400 * d" using k(1) year_estimate(2) [of "1970 + k - 1"] by (simp add: algebra_simps)
  moreover have "400 * d < 400 * day_from_year (1970 + k + 1 + 1)" using k(2) year_estimate(1) [of "1970 + k + 1 + 1"] by (simp add: algebra_simps)
  ultimately have "day_from_year (1970 + k - 1) \<le> d" "d < day_from_year (1970 + k + 1 + 1)" by auto
  then show ?thesis by (auto simp: year_from_day_def k_def Let_def)
qed

lemma year_from_day_eq: "day_from_year y \<le> d \<Longrightarrow> d < day_from_year (y + 1) \<Longrightarrow> year_from_day d = y"
  using year_of_day [of d] years_ordered [of "y + 1" "year_from_day d"] years_ordered [of "year_from_day d + 1" y] by linarith

section \<open>Months\<close>

definition month_lengths :: "bool \<Rightarrow> int list" where
  "month_lengths l = [31, if l then 29 else 28, 31, 30, 31, 30, 31, 31, 30, 31, 30, 31]"

definition month_start :: "bool \<Rightarrow> nat \<Rightarrow> int" where
  "month_start l m = sum_list (take m (month_lengths l))"

text \<open>Months count from 0.\<close>

definition month_from_day :: "bool \<Rightarrow> int \<Rightarrow> nat" where
  "month_from_day l r = length (filter (\<lambda>m. month_start l m \<le> r) [1..<12])"

lemma month_cases:
  assumes "m < 12"
  obtains "m = 0" | "m = 1" | "m = 2" | "m = 3" | "m = 4" | "m = 5" | "m = 6" | "m = 7" | "m = 8" | "m = 9" | "m = 10" | "m = (11 :: nat)"
  using assms by (auto simp: less_Suc_eq numeral_eq_Suc)

lemma starts [simp]: "month_start l 0 = 0" "month_start l 1 = 31" "month_start l 2 = (if l then 60 else 59)" "month_start l 3 = (if l then 91 else 90)"
  "month_start l 4 = (if l then 121 else 120)" "month_start l 5 = (if l then 152 else 151)" "month_start l 6 = (if l then 182 else 181)"
  "month_start l 7 = (if l then 213 else 212)" "month_start l 8 = (if l then 244 else 243)" "month_start l 9 = (if l then 274 else 273)"
  "month_start l 10 = (if l then 305 else 304)" "month_start l 11 = (if l then 335 else 334)" "month_start l 12 = (if l then 366 else 365)"
  "month_start l (Suc 0) = 31" "month_start l (Suc (Suc 0)) = (if l then 60 else 59)"
  by (cases l; simp add: month_start_def month_lengths_def)+

lemma lengths_max: "m < 12 \<Longrightarrow> month_lengths l ! m \<le> 31"
  by (erule month_cases; cases l; simp add: month_lengths_def)

lemma lengths_pos: "m < 12 \<Longrightarrow> 0 < month_lengths l ! m"
  by (erule month_cases; cases l; simp add: month_lengths_def)

lemma next_start: "m < 12 \<Longrightarrow> month_start l (Suc m) = month_start l m + month_lengths l ! m"
  by (erule month_cases; cases l; simp add: month_lengths_def)

lemma start_bounds: "m < 12 \<Longrightarrow> 0 \<le> month_start l m \<and> month_start l (Suc m) \<le> (if l then 366 else 365)"
  by (erule month_cases; cases l; simp)

lemma starts_grow: "m \<le> k \<Longrightarrow> k \<le> 12 \<Longrightarrow> month_start l m \<le> month_start l k"
proof (induction rule: dec_induct)
  case (step k)
  then show ?case using next_start [of k l] lengths_pos [of k l] by simp
qed simp

lemma month_found:
  assumes "m < 12" "month_start l m \<le> r" "r < month_start l (Suc m)"
  shows "month_from_day l r = m"
proof -
  have "filter (\<lambda>k. month_start l k \<le> r) [1..<12] = filter (\<lambda>k. k \<le> m) [1..<12]"
  proof (intro filter_cong refl)
    fix k :: nat assume "k \<in> set [1..<12]"
    then have k: "k \<le> 12" by simp
    show "month_start l k \<le> r \<longleftrightarrow> k \<le> m"
      using starts_grow [of k m l] starts_grow [of "Suc m" k l] assms k by (cases "k \<le> m") auto
  qed
  also have "\<dots> = [1..<Suc m]"
  proof -
    have "[1..<12] = [1..<Suc m] @ [Suc m..<12]" using assms(1) upt_add_eq_append [of 1 "Suc m" "12 - Suc m"] by (simp del: upt_Suc)
    moreover have "filter (\<lambda>k. k \<le> m) [1..<Suc m] = [1..<Suc m]" "filter (\<lambda>k. k \<le> m) [Suc m..<12] = []"
      by (auto intro: filter_True simp del: upt_Suc)
    ultimately show ?thesis by simp
  qed
  finally show ?thesis by (simp add: month_from_day_def)
qed

lemma month_exists: "0 \<le> r \<Longrightarrow> r < (if l then 366 else 365) \<Longrightarrow> \<exists>m<12. month_start l m \<le> r \<and> r < month_start l (Suc m)"
proof -
  assume r: "0 \<le> r" "r < (if l then 366 else 365)"
  have "r < month_start l n \<longrightarrow> (\<exists>m<n. month_start l m \<le> r \<and> r < month_start l (Suc m))" for n
  proof (induction n)
    case 0
    then show ?case using r(1) by simp
  next
    case (Suc n)
    then show ?case by (metis less_Suc_eq not_less)
  qed
  moreover have "r < month_start l 12" using r(2) by simp
  ultimately show ?thesis by blast
qed

section \<open>Dates\<close>

definition utc_year :: "int \<Rightarrow> int" where
  "utc_year t = year_from_day (t div ms_per_day)"

definition day_within_year :: "int \<Rightarrow> int" where
  "day_within_year d = d - day_from_year (year_from_day d)"

text \<open>The month counts from 1 here.\<close>

definition utc_month :: "int \<Rightarrow> int" where
  "utc_month t = (let d = t div ms_per_day in 1 + int (month_from_day (leap_year (year_from_day d)) (day_within_year d)))"

definition utc_day :: "int \<Rightarrow> int" where
  "utc_day t = (let d = t div ms_per_day; l = leap_year (year_from_day d) in
     1 + day_within_year d - month_start l (month_from_day l (day_within_year d)))"

text \<open>\<open>Date.UTC\<close> with a month counted from 0.\<close>

definition make_day :: "int \<Rightarrow> int \<Rightarrow> int \<Rightarrow> int" where
  "make_day y m d = (let ym = y + m div 12 in day_from_year ym + month_start (leap_year ym) (nat (m mod 12)) + d - 1)"

definition Date_UTC :: "int \<Rightarrow> int \<Rightarrow> int \<Rightarrow> int" where
  "Date_UTC y m d = ms_per_day * make_day (if 0 \<le> y \<and> y \<le> 99 then 1900 + y else y) m d"

definition month_length :: "int \<Rightarrow> int \<Rightarrow> int" where
  "month_length y m = month_lengths (leap_year y) ! nat (m - 1)"

definition calendar_date :: "int \<Rightarrow> int \<Rightarrow> int \<Rightarrow> bool" where
  "calendar_date y m d = (1 \<le> m \<and> m \<le> 12 \<and> 1 \<le> d \<and> d \<le> month_length y m)"

text \<open>The fields of a valid date are its own, and every time has the fields of a valid date.\<close>

lemma fields_of_date:
  assumes "calendar_date y m d" "t div ms_per_day = make_day y (m - 1) d"
  shows "utc_year t = y \<and> utc_month t = m \<and> utc_day t = d"
proof -
  let ?l = "leap_year y" and ?n = "nat (m - 1)"
  have m: "(m - 1) div 12 = 0" "(m - 1) mod 12 = m - 1" "?n < 12" "int ?n = m - 1"
    using assms(1) by (auto simp: calendar_date_def)
  let ?r = "month_start ?l ?n + d - 1"
  have day: "t div ms_per_day = day_from_year y + ?r" using assms(2) m by (simp add: make_day_def)
  have r: "month_start ?l ?n \<le> ?r" "?r < month_start ?l (Suc ?n)"
    using assms(1) m(3) next_start [OF m(3)] by (auto simp: calendar_date_def month_length_def)
  then have "0 \<le> ?r" "?r < (if ?l then 366 else 365)" using start_bounds [OF m(3), of ?l] by linarith+
  then have "day_from_year y \<le> t div ms_per_day" "t div ms_per_day < day_from_year (y + 1)" using day by (simp_all add: year_length)
  then have y: "year_from_day (t div ms_per_day) = y" by (rule year_from_day_eq)
  have within: "day_within_year (t div ms_per_day) = ?r" unfolding day_within_year_def y using day by simp
  have "month_from_day ?l ?r = ?n" by (rule month_found [OF m(3) r])
  then show ?thesis using m(4) by (simp add: utc_year_def utc_month_def utc_day_def y within Let_def)
qed

lemma date_of_time: "calendar_date (utc_year t) (utc_month t) (utc_day t) \<and>
    make_day (utc_year t) (utc_month t - 1) (utc_day t) = t div ms_per_day"
proof -
  let ?d = "t div ms_per_day"
  let ?y = "year_from_day ?d"
  let ?l = "leap_year ?y"
  have "0 \<le> day_within_year ?d" "day_within_year ?d < (if ?l then 366 else 365)"
    using year_of_day [of ?d] by (auto simp: day_within_year_def year_length)
  then obtain m where m: "m < 12" "month_start ?l m \<le> day_within_year ?d" "day_within_year ?d < month_start ?l (Suc m)"
    using month_exists by blast
  have month: "month_from_day ?l (day_within_year ?d) = m" by (rule month_found [OF m])
  have "calendar_date ?y (1 + int m) (1 + day_within_year ?d - month_start ?l m)"
    using m next_start [OF m(1)] by (auto simp: calendar_date_def month_length_def)
  moreover have "make_day ?y (int m) (1 + day_within_year ?d - month_start ?l m) = ?d"
    using m(1) by (simp add: make_day_def day_within_year_def)
  ultimately show ?thesis by (simp add: utc_year_def utc_month_def utc_day_def month Let_def)
qed

lemma Date_UTC_day: "100 \<le> y \<Longrightarrow> Date_UTC y m d div ms_per_day = make_day y m d"
  by (simp add: Date_UTC_def ms_per_day_def)

lemma fields_unique: "utc_year s = utc_year t \<Longrightarrow> utc_month s = utc_month t \<Longrightarrow> utc_day s = utc_day t \<Longrightarrow> s div ms_per_day = t div ms_per_day"
  using date_of_time [of s] date_of_time [of t] by simp

lemma year_at_least: "day_from_year y \<le> d \<Longrightarrow> y \<le> year_from_day d"
  using year_of_day [of d] years_ordered [of "year_from_day d + 1" y] by linarith

section \<open>Texts\<close>

definition padStart :: "nat \<Rightarrow> string \<Rightarrow> string" where
  "padStart n s = replicate (n - length s) (CHR ''0'') @ s"

text \<open>\<open>toISOString\<close>: years beyond four digits are written with a sign and six digits.\<close>

definition iso_year :: "int \<Rightarrow> string" where
  "iso_year y = (if 0 \<le> y \<and> y \<le> 9999 then padStart 4 (show_int y)
     else (if y < 0 then CHR ''-'' else CHR ''+'') # padStart 6 (show_int \<bar>y\<bar>))"

definition toISOString :: "int \<Rightarrow> string" where
  "toISOString t = (let r = t mod ms_per_day; two = (\<lambda>n. padStart 2 (show_int n)) in
     iso_year (utc_year t) @ ''-'' @ two (utc_month t) @ ''-'' @ two (utc_day t) @ ''T'' @
     two (r div 3600000) @ '':'' @ two (r div 60000 mod 60) @ '':'' @ two (r div 1000 mod 60) @ ''.'' @ padStart 3 (show_int (r mod 1000)) @ ''Z'')"

end
