(* ===== verification/ObjectKeys.thy ===== *)
theory ObjectKeys
  imports Calendar Media
begin

text \<open>
  Object keys of stored attachments, \<open>packages/storage/src/object-key.ts\<close>: keys name the workspace, the
  purpose, the UTC day and an opaque id, never a file name. The exact relation of \<open>buildObjectKey\<close> and
  \<open>parseObjectKey\<close> is proved.
\<close>

section \<open>Segments\<close>

datatype attachment_purpose = MESSAGE_INBOUND | MESSAGE_OUTBOUND | KNOWLEDGE_SOURCE | BULK_IMPORT | REPORT_EXPORT | AVATAR | AUTOMATION_ARTIFACT

fun ATTACHMENT_PURPOSE_SEGMENTS :: "attachment_purpose \<Rightarrow> string" where
  "ATTACHMENT_PURPOSE_SEGMENTS MESSAGE_INBOUND = ''message-inbound''"
| "ATTACHMENT_PURPOSE_SEGMENTS MESSAGE_OUTBOUND = ''message-outbound''"
| "ATTACHMENT_PURPOSE_SEGMENTS KNOWLEDGE_SOURCE = ''knowledge-source''"
| "ATTACHMENT_PURPOSE_SEGMENTS BULK_IMPORT = ''bulk-import''"
| "ATTACHMENT_PURPOSE_SEGMENTS REPORT_EXPORT = ''report-export''"
| "ATTACHMENT_PURPOSE_SEGMENTS AVATAR = ''avatar''"
| "ATTACHMENT_PURPOSE_SEGMENTS AUTOMATION_ARTIFACT = ''automation-artifact''"

definition attachment_purposes :: "attachment_purpose list" where
  "attachment_purposes = [MESSAGE_INBOUND, MESSAGE_OUTBOUND, KNOWLEDGE_SOURCE, BULK_IMPORT, REPORT_EXPORT, AVATAR, AUTOMATION_ARTIFACT]"

definition PURPOSE_BY_SEGMENT :: "string \<Rightarrow> attachment_purpose option" where
  "PURPOSE_BY_SEGMENT = map_of (map (\<lambda>p. (ATTACHMENT_PURPOSE_SEGMENTS p, p)) attachment_purposes)"

definition KEY_SEGMENT_PATTERN :: "string \<Rightarrow> bool" where
  "KEY_SEGMENT_PATTERN s = (s \<noteq> [] \<and> list_all (\<lambda>c. word_char c \<or> c = CHR ''-'') s)"

definition assertOpaqueSegment :: "string \<Rightarrow> string \<Rightarrow> string + unit" where
  "assertOpaqueSegment name value = (if KEY_SEGMENT_PATTERN value then Inr ()
     else Inl (name @ '' must be opaque and contain only letters, numbers, underscores, or hyphens''))"

section \<open>Building\<close>

text \<open>An invalid date has no time.\<close>

record build_key_input =
  bk_workspaceId :: string
  bk_purpose :: attachment_purpose
  bk_createdAt :: "int option"
  bk_opaqueObjectId :: string

record parsed_key =
  pk_workspaceId :: string
  pk_purpose :: attachment_purpose
  pk_year :: int
  pk_month :: int
  pk_day :: int
  pk_opaqueObjectId :: string

definition buildObjectKey :: "build_key_input \<Rightarrow> string + string" where
  "buildObjectKey i = bindR (assertOpaqueSegment ''workspaceId'' (bk_workspaceId i)) (\<lambda>_.
     bindR (assertOpaqueSegment ''opaqueObjectId'' (bk_opaqueObjectId i)) (\<lambda>_.
     case bk_createdAt i of None \<Rightarrow> Inl ''createdAt must be a valid date''
     | Some t \<Rightarrow> Inr (''workspaces/'' @ bk_workspaceId i @ ''/'' @ ATTACHMENT_PURPOSE_SEGMENTS (bk_purpose i) @ ''/'' @
         padStart 4 (show_int (utc_year t)) @ ''/'' @ padStart 2 (show_int (utc_month t)) @ ''/'' @
         padStart 2 (show_int (utc_day t)) @ ''/'' @ bk_opaqueObjectId i)))"

section \<open>Parsing\<close>

definition digits :: "nat \<Rightarrow> string \<Rightarrow> bool" where
  "digits n s = (length s = n \<and> list_all is_digit s)"

text \<open>The numbers are read first, but a segment of other than digits is refused whatever number it makes.\<close>

definition valid_partition :: "string \<Rightarrow> string \<Rightarrow> string \<Rightarrow> bool" where
  "valid_partition y m d = (digits 4 y \<and> digits 2 m \<and> digits 2 d \<and>
     (let year = int (read_nat y); month = int (read_nat m); day = int (read_nat d); date = Date_UTC year (month - 1) day in
       utc_year date = year \<and> utc_month date = month \<and> utc_day date = day))"

definition parseObjectKey :: "string \<Rightarrow> string + parsed_key" where
  "parseObjectKey key = (case split_on (CHR ''/'') key of
       [w, workspaceId, p, y, m, d, opaqueObjectId] \<Rightarrow>
         if w \<noteq> ''workspaces'' then Inl ''Object key does not match the VYNOR storage convention''
         else bindR (assertOpaqueSegment ''workspaceId'' workspaceId) (\<lambda>_.
           bindR (assertOpaqueSegment ''opaqueObjectId'' opaqueObjectId) (\<lambda>_.
           case PURPOSE_BY_SEGMENT p of None \<Rightarrow> Inl ''Object key contains an unsupported purpose''
           | Some purpose \<Rightarrow>
               if \<not> valid_partition y m d then Inl ''Object key contains an invalid UTC date partition''
               else Inr \<lparr>pk_workspaceId = workspaceId, pk_purpose = purpose, pk_year = int (read_nat y), pk_month = int (read_nat m),
                   pk_day = int (read_nat d), pk_opaqueObjectId = opaqueObjectId\<rparr>))
     | _ \<Rightarrow> Inl ''Object key does not match the VYNOR storage convention'')"

section \<open>Padded numerals\<close>

lemma foldl_zeros: "foldl (\<lambda>n c. 10 * n + digit_val c) 0 (replicate k (CHR ''0'')) = 0"
  by (induction k) (simp_all add: digit_val_def)

lemma read_padded [simp]: "read_nat (padStart k s) = read_nat s"
  by (simp add: padStart_def read_nat_def foldl_zeros)

lemma show_nat_length: "n < 10 ^ Suc k \<Longrightarrow> length (show_nat n) \<le> Suc k"
proof (induction k arbitrary: n)
  case 0
  then show ?case by (subst show_nat.simps) simp
next
  case (Suc k)
  then have "n div 10 < 10 ^ Suc k" by simp
  then show ?case using Suc.IH by (subst show_nat.simps) simp
qed

lemma padded_digits: "n < 10 ^ Suc k \<Longrightarrow> digits (Suc k) (padStart (Suc k) (show_nat n))"
  using show_nat_length [of n k] show_nat_digits by (auto simp: digits_def padStart_def list_all_iff is_digit_def)

lemma read_bound: "list_all is_digit s \<Longrightarrow> read_nat s < 10 ^ length s"
proof (induction s rule: rev_induct)
  case (snoc c s)
  then have "digit_val c \<le> 9" "read_nat s < 10 ^ length s" by (auto simp: is_digit_def digit_val_def)
  then show ?case by (simp add: read_nat_append)
qed (simp add: read_nat_def)

lemma digits_inject: "list_all is_digit s \<Longrightarrow> list_all is_digit t \<Longrightarrow> length s = length t \<Longrightarrow> read_nat s = read_nat t \<Longrightarrow> s = t"
proof (induction s arbitrary: t rule: rev_induct)
  case (snoc c s)
  then obtain d u where t: "t = u @ [d]" by (cases t rule: rev_cases) auto
  have small: "digit_val c < 10" "digit_val d < 10" using snoc.prems t by (auto simp: is_digit_def digit_val_def)
  have eq: "10 * read_nat s + digit_val c = 10 * read_nat u + digit_val d" using snoc.prems(4) t by (simp add: read_nat_append)
  then have "read_nat s = read_nat u" "digit_val c = digit_val d" using small by presburger+
  moreover have "c = d" using calculation(2) snoc.prems t by (auto simp: digit_val_def is_digit_def) (metis char_of_of_char le_add_diff_inverse)
  ultimately show ?case using snoc.IH [of u] snoc.prems t by simp
qed simp

lemma padded_eq: "digits (Suc k) s \<Longrightarrow> padStart (Suc k) (show_nat (read_nat s)) = s"
  using padded_digits [of "read_nat s" k] read_bound [of s] by (intro digits_inject) (auto simp: digits_def)

section \<open>Keys and their parts\<close>

lemma join_split [simp]: "join [c] (split_on c s) = s"
proof (induction s)
  case (Cons x s)
  obtain y ys where "split_on c s = y # ys" by (cases "split_on c s") auto
  then show ?case using Cons by (cases ys) auto
qed simp

lemma purpose_found [simp]: "PURPOSE_BY_SEGMENT (ATTACHMENT_PURPOSE_SEGMENTS p) = Some p"
  by (cases p) (simp_all add: PURPOSE_BY_SEGMENT_def attachment_purposes_def)

lemma purpose_of_segment: "PURPOSE_BY_SEGMENT s = Some p \<Longrightarrow> s = ATTACHMENT_PURPOSE_SEGMENTS p"
  by (auto simp: PURPOSE_BY_SEGMENT_def attachment_purposes_def split: if_splits)

lemma no_slash: "KEY_SEGMENT_PATTERN s \<Longrightarrow> CHR ''/'' \<notin> set s" "digits n s \<Longrightarrow> CHR ''/'' \<notin> set s" "CHR ''/'' \<notin> set (ATTACHMENT_PURPOSE_SEGMENTS p)"
  by (auto simp: KEY_SEGMENT_PATTERN_def list_all_iff word_char_def alphanumeric_def digits_def is_digit_def) (cases p; simp)

lemma opaque_Inr [simp]: "bindR (assertOpaqueSegment n s) f = Inr x \<longleftrightarrow> KEY_SEGMENT_PATTERN s \<and> f () = Inr x"
  by (simp add: assertOpaqueSegment_def)

lemma show_int_pos: "0 \<le> n \<Longrightarrow> show_int n = show_nat (nat n)"
  by (simp add: show_int_def)

text \<open>A date segment is made of the number it reads as.\<close>

lemma segment_of_number:
  assumes "0 \<le> n" "n < 10 ^ Suc k"
  shows "digits (Suc k) (padStart (Suc k) (show_int n)) \<and> int (read_nat (padStart (Suc k) (show_int n))) = n"
proof -
  have "nat n < 10 ^ Suc k" using assms by (metis nat_less_iff of_nat_numeral of_nat_power)
  then show ?thesis using assms padded_digits [of "nat n" k] by (simp add: show_int_pos)
qed

lemma number_of_segment: "digits (Suc k) s \<Longrightarrow> padStart (Suc k) (show_int (int (read_nat s))) = s"
  by (simp add: show_int_pos padded_eq)

text \<open>The fields of a date in a year of at least 100 make a valid partition, and a valid partition has
  such a year: years below 100 are taken for years of the twentieth century.\<close>

lemma month_length_max: "1 \<le> m \<Longrightarrow> m \<le> 12 \<Longrightarrow> month_length y m \<le> 31"
proof -
  assume "1 \<le> m" "m \<le> 12"
  then show ?thesis using lengths_max [of "nat (m - 1)" "leap_year y"] by (simp add: month_length_def)
qed

lemma fields_roundtrip:
  assumes "100 \<le> utc_year t"
  shows "utc_year (Date_UTC (utc_year t) (utc_month t - 1) (utc_day t)) = utc_year t \<and>
    utc_month (Date_UTC (utc_year t) (utc_month t - 1) (utc_day t)) = utc_month t \<and>
    utc_day (Date_UTC (utc_year t) (utc_month t - 1) (utc_day t)) = utc_day t"
  using fields_of_date [OF conjunct1 [OF date_of_time [of t]] Date_UTC_day [OF assms]] by simp

lemma partition_of_date:
  assumes "100 \<le> utc_year t" "utc_year t \<le> 9999"
  shows "valid_partition (padStart 4 (show_int (utc_year t))) (padStart 2 (show_int (utc_month t))) (padStart 2 (show_int (utc_day t)))"
proof -
  have "calendar_date (utc_year t) (utc_month t) (utc_day t)" using date_of_time by blast
  then have "0 \<le> utc_month t" "utc_month t < 100" "0 \<le> utc_day t" "utc_day t < 100"
    using month_length_max [of "utc_month t" "utc_year t"] by (auto simp: calendar_date_def)
  then show ?thesis
    using assms segment_of_number [of "utc_year t" 3] segment_of_number [of "utc_month t" 1] segment_of_number [of "utc_day t" 1] fields_roundtrip [OF assms(1)]
    by (simp add: valid_partition_def numeral_eq_Suc Let_def)
qed

lemma early_years:
  assumes "0 \<le> y" "y \<le> 99" "0 \<le> m" "0 \<le> d"
  shows "1898 \<le> utc_year (Date_UTC y (m - 1) d)"
proof -
  define ym where "ym = 1900 + y + (m - 1) div 12"
  have "- 1 \<le> (m - 1) div 12" using assms(3) by simp
  then have ym: "1899 \<le> ym" using assms(1) by (simp add: ym_def)
  have "0 \<le> month_start (leap_year ym) (nat ((m - 1) mod 12))" using start_bounds [of "nat ((m - 1) mod 12)"] by simp
  moreover have "day_from_year 1898 + 365 \<le> day_from_year 1899" using year_length [of 1898] by simp
  moreover have "day_from_year 1899 \<le> day_from_year ym" using ym by (simp add: years_ordered)
  ultimately have "day_from_year 1898 \<le> make_day (1900 + y) (m - 1) d" using assms(4) by (simp add: make_day_def Let_def ym_def)
  then have "1898 \<le> year_from_day (make_day (1900 + y) (m - 1) d)" by (rule year_at_least)
  then show ?thesis using assms(1,2) by (simp add: utc_year_def Date_UTC_def ms_per_day_def)
qed

lemma partition_year:
  assumes "valid_partition y m d"
  shows "100 \<le> int (read_nat y)" "int (read_nat y) \<le> 9999"
proof -
  have "read_nat y < 10 ^ 4" using assms read_bound [of y] by (auto simp: valid_partition_def digits_def)
  then show "int (read_nat y) \<le> 9999" by simp
  show "100 \<le> int (read_nat y)"
    using early_years [of "int (read_nat y)" "int (read_nat m)" "int (read_nat d)"] assms
    by (cases "int (read_nat y) \<le> 99") (auto simp: valid_partition_def Let_def)
qed

definition key_input :: "parsed_key \<Rightarrow> int \<Rightarrow> build_key_input" where
  "key_input p t = \<lparr>bk_workspaceId = pk_workspaceId p, bk_purpose = pk_purpose p, bk_createdAt = Some t, bk_opaqueObjectId = pk_opaqueObjectId p\<rparr>"

definition key_segments :: "parsed_key \<Rightarrow> int \<Rightarrow> string list" where
  "key_segments p t = [''workspaces'', pk_workspaceId p, ATTACHMENT_PURPOSE_SEGMENTS (pk_purpose p), padStart 4 (show_int (utc_year t)),
     padStart 2 (show_int (utc_month t)), padStart 2 (show_int (utc_day t)), pk_opaqueObjectId p]"

lemma built_key: "buildObjectKey (key_input p t) = Inr key \<longleftrightarrow>
    KEY_SEGMENT_PATTERN (pk_workspaceId p) \<and> KEY_SEGMENT_PATTERN (pk_opaqueObjectId p) \<and> key = join ''/'' (key_segments p t)"
  by (auto simp: buildObjectKey_def key_input_def key_segments_def)

lemma parsed_key_iff: "parseObjectKey key = Inr p \<longleftrightarrow> (\<exists>y m d. split_on (CHR ''/'') key =
      [''workspaces'', pk_workspaceId p, ATTACHMENT_PURPOSE_SEGMENTS (pk_purpose p), y, m, d, pk_opaqueObjectId p] \<and>
    KEY_SEGMENT_PATTERN (pk_workspaceId p) \<and> KEY_SEGMENT_PATTERN (pk_opaqueObjectId p) \<and> valid_partition y m d \<and>
    pk_year p = int (read_nat y) \<and> pk_month p = int (read_nat m) \<and> pk_day p = int (read_nat d))"
  by (auto simp: parseObjectKey_def dest: purpose_of_segment split: list.splits if_splits option.splits)

text \<open>C39: Object keys and their parts correspond exactly: \<open>parseObjectKey\<close> accepts a key if and only if
  \<open>buildObjectKey\<close> makes it from the parsed workspace, purpose and opaque id and some time of a year from
  100 to 9999, and the year, month and day it answers are the UTC fields of that time. So every key that
  is built for such a time is parsed to what it was made of, and nothing else is accepted.
\<close>

theorem object_keys_exact:
  "parseObjectKey key = Inr p \<longleftrightarrow>
    (\<exists>t. 100 \<le> utc_year t \<and> utc_year t \<le> 9999 \<and> buildObjectKey (key_input p t) = Inr key \<and>
       pk_year p = utc_year t \<and> pk_month p = utc_month t \<and> pk_day p = utc_day t)"
proof
  assume "parseObjectKey key = Inr p"
  then obtain y m d where key: "split_on (CHR ''/'') key =
      [''workspaces'', pk_workspaceId p, ATTACHMENT_PURPOSE_SEGMENTS (pk_purpose p), y, m, d, pk_opaqueObjectId p]"
    and ids: "KEY_SEGMENT_PATTERN (pk_workspaceId p)" "KEY_SEGMENT_PATTERN (pk_opaqueObjectId p)" and valid: "valid_partition y m d"
    and fields: "pk_year p = int (read_nat y)" "pk_month p = int (read_nat m)" "pk_day p = int (read_nat d)"
    unfolding parsed_key_iff by blast
  define t where "t = Date_UTC (pk_year p) (pk_month p - 1) (pk_day p)"
  have t: "utc_year t = pk_year p" "utc_month t = pk_month p" "utc_day t = pk_day p" and "digits 4 y" "digits 2 m" "digits 2 d"
    using valid fields by (auto simp: valid_partition_def t_def Let_def)
  then have "padStart 4 (show_int (utc_year t)) = y" "padStart 2 (show_int (utc_month t)) = m" "padStart 2 (show_int (utc_day t)) = d"
    using fields number_of_segment [of 3 y] number_of_segment [of 1 m] number_of_segment [of 1 d] by (simp_all add: numeral_eq_Suc)
  then have "key = join ''/'' (key_segments p t)" using join_split [of "CHR ''/''" key] key by (simp add: key_segments_def)
  then have "buildObjectKey (key_input p t) = Inr key" using ids by (simp add: built_key)
  then show "\<exists>t. 100 \<le> utc_year t \<and> utc_year t \<le> 9999 \<and> buildObjectKey (key_input p t) = Inr key \<and>
      pk_year p = utc_year t \<and> pk_month p = utc_month t \<and> pk_day p = utc_day t"
    using t partition_year [OF valid] fields by (intro exI [of _ t]) simp
next
  assume "\<exists>t. 100 \<le> utc_year t \<and> utc_year t \<le> 9999 \<and> buildObjectKey (key_input p t) = Inr key \<and>
      pk_year p = utc_year t \<and> pk_month p = utc_month t \<and> pk_day p = utc_day t"
  then obtain t where year: "100 \<le> utc_year t" "utc_year t \<le> 9999" and built: "buildObjectKey (key_input p t) = Inr key"
    and fields: "pk_year p = utc_year t" "pk_month p = utc_month t" "pk_day p = utc_day t" by blast
  note valid = partition_of_date [OF year]
  note ids = built [unfolded built_key]
  have "\<And>s. s \<in> set (key_segments p t) \<Longrightarrow> CHR ''/'' \<notin> set s"
    using ids valid by (auto simp: key_segments_def valid_partition_def no_slash(3) dest: no_slash(1,2))
  then have "split_on (CHR ''/'') key = key_segments p t" using ids split_on_join [of "key_segments p t"] by (simp add: key_segments_def del: join.simps)
  moreover have "int (read_nat (show_int (utc_year t))) = utc_year t" "int (read_nat (show_int (utc_month t))) = utc_month t"
      "int (read_nat (show_int (utc_day t))) = utc_day t"
    using year date_of_time [of t] by (auto simp: show_int_pos calendar_date_def)
  ultimately show "parseObjectKey key = Inr p" using ids valid fields by (auto simp: parsed_key_iff key_segments_def)
qed

end
