(* ===== verification/StoragePolicy.thy ===== *)
theory StoragePolicy
  imports ObjectKeys Conversations
begin

text \<open>
  What may be stored and downloaded: \<open>packages/storage/src/upload-policy.ts\<close> (admission of an upload and
  the malware scan states) and \<open>packages/storage/src/signed-download-policy.ts\<close> (who may be given a
  signed link, and for how long). Sizes and durations are rationals; other doubles are a constructor of
  their own where the code handles them.
\<close>

section \<open>Upload policy\<close>

definition MEBIBYTE :: rat where
  "MEBIBYTE = 1024 * 1024"

definition DEFAULT_MAX_ATTACHMENT_SIZE_BYTES :: rat where
  "DEFAULT_MAX_ATTACHMENT_SIZE_BYTES = 25 * MEBIBYTE"

definition DEFAULT_ALLOWED_ATTACHMENT_MEDIA_TYPES :: "string list" where
  "DEFAULT_ALLOWED_ATTACHMENT_MEDIA_TYPES = [''application/pdf'', ''application/vnd.openxmlformats-officedocument.spreadsheetml.sheet'',
     ''application/vnd.openxmlformats-officedocument.wordprocessingml.document'', ''audio/mpeg'', ''audio/mp4'', ''audio/ogg'', ''image/gif'',
     ''image/jpeg'', ''image/png'', ''image/webp'', ''text/csv'', ''text/plain'', ''video/3gpp'', ''video/mp4'']"

definition DEFAULT_ATTACHMENT_MEDIA_TYPE_LIMITS :: "string \<Rightarrow> rat option" where
  "DEFAULT_ATTACHMENT_MEDIA_TYPE_LIMITS = [''image/gif'' \<mapsto> 10 * MEBIBYTE, ''image/jpeg'' \<mapsto> 10 * MEBIBYTE,
     ''image/png'' \<mapsto> 10 * MEBIBYTE, ''image/webp'' \<mapsto> 10 * MEBIBYTE]"

datatype attachment_rejection = EMPTY_OBJECT | OBJECT_TOO_LARGE | MEDIA_TYPE_NOT_ALLOWED | MEDIA_TYPE_MISMATCH

record upload_candidate =
  uc_declaredContentType :: string
  uc_detectedContentType :: "string option"
  uc_sizeBytes :: rat

record upload_policy =
  up_maxSizeBytes :: rat
  up_allowedMediaTypes :: "string list"
  up_mediaTypeSizeLimits :: "string \<Rightarrow> rat option"

record upload_decision =
  ud_accepted :: bool
  ud_quarantineRequired :: bool
  ud_normalizedContentType :: string
  ud_rejectionReasons :: "attachment_rejection list"

definition DEFAULT_ATTACHMENT_UPLOAD_POLICY :: upload_policy where
  "DEFAULT_ATTACHMENT_UPLOAD_POLICY = \<lparr>up_maxSizeBytes = DEFAULT_MAX_ATTACHMENT_SIZE_BYTES,
     up_allowedMediaTypes = DEFAULT_ALLOWED_ATTACHMENT_MEDIA_TYPES, up_mediaTypeSizeLimits = DEFAULT_ATTACHMENT_MEDIA_TYPE_LIMITS\<rparr>"

definition normalizeContentType :: "string \<Rightarrow> string" where
  "normalizeContentType contentType = to_lower (trim (hd (split_on (CHR '';'') contentType)))"

definition safe_integer :: "rat \<Rightarrow> bool" where
  "safe_integer r = (r = of_int \<lfloor>r\<rfloor> \<and> \<bar>r\<bar> \<le> 9007199254740991)"

text \<open>A content type named like a member every object inherits finds that member instead of a limit, and
  no size is larger than what is not a number.\<close>

definition too_large :: "upload_policy \<Rightarrow> string \<Rightarrow> rat \<Rightarrow> bool" where
  "too_large p ct n = (case up_mediaTypeSizeLimits p ct of Some l \<Rightarrow> min (up_maxSizeBytes p) l < n
     | None \<Rightarrow> ct \<notin> {''constructor'', ''__proto__''} \<and> up_maxSizeBytes p < n)"

text \<open>An empty detected type counts as none.\<close>

definition evaluateAttachmentUpload :: "upload_candidate \<Rightarrow> upload_policy \<Rightarrow> upload_decision" where
  "evaluateAttachmentUpload c p =
     (let declared = normalizeContentType (uc_declaredContentType c);
          detected = map_option normalizeContentType (present (uc_detectedContentType c));
          effective = (case detected of Some t \<Rightarrow> t | None \<Rightarrow> declared);
          reasons = (if \<not> safe_integer (uc_sizeBytes c) \<or> uc_sizeBytes c \<le> 0 then [EMPTY_OBJECT] else []) @
            (if too_large p effective (uc_sizeBytes c) then [OBJECT_TOO_LARGE] else []) @
            (if effective \<notin> set (up_allowedMediaTypes p) then [MEDIA_TYPE_NOT_ALLOWED] else []) @
            (case detected of Some t \<Rightarrow> if t \<noteq> [] \<and> t \<noteq> declared then [MEDIA_TYPE_MISMATCH] else [] | None \<Rightarrow> [])
      in \<lparr>ud_accepted = (reasons = []), ud_quarantineRequired = True, ud_normalizedContentType = effective, ud_rejectionReasons = reasons\<rparr>)"

section \<open>Scan states\<close>

datatype scan_status = ScanPending | SCANNING | CLEAN | INFECTED | ScanFailed

fun ALLOWED_SCAN_TRANSITIONS :: "scan_status \<Rightarrow> scan_status list" where
  "ALLOWED_SCAN_TRANSITIONS ScanPending = [SCANNING, ScanFailed]"
| "ALLOWED_SCAN_TRANSITIONS SCANNING = [CLEAN, INFECTED, ScanFailed]"
| "ALLOWED_SCAN_TRANSITIONS CLEAN = []"
| "ALLOWED_SCAN_TRANSITIONS INFECTED = []"
| "ALLOWED_SCAN_TRANSITIONS ScanFailed = [SCANNING]"

definition isAttachmentScanTransitionAllowed :: "scan_status \<Rightarrow> scan_status \<Rightarrow> bool" where
  "isAttachmentScanTransitionAllowed current next = (current = next \<or> next \<in> set (ALLOWED_SCAN_TRANSITIONS current))"

text \<open>The statuses an attachment goes through when every change is an allowed one.\<close>

inductive scan_history :: "scan_status \<Rightarrow> scan_status list \<Rightarrow> scan_status \<Rightarrow> bool" where
  start: "scan_history s [] s"
| move: "scan_history s h t \<Longrightarrow> isAttachmentScanTransitionAllowed t u \<Longrightarrow> scan_history s (h @ [t]) u"

inductive_cases scan_historyE: "scan_history s h t"

section \<open>Signed downloads\<close>

definition DEFAULT_SIGNED_DOWNLOAD_TTL_SECONDS :: int where
  "DEFAULT_SIGNED_DOWNLOAD_TTL_SECONDS = 60"

definition MIN_SIGNED_DOWNLOAD_TTL_SECONDS :: int where
  "MIN_SIGNED_DOWNLOAD_TTL_SECONDS = 10"

definition MAX_SIGNED_DOWNLOAD_TTL_SECONDS :: int where
  "MAX_SIGNED_DOWNLOAD_TTL_SECONDS = 300"

datatype download_denial = WORKSPACE_MISMATCH | DownloadPermissionDenied | ATTACHMENT_DELETED | ATTACHMENT_EXPIRED | ATTACHMENT_NOT_PRIVATE | ATTACHMENT_NOT_CLEAN

datatype storage_zone = QUARANTINE | PRIVATE

record attachment =
  at_id :: id
  at_workspaceId :: id
  at_purpose :: attachment_purpose
  at_storageZone :: storage_zone
  at_storageBucket :: string
  at_objectKey :: string
  at_originalFilename :: string
  at_contentType :: string
  at_sizeBytes :: int
  at_checksumSha256 :: string
  at_scanStatus :: scan_status
  at_scanEngine :: "string option"
  at_scanResult :: "json option"
  at_scannedAt :: "int option"
  at_retentionDays :: int
  at_purgeAfter :: "int option"
  at_createdAt :: int
  at_updatedAt :: int
  at_deletedAt :: "int option"

text \<open>A number that is not finite counts as no request.\<close>

datatype ttl_number = Finite rat | NotFinite

record download_request =
  dq_actorWorkspaceId :: id
  dq_actorPermissions :: "string list"
  dq_attachment :: attachment
  dq_requiredPermission :: "string option"
  dq_requestedTtlSeconds :: "ttl_number option"
  dq_now :: int

definition download_ttl :: "ttl_number option \<Rightarrow> int" where
  "download_ttl q = (let r = (case q of Some (Finite x) \<Rightarrow> \<lfloor>x\<rfloor> | _ \<Rightarrow> DEFAULT_SIGNED_DOWNLOAD_TTL_SECONDS) in
     min MAX_SIGNED_DOWNLOAD_TTL_SECONDS (max MIN_SIGNED_DOWNLOAD_TTL_SECONDS r))"

definition authorizeSignedDownload :: "download_request \<Rightarrow> download_denial + int" where
  "authorizeSignedDownload q = (let a = dq_attachment q in
     if dq_actorWorkspaceId q \<noteq> at_workspaceId a then Inl WORKSPACE_MISMATCH
     else if \<not> hasPermission (dq_actorPermissions q) (case dq_requiredPermission q of Some p \<Rightarrow> p | None \<Rightarrow> ''message:read'') then Inl DownloadPermissionDenied
     else if at_deletedAt a \<noteq> None then Inl ATTACHMENT_DELETED
     else if (case at_purgeAfter a of Some t \<Rightarrow> t \<le> dq_now q | None \<Rightarrow> False) then Inl ATTACHMENT_EXPIRED
     else if at_storageZone a \<noteq> PRIVATE then Inl ATTACHMENT_NOT_PRIVATE
     else if at_scanStatus a \<noteq> CLEAN then Inl ATTACHMENT_NOT_CLEAN
     else Inr (download_ttl (dq_requestedTtlSeconds q)))"

text \<open>What an attachment must be for a link to be given to an actor.\<close>

definition downloadable :: "int \<Rightarrow> id \<Rightarrow> string list \<Rightarrow> attachment \<Rightarrow> bool" where
  "downloadable now ws perms a = (at_workspaceId a = ws \<and> hasPermission perms ''message:read'' \<and> at_deletedAt a = None \<and>
     (\<forall>t. at_purgeAfter a = Some t \<longrightarrow> now < t) \<and> at_storageZone a = PRIVATE \<and> at_scanStatus a = CLEAN)"

lemma download_ttl_bounds: "10 \<le> download_ttl q" "download_ttl q \<le> 300"
  by (simp_all add: download_ttl_def MIN_SIGNED_DOWNLOAD_TTL_SECONDS_def MAX_SIGNED_DOWNLOAD_TTL_SECONDS_def Let_def)

lemma authorized_iff: "dq_requiredPermission q = Some ''message:read'' \<Longrightarrow>
    authorizeSignedDownload q = Inr n \<longleftrightarrow> downloadable (dq_now q) (dq_actorWorkspaceId q) (dq_actorPermissions q) (dq_attachment q) \<and>
      n = download_ttl (dq_requestedTtlSeconds q)"
  by (auto simp: authorizeSignedDownload_def downloadable_def Let_def not_le split: option.splits if_splits)

section \<open>Admission and scanning\<close>

lemma terminal_statuses: "scan_history s h t \<Longrightarrow> s \<in> {CLEAN, INFECTED} \<Longrightarrow> t = s"
  by (induction rule: scan_history.induct) (auto simp: isAttachmentScanTransitionAllowed_def)

lemma history_states: "scan_history s h t \<Longrightarrow> h \<noteq> [] \<Longrightarrow> hd h = s"
  by (induction rule: scan_history.induct) (auto simp: hd_append elim: scan_historyE)

lemma clean_after_scan: "scan_history s h t \<Longrightarrow> t \<in> {CLEAN, INFECTED} \<Longrightarrow> s = t \<or> SCANNING \<in> set h"
proof (induction rule: scan_history.induct)
  case (move s h t u)
  then show ?case by (cases t) (auto simp: isAttachmentScanTransitionAllowed_def)
qed simp

lemma infected_stays: "scan_history s h t \<Longrightarrow> INFECTED \<in> set h \<Longrightarrow> t = INFECTED"
proof (induction rule: scan_history.induct)
  case (move s h t u)
  then show ?case by (cases t) (auto simp: isAttachmentScanTransitionAllowed_def)
qed simp

text \<open>An attachment that starts unscanned and changes its scan status only as allowed is never clean
  without having been scanned, and once it was found infected it stays so: no later scan makes it clean,
  and so no link to it is ever given to anyone.
\<close>

theorem no_link_without_scan:
  assumes "scan_history ScanPending h (at_scanStatus a)" "dq_attachment q = a" "authorizeSignedDownload q = Inr n"
  shows "SCANNING \<in> set h \<and> INFECTED \<notin> set h"
proof -
  have clean: "at_scanStatus a = CLEAN"
    using assms(2,3) by (auto simp: authorizeSignedDownload_def Let_def split: if_splits option.splits)
  then show ?thesis using clean_after_scan [OF assms(1)] infected_stays [OF assms(1)] by auto
qed

definition scanned_attachment :: attachment where
  "scanned_attachment = \<lparr>at_id = ''a1'', at_workspaceId = ''w'', at_purpose = MESSAGE_INBOUND, at_storageZone = PRIVATE, at_storageBucket = ''vynor'',
     at_objectKey = ''workspaces/w/message-inbound/2026/01/31/o1'', at_originalFilename = ''plan.pdf'', at_contentType = ''application/pdf'',
     at_sizeBytes = 900, at_checksumSha256 = ''ab12'', at_scanStatus = CLEAN, at_scanEngine = Some ''clamav'', at_scanResult = None, at_scannedAt = Some 500,
     at_retentionDays = 365, at_purgeAfter = Some 5000, at_createdAt = 100, at_updatedAt = 500, at_deletedAt = None\<rparr>"

definition scanned_request :: download_request where
  "scanned_request = \<lparr>dq_actorWorkspaceId = ''w'', dq_actorPermissions = [''message:read''], dq_attachment = scanned_attachment,
     dq_requiredPermission = None, dq_requestedTtlSeconds = Some (Finite 1000), dq_now = 1000\<rparr>"

lemma scanned_history: "scan_history ScanPending [ScanPending, ScanFailed, SCANNING] CLEAN"
  using scan_history.move [OF scan_history.move [OF scan_history.move [OF scan_history.start], of ScanPending ScanFailed SCANNING], of CLEAN]
  by (simp add: isAttachmentScanTransitionAllowed_def)

theorem no_link_without_scan_witness:
  "authorizeSignedDownload scanned_request = Inr 300 \<and> SCANNING \<in> set [ScanPending, ScanFailed, SCANNING] \<and> INFECTED \<notin> set [ScanPending, ScanFailed, SCANNING]"
proof -
  have run: "authorizeSignedDownload scanned_request = Inr 300" by code_simp
  moreover have "at_scanStatus scanned_attachment = CLEAN" "dq_attachment scanned_request = scanned_attachment"
    by (simp_all add: scanned_attachment_def scanned_request_def)
  ultimately show ?thesis using no_link_without_scan [of _ scanned_attachment scanned_request 300] scanned_history by metis
qed

lemma default_too_large: "too_large DEFAULT_ATTACHMENT_UPLOAD_POLICY t n \<longleftrightarrow>
    (if t \<in> {''image/gif'', ''image/jpeg'', ''image/png'', ''image/webp''} then 10 * 1024 * 1024 < n
     else t \<notin> {''constructor'', ''__proto__''} \<and> 25 * 1024 * 1024 < n)"
  by (auto simp: too_large_def DEFAULT_ATTACHMENT_UPLOAD_POLICY_def DEFAULT_ATTACHMENT_MEDIA_TYPE_LIMITS_def DEFAULT_MAX_ATTACHMENT_SIZE_BYTES_def MEBIBYTE_def)

lemma allowed_plain: "t \<in> set DEFAULT_ALLOWED_ATTACHMENT_MEDIA_TYPES \<Longrightarrow> t \<noteq> [] \<and> t \<noteq> ''constructor'' \<and> t \<noteq> ''__proto__''"
  by (auto simp: DEFAULT_ALLOWED_ATTACHMENT_MEDIA_TYPES_def)

lemma whole_size: "m \<le> 9007199254740991 \<Longrightarrow> safe_integer r \<and> 0 < r \<and> r \<le> of_int m \<longleftrightarrow> (\<exists>n. r = of_int n \<and> 1 \<le> n \<and> n \<le> m)"
proof
  assume r: "safe_integer r \<and> 0 < r \<and> r \<le> of_int m"
  then obtain n where "r = of_int n" by (auto simp: safe_integer_def)
  then show "\<exists>n. r = of_int n \<and> 1 \<le> n \<and> n \<le> m" using r by (intro exI [of _ n]) simp
next
  assume "m \<le> 9007199254740991" "\<exists>n. r = of_int n \<and> 1 \<le> n \<and> n \<le> m"
  then obtain n where n: "r = of_int n" "1 \<le> n" "n \<le> m" "n \<le> 9007199254740991" by fastforce
  then have "(of_int n :: rat) \<le> of_int 9007199254740991" by (simp only: of_int_le_iff)
  then show "safe_integer r \<and> 0 < r \<and> r \<le> of_int m" using n by (simp add: safe_integer_def)
qed

definition upload_type :: "upload_candidate \<Rightarrow> string" where
  "upload_type c = normalizeContentType (case present (uc_detectedContentType c) of Some t \<Rightarrow> t | None \<Rightarrow> uc_declaredContentType c)"

lemma upload_accepted: "ud_accepted (evaluateAttachmentUpload c p) \<longleftrightarrow>
    safe_integer (uc_sizeBytes c) \<and> 0 < uc_sizeBytes c \<and> \<not> too_large p (upload_type c) (uc_sizeBytes c) \<and>
    upload_type c \<in> set (up_allowedMediaTypes p) \<and> (upload_type c = [] \<or> upload_type c = normalizeContentType (uc_declaredContentType c))"
  if "[] \<notin> set (up_allowedMediaTypes p)"
  using that by (auto simp: evaluateAttachmentUpload_def upload_type_def Let_def not_le split: option.splits if_splits)

text \<open>An upload is accepted by the default policy exactly when its size is a whole number of at least one
  byte, within 25 MiB and, for the image types, 10 MiB, the type found by inspection - the declared one
  where nothing was found - is of the allowed list, and the declared type names the same one.
\<close>

theorem upload_accepted_iff:
  "ud_accepted (evaluateAttachmentUpload c DEFAULT_ATTACHMENT_UPLOAD_POLICY) \<longleftrightarrow>
    upload_type c \<in> set DEFAULT_ALLOWED_ATTACHMENT_MEDIA_TYPES \<and> upload_type c = normalizeContentType (uc_declaredContentType c) \<and>
    (\<exists>n. uc_sizeBytes c = of_int n \<and> 1 \<le> n \<and>
       n \<le> (if upload_type c \<in> {''image/gif'', ''image/jpeg'', ''image/png'', ''image/webp''} then 10 else 25) * 1024 * 1024)"
proof -
  have "[] \<notin> set DEFAULT_ALLOWED_ATTACHMENT_MEDIA_TYPES" using allowed_plain by blast
  moreover have "up_allowedMediaTypes DEFAULT_ATTACHMENT_UPLOAD_POLICY = DEFAULT_ALLOWED_ATTACHMENT_MEDIA_TYPES"
    by (simp add: DEFAULT_ATTACHMENT_UPLOAD_POLICY_def)
  ultimately have "ud_accepted (evaluateAttachmentUpload c DEFAULT_ATTACHMENT_UPLOAD_POLICY) \<longleftrightarrow>
    upload_type c \<in> set DEFAULT_ALLOWED_ATTACHMENT_MEDIA_TYPES \<and> upload_type c = normalizeContentType (uc_declaredContentType c) \<and>
    (safe_integer (uc_sizeBytes c) \<and> 0 < uc_sizeBytes c \<and> uc_sizeBytes c \<le>
       of_int ((if upload_type c \<in> {''image/gif'', ''image/jpeg'', ''image/png'', ''image/webp''} then 10 else 25) * 1024 * 1024))"
    using upload_accepted [of DEFAULT_ATTACHMENT_UPLOAD_POLICY c] allowed_plain [of "upload_type c"]
    by (auto simp: default_too_large not_less split: if_splits)
  then show ?thesis by (subst (asm) whole_size) simp_all
qed

end
