(* ===== verification/ObjectStore.thy ===== *)
theory ObjectStore
  imports StoragePolicy ProviderHttp
begin

text \<open>
  The S3-compatible object store client, \<open>packages/storage/src/s3-adapter.ts\<close> (\<open>RustFsStorageAdapter\<close>:
  presigned downloads, signed requests, put, get, stat, delete and health). SHA-256 and HMAC, the clock, the URL
  parser, the reading of HTTP dates and what the network answers are arguments. The documented form of
  Signature Version 4 is stated beside it as a reference.
\<close>

section \<open>Configuration\<close>

record store_config =
  sc_endpoint :: string
  sc_region :: string
  sc_accessKeyId :: string
  sc_secretAccessKey :: string
  sc_defaultBucket :: "string option"

text \<open>The constructor.\<close>

definition rustfs :: "store_config \<Rightarrow> store_config" where
  "rustfs c = c\<lparr>sc_endpoint := trim_slashes (sc_endpoint c), sc_region := (if sc_region c = [] then ''us-east-1'' else sc_region c),
     sc_defaultBucket := present (sc_defaultBucket c)\<rparr>"

text \<open>What the adapter is given from outside: the keyed and the plain hash, and a parser that answers
  the host, the path and the serialised query of a URL.\<close>

record url_parts =
  ur_host :: string
  ur_pathname :: string
  ur_search :: string

record store_env =
  se_sha256 :: "bytes \<Rightarrow> bytes"
  se_hmac :: hmac
  se_url :: "string \<Rightarrow> url_parts option"
  se_httpDate :: "string \<Rightarrow> int option"

record object_location =
  ol_bucket :: string
  ol_key :: string

section \<open>Signature Version 4\<close>

text \<open>\<open>toISOString().replace(/[:-]|\.\d{3}/g, '')\<close>.\<close>

fun compact_iso :: "string \<Rightarrow> string" where
  "compact_iso [] = []"
| "compact_iso (c # s) = (if c = CHR '':'' \<or> c = CHR ''-'' then compact_iso s
     else if c = CHR ''.'' \<and> 3 \<le> length s \<and> list_all is_digit (take 3 s) then compact_iso (drop 3 s)
     else c # compact_iso s)"

definition amz_date :: "int \<Rightarrow> string" where
  "amz_date now = compact_iso (toISOString now)"

definition getSigningKey :: "store_env \<Rightarrow> store_config \<Rightarrow> string \<Rightarrow> bytes" where
  "getSigningKey env st dateStamp = (let h = se_hmac env in
     h (h (h (h (utf8 (''AWS4'' @ sc_secretAccessKey st)) (utf8 dateStamp)) (utf8 (sc_region st))) (utf8 ''s3'')) (utf8 ''aws4_request''))"

definition credential_scope :: "store_config \<Rightarrow> string \<Rightarrow> string" where
  "credential_scope st isoDate = take 8 isoDate @ ''/'' @ sc_region st @ ''/s3/aws4_request''"

definition NEWLINE :: string where
  "NEWLINE = [CHR 10]"

text \<open>The signature of a canonical request.\<close>

definition sigv4 :: "store_env \<Rightarrow> store_config \<Rightarrow> string \<Rightarrow> string \<Rightarrow> string" where
  "sigv4 env st isoDate canonicalRequest = to_hex (se_hmac env (getSigningKey env st (take 8 isoDate))
     (utf8 (join NEWLINE [''AWS4-HMAC-SHA256'', isoDate, credential_scope st isoDate, to_hex (se_sha256 env (utf8 canonicalRequest))])))"

section \<open>Presigned downloads\<close>

definition strip_leading_slashes :: "string \<Rightarrow> string" where
  "strip_leading_slashes = dropWhile (\<lambda>c. c = CHR ''/'')"

definition location_bucket :: "store_config \<Rightarrow> object_location \<Rightarrow> string option" where
  "location_bucket st l = (if ol_bucket l \<noteq> [] then Some (ol_bucket l) else sc_defaultBucket st)"

text \<open>The disposition's file name cannot end its quotes or its line.\<close>

definition sanitized_filename :: "string \<Rightarrow> string" where
  "sanitized_filename = map (\<lambda>c. if c = CHR 0x22 \<or> c = CHR 13 \<or> c = CHR 10 \<or> c = CHR 92 then CHR ''_'' else c)"

definition presigned_params :: "store_config \<Rightarrow> string \<Rightarrow> int \<Rightarrow> string option \<Rightarrow> (string \<times> string) list" where
  "presigned_params st isoDate expires name = sort_key fst ([(''X-Amz-Algorithm'', ''AWS4-HMAC-SHA256''),
     (''X-Amz-Credential'', sc_accessKeyId st @ ''/'' @ credential_scope st isoDate), (''X-Amz-Date'', isoDate),
     (''X-Amz-Expires'', show_int expires), (''X-Amz-SignedHeaders'', ''host'')] @
     (case present name of Some f \<Rightarrow> [(''response-content-disposition'',
        ''attachment; filename='' @ [CHR 0x22] @ sanitized_filename f @ [CHR 0x22])] | None \<Rightarrow> []))"

definition canonical_uri :: "string \<Rightarrow> string \<Rightarrow> string" where
  "canonical_uri bucket key = ''/'' @ encodeURIComponent bucket @ ''/'' @ join ''/'' (map encodeURIComponent (split_on (CHR ''/'') key))"

definition canonical_query :: "(string \<times> string) list \<Rightarrow> string" where
  "canonical_query ps = join ''&'' (map (\<lambda>(k, v). encodeURIComponent k @ ''='' @ encodeURIComponent v) ps)"

definition canonical_get :: "string \<Rightarrow> string \<Rightarrow> string \<Rightarrow> string" where
  "canonical_get uri query host = join NEWLINE [''GET'', uri, query, ''host:'' @ host @ NEWLINE, ''host'', ''UNSIGNED-PAYLOAD'']"

record signed_download =
  sd_url :: string
  sd_expiresAt :: int

definition createSignedDownload :: "store_env \<Rightarrow> store_config \<Rightarrow> int \<Rightarrow> object_location \<Rightarrow> int \<Rightarrow> string option \<Rightarrow> string + signed_download" where
  "createSignedDownload env st now l expiresInSeconds downloadFilename =
     (case location_bucket st l of None \<Rightarrow> Inl ''Storage bucket must be specified on location or configured default''
      | Some bucket \<Rightarrow>
     (let key = strip_leading_slashes (ol_key l); isoDate = amz_date now in
      case se_url env (sc_endpoint st) of None \<Rightarrow> Inl ''Invalid URL''
      | Some u \<Rightarrow>
     (let uri = canonical_uri bucket key;
          query = canonical_query (presigned_params st isoDate expiresInSeconds downloadFilename);
          signature = sigv4 env st isoDate (canonical_get uri query (ur_host u))
      in Inr \<lparr>sd_url = sc_endpoint st @ uri @ ''?'' @ query @ ''&X-Amz-Signature='' @ signature,
           sd_expiresAt = now + expiresInSeconds * 1000\<rparr>)))"

section \<open>Signed requests\<close>

definition buildAuthorizationHeaders :: "store_env \<Rightarrow> store_config \<Rightarrow> int \<Rightarrow> string \<Rightarrow> string \<Rightarrow> (string \<times> string) list \<Rightarrow> string + (string \<times> string) list" where
  "buildAuthorizationHeaders env st now verb rawUrl additional =
     (case se_url env rawUrl of None \<Rightarrow> Inl ''Invalid URL''
      | Some u \<Rightarrow>
     (let isoDate = amz_date now;
          headers = with_header ''x-amz-date'' isoDate (with_header ''host'' (ur_host u) additional);
          sorted_headers = sort_key fst headers;
          signedHeaders = join '';'' (map (to_lower \<circ> fst) sorted_headers);
          payload = (case map_of headers ''x-amz-content-sha256'' of Some p \<Rightarrow> if p = [] then ''UNSIGNED-PAYLOAD'' else p | None \<Rightarrow> ''UNSIGNED-PAYLOAD'');
          canonicalRequest = join NEWLINE [verb, ur_pathname u, ur_search u,
            concat (map (\<lambda>(k, v). to_lower k @ '':'' @ trim v @ NEWLINE) sorted_headers), signedHeaders, payload]
      in Inr (with_header ''authorization'' (''AWS4-HMAC-SHA256 Credential='' @ sc_accessKeyId st @ ''/'' @ credential_scope st isoDate @
           '', SignedHeaders='' @ signedHeaders @ '', Signature='' @ sigv4 env st isoDate canonicalRequest) headers)))"

section \<open>Objects\<close>

record store_request =
  sq_method :: string
  sq_url :: string
  sq_headers :: "(string \<times> string) list"
  sq_body :: "bytes option"

text \<open>Header names of an answer are in lower case; a call may fail with a message.\<close>

record store_answer =
  sa_status :: nat
  sa_statusText :: string
  sa_headers :: "(string \<times> string) list"
  sa_chunks :: "bytes list"

type_synonym store_wire = "store_request \<Rightarrow> string + store_answer"

text \<open>A missing bucket is written into the URL as a text.\<close>

definition object_url :: "store_config \<Rightarrow> object_location \<Rightarrow> string" where
  "object_url st l = sc_endpoint st @ ''/'' @ (case location_bucket st l of Some b \<Rightarrow> encodeURIComponent b | None \<Rightarrow> ''undefined'') @ ''/'' @
     strip_leading_slashes (ol_key l)"

definition answer_ok :: "store_answer \<Rightarrow> bool" where
  "answer_ok a = (200 \<le> sa_status a \<and> sa_status a \<le> 299)"

definition http_failure :: "string \<Rightarrow> store_answer \<Rightarrow> string" where
  "http_failure what a = ''Failed to '' @ what @ '' object: HTTP '' @ show_nat (sa_status a) @ '' '' @ sa_statusText a"

definition header_or :: "store_answer \<Rightarrow> string \<Rightarrow> string \<Rightarrow> string" where
  "header_or a k dflt = (case map_of (sa_headers a) k of Some v \<Rightarrow> if v = [] then dflt else v | None \<Rightarrow> dflt)"

definition unquote :: "string \<Rightarrow> string" where
  "unquote s = (let t = (if s \<noteq> [] \<and> hd s = CHR 0x22 then tl s else s) in if t \<noteq> [] \<and> last t = CHR 0x22 then butlast t else t)"

text \<open>A request is signed and sent; the answer is what the caller reads on.\<close>

definition signed_call :: "store_env \<Rightarrow> store_config \<Rightarrow> int \<Rightarrow> store_wire \<Rightarrow> string \<Rightarrow> string \<Rightarrow> (string \<times> string) list \<Rightarrow> bytes option \<Rightarrow> string + store_answer" where
  "signed_call env st now wire verb url headers body = bindR (buildAuthorizationHeaders env st now verb url headers)
     (\<lambda>hs. wire \<lparr>sq_method = verb, sq_url = url, sq_headers = hs, sq_body = body\<rparr>)"

record put_input =
  pi_location :: object_location
  pi_body :: bytes
  pi_contentType :: string
  pi_contentLength :: nat
  pi_checksumSha256 :: string
  pi_metadata :: "(string \<times> string) list"

record put_result =
  po_bucket :: "string option"
  po_key :: string
  po_eTag :: string
  po_checksumSha256 :: string
  po_storedAt :: int

definition put_object :: "store_env \<Rightarrow> store_config \<Rightarrow> int \<Rightarrow> store_wire \<Rightarrow> put_input \<Rightarrow> string + put_result" where
  "put_object env st now wire i =
     (let headers = foldl (\<lambda>hs (k, v). with_header (''x-amz-meta-'' @ k) v hs)
        [(''content-type'', pi_contentType i), (''content-length'', show_nat (pi_contentLength i)), (''x-amz-content-sha256'', pi_checksumSha256 i)] (pi_metadata i)
      in bindR (signed_call env st now wire ''PUT'' (object_url st (pi_location i)) headers (Some (pi_body i)))
        (\<lambda>a. if \<not> answer_ok a then Inl (http_failure ''put'' a)
          else Inr \<lparr>po_bucket = location_bucket st (pi_location i), po_key = strip_leading_slashes (ol_key (pi_location i)),
            po_eTag = unquote (header_or a ''etag'' []), po_checksumSha256 = pi_checksumSha256 i, po_storedAt = now\<rparr>))"

text \<open>\<open>Number.parseInt\<close> of a decimal text.\<close>

definition parse_int :: "string \<Rightarrow> int option" where
  "parse_int s = (let t = dropWhile is_space s; neg = (take 1 t = ''-''); u = (if take 1 t \<in> {''-'', ''+''} then drop 1 t else t); ds = takeWhile is_digit u in
     if ds = [] then None else Some (if neg then - int (read_nat ds) else int (read_nat ds)))"

text \<open>The length may be no number and the date invalid; a missing date is the present time.\<close>

record object_info =
  oi_contentType :: string
  oi_contentLength :: "int option"
  oi_eTag :: string
  oi_lastModified :: "int option"
  oi_metadata :: "(string \<times> string) list"

definition read_info :: "store_env \<Rightarrow> int \<Rightarrow> store_answer \<Rightarrow> object_info" where
  "read_info env now a = \<lparr>oi_contentType = header_or a ''content-type'' ''application/octet-stream'',
     oi_contentLength = parse_int (header_or a ''content-length'' ''0''),
     oi_eTag = unquote (header_or a ''etag'' []),
     oi_lastModified = (case present (map_of (sa_headers a) ''last-modified'') of Some d \<Rightarrow> se_httpDate env d | None \<Rightarrow> Some now),
     oi_metadata = map (\<lambda>(k, v). (drop (length ''x-amz-meta-'') k, v)) (filter (\<lambda>h. startsWith (fst h) ''x-amz-meta-'') (sa_headers a))\<rparr>"

definition range_header :: "(nat \<times> nat option) option \<Rightarrow> (string \<times> string) list" where
  "range_header r = (case r of None \<Rightarrow> []
     | Some (start, until) \<Rightarrow> [(''range'', ''bytes='' @ show_nat start @ ''-'' @ (case until of Some n \<Rightarrow> show_nat n | None \<Rightarrow> []))])"

text \<open>The body is what the reader of the answer yields, chunk after chunk.\<close>

definition get_object :: "store_env \<Rightarrow> store_config \<Rightarrow> int \<Rightarrow> store_wire \<Rightarrow> object_location \<Rightarrow> (nat \<times> nat option) option \<Rightarrow> string + bytes \<times> object_info" where
  "get_object env st now wire l r = bindR (signed_call env st now wire ''GET'' (object_url st l) (range_header r) None)
     (\<lambda>a. if \<not> answer_ok a then Inl (http_failure ''get'' a) else Inr (concat (sa_chunks a), read_info env now a))"

definition stat_object :: "store_env \<Rightarrow> store_config \<Rightarrow> int \<Rightarrow> store_wire \<Rightarrow> object_location \<Rightarrow> string + (string option \<times> string) \<times> object_info" where
  "stat_object env st now wire l = bindR (signed_call env st now wire ''HEAD'' (object_url st l) [] None)
     (\<lambda>a. if \<not> answer_ok a then Inl (http_failure ''stat'' a) else Inr ((location_bucket st l, strip_leading_slashes (ol_key l)), read_info env now a))"

definition delete_object :: "store_env \<Rightarrow> store_config \<Rightarrow> int \<Rightarrow> store_wire \<Rightarrow> object_location \<Rightarrow> string + unit" where
  "delete_object env st now wire l = bindR (signed_call env st now wire ''DELETE'' (object_url st l) [] None)
     (\<lambda>a. if \<not> answer_ok a \<and> sa_status a \<noteq> 404 then Inl (http_failure ''delete'' a) else Inr ())"

text \<open>Without any bucket only the presigning refuses; the other operations go to a bucket called "undefined".\<close>

lemma missing_bucket_named:
  "location_bucket st l = None \<Longrightarrow> createSignedDownload env st now l n name = Inl ''Storage bucket must be specified on location or configured default'' \<and>
     object_url st l = sc_endpoint st @ ''/undefined/'' @ strip_leading_slashes (ol_key l)"
  by (simp add: createSignedDownload_def object_url_def)

section \<open>Health\<close>

text \<open>A failed probe falls back to the endpoint itself. The time the call took is left out.\<close>

definition store_health :: "store_config \<Rightarrow> store_wire \<Rightarrow> bool \<times> string option" where
  "store_health st wire =
     (let probe = wire \<lparr>sq_method = ''GET'', sq_url = sc_endpoint st @ ''/minio/health/live'', sq_headers = [], sq_body = None\<rparr>;
          answer = (case probe of Inr a \<Rightarrow> Inr a
            | Inl _ \<Rightarrow> wire \<lparr>sq_method = ''HEAD'', sq_url = sc_endpoint st, sq_headers = [], sq_body = None\<rparr>)
      in case answer of Inl message \<Rightarrow> (False, Some message)
         | Inr a \<Rightarrow> (if sa_status a < 500 then (True, None) else (False, Some (''Health check failed with HTTP '' @ show_nat (sa_status a)))))"

section \<open>The documented form of a presigned link\<close>

text \<open>Signature Version 4 leaves only letters, digits and four marks as they are; \<open>encodeURIComponent\<close>
  leaves five more.\<close>

definition aws_encode :: "string \<Rightarrow> string" where
  "aws_encode s = concat (map (\<lambda>b. if alphanumeric b \<or> b \<in> set ''-_.~'' then [b] else percent_byte b) (utf8 s))"

definition extra_mark :: "char \<Rightarrow> bool" where
  "extra_mark c = (c \<in> set ''!*()'' \<or> c = CHR 0x27)"

definition sigv4_uri :: "string \<Rightarrow> string \<Rightarrow> string" where
  "sigv4_uri bucket key = ''/'' @ aws_encode bucket @ ''/'' @ join ''/'' (map aws_encode (split_on (CHR ''/'') key))"

definition sigv4_query :: "(string \<times> string) list \<Rightarrow> string" where
  "sigv4_query ps = join ''&'' (map (\<lambda>(k, v). aws_encode k @ ''='' @ aws_encode v) (sort_key fst ps))"

lemma high_bytes: "128 \<le> (of_char c :: nat) \<Longrightarrow> b \<in> set (utf8_char c) \<Longrightarrow> \<not> extra_mark b"
proof -
  assume "128 \<le> (of_char c :: nat)" "b \<in> set (utf8_char c)"
  moreover have "(of_char c :: nat) div 64 < 4" using of_char_less [of c] by (intro less_mult_imp_div_less) simp
  ultimately have "128 \<le> (of_char b :: nat)" by (auto simp: utf8_char_def Let_def of_char_of)
  then show ?thesis by (auto simp: extra_mark_def)
qed

lemma encode_length: "length (aws_encode s) = length (encodeURIComponent s) + 2 * length (filter extra_mark (utf8 s))"
proof -
  have "length (concat (map (\<lambda>b. if alphanumeric b \<or> b \<in> set ''-_.~'' then [b] else percent_byte b) bs)) =
      length (concat (map (\<lambda>b. if alphanumeric b \<or> b \<in> set ''-_.!~*()'' \<or> b = CHR 0x27 then [b] else percent_byte b) bs)) +
      2 * length (filter extra_mark bs)" for bs
    by (induction bs) (auto simp: extra_mark_def percent_byte_def alphanumeric_def Let_def)
  then show ?thesis by (simp add: aws_encode_def encodeURIComponent_def)
qed

lemma encode_plain: "filter extra_mark (utf8 s) = [] \<Longrightarrow> aws_encode s = encodeURIComponent s"
  unfolding aws_encode_def encodeURIComponent_def by (rule arg_cong [where f = concat], rule map_cong [OF refl]) (auto simp: filter_empty_conv extra_mark_def)

lemma utf8_marks: "filter extra_mark (utf8 s) = filter extra_mark s"
proof (induction s)
  case (Cons c s)
  have "filter extra_mark (utf8_char c) = filter extra_mark [c]"
  proof (cases "(of_char c :: nat) < 128")
    case False
    then have "\<not> extra_mark c" by (auto simp: extra_mark_def)
    moreover have "filter extra_mark (utf8_char c) = []" using False high_bytes [of c] by (auto simp: filter_empty_conv)
    ultimately show ?thesis by simp
  qed (simp add: utf8_char_def)
  then show ?case using Cons by simp
qed simp

lemma encodings_agree: "aws_encode s = encodeURIComponent s \<longleftrightarrow> (\<forall>c\<in>set s. \<not> extra_mark c)"
proof
  assume "aws_encode s = encodeURIComponent s"
  then have "filter extra_mark (utf8 s) = []" using encode_length [of s] by simp
  then show "\<forall>c\<in>set s. \<not> extra_mark c" by (simp add: utf8_marks filter_empty_conv)
next
  assume "\<forall>c\<in>set s. \<not> extra_mark c"
  then show "aws_encode s = encodeURIComponent s" by (intro encode_plain) (simp add: utf8_marks filter_empty_conv)
qed

text \<open>Joined texts that are each at least as long are the same only if each has the same length.\<close>

lemma join_length: "length (join sep ss) = sum_list (map length ss) + (length ss - 1) * length sep"
  by (induction sep ss rule: join.induct) auto

lemma sums_equal: "(\<And>x. x \<in> set xs \<Longrightarrow> g x \<le> f x) \<Longrightarrow> sum_list (map f xs) = sum_list (map g xs) \<Longrightarrow> x \<in> set xs \<Longrightarrow> f x = (g x :: nat)"
proof (induction xs)
  case (Cons y ys)
  have "sum_list (map g ys) \<le> sum_list (map f ys)" using Cons.prems(1) by (intro sum_list_mono) simp
  then have "f y = g y" "sum_list (map f ys) = sum_list (map g ys)" using Cons.prems(1) [of y] Cons.prems(2) by simp_all
  then show ?case using Cons by auto
qed simp

definition joined_length :: "string \<Rightarrow> string list \<Rightarrow> nat" where
  "joined_length sep ss = length (join sep ss)"

lemma joined_longer: "(\<And>x. x \<in> set xs \<Longrightarrow> length (g x) \<le> length (f x)) \<Longrightarrow> length (join sep (map g xs)) \<le> length (join sep (map f xs))"
  by (auto simp: join_length comp_def intro!: add_mono sum_list_mono)

lemma joined_equal: "(\<And>x. x \<in> set xs \<Longrightarrow> length (g x) \<le> length (f x)) \<Longrightarrow> length (join sep (map f xs)) = length (join sep (map g xs)) \<Longrightarrow>
    x \<in> set xs \<Longrightarrow> length (f x) = length (g x)"
  using sums_equal [of xs "length \<circ> g" "length \<circ> f" x] by (simp add: join_length comp_def)

lemma agree_length: "length (aws_encode s) = length (encodeURIComponent s) \<longleftrightarrow> aws_encode s = encodeURIComponent s"
  using encode_length [of s] encode_plain [of s] by auto

lemma encode_longer: "length (encodeURIComponent s) \<le> length (aws_encode s)"
  by (simp add: encode_length)

definition no_marks :: "string \<Rightarrow> bool" where
  "no_marks s = (\<forall>c\<in>set s. \<not> extra_mark c)"

lemma no_marks_simps [simp]: "no_marks []" "no_marks (c # s) \<longleftrightarrow> \<not> extra_mark c \<and> no_marks s" "no_marks (s @ t) \<longleftrightarrow> no_marks s \<and> no_marks t"
  by (auto simp: no_marks_def)

lemma no_marks_join: "no_marks (join sep ss) \<longleftrightarrow> (\<forall>s\<in>set ss. no_marks s)" if "no_marks sep"
  using that by (induction sep ss rule: join.induct) auto

lemma uri_longer: "length (canonical_uri b k) \<le> length (sigv4_uri b k)"
  unfolding canonical_uri_def sigv4_uri_def by (simp add: encode_longer add_mono joined_longer)

lemma uri_agrees: "length (sigv4_uri b k) = length (canonical_uri b k) \<longleftrightarrow> no_marks b \<and> no_marks k"
  "no_marks b \<Longrightarrow> no_marks k \<Longrightarrow> sigv4_uri b k = canonical_uri b k"
proof -
  have key: "no_marks k \<longleftrightarrow> (\<forall>s\<in>set (split_on (CHR ''/'') k). no_marks s)"
    using no_marks_join [of "''/''" "split_on (CHR ''/'') k"] by (simp add: extra_mark_def)
  show same: "no_marks b \<Longrightarrow> no_marks k \<Longrightarrow> sigv4_uri b k = canonical_uri b k"
  proof -
    assume "no_marks b" "no_marks k"
    then have "aws_encode b = encodeURIComponent b" "map aws_encode (split_on (CHR ''/'') k) = map encodeURIComponent (split_on (CHR ''/'') k)"
      using key by (auto simp: encodings_agree no_marks_def)
    then show "sigv4_uri b k = canonical_uri b k" by (simp only: sigv4_uri_def canonical_uri_def)
  qed
  show "length (sigv4_uri b k) = length (canonical_uri b k) \<longleftrightarrow> no_marks b \<and> no_marks k"
  proof
    assume len: "length (sigv4_uri b k) = length (canonical_uri b k)"
    let ?parts = "split_on (CHR ''/'') k"
    have "length (join ''/'' (map encodeURIComponent ?parts)) \<le> length (join ''/'' (map aws_encode ?parts))"
      by (rule joined_longer) (rule encode_longer)
    then have b: "length (aws_encode b) = length (encodeURIComponent b)"
      and parts: "length (join ''/'' (map aws_encode ?parts)) = length (join ''/'' (map encodeURIComponent ?parts))"
      using len encode_longer [of b] by (simp_all add: sigv4_uri_def canonical_uri_def)
    have "length (aws_encode s) = length (encodeURIComponent s)" if "s \<in> set ?parts" for s
      using joined_equal [OF encode_longer parts that] .
    then show "no_marks b \<and> no_marks k" using b key by (simp add: agree_length encodings_agree no_marks_def)
  qed (simp add: same)
qed

lemma encode_no_marks: "no_marks s \<Longrightarrow> aws_encode s = encodeURIComponent s"
  by (simp add: encodings_agree no_marks_def)

lemma query_longer: "length (canonical_query ps) \<le> length (sigv4_query ps)" if "sort_key fst ps = ps"
  unfolding canonical_query_def sigv4_query_def that by (rule joined_longer) (auto simp: encode_longer add_mono)

lemma query_agrees:
  assumes "sort_key fst ps = ps"
  shows "length (sigv4_query ps) = length (canonical_query ps) \<longleftrightarrow> (\<forall>(k, v)\<in>set ps. no_marks k \<and> no_marks v)"
    "\<forall>(k, v)\<in>set ps. no_marks k \<and> no_marks v \<Longrightarrow> sigv4_query ps = canonical_query ps"
proof -
  show same: "\<forall>(k, v)\<in>set ps. no_marks k \<and> no_marks v \<Longrightarrow> sigv4_query ps = canonical_query ps"
  proof -
    assume marks: "\<forall>(k, v)\<in>set ps. no_marks k \<and> no_marks v"
    have "map (\<lambda>(k, v). aws_encode k @ ''='' @ aws_encode v) ps = map (\<lambda>(k, v). encodeURIComponent k @ ''='' @ encodeURIComponent v) ps"
    proof (rule map_cong [OF refl])
      fix q assume "q \<in> set ps"
      then have "no_marks (fst q)" "no_marks (snd q)" using marks by auto
      then show "(case q of (k, v) \<Rightarrow> aws_encode k @ ''='' @ aws_encode v) = (case q of (k, v) \<Rightarrow> encodeURIComponent k @ ''='' @ encodeURIComponent v)"
        by (simp add: split_beta encode_no_marks)
    qed
    then show "sigv4_query ps = canonical_query ps" by (simp only: canonical_query_def sigv4_query_def assms)
  qed
  show "length (sigv4_query ps) = length (canonical_query ps) \<longleftrightarrow> (\<forall>(k, v)\<in>set ps. no_marks k \<and> no_marks v)"
  proof
    assume len: "length (sigv4_query ps) = length (canonical_query ps)"
    define f g where "f = (\<lambda>(k, v). aws_encode k @ ''='' @ aws_encode v)" and "g = (\<lambda>(k, v). encodeURIComponent k @ ''='' @ encodeURIComponent v)"
    have longer: "length (g q) \<le> length (f q)" for q by (cases q) (simp add: f_def g_def encode_longer add_mono)
    have joined: "length (join ''&'' (map f ps)) = length (join ''&'' (map g ps))"
      using len by (simp only: canonical_query_def sigv4_query_def assms f_def g_def)
    have "length (aws_encode k) = length (encodeURIComponent k) \<and> length (aws_encode v) = length (encodeURIComponent v)" if "(k, v) \<in> set ps" for k v
      using joined_equal [where f = f and g = g, OF longer joined that] encode_longer [of k] encode_longer [of v] by (simp add: f_def g_def)
    then show "\<forall>(k, v)\<in>set ps. no_marks k \<and> no_marks v" by (auto simp: agree_length encodings_agree no_marks_def)
  qed (simp add: same)
qed

lemma digit_no_mark: "is_digit c \<Longrightarrow> \<not> extra_mark c"
  by (auto simp: extra_mark_def is_digit_def)

lemma nat_no_marks: "no_marks (show_nat k)"
  unfolding no_marks_def by (intro ballI digit_no_mark) (rule show_nat_digits)

lemma numeral_no_marks [simp]: "no_marks (show_int n)"
  by (simp add: show_int_def nat_no_marks extra_mark_def)

lemma zeros_no_marks: "no_marks (replicate k (CHR ''0''))"
  by (induction k) (simp_all add: extra_mark_def)

lemma padded_no_marks [simp]: "no_marks (padStart k s) \<longleftrightarrow> no_marks s"
  by (simp add: padStart_def zeros_no_marks)

lemma compact_iso_chars: "set (compact_iso s) \<subseteq> set s"
proof (induction s rule: compact_iso.induct)
  case (2 c s)
  then show ?case by (auto dest: in_set_dropD)
qed simp

lemma amz_date_no_marks [simp]: "no_marks (amz_date t)" "no_marks (take k (amz_date t))"
proof -
  have "no_marks (toISOString t)" by (simp add: toISOString_def iso_year_def Let_def) (simp add: extra_mark_def)
  then show date: "no_marks (amz_date t)" using compact_iso_chars [of "toISOString t"] by (auto simp: amz_date_def no_marks_def)
  then show "no_marks (take k (amz_date t))" by (auto simp: no_marks_def dest: in_set_takeD)
qed

lemma sanitized_marks [simp]: "no_marks (sanitized_filename f) \<longleftrightarrow> no_marks f"
  by (auto simp: no_marks_def sanitized_filename_def extra_mark_def)

lemma presigned_sorted: "sort_key fst (presigned_params st d n name) = presigned_params st d n name"
  unfolding presigned_params_def by (rule sort_key_id_if_sorted [OF sorted_sort_key])

definition link_marks :: "store_config \<Rightarrow> string \<Rightarrow> string \<Rightarrow> string option \<Rightarrow> bool" where
  "link_marks st bucket key name = (\<exists>s\<in>{bucket, key, sc_accessKeyId st, sc_region st, case name of Some f \<Rightarrow> f | None \<Rightarrow> []}. \<exists>c\<in>set s. extra_mark c)"

lemma params_marks: "(\<forall>(k, v)\<in>set (presigned_params st (amz_date t) n name). no_marks k \<and> no_marks v) \<longleftrightarrow>
    no_marks (sc_accessKeyId st) \<and> no_marks (sc_region st) \<and> no_marks (case name of Some f \<Rightarrow> f | None \<Rightarrow> [])"
proof -
  have texts: "no_marks ''X-Amz-Algorithm''" "no_marks ''AWS4-HMAC-SHA256''" "no_marks ''X-Amz-Credential''" "no_marks ''X-Amz-Date''" "no_marks ''X-Amz-Expires''"
    "no_marks ''X-Amz-SignedHeaders''" "no_marks ''host''" "no_marks ''response-content-disposition''" "no_marks ''attachment; filename=''" "no_marks ''/s3/aws4_request''"
    by (simp_all add: extra_mark_def)
  show ?thesis
  proof (cases "present name")
    case None
    then have "name = None \<or> name = Some []" by (cases name rule: present.cases) auto
    then show ?thesis using None texts by (auto simp: presigned_params_def credential_scope_def extra_mark_def)
  next
    case (Some f)
    then have "name = Some f" by (cases name rule: present.cases) auto
    then show ?thesis using Some texts by (auto simp: presigned_params_def credential_scope_def extra_mark_def)
  qed
qed

lemma canonical_get_length: "length (canonical_get uri q h) = length uri + length q + length (canonical_get [] [] h)"
  by (simp add: canonical_get_def)

text \<open>C40: A presigned download carries the signature of its own request, made for the host of the endpoint,
  and expires when it says. The canonical request the adapter signs is the documented one - the one a
  server makes of the link it receives - exactly when the bucket, the key, the access key, the region
  and the file name have none of the five marks that \<open>encodeURIComponent\<close> leaves and the protocol escapes.
\<close>

theorem signed_link_form:
  assumes "createSignedDownload env st now l n name = Inr r"
  shows "\<exists>bucket u. location_bucket st l = Some bucket \<and> se_url env (sc_endpoint st) = Some u \<and> sd_expiresAt r = now + n * 1000 \<and>
    (let key = strip_leading_slashes (ol_key l); ps = presigned_params st (amz_date now) n name;
         signed = canonical_get (canonical_uri bucket key) (canonical_query ps) (ur_host u);
         documented = canonical_get (sigv4_uri bucket key) (sigv4_query ps) (ur_host u)
     in sd_url r = sc_endpoint st @ canonical_uri bucket key @ ''?'' @ canonical_query ps @ ''&X-Amz-Signature='' @ sigv4 env st (amz_date now) signed \<and>
       (signed = documented \<longleftrightarrow> \<not> link_marks st bucket key name))"
proof -
  obtain b u where bu: "location_bucket st l = Some b" "se_url env (sc_endpoint st) = Some u"
    and r: "r = \<lparr>sd_url = sc_endpoint st @ canonical_uri b (strip_leading_slashes (ol_key l)) @ ''?'' @ canonical_query (presigned_params st (amz_date now) n name) @
        ''&X-Amz-Signature='' @ sigv4 env st (amz_date now) (canonical_get (canonical_uri b (strip_leading_slashes (ol_key l)))
          (canonical_query (presigned_params st (amz_date now) n name)) (ur_host u)), sd_expiresAt = now + n * 1000\<rparr>"
    using assms by (auto simp: createSignedDownload_def Let_def split: option.splits)
  let ?key = "strip_leading_slashes (ol_key l)" and ?ps = "presigned_params st (amz_date now) n name"
  note query = query_agrees [OF presigned_sorted, of st "amz_date now" n name, unfolded params_marks]
  have link_iff: "\<not> link_marks st b ?key name \<longleftrightarrow> no_marks b \<and> no_marks ?key \<and>
      no_marks (sc_accessKeyId st) \<and> no_marks (sc_region st) \<and> no_marks (case name of Some f \<Rightarrow> f | None \<Rightarrow> [])"
    by (auto simp: link_marks_def no_marks_def)
  have "canonical_get (canonical_uri b ?key) (canonical_query ?ps) (ur_host u) = canonical_get (sigv4_uri b ?key) (sigv4_query ?ps) (ur_host u)
      \<longleftrightarrow> \<not> link_marks st b ?key name"
  proof
    assume "canonical_get (canonical_uri b ?key) (canonical_query ?ps) (ur_host u) = canonical_get (sigv4_uri b ?key) (sigv4_query ?ps) (ur_host u)"
    then have "length (canonical_uri b ?key) + length (canonical_query ?ps) = length (sigv4_uri b ?key) + length (sigv4_query ?ps)"
      using canonical_get_length by (metis add_right_cancel)
    then have "length (sigv4_uri b ?key) = length (canonical_uri b ?key)" "length (sigv4_query ?ps) = length (canonical_query ?ps)"
      using uri_longer [of b ?key] query_longer [OF presigned_sorted, of st "amz_date now" n name] by simp_all
    then show "\<not> link_marks st b ?key name" using uri_agrees(1) query(1) by (simp only: link_iff)
  next
    assume "\<not> link_marks st b ?key name"
    then show "canonical_get (canonical_uri b ?key) (canonical_query ?ps) (ur_host u) = canonical_get (sigv4_uri b ?key) (sigv4_query ?ps) (ur_host u)"
      using uri_agrees(2) query(2) by (simp only: link_iff)
  qed
  then show ?thesis using bu r by (simp add: Let_def)
qed

definition demo_store :: store_config where
  "demo_store = rustfs \<lparr>sc_endpoint = ''https://s3.vynor.test/'', sc_region = [], sc_accessKeyId = ''AK1'', sc_secretAccessKey = ''s3cret'', sc_defaultBucket = Some ''vynor''\<rparr>"

definition demo_store_env :: store_env where
  "demo_store_env = \<lparr>se_sha256 = id, se_hmac = (\<lambda>k m. k @ m), se_url = (\<lambda>_. Some \<lparr>ur_host = ''s3.vynor.test'', ur_pathname = ''/'', ur_search = []\<rparr>), se_httpDate = (\<lambda>_. None)\<rparr>"

definition demo_object :: object_location where
  "demo_object = \<lparr>ol_bucket = [], ol_key = ''workspaces/w1/avatar/2026/01/31/o1''\<rparr>"

lemma demo_store_fields: "sc_endpoint demo_store = ''https://s3.vynor.test''" "location_bucket demo_store demo_object = Some ''vynor''"
  "se_url demo_store_env u = Some \<lparr>ur_host = ''s3.vynor.test'', ur_pathname = ''/'', ur_search = []\<rparr>"
  by (simp_all add: demo_store_def rustfs_def trim_slashes_def location_bucket_def demo_object_def demo_store_env_def)

text \<open>A file name with a parenthesis, such as a browser gives a second copy, is signed in another form
  than the documented one.\<close>

theorem signed_link_form_witness:
  "\<exists>r. createSignedDownload demo_store_env demo_store 0 demo_object 60 (Some ''plan (1).pdf'') = Inr r \<and> sd_expiresAt r = 60000 \<and>
    (let key = strip_leading_slashes (ol_key demo_object); ps = presigned_params demo_store (amz_date 0) 60 (Some ''plan (1).pdf'')
     in canonical_get (canonical_uri ''vynor'' key) (canonical_query ps) ''s3.vynor.test'' \<noteq> canonical_get (sigv4_uri ''vynor'' key) (sigv4_query ps) ''s3.vynor.test'')"
proof -
  obtain r where r: "createSignedDownload demo_store_env demo_store 0 demo_object 60 (Some ''plan (1).pdf'') = Inr r"
    by (simp add: createSignedDownload_def demo_store_fields Let_def)
  have "link_marks demo_store ''vynor'' (strip_leading_slashes (ol_key demo_object)) (Some ''plan (1).pdf'')"
    by (simp add: link_marks_def extra_mark_def)
  then show ?thesis using r signed_link_form [OF r] by (simp add: demo_store_fields Let_def)
qed

end
