(* ===== verification/Downloads.thy ===== *)
theory Downloads
  imports ObjectStore
begin

text \<open>
  The download endpoint of attachments, \<open>apps/api/src/storage/storage.service.ts\<close> and
  \<open>storage.controller.ts\<close>: the attachment is looked up, the policy asked, a link signed and the signing
  audited. The table of attachments is an argument, since nothing here changes it; the audit log is the
  database's.
\<close>

section \<open>Denials\<close>

datatype download_error = HttpDenied nat string string | SigningFailed string

fun handleDenial :: "download_denial \<Rightarrow> download_error" where
  "handleDenial WORKSPACE_MISMATCH = HttpDenied 404 ''ATTACHMENT_NOT_FOUND'' ''The requested attachment does not exist in this workspace.''"
| "handleDenial DownloadPermissionDenied = HttpDenied 403 ''PERMISSION_DENIED'' ''Forbidden: actor lacks message:read permission to download attachment.''"
| "handleDenial ATTACHMENT_NOT_CLEAN = HttpDenied 422 ''ATTACHMENT_NOT_CLEAN'' ''Attachment is not clean or malware scan is pending/failed.''"
| "handleDenial ATTACHMENT_NOT_PRIVATE = HttpDenied 422 ''ATTACHMENT_QUARANTINED'' ''Attachment is currently quarantined and cannot be downloaded.''"
| "handleDenial ATTACHMENT_EXPIRED = HttpDenied 410 ''ATTACHMENT_EXPIRED'' ''Attachment has expired and has been purged.''"
| "handleDenial ATTACHMENT_DELETED = HttpDenied 410 ''ATTACHMENT_DELETED'' ''Attachment has been deleted.''"

section \<open>The service\<close>

text \<open>The clock is read for the decision and again for the signature. Writing the audit entry may fail.\<close>

record download_env =
  dn_now :: int
  dn_signedAt :: int
  dn_storeEnv :: store_env
  dn_store :: store_config
  dn_auditId :: id
  dn_auditFault :: "err option"

record download_response =
  dr_attachmentId :: id
  dr_filename :: string
  dr_contentType :: string
  dr_mimeType :: string
  dr_sizeBytes :: int
  dr_downloadUrl :: string
  dr_expiresAt :: string
  dr_expiresInSeconds :: int

fun purpose_name :: "attachment_purpose \<Rightarrow> string" where
  "purpose_name MESSAGE_INBOUND = ''MESSAGE_INBOUND''"
| "purpose_name MESSAGE_OUTBOUND = ''MESSAGE_OUTBOUND''"
| "purpose_name KNOWLEDGE_SOURCE = ''KNOWLEDGE_SOURCE''"
| "purpose_name BULK_IMPORT = ''BULK_IMPORT''"
| "purpose_name REPORT_EXPORT = ''REPORT_EXPORT''"
| "purpose_name AVATAR = ''AVATAR''"
| "purpose_name AUTOMATION_ARTIFACT = ''AUTOMATION_ARTIFACT''"

definition download_audit :: "download_env \<Rightarrow> actor \<Rightarrow> string option \<Rightarrow> attachment \<Rightarrow> int \<Rightarrow> audit_log" where
  "download_audit env a corr x ttl = \<lparr>au_id = dn_auditId env, au_workspaceId = ac_workspaceId a, au_actorId = ac_userId a, au_actorType = ''USER'',
     au_action = ''attachment.download_signed'', au_resourceType = ''storage.attachment'', au_resourceId = at_id x,
     au_correlationId = (case present corr of Some c \<Rightarrow> c | None \<Rightarrow> ''unknown''), au_beforeState = None, au_afterState = None,
     au_metadata = Some (JObj [(''objectKey'', JStr (at_objectKey x)), (''expiresInSeconds'', JNum ttl), (''purpose'', JStr (purpose_name (at_purpose x)))])\<rparr>"

text \<open>A failure to write the audit entry is logged and otherwise ignored.\<close>

definition record_download :: "download_env \<Rightarrow> audit_log \<Rightarrow> db \<Rightarrow> db" where
  "record_download env entry d = (case dn_auditFault env of Some _ \<Rightarrow> d | None \<Rightarrow> snd (runTx (create_audit entry) d))"

definition getSignedDownloadUrl ::
  "download_env \<Rightarrow> attachment list \<Rightarrow> id \<Rightarrow> actor \<Rightarrow> ttl_number option \<Rightarrow> string option \<Rightarrow> db \<Rightarrow> (download_error + download_response) \<times> db" where
  "getSignedDownloadUrl env table attachmentId a requestedTtl corr d =
     (case find (\<lambda>x. at_id x = attachmentId) table of
        None \<Rightarrow> (Inl (HttpDenied 404 ''ATTACHMENT_NOT_FOUND'' ''The requested attachment does not exist in this workspace.''), d)
      | Some x \<Rightarrow>
        if at_workspaceId x \<noteq> ac_workspaceId a
        then (Inl (HttpDenied 404 ''ATTACHMENT_NOT_FOUND'' ''The requested attachment does not exist in this workspace.''), d)
        else (case authorizeSignedDownload \<lparr>dq_actorWorkspaceId = ac_workspaceId a, dq_actorPermissions = ac_permissions a, dq_attachment = x,
            dq_requiredPermission = Some ''message:read'', dq_requestedTtlSeconds = requestedTtl, dq_now = dn_now env\<rparr> of
          Inl reason \<Rightarrow> (Inl (handleDenial reason), d)
        | Inr ttl \<Rightarrow>
          (case createSignedDownload (dn_storeEnv env) (dn_store env) (dn_signedAt env) \<lparr>ol_bucket = at_storageBucket x, ol_key = at_objectKey x\<rparr> ttl
              (Some (at_originalFilename x)) of
            Inl message \<Rightarrow> (Inl (SigningFailed message), d)
          | Inr signed \<Rightarrow>
              (Inr \<lparr>dr_attachmentId = at_id x, dr_filename = at_originalFilename x, dr_contentType = at_contentType x, dr_mimeType = at_contentType x,
                 dr_sizeBytes = at_sizeBytes x, dr_downloadUrl = sd_url signed, dr_expiresAt = toISOString (sd_expiresAt signed),
                 dr_expiresInSeconds = ttl\<rparr>,
               record_download env (download_audit env a corr x ttl) d))))"

text \<open>The controller reads the query parameter; a text without a number is no finite one.\<close>

definition query_ttl :: "string option \<Rightarrow> ttl_number option" where
  "query_ttl ttl = (case present ttl of None \<Rightarrow> None
     | Some s \<Rightarrow> Some (case parse_int s of Some n \<Rightarrow> Finite (of_int n) | None \<Rightarrow> NotFinite))"

definition getDownloadUrl :: "download_env \<Rightarrow> attachment list \<Rightarrow> id \<Rightarrow> actor \<Rightarrow> string option \<Rightarrow> string option \<Rightarrow> db \<Rightarrow> (download_error + download_response) \<times> db" where
  "getDownloadUrl env table i a ttl corr d = getSignedDownloadUrl env table i a (query_ttl ttl) corr d"

section \<open>Who gets a link\<close>

lemma signing_works:
  assumes "sc_defaultBucket st \<noteq> None" "se_url e (sc_endpoint st) \<noteq> None"
  shows "\<exists>r. createSignedDownload e st now l n name = Inr r \<and> sd_expiresAt r = now + n * 1000"
proof -
  obtain b where "location_bucket st l = Some b" using assms(1) by (cases "location_bucket st l") (auto simp: location_bucket_def split: if_splits)
  then show ?thesis using assms(2) by (auto simp: createSignedDownload_def Let_def)
qed

lemma recorded: "record_download env e d = d \<or> record_download env e d = d\<lparr>db_audit := db_audit d @ [e]\<rparr>"
  by (auto simp: record_download_def runTx_def create_audit_def split: option.splits)

lemma recorded_fresh: "dn_auditFault env = None \<Longrightarrow> \<not> list_ex (\<lambda>x. au_id x = au_id e) (db_audit d) \<Longrightarrow>
    record_download env e d = d\<lparr>db_audit := db_audit d @ [e]\<rparr>"
  by (simp add: record_download_def runTx_def create_audit_def)

text \<open>C11: With a configured bucket and endpoint, an actor gets a download link exactly for an attachment of the
  own workspace that is in the private zone, scanned clean, not deleted and not past its purge date, if
  the actor may read messages. The link lives between 10 and 300 seconds, whatever was asked. A refusal
  changes nothing and is an answer of the policy; a link changes nothing but the audit log, where one entry
  names the actor, the attachment and the lifetime unless the write failed.
\<close>

theorem download_exactly:
  assumes "sc_defaultBucket (dn_store env) \<noteq> None" "se_url (dn_storeEnv env) (sc_endpoint (dn_store env)) \<noteq> None"
  shows "case getDownloadUrl env table i a ttl corr d of (res, d') \<Rightarrow>
    (case find (\<lambda>x. at_id x = i) table of
       Some x \<Rightarrow> if downloadable (dn_now env) (ac_workspaceId a) (ac_permissions a) x
         then (\<exists>r n. res = Inr r \<and> 10 \<le> n \<and> n \<le> 300 \<and> dr_attachmentId r = i \<and> dr_expiresInSeconds r = n \<and>
           dr_expiresAt r = toISOString (dn_signedAt env + n * 1000) \<and> d' = record_download env (download_audit env a corr x n) d \<and>
           (d' = d \<or> d' = d\<lparr>db_audit := db_audit d @ [download_audit env a corr x n]\<rparr>))
         else d' = d \<and> (\<exists>reason. res = Inl (handleDenial reason))
     | None \<Rightarrow> d' = d \<and> res = Inl (handleDenial WORKSPACE_MISMATCH))"
proof (cases "find (\<lambda>x. at_id x = i) table")
  case None
  then show ?thesis by (simp add: getDownloadUrl_def getSignedDownloadUrl_def)
next
  case (Some x)
  then have i: "at_id x = i" by (auto simp: find_Some_iff)
  define q where "q = \<lparr>dq_actorWorkspaceId = ac_workspaceId a, dq_actorPermissions = ac_permissions a, dq_attachment = x,
      dq_requiredPermission = Some ''message:read'', dq_requestedTtlSeconds = query_ttl ttl, dq_now = dn_now env\<rparr>"
  have fields: "dq_requiredPermission q = Some ''message:read''" "dq_now q = dn_now env" "dq_actorWorkspaceId q = ac_workspaceId a"
    "dq_actorPermissions q = ac_permissions a" "dq_attachment q = x" by (simp_all add: q_def)
  note granted = authorized_iff [OF fields(1), unfolded fields(2-5)]
  show ?thesis
  proof (cases "downloadable (dn_now env) (ac_workspaceId a) (ac_permissions a) x")
    case True
    then obtain n where n: "authorizeSignedDownload q = Inr n" "10 \<le> n" "n \<le> 300" using granted download_ttl_bounds by blast
    obtain r where r: "createSignedDownload (dn_storeEnv env) (dn_store env) (dn_signedAt env) \<lparr>ol_bucket = at_storageBucket x, ol_key = at_objectKey x\<rparr> n
        (Some (at_originalFilename x)) = Inr r" "sd_expiresAt r = dn_signedAt env + n * 1000"
      using signing_works [OF assms] by blast
    have "at_workspaceId x = ac_workspaceId a" using True by (simp add: downloadable_def)
    then show ?thesis using Some True n r i recorded by (simp add: getDownloadUrl_def getSignedDownloadUrl_def q_def)
  next
    case False
    then obtain reason where "authorizeSignedDownload q = Inl reason" using granted by (cases "authorizeSignedDownload q") auto
    then show ?thesis using Some False handleDenial.simps(1) by (auto simp: getDownloadUrl_def getSignedDownloadUrl_def q_def intro: exI [of _ WORKSPACE_MISMATCH])
  qed
qed

definition demo_download :: download_env where
  "demo_download = \<lparr>dn_now = 1000, dn_signedAt = 1001, dn_storeEnv = demo_store_env, dn_store = demo_store, dn_auditId = ''u1'', dn_auditFault = None\<rparr>"

text \<open>A member of the workspace asks for a day and gets five minutes; nobody else gets anything.\<close>

theorem download_exactly_witness:
  "\<exists>r d'. getDownloadUrl demo_download [scanned_attachment] ''a1'' (sample_actor [''message:read'']) (Some ''86400'') None empty_db = (Inr r, d') \<and>
     10 \<le> dr_expiresInSeconds r \<and> dr_expiresInSeconds r \<le> 300 \<and> length (db_audit d') = 1"
proof -
  have "downloadable 1000 (ac_workspaceId (sample_actor [''message:read''])) (ac_permissions (sample_actor [''message:read''])) scanned_attachment"
    by (simp add: downloadable_def scanned_attachment_def sample_actor_def hasPermission_def)
  then show ?thesis
    using download_exactly [where env = demo_download and table = "[scanned_attachment]" and i = "''a1''" and a = "sample_actor [''message:read'']"
        and ttl = "Some ''86400''" and corr = None and d = empty_db]
      recorded_fresh [of demo_download _ empty_db]
    by (auto simp: demo_download_def demo_store_fields empty_db_def scanned_attachment_def demo_store_def rustfs_def split: prod.splits)
qed

end
