(* ===== verification/Realtime.thy ===== *)
theory Realtime
  imports StoragePolicy JsonText
begin

text \<open>
  Realtime events: room names and the event envelope (\<open>packages/contracts/src/realtime\<close>), the Socket.IO
  gateway, the publisher and the handling of database notifications
  (\<open>apps/api/src/realtime/realtime.gateway.ts\<close>, \<open>realtime-publisher.service.ts\<close>, \<open>realtime-relay.service.ts\<close>,
  \<open>realtime-origin.ts\<close>). Of Socket.IO the model uses what its documentation promises: a socket is in the
  rooms it joined until it leaves them or is disconnected, and an event emitted to several rooms reaches
  every socket in any of them once. The test for UUIDs is an argument.
\<close>

section \<open>Rooms and envelopes\<close>

definition ROOM_ID_PATTERN :: "string \<Rightarrow> bool" where
  "ROOM_ID_PATTERN s = (s \<noteq> [] \<and> list_all (\<lambda>c. word_char c \<or> c = CHR ''-'') s)"

definition assertRoomId :: "string \<Rightarrow> string + unit" where
  "assertRoomId i = (if ROOM_ID_PATTERN i then Inr ()
     else Inl ''Realtime room IDs may only contain letters, numbers, underscores, and hyphens'')"

definition workspaceRoomName :: "string \<Rightarrow> string + string" where
  "workspaceRoomName i = bindR (assertRoomId i) (\<lambda>_. Inr (''workspace:'' @ i))"

definition conversationRoomName :: "string \<Rightarrow> string + string" where
  "conversationRoomName i = bindR (assertRoomId i) (\<lambda>_. Inr (''conversation:'' @ i))"

definition RealtimeRoomNameSchema :: "string \<Rightarrow> bool" where
  "RealtimeRoomNameSchema s = (\<exists>p\<in>set [''workspace:'', ''conversation:'']. startsWith s p \<and> ROOM_ID_PATTERN (drop (length p) s))"

definition lower_letter :: "char \<Rightarrow> bool" where
  "lower_letter c = (let n = of_char c :: nat in 97 \<le> n \<and> n \<le> 122)"

text \<open>\<open>/^[a-z][a-z0-9]*(?:\.[a-z][a-z0-9-]*)+$/\<close>, three to 128 characters.\<close>

definition RealtimeEventTypeSchema :: "string \<Rightarrow> bool" where
  "RealtimeEventTypeSchema s = (3 \<le> length s \<and> length s \<le> 128 \<and>
     (case split_on (CHR ''.'') s of
        p # q # ps \<Rightarrow> p \<noteq> [] \<and> lower_letter (hd p) \<and> list_all (\<lambda>c. lower_letter c \<or> is_digit c) p \<and>
          list_all (\<lambda>r. r \<noteq> [] \<and> lower_letter (hd r) \<and> list_all (\<lambda>c. lower_letter c \<or> is_digit c \<or> c = CHR ''-'') r) (q # ps)
      | _ \<Rightarrow> False))"

record realtime_event =
  re_eventId :: string
  re_eventType :: string
  re_workspaceId :: id
  re_rooms :: "string list"
  re_occurredAt :: string
  re_emittedAt :: string
  re_correlationId :: string
  re_payload :: "(string \<times> json) list"

text \<open>The envelope is checked before it leaves: what does not fit is thrown.\<close>

definition createRealtimeEvent :: "(string \<Rightarrow> bool) \<Rightarrow> realtime_event \<Rightarrow> realtime_event option" where
  "createRealtimeEvent uuid e = (if uuid (re_eventId e) \<and> RealtimeEventTypeSchema (re_eventType e) \<and> re_workspaceId e \<noteq> [] \<and> re_rooms e \<noteq> [] \<and>
     list_all RealtimeRoomNameSchema (re_rooms e) \<and> distinct (re_rooms e) \<and> re_correlationId e \<noteq> [] then Some e else None)"

section \<open>Notifications\<close>

definition absent_or_text :: "json \<Rightarrow> bool" where
  "absent_or_text j = (case j of JUndef \<Rightarrow> True | JStr _ \<Rightarrow> True | _ \<Rightarrow> False)"

definition text_option :: "json \<Rightarrow> string option" where
  "text_option j = (case j of JStr s \<Rightarrow> Some s | _ \<Rightarrow> None)"

record realtime_notification =
  rn_eventType :: string
  rn_workspaceId :: id
  rn_conversationId :: "id option"
  rn_messageId :: "id option"
  rn_channelId :: "id option"
  rn_correlationId :: "string option"

definition RealtimeNotificationSchema :: "json \<Rightarrow> realtime_notification option" where
  "RealtimeNotificationSchema j = (case (jget j ''eventType'', jget j ''workspaceId'') of
     (JStr ty, JStr ws) \<Rightarrow>
       if list_all (\<lambda>k. absent_or_text (jget j k)) [''conversationId'', ''messageId'', ''channelId'', ''correlationId'']
       then Some \<lparr>rn_eventType = ty, rn_workspaceId = ws, rn_conversationId = text_option (jget j ''conversationId''),
         rn_messageId = text_option (jget j ''messageId''), rn_channelId = text_option (jget j ''channelId''),
         rn_correlationId = text_option (jget j ''correlationId'')\<rparr>
       else None
   | _ \<Rightarrow> None)"

text \<open>The text \<open>notifyRealtime\<close> hands to the database.\<close>

definition notification_text :: "notification \<Rightarrow> string" where
  "notification_text n = stringify (JObj ((''eventType'', JStr (nt_eventType n)) # (''workspaceId'', JStr (nt_workspaceId n)) #
     List.map_filter (\<lambda>(k, v). map_option (\<lambda>s. (k, JStr s)) v)
       [(''conversationId'', nt_conversationId n), (''messageId'', nt_messageId n), (''channelId'', nt_channelId n)]))"

text \<open>What the relay makes of a notification: the event for the rooms of the workspace and the
  conversation, or nothing. Empty ids count as absent.\<close>

definition notification_rooms :: "realtime_notification \<Rightarrow> string + string list" where
  "notification_rooms n = bindR (workspaceRoomName (rn_workspaceId n)) (\<lambda>w.
     case present (rn_conversationId n) of None \<Rightarrow> Inr [w]
     | Some c \<Rightarrow> bindR (conversationRoomName c) (\<lambda>r. Inr [w, r]))"

definition relay_event :: "(string \<Rightarrow> bool) \<Rightarrow> int \<Rightarrow> string \<Rightarrow> realtime_notification \<Rightarrow> realtime_event option" where
  "relay_event uuid now eventId n = (case notification_rooms n of Inl _ \<Rightarrow> None
     | Inr rooms \<Rightarrow> createRealtimeEvent uuid \<lparr>re_eventId = eventId, re_eventType = rn_eventType n, re_workspaceId = rn_workspaceId n, re_rooms = rooms,
         re_occurredAt = toISOString now, re_emittedAt = toISOString now,
         re_correlationId = (case rn_correlationId n of Some c \<Rightarrow> c | None \<Rightarrow> ''realtime-relay''),
         re_payload = List.map_filter (\<lambda>(k, v). map_option (\<lambda>s. (k, JStr s)) (present v))
           [(''conversationId'', rn_conversationId n), (''messageId'', rn_messageId n), (''channelId'', rn_channelId n)]\<rparr>)"

definition relay_handle :: "(string \<Rightarrow> bool) \<Rightarrow> int \<Rightarrow> string \<Rightarrow> string option \<Rightarrow> realtime_event option" where
  "relay_handle uuid now eventId payload = (case present payload of None \<Rightarrow> None
     | Some text \<Rightarrow> (case parse_json text of None \<Rightarrow> None
        | Some j \<Rightarrow> (case RealtimeNotificationSchema j of None \<Rightarrow> None | Some n \<Rightarrow> relay_event uuid now eventId n)))"

section \<open>Sockets\<close>

record socket_context =
  sx_actor :: actor
  sx_authenticatedAt :: int
  sx_joinedRooms :: "string list"

record resync =
  ry_reason :: string
  ry_resources :: "string list"
  ry_serverTime :: int
  ry_workspaceId :: id
  ry_conversationId :: "id option"
  ry_lastSeenEventId :: "string option"

datatype emission = AuthError string string | Resync resync | Broadcast realtime_event

record socket =
  so_id :: id
  so_open :: bool
  so_context :: "socket_context option"
  so_rooms :: "string list"
  so_sent :: "emission list"

definition new_socket :: "id \<Rightarrow> socket" where
  "new_socket i = \<lparr>so_id = i, so_open = True, so_context = None, so_rooms = [], so_sent = []\<rparr>"

definition emit_to :: "emission \<Rightarrow> socket \<Rightarrow> socket" where
  "emit_to e s = s\<lparr>so_sent := so_sent s @ [e]\<rparr>"

definition join_room :: "string \<Rightarrow> socket \<Rightarrow> socket" where
  "join_room r s = s\<lparr>so_rooms := set_add (so_rooms s) r\<rparr>"

definition disconnect_socket :: "socket \<Rightarrow> socket" where
  "disconnect_socket s = s\<lparr>so_open := False, so_rooms := []\<rparr>"

section \<open>The gateway\<close>

text \<open>How a socket is authenticated at a moment: the tokens accepted, the directory - absent when the
  lookup fails - and whether joining a room works.\<close>

record gateway_env =
  gt_uuid :: "string \<Rightarrow> bool"
  gt_now :: int
  gt_verify :: "string \<Rightarrow> iam_code + string"
  gt_directory :: "directory option"
  gt_joinFails :: bool

definition rejectConnection :: "string \<Rightarrow> string \<Rightarrow> socket \<Rightarrow> socket" where
  "rejectConnection code message s = disconnect_socket (emit_to (AuthError code message) s)"

record handshake =
  hs_accessToken :: string
  hs_workspaceId :: string
  hs_lastSeenEventId :: "string option"

definition RealtimeHandshakeAuthSchema :: "(string \<Rightarrow> bool) \<Rightarrow> json \<Rightarrow> handshake option" where
  "RealtimeHandshakeAuthSchema uuid j = (case (jget j ''accessToken'', jget j ''workspaceId'') of
     (JStr tok, JStr ws) \<Rightarrow>
       if tok \<noteq> [] \<and> ws \<noteq> [] \<and>
         (case jget j ''clientVersion'' of JUndef \<Rightarrow> True | JStr v \<Rightarrow> 1 \<le> length v \<and> length v \<le> 64 | _ \<Rightarrow> False) \<and>
         (case jget j ''lastSeenEventId'' of JUndef \<Rightarrow> True | JStr v \<Rightarrow> uuid v | _ \<Rightarrow> False)
       then Some \<lparr>hs_accessToken = tok, hs_workspaceId = ws, hs_lastSeenEventId = text_option (jget j ''lastSeenEventId'')\<rparr>
       else None
   | _ \<Rightarrow> None)"

definition handleConnection :: "gateway_env \<Rightarrow> json \<Rightarrow> socket \<Rightarrow> socket" where
  "handleConnection env auth s =
     (case RealtimeHandshakeAuthSchema (gt_uuid env) auth of
        None \<Rightarrow> rejectConnection ''TOKEN_MISSING'' ''Invalid or missing handshake authentication.'' s
      | Some h \<Rightarrow>
     (case gt_verify env (hs_accessToken h) of
        Inl _ \<Rightarrow> rejectConnection ''TOKEN_INVALID'' ''Access token is invalid or expired.'' s
      | Inr sub \<Rightarrow>
     (let denied = rejectConnection ''WORKSPACE_ACCESS_DENIED'' ''Actor has no active membership in requested workspace.'' in
      case gt_directory env of None \<Rightarrow> denied s
      | Some dir \<Rightarrow>
     (case resolveActorContext dir sub (Some (hs_workspaceId h)) (''req_'' @ show_int (gt_now env)) None None of
        Inl _ \<Rightarrow> denied s
      | Inr actor \<Rightarrow>
     (case workspaceRoomName (hs_workspaceId h) of Inl _ \<Rightarrow> denied s
      | Inr wsRoom \<Rightarrow>
     (let s' = s\<lparr>so_context := Some \<lparr>sx_actor = actor, sx_authenticatedAt = gt_now env, sx_joinedRooms = [wsRoom]\<rparr>\<rparr> in
      if gt_joinFails env then denied s'
      else emit_to (Resync \<lparr>ry_reason = (if present (hs_lastSeenEventId h) \<noteq> None then ''RECONNECTED'' else ''INITIAL_CONNECTION''),
             ry_resources = [''CONVERSATION_LIST'', ''NOTIFICATIONS''], ry_serverTime = gt_now env, ry_workspaceId = hs_workspaceId h,
             ry_conversationId = None, ry_lastSeenEventId = present (hs_lastSeenEventId h)\<rparr>) (join_room wsRoom s')))))))"

text \<open>The answer of a subscription is its success and the error shown. The conversations are absent
  when the lookup fails.\<close>

definition handleJoinConversation :: "gateway_env \<Rightarrow> conversation list option \<Rightarrow> json \<Rightarrow> socket \<Rightarrow> (bool \<times> string option) \<times> socket" where
  "handleJoinConversation env table payload s =
     (case so_context s of None \<Rightarrow> ((False, Some ''Unauthorized''), s)
      | Some ctx \<Rightarrow>
     (case jget payload ''conversationId'' of
        JStr i \<Rightarrow>
          if i = [] then ((False, Some ''Invalid conversationId''), s)
          else if \<not> hasPermission (ac_permissions (sx_actor ctx)) ''conversation:read''
          then ((False, Some ''Forbidden: missing conversation:read permission''), s)
          else (case table of None \<Rightarrow> ((False, Some ''Failed to join conversation room''), s)
            | Some cs \<Rightarrow>
              if \<not> list_ex (\<lambda>c. cv_id c = i \<and> cv_workspaceId c = ac_workspaceId (sx_actor ctx)) cs then ((False, Some ''Conversation not found''), s)
              else (case conversationRoomName i of Inl _ \<Rightarrow> ((False, Some ''Failed to join conversation room''), s)
                | Inr room \<Rightarrow>
                  if gt_joinFails env then ((False, Some ''Failed to join conversation room''), s)
                  else ((True, None),
                    emit_to (Resync \<lparr>ry_reason = ''INITIAL_CONNECTION'', ry_resources = [''CONVERSATION_DETAIL'', ''MESSAGES''],
                        ry_serverTime = gt_now env, ry_workspaceId = ac_workspaceId (sx_actor ctx), ry_conversationId = Some i, ry_lastSeenEventId = None\<rparr>)
                      ((join_room room s)\<lparr>so_context := Some (ctx\<lparr>sx_joinedRooms := set_add (sx_joinedRooms ctx) room\<rparr>)\<rparr>))))
      | _ \<Rightarrow> ((False, Some ''Invalid conversationId''), s)))"

text \<open>Leaving does not check the type of the id: the pattern and the room name take its text.\<close>

fun room_text :: "json \<Rightarrow> string" where
  "room_text (JStr s) = s"
| "room_text (JNum n) = show_int n"
| "room_text (JBool b) = (if b then ''true'' else ''false'')"
| "room_text (JArr []) = []"
| "room_text (JArr [JNull]) = []"
| "room_text (JArr [x]) = room_text x"
| "room_text (JArr _) = '',''"
| "room_text JNull = ''null''"
| "room_text JUndef = ''undefined''"
| "room_text (JObj _) = ''[object Object]''"

definition handleLeaveConversation :: "json \<Rightarrow> socket \<Rightarrow> bool \<times> socket" where
  "handleLeaveConversation payload s =
     (case so_context s of None \<Rightarrow> (False, s)
      | Some ctx \<Rightarrow>
        if \<not> truthy (jget payload ''conversationId'') then (False, s)
        else (case conversationRoomName (room_text (jget payload ''conversationId'')) of Inl _ \<Rightarrow> (False, s)
          | Inr room \<Rightarrow> (True, s\<lparr>so_rooms := removeAll room (so_rooms s),
              so_context := Some (ctx\<lparr>sx_joinedRooms := remove1 room (sx_joinedRooms ctx)\<rparr>)\<rparr>)))"

section \<open>Origins\<close>

definition isAllowedRealtimeOrigin :: "string option \<Rightarrow> string list \<Rightarrow> bool" where
  "isAllowedRealtimeOrigin origin allowed = (case origin of None \<Rightarrow> True | Some x \<Rightarrow> x \<in> set allowed)"

definition parseCorsAllowedOrigins :: "string \<Rightarrow> string list" where
  "parseCorsAllowedOrigins v = filter (\<lambda>x. x \<noteq> []) (map trim (split_on (CHR '','') v))"

definition allowRealtimeRequest :: "string \<Rightarrow> string option \<Rightarrow> string option \<times> bool" where
  "allowRealtimeRequest setting origin = (let allowed = isAllowedRealtimeOrigin origin (parseCorsAllowedOrigins setting) in
     (if allowed then None else Some ''Origin not allowed'', allowed))"

section \<open>The hub\<close>

text \<open>What happens to the sockets of an instance: handshakes that passed the origin check, requests to join and leave,
  disconnections, and notifications of the database.\<close>

datatype hub_event =
    Connects id gateway_env json
  | Joins id gateway_env "conversation list option" json
  | Leaves id json
  | Disconnects id
  | Notified "string \<Rightarrow> bool" int string "string option"

definition at_socket :: "id \<Rightarrow> (socket \<Rightarrow> socket) \<Rightarrow> socket list \<Rightarrow> socket list" where
  "at_socket i f = update_where (\<lambda>s. so_id s = i \<and> so_open s) f"

definition publish :: "realtime_event \<Rightarrow> socket list \<Rightarrow> socket list" where
  "publish e = update_where (\<lambda>s. so_open s \<and> (\<exists>r\<in>set (re_rooms e). r \<in> set (so_rooms s))) (emit_to (Broadcast e))"

fun hub_step :: "hub_event \<Rightarrow> socket list \<Rightarrow> socket list" where
  "hub_step (Connects i env auth) hub = hub @ [handleConnection env auth (new_socket i)]"
| "hub_step (Joins i env table payload) hub = at_socket i (snd \<circ> handleJoinConversation env table payload) hub"
| "hub_step (Leaves i payload) hub = at_socket i (snd \<circ> handleLeaveConversation payload) hub"
| "hub_step (Disconnects i) hub = at_socket i disconnect_socket hub"
| "hub_step (Notified uuid now eventId payload) hub = (case relay_handle uuid now eventId payload of None \<Rightarrow> hub | Some e \<Rightarrow> publish e hub)"

definition hub_run :: "hub_event list \<Rightarrow> socket list" where
  "hub_run evs = fold hub_step evs []"

section \<open>Who hears what\<close>

text \<open>Every conversation has one workspace for good. Clients name their workspace by its id, as the web
  client does, and the notifications are those the services write.\<close>

definition names_by_id :: "gateway_env \<Rightarrow> json \<Rightarrow> bool" where
  "names_by_id env auth = (case (RealtimeHandshakeAuthSchema (gt_uuid env) auth, gt_directory env) of
     (Some h, Some dir) \<Rightarrow> list_all (\<lambda>k. wk_slug k \<noteq> hs_workspaceId h) (dr_workspaces dir) | _ \<Rightarrow> True)"

fun lawful :: "(id \<Rightarrow> id) \<Rightarrow> hub_event \<Rightarrow> bool" where
  "lawful home (Connects i env auth) = names_by_id env auth"
| "lawful home (Joins i env table payload) = (\<forall>cs. table = Some cs \<longrightarrow> (\<forall>c\<in>set cs. cv_workspaceId c = home (cv_id c)))"
| "lawful home (Notified uuid now eventId payload) = (\<exists>n. payload = Some (notification_text n) \<and> (\<forall>c. nt_conversationId n = Some c \<longrightarrow> home c = nt_workspaceId n))"
| "lawful home _ = True"

text \<open>The rooms of a connected socket: that of the workspace it acts in, and conversations of it.\<close>

definition rooms_ok :: "(id \<Rightarrow> id) \<Rightarrow> socket \<Rightarrow> bool" where
  "rooms_ok home s = (so_open s \<longrightarrow> (\<exists>ctx. so_context s = Some ctx \<and> ''workspace:'' @ ac_workspaceId (sx_actor ctx) \<in> set (so_rooms s) \<and>
     (\<forall>r\<in>set (so_rooms s). r = ''workspace:'' @ ac_workspaceId (sx_actor ctx) \<or>
       (\<exists>c. r = ''conversation:'' @ c \<and> home c = ac_workspaceId (sx_actor ctx)))))"

lemma resolved_workspace:
  assumes "resolveActorContext dir sub (Some w) corr ip ua = Inr a" "list_all (\<lambda>k. wk_slug k \<noteq> w) (dr_workspaces dir)"
  shows "ac_workspaceId a = w"
proof -
  obtain u t m k where t: "target_workspace dir u (Some w) = Inr t" and m: "List.find (\<lambda>m. wm_workspaceId m = t \<and> wm_userProfileId m = up_id u) (dr_memberships dir) = Some m"
    and k: "List.find (\<lambda>k. wk_id k = wm_workspaceId m) (dr_workspaces dir) = Some k" and a: "a = make_actor u k m corr ip ua"
    using assms(1) by (auto simp: resolveActorContext_def split: option.splits sum.splits if_splits)
  have "t = w" using t assms(2) by (auto simp: target_workspace_def list_all_iff find_Some_iff split: option.splits)
  moreover have "wm_workspaceId m = t" "wk_id k = wm_workspaceId m" using m k by (auto simp: find_Some_iff)
  ultimately show ?thesis using a by (simp add: make_actor_def)
qed

lemma room_name [simp]: "workspaceRoomName i = Inr r \<longleftrightarrow> ROOM_ID_PATTERN i \<and> r = ''workspace:'' @ i"
  "conversationRoomName i = Inr r \<longleftrightarrow> ROOM_ID_PATTERN i \<and> r = ''conversation:'' @ i"
  by (auto simp: workspaceRoomName_def conversationRoomName_def assertRoomId_def)

lemma rejected_closed [simp]: "so_open (rejectConnection code message s) = False"
  by (simp add: rejectConnection_def disconnect_socket_def)

lemma rejected_rooms [simp]: "rooms_ok home (rejectConnection code message s)"
  by (simp add: rooms_ok_def)

lemma set_set_add: "set (set_add xs x) = insert x (set xs)"
  by (auto simp: set_add_def)

lemma accepted_rooms:
  assumes "names_by_id env auth" "RealtimeHandshakeAuthSchema (gt_uuid env) auth = Some h" "gt_directory env = Some dir"
    "resolveActorContext dir sub (Some (hs_workspaceId h)) corr None None = Inr a" "workspaceRoomName (hs_workspaceId h) = Inr room"
  shows "rooms_ok home (emit_to x (join_room room ((new_socket i)\<lparr>so_context := Some \<lparr>sx_actor = a, sx_authenticatedAt = t, sx_joinedRooms = rs\<rparr>\<rparr>)))"
proof -
  have "ac_workspaceId a = hs_workspaceId h" using resolved_workspace [OF assms(4)] assms(1-3) by (simp add: names_by_id_def)
  then show ?thesis using assms(5) by (simp add: rooms_ok_def emit_to_def join_room_def new_socket_def set_set_add)
qed

lemma connected_rooms: "names_by_id env auth \<Longrightarrow> rooms_ok home (handleConnection env auth (new_socket i))"
  unfolding handleConnection_def Let_def
  by (simp only: rejected_rooms simp_thms split: option.split sum.split if_split) (blast intro: accepted_rooms)

lemma conversation_joined:
  assumes "rooms_ok home s" "so_context s = Some ctx" "conversationRoomName i = Inr room" "home i = ac_workspaceId (sx_actor ctx)"
  shows "rooms_ok home (emit_to x ((join_room room s)\<lparr>so_context := Some (ctx\<lparr>sx_joinedRooms := rs\<rparr>)\<rparr>))"
proof -
  have "room = ''conversation:'' @ i" using assms(3) by simp
  then show ?thesis using assms(1,2,4) unfolding rooms_ok_def emit_to_def join_room_def by (simp add: set_set_add)
qed

lemma joined_rooms:
  assumes "rooms_ok home s" "\<forall>cs. table = Some cs \<longrightarrow> (\<forall>c\<in>set cs. cv_workspaceId c = home (cv_id c))"
  shows "rooms_ok home (snd (handleJoinConversation env table payload s))"
proof -
  have own: "home i = ac_workspaceId (sx_actor ctx)"
    if "table = Some cs" "list_ex (\<lambda>c. cv_id c = i \<and> cv_workspaceId c = ac_workspaceId (sx_actor ctx)) cs" for cs i ctx
    using that assms(2) by (auto simp: list_ex_iff)
  show ?thesis
  proof (cases "jget payload ''conversationId''")
    case (JStr i)
    show ?thesis unfolding handleJoinConversation_def JStr json.case
      by (simp only: snd_conv assms(1) simp_thms not_not split: option.split sum.split if_split)
        (intro allI impI conjI; rule conversation_joined [OF assms(1)], assumption, assumption, erule (1) own)
  qed (simp_all add: handleJoinConversation_def assms(1) split: option.split)
qed

lemma conversation_left:
  assumes "rooms_ok home s" "so_context s = Some ctx" "conversationRoomName i = Inr room"
  shows "rooms_ok home (s\<lparr>so_rooms := removeAll room (so_rooms s), so_context := Some (ctx\<lparr>sx_joinedRooms := rs\<rparr>)\<rparr>)"
proof -
  have "room = ''conversation:'' @ i" using assms(3) by simp
  then show ?thesis using assms(1,2) unfolding rooms_ok_def by simp
qed

lemma left_rooms: "rooms_ok home s \<Longrightarrow> rooms_ok home (snd (handleLeaveConversation payload s))"
  unfolding handleLeaveConversation_def
  by (simp only: snd_conv simp_thms split: option.split sum.split if_split) (intro allI impI conjI; rule conversation_left, assumption, assumption, assumption)

lemma disconnected_rooms: "rooms_ok home (disconnect_socket s)"
  by (simp add: disconnect_socket_def rooms_ok_def)

lemma emitted_rooms: "rooms_ok home s \<Longrightarrow> rooms_ok home (emit_to e s)"
  by (simp add: emit_to_def rooms_ok_def)

lemma updated_rooms:
  "\<forall>s\<in>set hub. rooms_ok home s \<Longrightarrow> (\<And>s. rooms_ok home s \<Longrightarrow> rooms_ok home (f s)) \<Longrightarrow> \<forall>s\<in>set (update_where P f hub). rooms_ok home s"
  by (induction hub) simp_all

lemma hub_step_rooms:
  assumes "lawful home ev" and hub: "\<forall>s\<in>set hub. rooms_ok home s"
  shows "\<forall>s\<in>set (hub_step ev hub). rooms_ok home s"
proof (cases ev)
  case (Connects i env auth)
  then have "rooms_ok home (handleConnection env auth (new_socket i))" using assms(1) by (intro connected_rooms) (simp only: lawful.simps)
  then show ?thesis using hub unfolding Connects hub_step.simps by simp
next
  case (Joins i env table payload)
  then have "\<And>s. rooms_ok home s \<Longrightarrow> rooms_ok home ((snd \<circ> handleJoinConversation env table payload) s)"
    using assms(1) unfolding comp_def by (intro joined_rooms) (simp_all only: lawful.simps)
  then show ?thesis unfolding Joins hub_step.simps at_socket_def by (rule updated_rooms [OF hub])
next
  case (Leaves i payload)
  show ?thesis unfolding Leaves hub_step.simps at_socket_def comp_def by (rule updated_rooms [OF hub left_rooms])
next
  case (Disconnects i)
  show ?thesis unfolding Disconnects hub_step.simps at_socket_def by (rule updated_rooms [OF hub disconnected_rooms])
next
  case (Notified uuid now eventId payload)
  show ?thesis
  proof (cases "relay_handle uuid now eventId payload")
    case None
    show ?thesis unfolding Notified hub_step.simps None option.case by (rule hub)
  next
    case (Some e)
    show ?thesis unfolding Notified hub_step.simps Some option.case publish_def by (rule updated_rooms [OF hub emitted_rooms])
  qed
qed

lemma hub_run_step: "hub_run (evs @ [ev]) = hub_step ev (hub_run evs)" "hub_run [] = []"
  by (simp_all add: hub_run_def)

lemma hub_rooms: "\<forall>ev\<in>set evs. lawful home ev \<Longrightarrow> \<forall>s\<in>set (hub_run evs). rooms_ok home s"
proof (induction evs rule: rev_induct)
  case Nil
  then show ?case by (simp only: hub_run_step) simp
next
  case (snoc ev evs)
  have "lawful home ev" "\<forall>ev\<in>set evs. lawful home ev" using snoc.prems by auto
  then show ?case using snoc.IH unfolding hub_run_step by (intro hub_step_rooms) assumption+
qed

text \<open>A notification the services write is read back as it was.\<close>

definition as_notification :: "notification \<Rightarrow> realtime_notification" where
  "as_notification n = \<lparr>rn_eventType = nt_eventType n, rn_workspaceId = nt_workspaceId n, rn_conversationId = nt_conversationId n,
     rn_messageId = nt_messageId n, rn_channelId = nt_channelId n, rn_correlationId = None\<rparr>"

lemma notification_read:
  "relay_handle uuid now eventId (Some (notification_text n)) = relay_event uuid now eventId (as_notification n)"
proof -
  define j where "j = JObj ((''eventType'', JStr (nt_eventType n)) # (''workspaceId'', JStr (nt_workspaceId n)) #
     List.map_filter (\<lambda>(k, v). map_option (\<lambda>s. (k, JStr s)) v)
       [(''conversationId'', nt_conversationId n), (''messageId'', nt_messageId n), (''channelId'', nt_channelId n)])"
  have written: "notification_text n = stringify j" by (simp add: notification_text_def j_def)
  have "plain j" unfolding j_def by (cases "nt_conversationId n"; cases "nt_messageId n"; cases "nt_channelId n")
      (simp_all add: map_filter_simps js_object_def array_index_def)
  then have "parse_json (notification_text n) = Some j" unfolding written by (rule plain_text_parsed)
  moreover have "notification_text n \<noteq> []" unfolding written j_def by simp
  moreover have "RealtimeNotificationSchema j = Some (as_notification n)"
    unfolding j_def by (cases "nt_conversationId n"; cases "nt_messageId n"; cases "nt_channelId n")
      (simp_all add: RealtimeNotificationSchema_def as_notification_def map_filter_simps jget_def absent_or_text_def text_option_def)
  ultimately show ?thesis by (cases "notification_text n") (simp_all add: relay_handle_def)
qed

lemma relayed_rooms:
  assumes "relay_event uuid now eventId (as_notification n) = Some e"
  shows "''workspace:'' @ nt_workspaceId n \<in> set (re_rooms e) \<and> re_workspaceId e = nt_workspaceId n \<and>
    (\<forall>r\<in>set (re_rooms e). r = ''workspace:'' @ nt_workspaceId n \<or> (\<exists>c. nt_conversationId n = Some c \<and> r = ''conversation:'' @ c))"
proof -
  have "present x = Some c \<longleftrightarrow> x = Some c \<and> c \<noteq> []" for x and c :: string by (cases x rule: present.cases) auto
  then show ?thesis using assms
    by (auto simp: relay_event_def notification_rooms_def as_notification_def createRealtimeEvent_def bindR_Inr_iff split: sum.splits option.splits if_splits)
qed

lemma realtime_heard:
  assumes "\<forall>ev\<in>set evs. lawful home ev"
    "relay_handle uuid now eventId (Some (notification_text n)) = Some e"
    and home: "\<forall>c. nt_conversationId n = Some c \<longrightarrow> home c = nt_workspaceId n"
  shows "hub_run (evs @ [Notified uuid now eventId (Some (notification_text n))]) =
    map (\<lambda>s. if so_open s \<and> (\<exists>ctx. so_context s = Some ctx \<and> ac_workspaceId (sx_actor ctx) = nt_workspaceId n)
      then emit_to (Broadcast e) s else s) (hub_run evs) \<and> re_workspaceId e = nt_workspaceId n"
proof -
  have e: "relay_event uuid now eventId (as_notification n) = Some e" using assms(2) by (simp add: notification_read)
  have hears: "(so_open s \<and> (\<exists>r\<in>set (re_rooms e). r \<in> set (so_rooms s))) \<longleftrightarrow>
      so_open s \<and> (\<exists>ctx. so_context s = Some ctx \<and> ac_workspaceId (sx_actor ctx) = nt_workspaceId n)" if s: "s \<in> set (hub_run evs)" for s
  proof (cases "so_open s")
    case True
    then obtain ctx where ctx: "so_context s = Some ctx" "''workspace:'' @ ac_workspaceId (sx_actor ctx) \<in> set (so_rooms s)"
      "\<And>r. r \<in> set (so_rooms s) \<Longrightarrow> r = ''workspace:'' @ ac_workspaceId (sx_actor ctx) \<or>
       (\<exists>c. r = ''conversation:'' @ c \<and> home c = ac_workspaceId (sx_actor ctx))"
      using hub_rooms [OF assms(1)] s by (auto simp: rooms_ok_def)
    have "\<exists>r\<in>set (re_rooms e). r \<in> set (so_rooms s)" if "ac_workspaceId (sx_actor ctx) = nt_workspaceId n"
      using relayed_rooms [OF e] ctx(2) that by auto
    moreover have "ac_workspaceId (sx_actor ctx) = nt_workspaceId n" if r: "r \<in> set (re_rooms e)" "r \<in> set (so_rooms s)" for r
      using relayed_rooms [OF e] ctx(3) [OF r(2)] r(1) home by fastforce
    ultimately show ?thesis using ctx(1) by auto
  qed simp
  have "hub_run (evs @ [Notified uuid now eventId (Some (notification_text n))]) = publish e (hub_run evs)"
    using assms(2) by (simp add: hub_run_def)
  also have "\<dots> = map (\<lambda>s. if so_open s \<and> (\<exists>ctx. so_context s = Some ctx \<and> ac_workspaceId (sx_actor ctx) = nt_workspaceId n)
      then emit_to (Broadcast e) s else s) (hub_run evs)"
    unfolding publish_def update_where_def using hears by (intro map_cong refl) auto
  finally show ?thesis using relayed_rooms [OF e] by simp
qed

text \<open>C12: Whatever clients do - connect with any token, join and leave, disconnect - a notification that becomes
  an event reaches exactly the connected sockets of actors of its workspace, each once, and no socket of
  another workspace, provided that clients name their workspace by its id and a conversation stays in
  its workspace.
\<close>

theorem realtime_exact:
  assumes "\<forall>ev\<in>set evs. lawful home ev"
    "relay_handle uuid now eventId (Some (notification_text n)) = Some e"
    and home: "\<forall>c. nt_conversationId n = Some c \<longrightarrow> home c = nt_workspaceId n"
  shows "hub_run (evs @ [Notified uuid now eventId (Some (notification_text n))]) =
    map (\<lambda>s. if so_open s \<and> (\<exists>ctx. so_context s = Some ctx \<and> ac_workspaceId (sx_actor ctx) = nt_workspaceId n)
      then emit_to (Broadcast e) s else s) (hub_run evs) \<and> re_workspaceId e = nt_workspaceId n"
  using realtime_heard [OF assms(1,2)] home by blast

section \<open>Examples\<close>

definition demo_workspace :: "id \<Rightarrow> string \<Rightarrow> workspace" where
  "demo_workspace i slug = \<lparr>wk_id = i, wk_name = slug, wk_slug = slug, wk_timezone = ''UTC'', wk_deletedAt = None\<rparr>"

text \<open>Ann works in the workspace \<open>w1\<close> and Bo in \<open>w2\<close>; a token is the subject it was issued for.\<close>

definition demo_person :: "id \<Rightarrow> user_profile" where
  "demo_person i = \<lparr>up_id = i, up_supabaseAuthId = i, up_email = i @ ''@x'', up_displayName = i, up_avatarUrl = None, up_isActive = True, up_deletedAt = None\<rparr>"

definition demo_membership :: "id \<Rightarrow> id \<Rightarrow> workspace_membership" where
  "demo_membership u w = \<lparr>wm_id = u @ w, wm_workspaceId = w, wm_userProfileId = u, wm_status = MActive, wm_deletedAt = None, wm_roles = [], wm_teams = []\<rparr>"

definition demo_directory :: "string \<Rightarrow> directory" where
  "demo_directory slug = \<lparr>dr_users = [demo_person ''ann'', demo_person ''bo''], dr_workspaces = [demo_workspace ''w2'' slug, demo_workspace ''w1'' ''acme''],
     dr_memberships = [demo_membership ''ann'' ''w1'', demo_membership ''bo'' ''w2'']\<rparr>"

definition demo_gateway :: "string \<Rightarrow> gateway_env" where
  "demo_gateway slug = \<lparr>gt_uuid = (\<lambda>_. True), gt_now = 0, gt_verify = (\<lambda>t. Inr t), gt_directory = Some (demo_directory slug), gt_joinFails = False\<rparr>"

definition demo_handshake :: "id \<Rightarrow> id \<Rightarrow> json" where
  "demo_handshake u w = JObj [(''accessToken'', JStr u), (''workspaceId'', JStr w)]"

definition demo_news :: notification where
  "demo_news = notice ''conversation.updated'' ''w1'' None None None"

definition demo_event :: realtime_event where
  "demo_event = \<lparr>re_eventId = ''e1'', re_eventType = ''conversation.updated'', re_workspaceId = ''w1'', re_rooms = [''workspace:w1''],
     re_occurredAt = toISOString 0, re_emittedAt = toISOString 0, re_correlationId = ''realtime-relay'', re_payload = []\<rparr>"

lemma demo_relayed: "relay_handle (\<lambda>_. True) 0 ''e1'' (Some (notification_text demo_news)) = Some demo_event"
proof -
  have "RealtimeEventTypeSchema ''conversation.updated''" "RealtimeRoomNameSchema ''workspace:w1''" "ROOM_ID_PATTERN ''w1''" by code_simp+
  then show ?thesis unfolding notification_read
    by (simp add: relay_event_def notification_rooms_def as_notification_def demo_news_def notice_def createRealtimeEvent_def demo_event_def
        map_filter_simps workspaceRoomName_def assertRoomId_def)
qed

definition demo_socket :: "string \<Rightarrow> id \<Rightarrow> id \<Rightarrow> socket" where
  "demo_socket slug u w = handleConnection (demo_gateway slug) (demo_handshake u w) (new_socket u)"

definition acts_in :: "socket \<Rightarrow> id option" where
  "acts_in s = map_option (\<lambda>c. ac_workspaceId (sx_actor c)) (so_context s)"

definition heard :: "socket \<Rightarrow> bool" where
  "heard s = list_ex (\<lambda>e. case e of Broadcast _ \<Rightarrow> True | _ \<Rightarrow> False) (so_sent s)"

lemma demo_ann: "so_open (demo_socket ''beta'' ''ann'' ''w1'') \<and> acts_in (demo_socket ''beta'' ''ann'' ''w1'') = Some ''w1''"
  by code_simp

lemma demo_bo: "acts_in (demo_socket ''beta'' ''bo'' ''w2'') = Some ''w2'' \<and> \<not> heard (demo_socket ''beta'' ''bo'' ''w2'')"
  by code_simp

lemma demo_named: "names_by_id (demo_gateway ''beta'') (demo_handshake ''ann'' ''w1'')" "names_by_id (demo_gateway ''beta'') (demo_handshake ''bo'' ''w2'')"
  by code_simp+

text \<open>Ann hears the news of her workspace, Bo does not.\<close>

theorem realtime_exact_witness:
  "\<exists>s t. hub_run ([Connects ''ann'' (demo_gateway ''beta'') (demo_handshake ''ann'' ''w1''), Connects ''bo'' (demo_gateway ''beta'') (demo_handshake ''bo'' ''w2'')] @
      [Notified (\<lambda>_. True) 0 ''e1'' (Some (notification_text demo_news))]) = [s, t] \<and> heard s \<and> \<not> heard t"
proof -
  let ?evs = "[Connects ''ann'' (demo_gateway ''beta'') (demo_handshake ''ann'' ''w1''), Connects ''bo'' (demo_gateway ''beta'') (demo_handshake ''bo'' ''w2'')]"
  have run: "hub_run ?evs = [demo_socket ''beta'' ''ann'' ''w1'', demo_socket ''beta'' ''bo'' ''w2'']" by (simp add: hub_run_def demo_socket_def)
  have "\<forall>ev\<in>set ?evs. lawful (\<lambda>_. ''w1'') ev" using demo_named by simp
  then have "hub_run (?evs @ [Notified (\<lambda>_. True) 0 ''e1'' (Some (notification_text demo_news))]) =
      [emit_to (Broadcast demo_event) (demo_socket ''beta'' ''ann'' ''w1''), demo_socket ''beta'' ''bo'' ''w2'']"
    using realtime_exact [of ?evs "\<lambda>_. ''w1''" "\<lambda>_. True" 0 "''e1''" demo_news demo_event] demo_relayed demo_ann demo_bo
    by (auto simp: run demo_news_def notice_def acts_in_def)
  then show ?thesis using demo_bo by (simp add: heard_def emit_to_def)
qed

text \<open>The room is named by the text the client sent, but the workspace is also found by its slug. When the slug
  of one workspace is the id of another, a member of the first hears the news of the second.\<close>

lemma slug_hears_other_workspace:
  "acts_in (demo_socket ''w1'' ''bo'' ''w1'') = Some ''w2'' \<and>
   hub_run [Connects ''bo'' (demo_gateway ''w1'') (demo_handshake ''bo'' ''w1''), Notified (\<lambda>_. True) 0 ''e1'' (Some (notification_text demo_news))] =
     [emit_to (Broadcast demo_event) (demo_socket ''w1'' ''bo'' ''w1'')]"
proof -
  have "acts_in (demo_socket ''w1'' ''bo'' ''w1'') = Some ''w2'' \<and> so_open (demo_socket ''w1'' ''bo'' ''w1'') \<and>
      ''workspace:w1'' \<in> set (so_rooms (demo_socket ''w1'' ''bo'' ''w1''))" by code_simp
  then show ?thesis using demo_relayed by (simp add: hub_run_def publish_def demo_socket_def) (simp add: demo_event_def)
qed

end
