(* ===== verification/RealtimeClient.thy ===== *)
theory RealtimeClient
  imports Realtime
begin

text \<open>
  Both ends of the realtime channel beside the gateway: the database listener of the relay with its
  reconnection (\<open>apps/api/src/realtime/realtime-relay.service.ts\<close>) as a step relation, and the
  connection manager of the web client (\<open>apps/web/src/lib/realtime/realtime-client.ts\<close>). The PostgreSQL driver and
  the Socket.IO client are the environment: their events arrive in any order they document.
\<close>

section \<open>The listener\<close>

text \<open>Connection attempts under way and open connections are numbered; the service itself only
  remembers one.\<close>

record relay =
  rl_client :: "nat option"
  rl_timer :: "int option"
  rl_stopped :: bool
  rl_attempt :: nat
  rl_started :: nat
  rl_connecting :: "nat list"
  rl_live :: "nat list"

definition relay_connect :: "relay \<Rightarrow> relay" where
  "relay_connect s = s\<lparr>rl_connecting := rl_connecting s @ [rl_started s], rl_started := Suc (rl_started s)\<rparr>"

definition reconnect_delay :: "nat \<Rightarrow> int" where
  "reconnect_delay attempt = min 30000 (1000 * 2 ^ attempt)"

definition scheduleReconnect :: "int \<Rightarrow> relay \<Rightarrow> relay" where
  "scheduleReconnect now s = (if rl_stopped s \<or> rl_timer s \<noteq> None then s
     else s\<lparr>rl_client := None, rl_timer := Some (now + reconnect_delay (rl_attempt s)), rl_attempt := Suc (rl_attempt s)\<rparr>)"

definition relay_listening :: "nat \<Rightarrow> relay \<Rightarrow> relay" where
  "relay_listening c s = s\<lparr>rl_connecting := removeAll c (rl_connecting s), rl_live := rl_live s @ [c], rl_client := Some c, rl_attempt := 0\<rparr>"

definition connect_failed :: "int \<Rightarrow> nat \<Rightarrow> relay \<Rightarrow> relay" where
  "connect_failed now c s = scheduleReconnect now (s\<lparr>rl_connecting := removeAll c (rl_connecting s)\<rparr>)"

definition connection_ended :: "int \<Rightarrow> nat \<Rightarrow> relay \<Rightarrow> relay" where
  "connection_ended now c s = scheduleReconnect now (s\<lparr>rl_live := removeAll c (rl_live s)\<rparr>)"

definition timer_fired :: "relay \<Rightarrow> relay" where
  "timer_fired s = relay_connect (s\<lparr>rl_timer := None\<rparr>)"

definition relay_destroy :: "relay \<Rightarrow> relay" where
  "relay_destroy s = s\<lparr>rl_stopped := True, rl_timer := None, rl_client := None,
     rl_live := (case rl_client s of Some c \<Rightarrow> removeAll c (rl_live s) | None \<Rightarrow> rl_live s)\<rparr>"

definition relay_start :: relay where
  "relay_start = relay_connect \<lparr>rl_client = None, rl_timer = None, rl_stopped = False, rl_attempt = 0, rl_started = 0, rl_connecting = [], rl_live = []\<rparr>"

text \<open>An open connection may report an error before it ends.\<close>

inductive relay_step :: "relay \<Rightarrow> relay \<Rightarrow> bool" where
  listening: "c \<in> set (rl_connecting s) \<Longrightarrow> relay_step s (relay_listening c s)"
| failed: "c \<in> set (rl_connecting s) \<Longrightarrow> relay_step s (connect_failed now c s)"
| broken: "c \<in> set (rl_live s) \<Longrightarrow> relay_step s (scheduleReconnect now s)"
| ended: "c \<in> set (rl_live s) \<Longrightarrow> relay_step s (connection_ended now c s)"
| fired: "rl_timer s = Some t \<Longrightarrow> relay_step s (timer_fired s)"
| destroyed: "relay_step s (relay_destroy s)"

inductive relay_reachable :: "relay \<Rightarrow> bool" where
  start: "relay_reachable relay_start"
| step: "relay_reachable s \<Longrightarrow> relay_step s t \<Longrightarrow> relay_reachable t"

inductive_cases relay_stepE: "relay_step s t"

definition on_its_way :: "relay \<Rightarrow> bool" where
  "on_its_way s = (\<not> rl_stopped s \<longrightarrow> rl_timer s \<noteq> None \<or> rl_connecting s \<noteq> [] \<or> rl_live s \<noteq> [])"

lemma scheduled: "on_its_way (scheduleReconnect now s)" "rl_stopped (scheduleReconnect now s) = rl_stopped s"
  by (auto simp: on_its_way_def scheduleReconnect_def)

lemma relay_step_way: "relay_step s t \<Longrightarrow> on_its_way s \<Longrightarrow> on_its_way t"
  by (erule relay_stepE)
    (auto simp: scheduled connect_failed_def connection_ended_def on_its_way_def relay_listening_def timer_fired_def relay_connect_def relay_destroy_def
      scheduleReconnect_def)


text \<open>A connection that reports an error and ends only after the next attempt has begun schedules another
  one: two listeners are then open, each notification is published twice, and stopping the service ends
  only one of them.\<close>

definition relay_twice :: relay where
  "relay_twice = relay_listening 2 (timer_fired (relay_listening 1 (connection_ended 1500 0 (timer_fired (scheduleReconnect 0 (relay_listening 0 relay_start))))))"

lemma late_end_doubles_listener: "relay_reachable relay_twice \<and> rl_live relay_twice = [1, 2] \<and> rl_live (relay_destroy relay_twice) = [1]"
proof -
  let ?a = "relay_listening 0 relay_start"
  let ?b = "timer_fired (scheduleReconnect 0 ?a)"
  let ?c = "relay_listening 1 (connection_ended 1500 0 ?b)"
  note defs = relay_start_def relay_connect_def relay_listening_def scheduleReconnect_def timer_fired_def connection_ended_def reconnect_delay_def
  have "relay_reachable ?a" by (rule relay_reachable.step [OF relay_reachable.start listening]) (simp add: defs)
  then have "relay_reachable (scheduleReconnect 0 ?a)" by (rule relay_reachable.step, intro broken [of 0]) (simp add: defs)
  then have "relay_reachable ?b" by (rule relay_reachable.step, intro fired [of _ 1000]) (simp add: defs)
  then have "relay_reachable (connection_ended 1500 0 ?b)" by (rule relay_reachable.step, intro ended) (simp add: defs)
  then have "relay_reachable ?c" by (rule relay_reachable.step, intro listening) (simp add: defs)
  then have "relay_reachable (timer_fired ?c)" by (rule relay_reachable.step, intro fired [of _ 3500]) (simp add: defs)
  then have "relay_reachable relay_twice" unfolding relay_twice_def by (rule relay_reachable.step, intro listening) (simp add: defs)
  then show ?thesis by (simp add: relay_twice_def relay_destroy_def defs)
qed


section \<open>The web client\<close>

datatype connection_status = Connecting | Connected | Disconnected | Reconnecting | AuthFailed

text \<open>The manager's fields, the workspaces and last event ids it sent in handshakes, the query keys it
  invalidated and the statuses its listeners were told.\<close>

record rt_manager =
  rm_socket :: bool
  rm_status :: connection_status
  rm_lastSeenEventId :: "string option"
  rm_currentWorkspaceId :: "id option"
  rm_queryClient :: bool
  rm_handshakes :: "(string \<times> id \<times> string option) list"
  rm_invalidated :: "string list list"
  rm_told :: "connection_status list"
  rm_authErrors :: "(string \<times> string) list"
  rm_events :: "realtime_event list"

definition new_manager :: rt_manager where
  "new_manager = \<lparr>rm_socket = False, rm_status = Disconnected, rm_lastSeenEventId = None, rm_currentWorkspaceId = None, rm_queryClient = False,
     rm_handshakes = [], rm_invalidated = [], rm_told = [], rm_authErrors = [], rm_events = []\<rparr>"

definition set_status :: "connection_status \<Rightarrow> rt_manager \<Rightarrow> rt_manager" where
  "set_status st m = m\<lparr>rm_status := st, rm_told := rm_told m @ [st]\<rparr>"

text \<open>Closing an open socket makes it report its disconnection first.\<close>

definition client_disconnect :: "bool \<Rightarrow> rt_manager \<Rightarrow> rt_manager" where
  "client_disconnect wasOpen m = set_status Disconnected
     ((if rm_socket m \<and> wasOpen then set_status Reconnecting m else m)\<lparr>rm_socket := False\<rparr>)"

definition client_connect :: "bool \<Rightarrow> string \<Rightarrow> id \<Rightarrow> rt_manager \<Rightarrow> rt_manager" where
  "client_connect wasOpen accessToken workspaceId m =
     (if rm_socket m \<and> rm_currentWorkspaceId m = Some workspaceId \<and> rm_status m = Connected then m
      else let m1 = set_status Connecting ((client_disconnect wasOpen m)\<lparr>rm_currentWorkspaceId := Some workspaceId, rm_queryClient := True\<rparr>)
        in m1\<lparr>rm_socket := True, rm_handshakes := rm_handshakes m1 @ [(accessToken, workspaceId, present (rm_lastSeenEventId m1))]\<rparr>)"

definition invalidate :: "string list list \<Rightarrow> rt_manager \<Rightarrow> rt_manager" where
  "invalidate ks m = (if rm_queryClient m then m\<lparr>rm_invalidated := rm_invalidated m @ ks\<rparr> else m)"

definition resource_keys :: "string \<Rightarrow> string option \<Rightarrow> string list list" where
  "resource_keys resource conversationId =
     (if resource = ''CONVERSATION_LIST'' then [[''conversations'']]
      else if resource = ''CONVERSATION_DETAIL'' then (case present conversationId of Some c \<Rightarrow> [[''conversations'', c]] | None \<Rightarrow> [[''conversations'']])
      else if resource = ''MESSAGES'' then (case present conversationId of Some c \<Rightarrow> [[''messages'', c]] | None \<Rightarrow> [])
      else if resource = ''NOTIFICATIONS'' then [[''notifications'']]
      else if resource = ''ASSIGNMENTS'' then [[''assignments'']] else [])"

definition handleResync :: "resync \<Rightarrow> rt_manager \<Rightarrow> rt_manager" where
  "handleResync i = invalidate (concat (map (\<lambda>r. resource_keys r (ry_conversationId i)) (ry_resources i)))"

definition event_keys :: "string \<Rightarrow> realtime_event \<Rightarrow> string list list" where
  "event_keys eventType e =
     (if startsWith eventType ''channel.'' then [[''channels'']]
      else if startsWith eventType ''conversation.'' then [''conversations''] #
        (case map_of (re_payload e) ''conversationId'' of Some (JStr c) \<Rightarrow> (if c = [] then [] else [[''conversations'', c], [''messages'', c]]) | _ \<Rightarrow> [])
      else [])"

datatype client_event =
    SocketConnected
  | SocketDisconnected string
  | SocketConnectError
  | SocketAuthError string string
  | SocketResync resync
  | SocketEvent string realtime_event

fun client_step :: "client_event \<Rightarrow> rt_manager \<Rightarrow> rt_manager" where
  "client_step SocketConnected m = set_status Connected m"
| "client_step (SocketDisconnected reason) m = set_status (if reason = ''io server disconnect'' then AuthFailed else Reconnecting) m"
| "client_step SocketConnectError m = set_status Reconnecting m"
| "client_step (SocketAuthError code message) m = (let m' = set_status AuthFailed m in m'\<lparr>rm_authErrors := rm_authErrors m' @ [(code, message)]\<rparr>)"
| "client_step (SocketResync i) m = handleResync i m"
| "client_step (SocketEvent eventType e) m = (if CHR ''.'' \<in> set eventType
     then let m1 = (if re_eventId e \<noteq> [] then m\<lparr>rm_lastSeenEventId := Some (re_eventId e)\<rparr> else m);
              m2 = invalidate (event_keys eventType e) m1
          in m2\<lparr>rm_events := rm_events m2 @ [e]\<rparr>
     else m)"

text \<open>A subscription is only asked for while connected; the answer is the server's.\<close>

definition client_join :: "rt_manager \<Rightarrow> bool \<Rightarrow> bool" where
  "client_join m answer = (if \<not> rm_socket m \<or> rm_status m \<noteq> Connected then False else answer)"

text \<open>What a socket was sent, as the client takes it.\<close>

fun as_client_event :: "emission \<Rightarrow> client_event" where
  "as_client_event (AuthError code message) = SocketAuthError code message"
| "as_client_event (Resync i) = SocketResync i"
| "as_client_event (Broadcast e) = SocketEvent (re_eventType e) e"

section \<open>From a change to the screen\<close>

lemma event_type_dotted: "RealtimeEventTypeSchema ty \<Longrightarrow> CHR ''.'' \<in> set ty"
proof (rule ccontr)
  assume "RealtimeEventTypeSchema ty" "CHR ''.'' \<notin> set ty"
  then show False using split_on_no_sep [of "CHR ''.''" ty] by (simp add: RealtimeEventTypeSchema_def)
qed

lemma relayed_event:
  assumes "relay_event uuid now eventId (as_notification n) = Some e"
  shows "re_eventType e = nt_eventType n" "RealtimeEventTypeSchema (nt_eventType n)" "re_eventId e = eventId"
    "map_of (re_payload e) ''conversationId'' = map_option JStr (present (nt_conversationId n))"
  using assms by (auto simp: relay_event_def createRealtimeEvent_def as_notification_def map_filter_simps split: sum.splits option.splits if_splits)

lemma invalidated [simp]: "rm_queryClient m \<Longrightarrow> rm_invalidated (invalidate ks m) = rm_invalidated m @ ks"
  by (simp add: invalidate_def)


definition demo_change :: notification where
  "demo_change = notice ''conversation.updated'' ''w1'' (Some ''c1'') None None"

lemma demo_change_relayed: "\<exists>e. relay_handle (\<lambda>_. True) 0 ''e1'' (Some (notification_text demo_change)) = Some e"
proof -
  have "RealtimeEventTypeSchema ''conversation.updated''" "RealtimeRoomNameSchema ''workspace:w1''" "RealtimeRoomNameSchema ''conversation:c1''"
    "ROOM_ID_PATTERN ''w1''" "ROOM_ID_PATTERN ''c1''" by code_simp+
  then show ?thesis unfolding notification_read
    by (simp add: relay_event_def notification_rooms_def as_notification_def demo_change_def notice_def createRealtimeEvent_def
        map_filter_simps workspaceRoomName_def conversationRoomName_def assertRoomId_def)
qed


text \<open>The last event seen is kept when the workspace changes: the handshake for the new workspace names an
  event of the old one, and the server takes a first connection for a reconnection.\<close>

lemma last_event_of_other_workspace:
  "rm_handshakes (client_connect True ''t'' ''w2'' (client_step (SocketEvent ''conversation.updated'' demo_event) (client_step SocketConnected
     (client_connect True ''t'' ''w1'' new_manager)))) = [(''t'', ''w1'', None), (''t'', ''w2'', Some ''e1'')]"
  by (simp add: client_connect_def client_disconnect_def set_status_def new_manager_def demo_event_def invalidate_def Let_def)

end
