(* ===== verification/PreviewText.thy ===== *)
theory PreviewText
  imports Iam
begin

text \<open>
  Text matching of the preview engine, \<open>apps/web/src/lib/ai-agents/preview-engine.ts\<close> (tokens, languages,
  condition lines) and \<open>knowledge.ts\<close> (\<open>htmlToText\<close>). These texts leave the characters below 256, so they are
  lists of Unicode code points here; characters beyond the basic plane count as one. Case mapping and
  the letters and numbers of Unicode are arguments.
\<close>

section \<open>Texts\<close>

type_synonym utext = "nat list"

definition u :: "string \<Rightarrow> utext" where
  "u s = map of_char s"

record unicode =
  un_lower :: "utext \<Rightarrow> utext"
  un_wordChar :: "nat \<Rightarrow> bool"

text \<open>The white space of JavaScript.\<close>

definition u_space :: "nat \<Rightarrow> bool" where
  "u_space c = (c \<in> {9, 10, 11, 12, 13, 32, 160, 5760, 8232, 8233, 8239, 8287, 12288, 65279} \<or> 8192 \<le> c \<and> c \<le> 8202)"

definition u_trimEnd :: "utext \<Rightarrow> utext" where
  "u_trimEnd s = rev (dropWhile u_space (rev s))"

definition u_trim :: "utext \<Rightarrow> utext" where
  "u_trim s = u_trimEnd (dropWhile u_space s)"

fun u_split :: "nat \<Rightarrow> utext \<Rightarrow> utext list" where
  "u_split c [] = [[]]"
| "u_split c (x # xs) = (if x = c then [] # u_split c xs else (case u_split c xs of [] \<Rightarrow> [[x]] | y # ys \<Rightarrow> (x # y) # ys))"

fun u_join :: "utext \<Rightarrow> utext list \<Rightarrow> utext" where
  "u_join sep [] = []"
| "u_join sep [s] = s"
| "u_join sep (s # t # ss) = s @ sep @ u_join sep (t # ss)"

fun u_includes :: "utext \<Rightarrow> utext \<Rightarrow> bool" where
  "u_includes [] p = (p = [])"
| "u_includes (c # s) p = (take (length p) (c # s) = p \<or> u_includes s p)"

definition uniq :: "'a list \<Rightarrow> 'a list" where
  "uniq xs = foldl set_add [] xs"

definition nonempty_texts :: "'a list list \<Rightarrow> 'a list list" where
  "nonempty_texts = filter (\<lambda>x. x \<noteq> [])"

section \<open>Words\<close>

definition u_words :: "string \<Rightarrow> utext list" where
  "u_words s = nonempty_texts (map u (split_on (CHR '' '') s))"

definition STOPWORDS :: "utext list" where
  "STOPWORDS = u_words ''yang dan di ke dari untuk dengan atau ini itu ada saya aku kamu kita kami dia mereka kak kakak'' @
     u_words ''customer pelanggan pembeli user pengguna ketika saat jika kalau apabila bila ingin mau meminta minta'' @
     u_words ''menanyakan tanya bertanya nanya apa apakah berapa bagaimana gimana kapan dimana mana siapa kenapa'' @
     u_words ''bisa boleh tolong mohon dong ya sih nih deh kah lah juga sudah belum akan lagi saja aja pun oleh'' @
     u_words ''pada dalam agar supaya tapi tetapi karena jadi label pindahkan ubah status nya'' @
     u_words ''hari sekarang besok kemarin nanti tadi'' @
     u_words ''the a an and or to of in on at for with from by is are was were be been it this that these those'' @
     u_words ''i you he she we they my your our their me us asks ask asking wants want when if then please can'' @
     u_words ''could would should do does did what how where which who why much many any some move set apply'' @
     u_words ''today now tomorrow yesterday''"

definition GREETINGS :: "utext list" where
  "GREETINGS = u_words ''halo hallo helo hai hi hello hey pagi siang sore malam selamat permisi assalamualaikum salam p min gan sis kak good morning afternoon evening''"

definition ID_MARKERS :: "utext list" where
  "ID_MARKERS = u_words ''apa apakah berapa bagaimana gimana bisa saya aku kak mau ingin dong ya yang dan ini itu ada tidak gak nggak enggak harga kirim terima kasih makasih halo selamat pagi siang sore malam barang beli bayar sama''"

definition EN_MARKERS :: "utext list" where
  "EN_MARKERS = u_words ''what how when where can could would is are do does the you your my i price hello hi thanks thank please want need''"

text \<open>The runs of letters and numbers, split at everything else.\<close>

fun runs :: "(nat \<Rightarrow> bool) \<Rightarrow> utext \<Rightarrow> utext \<Rightarrow> utext list" where
  "runs p cur [] = [rev cur]"
| "runs p cur (c # s) = (if p c then runs p (c # cur) s else rev cur # runs p [] s)"

definition tokenize :: "unicode \<Rightarrow> utext \<Rightarrow> utext list" where
  "tokenize un txt = filter (\<lambda>t. 2 \<le> length t) (runs (un_wordChar un) [] (un_lower un txt))"

definition contentTokens :: "unicode \<Rightarrow> utext \<Rightarrow> utext list" where
  "contentTokens un txt = uniq (filter (\<lambda>t. t \<notin> set STOPWORDS \<and> t \<notin> set GREETINGS) (tokenize un txt))"

definition tokensMatch :: "utext \<Rightarrow> utext \<Rightarrow> bool" where
  "tokensMatch a b = (if a = b then True else if min (length a) (length b) < 4 then False else u_includes a b \<or> u_includes b a)"

definition hasToken :: "utext list \<Rightarrow> utext \<Rightarrow> bool" where
  "hasToken tokens keyword = list_ex (\<lambda>t. tokensMatch t keyword) tokens"

datatype chat_language = Indonesian | English

definition detectLanguage :: "unicode \<Rightarrow> utext \<Rightarrow> chat_language" where
  "detectLanguage un txt = (let ts = tokenize un txt in
     if count_where (\<lambda>t. t \<in> set EN_MARKERS) ts > count_where (\<lambda>t. t \<in> set ID_MARKERS) ts then English else Indonesian)"

section \<open>Conditions\<close>

text \<open>\<open>/\n|(?<=\.)\s+/\<close>: a line feed, or white space after a full stop.\<close>

function condition_split :: "bool \<Rightarrow> utext \<Rightarrow> utext \<Rightarrow> utext list" where
  "condition_split dot cur [] = [rev cur]"
| "condition_split dot cur (c # s) =
     (if c = 10 then rev cur # condition_split False [] s
      else if dot \<and> u_space c then rev cur # condition_split False [] (dropWhile u_space s)
      else condition_split (c = 46) (c # cur) s)"
  by pat_completeness auto
termination
  by (relation "measure (\<lambda>(_, _, s). length s)") (auto simp: less_Suc_eq_le length_dropWhile_le)

definition conditionLines :: "utext \<Rightarrow> utext list" where
  "conditionLines txt = nonempty_texts (map u_trim (condition_split False [] txt))"

definition lineMatches :: "unicode \<Rightarrow> utext \<Rightarrow> utext list \<Rightarrow> utext list \<Rightarrow> bool" where
  "lineMatches un line messageTokens exclude =
     (let keywords = filter (\<lambda>k. k \<notin> set exclude) (contentTokens un line);
          hits = count_where (hasToken messageTokens) keywords
      in if keywords = [] then False else hits \<ge> (if length keywords \<le> 3 then 1 else 2))"

definition matchesConditions :: "unicode \<Rightarrow> utext \<Rightarrow> utext list \<Rightarrow> bool" where
  "matchesConditions un conditions messageTokens = list_ex (\<lambda>line. lineMatches un line messageTokens []) (conditionLines conditions)"

definition actionMatches :: "unicode \<Rightarrow> utext \<Rightarrow> utext \<Rightarrow> utext list \<Rightarrow> bool" where
  "actionMatches un name conditions messageTokens =
     (let lines = filter (\<lambda>line. u_includes (un_lower un line) (un_lower un name)) (conditionLines conditions) in
      if lines = [] then lineMatches un name messageTokens []
      else list_ex (\<lambda>line. lineMatches un line messageTokens (tokenize un name)) lines)"

section \<open>Thanks\<close>

definition ascii_lower :: "nat \<Rightarrow> nat" where
  "ascii_lower c = (if 65 \<le> c \<and> c \<le> 90 then c + 32 else c)"

definition ascii_word_char :: "nat \<Rightarrow> bool" where
  "ascii_word_char c = (48 \<le> c \<and> c \<le> 57 \<or> 65 \<le> c \<and> c \<le> 90 \<or> 97 \<le> c \<and> c \<le> 122 \<or> c = 95)"

definition thanks_words :: "utext list" where
  "thanks_words = map u [''terima kasih'', ''terimakasih'', ''makasih'', ''thanks'', ''thank you'', ''thx'', ''tq'']"

text \<open>The first word of thanks at a word boundary that another boundary follows, and the text without it.\<close>

fun cut_thanks :: "bool \<Rightarrow> utext \<Rightarrow> utext option" where
  "cut_thanks inWord [] = None"
| "cut_thanks inWord (c # s) =
     (case (if inWord then None else List.find (\<lambda>w. map ascii_lower (take (length w) (c # s)) = w \<and>
          (drop (length w) (c # s) = [] \<or> \<not> ascii_word_char (hd (drop (length w) (c # s))))) thanks_words) of
        Some w \<Rightarrow> Some (drop (length w) (c # s))
      | None \<Rightarrow> map_option ((#) c) (cut_thanks (ascii_word_char c) s))"

section \<open>HTML\<close>

text \<open>A tag to replace by a line feed at the front of a text, and what follows it:
  \<open>/<br\s*\/?>/i\<close> and \<open>/<\/(div|p|li|h[1-6])>/i\<close>.\<close>

definition strip_text :: "utext \<Rightarrow> utext \<Rightarrow> utext option" where
  "strip_text p s = (if map ascii_lower (take (length p) s) = p then Some (drop (length p) s) else None)"

definition br_tag :: "utext \<Rightarrow> utext option" where
  "br_tag s = (case strip_text (u ''<br'') s of None \<Rightarrow> None
     | Some r \<Rightarrow> (let r1 = dropWhile u_space r; r2 = (if take 1 r1 = u ''/'' then drop 1 r1 else r1) in
         if take 1 r2 = u ''>'' then Some (drop 1 r2) else None))"

definition block_end_tag :: "utext \<Rightarrow> utext option" where
  "block_end_tag s = (case List.map_filter (\<lambda>p. strip_text p s)
       (map u [''</div>'', ''</p>'', ''</li>'', ''</h1>'', ''</h2>'', ''</h3>'', ''</h4>'', ''</h5>'', ''</h6>'']) of [] \<Rightarrow> None | r # _ \<Rightarrow> Some r)"

definition any_tag :: "utext \<Rightarrow> utext option" where
  "any_tag s = (if take 1 s = u ''<'' then (case dropWhile (\<lambda>c. c \<noteq> 62) (drop 1 s) of [] \<Rightarrow> None | _ # r \<Rightarrow> Some r) else None)"

definition entity :: "utext \<Rightarrow> (nat \<times> utext) option" where
  "entity s = (case List.map_filter (\<lambda>(p, c). if take (length p) s = p then Some (c, drop (length p) s) else None)
       [(u ''&nbsp;'', 32), (u ''&amp;'', 38), (u ''&lt;'', 60), (u ''&gt;'', 62), (u ''&quot;'', 34), (u ''&#39;'', 39)] of [] \<Rightarrow> None | r # _ \<Rightarrow> Some r)"

text \<open>Replaces every match, from the left; the fuel is the length of the text, and a match is not empty.\<close>

fun replace_all :: "nat \<Rightarrow> (utext \<Rightarrow> (utext \<times> utext) option) \<Rightarrow> utext \<Rightarrow> utext" where
  "replace_all 0 f s = s"
| "replace_all (Suc n) f [] = []"
| "replace_all (Suc n) f (c # s) = (case f (c # s) of Some (r, rest) \<Rightarrow> r @ replace_all n f rest | None \<Rightarrow> c # replace_all n f s)"

definition line_feeds :: "utext \<Rightarrow> (utext \<times> utext) option" where
  "line_feeds s = (if 3 \<le> length (takeWhile (\<lambda>c. c = 10) s) then Some ([10, 10], dropWhile (\<lambda>c. c = 10) s) else None)"

definition htmlToText :: "utext \<Rightarrow> utext" where
  "htmlToText html =
     (let rep = (\<lambda>f s. replace_all (length s) f s);
          s1 = rep (\<lambda>s. map_option (Pair [10]) (br_tag s)) html;
          s2 = rep (\<lambda>s. map_option (Pair [10]) (block_end_tag s)) s1;
          s3 = rep (\<lambda>s. map_option (Pair []) (any_tag s)) s2;
          s4 = rep (\<lambda>s. map_option (\<lambda>(c, r). ([c], r)) (entity s)) s3
      in u_trim (rep line_feeds s4))"

end
