(* ===== verification/PreviewEngine.thy ===== *)
theory PreviewEngine
  imports PreviewText
begin

text \<open>
  The preview engine of the AI agent settings, \<open>apps/web/src/lib/ai-agents/preview-engine.ts\<close>: the index of
  the knowledge sources, the ranking, the actions and the state machine of a conversation. Scores are exact
  rationals over an argument for the weight of a keyword (the logarithm); number formats and the
  hour in a time zone are arguments.
\<close>

section \<open>Settings and knowledge\<close>

datatype temperature = PRECISE | BALANCED | CREATIVE

record agent_settings =
  ag_welcomeMessage :: utext
  ag_welcomeImage :: "utext option"
  ag_transferConditions :: utext
  ag_stopAfterHandoff :: bool
  ag_silentHandoff :: bool
  ag_pendingAssignedMessage :: utext
  ag_pendingUnassignedMessage :: utext
  ag_allowedLabels :: "utext list"
  ag_labelConditions :: utext
  ag_allowedPipelineStatuses :: "utext list"
  ag_pipelineConditions :: utext
  ag_historyLimit :: nat
  ag_contextLimit :: nat
  ag_temperature :: temperature
  ag_messageLimit :: nat
  ag_timezone :: utext

record product =
  pd_id :: utext
  pd_name :: utext
  pd_description :: utext
  pd_weightGrams :: rat
  pd_stock :: int
  pd_price :: rat

record agent_knowledge =
  kn_texts :: "(utext \<times> utext \<times> utext) list"
  kn_files :: "(utext \<times> utext \<times> utext) list"
  kn_qna :: "(utext \<times> utext \<times> utext) list"
  kn_products :: "product list"

record engine_lib =
  el_unicode :: unicode
  el_number :: "rat \<Rightarrow> utext"
  el_hour :: "utext \<Rightarrow> int \<Rightarrow> int"
  el_weight :: "nat \<Rightarrow> nat \<Rightarrow> rat"

section \<open>The index\<close>

datatype chunk_kind = QNA | PRODUCT | CATALOG | TEXT | FILE

fun KIND_PRIORITY :: "chunk_kind \<Rightarrow> nat" where
  "KIND_PRIORITY QNA = 0"
| "KIND_PRIORITY PRODUCT = 1"
| "KIND_PRIORITY CATALOG = 2"
| "KIND_PRIORITY TEXT = 3"
| "KIND_PRIORITY FILE = 4"

record chunk =
  ck_id :: utext
  ck_kind :: chunk_kind
  ck_source :: utext
  ck_answer :: utext
  ck_primary :: "utext list"
  ck_secondary :: "utext list"

definition truncate :: "utext \<Rightarrow> nat \<Rightarrow> utext" where
  "truncate s m = (if length s \<le> m then s else u_trimEnd (take (m - 1) s) @ [8230])"

definition sentence_end :: "nat \<Rightarrow> bool" where
  "sentence_end c = (c \<in> {46, 33, 63})"

text \<open>\<open>/\n\s*\n/\<close>: white space that holds two line feeds, from the first of them to the last.\<close>

function paragraph_split :: "utext \<Rightarrow> utext \<Rightarrow> utext list" where
  "paragraph_split cur [] = [rev cur]"
| "paragraph_split cur (c # s) = (if c = 10 \<and> 10 \<in> set (takeWhile u_space s)
     then rev cur # paragraph_split [] (rev (takeWhile (\<lambda>x. x \<noteq> 10) (rev (takeWhile u_space s))) @ dropWhile u_space s)
     else paragraph_split (c # cur) s)"
  by pat_completeness auto
termination
proof (relation "measure (\<lambda>(_, s). length s)")
  fix cur :: utext and c :: nat and s :: utext
  have "length (takeWhile (\<lambda>x. x \<noteq> 10) (rev (takeWhile u_space s))) \<le> length (takeWhile u_space s)"
    using length_takeWhile_le [of "\<lambda>x. x \<noteq> 10" "rev (takeWhile u_space s)"] by simp
  moreover have "length (takeWhile u_space s) + length (dropWhile u_space s) = length s"
    by (metis length_append takeWhile_dropWhile_id)
  ultimately show "(([], rev (takeWhile (\<lambda>x. x \<noteq> 10) (rev (takeWhile u_space s))) @ dropWhile u_space s), cur, c # s) \<in> measure (\<lambda>(_, s). length s)"
    by simp
qed auto

text \<open>\<open>/[^.!?]+[.!?]*\s*/g\<close>; the fuel is the length.\<close>

fun sentences :: "nat \<Rightarrow> utext \<Rightarrow> utext list" where
  "sentences 0 s = []"
| "sentences (Suc n) s = (let s0 = dropWhile sentence_end s; a = takeWhile (\<lambda>c. \<not> sentence_end c) s0; r = dropWhile (\<lambda>c. \<not> sentence_end c) s0;
       b = takeWhile sentence_end r; r' = dropWhile sentence_end r; w = takeWhile u_space r'
     in if s0 = [] then [] else (a @ b @ w) # sentences n (dropWhile u_space r'))"

definition paragraphs :: "utext \<Rightarrow> utext list" where
  "paragraphs txt = nonempty_texts (map u_trim (concat (map
     (\<lambda>p. if length p \<le> 800 then [p] else (case sentences (length p) p of [] \<Rightarrow> [p] | ps \<Rightarrow> ps))
     (nonempty_texts (map u_trim (paragraph_split [] txt))))))"

definition line_end :: "nat \<Rightarrow> bool" where
  "line_end c = (c \<in> {10, 13, 8232, 8233})"

text \<open>\<open>/^#+\s*/gm\<close> removed; the fuel is the length.\<close>

fun strip_heads :: "nat \<Rightarrow> bool \<Rightarrow> utext \<Rightarrow> utext" where
  "strip_heads 0 lineStart s = s"
| "strip_heads (Suc n) lineStart [] = []"
| "strip_heads (Suc n) lineStart (c # s) = (if lineStart \<and> c = 35
     then let r = dropWhile (\<lambda>x. x = 35) s; w = takeWhile u_space r in
       strip_heads n (w \<noteq> [] \<and> line_end (last w)) (dropWhile u_space r)
     else c # strip_heads n (line_end c) s)"

definition sectionAnswer :: "utext \<Rightarrow> utext" where
  "sectionAnswer s = (let lines = map u_trim (u_split 10 s); body = filter (\<lambda>l. take 1 l \<noteq> u ''#'') lines;
     joined = u_join [10] (if body \<noteq> [] then body else lines)
   in truncate (strip_heads (length joined) True joined) 600)"

definition formatRupiah :: "engine_lib \<Rightarrow> rat \<Rightarrow> utext" where
  "formatRupiah lib r = u ''Rp'' @ el_number lib r"

definition MIDDLE_DOT :: utext where
  "MIDDLE_DOT = [32, 183, 32]"

definition productAnswer :: "engine_lib \<Rightarrow> product \<Rightarrow> chat_language \<Rightarrow> utext" where
  "productAnswer lib p lang =
     (let stock = (if pd_stock p > 0 then u (show_int (pd_stock p)) else if lang = Indonesian then u ''habis'' else u ''out of stock'');
          weight = el_number lib (pd_weightGrams p) @ u '' '' @ (if lang = Indonesian then u ''gram'' else u ''g'');
          details = (if lang = Indonesian
            then u ''Harga: '' @ formatRupiah lib (pd_price p) @ MIDDLE_DOT @ u ''Stok: '' @ stock @ MIDDLE_DOT @ u ''Berat: '' @ weight
            else u ''Price: '' @ formatRupiah lib (pd_price p) @ MIDDLE_DOT @ u ''Stock: '' @ stock @ MIDDLE_DOT @ u ''Weight: '' @ weight)
      in pd_name p @ [10] @ pd_description p @ [10] @ details)"

definition numbered_id :: "utext \<Rightarrow> nat \<Rightarrow> utext" where
  "numbered_id i k = i @ u (CHR ''_'' # show_nat k)"

definition buildKnowledgeIndex :: "engine_lib \<Rightarrow> agent_knowledge \<Rightarrow> chat_language \<Rightarrow> chunk list" where
  "buildKnowledgeIndex lib k lang =
     (let tokens = contentTokens (el_unicode lib);
          qna = map (\<lambda>(i, q, a). \<lparr>ck_id = i, ck_kind = QNA, ck_source = u ''Q&A: '' @ truncate (u_trim q) 48, ck_answer = u_trim a,
              ck_primary = tokens q, ck_secondary = tokens a\<rparr>)
            (filter (\<lambda>(i, q, a). u_trim q \<noteq> [] \<and> u_trim a \<noteq> []) (kn_qna k));
          products = map (\<lambda>p. \<lparr>ck_id = pd_id p, ck_kind = PRODUCT, ck_source = u ''Product: '' @ pd_name p, ck_answer = productAnswer lib p lang,
              ck_primary = tokens (pd_name p), ck_secondary = tokens (pd_description p @ u '' harga price stok stock'')\<rparr>) (kn_products k);
          names = u_join (u '', '') (map pd_name (take 6 (kn_products k)));
          catalog = (if kn_products k = [] then [] else
            [\<lparr>ck_id = u ''catalog'', ck_kind = CATALOG, ck_source = u ''Products'',
              ck_answer = (if lang = Indonesian then u ''Produk yang tersedia: '' @ names @ u ''. Mau info produk yang mana, kak?''
                else u ''Available products: '' @ names @ u ''. Which one would you like to know about?''),
              ck_primary = tokens (u ''produk katalog daftar jual jualan product products catalog sell''), ck_secondary = []\<rparr>]);
          texts = concat (map (\<lambda>(i, title, content). map (\<lambda>(n, s). \<lparr>ck_id = numbered_id i n, ck_kind = TEXT, ck_source = u ''Text: '' @ title,
              ck_answer = sectionAnswer s, ck_primary = tokens (hd (u_split 10 s)), ck_secondary = tokens s\<rparr>)
            (enumerate 0 (paragraphs (htmlToText content)))) (kn_texts k));
          files = concat (map (\<lambda>(i, name, content). map (\<lambda>(n, s). \<lparr>ck_id = numbered_id i n, ck_kind = FILE, ck_source = u ''File: '' @ name,
              ck_answer = sectionAnswer s, ck_primary = [], ck_secondary = tokens s\<rparr>)
            (enumerate 0 (paragraphs content))) (kn_files k))
      in qna @ products @ catalog @ texts @ files)"

section \<open>The ranking\<close>

definition MATCH_THRESHOLD :: rat where
  "MATCH_THRESHOLD = 1 / 2"

definition keyword_df :: "chunk list \<Rightarrow> utext \<Rightarrow> nat" where
  "keyword_df cs t = count_where (\<lambda>c. hasToken (ck_primary c) t \<or> hasToken (ck_secondary c) t) cs"

definition chunk_credit :: "(utext \<Rightarrow> rat) \<Rightarrow> chunk \<Rightarrow> utext \<Rightarrow> rat option" where
  "chunk_credit idf c t = (if hasToken (ck_primary c) t then Some (idf t) else if hasToken (ck_secondary c) t then Some (idf t * (4 / 5)) else None)"

definition rankKnowledge :: "engine_lib \<Rightarrow> chunk list \<Rightarrow> utext \<Rightarrow> (chunk \<times> rat) list" where
  "rankKnowledge lib cs query =
     (let queryTokens = contentTokens (el_unicode lib) query; known = filter (\<lambda>t. 0 < keyword_df cs t) queryTokens;
          idf = (\<lambda>t. el_weight lib (length cs) (keyword_df cs t)); total = sum_list (map idf known)
      in if queryTokens = [] \<or> cs = [] \<or> known = [] then []
         else sort_key (\<lambda>r. - snd r) (sort_key (\<lambda>r. KIND_PRIORITY (ck_kind (fst r)))
           (List.map_filter (\<lambda>c. let credits = List.map_filter (chunk_credit idf c) known; score = sum_list credits / total;
               coverage = rat_of_nat (length credits) / rat_of_nat (length queryTokens)
             in if MATCH_THRESHOLD \<le> score \<and> MATCH_THRESHOLD \<le> coverage then Some (c, score) else None) cs)))"

section \<open>Replies\<close>

definition greetingFor :: "engine_lib \<Rightarrow> utext \<Rightarrow> int \<Rightarrow> chat_language \<Rightarrow> utext" where
  "greetingFor lib tz now lang = (let hour = el_hour lib tz now in
     case lang of
       English \<Rightarrow> u ''Good '' @ u (if 5 \<le> hour \<and> hour < 12 then ''morning'' else if 12 \<le> hour \<and> hour < 18 then ''afternoon'' else ''evening'') @
         u ''! How can I help you?''
     | Indonesian \<Rightarrow> u ''Selamat '' @ u (if 4 \<le> hour \<and> hour < 11 then ''pagi'' else if 11 \<le> hour \<and> hour < 15 then ''siang''
         else if 15 \<le> hour \<and> hour < 18 then ''sore'' else ''malam'') @ u '' kak! Ada yang bisa aku bantu?'')"

datatype phrase = HandoffPhrase | FallbackPhrase | ThanksPhrase | ClosingPhrase | CreativeOpen | CreativeClose

definition QUOTE :: string where
  "QUOTE = [CHR 0x27]"

fun PHRASES :: "phrase \<Rightarrow> chat_language \<Rightarrow> utext" where
  "PHRASES HandoffPhrase Indonesian = u ''Baik kak, percakapan ini aku teruskan ke tim kami ya. Mohon ditunggu sebentar '' @ [128591]"
| "PHRASES HandoffPhrase English = u (''Sure, I'' @ QUOTE @ ''m passing this conversation to our team. Please wait a moment '') @ [128591]"
| "PHRASES FallbackPhrase Indonesian = u ''Maaf kak, aku belum punya informasi soal itu. Kalau perlu, aku bisa teruskan ke tim kami ya.''"
| "PHRASES FallbackPhrase English = u (''Sorry, I don'' @ QUOTE @ ''t have information about that yet. I can pass this to our team if you like.'')"
| "PHRASES ThanksPhrase Indonesian = u ''Sama-sama kak! Senang bisa membantu '' @ [128522]"
| "PHRASES ThanksPhrase English = u (''You'' @ QUOTE @ ''re welcome! Happy to help '') @ [128522]"
| "PHRASES ClosingPhrase Indonesian = u ''Ada lagi yang bisa aku bantu, kak?''"
| "PHRASES ClosingPhrase English = u ''Anything else I can help with?''"
| "PHRASES CreativeOpen Indonesian = u ''Siap kak! '' @ [128522]"
| "PHRASES CreativeOpen English = u ''Sure thing! '' @ [128522]"
| "PHRASES CreativeClose Indonesian = u ''Kalau masih ada yang mau ditanyakan, bilang aja ya '' @ [10024]"
| "PHRASES CreativeClose English = u ''Just let me know if there is anything else '' @ [10024]"

definition styleAnswer :: "utext \<Rightarrow> agent_settings \<Rightarrow> chat_language \<Rightarrow> utext" where
  "styleAnswer answer g lang = (case ag_temperature g of PRECISE \<Rightarrow> answer
     | CREATIVE \<Rightarrow> PHRASES CreativeOpen lang @ [10] @ answer @ [10, 10] @ PHRASES CreativeClose lang
     | BALANCED \<Rightarrow> answer @ [10, 10] @ PHRASES ClosingPhrase lang)"

datatype reply_kind = WELCOME | GREETING | ANSWER | HANDOFF | PENDING_REPLY | FALLBACK

record engine_reply =
  er_kind :: reply_kind
  er_text :: utext
  er_image :: "utext option"
  er_sources :: "utext list"

definition reply :: "reply_kind \<Rightarrow> utext \<Rightarrow> utext list \<Rightarrow> utext option \<Rightarrow> engine_reply" where
  "reply kind s sources img = \<lparr>er_kind = kind, er_text = s, er_image = img, er_sources = sources\<rparr>"

section \<open>The conversation\<close>

record chat_state =
  ch_pending :: bool
  ch_silenced :: bool
  ch_assigned :: bool
  ch_aiMessageCount :: nat
  ch_welcomed :: bool
  ch_labels :: "utext list"
  ch_pipelineStatus :: "utext option"

definition initialConversationState :: chat_state where
  "initialConversationState = \<lparr>ch_pending = False, ch_silenced = False, ch_assigned = False, ch_aiMessageCount = 0, ch_welcomed = False,
     ch_labels = [], ch_pipelineStatus = None\<rparr>"

datatype engine_event = HandoffEvent bool | LabelEvent utext | PipelineEvent "utext option" utext | MessageLimitEvent nat | WaitingForAgent

record engine_input =
  ei_settings :: agent_settings
  ei_knowledge :: agent_knowledge
  ei_pipeline :: "utext list"
  ei_state :: chat_state
  ei_incoming :: "utext list"
  ei_history :: "(bool \<times> utext) list"
  ei_now :: int

record engine_result =
  eo_replies :: "engine_reply list"
  eo_events :: "engine_event list"
  eo_state :: chat_state

definition index_of :: "'a list \<Rightarrow> 'a \<Rightarrow> int" where
  "index_of xs x = (let n = length (takeWhile (\<lambda>y. y \<noteq> x) xs) in if n = length xs then - 1 else int n)"

definition apply_labels :: "unicode \<Rightarrow> agent_settings \<Rightarrow> utext list \<Rightarrow> utext list \<Rightarrow> utext list" where
  "apply_labels un g tokens held = foldl (\<lambda>ls l. if l \<in> set ls then ls else if actionMatches un l (ag_labelConditions g) tokens then ls @ [l] else ls)
     held (ag_allowedLabels g)"

definition pipeline_target :: "unicode \<Rightarrow> agent_settings \<Rightarrow> utext list \<Rightarrow> utext list \<Rightarrow> utext option \<Rightarrow> utext option" where
  "pipeline_target un g pipeline tokens status =
     (let currentIndex = (case status of Some s \<Rightarrow> if s = [] then 0 else index_of pipeline s | None \<Rightarrow> 0) in
      foldl (\<lambda>target (index, s). if int index \<le> currentIndex \<or> s \<notin> set (ag_allowedPipelineStatuses g) then target
         else if actionMatches un s (ag_pipelineConditions g) tokens then Some s else target) None (enumerate 0 pipeline))"

definition applyActions :: "engine_lib \<Rightarrow> engine_input \<Rightarrow> utext list \<Rightarrow> chat_state \<Rightarrow> engine_event list \<times> chat_state" where
  "applyActions lib i tokens st =
     (let un = el_unicode lib; labels = apply_labels un (ei_settings i) tokens (ch_labels st);
          labelEvents = map LabelEvent (drop (length (ch_labels st)) labels); st1 = st\<lparr>ch_labels := labels\<rparr>
      in case pipeline_target un (ei_settings i) (ei_pipeline i) tokens (ch_pipelineStatus st) of
           None \<Rightarrow> (labelEvents, st1)
         | Some t \<Rightarrow> (labelEvents @ [PipelineEvent (case ch_pipelineStatus st of Some s \<Rightarrow> Some s | None \<Rightarrow> (case ei_pipeline i of [] \<Rightarrow> None | s # _ \<Rightarrow> Some s)) t],
             st1\<lparr>ch_pipelineStatus := Some t\<rparr>))"

definition counted :: "chat_state \<Rightarrow> chat_state" where
  "counted st = st\<lparr>ch_aiMessageCount := Suc (ch_aiMessageCount st)\<rparr>"

text \<open>Retrieval, with what the customer said before when the text alone finds nothing or is ambiguous. A
  negative count of \<open>slice\<close> takes from the end, except for zero, which takes everything.\<close>

definition slice_last :: "nat \<Rightarrow> 'a list \<Rightarrow> 'a list" where
  "slice_last n xs = (if n = 0 then xs else drop (length xs - n) xs)"

definition retrieve :: "engine_lib \<Rightarrow> engine_input \<Rightarrow> utext \<Rightarrow> chat_language \<Rightarrow> (chunk \<times> rat) list" where
  "retrieve lib i s lang =
     (let index = buildKnowledgeIndex lib (ei_knowledge i) lang; ranked = rankKnowledge lib index s;
          ambiguous = (case ranked of r # q # _ \<Rightarrow> snd r = snd q | _ \<Rightarrow> False);
          remembered = map snd (slice_last 2 (filter fst (slice_last (ag_historyLimit (ei_settings i)) (ei_history i))));
          withHistory = rankKnowledge lib index (u_join [10] (remembered @ [s]))
      in if (ranked = [] \<or> ambiguous) \<and> remembered \<noteq> [] \<and> withHistory \<noteq> [] then withHistory else ranked)"

definition answer_reply :: "engine_lib \<Rightarrow> engine_input \<Rightarrow> utext \<Rightarrow> chat_language \<Rightarrow> engine_reply" where
  "answer_reply lib i s lang =
     (case take (ag_contextLimit (ei_settings i)) (retrieve lib i s lang) of
        [] \<Rightarrow> reply FALLBACK (PHRASES FallbackPhrase lang) [] None
      | r # rs \<Rightarrow> reply ANSWER (styleAnswer (ck_answer (fst r)) (ei_settings i) lang) (uniq (map (\<lambda>x. ck_source (fst x)) (take 3 (r # rs)))) None)"

definition welcome_reply :: "agent_settings \<Rightarrow> chat_state \<Rightarrow> engine_reply list" where
  "welcome_reply g st = (if \<not> ch_welcomed st \<and> (u_trim (ag_welcomeMessage g) \<noteq> [] \<or> (ag_welcomeImage g \<noteq> None \<and> ag_welcomeImage g \<noteq> Some []))
     then [reply WELCOME (u_trim (ag_welcomeMessage g)) [] (ag_welcomeImage g)] else [])"

definition runPreviewEngine :: "engine_lib \<Rightarrow> engine_input \<Rightarrow> engine_result" where
  "runPreviewEngine lib i =
     (let g = ei_settings i; st = ei_state i; un = el_unicode lib; txt = u_trim (u_join [10] (ei_incoming i));
          lang = detectLanguage un txt; tokens = tokenize un txt; acted = applyActions lib i tokens st
      in if txt = [] then \<lparr>eo_replies = [], eo_events = [], eo_state = st\<rparr>
         else if ch_pending st \<and> (ch_silenced st \<or> ag_stopAfterHandoff g)
         then let pending = u_trim (if ch_assigned (snd acted) then ag_pendingAssignedMessage g else ag_pendingUnassignedMessage g) in
           \<lparr>eo_replies = (if \<not> ch_silenced (snd acted) \<and> pending \<noteq> [] then [reply PENDING_REPLY pending [] None] else []),
            eo_events = fst acted @ [WaitingForAgent], eo_state = snd acted\<rparr>
         else if ag_messageLimit g \<le> ch_aiMessageCount st
         then \<lparr>eo_replies = [], eo_events = [MessageLimitEvent (ag_messageLimit g)], eo_state = st\<rparr>
         else
           (let events = fst acted; replies = welcome_reply g (snd acted); st1 = (snd acted)\<lparr>ch_welcomed := True\<rparr> in
            if \<not> ch_pending st1 \<and> matchesConditions un (ag_transferConditions g) tokens
            then (if ag_silentHandoff g
              then \<lparr>eo_replies = replies, eo_events = events @ [HandoffEvent True], eo_state = st1\<lparr>ch_pending := True, ch_silenced := True\<rparr>\<rparr>
              else \<lparr>eo_replies = replies @ [reply HANDOFF (PHRASES HandoffPhrase lang) [] None], eo_events = events @ [HandoffEvent False],
                 eo_state = counted (st1\<lparr>ch_pending := True\<rparr>)\<rparr>)
            else if tokens \<noteq> [] \<and> list_all (\<lambda>t. t \<in> set GREETINGS) tokens
            then (if replies = []
              then \<lparr>eo_replies = [reply GREETING (greetingFor lib (ag_timezone g) (ei_now i) lang) [] None], eo_events = events, eo_state = counted st1\<rparr>
              else \<lparr>eo_replies = replies, eo_events = events, eo_state = st1\<rparr>)
            else if (case cut_thanks False txt of None \<Rightarrow> False | Some rest \<Rightarrow> contentTokens un rest = [])
            then \<lparr>eo_replies = replies @ [reply ANSWER (PHRASES ThanksPhrase lang) [] None], eo_events = events, eo_state = counted st1\<rparr>
            else \<lparr>eo_replies = replies @ [answer_reply lib i txt lang], eo_events = events, eo_state = counted st1\<rparr>))"

end
