(* ===== verification/PreviewSession.thy ===== *)
theory PreviewSession
  imports PreviewEngine
begin

text \<open>
  The test chat of \<open>apps/web/src/components/ai-agent/AgentTestChat.tsx\<close> over the preview engine: a session is
  a list of turns that hand the state of the conversation on, where a person may take the chat or give
  it back before every turn, and the settings may be edited. The theorems are what the settings promise.
\<close>

section \<open>Sessions\<close>

definition session_step :: "engine_lib \<Rightarrow> chat_state \<Rightarrow> bool \<times> engine_input \<Rightarrow> engine_result" where
  "session_step lib st x = runPreviewEngine lib ((snd x)\<lparr>ei_state := st\<lparr>ch_assigned := fst x\<rparr>\<rparr>)"

fun preview_session :: "engine_lib \<Rightarrow> chat_state \<Rightarrow> (bool \<times> engine_input) list \<Rightarrow> engine_result list" where
  "preview_session lib st [] = []"
| "preview_session lib st (x # xs) = (let r = session_step lib st x in r # preview_session lib (eo_state r) xs)"

fun counted_kind :: "reply_kind \<Rightarrow> bool" where
  "counted_kind WELCOME = False"
| "counted_kind PENDING_REPLY = False"
| "counted_kind k = True"

definition counted_replies :: "engine_result \<Rightarrow> nat" where
  "counted_replies r = length (filter (\<lambda>q. counted_kind (er_kind q)) (eo_replies r))"

definition welcomes :: "engine_result \<Rightarrow> nat" where
  "welcomes r = length (filter (\<lambda>q. er_kind q = WELCOME) (eo_replies r))"

section \<open>One turn\<close>

lemma acted_state [simp]:
  "ch_pending (snd (applyActions lib i ts st)) = ch_pending st"
  "ch_silenced (snd (applyActions lib i ts st)) = ch_silenced st"
  "ch_assigned (snd (applyActions lib i ts st)) = ch_assigned st"
  "ch_aiMessageCount (snd (applyActions lib i ts st)) = ch_aiMessageCount st"
  "ch_welcomed (snd (applyActions lib i ts st)) = ch_welcomed st"
  by (simp_all add: applyActions_def Let_def split: option.splits)

lemma acted_events:
  "HandoffEvent b \<notin> set (fst (applyActions lib i ts st))"
  by (auto simp: applyActions_def Let_def split: option.splits)

lemma counted_state [simp]:
  "ch_aiMessageCount (counted st) = Suc (ch_aiMessageCount st)" "ch_welcomed (counted st) = ch_welcomed st"
  "ch_pending (counted st) = ch_pending st" "ch_silenced (counted st) = ch_silenced st"
  by (simp_all add: counted_def)

lemma reply_kind [simp]: "er_kind (reply k s src img) = k"
  by (simp add: reply_def)

lemma answer_kind: "counted_kind (er_kind (answer_reply lib i s lang)) \<and> er_kind (answer_reply lib i s lang) \<noteq> WELCOME"
  by (simp add: answer_reply_def split: list.splits)

lemma answer_counts [simp]:
  "counted_kind (er_kind (answer_reply lib i s lang))" "er_kind (answer_reply lib i s lang) \<noteq> WELCOME"
  using answer_kind by blast+

lemma welcome_counts:
  "filter (\<lambda>q. counted_kind (er_kind q)) (welcome_reply g st) = []"
  "length (filter (\<lambda>q. er_kind q = WELCOME) (welcome_reply g st)) = (if welcome_reply g st = [] then 0 else 1)"
  by (simp_all add: welcome_reply_def)

lemma welcomed_once: "ch_welcomed st \<Longrightarrow> welcome_reply g st = []"
  by (simp add: welcome_reply_def)

lemma step_count:
  "ch_aiMessageCount (eo_state (runPreviewEngine lib i)) = ch_aiMessageCount (ei_state i) + counted_replies (runPreviewEngine lib i)"
  by (simp add: runPreviewEngine_def Let_def counted_replies_def welcome_counts)

lemma step_limit:
  assumes "ag_messageLimit (ei_settings i) \<le> m" "ch_aiMessageCount (ei_state i) \<le> m"
  shows "ch_aiMessageCount (eo_state (runPreviewEngine lib i)) \<le> m"
proof (cases "ag_messageLimit (ei_settings i) \<le> ch_aiMessageCount (ei_state i)")
  case True
  then show ?thesis using assms(2) by (simp add: runPreviewEngine_def Let_def)
next
  case False
  then have "Suc (ch_aiMessageCount (ei_state i)) \<le> m" using assms(1) by simp
  then show ?thesis using assms(2) by (simp add: runPreviewEngine_def Let_def)
qed

lemma welcomed_step:
  assumes "ch_welcomed (ei_state i)"
  shows "welcomes (runPreviewEngine lib i) = 0 \<and> ch_welcomed (eo_state (runPreviewEngine lib i))"
  using assms by (simp add: runPreviewEngine_def Let_def welcomes_def welcomed_once)

lemma welcomes_once: "welcomes (runPreviewEngine lib i) \<le> 1"
  by (simp add: runPreviewEngine_def Let_def welcomes_def welcome_counts)

lemma welcomes_recorded:
  assumes "\<not> ch_welcomed (eo_state (runPreviewEngine lib i))"
  shows "welcomes (runPreviewEngine lib i) = 0"
  using assms by (auto simp: runPreviewEngine_def Let_def welcomes_def split: if_splits)

lemma step_welcome:
  "welcomes (runPreviewEngine lib i) + (if ch_welcomed (ei_state i) then 1 else 0)
     \<le> (if ch_welcomed (eo_state (runPreviewEngine lib i)) then 1 else 0)"
  using welcomed_step [of i lib] welcomes_once [of lib i] welcomes_recorded [of lib i] by auto

lemma step_pending:
  assumes "ch_pending (ei_state i)" "ch_silenced (ei_state i) \<or> ag_stopAfterHandoff (ei_settings i)" "q \<in> set (eo_replies (runPreviewEngine lib i))"
  shows "er_kind q = PENDING_REPLY \<and> \<not> ch_silenced (ei_state i)"
  using assms by (simp add: runPreviewEngine_def Let_def split: if_splits)

lemma step_stays_pending:
  "ch_pending (ei_state i) \<Longrightarrow> ch_pending (eo_state (runPreviewEngine lib i))"
  by (simp add: runPreviewEngine_def Let_def)

lemma step_stays_silenced:
  "ch_pending (ei_state i) \<Longrightarrow> ch_silenced (ei_state i) \<Longrightarrow> ch_silenced (eo_state (runPreviewEngine lib i))"
  by (simp add: runPreviewEngine_def Let_def)

lemma step_handoff:
  assumes "HandoffEvent b \<in> set (eo_events (runPreviewEngine lib i))"
  shows "ch_pending (eo_state (runPreviewEngine lib i)) \<and> (b \<longrightarrow> ch_silenced (eo_state (runPreviewEngine lib i)))"
  using assms by (auto simp: runPreviewEngine_def Let_def acted_events split: if_splits)

section \<open>Over a session\<close>

definition session_replies :: "engine_result list \<Rightarrow> nat" where
  "session_replies rs = sum_list (map counted_replies rs)"

lemma step_session:
  "ch_aiMessageCount (eo_state (session_step lib st x)) = ch_aiMessageCount st + counted_replies (session_step lib st x)"
  "welcomes (session_step lib st x) + (if ch_welcomed st then 1 else 0) \<le> (if ch_welcomed (eo_state (session_step lib st x)) then 1 else 0)"
  using step_count [of lib "(snd x)\<lparr>ei_state := st\<lparr>ch_assigned := fst x\<rparr>\<rparr>"] step_welcome [of lib "(snd x)\<lparr>ei_state := st\<lparr>ch_assigned := fst x\<rparr>\<rparr>"]
  by (simp_all add: session_step_def)

lemma session_limit_from:
  assumes "\<forall>x\<in>set xs. ag_messageLimit (ei_settings (snd x)) \<le> m" "ch_aiMessageCount st \<le> m"
  shows "ch_aiMessageCount st + session_replies (preview_session lib st xs) \<le> m"
  using assms
proof (induction xs arbitrary: st)
  case (Cons x xs)
  let ?r = "session_step lib st x"
  have "ch_aiMessageCount (eo_state ?r) \<le> m"
    using Cons.prems step_limit [of "(snd x)\<lparr>ei_state := st\<lparr>ch_assigned := fst x\<rparr>\<rparr>" m lib] by (simp add: session_step_def)
  then have "ch_aiMessageCount (eo_state ?r) + session_replies (preview_session lib (eo_state ?r) xs) \<le> m"
    using Cons by simp
  then show ?case using step_session(1) [of lib st x] by (simp add: session_replies_def Let_def)
qed (simp add: session_replies_def)

lemma session_welcome_from:
  "sum_list (map welcomes (preview_session lib st xs)) + (if ch_welcomed st then 1 else 0) \<le> 1"
proof (induction xs arbitrary: st)
  case (Cons x xs)
  show ?case using Cons.IH [of "eo_state (session_step lib st x)"] step_session(2) [of lib st x] by (simp add: Let_def)
qed simp

lemma session_waiting_from:
  assumes "ch_pending st" "q \<in> set (preview_session lib st xs)" "y \<in> set (eo_replies q)"
    "ch_silenced st \<or> (\<forall>x\<in>set xs. ag_stopAfterHandoff (ei_settings (snd x)))"
  shows "er_kind y = PENDING_REPLY \<and> \<not> ch_silenced st"
  using assms
proof (induction xs arbitrary: st)
  case (Cons x xs)
  let ?i = "(snd x)\<lparr>ei_state := st\<lparr>ch_assigned := fst x\<rparr>\<rparr>" let ?r = "session_step lib st x"
  have r: "?r = runPreviewEngine lib ?i" by (simp add: session_step_def)
  show ?case
  proof (cases "q = ?r")
    case True
    then show ?thesis using Cons.prems step_pending [of ?i y lib] by (auto simp: r)
  next
    case False
    then have q: "q \<in> set (preview_session lib (eo_state ?r) xs)" using Cons.prems(2) by (simp add: Let_def)
    have p: "ch_pending (eo_state ?r)" using Cons.prems(1) step_stays_pending [of ?i lib] by (simp add: r)
    have s: "ch_silenced st \<Longrightarrow> ch_silenced (eo_state ?r)" using Cons.prems(1) step_stays_silenced [of ?i lib] by (simp add: r)
    then have "ch_silenced (eo_state ?r) \<or> (\<forall>x\<in>set xs. ag_stopAfterHandoff (ei_settings (snd x)))"
      using Cons.prems(4) by auto
    then show ?thesis using Cons.IH [OF p q Cons.prems(3)] s by blast
  qed
qed simp

lemma session_append:
  "preview_session lib st xs = rs @ r # qs \<Longrightarrow> qs = preview_session lib (eo_state r) (drop (Suc (length rs)) xs)"
proof (induction xs arbitrary: st rs)
  case (Cons x xs)
  then show ?case by (cases rs) (auto simp: Let_def)
qed simp

lemma session_steps:
  "r \<in> set (preview_session lib st xs) \<Longrightarrow> \<exists>i. r = runPreviewEngine lib i"
  by (induction xs arbitrary: st) (auto simp: Let_def session_step_def)

text \<open>C38: A session of the AI agent never sends more counted replies (greetings, answers, handoffs, fallbacks)
  than the message limit, whatever the customer writes, however the settings are edited below that
  limit and whoever takes the chat, and it sends the welcome at most once.
\<close>
theorem preview_within_limit:
  assumes "\<forall>x\<in>set xs. ag_messageLimit (ei_settings (snd x)) \<le> m"
  shows "session_replies (preview_session lib initialConversationState xs) \<le> m \<and>
    sum_list (map welcomes (preview_session lib initialConversationState xs)) \<le> 1"
  using session_limit_from [OF assms, of initialConversationState lib] session_welcome_from [of lib initialConversationState xs]
  by (simp_all add: initialConversationState_def)

text \<open>C25: After a handoff with "stop after handoff" set, every later reply of the session is the pending message,
  and after a silent handoff there is no later reply at all, even when the settings change.
\<close>
theorem preview_stops_after_handoff:
  assumes "preview_session lib initialConversationState xs = rs @ r # qs" "HandoffEvent silent \<in> set (eo_events r)"
    "silent \<or> (\<forall>x\<in>set xs. ag_stopAfterHandoff (ei_settings (snd x)))" "q \<in> set qs" "y \<in> set (eo_replies q)"
  shows "er_kind y = PENDING_REPLY \<and> \<not> silent"
proof -
  have "r \<in> set (preview_session lib initialConversationState xs)" using assms(1) by simp
  then obtain i where "r = runPreviewEngine lib i" using session_steps by blast
  then have r: "ch_pending (eo_state r) \<and> (silent \<longrightarrow> ch_silenced (eo_state r))" using assms(2) step_handoff by blast
  have q: "q \<in> set (preview_session lib (eo_state r) (drop (Suc (length rs)) xs))"
    using assms(4) session_append [OF assms(1)] by simp
  have "\<forall>x\<in>set (drop (Suc (length rs)) xs). x \<in> set xs" by (auto dest: in_set_dropD)
  then have "ch_silenced (eo_state r) \<or> (\<forall>x\<in>set (drop (Suc (length rs)) xs). ag_stopAfterHandoff (ei_settings (snd x)))"
    using r assms(3) by blast
  then show ?thesis using session_waiting_from [OF _ q assms(5)] r by blast
qed

section \<open>A session that is handed over\<close>

text \<open>Words of letters beyond the first 256 characters are neither stop words nor greetings.\<close>

lemma u_words_small: "x \<in> set (u_words s) \<Longrightarrow> c \<in> set x \<Longrightarrow> c < 256"
  by (auto simp: u_words_def nonempty_texts_def u_def of_char_of)

lemma stopword_small: "x \<in> set STOPWORDS \<Longrightarrow> c \<in> set x \<Longrightarrow> c < 256"
  using u_words_small unfolding STOPWORDS_def by (auto simp only: set_append Un_iff)

lemma greeting_small: "x \<in> set GREETINGS \<Longrightarrow> c \<in> set x \<Longrightarrow> c < 256"
  using u_words_small unfolding GREETINGS_def by blast

definition demo_word :: utext where
  "demo_word = [1000, 1001]"

definition demo_unicode :: unicode where
  "demo_unicode = \<lparr>un_lower = (\<lambda>s. s), un_wordChar = (\<lambda>c. 256 \<le> c)\<rparr>"

definition demo_lib :: engine_lib where
  "demo_lib = \<lparr>el_unicode = demo_unicode, el_number = (\<lambda>_. []), el_hour = (\<lambda>_ _. 9), el_weight = (\<lambda>_ _. 1)\<rparr>"

definition demo_settings :: agent_settings where
  "demo_settings = \<lparr>ag_welcomeMessage = u ''Halo'', ag_welcomeImage = None, ag_transferConditions = demo_word, ag_stopAfterHandoff = True,
     ag_silentHandoff = False, ag_pendingAssignedMessage = [], ag_pendingUnassignedMessage = demo_word, ag_allowedLabels = [],
     ag_labelConditions = [], ag_allowedPipelineStatuses = [demo_word], ag_pipelineConditions = [], ag_historyLimit = 5, ag_contextLimit = 5,
     ag_temperature = PRECISE, ag_messageLimit = 1, ag_timezone = []\<rparr>"

definition demo_turn :: "bool \<times> engine_input" where
  "demo_turn = (False, \<lparr>ei_settings = demo_settings, ei_knowledge = \<lparr>kn_texts = [], kn_files = [], kn_qna = [], kn_products = []\<rparr>,
     ei_pipeline = [[], demo_word], ei_state = initialConversationState, ei_incoming = [demo_word], ei_history = [], ei_now = 0\<rparr>)"

lemma demo_word_content: "contentTokens demo_unicode demo_word = [demo_word]"
proof -
  have t: "tokenize demo_unicode demo_word = [demo_word]"
    by (simp add: tokenize_def demo_unicode_def demo_word_def)
  have "demo_word \<notin> set STOPWORDS" "demo_word \<notin> set GREETINGS"
    using stopword_small [of demo_word 1000] greeting_small [of demo_word 1000] by (auto simp: demo_word_def)
  then show ?thesis by (simp add: contentTokens_def t uniq_def set_add_def)
qed

lemma demo_word_text: "u_trim (u_join [10] [demo_word]) = demo_word" "tokenize demo_unicode demo_word = [demo_word]"
    "conditionLines demo_word = [demo_word]" "conditionLines [] = []" "demo_word \<noteq> []" "u_trim demo_word = demo_word"
    "hasToken [demo_word] demo_word"
  by (simp_all add: demo_word_def demo_unicode_def u_trim_def u_trimEnd_def u_space_def tokenize_def conditionLines_def nonempty_texts_def
      hasToken_def tokensMatch_def)

lemma demo_word_matches: "matchesConditions demo_unicode demo_word [demo_word]" "actionMatches demo_unicode demo_word [] [demo_word]"
  by (simp_all add: matchesConditions_def actionMatches_def lineMatches_def demo_word_text demo_word_content count_where_def)

lemma demo_first:
  "HandoffEvent False \<in> set (eo_events (session_step demo_lib initialConversationState demo_turn))"
  by (simp add: session_step_def runPreviewEngine_def Let_def demo_turn_def demo_settings_def demo_lib_def initialConversationState_def
      demo_word_text demo_word_matches)

lemma demo_second:
  "reply PENDING_REPLY demo_word [] None \<in>
     set (eo_replies (session_step demo_lib (eo_state (session_step demo_lib initialConversationState demo_turn)) demo_turn))"
  by (simp add: session_step_def runPreviewEngine_def Let_def demo_turn_def demo_settings_def demo_lib_def initialConversationState_def
      demo_word_text demo_word_matches)

theorem preview_stops_after_handoff_witness:
  "er_kind (reply PENDING_REPLY demo_word [] None) = PENDING_REPLY \<and> \<not> False"
proof (rule preview_stops_after_handoff)
  show "preview_session demo_lib initialConversationState [demo_turn, demo_turn] = [] @
      session_step demo_lib initialConversationState demo_turn #
      [session_step demo_lib (eo_state (session_step demo_lib initialConversationState demo_turn)) demo_turn]"
    by (simp add: Let_def)
  show "HandoffEvent False \<in> set (eo_events (session_step demo_lib initialConversationState demo_turn))" by (rule demo_first)
  show "False \<or> (\<forall>x\<in>set [demo_turn, demo_turn]. ag_stopAfterHandoff (ei_settings (snd x)))"
    by (simp add: demo_turn_def demo_settings_def)
  show "session_step demo_lib (eo_state (session_step demo_lib initialConversationState demo_turn)) demo_turn
      \<in> set [session_step demo_lib (eo_state (session_step demo_lib initialConversationState demo_turn)) demo_turn]" by simp
  show "reply PENDING_REPLY demo_word [] None \<in>
      set (eo_replies (session_step demo_lib (eo_state (session_step demo_lib initialConversationState demo_turn)) demo_turn))"
    by (rule demo_second)
qed

theorem preview_within_limit_witness:
  "session_replies (preview_session demo_lib initialConversationState [demo_turn, demo_turn, demo_turn]) \<le> 1"
  using preview_within_limit [of "[demo_turn, demo_turn, demo_turn]" 1 demo_lib] by (simp add: demo_turn_def demo_settings_def)

section \<open>Actions\<close>

lemma apply_labels_grow:
  "\<exists>new. apply_labels un g tokens held = held @ new \<and> set new \<subseteq> set (ag_allowedLabels g) \<and> distinct new \<and> set new \<inter> set held = {}"
proof -
  have "\<exists>new. foldl (\<lambda>ls l. if l \<in> set ls then ls else if P l then ls @ [l] else ls) held ls = held @ new \<and>
      set new \<subseteq> set ls \<and> distinct new \<and> set new \<inter> set held = {}" for P and ls :: "utext list"
  proof (induction ls rule: rev_induct)
    case (snoc l ls)
    then obtain new where n: "foldl (\<lambda>ls l. if l \<in> set ls then ls else if P l then ls @ [l] else ls) held ls = held @ new"
      "set new \<subseteq> set ls" "distinct new" "set new \<inter> set held = {}" by blast
    show ?case
      using n by (cases "l \<in> set (held @ new) \<or> \<not> P l") (auto intro: exI [of _ new] exI [of _ "new @ [l]"])
  qed simp
  then show ?thesis by (simp add: apply_labels_def)
qed

definition pipeline_index :: "utext list \<Rightarrow> utext option \<Rightarrow> int" where
  "pipeline_index pipeline status = (case status of Some s \<Rightarrow> if s = [] then 0 else index_of pipeline s | None \<Rightarrow> 0)"

lemma pipeline_target_ahead:
  assumes "pipeline_target un g pipeline tokens status = Some t"
  shows "\<exists>k<length pipeline. pipeline ! k = t \<and> pipeline_index pipeline status < int k \<and> t \<in> set (ag_allowedPipelineStatuses g)"
proof -
  define cur where "cur = pipeline_index pipeline status"
  have ahead: "foldl (\<lambda>target (index, s). if int index \<le> cur \<or> s \<notin> set (ag_allowedPipelineStatuses g) then target
         else if P s then Some s else target) None xs = Some t \<Longrightarrow>
      \<exists>k. (k, t) \<in> set xs \<and> cur < int k \<and> t \<in> set (ag_allowedPipelineStatuses g)" for P xs
    by (induction xs rule: rev_induct) (fastforce split: if_splits)+
  then have "\<exists>k. (k, t) \<in> set (enumerate 0 pipeline) \<and> cur < int k \<and> t \<in> set (ag_allowedPipelineStatuses g)"
    using ahead [of "\<lambda>s. actionMatches un s (ag_pipelineConditions g) tokens" "enumerate 0 pipeline"] assms
    unfolding pipeline_target_def Let_def cur_def pipeline_index_def by blast
  then show ?thesis by (auto simp: in_set_enumerate_eq cur_def)
qed

definition moves_forward :: "agent_settings \<Rightarrow> utext list \<Rightarrow> chat_state \<Rightarrow> chat_state \<Rightarrow> bool" where
  "moves_forward g pipeline st st' =
     ((\<exists>new. ch_labels st' = ch_labels st @ new \<and> set new \<subseteq> set (ag_allowedLabels g) \<and> distinct new \<and> set new \<inter> set (ch_labels st) = {}) \<and>
      (ch_pipelineStatus st' = ch_pipelineStatus st \<or>
       (\<exists>k<length pipeline. ch_pipelineStatus st' = Some (pipeline ! k) \<and> pipeline_index pipeline (ch_pipelineStatus st) < int k \<and>
          pipeline ! k \<in> set (ag_allowedPipelineStatuses g))))"

lemma moves_forward_acted: "moves_forward (ei_settings i) (ei_pipeline i) st (snd (applyActions lib i tokens st))"
proof -
  let ?t = "pipeline_target (el_unicode lib) (ei_settings i) (ei_pipeline i) tokens (ch_pipelineStatus st)"
  have l: "ch_labels (snd (applyActions lib i tokens st)) = apply_labels (el_unicode lib) (ei_settings i) tokens (ch_labels st)"
    by (simp add: applyActions_def Let_def split: option.splits)
  have p: "ch_pipelineStatus (snd (applyActions lib i tokens st)) = (case ?t of None \<Rightarrow> ch_pipelineStatus st | Some t \<Rightarrow> Some t)"
    by (simp add: applyActions_def Let_def split: option.splits)
  show ?thesis
    unfolding moves_forward_def l p
  proof (intro conjI, rule apply_labels_grow, cases ?t)
    case (Some t)
    then show "(case ?t of None \<Rightarrow> ch_pipelineStatus st | Some t \<Rightarrow> Some t) = ch_pipelineStatus st \<or>
        (\<exists>k<length (ei_pipeline i). (case ?t of None \<Rightarrow> ch_pipelineStatus st | Some t \<Rightarrow> Some t) = Some (ei_pipeline i ! k) \<and>
          pipeline_index (ei_pipeline i) (ch_pipelineStatus st) < int k \<and> ei_pipeline i ! k \<in> set (ag_allowedPipelineStatuses (ei_settings i)))"
      using pipeline_target_ahead [OF Some] by auto
  qed simp
qed

lemma moves_forward_fields:
  assumes "ch_labels st' = ch_labels s" "ch_pipelineStatus st' = ch_pipelineStatus s" "moves_forward g p st s"
  shows "moves_forward g p st st'"
  using assms by (simp add: moves_forward_def)

lemma moves_forward_refl: "moves_forward g p st st"
  by (simp add: moves_forward_def)

text \<open>C26: The actions of the AI agent only ever add labels that the settings allow, each once and never one the chat
  has, and only ever move the chat to an allowed status that lies further along the pipeline.
\<close>
theorem preview_moves_forward:
  "moves_forward (ei_settings i) (ei_pipeline i) (ei_state i) (eo_state (runPreviewEngine lib i))"
proof -
  define s where "s = snd (applyActions lib i (tokenize (el_unicode lib) (u_trim (u_join [10] (ei_incoming i)))) (ei_state i))"
  let ?o = "eo_state (runPreviewEngine lib i)"
  have "ch_labels ?o = ch_labels (ei_state i) \<and> ch_pipelineStatus ?o = ch_pipelineStatus (ei_state i) \<or>
      ch_labels ?o = ch_labels s \<and> ch_pipelineStatus ?o = ch_pipelineStatus s"
    by (simp add: runPreviewEngine_def Let_def counted_def s_def)
  moreover have "moves_forward (ei_settings i) (ei_pipeline i) (ei_state i) s"
    unfolding s_def by (rule moves_forward_acted)
  ultimately show ?thesis using moves_forward_fields moves_forward_refl by blast
qed

end
