(* ===== verification/Health.thy ===== *)
theory Health
  imports JobTransport Db "HOL-Library.AList"
begin

text \<open>
  Health reports: the checks and reports of \<open>packages/observability/src/health/health-check.ts\<close>, the worker's
  heartbeat with the container check that reads it (\<open>apps/worker/src/health\<close>), and the monitor of the
  pg-boss drain (\<open>apps/worker/src/queue/pg-boss-drain-monitor.service.ts\<close>). What the database and Redis
  answer, and after how long, are arguments; service names, versions and uptimes of reports are left out.
\<close>

section \<open>Checks and reports\<close>

datatype health_status = HealthUp | HealthDown | HealthDegraded

record subsystem_health =
  sh_status :: health_status
  sh_latencyMs :: int
  sh_error :: "string option"
  sh_details :: "(string \<times> nat) list"

text \<open>A failure is the message of the Error, or None when something else was thrown.\<close>

definition timed_check :: "string \<Rightarrow> int \<Rightarrow> string option + unit \<Rightarrow> subsystem_health" where
  "timed_check fallback latency answer = (case answer of
     Inr _ \<Rightarrow> \<lparr>sh_status = (if latency > 1000 then HealthDegraded else HealthUp), sh_latencyMs = latency, sh_error = None, sh_details = []\<rparr>
   | Inl message \<Rightarrow> \<lparr>sh_status = HealthDown, sh_latencyMs = latency,
       sh_error = Some (case message of Some m \<Rightarrow> m | None \<Rightarrow> fallback), sh_details = []\<rparr>)"

definition checkDatabaseHealth :: "int \<Rightarrow> string option + unit \<Rightarrow> subsystem_health" where
  "checkDatabaseHealth = timed_check ''Database query failed''"

definition checkRedisHealth :: "string \<Rightarrow> int \<Rightarrow> string option + unit \<Rightarrow> subsystem_health" where
  "checkRedisHealth status latency answer = (if status \<noteq> ''ready''
     then \<lparr>sh_status = HealthDown, sh_latencyMs = 0, sh_error = Some (''Redis connection is '' @ status), sh_details = []\<rparr>
     else timed_check ''Redis ping failed'' latency answer)"

definition redis_health :: "(string \<times> int \<times> (string option + unit)) option \<Rightarrow> subsystem_health option" where
  "redis_health redis = map_option (\<lambda>(status, latency, answer). checkRedisHealth status latency answer) redis"

definition lagging :: "int \<Rightarrow> outbox_event \<Rightarrow> bool" where
  "lagging now e = (oe_status e = OPending \<and> oe_scheduledAt e < now - 60000)"

definition checkOutboxHealth :: "int \<Rightarrow> int \<Rightarrow> string option + outbox_event list \<Rightarrow> subsystem_health" where
  "checkOutboxHealth now latency table = (case table of
     Inr events \<Rightarrow> (let lag = count_where (lagging now) events; dead = count_where (\<lambda>e. oe_status e = ODeadLetter) events in
       \<lparr>sh_status = (if dead > 0 \<or> lag > 100 then HealthDegraded else HealthUp), sh_latencyMs = latency, sh_error = None,
        sh_details = [(''pendingLagCount'', lag), (''deadLetterCount'', dead)]\<rparr>)
   | Inl message \<Rightarrow> \<lparr>sh_status = HealthDegraded, sh_latencyMs = latency,
       sh_error = Some (case message of Some m \<Rightarrow> m | None \<Rightarrow> ''Failed to query outbox metrics''), sh_details = []\<rparr>)"

definition buildReadinessReport :: "subsystem_health \<Rightarrow> subsystem_health option \<Rightarrow> health_status" where
  "buildReadinessReport database redis =
     (let checks = database # (case redis of Some r \<Rightarrow> [r] | None \<Rightarrow> []) in
      if list_all (\<lambda>c. sh_status c = HealthUp) checks then HealthUp else HealthDown)"

text \<open>The readiness endpoint: the status code for the load balancer.\<close>

definition getReadiness :: "subsystem_health \<Rightarrow> subsystem_health option \<Rightarrow> nat \<times> health_status" where
  "getReadiness database redis = (let s = buildReadinessReport database redis in (if s = HealthDown then 503 else 200, s))"

definition overall_status :: "subsystem_health list \<Rightarrow> health_status" where
  "overall_status subsystems =
     (if list_ex (\<lambda>s. sh_status s = HealthDown) subsystems then HealthDown
      else if list_ex (\<lambda>s. sh_status s = HealthDegraded) subsystems then HealthDegraded else HealthUp)"

record health_indicators =
  hi_database :: subsystem_health
  hi_redis :: "subsystem_health option"
  hi_outbox :: "subsystem_health option"
  hi_queue :: "subsystem_health option"
  hi_webhooks :: "subsystem_health option"
  hi_storage :: "subsystem_health option"
  hi_providers :: "(string \<times> subsystem_health) list option"

definition buildSystemHealthReport :: "health_indicators \<Rightarrow> health_status \<times> health_indicators" where
  "buildSystemHealthReport i =
     (let present = List.map_filter id [Some (hi_database i), hi_redis i, hi_outbox i, hi_queue i, hi_webhooks i, hi_storage i] @
        (case hi_providers i of Some ps \<Rightarrow> map snd ps | None \<Rightarrow> [])
      in (overall_status present, i))"

text \<open>The webhook ingress has no check of its own.\<close>

definition buildSystemHealth :: "subsystem_health \<Rightarrow> subsystem_health option \<Rightarrow> subsystem_health \<Rightarrow> health_status \<times> health_indicators" where
  "buildSystemHealth database redis outbox = buildSystemHealthReport \<lparr>hi_database = database, hi_redis = redis, hi_outbox = Some outbox,
     hi_queue = None, hi_webhooks = Some \<lparr>sh_status = HealthUp, sh_latencyMs = 0, sh_error = None, sh_details = []\<rparr>,
     hi_storage = None, hi_providers = None\<rparr>"

lemma outbox_trouble_shown:
  assumes "sh_status database = HealthUp" "\<forall>r. redis = Some r \<longrightarrow> sh_status r = HealthUp"
  shows "fst (buildSystemHealth database redis (checkOutboxHealth now latency (Inr events))) = HealthUp \<longleftrightarrow>
    (\<forall>e\<in>set events. oe_status e \<noteq> ODeadLetter) \<and> count_where (lagging now) events \<le> 100"
  using assms
  by (auto simp: buildSystemHealth_def buildSystemHealthReport_def overall_status_def checkOutboxHealth_def Let_def map_filter_simps
      count_where_def filter_empty_conv split: option.splits)

section \<open>The heartbeat of the worker\<close>

text \<open>A promise settles after some time or never; \<open>withTimeout\<close> gives up on it.\<close>

definition withTimeout :: "int \<Rightarrow> (int \<times> bool) option \<Rightarrow> bool" where
  "withTimeout ms promise = (case promise of Some (t, ok) \<Rightarrow> t < ms \<and> ok | None \<Rightarrow> False)"

record beat_input =
  bt_running :: bool
  bt_ping :: "(int \<times> bool) option"
  bt_writable :: bool
  bt_at :: int

record heartbeat =
  hb_file :: "int option"
  hb_timer :: bool
  hb_healthy :: "bool option"

definition DB_PING_TIMEOUT_MS :: int where
  "DB_PING_TIMEOUT_MS = 5000"

definition HEARTBEAT_MAX_AGE_MS :: int where
  "HEARTBEAT_MAX_AGE_MS = 3 * 10000"

definition beat_ok :: "beat_input \<Rightarrow> bool" where
  "beat_ok b = (bt_running b \<and> withTimeout DB_PING_TIMEOUT_MS (bt_ping b) \<and> bt_writable b)"

definition beat :: "heartbeat \<Rightarrow> beat_input \<Rightarrow> heartbeat" where
  "beat h b = (if beat_ok b then h\<lparr>hb_file := Some (bt_at b), hb_healthy := Some True\<rparr> else h\<lparr>hb_healthy := Some False\<rparr>)"

definition heartbeat_start :: "heartbeat \<Rightarrow> heartbeat" where
  "heartbeat_start h = h\<lparr>hb_file := None, hb_timer := True\<rparr>"

definition heartbeat_stop :: "heartbeat \<Rightarrow> heartbeat" where
  "heartbeat_stop h = h\<lparr>hb_file := None, hb_timer := False\<rparr>"

definition isHeartbeatFresh :: "int option \<Rightarrow> int \<Rightarrow> bool" where
  "isHeartbeatFresh content now = (case content of Some t \<Rightarrow> now - t \<le> HEARTBEAT_MAX_AGE_MS | None \<Rightarrow> False)"

text \<open>The container is healthy exactly when one of the beats of the last thirty seconds found the queue
  running and the database answering; what an earlier process left behind does not count.\<close>

theorem heartbeat_exact:
  assumes "sorted (map bt_at bs)"
  shows "isHeartbeatFresh (hb_file (foldl beat (heartbeat_start h) bs)) now \<longleftrightarrow> (\<exists>b\<in>set bs. beat_ok b \<and> now - bt_at b \<le> HEARTBEAT_MAX_AGE_MS)"
  using assms
proof (induction bs rule: rev_induct)
  case Nil
  then show ?case by (simp add: heartbeat_start_def isHeartbeatFresh_def)
next
  case (snoc b bs)
  show ?case
  proof (cases "beat_ok b")
    case True
    have "\<forall>c\<in>set bs. bt_at c \<le> bt_at b" using snoc.prems by (auto simp: sorted_append)
    then show ?thesis using True by (auto simp: beat_def isHeartbeatFresh_def)
  next
    case False
    then show ?thesis using snoc by (simp add: beat_def sorted_append)
  qed
qed

section \<open>The monitor of the pg-boss drain\<close>

type_synonym backlog = "(string \<times> (string \<times> nat) list) list"

text \<open>One row of the job table: its queue and its state.\<close>

type_synonym job_row = "string \<times> string"

definition UNFINISHED_STATES :: "string list" where
  "UNFINISHED_STATES = [''created'', ''retry'', ''active'']"

definition unfinished :: "job_row list \<Rightarrow> job_row list" where
  "unfinished jobs = filter (\<lambda>j. snd j \<in> set UNFINISHED_STATES) jobs"

text \<open>The answer of the grouping query; the database does not promise an order of the groups.\<close>

definition counted_groups :: "job_row list \<Rightarrow> (job_row \<times> nat) list" where
  "counted_groups jobs = map (\<lambda>j. (j, count_list jobs j)) (remdups jobs)"

definition backlog_put :: "backlog \<Rightarrow> job_row \<times> nat \<Rightarrow> backlog" where
  "backlog_put b r = (let (name, state) = fst r; states = (case map_of b name of Some x \<Rightarrow> x | None \<Rightarrow> []) in
     AList.update name (AList.update state (snd r) states) b)"

definition countPgBossBacklog :: "job_row list option \<Rightarrow> backlog option" where
  "countPgBossBacklog table = map_option (\<lambda>jobs. foldl backlog_put [] (counted_groups (unfinished jobs))) table"

definition backlog_total :: "backlog \<Rightarrow> nat" where
  "backlog_total b = sum_list (map snd (concat (map snd b)))"

record drain_status =
  ds_drainRunning :: bool
  ds_pgBossBacklog :: "backlog option"
  ds_pgBossBacklogTotal :: "nat option"
  ds_drainVerifiedComplete :: bool
  ds_bullmqBacklog :: "backlog option"

record drain_monitor =
  dm_lastSummary :: "(backlog option \<times> bool) option"
  dm_degradedSince :: "int option"
  dm_degradedReportedAt :: int

definition fresh_monitor :: drain_monitor where
  "fresh_monitor = \<lparr>dm_lastSummary = None, dm_degradedSince = None, dm_degradedReportedAt = 0\<rparr>"

datatype drain_log = DrainUnknown | DrainDegraded int | DrainRecovered | DrainComplete | DrainInProgress

definition DEGRADED_REMINDER_MS :: int where
  "DEGRADED_REMINDER_MS = 5 * 60000"

definition drain_degraded :: "drain_status \<Rightarrow> bool" where
  "drain_degraded d = (\<not> ds_drainRunning d \<and> \<not> ds_drainVerifiedComplete d)"

definition drain_report :: "drain_status \<Rightarrow> int \<Rightarrow> drain_monitor \<Rightarrow> drain_log list \<times> drain_monitor" where
  "drain_report d now m =
     (if drain_degraded d then
        (let since = (case dm_degradedSince m of Some t \<Rightarrow> t | None \<Rightarrow> now); m1 = m\<lparr>dm_degradedSince := Some since\<rparr> in
         if now - dm_degradedReportedAt m \<ge> DEGRADED_REMINDER_MS
         then ([DrainDegraded (now - since)], m1\<lparr>dm_degradedReportedAt := now\<rparr>) else ([], m1))
      else
        (let recovered = (if dm_degradedSince m \<noteq> None then [DrainRecovered] else []);
             m1 = (if dm_degradedSince m \<noteq> None then m\<lparr>dm_degradedSince := None, dm_degradedReportedAt := 0\<rparr> else m);
             summary = (ds_pgBossBacklog d, ds_drainRunning d)
         in if dm_lastSummary m1 = Some summary then (recovered, m1)
            else (recovered @ (if ds_drainVerifiedComplete d then [DrainComplete]
                    else if ds_pgBossBacklogTotal d \<noteq> None then [DrainInProgress] else []),
                  m1\<lparr>dm_lastSummary := Some summary\<rparr>)))"

record drain_check =
  dc_now :: int
  dc_drainRunning :: bool
  dc_jobs :: "job_row list option"
  dc_bullmq :: "backlog option"

definition drain_status_of :: "drain_check \<Rightarrow> drain_status" where
  "drain_status_of c = (let backlog = countPgBossBacklog (dc_jobs c); total = map_option backlog_total backlog in
     \<lparr>ds_drainRunning = dc_drainRunning c, ds_pgBossBacklog = backlog, ds_pgBossBacklogTotal = total,
      ds_drainVerifiedComplete = (total = Some 0), ds_bullmqBacklog = dc_bullmq c\<rparr>)"

definition drain_check_step :: "drain_check \<Rightarrow> drain_monitor \<Rightarrow> drain_log list \<times> drain_monitor" where
  "drain_check_step c m = (let r = drain_report (drain_status_of c) (dc_now c) m in
     ((if dc_jobs c = None then [DrainUnknown] else []) @ fst r, snd r))"

fun drain_run :: "drain_monitor \<Rightarrow> drain_check list \<Rightarrow> drain_log list list \<times> drain_monitor" where
  "drain_run m [] = ([], m)"
| "drain_run m (c # cs) = (let (l, m1) = drain_check_step c m; (ls, m2) = drain_run m1 cs in (l # ls, m2))"

text \<open>The backlog counts every unfinished job once.\<close>

lemma backlog_total_update:
  "backlog_total (AList.update n x b) + (case map_of b n of Some y \<Rightarrow> sum_list (map snd y) | None \<Rightarrow> 0) = backlog_total b + sum_list (map snd x)"
  by (induction b) (auto simp: backlog_total_def split: option.splits)

lemma states_total_update:
  "map_of x s = None \<Longrightarrow> sum_list (map snd (AList.update s c x)) = sum_list (map snd x) + (c :: nat)"
  by (induction x) (auto split: if_splits)

definition backlog_has :: "backlog \<Rightarrow> job_row \<Rightarrow> bool" where
  "backlog_has b j = (\<exists>x. map_of b (fst j) = Some x \<and> map_of x (snd j) \<noteq> None)"

lemma backlog_has_put: "backlog_has (backlog_put b (j, c)) k \<longleftrightarrow> k = j \<or> backlog_has b k"
  by (cases j; cases k) (auto simp: backlog_has_def backlog_put_def update_conv' split: option.splits)

lemma backlog_total_put: "\<not> backlog_has b j \<Longrightarrow> backlog_total (backlog_put b (j, c)) = backlog_total b + c"
proof (cases "map_of b (fst j)")
  case None
  then show ?thesis using backlog_total_update [of "fst j" "[(snd j, c)]" b] by (simp add: backlog_put_def Let_def split_beta)
next
  case (Some x)
  moreover assume "\<not> backlog_has b j"
  ultimately have "sum_list (map snd (AList.update (snd j) c x)) = sum_list (map snd x) + c"
    by (simp add: backlog_has_def states_total_update)
  then show ?thesis using Some backlog_total_update [of "fst j" "AList.update (snd j) c x" b]
    by (simp add: backlog_put_def Let_def split_beta)
qed

lemma backlog_total_groups:
  "distinct (map fst gs) \<Longrightarrow> \<forall>j\<in>set (map fst gs). \<not> backlog_has b j \<Longrightarrow>
    backlog_total (foldl backlog_put b gs) = backlog_total b + sum_list (map snd gs)"
proof (induction gs arbitrary: b)
  case (Cons g gs)
  obtain j c where g: "g = (j, c)" by (cases g)
  have "\<forall>k\<in>set (map fst gs). \<not> backlog_has (backlog_put b (j, c)) k" using Cons.prems by (auto simp: g backlog_has_put)
  then have "backlog_total (foldl backlog_put (backlog_put b (j, c)) gs) = backlog_total (backlog_put b (j, c)) + sum_list (map snd gs)"
    using Cons by simp
  then show ?case using Cons.prems by (simp add: g backlog_total_put)
qed simp

lemma backlog_counts_jobs:
  "map_option backlog_total (countPgBossBacklog table) = map_option (\<lambda>jobs. length (unfinished jobs)) table"
proof (cases table)
  case (Some jobs)
  let ?u = "unfinished jobs"
  have "sum_list (map snd (counted_groups ?u)) = (\<Sum>j\<in>set ?u. count_list ?u j)"
    by (simp add: counted_groups_def comp_def sum_list_distinct_conv_sum_set)
  then have "sum_list (map snd (counted_groups ?u)) = length ?u" by (simp add: sum_count_set)
  moreover have "distinct (map fst (counted_groups ?u))" by (simp add: counted_groups_def comp_def)
  ultimately show ?thesis
    using backlog_total_groups [of "counted_groups ?u" "[]"] Some
    by (simp add: countPgBossBacklog_def backlog_has_def backlog_total_def)
qed (simp add: countPgBossBacklog_def)

lemma drain_verified_iff:
  "ds_drainVerifiedComplete (drain_status_of c) \<longleftrightarrow> (\<exists>jobs. dc_jobs c = Some jobs \<and> unfinished jobs = [])"
  using backlog_counts_jobs [of "dc_jobs c"]
  by (cases "dc_jobs c"; cases "countPgBossBacklog (dc_jobs c)") (auto simp: drain_status_of_def Let_def)

lemma drain_run_snoc:
  "drain_run m (cs @ [c]) = (fst (drain_run m cs) @ [fst (drain_check_step c (snd (drain_run m cs)))],
     snd (drain_check_step c (snd (drain_run m cs))))"
  by (induction cs arbitrary: m) (simp_all add: Let_def split_beta)

lemma drain_run_length [simp]: "length (fst (drain_run m cs)) = length cs"
  by (induction cs arbitrary: m) (simp_all add: Let_def split_beta)

text \<open>Completion is logged only when the count succeeded and found no unfinished job, and whenever a count
  finds none, it is logged then or was logged before.\<close>

theorem drain_complete_sound:
  assumes "DrainComplete \<in> set (fst (drain_check_step c m))"
  shows "\<exists>jobs. dc_jobs c = Some jobs \<and> unfinished jobs = []"
  using assms by (auto simp: drain_check_step_def drain_report_def Let_def drain_verified_iff split: if_splits)

lemma drain_summary_logged:
  assumes "dm_lastSummary (snd (drain_run fresh_monitor cs)) = Some (Some b, r)" "backlog_total b = 0"
  shows "\<exists>l\<in>set (fst (drain_run fresh_monitor cs)). DrainComplete \<in> set l"
  using assms
proof (induction cs rule: rev_induct)
  case Nil
  then show ?case by (simp add: fresh_monitor_def)
next
  case (snoc c cs)
  show ?case
  proof (cases "dm_lastSummary (snd (drain_run fresh_monitor cs)) = Some (Some b, r)")
    case True
    then show ?thesis using snoc by (simp add: drain_run_snoc)
  next
    case False
    have "ds_pgBossBacklog (drain_status_of c) = Some b \<Longrightarrow> ds_drainVerifiedComplete (drain_status_of c)"
      using snoc.prems(2) by (simp add: drain_status_of_def Let_def)
    then show ?thesis using False snoc.prems(1)
      by (auto simp: drain_run_snoc drain_check_step_def drain_report_def Let_def split: if_splits)
  qed
qed

theorem drain_complete_announced:
  assumes "dc_jobs c = Some jobs" "unfinished jobs = []"
  shows "\<exists>l\<in>set (fst (drain_run fresh_monitor (cs @ [c]))). DrainComplete \<in> set l"
proof -
  have v: "ds_drainVerifiedComplete (drain_status_of c)" using assms by (simp add: drain_verified_iff)
  then obtain b where b: "ds_pgBossBacklog (drain_status_of c) = Some b" "backlog_total b = 0"
    by (auto simp: drain_status_of_def Let_def)
  have "dm_lastSummary (snd (drain_run fresh_monitor (cs @ [c]))) = Some (Some b, ds_drainRunning (drain_status_of c))"
    using v b(1) by (auto simp: drain_run_snoc drain_check_step_def drain_report_def drain_degraded_def Let_def)
  then show ?thesis using drain_summary_logged b(2) by blast
qed

text \<open>As long as the drain is degraded, a warning was logged less than five minutes ago.\<close>

definition degraded_check :: "drain_check \<Rightarrow> bool" where
  "degraded_check c = drain_degraded (drain_status_of c)"

definition warned :: "drain_log list \<Rightarrow> bool" where
  "warned l = (\<exists>ms. DrainDegraded ms \<in> set l)"

definition warned_since :: "drain_check list \<Rightarrow> drain_log list list \<Rightarrow> int \<Rightarrow> bool" where
  "warned_since cs ls t = (\<exists>k<length cs. warned (ls ! k) \<and> dc_now (cs ! k) = t \<and> (\<forall>j. k \<le> j \<and> j < length cs \<longrightarrow> degraded_check (cs ! j)))"

lemma warned_since_snoc:
  "length ls = length cs \<Longrightarrow> degraded_check c \<Longrightarrow> warned_since cs ls t \<Longrightarrow> warned_since (cs @ [c]) (ls @ [l]) t"
  unfolding warned_since_def
  by (elim exE conjE, rule_tac x = k in exI) (auto simp: nth_append less_Suc_eq)

lemma warned_since_now:
  "length ls = length cs \<Longrightarrow> degraded_check c \<Longrightarrow> warned l \<Longrightarrow> warned_since (cs @ [c]) (ls @ [l]) (dc_now c)"
  unfolding warned_since_def by (rule exI [of _ "length cs"]) (auto simp: nth_append)

lemma drain_warned:
  assumes "\<forall>c\<in>set cs. DEGRADED_REMINDER_MS \<le> dc_now c"
  shows "(dm_degradedReportedAt (snd (drain_run fresh_monitor cs)) \<noteq> 0 \<longrightarrow>
      warned_since cs (fst (drain_run fresh_monitor cs)) (dm_degradedReportedAt (snd (drain_run fresh_monitor cs)))) \<and>
    (dm_degradedSince (snd (drain_run fresh_monitor cs)) = None \<longrightarrow> dm_degradedReportedAt (snd (drain_run fresh_monitor cs)) = 0) \<and>
    (cs \<noteq> [] \<and> degraded_check (last cs) \<longrightarrow> dm_degradedReportedAt (snd (drain_run fresh_monitor cs)) \<noteq> 0 \<and>
      dc_now (last cs) - dm_degradedReportedAt (snd (drain_run fresh_monitor cs)) < DEGRADED_REMINDER_MS)"
  using assms
proof (induction cs rule: rev_induct)
  case Nil
  then show ?case by (simp add: fresh_monitor_def)
next
  case (snoc c cs)
  let ?m = "snd (drain_run fresh_monitor cs)" let ?l = "fst (drain_check_step c ?m)"
  have n: "DEGRADED_REMINDER_MS \<le> dc_now c" "0 < DEGRADED_REMINDER_MS" using snoc.prems by (simp_all add: DEGRADED_REMINDER_MS_def)
  show ?case
  proof (cases "degraded_check c")
    case True
    show ?thesis
    proof (cases "dc_now c - dm_degradedReportedAt ?m \<ge> DEGRADED_REMINDER_MS")
      case t: True
      have w: "warned ?l" "dm_degradedReportedAt (snd (drain_check_step c ?m)) = dc_now c" "dm_degradedSince (snd (drain_check_step c ?m)) \<noteq> None"
        using True t by (auto simp: warned_def degraded_check_def drain_check_step_def drain_report_def Let_def)
      then show ?thesis using n warned_since_now [of "fst (drain_run fresh_monitor cs)" cs c ?l] True by (simp add: drain_run_snoc)
    next
      case f: False
      have w: "dm_degradedReportedAt (snd (drain_check_step c ?m)) = dm_degradedReportedAt ?m" "dm_degradedSince (snd (drain_check_step c ?m)) \<noteq> None"
        using True f by (auto simp: degraded_check_def drain_check_step_def drain_report_def Let_def)
      have "dm_degradedReportedAt ?m \<noteq> 0" using f n by auto
      then show ?thesis
        using w f True snoc warned_since_snoc [of "fst (drain_run fresh_monitor cs)" cs c "dm_degradedReportedAt ?m" ?l] by (simp add: drain_run_snoc)
    qed
  next
    case False
    then have "dm_degradedReportedAt (snd (drain_check_step c ?m)) = 0"
      using snoc by (auto simp: degraded_check_def drain_check_step_def drain_report_def Let_def)
    then show ?thesis using False by (simp add: drain_run_snoc)
  qed
qed

theorem drain_alarm:
  assumes "\<forall>x\<in>set (cs @ [c]). DEGRADED_REMINDER_MS \<le> dc_now x" "degraded_check c"
  shows "\<exists>t. warned_since (cs @ [c]) (fst (drain_run fresh_monitor (cs @ [c]))) t \<and> dc_now c - t < DEGRADED_REMINDER_MS"
  using drain_warned [OF assms(1)] assms(2) by auto

end
