(* ===== verification/Spec2Isabelle.thy ===== *)
theory Spec2Isabelle
  imports Prelude Delivery Jobs Json Providers Db Transaction JobTransport Outbox OutboxDispatch ProviderEvents Content Ingest Receipts Inbound Outbound Iam Idempotency Conversations RateLimit JsonText Bytes Cipher Signatures EventExtraction Webhooks Webchat Media Polling InboundContract ProviderHttp Sending SendContract EndpointPolicy Channels ChannelSafety ChannelContract AdapterSetup SetupContract Calendar ObjectKeys StoragePolicy ObjectStore Downloads Realtime RealtimeClient PreviewSession Health
begin

text \<open>
  Verification development for VYNOR CRM, a multi-tenant omnichannel inbox: customers write through WhatsApp,
  Messenger, Instagram, Telegram, LINE, email, a web chat widget or a custom API, and the members of a
  workspace answer from one inbox.

  The system has three programs and shared packages. The API (\<open>apps/api\<close>) takes webhooks of providers, requests
  of the web client and of the chat widget, and realtime connections. The worker (\<open>apps/worker\<close>) takes
  background jobs: what a provider sent becomes conversations, and replies are sent to providers. The web
  client (\<open>apps/web\<close>) shows both. A message comes in like this: the webhook endpoint (\<open>Webhooks\<close>) checks the
  provider's signature (\<open>Signatures\<close>), splits the body into events (\<open>EventExtraction\<close>) and journals them
  with an outbox event each in one transaction (\<open>ProviderEvents\<close>, \<open>Outbox\<close>, \<open>Transaction\<close>); channels
  without webhooks are polled into the same journal (\<open>Polling\<close>, \<open>Mailbox\<close>). The dispatcher of the worker
  (\<open>OutboxDispatch\<close>) hands outbox events to a job queue (\<open>JobTransport\<close>), the inbound processor (\<open>Inbound\<close>)
  normalizes an event with the adapter of its provider (\<open>Normalizing\<close>) and ingests it (\<open>Ingest\<close>), or applies
  a receipt (\<open>Receipts\<close>). The change is announced to the browsers of the workspace (\<open>Realtime\<close>,
  \<open>RealtimeClient\<close>). A reply goes the other way: the conversations service (\<open>Conversations\<close>) stores it with an
  outbox event, and the outbound dispatcher (\<open>Outbound\<close>) sends it through the adapter (\<open>Sending\<close>).
\<close>

text \<open>
  Foundations. \<open>Prelude\<close>: results (\<open>Inl\<close> an error), the JavaScript string operations used, tables as lists, and
  the locale of a transition system with an invariant. \<open>Json\<close>: untyped values, the payload readers
  (\<open>packages/channel-adapters/src/util\<close>), the log redaction, the deduplication fingerprint. \<open>JsonText\<close>:
  \<open>JSON.stringify\<close> and \<open>JSON.parse\<close> with the round trip. \<open>Bytes\<close>: UTF-8, base64 and page cursors. \<open>Db\<close>: one record
  per table of \<open>packages/database/prisma/schema.prisma\<close>, unique constraints, transactions with
  rollback. \<open>Transaction\<close>: the retry loop of \<open>packages/database/src/transaction.ts\<close>. \<open>Calendar\<close>: UTC dates.

  Delivery of work. \<open>Delivery\<close>: the order of delivery statuses. \<open>Jobs\<close>: queues, envelopes, retry delays, error
  classes. \<open>Outbox\<close>, \<open>OutboxDispatch\<close>, \<open>JobTransport\<close>: the transactional outbox, its poll and reconciliation,
  and the transports BullMQ, pg-boss and their draining combination as interpretations of the
  transport locales. \<open>ProviderEvents\<close>: the journal. \<open>Health\<close>: health reports, the worker's heartbeat and the
  monitor of the pg-boss drain.

  Messages. \<open>Content\<close>: rendering and validation of content. \<open>Ingest\<close>, \<open>Receipts\<close>, \<open>Inbound\<close>, \<open>Outbound\<close>: the
  conversation core and the two job handlers of the worker. \<open>Conversations\<close>: the service of the API.
  \<open>Media\<close>, \<open>Webchat\<close>: signed media links, and the public endpoints of the widget.

  Providers. \<open>Providers\<close>: channels, errors and the adapter registry. \<open>ProviderHttp\<close>: the HTTP client and the
  error mappers. \<open>Signatures\<close>, \<open>EventExtraction\<close>, \<open>Webhooks\<close>, \<open>Normalizing\<close>, \<open>Mailbox\<close>, \<open>Polling\<close>, \<open>Sending\<close>,
  \<open>AdapterSetup\<close>: \<open>validateWebhook\<close>, \<open>extractEvents\<close>, the ingress, \<open>normalizeInbound\<close>, \<open>pollInbound\<close>, the polling
  loop, \<open>sendMessage\<close> and the set-up calls of all adapters. \<open>InboundContract\<close> and \<open>SendContract\<close> hold what is
  proved of the adapters against the contracts of \<open>packages/contracts/src/channels\<close>.

  Tenancy and access. \<open>Iam\<close>: tokens, actors, guards, permissions. \<open>Idempotency\<close>, \<open>RateLimit\<close>: the shared stores
  on Redis and in memory, both as interpretations of one locale each. \<open>Cipher\<close>: secrets at rest.
  \<open>EndpointPolicy\<close>: which hosts the server may be sent to. \<open>Channels\<close>, \<open>ChannelSafety\<close>, \<open>ChannelContract\<close>,
  \<open>SetupContract\<close>: the channels service and what it promises, the last with the adapters' own calls.

  Attachments. \<open>ObjectKeys\<close>, \<open>StoragePolicy\<close>, \<open>ObjectStore\<close>, \<open>Downloads\<close>: keys, admission and download policy, the
  S3 client with its signatures, and the endpoint (\<open>packages/storage\<close>, \<open>apps/api/src/storage\<close>).

  Realtime. \<open>Realtime\<close>: rooms, envelope, gateway and hub. \<open>RealtimeClient\<close>: the relay's reconnection as a step
  relation, and the connection manager of the web client.

  AI agent preview. \<open>PreviewText\<close>, \<open>PreviewEngine\<close>, \<open>PreviewSession\<close>: the engine behind the test chat of an
  agent's settings, and sessions of it.
\<close>

text \<open>
  What the lemma groups show. The properties are numbered C1, C2, and so on, each above its theorem. In short: work
  is not lost and not done twice (the outbox commits with the change, a completed event has its job,
  claims exclude each other, an ingest is idempotent, an accepted reply is not sent again, a mailbox is
  drained in order); workspaces stay apart (webhooks, conversations, channels, realtime rooms, downloads);
  access is exactly what the guards, signatures, tokens and signed links say; secrets are sealed and
  not shown; the adapters meet the inbound and outbound contracts; the stores of idempotency keys
  exclude and replay, and the memory store simulates the Redis one; statuses only move forward; and
  loops end. Where the code departs from its comments or from what it means to do, a lemma states
  what it does instead (for example \<open>retry_resends_sent\<close>, \<open>slug_hears_other_workspace\<close>).

  How state and effects are modelled. Services are functions on the database record that answer an error or a
  result with the new record. A transaction is a function that rolls back on an error. Concurrency is
  explicit: what other sessions do between two transactions, and the fault that aborts one, are
  arguments, and theorems quantify over them. Timers and interleavings that matter (idempotency stores,
  transports, polls, relay, hub) are step relations or lists of steps. Everything outside the
  repository is an argument: HMAC, AES-GCM, key derivation, SHA-256, providers, mail servers, DNS, URL and date
  parsers, the clock, generated ids. Hypotheses about them (for example that an opened seal is what was
  sealed) are premises of the theorems that need them, with a witness on a concrete instance.

  Bounds. Texts are lists of HOL characters, that is code units below 256, except in the preview engine, where they
  are lists of code points. Numbers of JSON are integers. Times are integers of milliseconds, days have
  24 hours. IPv4 addresses are 32-bit words, so that the masks of address ranges are the
  code's. Fuel is used where a text is consumed by a scanner that is not structurally recursive: \<open>JSON.parse\<close>
  with twice the length of the text plus two, since a call consumes a character or passes to a value of
  the same text, which the round trip of \<open>JsonText\<close> proves to suffice for every printed value; and the replacements and
  sentences of the preview engine with the length of the text, since every step consumes a character.
\<close>

text \<open>
  Not modelled. React components and pages, the query, store and session wrappers of the web client, and default
  texts of AI agents: presentation and library calls. The widget script, OpenAPI documents and seeds:
  data. NestJS modules, controllers and start-up: wiring of what is modelled; the permissions of routes
  are stated where a service depends on them. zod schemas and environment parsing: the schema
  library is not in the repository; the limits services rely on are stated with them. Loggers and Sentry: output
  only. Scripts that check a deployment. Of modelled parts, left out are: running and retrying a job
  inside BullMQ and pg-boss; the filtered conversation list with its text search; the capped reader
  of \<open>requestBinary\<close> (modelled in \<open>Providers\<close> for downloads, not in the HTTP client); columns and
  members that nobody reads.
\<close>

end
